(* ===== verification/Go_Prelude.thy ===== *)
theory Go_Prelude
  imports
    Main
    "HOL-Library.Word"
    "HOL-Library.AList"
    "HOL-Library.Multiset"
    "HOL-Library.Char_ord"
    "HOL-Library.List_Lexorder"
begin

text \<open>
  The vocabulary every component shares: Go's 64-bit integers, time instants, maps, strings,
  \<open>sort.Slice\<close> and the decimal formatting verbs, with the generic lemmas the components use.

  \<^item> \<open>int64\<close> values are integers; an addition that can leave the range is wrapped explicitly by
    \<open>wrap64\<close> (two's complement, shown equal to the 64-bit word operation).
  \<^item> \<open>time.Time\<close> is an instant in nanoseconds since the Unix epoch, in UTC; the zero value is
    \<open>zero_time\<close> (January 1, year 1).
  \<^item> a Go map is an association list. \<open>map_of\<close> reads it, \<open>AList.update\<close> writes it, and the order
    of the list is the (unspecified) order in which \<open>range\<close> visits it: a theorem about every
    list is a theorem about every iteration order.
  \<^item> a Go string is a \<open>string\<close>, a list of bytes.
\<close>

named_theorems go_defs \<open>definitions of small accessors that proofs unfold freely\<close>

subsection \<open>Machine integers\<close>

definition MaxInt64 :: int where
  "MaxInt64 = 9223372036854775807"

definition wrap64 :: "int \<Rightarrow> int" where
  "wrap64 x = (x + 9223372036854775808) mod 18446744073709551616 - 9223372036854775808"

definition in64 :: "int \<Rightarrow> bool" where
  "in64 x \<longleftrightarrow> - 9223372036854775808 \<le> x \<and> x \<le> 9223372036854775807"

lemma wrap64_id [simp]: "in64 x \<Longrightarrow> wrap64 x = x"
  by (simp add: in64_def wrap64_def mod_pos_pos_trivial)

lemma wrap64_in64 [simp]: "in64 (wrap64 x)"
proof -
  have "0 \<le> (x + 9223372036854775808) mod (18446744073709551616::int)"
    and "(x + 9223372036854775808) mod (18446744073709551616::int) < 18446744073709551616"
    by simp_all
  then show ?thesis unfolding in64_def wrap64_def by linarith
qed

lemma wrap64_cong:
  "wrap64 x = wrap64 y \<longleftrightarrow> x mod 18446744073709551616 = y mod 18446744073709551616"
proof -
  have "wrap64 x = wrap64 y \<longleftrightarrow>
    (x + 9223372036854775808) mod 18446744073709551616
      = (y + 9223372036854775808) mod 18446744073709551616"
    by (simp add: wrap64_def)
  also have "\<dots> \<longleftrightarrow> (18446744073709551616::int) dvd x - y"
    by (simp add: mod_eq_dvd_iff)
  finally show ?thesis by (simp add: mod_eq_dvd_iff)
qed

lemma wrap64_mod [simp]: "wrap64 x mod 18446744073709551616 = x mod 18446744073709551616"
  by (simp add: wrap64_def mod_simps)

lemma wrap64_add_left [simp]: "wrap64 (wrap64 x + y) = wrap64 (x + y)"
  unfolding wrap64_cong by (metis mod_add_left_eq wrap64_mod)

lemma wrap64_add_right [simp]: "wrap64 (x + wrap64 y) = wrap64 (x + y)"
  by (metis add.commute wrap64_add_left)

lemma wrap64_over:
  assumes "9223372036854775807 < x" and "x \<le> 18446744073709551614"
  shows "wrap64 x = x - 18446744073709551616"
proof -
  have "(x + 9223372036854775808) mod 18446744073709551616 = (x - 9223372036854775808) mod 18446744073709551616"
    by (simp add: mod_eq_dvd_iff)
  also have "\<dots> = x - 9223372036854775808" using assms by (intro mod_pos_pos_trivial) simp_all
  finally show ?thesis by (simp add: wrap64_def)
qed

text \<open>\<open>wrap64\<close> is the two's-complement reading of the 64-bit word.\<close>

lemma wrap64_word: "wrap64 x = sint (word_of_int x :: 64 word)"
  by (simp add: wrap64_def sint_sbintrunc' signed_take_bit_eq_take_bit_shift take_bit_eq_mod)

subsection \<open>Instants\<close>

type_synonym time = int

definition zero_time :: time where
  "zero_time = - 62135596800000000000"

definition dayNs :: int where
  "dayNs = 86400000000000"

text \<open>\<open>t.AddDate(0, 0, n)\<close> on a UTC instant.\<close>

definition AddDays :: "time \<Rightarrow> int \<Rightarrow> time" where
  "AddDays t n = t + n * dayNs"

text \<open>\<open>time.Unix(sec, 0)\<close>.\<close>

definition unixTime :: "int \<Rightarrow> time" where
  "unixTime s = s * 1000000000"

subsection \<open>Maps\<close>

type_synonym ('k, 'v) gomap = "('k \<times> 'v) list"

text \<open>\<open>m[k]\<close> with the zero value for an absent key.\<close>

definition mget :: "'v \<Rightarrow> ('k, 'v) gomap \<Rightarrow> 'k \<Rightarrow> 'v" where
  "mget z m k = (case map_of m k of None \<Rightarrow> z | Some v \<Rightarrow> v)"

abbreviation mstr :: "(string, string) gomap \<Rightarrow> string \<Rightarrow> string" where
  "mstr \<equiv> mget ''''"

abbreviation mset_key :: "'k \<Rightarrow> 'v \<Rightarrow> ('k, 'v) gomap \<Rightarrow> ('k, 'v) gomap" where
  "mset_key \<equiv> AList.update"

lemma mget_update [simp]: "mget z (AList.update k v m) k' = (if k' = k then v else mget z m k')"
  by (simp add: mget_def update_conv)

lemma mget_Nil [simp]: "mget z [] k = z"
  by (simp add: mget_def)

lemma map_of_update [simp]: "map_of (AList.update k v m) = (map_of m)(k \<mapsto> v)"
  by (simp add: update_conv')

lemma distinct_keys_update [simp]:
  "distinct (map fst m) \<Longrightarrow> distinct (map fst (AList.update k v m))"
  by (rule distinct_update)

subsection \<open>Strings\<close>

definition HasPrefix :: "string \<Rightarrow> string \<Rightarrow> bool" where
  "HasPrefix s p \<longleftrightarrow> take (length p) s = p"

definition TrimPrefix :: "string \<Rightarrow> string \<Rightarrow> string" where
  "TrimPrefix s p = (if HasPrefix s p then drop (length p) s else s)"

definition HasSuffix :: "string \<Rightarrow> string \<Rightarrow> bool" where
  "HasSuffix s p \<longleftrightarrow> length p \<le> length s \<and> drop (length s - length p) s = p"

definition TrimSuffix :: "string \<Rightarrow> string \<Rightarrow> string" where
  "TrimSuffix s p = (if HasSuffix s p then take (length s - length p) s else s)"

text \<open>Cutting a string at the first occurrence of a byte, the loop the sources write out.\<close>

fun cutAt :: "char \<Rightarrow> string \<Rightarrow> (string \<times> string) option" where
  "cutAt c [] = None"
| "cutAt c (x # xs) =
     (if x = c then Some ([], xs) else map_option (\<lambda>(a, b). (x # a, b)) (cutAt c xs))"

lemma HasPrefix_append [simp]: "HasPrefix (p @ s) p"
  by (simp add: HasPrefix_def)

lemma HasPrefix_iff: "HasPrefix s p \<longleftrightarrow> (\<exists>t. s = p @ t)"
  unfolding HasPrefix_def by (metis append_eq_conv_conj append_take_drop_id)

lemma TrimPrefix_append [simp]: "TrimPrefix (p @ s) p = s"
  by (simp add: TrimPrefix_def)

lemma HasSuffix_append [simp]: "HasSuffix (s @ p) p"
  by (simp add: HasSuffix_def)

lemma TrimSuffix_append [simp]: "TrimSuffix (s @ p) p = s"
  by (simp add: TrimSuffix_def)

lemma cutAt_None [simp]: "cutAt c s = None \<longleftrightarrow> c \<notin> set s"
  by (induction s) auto

lemma cutAt_SomeD: "cutAt c s = Some (a, b) \<Longrightarrow> s = a @ c # b \<and> c \<notin> set a"
  by (induction s arbitrary: a b) (auto split: if_splits)

lemma cutAt_append [simp]: "c \<notin> set a \<Longrightarrow> cutAt c (a @ c # b) = Some (a, b)"
  by (induction a) auto

text \<open>A separator that the first component cannot contain makes concatenation injective.\<close>

lemma sep_inj:
  fixes c :: char
  assumes "c \<notin> set a" and "c \<notin> set a'" and "a @ c # b = a' @ c # b'"
  shows "a = a' \<and> b = b'"
proof -
  have "Some (a, b) = cutAt c (a @ c # b)" using assms(1) by simp
  also have "\<dots> = cutAt c (a' @ c # b')" using assms(3) by simp
  also have "\<dots> = Some (a', b')" using assms(2) by simp
  finally show ?thesis by simp
qed

subsection \<open>Decimal formatting and parsing\<close>

definition digit :: "nat \<Rightarrow> char" where
  "digit n = char_of (48 + n mod 10 :: nat)"

fun showNat :: "nat \<Rightarrow> string" where
  "showNat n = (if n < 10 then [digit n] else showNat (n div 10) @ [digit n])"

declare showNat.simps [simp del]

text \<open>The verb \<open>%d\<close>.\<close>

definition showInt :: "int \<Rightarrow> string" where
  "showInt n = (if n < 0 then CHR ''-'' # showNat (nat (- n)) else showNat (nat n))"

text \<open>The verb \<open>%06d\<close> on a non-negative value.\<close>

definition showPad6 :: "int \<Rightarrow> string" where
  "showPad6 n = (let s = showNat (nat n) in replicate (6 - length s) CHR ''0'' @ s)"

definition isDigit :: "char \<Rightarrow> bool" where
  "isDigit c \<longleftrightarrow> 48 \<le> (of_char c :: nat) \<and> (of_char c :: nat) \<le> 57"

fun readDigits :: "nat \<Rightarrow> string \<Rightarrow> nat option" where
  "readDigits acc [] = Some acc"
| "readDigits acc (c # cs) =
     (if isDigit c then readDigits (10 * acc + (of_char c - 48)) cs else None)"

text \<open>\<open>strconv.ParseInt(s, 10, 64)\<close>: an optional sign, at least one digit, in range.\<close>

definition ParseInt :: "string \<Rightarrow> int option" where
  "ParseInt s =
     (let (neg, body) =
        (case s of [] \<Rightarrow> (False, [])
         | c # cs \<Rightarrow> if c = CHR ''-'' then (True, cs)
                      else if c = CHR ''+'' then (False, cs) else (False, s))
      in if body = [] then None
         else case readDigits 0 body of
           None \<Rightarrow> None
         | Some n \<Rightarrow> (let v = (if neg then - int n else int n) in if in64 v then Some v else None))"

lemma of_char_digit [simp]: "(of_char (digit n) :: nat) = 48 + n mod 10"
  by (simp add: digit_def)

lemma isDigit_digit [simp]: "isDigit (digit n)"
  by (simp add: isDigit_def)

lemma showNat_nonempty [simp]: "showNat n \<noteq> []"
  by (subst showNat.simps) simp

lemma showNat_digits: "c \<in> set (showNat n) \<Longrightarrow> isDigit c"
proof (induction n rule: showNat.induct)
  case (1 n)
  then show ?case by (subst (asm) (2) showNat.simps) (auto split: if_splits)
qed

lemma readDigits_append:
  "readDigits acc (xs @ ys) = Option.bind (readDigits acc xs) (\<lambda>a. readDigits a ys)"
  by (induction xs arbitrary: acc) auto

lemma readDigits_zeros [simp]: "readDigits 0 (replicate k CHR ''0'' @ s) = readDigits 0 s"
  by (induction k) (auto simp: isDigit_def)

lemma readDigits_digit [simp]: "readDigits a [digit n] = Some (10 * a + n mod 10)"
  by simp

lemma readDigits_showNat [simp]: "readDigits 0 (showNat n) = Some n"
proof (induction n rule: showNat.induct)
  case (1 n)
  show ?case
  proof (cases "n < 10")
    case True
    then show ?thesis by (subst showNat.simps) simp
  next
    case False
    with "1" have "readDigits 0 (showNat (n div 10)) = Some (n div 10)" by blast
    with False show ?thesis by (subst showNat.simps) (simp add: readDigits_append)
  qed
qed

lemma showNat_inj [simp]: "showNat m = showNat n \<longleftrightarrow> m = n"
  by (metis readDigits_showNat option.inject)

lemma showPad6_inj: "0 \<le> m \<Longrightarrow> 0 \<le> n \<Longrightarrow> showPad6 m = showPad6 n \<Longrightarrow> m = n"
  by (metis Let_def eq_nat_nat_iff option.inject readDigits_showNat readDigits_zeros showPad6_def)

subsection \<open>sort.Slice\<close>

text \<open>
  \<open>sort.Slice(xs, lt)\<close> as insertion sort, which is what the library runs on short slices. On
  longer ones it may order elements that \<open>lt\<close> does not distinguish differently; the theorems
  about sorted results speak of \<open>lt\<close> only.
\<close>

fun insert_by :: "('a \<Rightarrow> 'a \<Rightarrow> bool) \<Rightarrow> 'a \<Rightarrow> 'a list \<Rightarrow> 'a list" where
  "insert_by lt x [] = [x]"
| "insert_by lt x (y # ys) = (if lt y x then y # insert_by lt x ys else x # y # ys)"

definition sort_slice :: "('a \<Rightarrow> 'a \<Rightarrow> bool) \<Rightarrow> 'a list \<Rightarrow> 'a list" where
  "sort_slice lt xs = foldr (insert_by lt) xs []"

lemma sort_slice_simps [simp]:
  "sort_slice lt [] = []"
  "sort_slice lt (x # xs) = insert_by lt x (sort_slice lt xs)"
  by (simp_all add: sort_slice_def)

lemma mset_insert_by [simp]: "mset (insert_by lt x xs) = add_mset x (mset xs)"
  by (induction xs) auto

lemma mset_sort_slice [simp]: "mset (sort_slice lt xs) = mset xs"
  by (induction xs) auto

lemma set_insert_by [simp]: "set (insert_by lt x xs) = insert x (set xs)"
  by (induction xs) auto

lemma set_sort_slice [simp]: "set (sort_slice lt xs) = set xs"
  by (metis mset_eq_setD mset_sort_slice)

lemma length_sort_slice [simp]: "length (sort_slice lt xs) = length xs"
  by (metis mset_sort_slice size_mset)

lemma distinct_sort_slice [simp]:
  "distinct (map f (sort_slice lt xs)) \<longleftrightarrow> distinct (map f xs)"
  using mset_eq_imp_distinct_iff [of "map f (sort_slice lt xs)" "map f xs"] by simp

text \<open>The contract of a comparator: \<open>lt\<close> is a strict weak order.\<close>

locale slice_order =
  fixes lt :: "'a \<Rightarrow> 'a \<Rightarrow> bool"
  assumes asym: "lt x y \<Longrightarrow> \<not> lt y x"
    and neg_trans: "\<not> lt x y \<Longrightarrow> \<not> lt y z \<Longrightarrow> \<not> lt x z"
begin

lemma sorted_insert_by:
  "sorted_wrt (\<lambda>a b. \<not> lt b a) xs \<Longrightarrow> sorted_wrt (\<lambda>a b. \<not> lt b a) (insert_by lt x xs)"
  by (induction xs) (auto dest: asym neg_trans)

lemma sorted_sort_slice: "sorted_wrt (\<lambda>a b. \<not> lt b a) (sort_slice lt xs)"
  by (induction xs) (auto intro: sorted_insert_by)

end

text \<open>Ordering by a key in a linear order is such a comparator.\<close>

lemma slice_order_key: "slice_order (\<lambda>x y. (f x :: 'b :: linorder) < f y)"
  by unfold_locales auto

subsection \<open>Lists\<close>

lemma sum_list_update:
  fixes f :: "'a \<Rightarrow> int"
  shows "i < length xs \<Longrightarrow>
    sum_list (map f (xs[i := y])) = sum_list (map f xs) - f (xs ! i) + f y"
  by (induction xs arbitrary: i) (auto split: nat.split)

lemma sum_list_filter_le:
  fixes f :: "'a \<Rightarrow> int"
  shows "(\<And>x. x \<in> set xs \<Longrightarrow> 0 \<le> f x) \<Longrightarrow>
    sum_list (map f (filter P xs)) \<le> sum_list (map f xs)"
  by (induction xs) (auto simp: add_increasing)

lemma sum_list_nonneg_int: "(\<And>x. x \<in> set xs \<Longrightarrow> 0 \<le> (f x :: int)) \<Longrightarrow> 0 \<le> sum_list (map f xs)"
  by (induction xs) auto

end
