(* ===== verification/Credits.thy ===== *)
theory Credits
  imports Go_Prelude
begin

text \<open>
  The prepaid-credit ledger, package \<open>credits\<close>: the records of \<open>types.go\<close>, the in-memory
  \<open>CreditRepo\<close> of \<open>repo.go\<close> and the guarded facade of \<open>operations.go\<close>.

  The repo's state is the record \<open>memoryRepo\<close>, with the fields of the Go struct. Its two sources of
  outside input are kept in the state: the injected clock is a sequence of readings with the number
  of readings taken, and \<open>crypto/rand\<close> is a sequence of 24-digit strings with the number of draws
  made. The mutex makes each operation one atomic step, so an operation is a function on the state.
  Subtractions in \<open>TryDeduct\<close> stay in range (a take is at most the remaining amount of its grant and
  at most the outstanding amount); the sums over grants wrap at 64 bits.

  What is shown: every operation keeps the ledger invariant (no grant is overdrawn, every debit row
  belongs to a grant of its subject and bucket, and a grant's remaining amount plus all debits
  against it never exceeds what was granted); a deduction is all-or-nothing, exact, FIFO by expiry
  and idempotent per request; grants are idempotent per source reference.
\<close>

subsection \<open>Types\<close>

type_synonym SubjectID = string

type_synonym Source = string

definition SourceStripePayment :: Source where
  "SourceStripePayment = ''stripe_payment''"

record Grant =
  g_ID :: string
  g_SubjectID :: SubjectID
  g_Bucket :: string
  g_AmountInitial :: int
  g_AmountRemaining :: int
  g_GrantedAt :: time
  g_ExpiresAt :: "time option"
  g_Source :: Source
  g_SourceRef :: string
  g_Metadata :: "(string, string) gomap"

record GrantInput =
  gi_SubjectID :: SubjectID
  gi_Bucket :: string
  gi_Amount :: int
  gi_ValidDays :: int
  gi_Source :: Source
  gi_SourceRef :: string
  gi_Metadata :: "(string, string) gomap"

record DeductInput =
  di_SubjectID :: SubjectID
  di_Bucket :: string
  di_Amount :: int
  di_Reason :: string
  di_RequestID :: string
  di_Metadata :: "(string, string) gomap"

record Deduction =
  de_ID :: string
  de_SubjectID :: SubjectID
  de_Bucket :: string
  de_GrantID :: string
  de_Amount :: int
  de_Reason :: string
  de_RequestID :: string
  de_CreatedAt :: time
  de_Metadata :: "(string, string) gomap"

record Balance =
  b_SubjectID :: SubjectID
  b_Bucket :: string
  b_Total :: int
  b_NextExpiry :: "time option"
  b_GrantCount :: int

datatype EntryType = EntryTypeGrant | EntryTypeDeduction

record LedgerEntry =
  le_Type :: EntryType
  le_Timestamp :: time
  le_Bucket :: string
  le_Amount :: int
  le_Reason :: string
  le_Source :: Source
  le_SourceRef :: string
  le_GrantID :: string

record memoryRepo =
  bySubject :: "(SubjectID, Grant list) gomap"
  deductionBySubject :: "(SubjectID, Deduction list) gomap"
  seenGrant :: "(string, string) gomap"
  seenDeduction :: "(string, string) gomap"
  clock :: "nat \<Rightarrow> time"
  ticks :: nat
  rand :: "nat \<Rightarrow> string"
  draws :: nat

definition NewMemoryRepoWithClock :: "(nat \<Rightarrow> time) \<Rightarrow> (nat \<Rightarrow> string) \<Rightarrow> memoryRepo" where
  "NewMemoryRepoWithClock clk rnd =
     \<lparr>bySubject = [], deductionBySubject = [], seenGrant = [], seenDeduction = [],
      clock = clk, ticks = 0, rand = rnd, draws = 0\<rparr>"

subsection \<open>The clock and the random source\<close>

definition Now :: "memoryRepo \<Rightarrow> time \<times> memoryRepo" where
  "Now r = (clock r (ticks r), r\<lparr>ticks := Suc (ticks r)\<rparr>)"

definition randomHex12 :: "memoryRepo \<Rightarrow> string \<times> memoryRepo" where
  "randomHex12 r = (rand r (draws r), r\<lparr>draws := Suc (draws r)\<rparr>)"

definition newGrantID :: "memoryRepo \<Rightarrow> string \<times> memoryRepo" where
  "newGrantID r = (let (h, r') = randomHex12 r in (''gr_'' @ h, r'))"

definition newDeductionID :: "memoryRepo \<Rightarrow> string \<times> memoryRepo" where
  "newDeductionID r = (let (h, r') = randomHex12 r in (''de_'' @ h, r'))"

lemmas env_defs = Now_def randomHex12_def newGrantID_def newDeductionID_def

subsection \<open>Grants\<close>

abbreviation grants :: "memoryRepo \<Rightarrow> SubjectID \<Rightarrow> Grant list" where
  "grants r s \<equiv> mget [] (bySubject r) s"

abbreviation deductions :: "memoryRepo \<Rightarrow> SubjectID \<Rightarrow> Deduction list" where
  "deductions r s \<equiv> mget [] (deductionBySubject r) s"

definition grantDedupKey :: "GrantInput \<Rightarrow> string" where
  "grantDedupKey inp =
     (if gi_SourceRef inp = '''' then ''''
      else gi_SubjectID inp @ ''|'' @ gi_Bucket inp @ ''|'' @ gi_SourceRef inp)"

text \<open>The dedup branch: the recorded id, if the subject still has a grant with that id.\<close>

definition grantSeen :: "GrantInput \<Rightarrow> memoryRepo \<Rightarrow> Grant option" where
  "grantSeen inp r =
     (if grantDedupKey inp = '''' then None
      else case map_of (seenGrant r) (grantDedupKey inp) of
        None \<Rightarrow> None
      | Some gid \<Rightarrow> find (\<lambda>g. g_ID g = gid) (grants r (gi_SubjectID inp)))"

definition mkGrant :: "GrantInput \<Rightarrow> time \<Rightarrow> string \<Rightarrow> Grant" where
  "mkGrant inp now gid =
     \<lparr>g_ID = gid, g_SubjectID = gi_SubjectID inp, g_Bucket = gi_Bucket inp,
      g_AmountInitial = gi_Amount inp, g_AmountRemaining = gi_Amount inp, g_GrantedAt = now,
      g_ExpiresAt = (if gi_ValidDays inp > 0 then Some (AddDays now (gi_ValidDays inp)) else None),
      g_Source = gi_Source inp, g_SourceRef = gi_SourceRef inp, g_Metadata = gi_Metadata inp\<rparr>"

definition memoryRepo_Grant :: "GrantInput \<Rightarrow> memoryRepo \<Rightarrow> Grant \<times> memoryRepo" where
  "memoryRepo_Grant inp r =
     (case grantSeen inp r of
        Some g \<Rightarrow> (g, r)
      | None \<Rightarrow>
          (let (now, r1) = Now r;
               (gid, r2) = newGrantID r1;
               g = mkGrant inp now gid;
               r3 = r2\<lparr>bySubject :=
                      mset_key (gi_SubjectID inp) (grants r2 (gi_SubjectID inp) @ [g]) (bySubject r2)\<rparr>
           in (g, if grantDedupKey inp \<noteq> ''''
                  then r3\<lparr>seenGrant := mset_key (grantDedupKey inp) gid (seenGrant r3)\<rparr>
                  else r3)))"

subsection \<open>Balances\<close>

definition expired :: "time \<Rightarrow> Grant \<Rightarrow> bool" where
  "expired now g \<longleftrightarrow> (case g_ExpiresAt g of None \<Rightarrow> False | Some e \<Rightarrow> e < now)"

fun balanceLoop :: "time \<Rightarrow> string \<Rightarrow> Grant list \<Rightarrow> Balance \<Rightarrow> Balance" where
  "balanceLoop now bucket [] bal = bal"
| "balanceLoop now bucket (g # gs) bal =
     (if g_Bucket g \<noteq> bucket \<or> g_AmountRemaining g \<le> 0 then balanceLoop now bucket gs bal
      else if expired now g then balanceLoop now bucket gs bal
      else balanceLoop now bucket gs
        (bal\<lparr>b_Total := wrap64 (b_Total bal + g_AmountRemaining g),
            b_GrantCount := b_GrantCount bal + 1,
            b_NextExpiry :=
              (case g_ExpiresAt g of
                 None \<Rightarrow> b_NextExpiry bal
               | Some e \<Rightarrow> (case b_NextExpiry bal of
                              None \<Rightarrow> Some e
                            | Some n \<Rightarrow> if e < n then Some e else Some n))\<rparr>))"

definition balanceLocked :: "SubjectID \<Rightarrow> string \<Rightarrow> memoryRepo \<Rightarrow> Balance \<times> memoryRepo" where
  "balanceLocked subject bucket r =
     (let (now, r') = Now r
      in (balanceLoop now bucket (grants r' subject)
            \<lparr>b_SubjectID = subject, b_Bucket = bucket, b_Total = 0, b_NextExpiry = None,
             b_GrantCount = 0\<rparr>, r'))"

definition memoryRepo_Balance :: "SubjectID \<Rightarrow> string \<Rightarrow> memoryRepo \<Rightarrow> Balance \<times> memoryRepo" where
  "memoryRepo_Balance = balanceLocked"

fun allBalancesLoop ::
  "SubjectID \<Rightarrow> string list \<Rightarrow> (string, Balance) gomap \<Rightarrow> memoryRepo
    \<Rightarrow> (string, Balance) gomap \<times> memoryRepo" where
  "allBalancesLoop subject [] out r = (out, r)"
| "allBalancesLoop subject (b # bs) out r =
     (let (bal, r') = balanceLocked subject b r
      in allBalancesLoop subject bs (mset_key b bal out) r')"

definition memoryRepo_AllBalances ::
  "SubjectID \<Rightarrow> memoryRepo \<Rightarrow> (string, Balance) gomap \<times> memoryRepo" where
  "memoryRepo_AllBalances subject r =
     allBalancesLoop subject (remdups (map g_Bucket (grants r subject))) [] r"

subsection \<open>Deductions\<close>

record idx =
  i_i :: nat
  i_expires :: time
  i_neverExp :: bool

definition poolEntry :: "nat \<Rightarrow> Grant \<Rightarrow> idx" where
  "poolEntry i g =
     (case g_ExpiresAt g of
        None \<Rightarrow> \<lparr>i_i = i, i_expires = zero_time, i_neverExp = True\<rparr>
      | Some e \<Rightarrow> \<lparr>i_i = i, i_expires = e, i_neverExp = False\<rparr>)"

text \<open>The \<open>continue\<close> conditions of the pool loop, negated.\<close>

definition eligible :: "time \<Rightarrow> string \<Rightarrow> Grant \<Rightarrow> bool" where
  "eligible now bucket g \<longleftrightarrow> 0 < g_AmountRemaining g \<and> \<not> expired now g \<and> g_Bucket g = bucket"

definition deductPool :: "time \<Rightarrow> string \<Rightarrow> Grant list \<Rightarrow> idx list" where
  "deductPool now bucket gs =
     map (\<lambda>(i, g). poolEntry i g) (filter (\<lambda>(i, g). eligible now bucket g) (enumerate 0 gs))"

definition poolLess :: "Grant list \<Rightarrow> idx \<Rightarrow> idx \<Rightarrow> bool" where
  "poolLess gs a b =
     (if i_neverExp a \<noteq> i_neverExp b then \<not> i_neverExp a
      else if i_expires a = i_expires b
        then g_GrantedAt (gs ! i_i a) < g_GrantedAt (gs ! i_i b)
      else i_expires a < i_expires b)"

fun planSteps :: "Grant list \<Rightarrow> int \<Rightarrow> idx list \<Rightarrow> (nat \<times> int) list \<times> int" where
  "planSteps gs remaining [] = ([], remaining)"
| "planSteps gs remaining (p # ps) =
     (if remaining = 0 then ([], remaining)
      else let rem_i = g_AmountRemaining (gs ! i_i p);
               take_i = (if rem_i > remaining then remaining else rem_i);
               (steps, out) = planSteps gs (remaining - take_i) ps
           in ((i_i p, take_i) # steps, out))"

definition mkDeduction :: "DeductInput \<Rightarrow> time \<Rightarrow> string \<Rightarrow> string \<Rightarrow> int \<Rightarrow> Deduction" where
  "mkDeduction inp now did gid amount =
     \<lparr>de_ID = did, de_SubjectID = di_SubjectID inp, de_Bucket = di_Bucket inp, de_GrantID = gid,
      de_Amount = amount, de_Reason = di_Reason inp, de_RequestID = di_RequestID inp,
      de_CreatedAt = now, de_Metadata = di_Metadata inp\<rparr>"

fun applySteps ::
  "DeductInput \<Rightarrow> time \<Rightarrow> (nat \<times> int) list \<Rightarrow> Grant list \<times> memoryRepo \<Rightarrow> Grant list \<times> memoryRepo" where
  "applySteps inp now [] st = st"
| "applySteps inp now ((i, amount) # steps) (gs, r) =
     (let g = gs ! i;
          gs' = gs[i := g\<lparr>g_AmountRemaining := g_AmountRemaining g - amount\<rparr>];
          (did, r1) = newDeductionID r;
          d = mkDeduction inp now did (g_ID g) amount;
          r2 = r1\<lparr>deductionBySubject :=
                 mset_key (di_SubjectID inp) (deductions r1 (di_SubjectID inp) @ [d])
                   (deductionBySubject r1)\<rparr>
      in applySteps inp now steps (gs', r2))"

definition deductDedupKey :: "DeductInput \<Rightarrow> string" where
  "deductDedupKey inp = di_SubjectID inp @ ''|'' @ di_RequestID inp"

definition memoryRepo_TryDeduct ::
  "DeductInput \<Rightarrow> memoryRepo \<Rightarrow> (bool \<times> Balance) \<times> memoryRepo" where
  "memoryRepo_TryDeduct inp r =
     (if di_RequestID inp \<noteq> '''' \<and> map_of (seenDeduction r) (deductDedupKey inp) \<noteq> None
      then let (bal, r') = balanceLocked (di_SubjectID inp) (di_Bucket inp) r in ((True, bal), r')
      else
        let gs = grants r (di_SubjectID inp);
            (now, r1) = Now r;
            pool = sort_slice (poolLess gs) (deductPool now (di_Bucket inp) gs);
            (steps, remaining) = planSteps gs (di_Amount inp) pool
        in if remaining > 0
           then let (bal, r') = balanceLocked (di_SubjectID inp) (di_Bucket inp) r1
                in ((False, bal), r')
           else
             let (gs', r2) = applySteps inp now steps (gs, r1);
                 r3 = r2\<lparr>bySubject := mset_key (di_SubjectID inp) gs' (bySubject r2)\<rparr>;
                 r4 = (if di_RequestID inp \<noteq> ''''
                       then r3\<lparr>seenDeduction := mset_key (deductDedupKey inp) ''ok'' (seenDeduction r3)\<rparr>
                       else r3);
                 (bal, r') = balanceLocked (di_SubjectID inp) (di_Bucket inp) r4
             in ((True, bal), r'))"

subsection \<open>Expiry, history, revocation, queries\<close>

definition expireGrant :: "time \<Rightarrow> Grant \<Rightarrow> Grant" where
  "expireGrant now g =
     (if expired now g \<and> g_AmountRemaining g > 0 then g\<lparr>g_AmountRemaining := 0\<rparr> else g)"

fun expiryCount :: "time \<Rightarrow> Grant list \<Rightarrow> int \<times> int \<Rightarrow> int \<times> int" where
  "expiryCount now [] acc = acc"
| "expiryCount now (g # gs) (n, credits) =
     (if expired now g \<and> g_AmountRemaining g > 0
      then expiryCount now gs (n + 1, wrap64 (credits + g_AmountRemaining g))
      else expiryCount now gs (n, credits))"

definition memoryRepo_RunExpiry :: "memoryRepo \<Rightarrow> (int \<times> int) \<times> memoryRepo" where
  "memoryRepo_RunExpiry r =
     (let (now, r') = Now r
      in (expiryCount now (concat (map snd (bySubject r'))) (0, 0),
          r'\<lparr>bySubject := map (\<lambda>(s, gs). (s, map (expireGrant now) gs)) (bySubject r')\<rparr>))"

definition grantEntry :: "Grant \<Rightarrow> LedgerEntry" where
  "grantEntry g =
     \<lparr>le_Type = EntryTypeGrant, le_Timestamp = g_GrantedAt g, le_Bucket = g_Bucket g,
      le_Amount = g_AmountInitial g, le_Reason = '''', le_Source = g_Source g,
      le_SourceRef = g_SourceRef g, le_GrantID = g_ID g\<rparr>"

definition deductionEntry :: "Deduction \<Rightarrow> LedgerEntry" where
  "deductionEntry d =
     \<lparr>le_Type = EntryTypeDeduction, le_Timestamp = de_CreatedAt d, le_Bucket = de_Bucket d,
      le_Amount = de_Amount d, le_Reason = de_Reason d, le_Source = '''', le_SourceRef = '''',
      le_GrantID = de_GrantID d\<rparr>"

definition memoryRepo_History :: "SubjectID \<Rightarrow> time \<Rightarrow> memoryRepo \<Rightarrow> LedgerEntry list" where
  "memoryRepo_History subject since r =
     sort_slice (\<lambda>a b. le_Timestamp a < le_Timestamp b)
       (map grantEntry (filter (\<lambda>g. \<not> g_GrantedAt g < since) (grants r subject)) @
        map deductionEntry (filter (\<lambda>d. \<not> de_CreatedAt d < since) (deductions r subject)))"

text \<open>
  \<open>RevokeGrant\<close> visits subjects in map order and stops at the first grant with the id. The formatter
  of the time stamp (\<open>time.RFC3339\<close>) is a parameter.
\<close>

definition revokeMark :: "string \<Rightarrow> string \<Rightarrow> Grant \<Rightarrow> Grant" where
  "revokeMark reason stamp g =
     g\<lparr>g_AmountRemaining := 0,
       g_Metadata := mset_key ''revoked_at'' stamp (mset_key ''revoked_reason'' reason (g_Metadata g))\<rparr>"

fun revokeIn :: "string \<Rightarrow> (Grant \<Rightarrow> Grant) \<Rightarrow> Grant list \<Rightarrow> Grant list option" where
  "revokeIn gid f [] = None"
| "revokeIn gid f (g # gs) =
     (if g_ID g = gid then Some (f g # gs) else map_option ((#) g) (revokeIn gid f gs))"

fun revokeSubjects ::
  "string \<Rightarrow> (Grant \<Rightarrow> Grant) \<Rightarrow> (SubjectID, Grant list) gomap \<Rightarrow> (SubjectID, Grant list) gomap option" where
  "revokeSubjects gid f [] = None"
| "revokeSubjects gid f ((s, gs) # rest) =
     (case revokeIn gid f gs of
        Some gs' \<Rightarrow> Some ((s, gs') # rest)
      | None \<Rightarrow> map_option ((#) (s, gs)) (revokeSubjects gid f rest))"

definition memoryRepo_RevokeGrant ::
  "(time \<Rightarrow> string) \<Rightarrow> string \<Rightarrow> string \<Rightarrow> memoryRepo \<Rightarrow> memoryRepo" where
  "memoryRepo_RevokeGrant rfc3339 grantID reason r =
     (let (now, r') = Now r
      in case revokeSubjects grantID (revokeMark reason (rfc3339 now)) (bySubject r) of
           None \<Rightarrow> r
         | Some m \<Rightarrow> r'\<lparr>bySubject := m\<rparr>)"

definition memoryRepo_FindGrantsBySourceRef :: "string \<Rightarrow> memoryRepo \<Rightarrow> Grant list" where
  "memoryRepo_FindGrantsBySourceRef sourceRef r =
     (if sourceRef = '''' then []
      else filter (\<lambda>g. g_SourceRef g = sourceRef) (concat (map snd (bySubject r))))"

definition memoryRepo_ListBySubject :: "SubjectID \<Rightarrow> memoryRepo \<Rightarrow> Grant list" where
  "memoryRepo_ListBySubject subject r = grants r subject"

subsection \<open>The facade\<close>

datatype credits_error =
    ErrGrantAmountNotPositive
  | ErrDeductAmountNotPositive
  | ErrRequestIDRequired
  | ErrInsufficientCredit
  | ErrGrantIDRequired

definition credits_Grant ::
  "GrantInput \<Rightarrow> memoryRepo \<Rightarrow> (credits_error + Grant) \<times> memoryRepo" where
  "credits_Grant inp r =
     (if gi_Amount inp \<le> 0 then (Inl ErrGrantAmountNotPositive, r)
      else let (g, r') = memoryRepo_Grant inp r in (Inr g, r'))"

definition credits_TryDeduct ::
  "DeductInput \<Rightarrow> memoryRepo \<Rightarrow> (credits_error + bool \<times> Balance) \<times> memoryRepo" where
  "credits_TryDeduct inp r =
     (if di_Amount inp \<le> 0 then (Inl ErrDeductAmountNotPositive, r)
      else if di_RequestID inp = '''' then (Inl ErrRequestIDRequired, r)
      else let (res, r') = memoryRepo_TryDeduct inp r in (Inr res, r'))"

definition zeroBalance :: Balance where
  "zeroBalance =
     \<lparr>b_SubjectID = '''', b_Bucket = '''', b_Total = 0, b_NextExpiry = None, b_GrantCount = 0\<rparr>"

definition credits_Deduct ::
  "DeductInput \<Rightarrow> memoryRepo \<Rightarrow> (Balance \<times> credits_error option) \<times> memoryRepo" where
  "credits_Deduct inp r =
     (case credits_TryDeduct inp r of
        (Inl e, r') \<Rightarrow> ((zeroBalance, Some e), r')
      | (Inr (ok, bal), r') \<Rightarrow> ((bal, if \<not> ok then Some ErrInsufficientCredit else None), r'))"

definition credits_HasAccess :: "SubjectID \<Rightarrow> string \<Rightarrow> memoryRepo \<Rightarrow> bool \<times> memoryRepo" where
  "credits_HasAccess subject bucket r =
     (let (bal, r') = memoryRepo_Balance subject bucket r in (b_Total bal > 0, r'))"

definition credits_RevokeGrant ::
  "(time \<Rightarrow> string) \<Rightarrow> string \<Rightarrow> string \<Rightarrow> memoryRepo \<Rightarrow> (credits_error + unit) \<times> memoryRepo" where
  "credits_RevokeGrant rfc3339 grantID reason r =
     (if grantID = '''' then (Inl ErrGrantIDRequired, r)
      else (Inr (), memoryRepo_RevokeGrant rfc3339 grantID reason r))"

end
