(* ===== verification/Credits_Ledger.thy ===== *)
theory Credits_Ledger
  imports Credits
begin

text \<open>
  The proofs about the in-memory credit ledger of \<open>Credits\<close>.

  \<^item> The pool of a deduction is sorted by the source's comparator, and the plan drawn from it is exact
    and drains each grant before it touches the next.
  \<^item> The ledger invariant \<open>ledger_inv\<close>: subjects own their rows, grant ids are distinct, what a grant
    has left plus all debits against it is at most what was granted, and every debit row names a grant
    of its subject and bucket. Every operation keeps it.
  \<^item> Runs: \<open>ledger_step\<close> is one facade call, \<open>ledger_reachable\<close> a ledger some run builds.
  \<^item> The dedup index: as long as no subject and no bucket contains a bar, a source reference is
    credited once, whatever happened in between.
\<close>


subsection \<open>The pool and its order\<close>

lemma expired_simps [simp]:
  "expired now (g\<lparr>g_AmountRemaining := x\<rparr>) = expired now g"
  "expired now (g\<lparr>g_Metadata := m\<rparr>) = expired now g"
  by (simp_all add: expired_def)

lemma poolEntry_i [simp]: "i_i (poolEntry i g) = i"
  by (simp add: poolEntry_def split: option.split)

interpretation pool_order: slice_order "poolLess gs" for gs
  by unfold_locales (auto simp: poolLess_def split: if_splits)

interpretation history_order: slice_order "\<lambda>a b. le_Timestamp a < le_Timestamp b"
  by (rule slice_order_key)

lemma sorted_pool:
  "sorted_wrt (\<lambda>a b. \<not> poolLess gs b a) (sort_slice (poolLess gs) xs)"
  by (rule pool_order.sorted_sort_slice)

lemma set_deductPool:
  "set (deductPool now b gs) =
     {poolEntry i (gs ! i) | i. i < length gs \<and> eligible now b (gs ! i)}"
  by (force simp: deductPool_def in_set_enumerate_eq)

lemma deductPool_indices:
  "map i_i (deductPool now b gs) = filter (\<lambda>i. eligible now b (gs ! i)) [0..<length gs]"
proof -
  have "enumerate 0 gs = map (\<lambda>i. (i, gs ! i)) [0..<length gs]"
    by (rule nth_equalityI) (simp_all add: nth_enumerate_eq)
  then show ?thesis by (simp add: deductPool_def filter_map comp_def)
qed

definition pool :: "time \<Rightarrow> string \<Rightarrow> Grant list \<Rightarrow> idx list" where
  "pool now b gs = sort_slice (poolLess gs) (deductPool now b gs)"

lemma distinct_pool: "distinct (map i_i (pool now b gs))"
  by (simp add: pool_def deductPool_indices)

lemma pool_memD:
  assumes "p \<in> set (pool now b gs)"
  shows "i_i p < length gs \<and> eligible now b (gs ! i_i p) \<and> p = poolEntry (i_i p) (gs ! i_i p)"
  using assms by (auto simp: pool_def set_deductPool)

lemma pool_memI:
  "i < length gs \<Longrightarrow> eligible now b (gs ! i) \<Longrightarrow> poolEntry i (gs ! i) \<in> set (pool now b gs)"
  by (auto simp: pool_def set_deductPool)

text \<open>The credit a request can draw on: what the eligible grants have left.\<close>

definition available :: "time \<Rightarrow> string \<Rightarrow> Grant list \<Rightarrow> int" where
  "available now b gs = sum_list (map g_AmountRemaining (filter (eligible now b) gs))"

lemma pool_total: "sum_list (map (\<lambda>p. g_AmountRemaining (gs ! i_i p)) (pool now b gs)) = available now b gs"
proof -
  have "sum_list (map (\<lambda>p. g_AmountRemaining (gs ! i_i p)) (pool now b gs))
      = sum_list (map (\<lambda>p. g_AmountRemaining (gs ! i_i p)) (deductPool now b gs))"
    by (simp add: pool_def flip: sum_mset_sum_list)
  also have "\<dots> = sum_list (map (\<lambda>i. g_AmountRemaining (gs ! i)) (map i_i (deductPool now b gs)))"
    by (simp add: comp_def)
  also have "\<dots> = sum_list (map g_AmountRemaining (filter (eligible now b) (map ((!) gs) [0..<length gs])))"
    by (simp add: deductPool_indices filter_map comp_def)
  finally show ?thesis by (simp add: available_def map_nth)
qed

subsection \<open>The plan\<close>

definition taken :: "(nat \<times> int) list \<Rightarrow> nat \<Rightarrow> int" where
  "taken steps j = sum_list (map snd (filter (\<lambda>(i, _). i = j) steps))"

lemma taken_simps [simp]:
  "taken [] j = 0"
  "taken ((i, t) # steps) j = (if i = j then t else 0) + taken steps j"
  by (simp_all add: taken_def)

lemma taken_absent: "j \<notin> fst ` set steps \<Longrightarrow> taken steps j = 0"
  by (induction steps) auto

lemma plan_indices: "planSteps gs amt ps = (steps, out) \<Longrightarrow> fst ` set steps \<subseteq> i_i ` set ps"
  by (induction gs amt ps arbitrary: steps out rule: planSteps.induct)
     (fastforce simp: Let_def split: if_splits prod.splits)+

lemma plan_distinct:
  "planSteps gs amt ps = (steps, out) \<Longrightarrow> distinct (map i_i ps) \<Longrightarrow> distinct (map fst steps)"
proof (induction gs amt ps arbitrary: steps out rule: planSteps.induct)
  case (2 gs amt p ps)
  then show ?case
    using plan_indices by (fastforce simp: Let_def split: if_splits prod.splits)
qed auto

text \<open>The plan takes a positive part of each chosen grant, covers the amount up to \<open>out\<close>, and
  leaves something uncovered exactly when the whole pool is too small.\<close>

lemma plan_spec:
  assumes "planSteps gs amt ps = (steps, out)" and "0 < amt \<or> 0 \<le> amt"
    and "\<forall>p \<in> set ps. 0 < g_AmountRemaining (gs ! i_i p)"
  shows "(\<forall>(i, t) \<in> set steps. 0 < t \<and> t \<le> g_AmountRemaining (gs ! i)) \<and>
    sum_list (map snd steps) + out = amt \<and> 0 \<le> out \<and>
    (0 < out \<longleftrightarrow> sum_list (map (\<lambda>p. g_AmountRemaining (gs ! i_i p)) ps) < amt)"
  using assms
proof (induction gs amt ps arbitrary: steps out rule: planSteps.induct)
  case (1 gs amt)
  then show ?case by auto
next
  case (2 gs amt p ps)
  have nn: "0 \<le> sum_list (map (\<lambda>p. g_AmountRemaining (gs ! i_i p)) ps)"
    using "2.prems"(3) by (intro sum_list_nonneg_int) (auto simp: less_imp_le)
  show ?case
  proof (cases "amt = 0")
    case True
    with "2.prems" nn show ?thesis by auto
  next
    case False
    define t where "t = (if g_AmountRemaining (gs ! i_i p) > amt then amt else g_AmountRemaining (gs ! i_i p))"
    obtain ss o' where rec: "planSteps gs (amt - t) ps = (ss, o')" by fastforce
    with "2.prems"(1) False have eqs: "steps = (i_i p, t) # ss" "out = o'"
      by (auto simp: t_def Let_def)
    have t: "0 < t" "t \<le> g_AmountRemaining (gs ! i_i p)" "t \<le> amt"
      using "2.prems" False by (auto simp: t_def)
    have "0 < amt - t \<or> 0 \<le> amt - t" using t by simp
    with "2.IH" [OF False refl refl] rec "2.prems"(3) t_def
    have IH: "(\<forall>(i, t) \<in> set ss. 0 < t \<and> t \<le> g_AmountRemaining (gs ! i)) \<and>
      sum_list (map snd ss) + o' = amt - t \<and> 0 \<le> o' \<and>
      (0 < o' \<longleftrightarrow> sum_list (map (\<lambda>p. g_AmountRemaining (gs ! i_i p)) ps) < amt - t)"
      by (auto simp: Let_def)
    have "t = g_AmountRemaining (gs ! i_i p) \<or> t = amt" by (simp add: t_def)
    with IH t nn show ?thesis by (auto simp: eqs)
  qed
qed

text \<open>FIFO: a grant is drawn on only when everything before it in the pool is drained.\<close>

lemma plan_fifo:
  assumes "planSteps gs amt ps = (steps, out)" and "0 \<le> amt"
    and "\<forall>p \<in> set ps. 0 < g_AmountRemaining (gs ! i_i p)" and "distinct (map i_i ps)"
  shows "sorted_wrt (\<lambda>a b. 0 < taken steps (i_i b) \<longrightarrow>
    taken steps (i_i a) = g_AmountRemaining (gs ! i_i a)) ps"
  using assms
proof (induction gs amt ps arbitrary: steps out rule: planSteps.induct)
  case (2 gs amt p ps)
  show ?case
  proof (cases "amt = 0")
    case True
    with "2.prems" show ?thesis by (simp add: sorted_wrt_iff_nth_less)
  next
    case False
    define t where "t = (if g_AmountRemaining (gs ! i_i p) > amt then amt else g_AmountRemaining (gs ! i_i p))"
    obtain ss o' where rec: "planSteps gs (amt - t) ps = (ss, o')" by fastforce
    with "2.prems"(1) False have st: "steps = (i_i p, t) # ss"
      by (auto simp: t_def Let_def)
    have p: "i_i p \<notin> i_i ` set ps" using "2.prems"(4) by simp
    then have tp: "taken ss (i_i p) = 0"
      using plan_indices [OF rec] by (auto intro: taken_absent)
    have IH: "sorted_wrt (\<lambda>a b. 0 < taken ss (i_i b) \<longrightarrow>
      taken ss (i_i a) = g_AmountRemaining (gs ! i_i a)) ps"
      using "2.IH" [OF False refl refl] rec "2.prems"(2-4) t_def by (auto simp: Let_def)
    have same: "taken steps (i_i q) = taken ss (i_i q)" if "q \<in> set ps" for q
      using p that by (auto simp: st)
    then have tail: "sorted_wrt (\<lambda>a b. 0 < taken steps (i_i b) \<longrightarrow>
      taken steps (i_i a) = g_AmountRemaining (gs ! i_i a)) ps"
      by (intro sorted_wrt_mono_rel [OF _ IH]) simp
    have "t = g_AmountRemaining (gs ! i_i p)" if "q \<in> set ps" "0 < taken ss (i_i q)" for q
    proof (rule ccontr)
      assume "t \<noteq> g_AmountRemaining (gs ! i_i p)"
      then have "amt - t = 0" by (simp add: t_def split: if_splits)
      then have "ss = []" using rec by (cases ps) auto
      with that show False by simp
    qed
    with same tp have "\<forall>q \<in> set ps. 0 < taken steps (i_i q) \<longrightarrow>
      taken steps (i_i p) = g_AmountRemaining (gs ! i_i p)"
      by (simp add: st)
    with tail show ?thesis by simp
  qed
qed simp

subsection \<open>Totals over all subjects\<close>

lemma mset_concat_update:
  "distinct (map fst m) \<Longrightarrow>
    mset (concat (map snd (AList.update k v m))) + mset (mget [] m k) = mset (concat (map snd m)) + mset v"
proof (induction m)
  case (Cons p m)
  then have "fst p = k \<Longrightarrow> map_of m k = None" by (auto simp: map_of_eq_None_iff)
  with Cons show ?case by (cases p) (auto simp: mget_def ac_simps)
qed simp

lemma mset_concat_append:
  "distinct (map fst m) \<Longrightarrow>
    mset (concat (map snd (AList.update k (mget [] m k @ xs) m))) = mset (concat (map snd m)) + mset xs"
  using mset_concat_update [of m k "mget [] m k @ xs"] by simp

lemma mget_in_concat: "x \<in> set (mget [] m k) \<Longrightarrow> x \<in> set (concat (map snd m))"
  by (cases "map_of m k") (auto simp: mget_def dest!: map_of_SomeD intro: rev_bexI)

lemma concat_in_mget:
  "distinct (map fst m) \<Longrightarrow> x \<in> set (concat (map snd m)) \<Longrightarrow> \<exists>k. x \<in> set (mget [] m k)"
  by (force simp: mget_def)

definition all_grants :: "memoryRepo \<Rightarrow> Grant list" where
  "all_grants r = concat (map snd (bySubject r))"

definition all_deductions :: "memoryRepo \<Rightarrow> Deduction list" where
  "all_deductions r = concat (map snd (deductionBySubject r))"

text \<open>Everything ever debited against a grant.\<close>

definition debits :: "Deduction list \<Rightarrow> string \<Rightarrow> int" where
  "debits ds gid = sum_list (map de_Amount (filter (\<lambda>d. de_GrantID d = gid) ds))"

lemma debits_mset: "mset ds = mset ds' \<Longrightarrow> debits ds gid = debits ds' gid"
  by (simp add: debits_def flip: sum_mset_sum_list)

lemma debits_append [simp]: "debits (ds @ es) gid = debits ds gid + debits es gid"
  by (simp add: debits_def)

lemma debits_absent: "gid \<notin> de_GrantID ` set ds \<Longrightarrow> debits ds gid = 0"
  unfolding debits_def by (induction ds) auto

subsection \<open>Applying a plan\<close>

fun planDeductions :: "DeductInput \<Rightarrow> time \<Rightarrow> Grant list \<Rightarrow> (nat \<Rightarrow> string) \<Rightarrow> nat \<Rightarrow> (nat \<times> int) list \<Rightarrow> Deduction list" where
  "planDeductions inp now gs rnd n [] = []"
| "planDeductions inp now gs rnd n ((i, t) # steps) =
     mkDeduction inp now (''de_'' @ rnd n) (g_ID (gs ! i)) t # planDeductions inp now gs rnd (Suc n) steps"

lemma planDeductions_cong:
  "map g_ID gs = map g_ID gs' \<Longrightarrow> \<forall>(i, t) \<in> set steps. i < length gs \<Longrightarrow>
    planDeductions inp now gs rnd n steps = planDeductions inp now gs' rnd n steps"
proof (induction steps arbitrary: n)
  case (Cons st steps)
  have "g_ID (gs ! i) = g_ID (gs' ! i)" if "i < length gs" for i
    using Cons.prems(1) that by (metis length_map nth_map)
  with Cons show ?case by (cases st) auto
qed simp

text \<open>The grants after a plan: each loses what the plan takes from it.\<close>

definition drawn :: "(nat \<times> int) list \<Rightarrow> Grant list \<Rightarrow> Grant list" where
  "drawn steps gs = map (\<lambda>j. (gs ! j)\<lparr>g_AmountRemaining := g_AmountRemaining (gs ! j) - taken steps j\<rparr>) [0..<length gs]"

lemma length_drawn [simp]: "length (drawn steps gs) = length gs"
  by (simp add: drawn_def)

lemma nth_drawn [simp]: "j < length gs \<Longrightarrow>
    drawn steps gs ! j = (gs ! j)\<lparr>g_AmountRemaining := g_AmountRemaining (gs ! j) - taken steps j\<rparr>"
  by (simp add: drawn_def)

lemma drawn_Cons: "i < length gs \<Longrightarrow>
    drawn ((i, t) # steps) gs =
      drawn steps (gs[i := (gs ! i)\<lparr>g_AmountRemaining := g_AmountRemaining (gs ! i) - t\<rparr>])"
  by (rule nth_equalityI) (auto simp: nth_list_update)

lemma map_drawn:
  assumes "\<And>g x. f (g\<lparr>g_AmountRemaining := x\<rparr>) = f g"
  shows "map f (drawn steps gs) = map f gs"
  by (rule nth_equalityI) (simp_all add: assms)

lemma applySteps_spec:
  assumes "\<forall>(i, t) \<in> set steps. i < length gs"
  shows "applySteps inp now steps (gs, r) =
    (drawn steps gs, r\<lparr>draws := draws r + length steps, deductionBySubject :=
       (if steps = [] then deductionBySubject r
        else mset_key (di_SubjectID inp)
          (deductions r (di_SubjectID inp) @ planDeductions inp now gs (rand r) (draws r) steps)
          (deductionBySubject r))\<rparr>)"
  using assms
proof (induction steps arbitrary: gs r)
  case Nil
  have "drawn [] gs = gs" by (rule nth_equalityI) simp_all
  then show ?case by simp
next
  case (Cons st steps)
  obtain i t where [simp]: "st = (i, t)" by fastforce
  let ?gs = "gs[i := (gs ! i)\<lparr>g_AmountRemaining := g_AmountRemaining (gs ! i) - t\<rparr>]"
  have i: "i < length gs" "\<forall>(i, t) \<in> set steps. i < length ?gs" using Cons.prems by auto
  have "map g_ID ?gs = map g_ID gs"
    by (rule nth_equalityI) (auto simp: nth_list_update i(1))
  with i have "planDeductions inp now ?gs rnd n steps = planDeductions inp now gs rnd n steps" for rnd n
    by (intro planDeductions_cong) auto
  then show ?case
    using Cons.IH [OF i(2)] i(1)
    by (auto simp: env_defs drawn_Cons update_last Let_def)
qed

lemma planDeductions_debits:
  "debits (planDeductions inp now gs rnd n steps) gid =
     sum_list (map snd (filter (\<lambda>(i, _). g_ID (gs ! i) = gid) steps))"
  by (induction steps arbitrary: n) (auto simp: debits_def mkDeduction_def)

lemma planDeductions_memD:
  "d \<in> set (planDeductions inp now gs rnd n steps) \<Longrightarrow>
    \<exists>i t. (i, t) \<in> set steps \<and> de_GrantID d = g_ID (gs ! i) \<and> de_Amount d = t \<and>
      de_SubjectID d = di_SubjectID inp \<and> de_Bucket d = di_Bucket inp \<and> de_RequestID d = di_RequestID inp"
  by (induction steps arbitrary: n) (fastforce simp: mkDeduction_def)+

lemma planDeductions_total:
  "sum_list (map de_Amount (planDeductions inp now gs rnd n steps)) = sum_list (map snd steps)"
  by (induction steps arbitrary: n) (auto simp: mkDeduction_def)


subsection \<open>What a deduction does\<close>

definition requestSeen :: "DeductInput \<Rightarrow> memoryRepo \<Rightarrow> bool" where
  "requestSeen inp r \<longleftrightarrow> di_RequestID inp \<noteq> '''' \<and> map_of (seenDeduction r) (deductDedupKey inp) \<noteq> None"

text \<open>The state after a successful deduction that took \<open>steps\<close>.\<close>

definition debited :: "DeductInput \<Rightarrow> time \<Rightarrow> (nat \<times> int) list \<Rightarrow> memoryRepo \<Rightarrow> memoryRepo" where
  "debited inp now steps r =
     r\<lparr>ticks := ticks r + 2, draws := draws r + length steps,
       bySubject := mset_key (di_SubjectID inp) (drawn steps (grants r (di_SubjectID inp))) (bySubject r),
       deductionBySubject := mset_key (di_SubjectID inp)
          (deductions r (di_SubjectID inp) @
             planDeductions inp now (grants r (di_SubjectID inp)) (rand r) (draws r) steps)
          (deductionBySubject r),
       seenDeduction := (if di_RequestID inp \<noteq> ''''
          then mset_key (deductDedupKey inp) ''ok'' (seenDeduction r) else seenDeduction r)\<rparr>"

lemma pool_plan:
  assumes "planSteps gs amt (pool now b gs) = (steps, out)" and "0 < amt"
  shows "distinct (map fst steps)"
    and "\<forall>(i, t) \<in> set steps. i < length gs \<and> eligible now b (gs ! i) \<and> 0 < t \<and> t \<le> g_AmountRemaining (gs ! i)"
    and "sum_list (map snd steps) + out = amt" and "0 \<le> out"
    and "0 < out \<longleftrightarrow> available now b gs < amt"
proof -
  have pos: "\<forall>p \<in> set (pool now b gs). 0 < g_AmountRemaining (gs ! i_i p)"
    using pool_memD by (auto simp: eligible_def)
  note spec = plan_spec [OF assms(1) _ pos]
  show "distinct (map fst steps)" by (rule plan_distinct [OF assms(1) distinct_pool])
  show "\<forall>(i, t) \<in> set steps. i < length gs \<and> eligible now b (gs ! i) \<and> 0 < t \<and> t \<le> g_AmountRemaining (gs ! i)"
  proof clarify
    fix i t assume st: "(i, t) \<in> set steps"
    then obtain p where "p \<in> set (pool now b gs)" "i = i_i p"
      using plan_indices [OF assms(1)] by fastforce
    moreover from st have "0 < t \<and> t \<le> g_AmountRemaining (gs ! i)"
      using spec assms(2) by auto
    ultimately show "i < length gs \<and> eligible now b (gs ! i) \<and> 0 < t \<and> t \<le> g_AmountRemaining (gs ! i)"
      using pool_memD by blast
  qed
  show "sum_list (map snd steps) + out = amt" "0 \<le> out" "0 < out \<longleftrightarrow> available now b gs < amt"
    using spec assms(2) by (simp_all add: pool_total)
qed

lemma TryDeduct_dup:
  assumes "requestSeen inp r"
  shows "\<exists>bal. memoryRepo_TryDeduct inp r = ((True, bal), r\<lparr>ticks := Suc (ticks r)\<rparr>)"
  using assms by (auto simp: memoryRepo_TryDeduct_def requestSeen_def balanceLocked_def env_defs)

lemma TryDeduct_short:
  assumes "\<not> requestSeen inp r" and "0 < di_Amount inp"
    and "available (clock r (ticks r)) (di_Bucket inp) (grants r (di_SubjectID inp)) < di_Amount inp"
  shows "\<exists>bal. memoryRepo_TryDeduct inp r = ((False, bal), r\<lparr>ticks := ticks r + 2\<rparr>)"
proof -
  obtain steps out where pl: "planSteps (grants r (di_SubjectID inp)) (di_Amount inp)
    (pool (clock r (ticks r)) (di_Bucket inp) (grants r (di_SubjectID inp))) = (steps, out)"
    by fastforce
  then have "0 < out" using pool_plan(5) [OF pl assms(2)] assms(3) by simp
  with pl assms(1) show ?thesis
    by (auto simp: memoryRepo_TryDeduct_def requestSeen_def balanceLocked_def env_defs pool_def Let_def)
qed

lemma TryDeduct_ok:
  assumes "\<not> requestSeen inp r" and "0 < di_Amount inp"
    and "di_Amount inp \<le> available (clock r (ticks r)) (di_Bucket inp) (grants r (di_SubjectID inp))"
  obtains steps bal where
    "planSteps (grants r (di_SubjectID inp)) (di_Amount inp)
       (pool (clock r (ticks r)) (di_Bucket inp) (grants r (di_SubjectID inp))) = (steps, 0)"
    "memoryRepo_TryDeduct inp r = ((True, bal), debited inp (clock r (ticks r)) steps r)"
proof -
  let ?gs = "grants r (di_SubjectID inp)"
  obtain steps out where pl: "planSteps ?gs (di_Amount inp)
    (pool (clock r (ticks r)) (di_Bucket inp) ?gs) = (steps, out)"
    by fastforce
  note pp = pool_plan [OF pl assms(2)]
  from pp(4,5) assms(3) have out: "out = 0" by simp
  from pp(2) have "\<forall>(i, t) \<in> set steps. i < length ?gs" by auto
  note ap = applySteps_spec [OF this, of inp "clock r (ticks r)"]
  from pp(3) assms(2) out have "steps \<noteq> []" by auto
  then have "\<exists>bal. memoryRepo_TryDeduct inp r = ((True, bal), debited inp (clock r (ticks r)) steps r)"
    using assms(1) pl out ap [of "r\<lparr>ticks := Suc (ticks r)\<rparr>"]
    by (auto simp: memoryRepo_TryDeduct_def requestSeen_def balanceLocked_def env_defs pool_def
          debited_def Let_def)
  with pl out that show thesis by blast
qed


subsection \<open>The ledger invariant\<close>

definition grant_ok :: "memoryRepo \<Rightarrow> Grant \<Rightarrow> bool" where
  "grant_ok r g \<longleftrightarrow>
     0 \<le> g_AmountRemaining g \<and>
     g_AmountRemaining g + debits (all_deductions r) (g_ID g) \<le> g_AmountInitial g"

definition debit_ok :: "memoryRepo \<Rightarrow> Deduction \<Rightarrow> bool" where
  "debit_ok r d \<longleftrightarrow> 0 < de_Amount d \<and>
     (\<exists>g \<in> set (all_grants r). g_ID g = de_GrantID d \<and> g_SubjectID g = de_SubjectID d \<and>
        g_Bucket g = de_Bucket d)"

definition ids_ok :: "memoryRepo \<Rightarrow> bool" where
  "ids_ok r \<longleftrightarrow> inj (rand r) \<and> distinct (map g_ID (all_grants r)) \<and>
     (\<forall>g \<in> set (all_grants r). \<exists>n < draws r. g_ID g = ''gr_'' @ rand r n)"

definition keys_ok :: "memoryRepo \<Rightarrow> bool" where
  "keys_ok r \<longleftrightarrow> distinct (map fst (bySubject r)) \<and> distinct (map fst (deductionBySubject r)) \<and>
     (\<forall>s. \<forall>g \<in> set (grants r s). g_SubjectID g = s) \<and>
     (\<forall>s. \<forall>d \<in> set (deductions r s). de_SubjectID d = s)"

definition ledger_inv :: "memoryRepo \<Rightarrow> bool" where
  "ledger_inv r \<longleftrightarrow> keys_ok r \<and> ids_ok r \<and>
     (\<forall>g \<in> set (all_grants r). grant_ok r g) \<and> (\<forall>d \<in> set (all_deductions r). debit_ok r d)"

lemmas inv_defs = ledger_inv_def keys_ok_def ids_ok_def

lemma inv_new: "inj rnd \<Longrightarrow> ledger_inv (NewMemoryRepoWithClock clk rnd)"
  by (simp add: inv_defs NewMemoryRepoWithClock_def all_grants_def all_deductions_def)

text \<open>Clock readings do not matter to the invariant.\<close>

lemma inv_ticks [simp]: "ledger_inv (r\<lparr>ticks := n\<rparr>) = ledger_inv r"
  by (simp add: inv_defs grant_ok_def debit_ok_def all_grants_def all_deductions_def)

lemma grants_in_all: "g \<in> set (grants r s) \<Longrightarrow> g \<in> set (all_grants r)"
  by (simp add: all_grants_def mget_in_concat del: set_concat)

lemma all_in_grants: "keys_ok r \<Longrightarrow> g \<in> set (all_grants r) \<Longrightarrow> g \<in> set (grants r (g_SubjectID g))"
  unfolding all_grants_def keys_ok_def using concat_in_mget by metis

lemma debits_fresh:
  "ledger_inv r \<Longrightarrow> gid \<notin> g_ID ` set (all_grants r) \<Longrightarrow> debits (all_deductions r) gid = 0"
  by (rule debits_absent) (force simp: ledger_inv_def debit_ok_def)

text \<open>A fresh grant.\<close>

definition added :: "Grant \<Rightarrow> memoryRepo \<Rightarrow> memoryRepo" where
  "added g r = r\<lparr>ticks := Suc (ticks r), draws := Suc (draws r),
     bySubject := mset_key (g_SubjectID g) (grants r (g_SubjectID g) @ [g]) (bySubject r)\<rparr>"

lemma mset_all_grants_added:
  "keys_ok r \<Longrightarrow> mset (all_grants (added g r)) = mset (all_grants r) + {#g#}"
  by (simp add: all_grants_def added_def keys_ok_def mset_concat_append)

lemma inv_added:
  assumes inv: "ledger_inv r" and "g_ID g = ''gr_'' @ rand r (draws r)"
    and "0 \<le> g_AmountRemaining g" and "g_AmountRemaining g \<le> g_AmountInitial g"
  shows "ledger_inv (added g r)"
proof -
  have ds: "all_deductions (added g r) = all_deductions r"
    by (simp add: all_deductions_def added_def)
  have keys: "keys_ok r" using inv by (simp add: ledger_inv_def)
  note ms = mset_all_grants_added [OF keys, of g]
  then have set: "set (all_grants (added g r)) = insert g (set (all_grants r))"
    by (metis mset_eq_setD mset.simps(2) add_mset_add_single list.simps(15))
  have fresh: "g_ID g \<notin> g_ID ` set (all_grants r)"
  proof
    assume "g_ID g \<in> g_ID ` set (all_grants r)"
    then obtain n where "n < draws r" "rand r (draws r) = rand r n"
      using inv assms(2) by (force simp: inv_defs)
    then show False using inv by (auto simp: inv_defs inj_def)
  qed
  have "keys_ok (added g r)" using keys by (auto simp: keys_ok_def added_def)
  moreover have "distinct (map g_ID (all_grants (added g r)))"
    using ms fresh inv mset_eq_imp_distinct_iff [of "map g_ID (all_grants (added g r))" "map g_ID (g # all_grants r)"]
    by (simp add: inv_defs)
  then have "ids_ok (added g r)" using inv assms(2) unfolding ids_ok_def set
    by (auto simp: added_def inv_defs less_Suc_eq)
  moreover have "grant_ok (added g r) h" if "h \<in> set (all_grants (added g r))" for h
    using that inv assms debits_fresh [OF inv fresh] unfolding set
    by (auto simp: grant_ok_def ds ledger_inv_def)
  moreover have "debit_ok (added g r) d" if "d \<in> set (all_deductions (added g r))" for d
    using that inv unfolding ds by (auto simp: debit_ok_def set ledger_inv_def)
  ultimately show ?thesis by (simp add: ledger_inv_def)
qed

lemma Grant_cases:
  obtains (seen) g where "grantSeen inp r = Some g" "memoryRepo_Grant inp r = (g, r)"
  | (fresh) g where "grantSeen inp r = None"
      "g = mkGrant inp (clock r (ticks r)) (''gr_'' @ rand r (draws r))"
      "memoryRepo_Grant inp r = (g, (added g r)\<lparr>seenGrant :=
         (if grantDedupKey inp \<noteq> '''' then mset_key (grantDedupKey inp) (g_ID g) (seenGrant r) else seenGrant r)\<rparr>)"
proof (cases "grantSeen inp r")
  case None
  then show ?thesis
    by (intro fresh) (auto simp: memoryRepo_Grant_def env_defs added_def mkGrant_def Let_def)
next
  case (Some g)
  then show ?thesis by (intro seen) (auto simp: memoryRepo_Grant_def)
qed

lemma inv_seenGrant [simp]: "ledger_inv (r\<lparr>seenGrant := m\<rparr>) = ledger_inv r"
  by (simp add: inv_defs grant_ok_def debit_ok_def all_grants_def all_deductions_def)

lemma inv_Grant:
  "ledger_inv r \<Longrightarrow> 0 \<le> gi_Amount inp \<Longrightarrow> ledger_inv (snd (memoryRepo_Grant inp r))"
  by (cases rule: Grant_cases [of inp r]) (simp_all add: inv_added mkGrant_def)

text \<open>Lowering remaining amounts, or rewriting metadata, in place.\<close>

definition regrant :: "(Grant \<Rightarrow> Grant) \<Rightarrow> memoryRepo \<Rightarrow> memoryRepo" where
  "regrant f r = r\<lparr>bySubject := map (\<lambda>(s, gs). (s, map f gs)) (bySubject r)\<rparr>"

definition lowers :: "(Grant \<Rightarrow> Grant) \<Rightarrow> bool" where
  "lowers f \<longleftrightarrow> (\<forall>g. g_ID (f g) = g_ID g \<and> g_SubjectID (f g) = g_SubjectID g \<and> g_Bucket (f g) = g_Bucket g \<and>
     g_AmountInitial (f g) = g_AmountInitial g \<and> g_SourceRef (f g) = g_SourceRef g \<and>
     (0 \<le> g_AmountRemaining g \<longrightarrow> 0 \<le> g_AmountRemaining (f g) \<and> g_AmountRemaining (f g) \<le> g_AmountRemaining g))"

lemma all_grants_regrant [simp]: "all_grants (regrant f r) = map f (all_grants r)"
  by (simp add: all_grants_def regrant_def map_concat comp_def case_prod_beta)

lemma grants_regrant [simp]: "grants (regrant f r) s = map f (grants r s)"
  by (auto simp: regrant_def mget_def map_of_map comp_def split: option.split)

lemma inv_regrant:
  assumes inv: "ledger_inv r" and f: "lowers f"
  shows "ledger_inv (regrant f r)"
proof -
  have ds: "all_deductions (regrant f r) = all_deductions r"
    by (simp add: all_deductions_def regrant_def)
  have fst: "map fst (bySubject (regrant f r)) = map fst (bySubject r)"
    by (simp add: regrant_def case_prod_beta)
  have oth: "deductionBySubject (regrant f r) = deductionBySubject r" "rand (regrant f r) = rand r"
    "draws (regrant f r) = draws r" by (simp_all add: regrant_def)
  have id: "g_ID \<circ> f = g_ID" using f by (auto simp: lowers_def)
  have "keys_ok (regrant f r)"
    using inv f unfolding keys_ok_def fst oth by (auto simp: inv_defs lowers_def)
  moreover have "ids_ok (regrant f r)"
    using inv f unfolding ids_ok_def oth by (auto simp: inv_defs lowers_def id)
  moreover have "grant_ok (regrant f r) g" if "g \<in> set (all_grants (regrant f r))" for g
    using that inv f by (fastforce simp: grant_ok_def ds ledger_inv_def lowers_def)
  moreover have "debit_ok (regrant f r) d" if "d \<in> set (all_deductions (regrant f r))" for d
    using that inv f unfolding ds by (auto simp: debit_ok_def ledger_inv_def lowers_def)
  ultimately show ?thesis by (simp add: ledger_inv_def)
qed

lemma lowers_expireGrant: "lowers (expireGrant now)"
  by (auto simp: lowers_def expireGrant_def)

lemma RunExpiry_state: "snd (memoryRepo_RunExpiry r) = (regrant (expireGrant (clock r (ticks r))) r)\<lparr>ticks := Suc (ticks r)\<rparr>"
  by (simp add: memoryRepo_RunExpiry_def env_defs regrant_def)

lemma inv_RunExpiry: "ledger_inv r \<Longrightarrow> ledger_inv (snd (memoryRepo_RunExpiry r))"
  by (simp add: RunExpiry_state inv_regrant lowers_expireGrant)

definition only_id :: "string \<Rightarrow> (Grant \<Rightarrow> Grant) \<Rightarrow> Grant \<Rightarrow> Grant" where
  "only_id gid f g = (if g_ID g = gid then f g else g)"

lemma only_id_simps [simp]:
  "g_ID g = gid \<Longrightarrow> only_id gid f g = f g"
  "g_ID g \<noteq> gid \<Longrightarrow> only_id gid f g = g"
  by (simp_all add: only_id_def)

lemma map_only_id_absent: "gid \<notin> g_ID ` set gs \<Longrightarrow> map (only_id gid f) gs = gs"
  by (induction gs) (auto simp: only_id_def)

lemma revokeIn_None: "revokeIn gid f gs = None \<longleftrightarrow> gid \<notin> g_ID ` set gs"
  by (induction gs) auto

lemma revokeIn_Some:
  "revokeIn gid f gs = Some gs' \<Longrightarrow> distinct (map g_ID gs) \<Longrightarrow> gs' = map (only_id gid f) gs"
proof (induction gs arbitrary: gs')
  case (Cons g gs)
  then show ?case
    using map_only_id_absent [of gid gs f] by (cases "g_ID g = gid") auto
qed simp

lemma revokeSubjects_None:
  "revokeSubjects gid f m = None \<longleftrightarrow> gid \<notin> g_ID ` set (concat (map snd m))"
  by (induction m) (auto simp: revokeIn_None image_Un split: option.splits)

lemma revokeSubjects_Some:
  "revokeSubjects gid f m = Some m' \<Longrightarrow> distinct (map g_ID (concat (map snd m))) \<Longrightarrow>
    m' = map (\<lambda>(s, gs). (s, map (only_id gid f) gs)) m"
proof (induction m arbitrary: m')
  case (Cons p m)
  obtain s gs where p: "p = (s, gs)" by fastforce
  show ?case
  proof (cases "revokeIn gid f gs")
    case None
    then have "gid \<notin> g_ID ` set gs" by (simp add: revokeIn_None)
    with None Cons p show ?thesis by (auto simp: map_only_id_absent)
  next
    case (Some gs')
    then have "gid \<in> g_ID ` set gs" using revokeIn_None by (metis option.distinct(1))
    then have "gid \<notin> g_ID ` set (concat (map snd m))" using Cons.prems(2) p by auto
    then have "map (\<lambda>(s, gs). (s, map (only_id gid f) gs)) m = m"
      by (induction m) (auto simp: map_only_id_absent image_Un)
    with Some Cons.prems p show ?thesis by (auto dest: revokeIn_Some)
  qed
qed simp

lemma RevokeGrant_state:
  assumes "ids_ok r"
  shows "memoryRepo_RevokeGrant rfc gid reason r =
    (if gid \<in> g_ID ` set (all_grants r)
     then (regrant (only_id gid (revokeMark reason (rfc (clock r (ticks r))))) r)\<lparr>ticks := Suc (ticks r)\<rparr>
     else r)"
proof (cases "revokeSubjects gid (revokeMark reason (rfc (clock r (ticks r)))) (bySubject r)")
  case None
  then show ?thesis
    using revokeSubjects_None [of gid "revokeMark reason (rfc (clock r (ticks r)))" "bySubject r"]
    by (simp add: memoryRepo_RevokeGrant_def env_defs all_grants_def)
next
  case (Some m)
  then have "gid \<in> g_ID ` set (all_grants r)"
    using revokeSubjects_None unfolding all_grants_def by (metis option.distinct(1))
  moreover from Some assms have "m = map (\<lambda>(s, gs). (s, map (only_id gid (revokeMark reason (rfc (clock r (ticks r))))) gs)) (bySubject r)"
    by (intro revokeSubjects_Some) (auto simp: ids_ok_def all_grants_def)
  ultimately show ?thesis
    using Some by (simp add: memoryRepo_RevokeGrant_def env_defs regrant_def)
qed

lemma lowers_revoke: "lowers (only_id gid (revokeMark reason stamp))"
  by (auto simp: lowers_def only_id_def revokeMark_def)

lemma inv_RevokeGrant: "ledger_inv r \<Longrightarrow> ledger_inv (memoryRepo_RevokeGrant rfc gid reason r)"
proof -
  assume inv: "ledger_inv r"
  then have "ids_ok r" by (simp add: ledger_inv_def)
  with inv show ?thesis by (simp add: RevokeGrant_state inv_regrant lowers_revoke)
qed

text \<open>A successful deduction.\<close>

lemma taken_distinct: "distinct (map fst steps) \<Longrightarrow> (i, t) \<in> set steps \<Longrightarrow> taken steps i = t"
proof (induction steps)
  case (Cons st steps)
  show ?case
  proof (cases "st = (i, t)")
    case True
    with Cons.prems(1) have "taken steps i = 0" by (intro taken_absent) auto
    with True show ?thesis by simp
  next
    case False
    with Cons.prems(2) have "i \<in> fst ` set steps" by force
    with Cons.prems(1) have "fst st \<noteq> i" by auto
    with False Cons show ?thesis by (cases st) auto
  qed
qed simp

lemma distinct_grants: "ids_ok r \<Longrightarrow> distinct (map g_ID (grants r s))"
proof (cases "map_of (bySubject r) s")
  case (Some gs)
  assume "ids_ok r"
  then have "distinct (concat (map (map g_ID) (map snd (bySubject r))))"
    by (simp add: ids_ok_def all_grants_def map_concat)
  moreover from Some have "map g_ID gs \<in> set (map (map g_ID) (map snd (bySubject r)))"
    by (force dest: map_of_SomeD)
  ultimately have "distinct (map g_ID gs)" by (auto simp: distinct_concat_iff)
  with Some show ?thesis by (simp add: mget_def)
qed (simp add: mget_def)

lemma sum_steps_id:
  assumes "distinct (map g_ID gs)" and "\<forall>(i, t) \<in> set steps. i < length gs" and "j < length gs"
  shows "sum_list (map snd (filter (\<lambda>(i, _). g_ID (gs ! i) = g_ID (gs ! j)) steps)) = taken steps j"
  using assms(2)
proof (induction steps)
  case (Cons st steps)
  obtain i t where st: "st = (i, t)" by fastforce
  with Cons.prems have "g_ID (gs ! i) = g_ID (gs ! j) \<longleftrightarrow> i = j"
    using nth_eq_iff_index_eq [OF assms(1), of i j] assms(3) by simp
  with Cons st show ?case by auto
qed simp

lemma debited_fields [simp]:
  "rand (debited inp now steps r) = rand r"
  "clock (debited inp now steps r) = clock r"
  "draws (debited inp now steps r) = draws r + length steps"
  "grants (debited inp now steps r) s =
     (if s = di_SubjectID inp then drawn steps (grants r s) else grants r s)"
  "deductions (debited inp now steps r) s =
     (if s = di_SubjectID inp then deductions r s @
        planDeductions inp now (grants r s) (rand r) (draws r) steps else deductions r s)"
  by (simp_all add: debited_def)

lemma mset_all_deductions_debited:
  "keys_ok r \<Longrightarrow> mset (all_deductions (debited inp now steps r)) = mset (all_deductions r) +
     mset (planDeductions inp now (grants r (di_SubjectID inp)) (rand r) (draws r) steps)"
  by (simp add: all_deductions_def debited_def keys_ok_def mset_concat_append)

lemma mset_ids_debited:
  assumes "keys_ok r"
  shows "mset (map g_ID (all_grants (debited inp now steps r))) = mset (map g_ID (all_grants r))"
proof -
  let ?gs = "grants r (di_SubjectID inp)"
  have "mset (all_grants (debited inp now steps r)) + mset ?gs = mset (all_grants r) + mset (drawn steps ?gs)"
    using assms by (simp add: all_grants_def debited_def keys_ok_def mset_concat_update)
  then have "image_mset g_ID (mset (all_grants (debited inp now steps r))) + mset (map g_ID ?gs)
    = image_mset g_ID (mset (all_grants r)) + mset (map g_ID (drawn steps ?gs))"
    by (metis image_mset_union mset_map)
  then show ?thesis by (simp add: map_drawn)
qed

text \<open>What the plan guarantees about the steps that are applied.\<close>

definition debit_fits :: "DeductInput \<Rightarrow> time \<Rightarrow> (nat \<times> int) list \<Rightarrow> memoryRepo \<Rightarrow> bool" where
  "debit_fits inp now steps r \<longleftrightarrow> ledger_inv r \<and> distinct (map fst steps) \<and>
     (\<forall>(i, t) \<in> set steps. i < length (grants r (di_SubjectID inp)) \<and>
       eligible now (di_Bucket inp) (grants r (di_SubjectID inp) ! i) \<and>
       0 < t \<and> t \<le> g_AmountRemaining (grants r (di_SubjectID inp) ! i))"

lemma debit_fitsD:
  assumes "debit_fits inp now steps r"
  shows "ledger_inv r" "keys_ok r" "ids_ok r" "distinct (map fst steps)"
    "(i, t) \<in> set steps \<Longrightarrow> i < length (grants r (di_SubjectID inp)) \<and>
       eligible now (di_Bucket inp) (grants r (di_SubjectID inp) ! i) \<and>
       0 < t \<and> t \<le> g_AmountRemaining (grants r (di_SubjectID inp) ! i)"
  using assms by (auto simp: debit_fits_def ledger_inv_def)

lemma nth_grant_ok: "ledger_inv r \<Longrightarrow> j < length (grants r s) \<Longrightarrow> grant_ok r (grants r s ! j)"
  unfolding ledger_inv_def by (meson grants_in_all nth_mem)

lemma drawn_memD:
  assumes "g \<in> set (drawn steps gs)"
  obtains j where "j < length gs" "g = drawn steps gs ! j"
  using assms by (metis in_set_conv_nth length_drawn)

lemma taken_bounds:
  assumes D: "debit_fits inp now steps r" and j: "j < length (grants r (di_SubjectID inp))"
  shows "0 \<le> taken steps j \<and> taken steps j \<le> g_AmountRemaining (grants r (di_SubjectID inp) ! j)"
proof (cases "j \<in> fst ` set steps")
  case True
  then obtain t where t: "(j, t) \<in> set steps" by force
  then have "taken steps j = t" by (rule taken_distinct [OF debit_fitsD(4) [OF D]])
  with debit_fitsD(5) [OF D t] show ?thesis by simp
next
  case False
  then show ?thesis
    using nth_grant_ok [OF debit_fitsD(1) [OF D] j] by (simp add: taken_absent grant_ok_def)
qed

lemma keys_debited:
  assumes D: "debit_fits inp now steps r"
  shows "keys_ok (debited inp now steps r)"
proof -
  note keys = debit_fitsD(2) [OF D]
  have "g_SubjectID g = s" if "g \<in> set (drawn steps (grants r s))" for g s
    using that keys by (elim drawn_memD) (simp add: keys_ok_def)
  moreover have "distinct (map fst (bySubject (debited inp now steps r)))"
    "distinct (map fst (deductionBySubject (debited inp now steps r)))"
    using keys by (simp_all add: keys_ok_def debited_def)
  moreover have "de_SubjectID d = di_SubjectID inp"
    if "d \<in> set (planDeductions inp now gs rnd n steps)" for d gs rnd n
    using planDeductions_memD [OF that] by auto
  ultimately show ?thesis using keys by (auto simp: keys_ok_def)
qed

lemma ids_debited:
  assumes D: "debit_fits inp now steps r"
  shows "ids_ok (debited inp now steps r)"
proof -
  note ids = debit_fitsD(3) [OF D]
  have ms: "mset (map g_ID (all_grants (debited inp now steps r))) = mset (map g_ID (all_grants r))"
    by (rule mset_ids_debited [OF debit_fitsD(2) [OF D]])
  have "\<exists>n < draws r + length steps. g_ID h = ''gr_'' @ rand r n"
    if "h \<in> set (all_grants (debited inp now steps r))" for h
  proof -
    have "g_ID h \<in> set (map g_ID (all_grants r))" using that unfolding mset_eq_setD [OF ms, symmetric] by simp
    then obtain g where "g \<in> set (all_grants r)" "g_ID h = g_ID g" by auto
    with ids show ?thesis by (metis ids_ok_def trans_less_add1)
  qed
  with ids show ?thesis using mset_eq_imp_distinct_iff [OF ms] by (simp add: ids_ok_def)
qed

lemma old_grant:
  assumes D: "debit_fits inp now steps r" and h: "h \<in> set (all_grants (debited inp now steps r))"
  obtains (other) "g_SubjectID h \<noteq> di_SubjectID inp" "h \<in> set (all_grants r)"
  | (own) j where "j < length (grants r (di_SubjectID inp))"
      "h = drawn steps (grants r (di_SubjectID inp)) ! j"
proof (cases "g_SubjectID h = di_SubjectID inp")
  case True
  with all_in_grants [OF keys_debited [OF D] h] own show ?thesis by (auto elim: drawn_memD)
next
  case False
  with all_in_grants [OF keys_debited [OF D] h] other show ?thesis by (auto intro: grants_in_all)
qed

lemma debits_debited:
  assumes D: "debit_fits inp now steps r"
  shows "debits (all_deductions (debited inp now steps r)) gid = debits (all_deductions r) gid +
     sum_list (map snd (filter (\<lambda>(i, _). g_ID (grants r (di_SubjectID inp) ! i) = gid) steps))"
proof -
  let ?D = "planDeductions inp now (grants r (di_SubjectID inp)) (rand r) (draws r) steps"
  have "debits (all_deductions (debited inp now steps r)) gid = debits (all_deductions r @ ?D) gid"
    by (rule debits_mset) (simp add: mset_all_deductions_debited [OF debit_fitsD(2) [OF D]])
  then show ?thesis by (simp add: planDeductions_debits)
qed

lemma grant_ok_debited:
  assumes D: "debit_fits inp now steps r" and h: "h \<in> set (all_grants (debited inp now steps r))"
  shows "grant_ok (debited inp now steps r) h"
proof (rule old_grant [OF D h], goal_cases other own)
  case other
  let ?gs = "grants r (di_SubjectID inp)"
  have "g_ID (?gs ! i) \<noteq> g_ID h" if "(i, t) \<in> set steps" for i t
  proof
    assume eq: "g_ID (?gs ! i) = g_ID h"
    from debit_fitsD(5) [OF D that] have g: "?gs ! i \<in> set ?gs" by auto
    have "inj_on g_ID (set (all_grants r))"
      using debit_fitsD(3) [OF D] by (simp add: ids_ok_def distinct_map)
    then have "?gs ! i = h" using eq other(2) grants_in_all [OF g] by (simp add: inj_on_def)
    with g other(1) debit_fitsD(2) [OF D] show False by (auto simp: keys_ok_def)
  qed
  then have "filter (\<lambda>(i, _). g_ID (?gs ! i) = g_ID h) steps = []"
    by (auto simp: filter_empty_conv)
  with other debit_fitsD(1) [OF D] show ?thesis
    by (auto simp: grant_ok_def debits_debited [OF D] ledger_inv_def)
next
  case (own j)
  let ?gs = "grants r (di_SubjectID inp)"
  have "\<forall>(i, t) \<in> set steps. i < length ?gs" using debit_fitsD(5) [OF D] by auto
  then have "sum_list (map snd (filter (\<lambda>(i, _). g_ID (?gs ! i) = g_ID (?gs ! j)) steps)) = taken steps j"
    by (intro sum_steps_id distinct_grants [OF debit_fitsD(3) [OF D]] own(1))
  then show ?thesis
    using nth_grant_ok [OF debit_fitsD(1) [OF D] own(1)] taken_bounds [OF D own(1)] own
    by (simp add: grant_ok_def debits_debited [OF D])
qed

lemma kept_grant:
  assumes D: "debit_fits inp now steps r" and g: "g \<in> set (all_grants r)"
  shows "\<exists>h \<in> set (all_grants (debited inp now steps r)).
    g_ID h = g_ID g \<and> g_SubjectID h = g_SubjectID g \<and> g_Bucket h = g_Bucket g"
proof (cases "g_SubjectID g = di_SubjectID inp")
  case True
  let ?gs = "grants r (di_SubjectID inp)"
  obtain j where j: "j < length ?gs" "g = ?gs ! j"
    using all_in_grants [OF debit_fitsD(2) [OF D] g] True by (auto simp: in_set_conv_nth)
  have "drawn steps ?gs ! j \<in> set (grants (debited inp now steps r) (di_SubjectID inp))"
    using nth_mem [of j "drawn steps ?gs"] j(1) by simp
  from grants_in_all [OF this] j show ?thesis by (intro bexI) simp_all
next
  case False
  then have "g \<in> set (grants (debited inp now steps r) (g_SubjectID g))"
    using all_in_grants [OF debit_fitsD(2) [OF D] g] by simp
  from grants_in_all [OF this] show ?thesis by blast
qed

lemma debit_ok_debited:
  assumes D: "debit_fits inp now steps r" and d: "d \<in> set (all_deductions (debited inp now steps r))"
  shows "debit_ok (debited inp now steps r) d"
proof -
  let ?gs = "grants r (di_SubjectID inp)"
  let ?D = "planDeductions inp now ?gs (rand r) (draws r) steps"
  have "d \<in># mset (all_deductions r) + mset ?D"
    using d mset_all_deductions_debited [OF debit_fitsD(2) [OF D]] by (metis set_mset_mset)
  then have "0 < de_Amount d \<and> (\<exists>g \<in> set (all_grants r). g_ID g = de_GrantID d \<and>
    g_SubjectID g = de_SubjectID d \<and> g_Bucket g = de_Bucket d)"
  proof (unfold union_iff set_mset_mset, elim disjE)
    assume "d \<in> set (all_deductions r)"
    with debit_fitsD(1) [OF D] show ?thesis by (simp add: ledger_inv_def debit_ok_def)
  next
    assume "d \<in> set ?D"
    then obtain i t where p: "(i, t) \<in> set steps" "de_GrantID d = g_ID (?gs ! i)" "de_Amount d = t"
      "de_SubjectID d = di_SubjectID inp" "de_Bucket d = di_Bucket inp"
      using planDeductions_memD by blast
    with debit_fitsD(5) [OF D p(1)] have i: "?gs ! i \<in> set ?gs" "g_Bucket (?gs ! i) = di_Bucket inp" "0 < t"
      by (auto simp: eligible_def)
    with debit_fitsD(2) [OF D] have "g_SubjectID (?gs ! i) = di_SubjectID inp" by (simp add: keys_ok_def)
    with p i grants_in_all [OF i(1)] show ?thesis by auto
  qed
  then show ?thesis using kept_grant [OF D] by (auto simp: debit_ok_def) metis
qed

lemma inv_debited: "debit_fits inp now steps r \<Longrightarrow> ledger_inv (debited inp now steps r)"
  by (simp add: ledger_inv_def keys_debited ids_debited grant_ok_debited debit_ok_debited)

lemma plan_fits:
  assumes "ledger_inv r" and "0 < di_Amount inp"
    and "planSteps (grants r (di_SubjectID inp)) (di_Amount inp)
       (pool now (di_Bucket inp) (grants r (di_SubjectID inp))) = (steps, out)"
  shows "debit_fits inp now steps r"
  using pool_plan(1,2) [OF assms(3,2)] assms(1) by (simp add: debit_fits_def)

lemma inv_TryDeduct:
  assumes "ledger_inv r" and "0 < di_Amount inp"
  shows "ledger_inv (snd (memoryRepo_TryDeduct inp r))"
proof (cases "requestSeen inp r")
  case True
  with assms TryDeduct_dup [OF True] show ?thesis by auto
next
  case new: False
  show ?thesis
  proof (cases "available (clock r (ticks r)) (di_Bucket inp) (grants r (di_SubjectID inp)) < di_Amount inp")
    case True
    with assms TryDeduct_short [OF new assms(2)] show ?thesis by auto
  next
    case False
    with new assms show ?thesis
      by (elim TryDeduct_ok) (auto intro: inv_debited plan_fits)
  qed
qed


subsection \<open>Balances\<close>

lemma eligible_iff: "eligible now b g \<longleftrightarrow> \<not> (g_Bucket g \<noteq> b \<or> g_AmountRemaining g \<le> 0) \<and> \<not> expired now g"
  by (auto simp: eligible_def)

lemma balanceLoop_total:
  "in64 (b_Total bal) \<Longrightarrow> b_Total (balanceLoop now b gs bal) = wrap64 (b_Total bal + available now b gs)"
proof (induction now b gs bal rule: balanceLoop.induct)
  case (2 now b g gs bal)
  then show ?case by (auto simp: available_def eligible_iff ac_simps)
qed (simp add: available_def)

lemma balanceLoop_count:
  "b_GrantCount (balanceLoop now b gs bal) = b_GrantCount bal + int (length (filter (eligible now b) gs))"
  by (induction now b gs bal rule: balanceLoop.induct) (auto simp: eligible_iff)

lemma balanceLocked_total:
  "b_Total (fst (balanceLocked s b r)) = wrap64 (available (clock r (ticks r)) b (grants r s))"
  by (simp add: balanceLocked_def env_defs balanceLoop_total in64_def)

lemma balanceLocked_state [simp]: "snd (balanceLocked s b r) = r\<lparr>ticks := Suc (ticks r)\<rparr>"
  by (simp add: balanceLocked_def env_defs)

lemma allBalances_state: "\<exists>n. snd (allBalancesLoop s bs out r) = r\<lparr>ticks := n\<rparr>"
proof (induction bs arbitrary: out r)
  case (Cons b bs)
  obtain bal where "balanceLocked s b r = (bal, r\<lparr>ticks := Suc (ticks r)\<rparr>)"
    using balanceLocked_state [of s b r] by (metis prod.collapse)
  then show ?case using Cons.IH [of "mset_key b bal out" "r\<lparr>ticks := Suc (ticks r)\<rparr>"] by auto
next
  case Nil
  show ?case by (rule exI [of _ "ticks r"]) simp
qed

lemma available_nonneg: "0 \<le> available now b gs"
  unfolding available_def by (rule sum_list_nonneg_int) (auto simp: eligible_def)

lemma available_pos: "0 < available now b gs \<longleftrightarrow> (\<exists>g \<in> set gs. eligible now b g)"
proof (induction gs)
  case (Cons g gs)
  then show ?case
    using available_nonneg [of now b gs] by (auto simp: available_def eligible_def)
qed (simp add: available_def)

text \<open>With non-negative amounts the availability is a plain conditional sum, which a plan lowers by
  exactly what it takes.\<close>

definition weigh :: "(Grant \<Rightarrow> bool) \<Rightarrow> Grant list \<Rightarrow> int" where
  "weigh w gs = sum_list (map (\<lambda>g. if w g then g_AmountRemaining g else 0) gs)"

lemma available_weigh:
  "(\<And>g. g \<in> set gs \<Longrightarrow> 0 \<le> g_AmountRemaining g) \<Longrightarrow>
    available now b gs = weigh (\<lambda>g. g_Bucket g = b \<and> \<not> expired now g) gs"
  unfolding available_def weigh_def by (induction gs) (auto simp: eligible_def not_less intro: antisym)

lemma weigh_drawn:
  assumes "\<And>g x. w (g\<lparr>g_AmountRemaining := x\<rparr>) = w g"
    and "\<forall>(i, t) \<in> set steps. i < length gs \<and> w (gs ! i)"
  shows "weigh w (drawn steps gs) = weigh w gs - sum_list (map snd steps)"
  using assms(2)
proof (induction steps arbitrary: gs)
  case Nil
  have "drawn [] gs = gs" by (rule nth_equalityI) simp_all
  then show ?case by simp
next
  case (Cons st steps)
  obtain i t where st: "st = (i, t)" by fastforce
  let ?g = "gs ! i"
  let ?gs = "gs[i := ?g\<lparr>g_AmountRemaining := g_AmountRemaining ?g - t\<rparr>]"
  have i: "i < length gs" "w ?g" using Cons.prems st by auto
  have "\<forall>(k, u) \<in> set steps. k < length ?gs \<and> w (?gs ! k)"
    using Cons.prems st i by (auto simp: nth_list_update assms(1))
  from Cons.IH [OF this] have "weigh w (drawn (st # steps) gs) = weigh w ?gs - sum_list (map snd steps)"
    using i by (simp add: st drawn_Cons)
  also have "weigh w ?gs = weigh w gs - t"
    unfolding weigh_def using i by (subst sum_list_update) (auto simp: assms(1))
  finally show ?case by (simp add: st)
qed

lemma grants_nonneg: "ledger_inv r \<Longrightarrow> g \<in> set (grants r s) \<Longrightarrow> 0 \<le> g_AmountRemaining g"
  using grants_in_all by (fastforce simp: ledger_inv_def grant_ok_def)

lemma available_debited:
  assumes D: "debit_fits inp now steps r"
  shows "available now (di_Bucket inp) (grants (debited inp now steps r) (di_SubjectID inp)) =
    available now (di_Bucket inp) (grants r (di_SubjectID inp)) - sum_list (map snd steps)"
proof -
  let ?gs = "grants r (di_SubjectID inp)"
  let ?w = "\<lambda>g. g_Bucket g = di_Bucket inp \<and> \<not> expired now g"
  have "available now (di_Bucket inp) (grants (debited inp now steps r) (di_SubjectID inp)) = weigh ?w (drawn steps ?gs)"
    using grants_nonneg [OF inv_debited [OF D], of _ "di_SubjectID inp"] by (subst available_weigh) auto
  also have "\<dots> = weigh ?w ?gs - sum_list (map snd steps)"
    using debit_fitsD(5) [OF D] by (intro weigh_drawn) (auto simp: eligible_def)
  also have "weigh ?w ?gs = available now (di_Bucket inp) ?gs"
    using grants_nonneg [OF debit_fitsD(1) [OF D]] by (simp add: available_weigh)
  finally show ?thesis .
qed

subsection \<open>Runs of the ledger\<close>

inductive ledger_step :: "memoryRepo \<Rightarrow> memoryRepo \<Rightarrow> bool" where
  grant: "ledger_step r (snd (credits_Grant inp r))"
| try_deduct: "ledger_step r (snd (credits_TryDeduct inp r))"
| balance: "ledger_step r (snd (memoryRepo_Balance s b r))"
| all_balances: "ledger_step r (snd (memoryRepo_AllBalances s r))"
| run_expiry: "ledger_step r (snd (memoryRepo_RunExpiry r))"
| revoke: "ledger_step r (snd (credits_RevokeGrant rfc gid reason r))"

lemma facade_states:
  "snd (credits_Grant inp r) = (if gi_Amount inp \<le> 0 then r else snd (memoryRepo_Grant inp r))"
  "snd (credits_TryDeduct dinp r) = (if di_Amount dinp \<le> 0 \<or> di_RequestID dinp = '''' then r
     else snd (memoryRepo_TryDeduct dinp r))"
  "snd (credits_RevokeGrant rfc gid reason r) =
     (if gid = '''' then r else memoryRepo_RevokeGrant rfc gid reason r)"
  by (simp_all add: credits_Grant_def credits_TryDeduct_def credits_RevokeGrant_def case_prod_beta)

lemma ledger_step_inv: "ledger_step r r' \<Longrightarrow> ledger_inv r \<Longrightarrow> ledger_inv r'"
proof (induction rule: ledger_step.induct)
  case (all_balances r s)
  then show ?case
    using allBalances_state [of s "remdups (map g_Bucket (grants r s))" "[]" r]
    by (auto simp: memoryRepo_AllBalances_def)
qed (auto simp: facade_states memoryRepo_Balance_def inv_Grant inv_TryDeduct inv_RunExpiry
       inv_RevokeGrant)

lemma ledger_steps_inv: "ledger_step\<^sup>*\<^sup>* r r' \<Longrightarrow> ledger_inv r \<Longrightarrow> ledger_inv r'"
  by (induction rule: rtranclp_induct) (auto dest: ledger_step_inv)

text \<open>What a run never takes back: processed requests, recorded source references, and the identity of
  every grant.\<close>

definition same_grant :: "Grant \<Rightarrow> Grant \<Rightarrow> bool" where
  "same_grant g h \<longleftrightarrow> g_ID h = g_ID g \<and> g_SubjectID h = g_SubjectID g \<and> g_Bucket h = g_Bucket g \<and>
     g_AmountInitial h = g_AmountInitial g \<and> g_SourceRef h = g_SourceRef g"

definition keeps :: "memoryRepo \<Rightarrow> memoryRepo \<Rightarrow> bool" where
  "keeps r r' \<longleftrightarrow> dom (map_of (seenDeduction r)) \<subseteq> dom (map_of (seenDeduction r')) \<and>
     (\<forall>s. \<forall>g \<in> set (grants r s). \<exists>h \<in> set (grants r' s). same_grant g h)"

lemma same_grant_refl [simp]: "same_grant g g"
  by (simp add: same_grant_def)

lemma keeps_refl [simp]: "keeps r r"
  by (force simp: keeps_def same_grant_def)

lemma keeps_trans: "keeps r r' \<Longrightarrow> keeps r' r'' \<Longrightarrow> keeps r r''"
  unfolding keeps_def same_grant_def by (intro conjI) (blast, metis)

lemma keeps_ticks [simp]: "keeps r (r'\<lparr>ticks := n\<rparr>) = keeps r r'"
  by (simp add: keeps_def)

lemma keeps_regrant: "lowers f \<Longrightarrow> keeps r (regrant f r)"
  unfolding keeps_def grants_regrant by (auto simp: same_grant_def lowers_def regrant_def)

lemma keeps_debited: "keeps r (debited inp now steps r)"
proof -
  have "\<exists>h \<in> set (drawn steps gs). same_grant g h" if g: "g \<in> set gs" for g and gs :: "Grant list"
  proof -
    from g obtain j where j: "j < length gs" "g = gs ! j" by (auto simp: in_set_conv_nth)
    then have "same_grant g (drawn steps gs ! j)" by (simp add: same_grant_def)
    with j show ?thesis by (metis length_drawn nth_mem)
  qed
  then show ?thesis
    by (auto simp: keeps_def debited_def) (metis same_grant_refl)+
qed

lemma keeps_added: "keeps r (added g r)"
  by (auto simp: keeps_def added_def) (metis same_grant_refl)+

lemma keeps_Grant: "keeps r (snd (memoryRepo_Grant inp r))"
  using keeps_added by (cases rule: Grant_cases [of inp r]) (auto simp: keeps_def)

lemma TryDeduct_state:
  assumes "0 < di_Amount inp"
  obtains n where "snd (memoryRepo_TryDeduct inp r) = r\<lparr>ticks := n\<rparr>"
  | steps where "snd (memoryRepo_TryDeduct inp r) = debited inp (clock r (ticks r)) steps r"
proof (cases "requestSeen inp r")
  case True
  from TryDeduct_dup [OF this] that show ?thesis by fastforce
next
  case new: False
  show ?thesis
  proof (cases "available (clock r (ticks r)) (di_Bucket inp) (grants r (di_SubjectID inp)) < di_Amount inp")
    case True
    from TryDeduct_short [OF new assms this] that show ?thesis by fastforce
  next
    case False
    with TryDeduct_ok [OF new assms] that show ?thesis by (metis not_less snd_conv)
  qed
qed

lemma keeps_TryDeduct: "0 < di_Amount inp \<Longrightarrow> keeps r (snd (memoryRepo_TryDeduct inp r))"
  by (erule TryDeduct_state [of inp r]) (simp_all add: keeps_debited)

lemma keeps_RevokeGrant: "ledger_inv r \<Longrightarrow> keeps r (memoryRepo_RevokeGrant rfc gid reason r)"
  by (simp add: RevokeGrant_state ledger_inv_def keeps_regrant lowers_revoke)

lemma ledger_step_keeps: "ledger_step r r' \<Longrightarrow> ledger_inv r \<Longrightarrow> keeps r r'"
proof (induction rule: ledger_step.induct)
  case (all_balances r s)
  then show ?case
    using allBalances_state [of s "remdups (map g_Bucket (grants r s))" "[]" r]
    by (auto simp: memoryRepo_AllBalances_def)
qed (auto simp: facade_states memoryRepo_Balance_def keeps_Grant keeps_TryDeduct keeps_RevokeGrant
       RunExpiry_state keeps_regrant lowers_expireGrant)

lemma ledger_steps_keeps: "ledger_step\<^sup>*\<^sup>* r r' \<Longrightarrow> ledger_inv r \<Longrightarrow> keeps r r'"
  by (induction rule: rtranclp_induct)
     (auto intro: keeps_trans dest: ledger_step_keeps ledger_steps_inv)

subsection \<open>Grant idempotency\<close>

text \<open>The dedup key separates its three parts as long as subject and bucket contain no \<open>|\<close>.\<close>

definition bar_free :: "string \<Rightarrow> bool" where
  "bar_free s \<longleftrightarrow> CHR ''|'' \<notin> set s"

definition grantKey :: "Grant \<Rightarrow> string" where
  "grantKey g = g_SubjectID g @ ''|'' @ g_Bucket g @ ''|'' @ g_SourceRef g"

definition key_ok :: "memoryRepo \<Rightarrow> bool" where
  "key_ok r \<longleftrightarrow>
     (\<forall>g \<in> set (all_grants r). bar_free (g_SubjectID g) \<and> bar_free (g_Bucket g)) \<and>
     (\<forall>g \<in> set (all_grants r). g_SourceRef g \<noteq> '''' \<longrightarrow> map_of (seenGrant r) (grantKey g) = Some (g_ID g))"

definition matches :: "GrantInput \<Rightarrow> Grant \<Rightarrow> bool" where
  "matches inp g \<longleftrightarrow> g_SubjectID g = gi_SubjectID inp \<and> g_Bucket g = gi_Bucket inp \<and>
     g_SourceRef g = gi_SourceRef inp"

lemma grantKey_inj:
  assumes "bar_free (g_SubjectID g)" "bar_free (g_Bucket g)"
    and "bar_free (gi_SubjectID inp)" "bar_free (gi_Bucket inp)" "gi_SourceRef inp \<noteq> ''''"
  shows "grantKey g = grantDedupKey inp \<longleftrightarrow> matches inp g"
proof
  assume "grantKey g = grantDedupKey inp"
  then have eq: "g_SubjectID g @ CHR ''|'' # (g_Bucket g @ CHR ''|'' # g_SourceRef g) =
    gi_SubjectID inp @ CHR ''|'' # (gi_Bucket inp @ CHR ''|'' # gi_SourceRef inp)"
    using assms(5) by (simp add: grantKey_def grantDedupKey_def)
  have "g_SubjectID g = gi_SubjectID inp \<and>
    g_Bucket g @ CHR ''|'' # g_SourceRef g = gi_Bucket inp @ CHR ''|'' # gi_SourceRef inp"
    using sep_inj [OF _ _ eq] assms(1,3) by (simp add: bar_free_def)
  moreover from this have "g_Bucket g = gi_Bucket inp \<and> g_SourceRef g = gi_SourceRef inp"
    using sep_inj [of "CHR ''|''" "g_Bucket g" "gi_Bucket inp" "g_SourceRef g" "gi_SourceRef inp"]
      assms(2,4) by (simp add: bar_free_def)
  ultimately show "matches inp g" by (simp add: matches_def)
qed (use assms(5) in \<open>simp add: matches_def grantKey_def grantDedupKey_def\<close>)

lemma grantSeen_hit:
  assumes inv: "ledger_inv r" and k: "key_ok r" and g: "g \<in> set (all_grants r)"
    and m: "matches inp g" and ref: "gi_SourceRef inp \<noteq> ''''"
  shows "grantSeen inp r = Some g"
proof -
  have key: "grantDedupKey inp = grantKey g" "grantDedupKey inp \<noteq> ''''"
    using m ref by (simp_all add: matches_def grantKey_def grantDedupKey_def)
  have seen: "map_of (seenGrant r) (grantKey g) = Some (g_ID g)"
    using k g m ref by (auto simp: key_ok_def matches_def)
  have sub: "g \<in> set (grants r (gi_SubjectID inp))"
    using all_in_grants [OF _ g] inv m by (simp add: ledger_inv_def matches_def)
  have "distinct (map g_ID (grants r (gi_SubjectID inp)))"
    using inv by (intro distinct_grants) (simp add: ledger_inv_def)
  then have inj: "inj_on g_ID (set (grants r (gi_SubjectID inp)))" by (simp add: distinct_map)
  have "find (\<lambda>h. g_ID h = g_ID g) (grants r (gi_SubjectID inp)) = Some g"
  proof (cases "find (\<lambda>h. g_ID h = g_ID g) (grants r (gi_SubjectID inp))")
    case None
    with sub show ?thesis by (auto simp: find_None_iff)
  next
    case (Some h)
    then have "h \<in> set (grants r (gi_SubjectID inp))" "g_ID h = g_ID g"
      by (auto simp: find_Some_iff)
    with Some sub inj show ?thesis by (simp add: inj_on_def)
  qed
  with key seen show ?thesis by (simp add: grantSeen_def)
qed


definition all_bar_free :: "memoryRepo \<Rightarrow> bool" where
  "all_bar_free r \<longleftrightarrow> (\<forall>g \<in> set (all_grants r). bar_free (g_SubjectID g) \<and> bar_free (g_Bucket g))"

definition key_inv :: "memoryRepo \<Rightarrow> bool" where
  "key_inv r \<longleftrightarrow> (all_bar_free r \<longrightarrow> key_ok r)"

lemma key_inv_frame:
  assumes "key_inv r" and "seenGrant r' = seenGrant r"
    and "\<And>h. h \<in> set (all_grants r') \<Longrightarrow> \<exists>g \<in> set (all_grants r). same_grant g h"
    and "\<And>g. g \<in> set (all_grants r) \<Longrightarrow> \<exists>h \<in> set (all_grants r'). same_grant g h"
  shows "key_inv r'"
  unfolding key_inv_def
proof
  assume bf: "all_bar_free r'"
  have "all_bar_free r"
    unfolding all_bar_free_def
  proof
    fix g assume "g \<in> set (all_grants r)"
    from assms(4) [OF this] obtain h where "h \<in> set (all_grants r')" "same_grant g h" by blast
    with bf show "bar_free (g_SubjectID g) \<and> bar_free (g_Bucket g)"
      by (auto simp: all_bar_free_def same_grant_def)
  qed
  with assms(1) have k: "key_ok r" by (simp add: key_inv_def)
  have "map_of (seenGrant r') (grantKey h) = Some (g_ID h)"
    if "h \<in> set (all_grants r')" "g_SourceRef h \<noteq> ''''" for h
  proof -
    from assms(3) [OF that(1)] obtain g where g: "g \<in> set (all_grants r)" "same_grant g h" by blast
    then have "grantKey h = grantKey g" "g_ID h = g_ID g" "g_SourceRef h = g_SourceRef g"
      by (simp_all add: same_grant_def grantKey_def)
    with k g(1) that(2) show ?thesis by (simp add: key_ok_def assms(2))
  qed
  with bf show "key_ok r'" by (simp add: key_ok_def all_bar_free_def)
qed

lemma key_inv_ticks [simp]: "key_inv (r\<lparr>ticks := n\<rparr>) = key_inv r"
  by (simp add: key_inv_def all_bar_free_def key_ok_def all_grants_def)

lemma key_inv_regrant: "key_inv r \<Longrightarrow> lowers f \<Longrightarrow> key_inv (regrant f r)"
  by (rule key_inv_frame [of r]) (auto simp: same_grant_def lowers_def, simp add: regrant_def)

lemma key_inv_debited:
  assumes "key_inv r" and D: "debit_fits inp now steps r"
  shows "key_inv (debited inp now steps r)"
proof (rule key_inv_frame [OF assms(1)])
  show "seenGrant (debited inp now steps r) = seenGrant r" by (simp add: debited_def)
next
  fix h assume "h \<in> set (all_grants (debited inp now steps r))"
  then show "\<exists>g \<in> set (all_grants r). same_grant g h"
  proof (rule old_grant [OF D], goal_cases)
    case 1
    then show ?case by (metis same_grant_refl)
  next
    case (2 j)
    then have "same_grant (grants r (di_SubjectID inp) ! j) h" by (simp add: same_grant_def)
    with 2(1) show ?case by (meson grants_in_all nth_mem)
  qed
next
  fix g assume "g \<in> set (all_grants r)"
  then have "g \<in> set (grants r (g_SubjectID g))" by (rule all_in_grants [OF debit_fitsD(2) [OF D]])
  then show "\<exists>h \<in> set (all_grants (debited inp now steps r)). same_grant g h"
    using keeps_debited [of r inp now steps] unfolding keeps_def by (meson grants_in_all)
qed

lemma set_all_grants_added:
  "keys_ok r \<Longrightarrow> set (all_grants (added g r)) = insert g (set (all_grants r))"
  using mset_all_grants_added [of r g] by (metis add_mset_add_single mset.simps(2) mset_eq_setD list.simps(15))

lemma key_inv_Grant:
  assumes inv: "ledger_inv r" and k: "key_inv r"
  shows "key_inv (snd (memoryRepo_Grant inp r))"
proof (cases rule: Grant_cases [of inp r])
  case (seen g)
  with k show ?thesis by simp
next
  case (fresh g)
  let ?r = "snd (memoryRepo_Grant inp r)"
  have all: "set (all_grants ?r) = insert g (set (all_grants r))"
    using fresh(3) set_all_grants_added [of r g] inv by (simp add: ledger_inv_def all_grants_def)
  have g: "matches inp g" using fresh(2) by (simp add: mkGrant_def matches_def)
  show ?thesis
    unfolding key_inv_def
  proof
    assume bf: "all_bar_free ?r"
    then have kr: "key_ok r" using k all by (simp add: key_inv_def all_bar_free_def)
    have "map_of (seenGrant ?r) (grantKey h) = Some (g_ID h)"
      if h: "h \<in> set (all_grants ?r)" "g_SourceRef h \<noteq> ''''" for h
    proof (cases "h = g")
      case True
      with g h(2) have "grantDedupKey inp = grantKey h" "grantDedupKey inp \<noteq> ''''"
        by (simp_all add: matches_def grantKey_def grantDedupKey_def)
      with True fresh(3) show ?thesis by simp
    next
      case False
      with h all have hr: "h \<in> set (all_grants r)" by simp
      have "\<not> (gi_SourceRef inp \<noteq> '''' \<and> matches inp h)"
        using grantSeen_hit [OF inv kr hr] fresh(1) by auto
      moreover have "bar_free (g_SubjectID h)" "bar_free (g_Bucket h)"
        "bar_free (gi_SubjectID inp)" "bar_free (gi_Bucket inp)"
        using bf h(1) all g by (auto simp: all_bar_free_def matches_def)
      ultimately have "grantDedupKey inp = '''' \<or> grantKey h \<noteq> grantDedupKey inp"
        using grantKey_inj [of h inp] by (auto simp: grantDedupKey_def)
      with fresh(3) kr hr h(2) show ?thesis by (auto simp: key_ok_def added_def)
    qed
    with bf show "key_ok ?r" by (simp add: key_ok_def all_bar_free_def)
  qed
qed

lemma TryDeduct_debit_fits:
  assumes "ledger_inv r" and "0 < di_Amount inp"
  shows "(\<exists>n. snd (memoryRepo_TryDeduct inp r) = r\<lparr>ticks := n\<rparr>) \<or>
    (\<exists>steps. debit_fits inp (clock r (ticks r)) steps r \<and>
       snd (memoryRepo_TryDeduct inp r) = debited inp (clock r (ticks r)) steps r)"
proof (cases "requestSeen inp r")
  case True
  from TryDeduct_dup [OF this] show ?thesis by fastforce
next
  case new: False
  show ?thesis
  proof (cases "available (clock r (ticks r)) (di_Bucket inp) (grants r (di_SubjectID inp)) < di_Amount inp")
    case True
    from TryDeduct_short [OF new assms(2) this] show ?thesis by fastforce
  next
    case False
    then show ?thesis
      using assms by (intro disjI2, elim TryDeduct_ok [OF new assms(2) leI]) (auto intro: plan_fits)
  qed
qed

lemma ledger_step_key_inv: "ledger_step r r' \<Longrightarrow> ledger_inv r \<Longrightarrow> key_inv r \<Longrightarrow> key_inv r'"
proof (induction rule: ledger_step.induct)
  case (try_deduct r inp)
  then show ?case
    using TryDeduct_debit_fits [of r inp] by (auto simp: facade_states key_inv_debited)
next
  case (all_balances r s)
  then show ?case
    using allBalances_state [of s "remdups (map g_Bucket (grants r s))" "[]" r]
    by (auto simp: memoryRepo_AllBalances_def)
next
  case (revoke r rfc gid reason)
  then show ?case
    by (simp add: facade_states RevokeGrant_state ledger_inv_def key_inv_regrant lowers_revoke)
qed (auto simp: facade_states memoryRepo_Balance_def key_inv_Grant RunExpiry_state key_inv_regrant
       lowers_expireGrant)

text \<open>The reachable ledgers: what a process can build from an empty repo through the facade.\<close>

definition ledger_reachable :: "memoryRepo \<Rightarrow> bool" where
  "ledger_reachable r \<longleftrightarrow> (\<exists>clk rnd. inj rnd \<and> ledger_step\<^sup>*\<^sup>* (NewMemoryRepoWithClock clk rnd) r)"

lemma reachable_inv: "ledger_reachable r \<Longrightarrow> ledger_inv r"
  by (auto simp: ledger_reachable_def intro: ledger_steps_inv inv_new)

lemma reachable_key_inv: "ledger_reachable r \<Longrightarrow> key_inv r"
proof -
  assume "ledger_reachable r"
  then obtain clk rnd where "inj rnd" and run: "ledger_step\<^sup>*\<^sup>* (NewMemoryRepoWithClock clk rnd) r"
    by (auto simp: ledger_reachable_def)
  from run have "ledger_inv r \<and> key_inv r"
  proof (induction rule: rtranclp_induct)
    case base
    show ?case using \<open>inj rnd\<close> inv_new
      by (simp add: key_inv_def key_ok_def all_grants_def NewMemoryRepoWithClock_def)
  next
    case (step r r')
    then show ?case by (blast intro: ledger_step_inv ledger_step_key_inv)
  qed
  then show ?thesis by simp
qed

lemma reachable_step: "ledger_reachable r \<Longrightarrow> ledger_step r r' \<Longrightarrow> ledger_reachable r'"
  unfolding ledger_reachable_def by (meson rtranclp.rtrancl_into_rtrancl)

lemma reachable_new: "inj rnd \<Longrightarrow> ledger_reachable (NewMemoryRepoWithClock clk rnd)"
  unfolding ledger_reachable_def by blast

end
