(* ===== verification/Credits_Properties.thy ===== *)
theory Credits_Properties
  imports Credits_Ledger
begin

text \<open>
  The guarantees of the in-memory credit ledger, stated over the operations of \<open>Credits\<close> and every
  state that facade calls can build, each with an instance on a small concrete ledger. The random
  source that ids are drawn from is assumed not to repeat; nothing is assumed of the clock.
\<close>

section \<open>The ledger's guarantees\<close>

subsection \<open>Facts behind the guarantees\<close>

text \<open>The order in which credit is meant to be spent: soonest expiry first, then oldest grant;
  grants that never expire come last.\<close>

definition spent_before :: "Grant \<Rightarrow> Grant \<Rightarrow> bool" where
  "spent_before g h \<longleftrightarrow>
     (case (g_ExpiresAt g, g_ExpiresAt h) of
        (Some e, Some e') \<Rightarrow> e < e' \<or> e = e' \<and> g_GrantedAt g < g_GrantedAt h
      | (Some e, None) \<Rightarrow> True
      | (None, Some e') \<Rightarrow> False
      | (None, None) \<Rightarrow> g_GrantedAt g < g_GrantedAt h)"

lemma poolLess_entries:
  "poolLess gs (poolEntry i (gs ! i)) (poolEntry j (gs ! j)) \<longleftrightarrow> spent_before (gs ! i) (gs ! j)"
  by (auto simp: poolLess_def poolEntry_def spent_before_def split: option.split)

lemma sorted_wrt_conj: "sorted_wrt P xs \<Longrightarrow> sorted_wrt Q xs \<Longrightarrow> sorted_wrt (\<lambda>x y. P x y \<and> Q x y) xs"
  by (induction xs) auto

lemma sorted_wrt_pair:
  assumes "sorted_wrt P xs" "x \<in> set xs" "y \<in> set xs" "x \<noteq> y"
  shows "P x y \<or> P y x"
  using assms by (induction xs) auto

lemma drained_first:
  assumes pl: "planSteps gs amt (pool now b gs) = (steps, out)" and "0 < amt"
    and i: "i < length gs" "eligible now b (gs ! i)" and j: "j < length gs"
    and before: "spent_before (gs ! i) (gs ! j)" and tj: "0 < taken steps j"
  shows "taken steps i = g_AmountRemaining (gs ! i)"
proof -
  have pos: "\<forall>p \<in> set (pool now b gs). 0 < g_AmountRemaining (gs ! i_i p)"
    using pool_memD by (auto simp: eligible_def)
  from tj have "j \<in> fst ` set steps" using taken_absent [of j steps] by auto
  then have "eligible now b (gs ! j)" using pool_plan(2) [OF pl \<open>0 < amt\<close>] by auto
  let ?p = "poolEntry i (gs ! i)" and ?q = "poolEntry j (gs ! j)"
  have mem: "?p \<in> set (pool now b gs)" "?q \<in> set (pool now b gs)"
    using i j \<open>eligible now b (gs ! j)\<close> by (auto intro: pool_memI)
  have less: "poolLess gs ?p ?q" using before by (simp add: poolLess_entries)
  then have neq: "?p \<noteq> ?q" using pool_order.asym by metis
  have "sorted_wrt (\<lambda>a c. \<not> poolLess gs c a \<and> (0 < taken steps (i_i c) \<longrightarrow>
    taken steps (i_i a) = g_AmountRemaining (gs ! i_i a))) (pool now b gs)"
    using sorted_pool plan_fifo [OF pl _ pos distinct_pool] \<open>0 < amt\<close>
    by (intro sorted_wrt_conj) (simp_all add: pool_def)
  from sorted_wrt_pair [OF this mem neq] less tj show ?thesis by auto
qed

text \<open>The earliest expiry among the grants a balance counts.\<close>

definition earliest :: "time option list \<Rightarrow> time option" where
  "earliest es = (if List.map_filter (\<lambda>e. e) es = [] then None
                  else Some (Min (set (List.map_filter (\<lambda>e. e) es))))"

lemma balanceLoop_next:
  "b_NextExpiry (balanceLoop now b gs bal) =
     earliest (b_NextExpiry bal # map g_ExpiresAt (filter (eligible now b) gs))"
proof (induction now b gs bal rule: balanceLoop.induct)
  case (2 now b g gs bal)
  have "earliest (x # y # es) = earliest ((case y of None \<Rightarrow> x | Some e \<Rightarrow>
      (case x of None \<Rightarrow> Some e | Some n \<Rightarrow> if e < n then Some e else Some n)) # es)" for x y es
    by (cases "List.map_filter (\<lambda>e. e) es = []")
       (auto simp: earliest_def map_filter_simps min_def split: option.split)
  with 2 show ?case by (auto simp: eligible_iff)
qed (simp add: earliest_def map_filter_simps split: option.split)

lemma expiryCount_acc:
  "expiryCount now gs (n, c) =
     (n + int (length (filter (\<lambda>g. expired now g \<and> 0 < g_AmountRemaining g) gs)),
      if filter (\<lambda>g. expired now g \<and> 0 < g_AmountRemaining g) gs = [] then c else
      wrap64 (c + sum_list (map g_AmountRemaining (filter (\<lambda>g. expired now g \<and> 0 < g_AmountRemaining g) gs))))"
  by (induction now gs "(n, c)" arbitrary: n c rule: expiryCount.induct) (auto simp: ac_simps)


lemma all_grants_ticks [simp]: "all_grants (r\<lparr>ticks := n\<rparr>) = all_grants r"
  by (simp add: all_grants_def)

lemma revokeMark_fields [simp]:
  "g_ID (revokeMark reason stamp g) = g_ID g"
  "g_AmountRemaining (revokeMark reason stamp g) = 0"
  "map_of (g_Metadata (revokeMark reason stamp g)) ''revoked_reason'' = Some reason"
  by (simp_all add: revokeMark_def)

text \<open>Every entry of the dedup index names a grant the ledger holds, under that grant's own key.\<close>

definition seen_ok :: "memoryRepo \<Rightarrow> bool" where
  "seen_ok r \<longleftrightarrow> (\<forall>k gid. map_of (seenGrant r) k = Some gid \<longrightarrow>
     (\<exists>g \<in> set (all_grants r). g_ID g = gid \<and> grantKey g = k \<and> g_SourceRef g \<noteq> ''''))"

lemma seen_ok_keeps:
  assumes "seen_ok r" and "keeps r r'" and "keys_ok r" and "seenGrant r' = seenGrant r"
  shows "seen_ok r'"
  unfolding seen_ok_def
proof (intro allI impI)
  fix k gid assume "map_of (seenGrant r') k = Some gid"
  with assms(1,4) obtain g where g: "g \<in> set (all_grants r)" "g_ID g = gid" "grantKey g = k" "g_SourceRef g \<noteq> ''''"
    unfolding seen_ok_def by metis
  then obtain h where "h \<in> set (grants r' (g_SubjectID g))" "same_grant g h"
    using assms(2) all_in_grants [OF assms(3)] unfolding keeps_def by blast
  with g show "\<exists>g \<in> set (all_grants r'). g_ID g = gid \<and> grantKey g = k \<and> g_SourceRef g \<noteq> ''''"
    by (intro bexI [of _ h]) (auto simp: same_grant_def grantKey_def intro: grants_in_all)
qed

lemma seen_ok_Grant:
  assumes "ledger_inv r" and "seen_ok r"
  shows "seen_ok (snd (memoryRepo_Grant inp r))"
proof (cases rule: Grant_cases [of inp r])
  case (fresh g)
  have all: "set (all_grants (snd (memoryRepo_Grant inp r))) = insert g (set (all_grants r))"
    using fresh(3) set_all_grants_added [of r g] assms(1) by (simp add: ledger_inv_def all_grants_def)
  have key: "grantDedupKey inp \<noteq> '''' \<Longrightarrow> grantKey g = grantDedupKey inp \<and> g_SourceRef g \<noteq> ''''"
    using fresh(2) by (auto simp: grantDedupKey_def grantKey_def mkGrant_def split: if_splits)
  show ?thesis
    using assms(2) key unfolding seen_ok_def all by (auto simp: fresh(3) added_def)
qed (use assms in simp)

lemma ledger_step_seen: "ledger_step r r' \<Longrightarrow> ledger_inv r \<Longrightarrow> seen_ok r \<Longrightarrow> seen_ok r'"
proof -
  assume st: "ledger_step r r'" and inv: "ledger_inv r" and ok: "seen_ok r"
  have keep: "keeps r r'" "keys_ok r" using ledger_step_keeps [OF st inv] inv by (simp_all add: ledger_inv_def)
  from st show ?thesis
  proof cases
    case (grant inp)
    with inv ok show ?thesis by (simp add: facade_states seen_ok_Grant)
  next
    case (try_deduct inp)
    have "seenGrant r' = seenGrant r"
    proof (cases "di_Amount inp \<le> 0 \<or> di_RequestID inp = ''''")
      case False
      then have "0 < di_Amount inp" by simp
      with False try_deduct show ?thesis
        by (elim TryDeduct_state [of inp r]) (simp_all add: facade_states debited_def)
    qed (use try_deduct in \<open>auto simp: facade_states\<close>)
    with ok keep show ?thesis by (rule seen_ok_keeps)
  next
    case (all_balances s)
    then have "seenGrant r' = seenGrant r"
      using allBalances_state [of s "remdups (map g_Bucket (grants r s))" "[]" r]
      by (auto simp: memoryRepo_AllBalances_def)
    with ok keep show ?thesis by (rule seen_ok_keeps)
  next
    case (revoke rfc gid reason)
    then have "seenGrant r' = seenGrant r"
      using inv by (auto simp: facade_states RevokeGrant_state ledger_inv_def regrant_def)
    with ok keep show ?thesis by (rule seen_ok_keeps)
  next
    case (balance s b)
    then have "seenGrant r' = seenGrant r" by (simp add: memoryRepo_Balance_def)
    with ok keep show ?thesis by (rule seen_ok_keeps)
  next
    case run_expiry
    then have "seenGrant r' = seenGrant r" by (simp add: RunExpiry_state regrant_def)
    with ok keep show ?thesis by (rule seen_ok_keeps)
  qed
qed

lemma reachable_seen: "ledger_reachable r \<Longrightarrow> seen_ok r"
proof -
  assume "ledger_reachable r"
  then obtain clk rnd where "inj rnd" and run: "ledger_step\<^sup>*\<^sup>* (NewMemoryRepoWithClock clk rnd) r"
    by (auto simp: ledger_reachable_def)
  from run have "ledger_inv r \<and> seen_ok r"
  proof (induction rule: rtranclp_induct)
    case base
    show ?case using inv_new [OF \<open>inj rnd\<close>] by (simp add: seen_ok_def NewMemoryRepoWithClock_def)
  qed (blast intro: ledger_step_inv ledger_step_seen)
  then show ?thesis by simp
qed

lemma grantSeen_sound:
  assumes "ledger_inv r" and "seen_ok r" and "all_bar_free r" and "grantSeen inp r = Some g"
    and "bar_free (gi_SubjectID inp)" and "bar_free (gi_Bucket inp)"
  shows "g \<in> set (all_grants r) \<and> matches inp g"
proof -
  obtain gid where key: "grantDedupKey inp \<noteq> ''''" and seen: "map_of (seenGrant r) (grantDedupKey inp) = Some gid"
    and fnd: "find (\<lambda>g. g_ID g = gid) (grants r (gi_SubjectID inp)) = Some g"
    using assms(4) by (auto simp: grantSeen_def split: if_splits option.splits)
  from fnd have g: "g \<in> set (all_grants r)" "g_ID g = gid" by (auto simp: find_Some_iff intro!: grants_in_all [OF nth_mem])
  from assms(2) seen obtain h where h: "h \<in> set (all_grants r)" "g_ID h = gid" "grantKey h = grantDedupKey inp"
    unfolding seen_ok_def by blast
  have "inj_on g_ID (set (all_grants r))" using assms(1) by (simp add: ledger_inv_def ids_ok_def distinct_map)
  with g h have "h = g" by (simp add: inj_on_def)
  with g h assms(3,5,6) key grantKey_inj [of g inp] show ?thesis
    by (auto simp: all_bar_free_def grantDedupKey_def split: if_splits)
qed

subsection \<open>Guarantees\<close>

text \<open>C1: No run of the ledger overdraws a grant. In every state that facade calls build from an empty
  repo, each grant keeps a non-negative remainder, the remainder plus everything ever debited against
  the grant is at most what was granted, and each debit row is positive and names an existing grant of
  the same subject and bucket. The random source is assumed not to repeat a draw.\<close>

theorem ledger_never_overdrawn:
  assumes "inj rnd" and "ledger_step\<^sup>*\<^sup>* (NewMemoryRepoWithClock clk rnd) r"
  shows "(\<forall>g \<in> set (all_grants r). 0 \<le> g_AmountRemaining g \<and>
            g_AmountRemaining g + debits (all_deductions r) (g_ID g) \<le> g_AmountInitial g) \<and>
         (\<forall>d \<in> set (all_deductions r). 0 < de_Amount d \<and>
            (\<exists>g \<in> set (all_grants r). g_ID g = de_GrantID d \<and> g_SubjectID g = de_SubjectID d \<and>
               g_Bucket g = de_Bucket d))"
  using ledger_steps_inv [OF assms(2) inv_new [OF assms(1)]]
  by (simp add: ledger_inv_def grant_ok_def debit_ok_def)

text \<open>C2: A new deduction is exact and all-or-nothing. It succeeds exactly when the live credit of the
  bucket covers the amount; then that credit drops by the amount, the debit rows appended for the
  subject add up to it, and nobody else's grants or rows change. Otherwise no grant and no row changes.\<close>

theorem TryDeduct_exact:
  assumes "ledger_reachable r" and "0 < di_Amount inp" and "\<not> requestSeen inp r"
    and "memoryRepo_TryDeduct inp r = ((ok, bal), r')"
  shows "(ok \<longleftrightarrow> di_Amount inp \<le> available (clock r (ticks r)) (di_Bucket inp) (grants r (di_SubjectID inp))) \<and>
    (if ok
     then available (clock r (ticks r)) (di_Bucket inp) (grants r' (di_SubjectID inp)) =
            available (clock r (ticks r)) (di_Bucket inp) (grants r (di_SubjectID inp)) - di_Amount inp \<and>
          (\<exists>new. deductions r' (di_SubjectID inp) = deductions r (di_SubjectID inp) @ new \<and>
             sum_list (map de_Amount new) = di_Amount inp) \<and>
          (\<forall>s. s \<noteq> di_SubjectID inp \<longrightarrow> grants r' s = grants r s \<and> deductions r' s = deductions r s)
     else bySubject r' = bySubject r \<and> deductionBySubject r' = deductionBySubject r)"
proof (cases "available (clock r (ticks r)) (di_Bucket inp) (grants r (di_SubjectID inp)) < di_Amount inp")
  case True
  from TryDeduct_short [OF assms(3,2) this] assms(4) True show ?thesis by auto
next
  case False
  note inv = reachable_inv [OF assms(1)]
  from False obtain steps where
    pl: "planSteps (grants r (di_SubjectID inp)) (di_Amount inp)
       (pool (clock r (ticks r)) (di_Bucket inp) (grants r (di_SubjectID inp))) = (steps, 0)"
    and ok: "ok" "r' = debited inp (clock r (ticks r)) steps r"
    using assms(4) by (elim TryDeduct_ok [OF assms(3,2) leI]) auto
  have sum: "sum_list (map snd steps) = di_Amount inp" using pool_plan(3) [OF pl assms(2)] by simp
  have "available (clock r (ticks r)) (di_Bucket inp) (grants r' (di_SubjectID inp)) =
    available (clock r (ticks r)) (di_Bucket inp) (grants r (di_SubjectID inp)) - di_Amount inp"
    using available_debited [OF plan_fits [OF inv assms(2) pl]] sum ok by simp
  with False ok sum show ?thesis by (simp add: planDeductions_total)
qed

text \<open>C3: Credit is spent soonest-to-expire first. When a new deduction draws anything from one of the
  subject's grants, every live grant of the bucket that expires earlier (or equally early and was granted
  earlier; never-expiring grants come last) has been drained to zero.\<close>

theorem TryDeduct_fifo:
  assumes "ledger_reachable r" and "0 < di_Amount inp" and "\<not> requestSeen inp r"
    and "memoryRepo_TryDeduct inp r = ((True, bal), r')"
    and "i < length (grants r (di_SubjectID inp))" and "j < length (grants r (di_SubjectID inp))"
    and "eligible (clock r (ticks r)) (di_Bucket inp) (grants r (di_SubjectID inp) ! i)"
    and "spent_before (grants r (di_SubjectID inp) ! i) (grants r (di_SubjectID inp) ! j)"
    and "g_AmountRemaining (grants r' (di_SubjectID inp) ! j) < g_AmountRemaining (grants r (di_SubjectID inp) ! j)"
  shows "g_AmountRemaining (grants r' (di_SubjectID inp) ! i) = 0"
proof -
  let ?gs = "grants r (di_SubjectID inp)" and ?now = "clock r (ticks r)"
  have "\<not> available ?now (di_Bucket inp) ?gs < di_Amount inp"
    using TryDeduct_short [OF assms(3,2)] assms(4) by auto
  then obtain steps where pl: "planSteps ?gs (di_Amount inp) (pool ?now (di_Bucket inp) ?gs) = (steps, 0)"
    and r': "r' = debited inp ?now steps r"
    using assms(4) by (elim TryDeduct_ok [OF assms(3,2) leI]) auto
  have "0 < taken steps j" using assms(6,9) by (simp add: r')
  then have "taken steps i = g_AmountRemaining (?gs ! i)"
    using drained_first [OF pl assms(2,5,7,6,8)] by simp
  with assms(5) show ?thesis by (simp add: r')
qed

text \<open>C4: A request is charged once. After a deduction with a request id has succeeded, whatever the
  ledger does next, a further deduction for that subject and request id reports success and moves
  nothing: only the clock is read.\<close>

theorem TryDeduct_idempotent:
  assumes "ledger_reachable r" and "0 < di_Amount inp" and "di_RequestID inp \<noteq> ''''"
    and "memoryRepo_TryDeduct inp r = ((True, bal), r1)" and "ledger_step\<^sup>*\<^sup>* r1 r2"
    and "di_SubjectID inp' = di_SubjectID inp" and "di_RequestID inp' = di_RequestID inp"
  shows "\<exists>bal'. memoryRepo_TryDeduct inp' r2 = ((True, bal'), r2\<lparr>ticks := Suc (ticks r2)\<rparr>)"
proof -
  have inv: "ledger_inv r1" using inv_TryDeduct [OF reachable_inv [OF assms(1)] assms(2)] assms(4) by simp
  have "requestSeen inp r1"
  proof (cases "requestSeen inp r")
    case True
    from TryDeduct_dup [OF this] True assms(4) show ?thesis by (auto simp: requestSeen_def)
  next
    case False
    then have "\<not> available (clock r (ticks r)) (di_Bucket inp) (grants r (di_SubjectID inp)) < di_Amount inp"
      using TryDeduct_short [OF False assms(2)] assms(4) by auto
    then show ?thesis
      using assms(3,4) by (elim TryDeduct_ok [OF False assms(2) leI]) (auto simp: requestSeen_def debited_def)
  qed
  moreover have "keeps r1 r2" by (rule ledger_steps_keeps [OF assms(5) inv])
  ultimately have "requestSeen inp' r2"
    using assms(6,7) by (auto simp: requestSeen_def keeps_def deductDedupKey_def)
  then show ?thesis by (rule TryDeduct_dup)
qed

text \<open>A source reference is credited once. In a ledger whose subjects and buckets contain no bar,
  a grant for a (subject, bucket, source reference) that an earlier grant already carries returns that
  grant, as it is now, and changes nothing, whatever happened in between; otherwise exactly one grant
  with the input's amount is appended for the subject.\<close>

lemma Grant_idempotent:
  assumes "ledger_reachable r" and "all_bar_free r" and "gi_SourceRef inp \<noteq> ''''"
    and "bar_free (gi_SubjectID inp)" and "bar_free (gi_Bucket inp)"
  shows "(\<exists>g \<in> set (all_grants r). matches inp g \<and> memoryRepo_Grant inp r = (g, r)) \<or>
    (\<forall>g \<in> set (all_grants r). \<not> matches inp g) \<and>
    (\<exists>g r'. memoryRepo_Grant inp r = (g, r') \<and> matches inp g \<and>
       g_AmountInitial g = gi_Amount inp \<and> g_AmountRemaining g = gi_Amount inp \<and>
       grants r' (gi_SubjectID inp) = grants r (gi_SubjectID inp) @ [g] \<and>
       (\<forall>s. s \<noteq> gi_SubjectID inp \<longrightarrow> grants r' s = grants r s))"
proof (cases rule: Grant_cases [of inp r])
  case (seen g)
  then show ?thesis
    using grantSeen_sound [OF reachable_inv [OF assms(1)] reachable_seen [OF assms(1)] assms(2) _ assms(4,5)]
    by blast
next
  case (fresh g)
  have "key_ok r" using reachable_key_inv [OF assms(1)] assms(2) by (simp add: key_inv_def)
  then have "\<forall>h \<in> set (all_grants r). \<not> matches inp h"
    using grantSeen_hit [OF reachable_inv [OF assms(1)] _ _ _ assms(3)] fresh(1) by auto
  moreover have "matches inp g" using fresh(2) by (simp add: mkGrant_def matches_def)
  ultimately show ?thesis using fresh by (auto simp: mkGrant_def added_def)
qed

text \<open>A balance is the live credit of the bucket: the wrapped 64-bit sum of what the subject's
  positive, unexpired grants of that bucket have left, with their number and the earliest of their
  expiries; and as long as the sum fits in 64 bits, access is granted exactly when such a grant exists
  and the total is the number of credits a deduction could take.\<close>

lemma Balance_live_credit:
  assumes "available (clock r (ticks r)) b (grants r s) \<le> MaxInt64"
  shows "b_Total (fst (memoryRepo_Balance s b r)) = available (clock r (ticks r)) b (grants r s) \<and>
    b_GrantCount (fst (memoryRepo_Balance s b r)) =
      int (length (filter (eligible (clock r (ticks r)) b) (grants r s))) \<and>
    b_NextExpiry (fst (memoryRepo_Balance s b r)) =
      earliest (map g_ExpiresAt (filter (eligible (clock r (ticks r)) b) (grants r s))) \<and>
    fst (credits_HasAccess s b r) = (\<exists>g \<in> set (grants r s). eligible (clock r (ticks r)) b g)"
proof -
  have "in64 (available (clock r (ticks r)) b (grants r s))"
    using assms available_nonneg [of "clock r (ticks r)" b "grants r s"] by (simp add: in64_def MaxInt64_def)
  then have tot: "b_Total (fst (memoryRepo_Balance s b r)) = available (clock r (ticks r)) b (grants r s)"
    by (simp add: memoryRepo_Balance_def balanceLocked_total)
  moreover have "fst (credits_HasAccess s b r) \<longleftrightarrow> 0 < b_Total (fst (memoryRepo_Balance s b r))"
    by (simp add: credits_HasAccess_def case_prod_beta)
  ultimately show ?thesis
    by (simp add: memoryRepo_Balance_def balanceLocked_def env_defs balanceLoop_count balanceLoop_next
        available_pos earliest_def map_filter_simps)
qed

text \<open>Expiry sweeps exactly the expired credit. Every grant past its expiry ends with nothing left and
  every other grant is untouched, so no deduction at that instant is affected; the reported numbers are
  how many grants lost credit and (in 64-bit arithmetic) how much; a second sweep at the same instant
  would find nothing.\<close>

lemma RunExpiry_sweeps:
  assumes "ledger_reachable r" and "memoryRepo_RunExpiry r = ((n, c), r')"
  shows "(\<forall>s. grants r' s = map (\<lambda>g. if expired (clock r (ticks r)) g then g\<lparr>g_AmountRemaining := 0\<rparr> else g)
                (grants r s)) \<and>
    (\<forall>s b. available (clock r (ticks r)) b (grants r' s) = available (clock r (ticks r)) b (grants r s)) \<and>
    n = int (length (filter (\<lambda>g. expired (clock r (ticks r)) g \<and> 0 < g_AmountRemaining g) (all_grants r))) \<and>
    c = wrap64 (sum_list (map g_AmountRemaining
          (filter (\<lambda>g. expired (clock r (ticks r)) g \<and> 0 < g_AmountRemaining g) (all_grants r)))) \<and>
    expiryCount (clock r (ticks r)) (all_grants r') (0, 0) = (0, 0)"
proof -
  let ?now = "clock r (ticks r)"
  have r': "r' = (regrant (expireGrant ?now) r)\<lparr>ticks := Suc (ticks r)\<rparr>"
    using RunExpiry_state [of r] assms(2) by simp
  have nn: "0 \<le> g_AmountRemaining g" if "g \<in> set (grants r s)" for g s
    using grants_nonneg [OF reachable_inv [OF assms(1)] that] .
  have map: "map (expireGrant ?now) (grants r s) =
    map (\<lambda>g. if expired ?now g then g\<lparr>g_AmountRemaining := 0\<rparr> else g) (grants r s)" for s
    using nn by (intro map_cong refl) (fastforce simp: expireGrant_def)
  have gr: "grants r' s = map (expireGrant ?now) (grants r s)" for s by (simp add: r')
  have el: "eligible ?now b (expireGrant ?now g) \<longleftrightarrow> eligible ?now b g" for b g
    by (auto simp: eligible_def expireGrant_def)
  have "available ?now b (map (expireGrant ?now) gs) = available ?now b gs" for b gs
    by (induction gs) (auto simp: available_def el, simp add: eligible_def expireGrant_def)
  then have "available ?now b (grants r' s) = available ?now b (grants r s)" for b s by (simp only: gr)
  moreover have "all_grants r' = map (expireGrant ?now) (all_grants r)"
    by (simp add: r' all_grants_def regrant_def map_concat comp_def case_prod_beta)
  then have "filter (\<lambda>g. expired ?now g \<and> 0 < g_AmountRemaining g) (all_grants r') = []"
    by (auto simp: filter_empty_conv expireGrant_def split: if_splits)
  then have "expiryCount ?now (all_grants r') (0, 0) = (0, 0)"
    unfolding expiryCount_acc by simp
  moreover have "(n, c) = expiryCount ?now (all_grants r) (0, 0)"
    using assms(2) by (simp add: memoryRepo_RunExpiry_def env_defs all_grants_def)
  then have "n = int (length (filter (\<lambda>g. expired ?now g \<and> 0 < g_AmountRemaining g) (all_grants r))) \<and>
    c = wrap64 (sum_list (map g_AmountRemaining (filter (\<lambda>g. expired ?now g \<and> 0 < g_AmountRemaining g) (all_grants r))))"
    unfolding expiryCount_acc by (auto simp: in64_def)
  moreover have "grants r' s = map (\<lambda>g. if expired ?now g then g\<lparr>g_AmountRemaining := 0\<rparr> else g) (grants r s)" for s
    by (simp only: gr map)
  ultimately show ?thesis by blast
qed

text \<open>Revoking a grant zeroes that grant alone and keeps the audit trail: the grant stays, with the
  reason and a time stamp in its metadata, no other grant changes and no debit row changes. An
  unknown id changes nothing.\<close>

lemma RevokeGrant_zeroes_one:
  assumes "ledger_reachable r"
  shows "all_grants (memoryRepo_RevokeGrant rfc gid reason r) =
      map (\<lambda>g. if g_ID g = gid then revokeMark reason (rfc (clock r (ticks r))) g else g) (all_grants r) \<and>
    deductionBySubject (memoryRepo_RevokeGrant rfc gid reason r) = deductionBySubject r \<and>
    (\<forall>g \<in> set (all_grants (memoryRepo_RevokeGrant rfc gid reason r)). g_ID g = gid \<longrightarrow>
       g_AmountRemaining g = 0 \<and> map_of (g_Metadata g) ''revoked_reason'' = Some reason)"
proof -
  let ?f = "only_id gid (revokeMark reason (rfc (clock r (ticks r))))"
  have gr: "all_grants (memoryRepo_RevokeGrant rfc gid reason r) = map ?f (all_grants r)"
    using reachable_inv [OF assms] map_only_id_absent [of gid "all_grants r"]
    by (simp add: ledger_inv_def RevokeGrant_state)
  have de: "deductionBySubject (memoryRepo_RevokeGrant rfc gid reason r) = deductionBySubject r"
    using reachable_inv [OF assms] by (simp add: ledger_inv_def RevokeGrant_state regrant_def)
  show ?thesis unfolding gr de by (simp add: only_id_def ball_Un)
qed

text \<open>The history of a subject is complete and in time order: it is a rearrangement of one entry per
  grant and one per debit row since the given instant, and no entry is followed by an earlier one.\<close>

lemma History_complete_sorted:
  "mset (memoryRepo_History s since r) =
     mset (map grantEntry (filter (\<lambda>g. since \<le> g_GrantedAt g) (grants r s))) +
     mset (map deductionEntry (filter (\<lambda>d. since \<le> de_CreatedAt d) (deductions r s))) \<and>
   sorted (map le_Timestamp (memoryRepo_History s since r))"
proof -
  have "sorted_wrt (\<lambda>a b. \<not> le_Timestamp b < le_Timestamp a) (memoryRepo_History s since r)"
    unfolding memoryRepo_History_def by (rule history_order.sorted_sort_slice)
  then have "sorted (map le_Timestamp (memoryRepo_History s since r))"
    by (simp add: sorted_map not_less)
  then show ?thesis by (simp add: memoryRepo_History_def not_less)
qed

text \<open>C5: The facade's outcomes. A deduction with a non-positive amount or without a request id is refused
  before the ledger is touched; a new one that the live credit does not cover reports insufficient
  credit and moves nothing; every other one reports no error.\<close>

theorem Deduct_outcomes:
  assumes "ledger_reachable r"
  shows "case credits_Deduct inp r of ((bal, err), r') \<Rightarrow>
    if di_Amount inp \<le> 0 then err = Some ErrDeductAmountNotPositive \<and> r' = r
    else if di_RequestID inp = '''' then err = Some ErrRequestIDRequired \<and> r' = r
    else if \<not> requestSeen inp r \<and>
      available (clock r (ticks r)) (di_Bucket inp) (grants r (di_SubjectID inp)) < di_Amount inp
    then err = Some ErrInsufficientCredit \<and> r' = r\<lparr>ticks := ticks r + 2\<rparr>
    else err = None"
proof (cases "di_Amount inp \<le> 0 \<or> di_RequestID inp = ''''")
  case True
  then show ?thesis by (auto simp: credits_Deduct_def credits_TryDeduct_def)
next
  case False
  then have pos: "0 < di_Amount inp" by simp
  have eq: "credits_Deduct inp r = (case memoryRepo_TryDeduct inp r of
    ((ok, bal), r') \<Rightarrow> ((bal, if \<not> ok then Some ErrInsufficientCredit else None), r'))"
    using False by (auto simp: credits_Deduct_def credits_TryDeduct_def split: prod.splits)
  show ?thesis
  proof (cases "requestSeen inp r")
    case True
    with TryDeduct_dup [OF True] False show ?thesis by (auto simp: eq)
  next
    case new: False
    show ?thesis
    proof (cases "available (clock r (ticks r)) (di_Bucket inp) (grants r (di_SubjectID inp)) < di_Amount inp")
      case True
      with TryDeduct_short [OF new pos True] new False show ?thesis by (auto simp: eq)
    next
      case ge: False
      then obtain bal r' where "memoryRepo_TryDeduct inp r = ((True, bal), r')"
        by (elim TryDeduct_ok [OF new pos leI])
      with ge new False show ?thesis by (simp add: eq)
    qed
  qed
qed

text \<open>The dedup key of a deduction joins subject and request id with a bar, so two subjects can share a
  key when a bar occurs in an id. A deduction of one subject is then reported as done although nothing
  was taken from that subject: here the second subject has credit, is told its request succeeded, and
  keeps the whole credit.\<close>

definition collide_repo :: memoryRepo where
  "collide_repo =
     snd (credits_Grant \<lparr>gi_SubjectID = ''u|v'', gi_Bucket = ''api'', gi_Amount = 5, gi_ValidDays = 0,
            gi_Source = '''', gi_SourceRef = '''', gi_Metadata = []\<rparr>
     (snd (credits_Grant \<lparr>gi_SubjectID = ''u'', gi_Bucket = ''api'', gi_Amount = 5, gi_ValidDays = 0,
            gi_Source = '''', gi_SourceRef = '''', gi_Metadata = []\<rparr>
        (NewMemoryRepoWithClock int (\<lambda>n. replicate n CHR ''a'')))))"

lemma TryDeduct_key_collision:
  "(case credits_Deduct \<lparr>di_SubjectID = ''u'', di_Bucket = ''api'', di_Amount = 1, di_Reason = '''',
            di_RequestID = ''v|w'', di_Metadata = []\<rparr> collide_repo of
      ((_, err1), r1) \<Rightarrow>
        (case credits_Deduct \<lparr>di_SubjectID = ''u|v'', di_Bucket = ''api'', di_Amount = 3, di_Reason = '''',
                di_RequestID = ''w'', di_Metadata = []\<rparr> r1 of
           ((bal, err2), r2) \<Rightarrow> err1 = None \<and> err2 = None \<and> b_Total bal = 5 \<and>
             deductions r2 ''u|v'' = []))"
  by code_simp

subsection \<open>Witnesses\<close>

definition demo_grant :: "string \<Rightarrow> int \<Rightarrow> int \<Rightarrow> GrantInput" where
  "demo_grant ref n days = \<lparr>gi_SubjectID = ''u'', gi_Bucket = ''api'', gi_Amount = n, gi_ValidDays = days,
     gi_Source = SourceStripePayment, gi_SourceRef = ref, gi_Metadata = []\<rparr>"

definition demo_deduct :: "int \<Rightarrow> DeductInput" where
  "demo_deduct n = \<lparr>di_SubjectID = ''u'', di_Bucket = ''api'', di_Amount = n, di_Reason = ''call'',
     di_RequestID = ''q1'', di_Metadata = []\<rparr>"

definition demo_new :: memoryRepo where
  "demo_new = NewMemoryRepoWithClock int (\<lambda>n. replicate n CHR ''a'')"

definition demo_repo :: memoryRepo where
  "demo_repo = snd (credits_Grant (demo_grant ''pi_2'' 5 1) (snd (credits_Grant (demo_grant ''pi_1'' 5 0) demo_new)))"

lemma demo_rand_inj: "inj (\<lambda>n. replicate n CHR ''a'')"
  by (rule injI) (metis length_replicate)

lemma demo_run: "ledger_step\<^sup>*\<^sup>* demo_new demo_repo"
  unfolding demo_repo_def by (meson ledger_step.grant converse_rtranclp_into_rtranclp r_into_rtranclp)

lemma demo_reachable: "ledger_reachable demo_repo"
  unfolding ledger_reachable_def using demo_run demo_rand_inj unfolding demo_new_def by blast

theorem ledger_never_overdrawn_witness:
  "length (all_grants demo_repo) = 2 \<and> list_all (\<lambda>g. 0 \<le> g_AmountRemaining g \<and>
     g_AmountRemaining g + debits (all_deductions demo_repo) (g_ID g) \<le> g_AmountInitial g) (all_grants demo_repo)"
proof
  show "length (all_grants demo_repo) = 2" by code_simp
  show "list_all (\<lambda>g. 0 \<le> g_AmountRemaining g \<and>
     g_AmountRemaining g + debits (all_deductions demo_repo) (g_ID g) \<le> g_AmountInitial g) (all_grants demo_repo)"
    using ledger_never_overdrawn [OF demo_rand_inj demo_run [unfolded demo_new_def]] by (simp add: list_all_iff)
qed

lemma demo_deduct_simps [simp]:
  "di_SubjectID (demo_deduct n) = ''u''" "di_Bucket (demo_deduct n) = ''api''"
  "di_Amount (demo_deduct n) = n" "di_RequestID (demo_deduct n) = ''q1''"
  by (simp_all add: demo_deduct_def)

lemma demo_grant_simps [simp]:
  "gi_SubjectID (demo_grant ref n days) = ''u''" "gi_Bucket (demo_grant ref n days) = ''api''"
  "gi_SourceRef (demo_grant ref n days) = ref"
  by (simp_all add: demo_grant_def)

lemma demo_deducted:
  obtains bal where "memoryRepo_TryDeduct (demo_deduct 7) demo_repo =
    ((True, bal), snd (memoryRepo_TryDeduct (demo_deduct 7) demo_repo))"
proof -
  have "fst (fst (memoryRepo_TryDeduct (demo_deduct 7) demo_repo)) = True" by code_simp
  then show thesis using that by (metis prod.collapse)
qed

lemma demo_new_request: "\<not> requestSeen (demo_deduct 7) demo_repo"
  by code_simp

theorem TryDeduct_exact_witness:
  "available (clock demo_repo (ticks demo_repo)) ''api''
     (grants (snd (memoryRepo_TryDeduct (demo_deduct 7) demo_repo)) ''u'') = 3"
proof (rule demo_deducted)
  fix bal
  assume d: "memoryRepo_TryDeduct (demo_deduct 7) demo_repo =
    ((True, bal), snd (memoryRepo_TryDeduct (demo_deduct 7) demo_repo))"
  have "available (clock demo_repo (ticks demo_repo)) ''api'' (grants demo_repo ''u'') = 10" by code_simp
  then show ?thesis using TryDeduct_exact [OF demo_reachable _ demo_new_request d] by simp
qed

theorem TryDeduct_fifo_witness:
  "g_AmountRemaining (grants (snd (memoryRepo_TryDeduct (demo_deduct 7) demo_repo)) ''u'' ! 1) = 0"
proof (rule demo_deducted)
  fix bal
  assume d: "memoryRepo_TryDeduct (demo_deduct 7) demo_repo =
    ((True, bal), snd (memoryRepo_TryDeduct (demo_deduct 7) demo_repo))"
  have "1 < length (grants demo_repo ''u'')" "0 < length (grants demo_repo ''u'')"
    and "eligible (clock demo_repo (ticks demo_repo)) ''api'' (grants demo_repo ''u'' ! 1)"
    and "spent_before (grants demo_repo ''u'' ! 1) (grants demo_repo ''u'' ! 0)"
    and "g_AmountRemaining (grants (snd (memoryRepo_TryDeduct (demo_deduct 7) demo_repo)) ''u'' ! 0)
      < g_AmountRemaining (grants demo_repo ''u'' ! 0)"
    by code_simp+
  then show ?thesis using TryDeduct_fifo [OF demo_reachable _ demo_new_request d, of 1 0] by simp
qed

theorem TryDeduct_idempotent_witness:
  "\<exists>bal. memoryRepo_TryDeduct (demo_deduct 9) (snd (memoryRepo_TryDeduct (demo_deduct 7) demo_repo)) =
     ((True, bal), (snd (memoryRepo_TryDeduct (demo_deduct 7) demo_repo))
        \<lparr>ticks := Suc (ticks (snd (memoryRepo_TryDeduct (demo_deduct 7) demo_repo)))\<rparr>)"
proof (rule demo_deducted)
  fix bal
  assume d: "memoryRepo_TryDeduct (demo_deduct 7) demo_repo =
    ((True, bal), snd (memoryRepo_TryDeduct (demo_deduct 7) demo_repo))"
  show ?thesis by (rule TryDeduct_idempotent [OF demo_reachable _ _ d]) simp_all
qed

lemma Grant_idempotent_instance:
  "\<exists>g \<in> set (all_grants demo_repo). memoryRepo_Grant (demo_grant ''pi_1'' 8 0) demo_repo = (g, demo_repo)"
proof -
  have "all_bar_free demo_repo" and "bar_free ''u''" and "bar_free ''api''"
    and "\<not> (\<forall>g \<in> set (all_grants demo_repo). \<not> matches (demo_grant ''pi_1'' 8 0) g)"
    by code_simp+
  then show ?thesis
    using Grant_idempotent [OF demo_reachable, of "demo_grant ''pi_1'' 8 0"] by auto
qed

lemma Balance_live_credit_instance:
  "b_Total (fst (memoryRepo_Balance ''u'' ''api'' demo_repo)) = 10"
proof -
  have "available (clock demo_repo (ticks demo_repo)) ''api'' (grants demo_repo ''u'') = 10" by code_simp
  then show ?thesis using Balance_live_credit [of demo_repo "''api''" "''u''"] by (simp add: MaxInt64_def)
qed

lemma RunExpiry_sweeps_instance:
  "expiryCount (clock demo_repo (ticks demo_repo)) (all_grants (snd (memoryRepo_RunExpiry demo_repo))) (0, 0) = (0, 0)"
  using RunExpiry_sweeps [OF demo_reachable] by (metis prod.collapse)

lemma RevokeGrant_zeroes_one_instance:
  "map g_AmountRemaining (all_grants (memoryRepo_RevokeGrant (\<lambda>_. ''now'') ''gr_a'' ''refund'' demo_repo)) = [5, 0]"
proof -
  have "map (\<lambda>g. if g_ID g = ''gr_a'' then 0 else g_AmountRemaining g) (all_grants demo_repo) = [5, 0]"
    by code_simp
  moreover have "all_grants (memoryRepo_RevokeGrant (\<lambda>_. ''now'') ''gr_a'' ''refund'' demo_repo) =
    map (\<lambda>g. if g_ID g = ''gr_a'' then revokeMark ''refund'' ''now'' g else g) (all_grants demo_repo)"
    using RevokeGrant_zeroes_one [OF demo_reachable, of "\<lambda>_. ''now''" "''gr_a''" "''refund''"] by blast
  moreover have "g_AmountRemaining \<circ> (\<lambda>g. if g_ID g = ''gr_a'' then revokeMark ''refund'' ''now'' g else g) =
    (\<lambda>g. if g_ID g = ''gr_a'' then 0 else g_AmountRemaining g)"
    by (simp add: fun_eq_iff)
  ultimately show ?thesis by simp
qed

theorem Deduct_outcomes_witness:
  "snd (fst (credits_Deduct (demo_deduct 70) demo_repo)) = Some ErrInsufficientCredit"
proof -
  have "\<not> requestSeen (demo_deduct 70) demo_repo"
    and "available (clock demo_repo (ticks demo_repo)) ''api'' (grants demo_repo ''u'') < 70" by code_simp+
  then show ?thesis using Deduct_outcomes [OF demo_reachable, of "demo_deduct 70"] by (simp add: case_prod_beta)
qed

end
