(* ===== verification/Go_JSON.thy ===== *)
theory Go_JSON
  imports Go_Prelude
begin

text \<open>
  The part of \<open>encoding/json\<close> the sources use: a parser from bytes to trees, the decoding rules of
  \<open>json.Unmarshal\<close> for the field types that occur (strings, integers, maps of strings, pointers,
  slices, \<open>any\<close>), and the compact printer of \<open>json.Marshal\<close>, with the round trip of printing and parsing.

  The parser is recursive descent with fuel; \<open>json_parse\<close> gives it one more than the input's length,
  which \<open>json_parse_fuel\<close> shows to be enough. Bytes above \<open>0x7f\<close> are passed through, which is what Go does on valid
  UTF-8. The scanner's nesting limit of 10000 is not modelled.
\<close>

subsection \<open>Trees and the parser\<close>

datatype json =
    JNull
  | JBool bool
  | JNum string
  | JStr string
  | JArr "json list"
  | JObj "(string \<times> json) list"

abbreviation DQ :: char where "DQ \<equiv> CHR 0x22"
abbreviation BS :: char where "BS \<equiv> CHR 0x5C"

definition isWs :: "char \<Rightarrow> bool" where
  "isWs c \<longleftrightarrow> c = CHR '' '' \<or> c = CHR 0x09 \<or> c = CHR 0x0A \<or> c = CHR 0x0D"

definition skipWs :: "string \<Rightarrow> string" where
  "skipWs s = dropWhile isWs s"

definition hexVal :: "char \<Rightarrow> nat option" where
  "hexVal c =
     (let n = of_char c :: nat
      in if 48 \<le> n \<and> n \<le> 57 then Some (n - 48)
         else if 97 \<le> n \<and> n \<le> 102 then Some (n - 87)
         else if 65 \<le> n \<and> n \<le> 70 then Some (n - 55)
         else None)"

fun hex4 :: "string \<Rightarrow> (nat \<times> string) option" where
  "hex4 (a # b # c # d # r) =
     (case (hexVal a, hexVal b, hexVal c, hexVal d) of
        (Some w, Some x, Some y, Some z) \<Rightarrow> Some (4096 * w + 256 * x + 16 * y + z, r)
      | _ \<Rightarrow> None)"
| "hex4 _ = None"

definition utf8 :: "nat \<Rightarrow> string" where
  "utf8 n =
     (if n < 0x80 then [char_of n]
      else if n < 0x800 then [char_of (0xC0 + n div 64), char_of (0x80 + n mod 64)]
      else if n < 0x10000 then
        [char_of (0xE0 + n div 4096), char_of (0x80 + n div 64 mod 64), char_of (0x80 + n mod 64)]
      else [char_of (0xF0 + n div 262144), char_of (0x80 + n div 4096 mod 64),
            char_of (0x80 + n div 64 mod 64), char_of (0x80 + n mod 64)])"

definition unescape :: "char \<Rightarrow> char option" where
  "unescape c =
     (if c = DQ \<or> c = BS \<or> c = CHR ''/'' then Some c
      else if c = CHR ''b'' then Some (CHR 0x08)
      else if c = CHR ''f'' then Some (CHR 0x0C)
      else if c = CHR ''n'' then Some (CHR 0x0A)
      else if c = CHR ''r'' then Some (CHR 0x0D)
      else if c = CHR ''t'' then Some (CHR 0x09)
      else None)"

text \<open>The code point after \<open>\u\<close>: a surrogate pair is joined, a lone surrogate is replaced.\<close>

definition codePoint :: "string \<Rightarrow> (nat \<times> string) option" where
  "codePoint s =
     (case hex4 s of
        None \<Rightarrow> None
      | Some (n, r) \<Rightarrow>
          if n < 0xD800 \<or> 0xE000 \<le> n then Some (n, r)
          else (case r of
                  b # u # r2 \<Rightarrow>
                    if b = BS \<and> u = CHR ''u'' then
                      (case hex4 r2 of
                         Some (m, r3) \<Rightarrow>
                           if n < 0xDC00 \<and> 0xDC00 \<le> m \<and> m < 0xE000
                           then Some (0x10000 + (n - 0xD800) * 1024 + (m - 0xDC00), r3)
                           else Some (0xFFFD, r)
                       | None \<Rightarrow> Some (0xFFFD, r))
                    else Some (0xFFFD, r)
                | _ \<Rightarrow> Some (0xFFFD, r)))"

lemma hex4_length: "hex4 s = Some (n, r) \<Longrightarrow> length r < length s"
  by (induction s rule: hex4.induct) (auto split: option.splits)

lemma codePoint_length: "codePoint s = Some (n, r) \<Longrightarrow> length r < length s"
  by (fastforce simp: codePoint_def split: option.splits if_splits list.splits prod.splits dest: hex4_length)

text \<open>The rest of a string literal after its opening quote.\<close>

function strBody :: "string \<Rightarrow> (string \<times> string) option" where
  "strBody s =
     (case s of
        [] \<Rightarrow> None
      | c # cs \<Rightarrow>
          if c = DQ then Some ([], cs)
          else if c = BS then
            (case cs of
               [] \<Rightarrow> None
             | e # r \<Rightarrow>
                 if e = CHR ''u'' then
                   (case codePoint r of
                      None \<Rightarrow> None
                    | Some (n, r') \<Rightarrow> map_option (\<lambda>(t, z). (utf8 n @ t, z)) (strBody r'))
                 else (case unescape e of
                         None \<Rightarrow> None
                       | Some x \<Rightarrow> map_option (\<lambda>(t, z). (x # t, z)) (strBody r)))
          else if (of_char c :: nat) < 32 then None
          else map_option (\<lambda>(t, z). (c # t, z)) (strBody cs))"
  by pat_completeness auto

termination
  by (relation "measure length") (auto dest!: codePoint_length)

declare strBody.simps [simp del]

lemmas strBody_unfold = strBody.simps

text \<open>Numbers keep their literal text.\<close>

definition spanDigits :: "string \<Rightarrow> string \<times> string" where
  "spanDigits s = (takeWhile isDigit s, dropWhile isDigit s)"

definition numFrac :: "string \<Rightarrow> (string \<times> string) option" where
  "numFrac s =
     (case s of
        c # r \<Rightarrow> if c = CHR ''.''
                  then (let (ds, r') = spanDigits r in if ds = [] then None else Some (c # ds, r'))
                  else Some ([], s)
      | [] \<Rightarrow> Some ([], s))"

definition numExp :: "string \<Rightarrow> (string \<times> string) option" where
  "numExp s =
     (case s of
        c # r \<Rightarrow>
          if c = CHR ''e'' \<or> c = CHR ''E'' then
            (let (sg, r1) = (case r of x # xs \<Rightarrow> if x = CHR ''+'' \<or> x = CHR ''-'' then ([x], xs) else ([], r)
                              | [] \<Rightarrow> ([], r));
                 (ds, r2) = spanDigits r1
             in if ds = [] then None else Some (c # sg @ ds, r2))
          else Some ([], s)
      | [] \<Rightarrow> Some ([], s))"

definition pNum :: "string \<Rightarrow> (string \<times> string) option" where
  "pNum s =
     (let (sg, s1) = (case s of c # r \<Rightarrow> if c = CHR ''-'' then ([c], r) else ([], s) | [] \<Rightarrow> ([], s));
          (ds, s2) = (case s1 of c # r \<Rightarrow> if c = CHR ''0'' then ([c], r) else spanDigits s1 | [] \<Rightarrow> ([], s1))
      in if ds = [] then None
         else case numFrac s2 of
           None \<Rightarrow> None
         | Some (fr, s3) \<Rightarrow>
             (case numExp s3 of None \<Rightarrow> None | Some (ex, s4) \<Rightarrow> Some (sg @ ds @ fr @ ex, s4)))"

definition pLit :: "string \<Rightarrow> json \<Rightarrow> string \<Rightarrow> (json \<times> string) option" where
  "pLit w v s = (if HasPrefix s w then Some (v, drop (length w) s) else None)"

fun pValue :: "nat \<Rightarrow> string \<Rightarrow> (json \<times> string) option"
  and pElems :: "nat \<Rightarrow> string \<Rightarrow> (json list \<times> string) option"
  and pMembers :: "nat \<Rightarrow> string \<Rightarrow> ((string \<times> json) list \<times> string) option" where
  "pValue 0 s = None"
| "pValue (Suc n) s =
     (case skipWs s of
        [] \<Rightarrow> None
      | c # cs \<Rightarrow>
          if c = DQ then map_option (\<lambda>(t, r). (JStr t, r)) (strBody cs)
          else if c = CHR ''['' then
            (case skipWs cs of
               [] \<Rightarrow> None
             | d # r \<Rightarrow> if d = CHR '']'' then Some (JArr [], r)
                        else map_option (\<lambda>(vs, r). (JArr vs, r)) (pElems n (d # r)))
          else if c = CHR ''{'' then
            (case skipWs cs of
               [] \<Rightarrow> None
             | d # r \<Rightarrow> if d = CHR ''}'' then Some (JObj [], r)
                        else map_option (\<lambda>(ms, r). (JObj ms, r)) (pMembers n (d # r)))
          else if c = CHR ''t'' then pLit ''true'' (JBool True) (c # cs)
          else if c = CHR ''f'' then pLit ''false'' (JBool False) (c # cs)
          else if c = CHR ''n'' then pLit ''null'' JNull (c # cs)
          else map_option (\<lambda>(t, r). (JNum t, r)) (pNum (c # cs)))"
| "pElems 0 s = None"
| "pElems (Suc n) s =
     (case pValue n s of
        None \<Rightarrow> None
      | Some (v, r) \<Rightarrow>
          (case skipWs r of
             [] \<Rightarrow> None
           | c # r' \<Rightarrow>
               if c = CHR '','' then map_option (\<lambda>(vs, z). (v # vs, z)) (pElems n r')
               else if c = CHR '']'' then Some ([v], r')
               else None))"
| "pMembers 0 s = None"
| "pMembers (Suc n) s =
     (case skipWs s of
        [] \<Rightarrow> None
      | q # cs \<Rightarrow>
          if q \<noteq> DQ then None
          else (case strBody cs of
             None \<Rightarrow> None
           | Some (k, r) \<Rightarrow>
               (case skipWs r of
                  [] \<Rightarrow> None
                | c # r1 \<Rightarrow>
                    if c \<noteq> CHR '':'' then None
                    else (case pValue n r1 of
                       None \<Rightarrow> None
                     | Some (v, r2) \<Rightarrow>
                         (case skipWs r2 of
                            [] \<Rightarrow> None
                          | d # r3 \<Rightarrow>
                              if d = CHR '','' then map_option (\<lambda>(ms, z). ((k, v) # ms, z)) (pMembers n r3)
                              else if d = CHR ''}'' then Some ([(k, v)], r3)
                              else None)))))"

definition json_parse :: "string \<Rightarrow> json option" where
  "json_parse s =
     (case pValue (Suc (length s)) s of
        None \<Rightarrow> None
      | Some (v, r) \<Rightarrow> if skipWs r = [] then Some v else None)"


subsection \<open>The fuel is enough\<close>

lemma skipWs_length: "length (skipWs s) \<le> length s"
  by (simp add: skipWs_def length_dropWhile_le)

lemma skipWs_Cons_length: "skipWs s = c # r \<Longrightarrow> length r < length s"
  using skipWs_length [of s] by simp

lemma strBody_length: "strBody s = Some (t, r) \<Longrightarrow> length r < length s"
proof (induction "length s" arbitrary: s t r rule: less_induct)
  case less
  note IH = less.hyps
  from less.prems obtain c cs where s: "s = c # cs"
    by (subst (asm) strBody_unfold) (auto split: list.splits)
  consider "c = DQ" "r = cs" | e q n q' t' where "c = BS" "cs = e # q" "codePoint q = Some (n, q')" "strBody q' = Some (t', r)"
    | e q t' where "c = BS" "cs = e # q" "strBody q = Some (t', r)" | t' where "strBody cs = Some (t', r)"
    using less.prems unfolding s by (subst (asm) strBody_unfold) (auto split: list.splits if_splits option.splits)
  then show ?case
  proof cases
    case (2 e q n q' t')
    have "length q' < length q" by (rule codePoint_length [OF 2(3)])
    then have "length q' < length s" using 2 s by simp
    from IH [OF this 2(4)] this show ?thesis by simp
  next
    case (3 e q t')
    then have "length q < length s" using s by simp
    from IH [OF this 3(3)] this show ?thesis by simp
  next
    case (4 t')
    have "length cs < length s" using s by simp
    from IH [OF this 4] this show ?thesis by simp
  qed (simp add: s)
qed

lemma spanDigits_length: "spanDigits s = (ds, r) \<Longrightarrow> length r + length ds = length s"
  unfolding spanDigits_def by (metis Pair_inject add.commute length_append takeWhile_dropWhile_id)

lemma numFrac_length: "numFrac s = Some (ds, r) \<Longrightarrow> length r \<le> length s"
  by (auto simp: numFrac_def Let_def split: list.splits if_splits prod.splits dest!: spanDigits_length)

lemma numExp_length: "numExp s = Some (ds, r) \<Longrightarrow> length r \<le> length s"
  by (auto simp: numExp_def Let_def split: list.splits if_splits prod.splits dest!: spanDigits_length)

lemma pNum_length: "pNum s = Some (t, r) \<Longrightarrow> length r < length s"
  by (auto simp: pNum_def Let_def split: list.splits if_splits prod.splits option.splits
      dest!: spanDigits_length numFrac_length numExp_length simp flip: length_greater_0_conv)

lemma pLit_length: "pLit w v s = Some (x, r) \<Longrightarrow> w \<noteq> [] \<Longrightarrow> length r < length s"
  by (auto simp: pLit_def HasPrefix_iff split: if_splits)

lemmas parse_lengths = skipWs_Cons_length strBody_length pNum_length pLit_length

lemma parse_progress_step:
  assumes "\<And>s v r. pValue n s = Some (v, r) \<Longrightarrow> length r < length s"
    and "\<And>s v r. pElems n s = Some (v, r) \<Longrightarrow> length r < length s"
    and "\<And>s v r. pMembers n s = Some (v, r) \<Longrightarrow> length r < length s"
  shows "pValue (Suc n) s = Some (v, r) \<Longrightarrow> length r < length s"
    and "pElems (Suc n) s = Some (vs, r) \<Longrightarrow> length r < length s"
    and "pMembers (Suc n) s = Some (ms, r) \<Longrightarrow> length r < length s"
  subgoal by (auto split: list.splits if_splits dest!: parse_lengths assms)
  subgoal by (auto split: list.splits if_splits option.splits dest!: parse_lengths assms)
  subgoal by (auto split: list.splits if_splits option.splits dest!: parse_lengths assms)
  done

lemma parse_progress:
  "(\<forall>s v r. pValue n s = Some (v, r) \<longrightarrow> length r < length s) \<and>
   (\<forall>s v r. pElems n s = Some (v, r) \<longrightarrow> length r < length s) \<and>
   (\<forall>s v r. pMembers n s = Some (v, r) \<longrightarrow> length r < length s)"
proof (induction n)
  case (Suc n)
  then show ?case using parse_progress_step [of n] by blast
qed simp

lemmas progress = parse_progress [THEN conjunct1, rule_format]
  parse_progress [THEN conjunct2, THEN conjunct1, rule_format]
  parse_progress [THEN conjunct2, THEN conjunct2, rule_format]

lemma pValue_SomeE:
  assumes "pValue (Suc n) s = Some (v, r)"
  obtains (arr) cs d q vs where "skipWs s = CHR ''['' # cs" "skipWs cs = d # q" "d \<noteq> CHR '']''"
      "pElems n (d # q) = Some (vs, r)" "v = JArr vs"
  | (obj) cs d q ms where "skipWs s = CHR ''{'' # cs" "skipWs cs = d # q" "d \<noteq> CHR ''}''"
      "pMembers n (d # q) = Some (ms, r)" "v = JObj ms"
  | (flat) "\<And>m. pValue (Suc m) s = Some (v, r)"
  using assms by (auto split: list.splits if_splits)

lemma pElems_SomeE:
  assumes "pElems (Suc n) s = Some (vs, r)"
  obtains (last) v q where "pValue n s = Some (v, q)" "skipWs q = CHR '']'' # r" "vs = [v]"
  | (more) v q q' ws where "pValue n s = Some (v, q)" "skipWs q = CHR '','' # q'"
      "pElems n q' = Some (ws, r)" "vs = v # ws"
  using assms by (auto split: list.splits if_splits option.splits)

lemma pMembers_SomeE:
  assumes "pMembers (Suc n) s = Some (ms, r)"
  obtains (last) cs k q q1 v q2 where "skipWs s = DQ # cs" "strBody cs = Some (k, q)"
      "skipWs q = CHR '':'' # q1" "pValue n q1 = Some (v, q2)" "skipWs q2 = CHR ''}'' # r" "ms = [(k, v)]"
  | (more) cs k q q1 v q2 q3 ws where "skipWs s = DQ # cs" "strBody cs = Some (k, q)"
      "skipWs q = CHR '':'' # q1" "pValue n q1 = Some (v, q2)" "skipWs q2 = CHR '','' # q3"
      "pMembers n q3 = Some (ws, r)" "ms = (k, v) # ws"
  using assms by (auto split: list.splits if_splits option.splits)

lemma parse_fuel_step:
  assumes V: "\<And>s v r m. pValue n s = Some (v, r) \<Longrightarrow> length s \<le> length r + m \<Longrightarrow> pValue m s = Some (v, r)"
    and E: "\<And>s v r m. pElems n s = Some (v, r) \<Longrightarrow> length s \<le> length r + m \<Longrightarrow> pElems m s = Some (v, r)"
    and M: "\<And>s v r m. pMembers n s = Some (v, r) \<Longrightarrow> length s \<le> length r + m \<Longrightarrow> pMembers m s = Some (v, r)"
  shows "pValue (Suc n) s = Some (v, r) \<Longrightarrow> length s \<le> length r + Suc m \<Longrightarrow> pValue (Suc m) s = Some (v, r)"
    and "pElems (Suc n) s = Some (vs, r) \<Longrightarrow> length s \<le> length r + Suc m \<Longrightarrow> pElems (Suc m) s = Some (vs, r)"
    and "pMembers (Suc n) s = Some (ms, r) \<Longrightarrow> length s \<le> length r + Suc m \<Longrightarrow> pMembers (Suc m) s = Some (ms, r)"
proof -
  assume p: "pValue (Suc n) s = Some (v, r)" and m: "length s \<le> length r + Suc m"
  from p show "pValue (Suc m) s = Some (v, r)"
  proof (cases rule: pValue_SomeE)
    case (arr cs d q vs)
    have "pElems m (d # q) = Some (vs, r)"
      using m parse_lengths(1) [OF arr(1)] parse_lengths(1) [OF arr(2)] by (intro E [OF arr(4)]) simp
    with arr show ?thesis by simp
  next
    case (obj cs d q ms)
    have "pMembers m (d # q) = Some (ms, r)"
      using m parse_lengths(1) [OF obj(1)] parse_lengths(1) [OF obj(2)] by (intro M [OF obj(4)]) simp
    with obj show ?thesis by simp
  qed
next
  assume p: "pElems (Suc n) s = Some (vs, r)" and m: "length s \<le> length r + Suc m"
  from p show "pElems (Suc m) s = Some (vs, r)"
  proof (cases rule: pElems_SomeE)
    case (last v q)
    have "pValue m s = Some (v, q)" using m parse_lengths(1) [OF last(2)] by (intro V [OF last(1)]) simp
    with last show ?thesis by simp
  next
    case (more v q q' ws)
    note len = parse_lengths(1) [OF more(2)] progress(2) [OF more(3)] progress(1) [OF more(1)]
    have "pValue m s = Some (v, q)" "pElems m q' = Some (ws, r)"
      using m len by (intro V [OF more(1)] E [OF more(3)]; simp)+
    with more show ?thesis by simp
  qed
next
  assume p: "pMembers (Suc n) s = Some (ms, r)" and m: "length s \<le> length r + Suc m"
  from p show "pMembers (Suc m) s = Some (ms, r)"
  proof (cases rule: pMembers_SomeE)
    case (last cs k q q1 v q2)
    note len = parse_lengths(1) [OF last(1)] parse_lengths(2) [OF last(2)]
      parse_lengths(1) [OF last(3)] parse_lengths(1) [OF last(5)]
    have "pValue m q1 = Some (v, q2)" using m len by (intro V [OF last(4)]) simp
    with last show ?thesis by simp
  next
    case (more cs k q q1 v q2 q3 ws)
    note len = parse_lengths(1) [OF more(1)] parse_lengths(2) [OF more(2)]
      parse_lengths(1) [OF more(3)] progress(1) [OF more(4)] parse_lengths(1) [OF more(5)] progress(3) [OF more(6)]
    have "pValue m q1 = Some (v, q2)" "pMembers m q3 = Some (ws, r)"
      using m len by (intro V [OF more(4)] M [OF more(6)]; simp)+
    with more show ?thesis by simp
  qed
qed

lemma parse_fuel:
  "(\<forall>s v r m. pValue n s = Some (v, r) \<longrightarrow> length s \<le> length r + m \<longrightarrow> pValue m s = Some (v, r)) \<and>
   (\<forall>s v r m. pElems n s = Some (v, r) \<longrightarrow> length s \<le> length r + m \<longrightarrow> pElems m s = Some (v, r)) \<and>
   (\<forall>s v r m. pMembers n s = Some (v, r) \<longrightarrow> length s \<le> length r + m \<longrightarrow> pMembers m s = Some (v, r))"
proof (induction n)
  case (Suc n)
  note IH = Suc [THEN conjunct1, rule_format] Suc [THEN conjunct2, THEN conjunct1, rule_format]
    Suc [THEN conjunct2, THEN conjunct2, rule_format]
  have pos: "\<exists>k. m = Suc k" if "length s \<le> length r + m" "length r < length s" for m and r s :: string
    using that by (cases m) auto
  show ?case
  proof (intro conjI allI impI)
    fix s v r m
    assume p: "pValue (Suc n) s = Some (v, r)" and m: "length s \<le> length r + m"
    then obtain k where "m = Suc k" using pos progress(1) by blast
    with parse_fuel_step(1) [OF IH p, of k] m show "pValue m s = Some (v, r)" by simp
  next
    fix s v r m
    assume p: "pElems (Suc n) s = Some (v, r)" and m: "length s \<le> length r + m"
    then obtain k where "m = Suc k" using pos progress(2) by blast
    with parse_fuel_step(2) [OF IH p, of k] m show "pElems m s = Some (v, r)" by simp
  next
    fix s v r m
    assume p: "pMembers (Suc n) s = Some (v, r)" and m: "length s \<le> length r + m"
    then obtain k where "m = Suc k" using pos progress(3) by blast
    with parse_fuel_step(3) [OF IH p, of k] m show "pMembers m s = Some (v, r)" by simp
  qed
qed simp

text \<open>A document that parses with any fuel is what \<open>json_parse\<close> returns.\<close>

lemma json_parse_fuel:
  assumes "pValue n s = Some (v, r)" and "skipWs r = []"
  shows "json_parse s = Some v"
proof -
  have "pValue (Suc (length s)) s = Some (v, r)"
    by (rule parse_fuel [of n, THEN conjunct1, rule_format, OF assms(1)]) simp
  with assms(2) show ?thesis by (simp add: json_parse_def del: pValue.simps)
qed

subsection \<open>Decoding rules\<close>

text \<open>
  Each rule takes the tree and the value already in the target; \<open>None\<close> is an
  \<open>UnmarshalTypeError\<close>. A JSON \<open>null\<close> leaves scalars and structs as they are and clears maps. Object
  members are applied in order, matched against the field tag without regard to ASCII case (all tags
  of the sources are lower case), unknown members are ignored.
\<close>

definition lowerChar :: "char \<Rightarrow> char" where
  "lowerChar c = (let n = of_char c :: nat in if 65 \<le> n \<and> n \<le> 90 then char_of (n + 32) else c)"

definition lower :: "string \<Rightarrow> string" where
  "lower s = map lowerChar s"

definition dString :: "json \<Rightarrow> string \<Rightarrow> string option" where
  "dString j old = (case j of JNull \<Rightarrow> Some old | JStr s \<Rightarrow> Some s | _ \<Rightarrow> None)"

definition dInt :: "json \<Rightarrow> int \<Rightarrow> int option" where
  "dInt j old = (case j of JNull \<Rightarrow> Some old | JNum t \<Rightarrow> ParseInt t | _ \<Rightarrow> None)"

definition dBool :: "json \<Rightarrow> bool \<Rightarrow> bool option" where
  "dBool j old = (case j of JNull \<Rightarrow> Some old | JBool b \<Rightarrow> Some b | _ \<Rightarrow> None)"

fun dStrMembers :: "(string \<times> json) list \<Rightarrow> (string, string) gomap \<Rightarrow> (string, string) gomap option" where
  "dStrMembers [] m = Some m"
| "dStrMembers ((k, v) # ms) m =
     (case dString v '''' of None \<Rightarrow> None | Some s \<Rightarrow> dStrMembers ms (mset_key k s m))"

definition dStrMap :: "json \<Rightarrow> (string, string) gomap \<Rightarrow> (string, string) gomap option" where
  "dStrMap j old = (case j of JNull \<Rightarrow> Some [] | JObj ms \<Rightarrow> dStrMembers ms old | _ \<Rightarrow> None)"

fun dMembers :: "(string \<Rightarrow> json \<Rightarrow> 'a \<Rightarrow> 'a option) \<Rightarrow> (string \<times> json) list \<Rightarrow> 'a \<Rightarrow> 'a option" where
  "dMembers fld [] x = Some x"
| "dMembers fld ((k, v) # ms) x = (case fld (lower k) v x of None \<Rightarrow> None | Some x' \<Rightarrow> dMembers fld ms x')"

definition dStruct :: "(string \<Rightarrow> json \<Rightarrow> 'a \<Rightarrow> 'a option) \<Rightarrow> json \<Rightarrow> 'a \<Rightarrow> 'a option" where
  "dStruct fld j old = (case j of JNull \<Rightarrow> Some old | JObj ms \<Rightarrow> dMembers fld ms old | _ \<Rightarrow> None)"

definition dPtr :: "'a \<Rightarrow> (json \<Rightarrow> 'a \<Rightarrow> 'a option) \<Rightarrow> json \<Rightarrow> 'a option \<Rightarrow> 'a option option" where
  "dPtr z dec j old =
     (case j of
        JNull \<Rightarrow> Some None
      | _ \<Rightarrow> map_option Some (dec j (case old of None \<Rightarrow> z | Some x \<Rightarrow> x)))"

fun dElems :: "'a \<Rightarrow> (json \<Rightarrow> 'a \<Rightarrow> 'a option) \<Rightarrow> json list \<Rightarrow> 'a list option" where
  "dElems z dec [] = Some []"
| "dElems z dec (j # js) =
     (case dec j z of None \<Rightarrow> None | Some x \<Rightarrow> map_option ((#) x) (dElems z dec js))"

definition dSlice :: "'a \<Rightarrow> (json \<Rightarrow> 'a \<Rightarrow> 'a option) \<Rightarrow> json \<Rightarrow> 'a list option" where
  "dSlice z dec j = (case j of JNull \<Rightarrow> Some [] | JArr js \<Rightarrow> dElems z dec js | _ \<Rightarrow> None)"

text \<open>\<open>json.Unmarshal\<close> of a document into a target.\<close>

definition Unmarshal :: "(json \<Rightarrow> 'a \<Rightarrow> 'a option) \<Rightarrow> string \<Rightarrow> 'a \<Rightarrow> 'a option" where
  "Unmarshal dec s old = (case json_parse s of None \<Rightarrow> None | Some j \<Rightarrow> dec j old)"

subsection \<open>Printing strings\<close>

definition hexDigit :: "nat \<Rightarrow> char" where
  "hexDigit n = (if n < 10 then char_of (48 + n) else char_of (87 + n))"

definition encChar :: "char \<Rightarrow> string" where
  "encChar c =
     (let n = of_char c :: nat
      in if c = DQ \<or> c = BS then [BS, c]
         else if n = 8 then [BS, CHR ''b'']
         else if n = 12 then [BS, CHR ''f'']
         else if n = 10 then [BS, CHR ''n'']
         else if n = 13 then [BS, CHR ''r'']
         else if n = 9 then [BS, CHR ''t'']
         else if n < 32 \<or> c = CHR ''<'' \<or> c = CHR ''>'' \<or> c = CHR ''&''
           then [BS, CHR ''u'', CHR ''0'', CHR ''0'', hexDigit (n div 16), hexDigit (n mod 16)]
         else [c])"

definition encString :: "string \<Rightarrow> string" where
  "encString s = DQ # concat (map encChar s) @ [DQ]"

definition ascii :: "string \<Rightarrow> bool" where
  "ascii s \<longleftrightarrow> (\<forall>c \<in> set s. (of_char c :: nat) < 128)"

lemma hexVal_hexDigit: "n < 16 \<Longrightarrow> hexVal (hexDigit n) = Some n"
  by (auto simp: hexVal_def hexDigit_def Let_def)

lemma hex4_enc:
  assumes "n < 128"
  shows "codePoint (CHR ''0'' # CHR ''0'' # hexDigit (n div 16) # hexDigit (n mod 16) # r) = Some (n, r)"
proof -
  have "hexVal (hexDigit (n div 16)) = Some (n div 16)" "hexVal (hexDigit (n mod 16)) = Some (n mod 16)"
    using assms by (simp_all add: hexVal_hexDigit)
  moreover have "hexVal (CHR ''0'') = Some 0" by (simp add: hexVal_def)
  ultimately show ?thesis using assms by (simp add: codePoint_def)
qed

lemma strBody_encChar:
  assumes "(of_char c :: nat) < 128"
  shows "strBody (encChar c @ r) = map_option (\<lambda>(t, z). (c # t, z)) (strBody r)"
proof -
  have eqs: "(of_char c :: nat) = 8 \<Longrightarrow> c = CHR 0x08" "(of_char c :: nat) = 12 \<Longrightarrow> c = CHR 0x0C"
    "(of_char c :: nat) = 10 \<Longrightarrow> c = CHR 0x0A" "(of_char c :: nat) = 13 \<Longrightarrow> c = CHR 0x0D"
    "(of_char c :: nat) = 9 \<Longrightarrow> c = CHR 0x09"
    by (rule of_char_eq_iff [where ?'a = nat, THEN iffD1], simp)+
  show ?thesis
    by (subst strBody_unfold)
       (auto simp: encChar_def Let_def unescape_def hex4_enc [OF assms] utf8_def assms dest!: eqs)
qed

lemma strBody_encString:
  "ascii s \<Longrightarrow> strBody (concat (map encChar s) @ DQ # r) = Some (s, r)"
proof (induction s)
  case (Cons c s)
  then show ?case by (simp add: ascii_def strBody_encChar)
qed (subst strBody_unfold, simp)

subsection \<open>Printing trees\<close>

text \<open>The compact form \<open>json.Marshal\<close> prints.\<close>

fun prJson :: "json \<Rightarrow> string" and prElems :: "json list \<Rightarrow> string" and prMembers :: "(string \<times> json) list \<Rightarrow> string" where
  "prJson JNull = ''null''"
| "prJson (JBool b) = (if b then ''true'' else ''false'')"
| "prJson (JNum t) = t"
| "prJson (JStr s) = encString s"
| "prJson (JArr js) = CHR ''['' # prElems js @ '']''"
| "prJson (JObj ms) = CHR ''{'' # prMembers ms @ ''}''"
| "prElems [] = ''''"
| "prElems (j # js) = prJson j @ (if js = [] then '''' else CHR '','' # prElems js)"
| "prMembers [] = ''''"
| "prMembers ((k, v) # ms) =
     encString k @ CHR '':'' # prJson v @ (if ms = [] then '''' else CHR '','' # prMembers ms)"

text \<open>What may follow a value in a compact document.\<close>

definition delim :: "string \<Rightarrow> bool" where
  "delim r \<longleftrightarrow> (case r of [] \<Rightarrow> True | c # _ \<Rightarrow> c = CHR '','' \<or> c = CHR '']'' \<or> c = CHR ''}'')"

definition numLit :: "string \<Rightarrow> bool" where
  "numLit t \<longleftrightarrow> t \<noteq> [] \<and> (hd t = CHR ''-'' \<or> isDigit (hd t)) \<and> (\<forall>r. delim r \<longrightarrow> pNum (t @ r) = Some (t, r))"

fun wfJson :: "json \<Rightarrow> bool" where
  "wfJson (JStr s) = ascii s"
| "wfJson (JNum t) = numLit t"
| "wfJson (JArr js) = (\<forall>j \<in> set js. wfJson j)"
| "wfJson (JObj ms) = (\<forall>(k, v) \<in> set ms. ascii k \<and> wfJson v)"
| "wfJson _ = True"

lemma delim_Cons [simp]: "delim (CHR '','' # r)" "delim (CHR '']'' # r)" "delim (CHR ''}'' # r)" "delim []"
  by (simp_all add: delim_def)

lemma skipWs_id: "c \<noteq> CHR '' '' \<Longrightarrow> c \<noteq> CHR 0x09 \<Longrightarrow> c \<noteq> CHR 0x0A \<Longrightarrow> c \<noteq> CHR 0x0D \<Longrightarrow> skipWs (c # r) = c # r"
  by (simp add: skipWs_def isWs_def)

lemma numStart_neq:
  assumes "c = CHR ''-'' \<or> isDigit c"
  shows "c \<noteq> CHR '' '' \<and> c \<noteq> CHR 0x09 \<and> c \<noteq> CHR 0x0A \<and> c \<noteq> CHR 0x0D \<and> c \<noteq> DQ \<and>
   c \<noteq> CHR ''['' \<and> c \<noteq> CHR '']'' \<and> c \<noteq> CHR ''{'' \<and> c \<noteq> CHR ''t'' \<and> c \<noteq> CHR ''f'' \<and> c \<noteq> CHR ''n''"
  using assms
proof
  assume "isDigit c"
  then show ?thesis by (auto simp: isDigit_def)
qed simp

lemma pValue_num:
  assumes "numLit t" and "delim r"
  shows "pValue (Suc n) (t @ r) = Some (JNum t, r)"
proof -
  obtain c cs where t: "t = c # cs" using assms(1) by (cases t) (auto simp: numLit_def)
  have p: "pNum (c # cs @ r) = Some (c # cs, r)" using assms by (simp add: numLit_def t)
  have "c = CHR ''-'' \<or> isDigit c" using assms(1) by (simp add: numLit_def t)
  note neq = numStart_neq [OF this]
  then have "skipWs (c # cs @ r) = c # cs @ r" by (intro skipWs_id) simp_all
  with p neq show ?thesis by (simp add: t)
qed

lemma pValue_str: "ascii s \<Longrightarrow> pValue (Suc n) (encString s @ r) = Some (JStr s, r)"
  by (simp add: encString_def skipWs_id strBody_encString)

lemma prJson_start: "wfJson j \<Longrightarrow> \<exists>c cs. prJson j = c # cs \<and> c \<noteq> CHR '']'' \<and> (\<forall>r. skipWs (c # r) = c # r)"
proof (cases j)
  case (JNum t)
  assume "wfJson j"
  with JNum obtain c cs where t: "t = c # cs" "c = CHR ''-'' \<or> isDigit c" by (cases t) (auto simp: numLit_def)
  note neq = numStart_neq [OF t(2)]
  then have "skipWs (c # r) = c # r" for r by (intro skipWs_id) simp_all
  with JNum t(1) neq show ?thesis by simp
qed (auto simp: encString_def skipWs_id)

lemma pr_roundtrip:
  "wfJson j \<Longrightarrow> delim r \<Longrightarrow> length (prJson j) \<le> m \<Longrightarrow> pValue m (prJson j @ r) = Some (j, r)"
  "\<forall>j \<in> set js. wfJson j \<Longrightarrow> js \<noteq> [] \<Longrightarrow> length (prElems js) < m \<Longrightarrow>
     pElems m (prElems js @ CHR '']'' # r) = Some (js, r)"
  "\<forall>(k, v) \<in> set ms. ascii k \<and> wfJson v \<Longrightarrow> ms \<noteq> [] \<Longrightarrow> length (prMembers ms) < m \<Longrightarrow>
     pMembers m (prMembers ms @ CHR ''}'' # r) = Some (ms, r)"
proof (induction j and js and ms arbitrary: r m and r m and r m rule: prJson_prElems_prMembers.induct)
  case 1
  then obtain k where "m = Suc k" by (cases m) auto
  then show ?case by (simp add: skipWs_id pLit_def HasPrefix_def)
next
  case (2 b)
  then obtain k where "m = Suc k" by (cases m) (auto split: if_splits)
  then show ?case by (simp add: skipWs_id pLit_def HasPrefix_def)
next
  case (3 t)
  then obtain k where "m = Suc k" by (cases m) (auto simp: numLit_def)
  with 3 show ?case by (simp add: pValue_num del: pValue.simps)
next
  case (4 s)
  then obtain k where "m = Suc k" by (cases m) (auto simp: encString_def)
  with 4 show ?case by (simp add: pValue_str del: pValue.simps)
next
  case (5 js)
  then obtain k where m: "m = Suc k" by (cases m) auto
  show ?case
  proof (cases js)
    case Nil
    with m show ?thesis by (simp add: skipWs_id)
  next
    case (Cons j js')
    then obtain c cs where c: "prJson j = c # cs" "c \<noteq> CHR '']''" "\<And>r. skipWs (c # r) = c # r"
      using prJson_start [of j] "5.prems"(1) by fastforce
    have "pElems k (prElems js @ CHR '']'' # r) = Some (js, r)"
      using 5 m Cons by auto
    then show ?thesis using c by (simp add: m Cons skipWs_id)
  qed
next
  case (6 ms)
  then obtain k where m: "m = Suc k" by (cases m) auto
  show ?case
  proof (cases ms)
    case Nil
    with m show ?thesis by (simp add: skipWs_id)
  next
    case (Cons p ms')
    have "pMembers k (prMembers ms @ CHR ''}'' # r) = Some (ms, r)"
      using 6 m Cons by auto
    then show ?thesis by (cases p) (simp add: m Cons skipWs_id encString_def)
  qed
next
  case (8 j js)
  then obtain k where m: "m = Suc k" by (cases m) auto
  show ?case
  proof (cases "js = []")
    case True
    have "pValue k (prJson j @ CHR '']'' # r) = Some (j, CHR '']'' # r)"
      using "8.IH"(1) "8.prems" m by simp
    with True m show ?thesis by (simp add: skipWs_id)
  next
    case False
    have "pValue k (prJson j @ CHR '','' # prElems js @ CHR '']'' # r) = Some (j, CHR '','' # prElems js @ CHR '']'' # r)"
      using "8.IH"(1) "8.prems" m False by simp
    moreover have "pElems k (prElems js @ CHR '']'' # r) = Some (js, r)"
      using "8.IH"(2) "8.prems" m False by simp
    ultimately show ?thesis using False m by (simp add: skipWs_id)
  qed
next
  case (10 k v ms)
  then obtain n where m: "m = Suc n" by (cases m) auto
  have key: "strBody (concat (map encChar k) @ DQ # z) = Some (k, z)" for z
    using "10.prems" by (simp add: strBody_encString)
  show ?case
  proof (cases "ms = []")
    case True
    have "pValue n (prJson v @ CHR ''}'' # r) = Some (v, CHR ''}'' # r)"
      using "10.IH"(1) "10.prems" m by simp
    with True m key show ?thesis by (simp add: skipWs_id encString_def)
  next
    case False
    have "pValue n (prJson v @ CHR '','' # prMembers ms @ CHR ''}'' # r) =
      Some (v, CHR '','' # prMembers ms @ CHR ''}'' # r)"
      using "10.IH"(1) "10.prems" m False by simp
    moreover have "pMembers n (prMembers ms @ CHR ''}'' # r) = Some (ms, r)"
      using "10.IH"(2) "10.prems" m False by simp
    ultimately show ?thesis using False m key by (simp add: skipWs_id encString_def)
  qed
qed simp_all

lemma json_parse_print: "wfJson j \<Longrightarrow> json_parse (prJson j) = Some j"
  using pr_roundtrip(1) [of j "[]"] by (intro json_parse_fuel [of "length (prJson j)" _ _ "[]"]) (simp_all add: skipWs_def)

text \<open>Printed integers are number literals and read back.\<close>

lemma takeWhile_digits: "(\<And>c. c \<in> set t \<Longrightarrow> isDigit c) \<Longrightarrow> delim r \<Longrightarrow>
    takeWhile isDigit (t @ r) = t \<and> dropWhile isDigit (t @ r) = r"
  by (cases r) (auto simp: delim_def isDigit_def)

lemma showNat_hd: "hd (showNat n) = CHR ''0'' \<Longrightarrow> showNat n = ''0''"
proof (induction n rule: showNat.induct)
  case (1 n)
  show ?case
  proof (cases "n < 10")
    case True
    then have s: "showNat n = [digit n]" by (subst showNat.simps) simp
    with "1.prems" show ?thesis by simp
  next
    case False
    then have s: "showNat n = showNat (n div 10) @ [digit n]" by (subst showNat.simps) simp
    with "1.prems" have "hd (showNat (n div 10)) = CHR ''0''" by simp
    with "1.IH" False have "showNat (n div 10) = ''0''" by blast
    then have "readDigits 0 (showNat (n div 10)) = Some 0" by (simp add: isDigit_def)
    with False show ?thesis by simp
  qed
qed

lemma pNum_showNat: "delim r \<Longrightarrow> pNum (showNat n @ r) = Some (showNat n, r)"
proof -
  assume d: "delim r"
  have td: "takeWhile isDigit (showNat n @ r) = showNat n \<and> dropWhile isDigit (showNat n @ r) = r"
    using d by (intro takeWhile_digits) (auto dest: showNat_digits)
  obtain c cs where c: "showNat n = c # cs" by (cases "showNat n") auto
  then have "isDigit c" using showNat_digits [of c n] by simp
  then have nm: "c \<noteq> CHR ''-''" by (auto simp: isDigit_def)
  have fr: "numFrac r = Some ([], r)" "numExp r = Some ([], r)"
    using d by (auto simp: numFrac_def numExp_def delim_def split: list.splits)
  have "c = CHR ''0'' \<Longrightarrow> cs = []" using showNat_hd [of n] c by simp
  with td nm c fr show ?thesis by (auto simp: pNum_def spanDigits_def)
qed

lemma showNat_start: "isDigit (hd (showNat k))" "hd (showNat k) \<noteq> CHR ''-''" "hd (showNat k) \<noteq> CHR ''+''"
proof -
  show *: "isDigit (hd (showNat k))" by (rule showNat_digits [of _ k]) simp
  then have "isDigit c" if "hd (showNat k) = c" for c using that by simp
  from this [of "CHR ''-''"] this [of "CHR ''+''"]
  show "hd (showNat k) \<noteq> CHR ''-''" "hd (showNat k) \<noteq> CHR ''+''" by (auto simp: isDigit_def)
qed

lemma numLit_showInt: "numLit (showInt n)"
proof (cases "n < 0")
  case True
  have neg: "pNum (CHR ''-'' # s) = (case pNum s of None \<Rightarrow> None | Some (t, r) \<Rightarrow> Some (CHR ''-'' # t, r))"
    if "s \<noteq> []" "hd s \<noteq> CHR ''-''" for s
    using that by (cases s) (auto simp: pNum_def Let_def split: prod.splits option.splits)
  from True show ?thesis by (simp add: numLit_def showInt_def neg pNum_showNat showNat_start)
next
  case False
  then show ?thesis by (simp add: numLit_def showInt_def pNum_showNat showNat_start)
qed

lemma ParseInt_showInt: "in64 n \<Longrightarrow> ParseInt (showInt n) = Some n"
proof -
  assume n: "in64 n"
  have pos: "(case showNat k of [] \<Rightarrow> (False, []) | c # cs \<Rightarrow> if c = CHR ''-'' then (True, cs)
      else if c = CHR ''+'' then (False, cs) else (False, showNat k)) = (False, showNat k)" for k
    using showNat_start(2,3) [of k] by (cases "showNat k") auto
  show ?thesis
  proof (cases "n < 0")
    case True
    with n show ?thesis by (simp add: ParseInt_def showInt_def)
  next
    case False
    with n show ?thesis by (simp add: ParseInt_def showInt_def pos Let_def)
  qed
qed

end
