(* ===== verification/Namespace_Stamp.thy ===== *)
theory Namespace_Stamp
  imports Go_Prelude
begin

text \<open>
  Package \<open>meta\<close>: the metadata key under which every writer of the library records the app's namespace.
\<close>

definition MetadataKeyNamespace :: string where
  "MetadataKeyNamespace = ''app_namespace''"

definition StampNamespace :: "(string, string) gomap \<Rightarrow> string \<Rightarrow> (string, string) gomap" where
  "StampNamespace inp ns = (if ns = '''' then inp else mset_key MetadataKeyNamespace ns inp)"

end
