(* ===== verification/Webhook_Event.thy ===== *)
theory Webhook_Event
  imports Go_JSON Namespace_Stamp
begin

text \<open>
  The event wrapper of \<open>webhooks/event.go\<close>, the namespace filter of \<open>webhooks/namespace.go\<close>. Of the SDK's event type only the fields the sources read are kept; \<open>Data\<close>
  is \<open>None\<close> for a nil pointer and otherwise the raw bytes of the event's object.

  What is shown: a stamp written by the library's writers is read back by the dispatcher, so an app
  dispatches exactly the events stamped with its own namespace, whatever else the metadata holds.
\<close>

subsection \<open>Events\<close>

record stripeEvent =
  se_ID :: string
  se_Type :: string
  se_Livemode :: bool
  se_Created :: int
  se_Data :: "string option"

record Event =
  ev_ID :: string
  ev_Type :: string
  ev_LiveMode :: bool
  ev_CreatedUnix :: int
  ev_Raw :: "stripeEvent option"

definition fromStripeEvent :: "stripeEvent \<Rightarrow> Event" where
  "fromStripeEvent e =
     \<lparr>ev_ID = se_ID e, ev_Type = se_Type e, ev_LiveMode = se_Livemode e,
      ev_CreatedUnix = se_Created e, ev_Raw = Some e\<rparr>"

text \<open>The bytes of the event's object; \<open>None\<close> when \<open>Raw\<close>, \<open>Data\<close> or the bytes are missing.\<close>

definition eventData :: "Event \<Rightarrow> string option" where
  "eventData evt =
     (case ev_Raw evt of
        None \<Rightarrow> None
      | Some e \<Rightarrow> (case se_Data e of None \<Rightarrow> None | Some b \<Rightarrow> if b = [] then None else Some b))"

subsection \<open>Namespaces\<close>

definition metadataField :: "string \<Rightarrow> json \<Rightarrow> (string, string) gomap \<Rightarrow> (string, string) gomap option" where
  "metadataField k v m = (if k = ''metadata'' then dStrMap v m else Some m)"

definition extractAppNamespace :: "stripeEvent \<Rightarrow> string option" where
  "extractAppNamespace evt =
     (case se_Data evt of
        None \<Rightarrow> None
      | Some b \<Rightarrow>
          if b = [] then None
          else (case Unmarshal (dStruct metadataField) b [] of
             None \<Rightarrow> None
           | Some m \<Rightarrow>
               (case map_of m MetadataKeyNamespace of
                  None \<Rightarrow> None
                | Some ns \<Rightarrow> if ns = '''' then None else Some ns)))"

datatype filterDecision = filterDispatch | filterSkip | filterUnrouted

definition classifyNamespace :: "string \<Rightarrow> stripeEvent \<Rightarrow> filterDecision" where
  "classifyNamespace own evt =
     (if own = '''' then filterDispatch
      else case extractAppNamespace evt of
        None \<Rightarrow> filterUnrouted
      | Some ns \<Rightarrow> if ns \<noteq> own then filterSkip else filterDispatch)"

subsection \<open>Metadata objects\<close>

text \<open>The JSON object an SDK prints for a metadata map.\<close>

definition metadataObj :: "(string, string) gomap \<Rightarrow> json" where
  "metadataObj m = JObj (map (\<lambda>(k, v). (k, JStr v)) m)"

lemma map_of_dStrMembers:
  "distinct (map fst m) \<Longrightarrow> \<exists>m'. dStrMembers (map (\<lambda>(k, v). (k, JStr v)) m) m0 = Some m' \<and>
     (\<forall>x. map_of m' x = (case map_of m x of None \<Rightarrow> map_of m0 x | Some v \<Rightarrow> Some v))"
proof (induction m arbitrary: m0)
  case (Cons p m)
  obtain k v where p: "p = (k, v)" by fastforce
  with Cons.prems have d: "distinct (map fst m)" and k: "map_of m k = None"
    by (auto simp: map_of_eq_None_iff)
  obtain m' where m': "dStrMembers (map (\<lambda>(k, v). (k, JStr v)) m) (mset_key k v m0) = Some m'"
    "\<forall>x. map_of m' x = (case map_of m x of None \<Rightarrow> map_of (mset_key k v m0) x | Some v \<Rightarrow> Some v)"
    using Cons.IH [OF d] by blast
  then show ?case by (simp add: p dString_def k split: option.split)
qed simp

lemma dStruct_metadata:
  assumes "distinct (map fst m)" and "lower k = ''metadata''"
    and "\<forall>(a, v) \<in> set pre \<union> set post. lower a \<noteq> ''metadata''"
  shows "\<exists>m'. dStruct metadataField (JObj (pre @ (k, metadataObj m) # post)) [] = Some m' \<and>
    map_of m' = map_of m"
proof -
  have skip: "dMembers metadataField (xs @ ys) m0 = dMembers metadataField ys m0"
    if "\<forall>(a, v) \<in> set xs. lower a \<noteq> ''metadata''" for xs ys m0
    using that by (induction xs) (auto simp: metadataField_def)
  obtain m' where dec: "dStrMembers (map (\<lambda>(k, v). (k, JStr v)) m) [] = Some m'"
    and pt: "\<forall>x. map_of m' x = (case map_of m x of None \<Rightarrow> map_of [] x | Some v \<Rightarrow> Some v)"
    using map_of_dStrMembers [OF assms(1), of "[]"] by blast
  have "map_of m' = map_of m" using pt by (intro ext) (simp split: option.split)
  note m' = dec this
  have "dMembers metadataField post m' = Some m'"
    using skip [of post "[]" m'] assms(3) by auto
  with m' show ?thesis
    using skip [of pre "(k, metadataObj m) # post" "[]"] assms(2,3)
    by (auto simp: dStruct_def metadataField_def metadataObj_def dStrMap_def)
qed

text \<open>What the filter decides once the object's metadata is known.\<close>

lemma classify_metadata:
  assumes "se_Data e = Some b" and "json_parse b = Some (JObj (pre @ (''metadata'', metadataObj m) # post))"
    and "distinct (map fst m)" and "\<forall>(a, v) \<in> set pre \<union> set post. lower a \<noteq> ''metadata''" and "own \<noteq> ''''"
  shows "classifyNamespace own e =
    (case map_of m MetadataKeyNamespace of
       None \<Rightarrow> filterUnrouted
     | Some ns \<Rightarrow> if ns = '''' then filterUnrouted else if ns = own then filterDispatch else filterSkip)"
proof -
  have "lower ''metadata'' = ''metadata''" by code_simp
  from dStruct_metadata [OF assms(3) this assms(4)] obtain m' where
    "dStruct metadataField (JObj (pre @ (''metadata'', metadataObj m) # post)) [] = Some m'" "map_of m' = map_of m"
    by blast
  moreover have "b \<noteq> []" using assms(2) by (auto simp: json_parse_def skipWs_def)
  ultimately show ?thesis
    using assms(1,2,5)
    by (simp add: classifyNamespace_def extractAppNamespace_def Unmarshal_def split: option.split)
qed

text \<open>C9: Apps sharing a Stripe account see their own events only. If an object's metadata was stamped by
  the library's writer for namespace \<open>ns\<close>, then, wherever the metadata stands in the object, a
  dispatcher configured for \<open>own\<close> routes the event to its handlers exactly when \<open>own\<close> is \<open>ns\<close> and skips
  it otherwise; metadata without a stamp is left to the catch-all handler.\<close>

theorem namespace_isolation:
  assumes "se_Data e = Some b"
    and "json_parse b = Some (JObj (pre @ (''metadata'', metadataObj (StampNamespace m ns)) # post))"
    and "distinct (map fst m)" and "\<forall>(a, v) \<in> set pre \<union> set post. lower a \<noteq> ''metadata''"
    and "own \<noteq> ''''" and "ns = '''' \<longrightarrow> map_of m MetadataKeyNamespace = None"
  shows "classifyNamespace own e =
    (if ns = '''' then filterUnrouted else if ns = own then filterDispatch else filterSkip)"
proof -
  have "distinct (map fst (StampNamespace m ns))" using assms(3) by (simp add: StampNamespace_def)
  from classify_metadata [OF assms(1,2) this assms(4,5)] assms(6) show ?thesis
    by (auto simp: StampNamespace_def)
qed

definition demo_event :: stripeEvent where
  \<open>demo_event = \<lparr>se_ID = ''evt_1'', se_Type = ''charge.refunded'', se_Livemode = False, se_Created = 0,
     se_Data = Some ''{"id": "ch_1", "metadata": {"plan": "a", "app_namespace": "shop"}}''\<rparr>\<close>

theorem namespace_isolation_witness:
  "classifyNamespace ''shop'' demo_event = filterDispatch \<and> classifyNamespace ''blog'' demo_event = filterSkip"
proof -
  have "se_Data demo_event = Some (the (se_Data demo_event))" by code_simp
  moreover have "json_parse (the (se_Data demo_event)) =
    Some (JObj ([(''id'', JStr ''ch_1'')] @ (''metadata'', metadataObj (StampNamespace [(''plan'', ''a'')] ''shop'')) # []))"
    by code_simp
  moreover have "\<forall>(a, v) \<in> set [(''id'', JStr ''ch_1'')] \<union> set []. lower a \<noteq> ''metadata''" by code_simp
  ultimately show ?thesis
    using namespace_isolation [of demo_event _ "[(''id'', JStr ''ch_1'')]" "[(''plan'', ''a'')]" "''shop''" "[]"]
    by simp
qed

end
