(* ===== verification/Credit_Handlers.thy ===== *)
theory Credit_Handlers
  imports Credits Webhook_Event
begin

text \<open>
  The webhook handlers that move credits: \<open>credits/session_metadata.go\<close> (the grant intent carried by a
  Checkout Session), \<open>credits/grant_handler.go\<close> (a completed session becomes grants) and
  \<open>credits/refund_handler.go\<close> (a refund revokes grants). The repository a handler calls is an argument:
  its \<open>Grant\<close>, \<open>FindGrantsBySourceRef\<close> and \<open>RevokeGrant\<close> as functions on the repository state.
\<close>

subsection \<open>Grant intents in session metadata\<close>

definition SessionMetadataKey :: string where
  "SessionMetadataKey = ''credit_grants''"

record PendingGrant =
  pg_Bucket :: string
  pg_Amount :: int
  pg_ValidDays :: int
  pg_ProductKey :: string
  pg_Quantity :: int

definition zeroPending :: PendingGrant where
  "zeroPending = \<lparr>pg_Bucket = '''', pg_Amount = 0, pg_ValidDays = 0, pg_ProductKey = '''', pg_Quantity = 0\<rparr>"

definition pendingField :: "string \<Rightarrow> json \<Rightarrow> PendingGrant \<Rightarrow> PendingGrant option" where
  "pendingField k v g =
     (if k = ''bucket'' then map_option (\<lambda>x. g\<lparr>pg_Bucket := x\<rparr>) (dString v (pg_Bucket g))
      else if k = ''amount'' then map_option (\<lambda>x. g\<lparr>pg_Amount := x\<rparr>) (dInt v (pg_Amount g))
      else if k = ''valid_days'' then map_option (\<lambda>x. g\<lparr>pg_ValidDays := x\<rparr>) (dInt v (pg_ValidDays g))
      else if k = ''product_key'' then map_option (\<lambda>x. g\<lparr>pg_ProductKey := x\<rparr>) (dString v (pg_ProductKey g))
      else if k = ''quantity'' then map_option (\<lambda>x. g\<lparr>pg_Quantity := x\<rparr>) (dInt v (pg_Quantity g))
      else Some g)"

text \<open>The object \<open>json.Marshal\<close> prints for a grant intent, with its \<open>omitempty\<close> fields.\<close>

definition pendingJson :: "PendingGrant \<Rightarrow> json" where
  "pendingJson g =
     JObj ([(''bucket'', JStr (pg_Bucket g)), (''amount'', JNum (showInt (pg_Amount g)))]
       @ (if pg_ValidDays g = 0 then [] else [(''valid_days'', JNum (showInt (pg_ValidDays g)))])
       @ (if pg_ProductKey g = '''' then [] else [(''product_key'', JStr (pg_ProductKey g))])
       @ (if pg_Quantity g = 0 then [] else [(''quantity'', JNum (showInt (pg_Quantity g)))]))"

datatype metadata_error = ErrMetadataTooLong | ErrMetadataSyntax

definition EncodeSessionMetadata :: "PendingGrant list \<Rightarrow> metadata_error + string" where
  "EncodeSessionMetadata pgs =
     (if pgs = [] then Inr ''''
      else let b = prJson (JArr (map pendingJson pgs))
           in if length b > 500 then Inl ErrMetadataTooLong else Inr b)"

definition DecodeSessionMetadata :: "string \<Rightarrow> metadata_error + PendingGrant list" where
  "DecodeSessionMetadata value =
     (if value = '''' then Inr []
      else case Unmarshal (\<lambda>j _. dSlice zeroPending (dStruct pendingField) j) value [] of
        None \<Rightarrow> Inl ErrMetadataSyntax
      | Some gs \<Rightarrow> Inr gs)"

subsection \<open>A completed session becomes grants\<close>

record sessionShape =
  ss_ID :: string
  ss_Metadata :: "(string, string) gomap"
  ss_PaymentIntent :: string

definition sessionField :: "string \<Rightarrow> json \<Rightarrow> sessionShape \<Rightarrow> sessionShape option" where
  "sessionField k v s =
     (if k = ''id'' then map_option (\<lambda>x. s\<lparr>ss_ID := x\<rparr>) (dString v (ss_ID s))
      else if k = ''metadata'' then map_option (\<lambda>x. s\<lparr>ss_Metadata := x\<rparr>) (dStrMap v (ss_Metadata s))
      else if k = ''payment_intent'' then map_option (\<lambda>x. s\<lparr>ss_PaymentIntent := x\<rparr>) (dString v (ss_PaymentIntent s))
      else Some s)"

datatype 'e handler_error =
    ErrEmptyPayload
  | ErrPayloadSyntax
  | ErrMetadata metadata_error
  | ErrMissingSubject string
  | ErrGrantFailed string 'e
  | ErrLookupFailed string 'e
  | ErrRevokeFailed string 'e

definition decodeSession :: "Event \<Rightarrow> 'e handler_error + sessionShape" where
  "decodeSession evt =
     (case eventData evt of
        None \<Rightarrow> Inl ErrEmptyPayload
      | Some b \<Rightarrow>
          (case Unmarshal (dStruct sessionField) b \<lparr>ss_ID = '''', ss_Metadata = [], ss_PaymentIntent = ''''\<rparr> of
             None \<Rightarrow> Inl ErrPayloadSyntax
           | Some s \<Rightarrow> Inr s))"

definition sessionRef :: "string \<Rightarrow> nat \<Rightarrow> nat \<Rightarrow> string" where
  "sessionRef pi i unit = pi @ '':'' @ showNat i @ '':'' @ showNat unit"

definition sessionInput :: "sessionShape \<Rightarrow> nat \<Rightarrow> PendingGrant \<Rightarrow> nat \<Rightarrow> GrantInput" where
  "sessionInput s i g unit =
     \<lparr>gi_SubjectID = mstr (ss_Metadata s) ''subject_id'', gi_Bucket = pg_Bucket g, gi_Amount = pg_Amount g,
      gi_ValidDays = pg_ValidDays g, gi_Source = SourceStripePayment,
      gi_SourceRef = sessionRef (ss_PaymentIntent s) i unit,
      gi_Metadata = [(''checkout_session'', ss_ID s), (''product_key'', pg_ProductKey g)]\<rparr>"

definition unitCount :: "PendingGrant \<Rightarrow> nat" where
  "unitCount g = (if pg_Quantity g \<le> 0 then 1 else nat (pg_Quantity g))"

text \<open>The inputs of the two nested loops, in the order the loops call \<open>repo.Grant\<close>.\<close>

definition sessionInputs :: "sessionShape \<Rightarrow> PendingGrant list \<Rightarrow> GrantInput list" where
  "sessionInputs s pgs =
     concat (map (\<lambda>(i, g). map (sessionInput s i g) [0..<unitCount g]) (enumerate 0 pgs))"

text \<open>Calls to \<open>repo.Grant\<close> in sequence, stopping at the first error.\<close>

fun grantAll ::
  "(GrantInput \<Rightarrow> 'r \<Rightarrow> ('e + Grant) \<times> 'r) \<Rightarrow> GrantInput list \<Rightarrow> 'r \<Rightarrow> 'e handler_error option \<times> 'r" where
  "grantAll grant [] r = (None, r)"
| "grantAll grant (inp # inps) r =
     (case grant inp r of
        (Inl e, r') \<Rightarrow> (Some (ErrGrantFailed (gi_SourceRef inp) e), r')
      | (Inr g, r') \<Rightarrow> grantAll grant inps r')"

definition ApplyGrantsFromSession ::
  "(GrantInput \<Rightarrow> 'r \<Rightarrow> ('e + Grant) \<times> 'r) option \<Rightarrow> Event \<Rightarrow> 'r \<Rightarrow> 'e handler_error option \<times> 'r" where
  "ApplyGrantsFromSession repo evt r =
     (case repo of
        None \<Rightarrow> (None, r)
      | Some grant \<Rightarrow>
          if ev_Type evt \<noteq> ''checkout.session.completed''
             \<and> ev_Type evt \<noteq> ''checkout.session.async_payment_succeeded''
          then (None, r)
          else (case decodeSession evt of
             Inl e \<Rightarrow> (Some e, r)
           | Inr s \<Rightarrow>
               if mstr (ss_Metadata s) SessionMetadataKey = '''' then (None, r)
               else (case DecodeSessionMetadata (mstr (ss_Metadata s) SessionMetadataKey) of
                  Inl e \<Rightarrow> (Some (ErrMetadata e), r)
                | Inr gs \<Rightarrow>
                    if gs = [] then (None, r)
                    else if mstr (ss_Metadata s) ''subject_id'' = '''' then (Some (ErrMissingSubject (ss_ID s)), r)
                    else grantAll grant (sessionInputs s gs) r)))"

subsection \<open>A refund revokes grants\<close>

definition idFromAny :: "json \<Rightarrow> string" where
  "idFromAny v =
     (case v of
        JStr s \<Rightarrow> s
      | JObj ms \<Rightarrow> (case map_of (rev ms) ''id'' of Some (JStr s) \<Rightarrow> s | _ \<Rightarrow> '''')
      | _ \<Rightarrow> '''')"

record refundShape =
  rs_ID :: string
  rs_Object :: string
  rs_PaymentIntent :: json
  rs_Charge :: json
  rs_LatestRefund :: json
  rs_Refunds :: "string list"

definition refundItemField :: "string \<Rightarrow> json \<Rightarrow> string \<Rightarrow> string option" where
  "refundItemField k v rid = (if k = ''id'' then dString v rid else Some rid)"

definition refundsField :: "string \<Rightarrow> json \<Rightarrow> string list \<Rightarrow> string list option" where
  "refundsField k v ids = (if k = ''data'' then dSlice '''' (dStruct refundItemField) v else Some ids)"

definition refundField :: "string \<Rightarrow> json \<Rightarrow> refundShape \<Rightarrow> refundShape option" where
  "refundField k v s =
     (if k = ''id'' then map_option (\<lambda>x. s\<lparr>rs_ID := x\<rparr>) (dString v (rs_ID s))
      else if k = ''object'' then map_option (\<lambda>x. s\<lparr>rs_Object := x\<rparr>) (dString v (rs_Object s))
      else if k = ''payment_intent'' then Some (s\<lparr>rs_PaymentIntent := v\<rparr>)
      else if k = ''charge'' then Some (s\<lparr>rs_Charge := v\<rparr>)
      else if k = ''latest_refund'' then Some (s\<lparr>rs_LatestRefund := v\<rparr>)
      else if k = ''refunds'' then map_option (\<lambda>x. s\<lparr>rs_Refunds := x\<rparr>) (dStruct refundsField v (rs_Refunds s))
      else Some s)"

definition parseRefundEvent :: "Event \<Rightarrow> (string \<times> string \<times> string) option" where
  "parseRefundEvent evt =
     (case eventData evt of
        None \<Rightarrow> None
      | Some b \<Rightarrow>
          (case Unmarshal (dStruct refundField) b
                  \<lparr>rs_ID = '''', rs_Object = '''', rs_PaymentIntent = JNull, rs_Charge = JNull,
                   rs_LatestRefund = JNull, rs_Refunds = []\<rparr> of
             None \<Rightarrow> None
           | Some s \<Rightarrow>
               if rs_Object s = ''charge'' then
                 (let rid = idFromAny (rs_LatestRefund s)
                  in Some (if rid = '''' \<and> rs_Refunds s \<noteq> [] then last (rs_Refunds s) else rid,
                           idFromAny (rs_PaymentIntent s), rs_ID s))
               else Some (rs_ID s, idFromAny (rs_PaymentIntent s), idFromAny (rs_Charge s))))"

definition refundCandidates :: "string \<Rightarrow> string \<Rightarrow> string \<Rightarrow> string list" where
  "refundCandidates refundID pi charge =
     (if pi \<noteq> '''' then [pi] else []) @ (if charge \<noteq> '''' then [charge] else []) @
     (if refundID \<noteq> '''' then [refundID] else [])"

fun revokeGrants ::
  "(string \<Rightarrow> string \<Rightarrow> 'r \<Rightarrow> 'e option \<times> 'r) \<Rightarrow> string \<Rightarrow> Grant list \<Rightarrow> 'r \<Rightarrow> 'e handler_error option \<times> 'r" where
  "revokeGrants revoke reason [] r = (None, r)"
| "revokeGrants revoke reason (g # gs) r =
     (if mstr (g_Metadata g) ''revoked_reason'' \<noteq> '''' then revokeGrants revoke reason gs r
      else case revoke (g_ID g) reason r of
        (Some e, r') \<Rightarrow> (Some (ErrRevokeFailed (g_ID g) e), r')
      | (None, r') \<Rightarrow> revokeGrants revoke reason gs r')"

fun revokeRefs ::
  "(string \<Rightarrow> 'r \<Rightarrow> ('e + Grant list) \<times> 'r) \<Rightarrow> (string \<Rightarrow> string \<Rightarrow> 'r \<Rightarrow> 'e option \<times> 'r) \<Rightarrow> string
    \<Rightarrow> string list \<Rightarrow> 'r \<Rightarrow> 'e handler_error option \<times> 'r" where
  "revokeRefs lookup revoke reason [] r = (None, r)"
| "revokeRefs lookup revoke reason (ref # refs) r =
     (case lookup ref r of
        (Inl e, r') \<Rightarrow> (Some (ErrLookupFailed ref e), r')
      | (Inr gs, r') \<Rightarrow>
          (case revokeGrants revoke reason gs r' of
             (Some e, r'') \<Rightarrow> (Some e, r'')
           | (None, r'') \<Rightarrow> revokeRefs lookup revoke reason refs r''))"

definition ApplyRefundReversal ::
  "(string \<Rightarrow> 'r \<Rightarrow> ('e + Grant list) \<times> 'r) \<Rightarrow> (string \<Rightarrow> string \<Rightarrow> 'r \<Rightarrow> 'e option \<times> 'r) \<Rightarrow> Event
    \<Rightarrow> 'r \<Rightarrow> 'e handler_error option \<times> 'r" where
  "ApplyRefundReversal lookup revoke evt r =
     (case parseRefundEvent evt of
        None \<Rightarrow> (None, r)
      | Some (refundID, pi, charge) \<Rightarrow>
          revokeRefs lookup revoke (''refund:'' @ refundID) (refundCandidates refundID pi charge) r)"

end
