(* ===== verification/Catalog.thy ===== *)
theory Catalog
  imports Go_Prelude Complex_Main
begin

text \<open>
  The declarative catalog of \<open>catalog/types.go\<close> and its validation in \<open>catalog/spec.go\<close>: \<open>NewSpec\<close> checks and
  normalises a specification and returns every problem it finds. String-typed enums stay strings, since the
  source accepts any value of them. A \<open>float64\<close> is a rational or one of the special values, which is all its
  comparisons need. The texts of error messages are left out; an error is the path of the offending field.
\<close>

subsection \<open>Floating point comparisons\<close>

datatype gofloat = NaN | PosInf | NegInf | Fin rat

fun f_is_zero :: "gofloat \<Rightarrow> bool" where
  "f_is_zero (Fin x) = (x = 0)"
| "f_is_zero _ = False"

fun f_le_zero :: "gofloat \<Rightarrow> bool" where
  "f_le_zero (Fin x) = (x \<le> 0)"
| "f_le_zero NegInf = True"
| "f_le_zero _ = False"

fun f_gt_hundred :: "gofloat \<Rightarrow> bool" where
  "f_gt_hundred (Fin x) = (x > 100)"
| "f_gt_hundred PosInf = True"
| "f_gt_hundred _ = False"

subsection \<open>The specification\<close>

record Meter =
  mt_DisplayName :: string
  mt_EventName :: string
  mt_AggregateBy :: string

record CreditGrant =
  cg_Bucket :: string
  cg_Amount :: int
  cg_ValidDays :: int

record RecurringGrant =
  rg_Bucket :: string
  rg_Amount :: int
  rg_ValidDaysFromGrant :: int

record Price =
  pr_Amount :: int
  pr_Currency :: string
  pr_Type :: string
  pr_Interval :: string
  pr_IntervalCount :: int
  pr_MeterRef :: string
  pr_TaxBehavior :: string
  pr_TaxRateOverrides :: "string list"

record Product =
  pd_Name :: string
  pd_Description :: string
  pd_TaxCategory :: string
  pd_Prices :: "(string, Price) gomap"
  pd_CreditGrant :: "CreditGrant option"
  pd_RecurringGrant :: "RecurringGrant option"
  pd_Metadata :: "(string, string) gomap"

record Coupon =
  cp_PercentOff :: gofloat
  cp_AmountOff :: int
  cp_Currency :: string
  cp_Duration :: string
  cp_DurationMonths :: int
  cp_MaxRedemptions :: int
  cp_AppliesToProducts :: "string list"
  cp_Preserve :: bool

record Spec =
  sp_Namespace :: string
  sp_Products :: "(string, Product) gomap"
  sp_Coupons :: "(string, Coupon) gomap"
  sp_Meters :: "(string, Meter) gomap"

abbreviation PriceTypeRecurring :: string where
  "PriceTypeRecurring \<equiv> ''recurring''"

abbreviation PriceTypeOneTime :: string where
  "PriceTypeOneTime \<equiv> ''one_time''"

subsection \<open>The key patterns\<close>

definition isLowerAZ :: "char \<Rightarrow> bool" where
  "isLowerAZ c \<longleftrightarrow> 97 \<le> (of_char c :: nat) \<and> (of_char c :: nat) \<le> 122"

definition isUpperAZ :: "char \<Rightarrow> bool" where
  "isUpperAZ c \<longleftrightarrow> 65 \<le> (of_char c :: nat) \<and> (of_char c :: nat) \<le> 90"

definition isKeyChar :: "char \<Rightarrow> bool" where
  "isKeyChar c \<longleftrightarrow> isLowerAZ c \<or> isDigit c \<or> c = CHR ''_''"

text \<open>\<open>^[a-z][a-z0-9_]{0,29}$\<close>, \<open>^[a-z0-9][a-z0-9_]{0,62}$\<close>, \<open>^[A-Za-z0-9][A-Za-z0-9_]{0,62}$\<close> and
  \<open>^[a-z]{3}$\<close>.\<close>

definition namespaceRegex :: "string \<Rightarrow> bool" where
  "namespaceRegex s \<longleftrightarrow>
     (case s of [] \<Rightarrow> False | c # cs \<Rightarrow> isLowerAZ c \<and> list_all isKeyChar cs \<and> length cs \<le> 29)"

definition keyRegex :: "string \<Rightarrow> bool" where
  "keyRegex s \<longleftrightarrow>
     (case s of [] \<Rightarrow> False
      | c # cs \<Rightarrow> (isLowerAZ c \<or> isDigit c) \<and> list_all isKeyChar cs \<and> length cs \<le> 62)"

definition couponKeyRegex :: "string \<Rightarrow> bool" where
  "couponKeyRegex s \<longleftrightarrow>
     (case s of [] \<Rightarrow> False
      | c # cs \<Rightarrow> (isUpperAZ c \<or> isLowerAZ c \<or> isDigit c) \<and>
                  list_all (\<lambda>x. isUpperAZ x \<or> isKeyChar x) cs \<and> length cs \<le> 62)"

definition currencyRegex :: "string \<Rightarrow> bool" where
  "currencyRegex s \<longleftrightarrow> length s = 3 \<and> list_all isLowerAZ s"

subsection \<open>Validation\<close>

type_synonym fieldErrors = "string list"

abbreviation fieldIf :: "bool \<Rightarrow> string \<Rightarrow> fieldErrors" where
  "fieldIf bad field \<equiv> (if bad then [field] else [])"

definition validatePrice :: "string \<Rightarrow> Price \<Rightarrow> Price \<times> fieldErrors" where
  "validatePrice prefix p0 =
     (let p = (if pr_Type p0 = '''' then p0\<lparr>pr_Type := PriceTypeRecurring\<rparr> else p0);
          common =
            fieldIf (pr_Type p \<noteq> PriceTypeRecurring \<and> pr_Type p \<noteq> PriceTypeOneTime) (prefix @ ''type'')
            @ fieldIf (pr_Amount p < 0) (prefix @ ''amount'')
            @ fieldIf (pr_Currency p = '''' \<or> \<not> currencyRegex (pr_Currency p)) (prefix @ ''currency'')
      in if pr_Type p = PriceTypeRecurring then
           (if pr_IntervalCount p = 0 then p\<lparr>pr_IntervalCount := 1\<rparr> else p,
            common @ fieldIf (pr_Interval p = '''') (prefix @ ''interval''))
         else if pr_Type p = PriceTypeOneTime then
           (p, common @ fieldIf (pr_Interval p \<noteq> '''') (prefix @ ''interval'')
                      @ fieldIf (pr_IntervalCount p \<noteq> 0) (prefix @ ''interval_count''))
         else (p, common))"

text \<open>The loop over a product's prices: the normalised prices and the problems; a bad key is skipped.\<close>

fun validatePrices :: "string \<Rightarrow> (string, Price) gomap \<Rightarrow> (string, Price) gomap \<times> fieldErrors" where
  "validatePrices prefix [] = ([], [])"
| "validatePrices prefix ((priceKey, price) # rest) =
     (let (ps, fs) = validatePrices prefix rest
      in if \<not> keyRegex priceKey then (ps, (prefix @ ''prices.'' @ priceKey) # fs)
         else (let (p, pf) = validatePrice (prefix @ ''prices.'' @ priceKey @ ''.'') price
               in ((priceKey, p) # ps, pf @ fs)))"

definition hasRecurring :: "(string, Price) gomap \<Rightarrow> bool" where
  "hasRecurring ps \<longleftrightarrow> list_ex (\<lambda>(_, p). pr_Type p = PriceTypeRecurring) ps"

definition validateRecurringGrant :: "string \<Rightarrow> bool \<Rightarrow> RecurringGrant option \<Rightarrow> fieldErrors" where
  "validateRecurringGrant prefix recurring g =
     (case g of
        None \<Rightarrow> []
      | Some rg \<Rightarrow>
          fieldIf (\<not> recurring) (prefix @ ''recurring_grant'')
          @ fieldIf (rg_Bucket rg = '''') (prefix @ ''recurring_grant.bucket'')
          @ fieldIf (rg_Amount rg \<le> 0) (prefix @ ''recurring_grant.amount'')
          @ fieldIf (rg_ValidDaysFromGrant rg < 0) (prefix @ ''recurring_grant.valid_days_from_grant''))"

definition validateCreditGrant :: "string \<Rightarrow> bool \<Rightarrow> CreditGrant option \<Rightarrow> fieldErrors" where
  "validateCreditGrant prefix recurring g =
     (case g of
        None \<Rightarrow> []
      | Some cg \<Rightarrow>
          fieldIf recurring (prefix @ ''credit_grant'')
          @ fieldIf (cg_Bucket cg = '''') (prefix @ ''credit_grant.bucket'')
          @ fieldIf (cg_Amount cg \<le> 0) (prefix @ ''credit_grant.amount'')
          @ fieldIf (cg_ValidDays cg < 0) (prefix @ ''credit_grant.valid_days''))"

definition validateProduct :: "string \<Rightarrow> Product \<Rightarrow> Product \<times> fieldErrors" where
  "validateProduct key p =
     (let prefix = ''products.'' @ key @ ''.'';
          (prices, priceFields) = validatePrices prefix (pd_Prices p);
          recurring = hasRecurring prices
      in (p\<lparr>pd_Prices := prices\<rparr>,
          fieldIf (pd_Name p = '''') (prefix @ ''name'')
          @ fieldIf (pd_TaxCategory p = '''') (prefix @ ''tax_category'')
          @ fieldIf (pd_Prices p = []) (prefix @ ''prices'')
          @ priceFields
          @ validateRecurringGrant prefix recurring (pd_RecurringGrant p)
          @ validateCreditGrant prefix recurring (pd_CreditGrant p)))"

fun validateProducts :: "(string, Product) gomap \<Rightarrow> (string, Product) gomap \<times> fieldErrors" where
  "validateProducts [] = ([], [])"
| "validateProducts ((key, p) # rest) =
     (let (ps, fs) = validateProducts rest
      in if \<not> keyRegex key then (ps, (''products.'' @ key) # fs)
         else (let (n, pf) = validateProduct key p in ((key, n) # ps, pf @ fs)))"

definition validateCoupon :: "string \<Rightarrow> Coupon \<Rightarrow> fieldErrors" where
  "validateCoupon key c =
     (let prefix = ''coupons.'' @ key @ ''.'';
          hasPercent = \<not> f_is_zero (cp_PercentOff c);
          hasAmount = cp_AmountOff c \<noteq> 0
      in fieldIf (hasPercent = hasAmount) (''coupons.'' @ key)
         @ fieldIf (hasPercent \<and> (f_le_zero (cp_PercentOff c) \<or> f_gt_hundred (cp_PercentOff c))) (prefix @ ''percent_off'')
         @ (if hasAmount then
              fieldIf (cp_AmountOff c < 0) (prefix @ ''amount_off'')
              @ fieldIf (cp_Currency c = '''' \<or> \<not> currencyRegex (cp_Currency c)) (prefix @ ''currency'')
            else [])
         @ (if cp_Duration c = ''once'' \<or> cp_Duration c = ''forever'' then []
            else if cp_Duration c = ''repeating'' then fieldIf (cp_DurationMonths c \<le> 0) (prefix @ ''duration_months'')
            else [prefix @ ''duration'']))"

fun validateCoupons :: "(string, Coupon) gomap \<Rightarrow> (string, Coupon) gomap \<times> fieldErrors" where
  "validateCoupons [] = ([], [])"
| "validateCoupons ((key, c) # rest) =
     (let (cs, fs) = validateCoupons rest
      in if \<not> couponKeyRegex key then (cs, (''coupons.'' @ key) # fs)
         else ((key, c) # cs, validateCoupon key c @ fs))"

definition normalizeMeter :: "string \<Rightarrow> Meter \<Rightarrow> Meter" where
  "normalizeMeter key m =
     \<lparr>mt_DisplayName = (if mt_DisplayName m = '''' then key else mt_DisplayName m),
      mt_EventName = (if mt_EventName m = '''' then key else mt_EventName m),
      mt_AggregateBy = (if mt_AggregateBy m = '''' then ''sum'' else mt_AggregateBy m)\<rparr>"

fun validateMeters :: "(string, Meter) gomap \<Rightarrow> (string, Meter) gomap \<times> fieldErrors" where
  "validateMeters [] = ([], [])"
| "validateMeters ((key, m) # rest) =
     (let (ms, fs) = validateMeters rest
      in if \<not> keyRegex key then (ms, (''meters.'' @ key) # fs) else ((key, normalizeMeter key m) # ms, fs))"

text \<open>A price's meter must be declared and the price recurring.\<close>

definition validateMeterRef :: "(string, Meter) gomap \<Rightarrow> string \<Rightarrow> string \<times> Price \<Rightarrow> fieldErrors" where
  "validateMeterRef meters productKey kp =
     (case kp of (priceKey, price) \<Rightarrow>
        (let field = ''products.'' @ productKey @ ''.prices.'' @ priceKey @ ''.meter_ref''
         in if pr_MeterRef price = '''' then []
            else fieldIf (map_of meters (pr_MeterRef price) = None) field
                 @ fieldIf (pr_Type price \<noteq> PriceTypeRecurring \<and> pr_Type price \<noteq> '''') field))"

definition validateMeterRefs :: "(string, Meter) gomap \<Rightarrow> (string, Product) gomap \<Rightarrow> fieldErrors" where
  "validateMeterRefs meters products =
     concat (map (\<lambda>(productKey, prod). concat (map (validateMeterRef meters productKey) (pd_Prices prod))) products)"

definition NewSpec :: "Spec \<Rightarrow> fieldErrors + Spec" where
  "NewSpec s =
     (let (products, productFields) = validateProducts (sp_Products s);
          (coupons, couponFields) = validateCoupons (sp_Coupons s);
          (meters, meterFields) = validateMeters (sp_Meters s);
          fields =
            fieldIf (\<not> namespaceRegex (sp_Namespace s)) ''namespace''
            @ fieldIf (sp_Products s = []) ''products''
            @ productFields @ couponFields @ meterFields
            @ validateMeterRefs meters products
      in if fields \<noteq> [] then Inl fields
         else Inr \<lparr>sp_Namespace = sp_Namespace s, sp_Products = products, sp_Coupons = coupons, sp_Meters = meters\<rparr>)"

subsection \<open>Stripe-side names\<close>

definition NamespacedPriceKey :: "Spec \<Rightarrow> string \<Rightarrow> string \<Rightarrow> string" where
  "NamespacedPriceKey s productKey priceKey = sp_Namespace s @ ''.'' @ productKey @ ''.'' @ priceKey"

definition NamespacedProductID :: "Spec \<Rightarrow> string \<Rightarrow> string" where
  "NamespacedProductID s productKey = ''prod_'' @ sp_Namespace s @ ''_'' @ productKey"

definition NamespacedCouponID :: "Spec \<Rightarrow> string \<Rightarrow> string" where
  "NamespacedCouponID s couponKey = couponKey @ ''_'' @ sp_Namespace s"

text \<open>\<open>sort.Strings\<close>: byte order, which is the lexicographic order of the byte lists.\<close>

definition sortStrings :: "string list \<Rightarrow> string list" where
  "sortStrings = sort_slice (<)"

definition AllLookupKeys :: "Spec \<Rightarrow> string list" where
  "AllLookupKeys s =
     sortStrings (concat (map (\<lambda>(pk, p). map (\<lambda>(prk, _). NamespacedPriceKey s pk prk) (pd_Prices p)) (sp_Products s)))"

end
