(* ===== verification/Credit_Recurring.thy ===== *)
theory Credit_Recurring
  imports Credit_Handlers Catalog
begin

text \<open>
  \<open>credits/recurring_handler.go\<close>: a paid subscription invoice becomes the catalog's recurring grants, one per invoice
  and product.
\<close>

record invoiceLinePrice =
  ilp_ID :: string
  ilp_LookupKey :: string

text \<open>A line is its price pointer, a line list its \<open>data\<close>, subscription details are their metadata.\<close>

record invoiceShape =
  ivs_ID :: string
  ivs_Subscription :: string
  ivs_Metadata :: "(string, string) gomap"
  ivs_SubscriptionDetails :: "(string, string) gomap option"
  ivs_Lines :: "invoiceLinePrice option list option"

definition linePriceField :: "string \<Rightarrow> json \<Rightarrow> invoiceLinePrice \<Rightarrow> invoiceLinePrice option" where
  "linePriceField k v p =
     (if k = ''id'' then map_option (\<lambda>x. p\<lparr>ilp_ID := x\<rparr>) (dString v (ilp_ID p))
      else if k = ''lookup_key'' then map_option (\<lambda>x. p\<lparr>ilp_LookupKey := x\<rparr>) (dString v (ilp_LookupKey p))
      else Some p)"

definition lineField :: "string \<Rightarrow> json \<Rightarrow> invoiceLinePrice option \<Rightarrow> invoiceLinePrice option option" where
  "lineField k v l =
     (if k = ''price'' then dPtr \<lparr>ilp_ID = '''', ilp_LookupKey = ''''\<rparr> (dStruct linePriceField) v l else Some l)"

definition lineListField ::
  "string \<Rightarrow> json \<Rightarrow> invoiceLinePrice option list \<Rightarrow> invoiceLinePrice option list option" where
  "lineListField k v ls = (if k = ''data'' then dSlice None (dStruct lineField) v else Some ls)"

definition invoiceField :: "string \<Rightarrow> json \<Rightarrow> invoiceShape \<Rightarrow> invoiceShape option" where
  "invoiceField k v s =
     (if k = ''id'' then map_option (\<lambda>x. s\<lparr>ivs_ID := x\<rparr>) (dString v (ivs_ID s))
      else if k = ''subscription'' then map_option (\<lambda>x. s\<lparr>ivs_Subscription := x\<rparr>) (dString v (ivs_Subscription s))
      else if k = ''metadata'' then map_option (\<lambda>x. s\<lparr>ivs_Metadata := x\<rparr>) (dStrMap v (ivs_Metadata s))
      else if k = ''subscription_details''
        then map_option (\<lambda>x. s\<lparr>ivs_SubscriptionDetails := x\<rparr>) (dPtr [] (dStruct metadataField) v (ivs_SubscriptionDetails s))
      else if k = ''lines''
        then map_option (\<lambda>x. s\<lparr>ivs_Lines := x\<rparr>) (dPtr [] (dStruct lineListField) v (ivs_Lines s))
      else Some s)"

definition decodeInvoice :: "Event \<Rightarrow> 'e handler_error + invoiceShape" where
  "decodeInvoice evt =
     (case eventData evt of
        None \<Rightarrow> Inl ErrEmptyPayload
      | Some b \<Rightarrow>
          (case Unmarshal (dStruct invoiceField) b
                  \<lparr>ivs_ID = '''', ivs_Subscription = '''', ivs_Metadata = [], ivs_SubscriptionDetails = None,
                   ivs_Lines = None\<rparr> of
             None \<Rightarrow> Inl ErrPayloadSyntax
           | Some iv \<Rightarrow> Inr iv))"

definition splitNamespacedKey :: "Spec \<Rightarrow> string \<Rightarrow> (string \<times> string) option" where
  "splitNamespacedKey spec lookupKey =
     (let prefix = sp_Namespace spec @ ''.''
      in if length lookupKey \<le> length prefix \<or> take (length prefix) lookupKey \<noteq> prefix then None
         else cutAt (CHR ''.'') (drop (length prefix) lookupKey))"

definition invoiceSubject :: "invoiceShape \<Rightarrow> string" where
  "invoiceSubject iv =
     (if mstr (ivs_Metadata iv) ''subject_id'' \<noteq> '''' then mstr (ivs_Metadata iv) ''subject_id''
      else case ivs_SubscriptionDetails iv of None \<Rightarrow> '''' | Some m \<Rightarrow> mstr m ''subject_id'')"

definition recurringInput :: "invoiceShape \<Rightarrow> string \<Rightarrow> RecurringGrant \<Rightarrow> GrantInput" where
  "recurringInput iv productKey rg =
     \<lparr>gi_SubjectID = invoiceSubject iv, gi_Bucket = rg_Bucket rg, gi_Amount = rg_Amount rg,
      gi_ValidDays = rg_ValidDaysFromGrant rg, gi_Source = SourceStripePayment,
      gi_SourceRef = ''invoice:'' @ ivs_ID iv @ '':'' @ productKey,
      gi_Metadata = [(''invoice'', ivs_ID iv), (''subscription'', ivs_Subscription iv), (''product_key'', productKey)]\<rparr>"

text \<open>The grant of one line; \<open>None\<close> where the loop continues.\<close>

definition lineGrant :: "Spec \<Rightarrow> invoiceShape \<Rightarrow> invoiceLinePrice option \<Rightarrow> GrantInput option" where
  "lineGrant spec iv line =
     (case line of
        None \<Rightarrow> None
      | Some price \<Rightarrow>
          if ilp_LookupKey price = '''' then None
          else (case splitNamespacedKey spec (ilp_LookupKey price) of
             None \<Rightarrow> None
           | Some (productKey, _) \<Rightarrow>
               (case map_of (sp_Products spec) productKey of
                  None \<Rightarrow> None
                | Some product \<Rightarrow>
                    (case pd_RecurringGrant product of
                       None \<Rightarrow> None
                     | Some rg \<Rightarrow> Some (recurringInput iv productKey rg)))))"

definition recurringInputs :: "Spec \<Rightarrow> invoiceShape \<Rightarrow> GrantInput list" where
  "recurringInputs spec iv =
     List.map_filter (lineGrant spec iv) (case ivs_Lines iv of None \<Rightarrow> [] | Some ls \<Rightarrow> ls)"

definition ApplyRecurringGrantsFromInvoice ::
  "(GrantInput \<Rightarrow> 'r \<Rightarrow> ('e + Grant) \<times> 'r) option \<Rightarrow> Spec option \<Rightarrow> Event \<Rightarrow> 'r \<Rightarrow> 'e handler_error option \<times> 'r" where
  "ApplyRecurringGrantsFromInvoice repo spec evt r =
     (case (repo, spec) of
        (Some grant, Some sp) \<Rightarrow>
          if ev_Type evt \<noteq> ''invoice.paid'' \<and> ev_Type evt \<noteq> ''invoice.payment_succeeded'' then (None, r)
          else (case decodeInvoice evt of
             Inl e \<Rightarrow> (Some e, r)
           | Inr iv \<Rightarrow>
               if ivs_Subscription iv = '''' then (None, r)
               else if invoiceSubject iv = '''' then (None, r)
               else grantAll grant (recurringInputs sp iv) r)
      | _ \<Rightarrow> (None, r))"

end
