(* ===== verification/Credit_Contract.thy ===== *)
theory Credit_Contract
  imports Credit_Handlers Credits_Ledger
begin

text \<open>
  The contract between the credit handlers and a \<open>CreditRepo\<close>: \<open>Grant\<close> is idempotent on (subject,
  bucket, source reference), as the interface comment in \<open>credits/repo.go\<close> demands. The handlers' loops are
  verified once against the contract; each repository discharges it in its own theory.
\<close>

text \<open>A row that credits an input in full.\<close>

definition credits_input :: "GrantInput \<Rightarrow> Grant \<Rightarrow> bool" where
  "credits_input inp g \<longleftrightarrow> matches inp g \<and> g_AmountInitial g = gi_Amount inp \<and> g_AmountRemaining g = gi_Amount inp"

definition inputKey :: "GrantInput \<Rightarrow> SubjectID \<times> string \<times> string" where
  "inputKey inp = (gi_SubjectID inp, gi_Bucket inp, gi_SourceRef inp)"

lemma matches_key: "matches i g \<Longrightarrow> matches j g \<longleftrightarrow> inputKey j = inputKey i"
  by (auto simp: matches_def inputKey_def)

text \<open>The inputs of a sequence that add a row: the first of each key that is not known yet.\<close>

definition rowKey :: "Grant \<Rightarrow> SubjectID \<times> string \<times> string" where
  "rowKey g = (g_SubjectID g, g_Bucket g, g_SourceRef g)"

fun freshInputs :: "(SubjectID \<times> string \<times> string) set \<Rightarrow> GrantInput list \<Rightarrow> GrantInput list" where
  "freshInputs known [] = []"
| "freshInputs known (i # inps) =
     (if inputKey i \<in> known then freshInputs known inps else i # freshInputs (insert (inputKey i) known) inps)"

lemma matches_rowKey: "matches i g \<longleftrightarrow> rowKey g = inputKey i"
  by (auto simp: matches_def rowKey_def inputKey_def)

lemma freshInputs_none: "\<forall>i \<in> set inps. inputKey i \<in> known \<Longrightarrow> freshInputs known inps = []"
  by (induction inps) auto

lemma freshInputs_covers: "i \<in> set inps \<Longrightarrow> inputKey i \<in> known \<union> inputKey ` set (freshInputs known inps)"
  by (induction inps arbitrary: known) auto

locale grant_ledger =
  fixes grant :: "GrantInput \<Rightarrow> 'r \<Rightarrow> ('e + Grant) \<times> 'r"
    and invar :: "'r \<Rightarrow> bool"
    and admissible :: "GrantInput \<Rightarrow> bool"
    and rows :: "'r \<Rightarrow> Grant multiset"
  assumes grant_known:
      "invar r \<Longrightarrow> admissible i \<Longrightarrow> g \<in># rows r \<Longrightarrow> matches i g \<Longrightarrow>
        \<exists>h r'. grant i r = (Inr h, r') \<and> matches i h \<and> invar r' \<and> rows r' = rows r"
    and grant_new:
      "invar r \<Longrightarrow> admissible i \<Longrightarrow> \<forall>g \<in># rows r. \<not> matches i g \<Longrightarrow>
        \<exists>h g r'. grant i r = (Inr h, r') \<and> matches i h \<and> credits_input i g \<and> invar r' \<and> rows r' = add_mset g (rows r)"
begin

lemma grantAll_known:
  "invar r \<Longrightarrow> \<forall>i \<in> set inps. admissible i \<and> (\<exists>g \<in># rows r. matches i g) \<Longrightarrow>
    \<exists>r'. grantAll grant inps r = (None, r') \<and> invar r' \<and> rows r' = rows r"
proof (induction inps arbitrary: r)
  case (Cons i inps)
  then obtain h r' where "grant i r = (Inr h, r')" "invar r'" "rows r' = rows r"
    by (metis grant_known list.set_intros(1))
  moreover from this Cons.prems(2) obtain r'' where
    "grantAll grant inps r' = (None, r'')" "invar r''" "rows r'' = rows r'"
    using Cons.IH [of r'] by auto
  ultimately show ?case by auto
qed simp

lemma grantAll_new:
  "invar r \<Longrightarrow> \<forall>i \<in> set inps. admissible i \<and> (\<forall>g \<in># rows r. \<not> matches i g) \<Longrightarrow> distinct (map inputKey inps) \<Longrightarrow>
    \<exists>gs r'. grantAll grant inps r = (None, r') \<and> invar r' \<and> rows r' = rows r + mset gs \<and>
      list_all2 credits_input inps gs"
proof (induction inps arbitrary: r)
  case (Cons i inps)
  obtain h g r' where g: "grant i r = (Inr h, r')" "credits_input i g" "invar r'" "rows r' = add_mset g (rows r)"
    using grant_new [of r i] Cons.prems by auto
  have "\<not> matches j g" if "j \<in> set inps" for j
  proof
    assume "matches j g"
    with g(2) matches_key [of i g j] have "inputKey i = inputKey j" by (simp add: credits_input_def)
    with that Cons.prems(3) show False by simp
  qed
  then obtain gs r'' where "grantAll grant inps r' = (None, r'')" "invar r''" "rows r'' = rows r' + mset gs"
    "list_all2 credits_input inps gs"
    using Cons.IH [of r'] Cons.prems g(3,4) by auto
  with g show ?case by (intro exI [of _ "g # gs"] exI [of _ r'']) simp
qed simp

text \<open>Any sequence of inputs, repetitions included.\<close>

lemma grantAll_fresh:
  "invar r \<Longrightarrow> \<forall>i \<in> set inps. admissible i \<Longrightarrow>
    \<exists>gs r'. grantAll grant inps r = (None, r') \<and> invar r' \<and> rows r' = rows r + mset gs \<and>
      list_all2 credits_input (freshInputs (rowKey ` set_mset (rows r)) inps) gs"
proof (induction inps arbitrary: r)
  case (Cons i inps)
  show ?case
  proof (cases "\<exists>g \<in># rows r. matches i g")
    case True
    then have k: "inputKey i \<in> rowKey ` set_mset (rows r)" by (metis image_eqI matches_rowKey)
    from True Cons.prems obtain h r' where "grant i r = (Inr h, r')" "invar r'" "rows r' = rows r"
      by (metis grant_known list.set_intros(1))
    with Cons.IH [of r'] Cons.prems k show ?thesis by auto
  next
    case False
    then have k: "inputKey i \<notin> rowKey ` set_mset (rows r)" by (auto simp: matches_rowKey image_iff)
    from False Cons.prems obtain h g r' where g: "grant i r = (Inr h, r')" "credits_input i g" "invar r'"
      "rows r' = add_mset g (rows r)"
      using grant_new [of r i] by auto
    then have "rowKey g = inputKey i" by (simp add: credits_input_def matches_rowKey)
    with Cons.IH [OF g(3)] Cons.prems(2) g(4) obtain gs r'' where "grantAll grant inps r' = (None, r'')" "invar r''"
      "rows r'' = rows r' + mset gs"
      "list_all2 credits_input (freshInputs (insert (inputKey i) (rowKey ` set_mset (rows r))) inps) gs"
      by auto
    with g k show ?thesis by (intro exI [of _ "g # gs"] exI [of _ r'']) simp
  qed
qed simp

end

text \<open>
  A ledger whose other operations never lose a row: the same inputs, granted again after any of them, add nothing.
\<close>

locale durable_ledger = grant_ledger +
  fixes step :: "'a \<Rightarrow> 'a \<Rightarrow> bool"
  assumes step_invar: "invar r \<Longrightarrow> step r r' \<Longrightarrow> invar r'"
    and step_keeps: "invar r \<Longrightarrow> step r r' \<Longrightarrow> g \<in># rows r \<Longrightarrow> \<exists>h \<in># rows r'. rowKey h = rowKey g"
begin

lemma steps_keep:
  assumes "step\<^sup>*\<^sup>* r r'" and "invar r"
  shows "invar r' \<and> rowKey ` set_mset (rows r) \<subseteq> rowKey ` set_mset (rows r')"
  using assms(1)
proof induction
  case (step r1 r2)
  then have r1: "invar r1" and sub: "rowKey ` set_mset (rows r) \<subseteq> rowKey ` set_mset (rows r1)" by simp_all
  have "rowKey ` set_mset (rows r1) \<subseteq> rowKey ` set_mset (rows r2)"
  proof (rule image_subsetI)
    fix g assume "g \<in># rows r1"
    then show "rowKey g \<in> rowKey ` set_mset (rows r2)" using step_keeps [OF r1 step(2)] by (metis image_eqI)
  qed
  with sub step_invar [OF r1 step(2)] show ?case by simp
qed (simp add: assms(2))

lemma granted_known:
  assumes "invar r" and adm: "\<forall>i \<in> set inps. admissible i" and "grantAll grant inps r = (err, r1)"
    and "step\<^sup>*\<^sup>* r1 r2"
  shows "err = None \<and>
    (\<exists>new. rows r1 = rows r + mset new \<and> list_all2 credits_input (freshInputs (rowKey ` set_mset (rows r)) inps) new) \<and>
    invar r2 \<and> (\<forall>i \<in> set inps. \<exists>g \<in># rows r2. matches i g)"
proof -
  let ?known = "rowKey ` set_mset (rows r)"
  from grantAll_fresh [OF assms(1) adm] assms(3) obtain new where r1: "err = None" "invar r1" "rows r1 = rows r + mset new"
    and all2: "list_all2 credits_input (freshInputs ?known inps) new" by auto
  have "rowKey ` set new = inputKey ` set (freshInputs ?known inps)"
    using all2 by (induction rule: list_all2_induct) (auto simp: credits_input_def matches_rowKey)
  then have "inputKey i \<in> rowKey ` set_mset (rows r1)" if "i \<in> set inps" for i
    using freshInputs_covers [OF that, of ?known] r1(3) by auto
  then have "inputKey i \<in> rowKey ` set_mset (rows r2)" if "i \<in> set inps" for i
    using steps_keep [OF assms(4) r1(2)] that by blast
  then have "\<forall>i \<in> set inps. \<exists>g \<in># rows r2. matches i g" by (fastforce simp: matches_rowKey image_iff)
  with steps_keep [OF assms(4) r1(2)] r1 all2 show ?thesis by auto
qed

end

end
