(* ===== verification/Credit_Handlers_Proofs.thy ===== *)
theory Credit_Handlers_Proofs
  imports Credit_Contract Credits_Properties
begin

text \<open>
  The credit handlers on the in-memory repository: grant intents survive the trip through session
  metadata, a paid session is credited exactly once however often its event is delivered (through the
  contract \<open>grant_ledger\<close>, which the in-memory repository discharges here), and a refund revokes exactly
  the grants it names, which the references written by the session handler never match.
\<close>

subsection \<open>Session metadata\<close>

text \<open>Field tags are their own lower-case form.\<close>

lemma lower_tags [simp]:
  "lower ''bucket'' = ''bucket''" "lower ''amount'' = ''amount''" "lower ''valid_days'' = ''valid_days''"
  "lower ''product_key'' = ''product_key''" "lower ''quantity'' = ''quantity''"
  by code_simp+

definition pending_ok :: "PendingGrant \<Rightarrow> bool" where
  "pending_ok g \<longleftrightarrow> ascii (pg_Bucket g) \<and> ascii (pg_ProductKey g) \<and>
     in64 (pg_Amount g) \<and> in64 (pg_ValidDays g) \<and> in64 (pg_Quantity g)"

lemma ascii_tags [simp]:
  "ascii ''bucket''" "ascii ''amount''" "ascii ''valid_days''" "ascii ''product_key''" "ascii ''quantity''"
  by code_simp+

lemma wf_pendingJson: "pending_ok g \<Longrightarrow> wfJson (pendingJson g)"
  by (simp add: pendingJson_def pending_ok_def numLit_showInt)

lemma decode_pendingJson:
  assumes "pending_ok g"
  shows "dStruct pendingField (pendingJson g) zeroPending = Some g"
  using assms
  by (simp add: pending_ok_def dStruct_def pendingJson_def pendingField_def zeroPending_def dString_def dInt_def
      ParseInt_showInt)

lemma dElems_map:
  "(\<And>x. x \<in> set xs \<Longrightarrow> dec (enc x) z = Some x) \<Longrightarrow> dElems z dec (map enc xs) = Some xs"
  by (induction xs) auto

lemma Decode_Encode:
  assumes "\<forall>g \<in> set pgs. pending_ok g" and "EncodeSessionMetadata pgs = Inr s"
  shows "DecodeSessionMetadata s = Inr pgs"
proof (cases "pgs = []")
  case True
  with assms(2) show ?thesis by (simp add: EncodeSessionMetadata_def DecodeSessionMetadata_def)
next
  case False
  then have s: "s = prJson (JArr (map pendingJson pgs))"
    using assms(2) by (auto simp: EncodeSessionMetadata_def Let_def split: if_splits)
  have "json_parse s = Some (JArr (map pendingJson pgs))"
    unfolding s using assms(1) by (intro json_parse_print) (auto simp: wf_pendingJson)
  moreover have "dElems zeroPending (dStruct pendingField) (map pendingJson pgs) = Some pgs"
    using assms(1) by (intro dElems_map) (auto simp: decode_pendingJson)
  moreover have "s \<noteq> ''''" by (simp add: s)
  ultimately show ?thesis by (simp add: DecodeSessionMetadata_def Unmarshal_def dSlice_def)
qed

text \<open>Grant intents survive the round trip through session metadata: whenever a list of intents can be
  encoded (ASCII keys, 64-bit numbers, at most 500 bytes), decoding the stored value gives the same list
  back.\<close>

lemma session_metadata_roundtrip:
  assumes "\<forall>g \<in> set pgs. pending_ok g" and "EncodeSessionMetadata pgs = Inr s"
  shows "DecodeSessionMetadata s = Inr pgs"
  by (rule Decode_Encode [OF assms])

definition demo_pending :: "PendingGrant list" where
  "demo_pending =
     [\<lparr>pg_Bucket = ''api'', pg_Amount = 100, pg_ValidDays = 30, pg_ProductKey = ''pack'', pg_Quantity = 2\<rparr>,
      \<lparr>pg_Bucket = ''img<1>'', pg_Amount = 7, pg_ValidDays = 0, pg_ProductKey = '''', pg_Quantity = 0\<rparr>]"

lemma session_metadata_roundtrip_instance:
  "\<exists>s. EncodeSessionMetadata demo_pending = Inr s \<and> DecodeSessionMetadata s = Inr demo_pending"
proof -
  have "\<forall>g \<in> set demo_pending. pending_ok g" by code_simp
  moreover have "\<not> length (prJson (JArr (map pendingJson demo_pending))) > 500" by code_simp
  then have "EncodeSessionMetadata demo_pending = Inr (prJson (JArr (map pendingJson demo_pending)))"
    by (simp add: EncodeSessionMetadata_def demo_pending_def del: prJson.simps)
  ultimately show ?thesis using session_metadata_roundtrip by blast
qed

subsection \<open>The in-memory repository meets the contract\<close>

definition memGrant :: "GrantInput \<Rightarrow> memoryRepo \<Rightarrow> (credits_error + Grant) \<times> memoryRepo" where
  "memGrant inp r = (let (g, r') = memoryRepo_Grant inp r in (Inr g, r'))"

definition mem_invar :: "memoryRepo \<Rightarrow> bool" where
  "mem_invar r \<longleftrightarrow> ledger_inv r \<and> seen_ok r \<and> key_ok r"

definition mem_admissible :: "GrantInput \<Rightarrow> bool" where
  "mem_admissible inp \<longleftrightarrow> gi_SourceRef inp \<noteq> '''' \<and> 0 < gi_Amount inp \<and>
     bar_free (gi_SubjectID inp) \<and> bar_free (gi_Bucket inp)"

lemma key_ok_bar_free: "key_ok r \<Longrightarrow> all_bar_free r"
  by (simp add: key_ok_def all_bar_free_def)

lemma mem_invar_reachable: "ledger_reachable r \<Longrightarrow> all_bar_free r \<Longrightarrow> mem_invar r"
  using reachable_inv reachable_seen reachable_key_inv by (auto simp: mem_invar_def key_inv_def)

lemma memGrant_known:
  assumes "mem_invar r" and "mem_admissible i" and "g \<in> set (all_grants r)" and "matches i g"
  shows "memGrant i r = (Inr g, r)"
proof -
  have "grantSeen i r = Some g"
    using assms by (intro grantSeen_hit) (simp_all add: mem_invar_def mem_admissible_def)
  then show ?thesis by (simp add: memGrant_def memoryRepo_Grant_def)
qed

lemma memGrant_new:
  assumes "mem_invar r" and "mem_admissible i" and new: "\<forall>g \<in> set (all_grants r). \<not> matches i g"
  shows "\<exists>g r'. memGrant i r = (Inr g, r') \<and> credits_input i g \<and> mem_invar r' \<and>
    mset (all_grants r') = add_mset g (mset (all_grants r))"
proof (cases rule: Grant_cases [of i r])
  case (seen g)
  then have "g \<in> set (all_grants r) \<and> matches i g"
    using assms by (intro grantSeen_sound) (simp_all add: mem_invar_def mem_admissible_def key_ok_bar_free)
  with new show ?thesis by blast
next
  case (fresh g)
  let ?r = "snd (memoryRepo_Grant i r)"
  have g: "matches i g" "credits_input i g"
    using fresh(2) by (simp_all add: mkGrant_def matches_def credits_input_def)
  have ms: "mset (all_grants ?r) = add_mset g (mset (all_grants r))"
    using fresh(3) mset_all_grants_added [of r g] assms(1)
    by (simp add: mem_invar_def ledger_inv_def all_grants_def)
  then have set: "set (all_grants ?r) = insert g (set (all_grants r))"
    by (metis set_mset_add_mset_insert set_mset_mset)
  have bf: "all_bar_free ?r"
    using key_ok_bar_free assms(1,2) g(1)
    by (auto simp: all_bar_free_def set mem_invar_def mem_admissible_def matches_def)
  have "ledger_inv ?r" "seen_ok ?r" "key_inv ?r"
    using assms by (simp_all add: mem_invar_def mem_admissible_def inv_Grant seen_ok_Grant
        key_inv_Grant key_inv_def [of r])
  with bf have "mem_invar ?r" by (simp add: mem_invar_def key_inv_def)
  with g ms fresh show ?thesis by (simp add: memGrant_def)
qed

interpretation mem_ledger: grant_ledger memGrant mem_invar mem_admissible "\<lambda>r. mset (all_grants r)"
proof
  fix r i g
  assume "mem_invar r" "mem_admissible i" "g \<in># mset (all_grants r)" "matches i g"
  then show "\<exists>h r'. memGrant i r = (Inr h, r') \<and> matches i h \<and> mem_invar r' \<and> mset (all_grants r') = mset (all_grants r)"
    using memGrant_known by simp
next
  fix r i
  assume "mem_invar r" "mem_admissible i" "\<forall>g \<in># mset (all_grants r). \<not> matches i g"
  then show "\<exists>h g r'. memGrant i r = (Inr h, r') \<and> matches i h \<and> credits_input i g \<and> mem_invar r' \<and>
    mset (all_grants r') = add_mset g (mset (all_grants r))"
    using memGrant_new by (fastforce simp: credits_input_def)
qed

subsection \<open>Session references\<close>

lemma showNat_no_colon: "CHR '':'' \<notin> set (showNat n)"
  using showNat_digits [of "CHR '':''" n] by (auto simp: isDigit_def)

lemma sessionRef_inj: "sessionRef p i u = sessionRef p j v \<longleftrightarrow> i = j \<and> u = v"
proof
  assume "sessionRef p i u = sessionRef p j v"
  then have "showNat i @ CHR '':'' # showNat u = showNat j @ CHR '':'' # showNat v"
    by (simp add: sessionRef_def)
  from sep_inj [OF showNat_no_colon showNat_no_colon this] show "i = j \<and> u = v" by simp
qed simp

lemma distinct_sessionInputs_from:
  "distinct (map inputKey (concat (map (\<lambda>(i, g). map (sessionInput s i g) [0..<unitCount g]) (enumerate n pgs))))"
proof (induction pgs arbitrary: n)
  case (Cons g pgs)
  let ?rest = "concat (map (\<lambda>(i, g). map (sessionInput s i g) [0..<unitCount g]) (enumerate (Suc n) pgs))"
  have key: "inputKey (sessionInput s i g u) = inputKey (sessionInput s j h v) \<Longrightarrow> i = j \<and> u = v" for i g u j h v
    by (simp add: inputKey_def sessionInput_def sessionRef_inj)
  have "distinct (map inputKey (map (sessionInput s n g) [0..<unitCount g]))"
    by (auto simp: distinct_map comp_def intro!: inj_onI dest: key)
  moreover have "inputKey (sessionInput s n g u) \<notin> inputKey ` set ?rest" for u
  proof
    assume "inputKey (sessionInput s n g u) \<in> inputKey ` set ?rest"
    then obtain i h v where "(i, h) \<in> set (enumerate (Suc n) pgs)"
      "inputKey (sessionInput s n g u) = inputKey (sessionInput s i h v)" by auto
    with key [of n g u i h v] show False by (auto simp: in_set_enumerate_eq)
  qed
  then have "set (map inputKey (map (sessionInput s n g) [0..<unitCount g])) \<inter> set (map inputKey ?rest) = {}"
    unfolding set_map by blast
  ultimately show ?case
    using Cons.IH [of "Suc n"]
    by (simp only: enumerate_simps list.map prod.case concat.simps map_append distinct_append)
qed simp

lemma distinct_sessionInputs: "distinct (map inputKey (sessionInputs s pgs))"
  unfolding sessionInputs_def by (rule distinct_sessionInputs_from)

lemma sum_sessionInputs:
  "sum_list (map gi_Amount (sessionInputs s pgs)) = sum_list (map (\<lambda>g. pg_Amount g * int (unitCount g)) pgs)"
proof -
  have "sum_list (map gi_Amount (concat (map (\<lambda>(i, g). map (sessionInput s i g) [0..<unitCount g]) (enumerate n pgs)))) =
    sum_list (map (\<lambda>g. pg_Amount g * int (unitCount g)) pgs)" for n
  proof (induction pgs arbitrary: n)
    case (Cons g pgs)
    have "sum_list (map gi_Amount (map (sessionInput s n g) [0..<k])) = pg_Amount g * int k" for k
      by (induction k) (simp_all add: sessionInput_def distrib_left)
    with Cons show ?case by simp
  qed simp
  then show ?thesis by (simp add: sessionInputs_def)
qed


subsection \<open>A session is credited once\<close>

text \<open>The grants an event asks for: the decoded session and its intents, when the handler gets as far as
  the loop.\<close>

definition sessionGrants :: "Event \<Rightarrow> (sessionShape \<times> PendingGrant list) option" where
  "sessionGrants evt =
     (if ev_Type evt \<noteq> ''checkout.session.completed'' \<and> ev_Type evt \<noteq> ''checkout.session.async_payment_succeeded''
      then None
      else case decodeSession evt :: credits_error handler_error + sessionShape of
        Inl e \<Rightarrow> None
      | Inr s \<Rightarrow>
          (case DecodeSessionMetadata (mstr (ss_Metadata s) SessionMetadataKey) of
             Inl e \<Rightarrow> None
           | Inr gs \<Rightarrow> if gs = [] \<or> mstr (ss_Metadata s) ''subject_id'' = '''' then None else Some (s, gs)))"

lemma decodeSession_err_free:
  "(decodeSession evt :: 'a handler_error + sessionShape) = Inr s \<longleftrightarrow>
   (decodeSession evt :: 'b handler_error + sessionShape) = Inr s"
  by (auto simp: decodeSession_def split: option.splits)

lemma Apply_sessionGrants:
  fixes grant :: "GrantInput \<Rightarrow> 'r \<Rightarrow> ('e + Grant) \<times> 'r"
  assumes "sessionGrants evt = Some (s, pgs)"
  shows "ApplyGrantsFromSession (Some grant) evt r = grantAll grant (sessionInputs s pgs) r"
proof -
  from assms have d: "(decodeSession evt :: credits_error handler_error + sessionShape) = Inr s"
    and rest: "DecodeSessionMetadata (mstr (ss_Metadata s) SessionMetadataKey) = Inr pgs" "pgs \<noteq> []"
      "mstr (ss_Metadata s) ''subject_id'' \<noteq> ''''"
      "\<not> (ev_Type evt \<noteq> ''checkout.session.completed'' \<and> ev_Type evt \<noteq> ''checkout.session.async_payment_succeeded'')"
    unfolding sessionGrants_def by (simp_all split: if_split_asm sum.split_asm)
  have "(decodeSession evt :: 'e handler_error + sessionShape) = Inr s" by (rule decodeSession_err_free [THEN iffD1, OF d])
  moreover have "mstr (ss_Metadata s) SessionMetadataKey \<noteq> ''''" using rest(1,2) by (auto simp: DecodeSessionMetadata_def)
  ultimately show ?thesis using rest by (simp only: ApplyGrantsFromSession_def) simp
qed

lemma sessionInputs_memD:
  assumes "inp \<in> set (sessionInputs s pgs)"
  obtains i g u where "g \<in> set pgs" "inp = sessionInput s i g u" "u < unitCount g"
proof -
  from assms obtain i g u where "(i, g) \<in> set (enumerate 0 pgs)" "inp = sessionInput s i g u" "u < unitCount g"
    by (auto simp: sessionInputs_def)
  moreover from this have "g \<in> set pgs" by (auto simp: in_set_enumerate_eq)
  ultimately show thesis using that by blast
qed

definition session_admissible :: "sessionShape \<Rightarrow> PendingGrant list \<Rightarrow> bool" where
  "session_admissible s pgs \<longleftrightarrow> bar_free (mstr (ss_Metadata s) ''subject_id'') \<and>
     (\<forall>g \<in> set pgs. bar_free (pg_Bucket g) \<and> 0 < pg_Amount g)"

lemma session_inputs_admissible:
  "session_admissible s pgs \<Longrightarrow> inp \<in> set (sessionInputs s pgs) \<Longrightarrow> mem_admissible inp"
  by (erule sessionInputs_memD) (auto simp: session_admissible_def mem_admissible_def sessionInput_def sessionRef_def)

lemma list_all2_amounts:
  "list_all2 credits_input inps gs \<Longrightarrow> map g_AmountInitial gs = map gi_Amount inps"
  by (induction rule: list_all2_induct) (auto simp: credits_input_def)

lemma list_all2_memD: "list_all2 P xs ys \<Longrightarrow> x \<in> set xs \<Longrightarrow> \<exists>y \<in> set ys. P x y"
  by (induction rule: list_all2_induct) auto

lemma keeps_matches:
  assumes "keeps r r'" "keys_ok r" "g \<in> set (all_grants r)" "matches i g"
  shows "\<exists>h \<in> set (all_grants r'). matches i h"
proof -
  from assms obtain h where "h \<in> set (grants r' (g_SubjectID g))" "same_grant g h"
    using all_in_grants unfolding keeps_def by blast
  with assms(4) show ?thesis
    by (intro bexI [of _ h]) (auto simp: matches_def same_grant_def intro: grants_in_all)
qed

lemma mem_invar_run:
  assumes "ledger_step\<^sup>*\<^sup>* r r'" and "mem_invar r" and "all_bar_free r'"
  shows "mem_invar r'"
proof -
  from assms(1) have "ledger_inv r' \<and> seen_ok r' \<and> key_inv r'"
  proof (induction rule: rtranclp_induct)
    case base
    from assms(2) show ?case by (simp add: mem_invar_def key_inv_def)
  next
    case (step r1 r2)
    then show ?case by (blast intro: ledger_step_inv ledger_step_seen ledger_step_key_inv)
  qed
  with assms(3) show ?thesis by (simp add: mem_invar_def key_inv_def)
qed

text \<open>Granting known inputs again, later in the ledger's life, adds nothing.\<close>

lemma regrant_adds_nothing:
  assumes "mem_invar r1" and "ledger_step\<^sup>*\<^sup>* r1 r2" and "all_bar_free r2"
    and "\<forall>inp \<in> set inps. mem_admissible inp" and "\<forall>inp \<in> set inps. \<exists>g \<in> set (all_grants r1). matches inp g"
    and "grantAll memGrant inps r2 = (err, r3)"
  shows "err = None \<and> mset (all_grants r3) = mset (all_grants r2)"
proof -
  have "ledger_inv r1" using assms(1) by (simp add: mem_invar_def)
  then have "keeps r1 r2" "keys_ok r1" "ledger_inv r2"
    using ledger_steps_keeps [OF assms(2)] ledger_steps_inv [OF assms(2)] by (simp_all add: ledger_inv_def)
  with assms(5) have "\<forall>inp \<in> set inps. \<exists>g \<in> set (all_grants r2). matches inp g" using keeps_matches by meson
  moreover have "mem_invar r2" by (rule mem_invar_run [OF assms(2,1,3)])
  ultimately show ?thesis using mem_ledger.grantAll_known [of r2 inps] assms(4,6) by auto
qed

text \<open>C6: A paid session is credited exactly once. The first delivery of a session event adds exactly the
  intents' amounts times their quantities, each unit under its own source reference; after that, whatever
  the ledger does, delivering the event again adds no grant and changes none. The subject and the buckets
  contain no bar, amounts are positive, and no grant carries one of the references yet.\<close>

theorem session_credited_once:
  assumes "ledger_reachable r" and "all_bar_free r" and "sessionGrants evt = Some (s, pgs)"
    and "session_admissible s pgs"
    and "\<forall>inp \<in> set (sessionInputs s pgs). \<forall>g \<in> set (all_grants r). \<not> matches inp g"
    and "ApplyGrantsFromSession (Some memGrant) evt r = (err, r1)"
    and "ledger_step\<^sup>*\<^sup>* r1 r2" and "all_bar_free r2"
    and "ApplyGrantsFromSession (Some memGrant) evt r2 = (err', r3)"
  shows "err = None \<and>
    (\<exists>new. mset (all_grants r1) = mset (all_grants r) + mset new \<and>
       sum_list (map g_AmountInitial new) = sum_list (map (\<lambda>g. pg_Amount g * int (unitCount g)) pgs)) \<and>
    err' = None \<and> mset (all_grants r3) = mset (all_grants r2)"
proof -
  let ?inps = "sessionInputs s pgs"
  have adm: "\<forall>inp \<in> set ?inps. mem_admissible inp" using session_inputs_admissible [OF assms(4)] by blast
  have "mem_invar r" by (rule mem_invar_reachable [OF assms(1,2)])
  then obtain new where r1: "err = None" "mem_invar r1" "mset (all_grants r1) = mset (all_grants r) + mset new"
    and all2: "list_all2 credits_input ?inps new"
    using mem_ledger.grantAll_new [of r ?inps] adm assms(5,6) distinct_sessionInputs [of s pgs]
    by (auto simp: Apply_sessionGrants [OF assms(3)])
  have sum: "sum_list (map g_AmountInitial new) = sum_list (map (\<lambda>g. pg_Amount g * int (unitCount g)) pgs)"
    using list_all2_amounts [OF all2] sum_sessionInputs [of s pgs] by simp
  have "set new \<subseteq> set (all_grants r1)" using r1(3) by (metis set_mset_mset mset_subset_eq_add_right set_mset_mono)
  then have "\<forall>inp \<in> set ?inps. \<exists>g \<in> set (all_grants r1). matches inp g"
    using list_all2_memD [OF all2] by (fastforce simp: credits_input_def)
  then have "err' = None \<and> mset (all_grants r3) = mset (all_grants r2)"
    using regrant_adds_nothing [OF r1(2) assms(7,8), of ?inps] adm assms(9) by (simp add: Apply_sessionGrants [OF assms(3)])
  with r1 sum show ?thesis by blast
qed

definition demo_intents :: "PendingGrant list" where
  "demo_intents = [\<lparr>pg_Bucket = ''api'', pg_Amount = 10, pg_ValidDays = 0, pg_ProductKey = '''', pg_Quantity = 2\<rparr>]"

definition demo_session :: Event where
  "demo_session = fromStripeEvent
     \<lparr>se_ID = ''evt_1'', se_Type = ''checkout.session.completed'', se_Livemode = False, se_Created = 0,
      se_Data = Some (prJson (JObj [(''id'', JStr ''cs_1''), (''payment_intent'', JStr ''pi_9''),
        (''metadata'', JObj [(''subject_id'', JStr ''u''),
          (''credit_grants'', JStr (prJson (JArr (map pendingJson demo_intents))))])]))\<rparr>"

definition demo_shape :: sessionShape where
  "demo_shape = \<lparr>ss_ID = ''cs_1'', ss_Metadata = [(''subject_id'', ''u''),
     (''credit_grants'', prJson (JArr (map pendingJson demo_intents)))], ss_PaymentIntent = ''pi_9''\<rparr>"

lemma demo_sessionGrants: "sessionGrants demo_session = Some (demo_shape, demo_intents)"
  by code_simp

theorem session_credited_once_witness:
  "\<exists>r1 new. ApplyGrantsFromSession (Some memGrant) demo_session demo_repo = (None, r1) \<and>
     mset (all_grants r1) = mset (all_grants demo_repo) + mset new \<and> sum_list (map g_AmountInitial new) = 20"
proof -
  obtain err r1 where r1: "ApplyGrantsFromSession (Some memGrant) demo_session demo_repo = (err, r1)" by fastforce
  obtain err' r3 where r3: "ApplyGrantsFromSession (Some memGrant) demo_session r1 = (err', r3)" by fastforce
  have "all_bar_free (snd (ApplyGrantsFromSession (Some memGrant) demo_session demo_repo))" by code_simp
  then have bf: "all_bar_free demo_repo" "all_bar_free r1" by (code_simp, simp add: r1)
  have adm: "session_admissible demo_shape demo_intents" by code_simp
  have new: "\<forall>inp \<in> set (sessionInputs demo_shape demo_intents). \<forall>g \<in> set (all_grants demo_repo). \<not> matches inp g"
    by code_simp
  have "sum_list (map (\<lambda>g. pg_Amount g * int (unitCount g)) demo_intents) = 20" by code_simp
  then show ?thesis
    using session_credited_once [OF demo_reachable bf(1) demo_sessionGrants adm new r1 rtranclp.rtrancl_refl bf(2) r3] r1
    by auto
qed

subsection \<open>Refunds\<close>

definition memFind :: "string \<Rightarrow> memoryRepo \<Rightarrow> (credits_error + Grant list) \<times> memoryRepo" where
  "memFind ref r = (Inr (memoryRepo_FindGrantsBySourceRef ref r), r)"

definition memRevoke :: "(time \<Rightarrow> string) \<Rightarrow> string \<Rightarrow> string \<Rightarrow> memoryRepo \<Rightarrow> credits_error option \<times> memoryRepo" where
  "memRevoke rfc gid reason r = (None, memoryRepo_RevokeGrant rfc gid reason r)"

definition unrevoked :: "Grant \<Rightarrow> bool" where
  "unrevoked g \<longleftrightarrow> mstr (g_Metadata g) ''revoked_reason'' = ''''"

text \<open>\<open>r'\<close> is \<open>r\<close> with exactly the grants in \<open>P\<close> revoked, everything else as it was.\<close>

definition revoked_exactly :: "string \<Rightarrow> (Grant \<Rightarrow> bool) \<Rightarrow> memoryRepo \<Rightarrow> memoryRepo \<Rightarrow> bool" where
  "revoked_exactly reason P r r' \<longleftrightarrow> ledger_inv r' \<and> deductionBySubject r' = deductionBySubject r \<and>
     (\<exists>stamp. all_grants r' = map (\<lambda>g. if P g then revokeMark reason (stamp g) g else g) (all_grants r))"

lemma revoked_exactlyI:
  "ledger_inv r' \<Longrightarrow> deductionBySubject r' = deductionBySubject r \<Longrightarrow>
    all_grants r' = map (\<lambda>g. if P g then revokeMark reason (stamp g) g else g) (all_grants r) \<Longrightarrow>
    revoked_exactly reason P r r'"
  unfolding revoked_exactly_def by blast

lemma revoked_exactlyE:
  assumes "revoked_exactly reason P r r'"
  obtains stamp where "ledger_inv r'" "deductionBySubject r' = deductionBySubject r"
    "all_grants r' = map (\<lambda>g. if P g then revokeMark reason (stamp g) g else g) (all_grants r)"
  using assms unfolding revoked_exactly_def by blast

lemma revoked_exactly_cong:
  assumes "revoked_exactly reason P r r'" and "\<And>g. g \<in> set (all_grants r) \<Longrightarrow> P g = Q g"
  shows "revoked_exactly reason Q r r'"
  using assms(1)
proof (rule revoked_exactlyE)
  fix stamp
  assume *: "ledger_inv r'" "deductionBySubject r' = deductionBySubject r"
    "all_grants r' = map (\<lambda>g. if P g then revokeMark reason (stamp g) g else g) (all_grants r)"
  from *(3) assms(2) have "all_grants r' = map (\<lambda>g. if Q g then revokeMark reason (stamp g) g else g) (all_grants r)"
    by simp
  with *(1,2) show ?thesis by (rule revoked_exactlyI)
qed

lemma revoked_exactly_refl: "ledger_inv r \<Longrightarrow> revoked_exactly reason (\<lambda>_. False) r r"
  by (simp add: revoked_exactly_def)

text \<open>Two rounds with the same reason, where the second skips what the first revoked.\<close>

lemma revoked_exactly_trans:
  assumes "revoked_exactly reason P r r1" and "revoked_exactly reason Q r1 r2"
    and "\<And>g stamp. Q (revokeMark reason stamp g) = False"
  shows "revoked_exactly reason (\<lambda>g. P g \<or> Q g) r r2"
proof -
  from assms(1) obtain s1 where s1: "deductionBySubject r1 = deductionBySubject r"
    "all_grants r1 = map (\<lambda>g. if P g then revokeMark reason (s1 g) g else g) (all_grants r)"
    by (rule revoked_exactlyE)
  from assms(2) obtain s2 where s2: "ledger_inv r2" "deductionBySubject r2 = deductionBySubject r1"
    "all_grants r2 = map (\<lambda>g. if Q g then revokeMark reason (s2 g) g else g) (all_grants r1)"
    by (rule revoked_exactlyE)
  have "all_grants r2 = map (\<lambda>g. if P g \<or> Q g then revokeMark reason (if P g then s1 g else s2 g) g else g) (all_grants r)"
    using assms(3) by (simp add: s1(2) s2(3))
  then show ?thesis
    using s1(1) s2(1,2) by (intro revoked_exactlyI [where stamp = "\<lambda>g. if P g then s1 g else s2 g"]) simp_all
qed

lemma unrevoked_mark [simp]: "reason \<noteq> '''' \<Longrightarrow> unrevoked (revokeMark reason stamp g) = False"
  by (simp add: unrevoked_def mget_def)

lemma revoke_one:
  assumes inv: "ledger_inv r" and x: "x \<in> set (all_grants r)"
  shows "revoked_exactly reason (\<lambda>g. g = x) r (memoryRepo_RevokeGrant rfc (g_ID x) reason r)"
proof -
  let ?mark = "revokeMark reason (rfc (clock r (ticks r)))"
  have inj: "inj_on g_ID (set (all_grants r))" using inv by (simp add: ledger_inv_def ids_ok_def distinct_map)
  have st: "memoryRepo_RevokeGrant rfc (g_ID x) reason r =
    (regrant (only_id (g_ID x) ?mark) r)\<lparr>ticks := Suc (ticks r)\<rparr>"
    using inv x by (simp add: RevokeGrant_state ledger_inv_def)
  have "map (only_id (g_ID x) ?mark) (all_grants r) = map (\<lambda>g. if g = x then ?mark g else g) (all_grants r)"
    using inj x by (auto simp: only_id_def inj_on_def)
  then have "all_grants (memoryRepo_RevokeGrant rfc (g_ID x) reason r) = map (\<lambda>g. if g = x then ?mark g else g) (all_grants r)"
    by (simp add: st)
  moreover have "deductionBySubject (memoryRepo_RevokeGrant rfc (g_ID x) reason r) = deductionBySubject r"
    by (simp add: st regrant_def)
  ultimately show ?thesis
    using inv_RevokeGrant [OF inv] by (intro revoked_exactlyI [where stamp = "\<lambda>_. rfc (clock r (ticks r))"])
qed

lemma revokeGrants_exact:
  assumes "ledger_inv r" and "set xs \<subseteq> set (all_grants r)" and "distinct (map g_ID xs)" and "reason \<noteq> ''''"
  shows "\<exists>r'. revokeGrants (memRevoke rfc) reason xs r = (None, r') \<and>
    revoked_exactly reason (\<lambda>g. g \<in> set xs \<and> unrevoked g) r r'"
  using assms(1-3)
proof (induction xs arbitrary: r)
  case Nil
  then show ?case by (simp add: revoked_exactly_refl)
next
  case (Cons x xs)
  show ?case
  proof (cases "unrevoked x")
    case False
    from Cons.IH [OF Cons.prems(1)] Cons.prems(2,3) obtain r' where
      r': "revokeGrants (memRevoke rfc) reason xs r = (None, r')"
        "revoked_exactly reason (\<lambda>g. g \<in> set xs \<and> unrevoked g) r r'" by auto
    from r'(2) have "revoked_exactly reason (\<lambda>g. g \<in> set (x # xs) \<and> unrevoked g) r r'"
      by (rule revoked_exactly_cong) (use False in auto)
    with r'(1) False show ?thesis by (simp add: unrevoked_def)
  next
    case True
    let ?r1 = "memoryRepo_RevokeGrant rfc (g_ID x) reason r"
    have one: "revoked_exactly reason (\<lambda>g. g = x) r ?r1" using Cons.prems by (intro revoke_one) auto
    then obtain st where r1: "ledger_inv ?r1"
      "all_grants ?r1 = map (\<lambda>g. if g = x then revokeMark reason (st g) g else g) (all_grants r)"
      by (rule revoked_exactlyE)
    have nx: "x \<notin> set xs" using Cons.prems(3) by auto
    have "set xs \<subseteq> set (all_grants ?r1)" using nx Cons.prems(2) by (auto simp: r1(2))
    then obtain r' where r': "revokeGrants (memRevoke rfc) reason xs ?r1 = (None, r')"
      "revoked_exactly reason (\<lambda>g. g \<in> set xs \<and> unrevoked g) ?r1 r'"
      using Cons.IH [OF r1(1)] Cons.prems(3) by auto
    have "revoked_exactly reason (\<lambda>g. g = x \<or> g \<in> set xs \<and> unrevoked g) r r'"
      by (rule revoked_exactly_trans [OF one r'(2)]) (simp add: assms(4))
    then have "revoked_exactly reason (\<lambda>g. g \<in> set (x # xs) \<and> unrevoked g) r r'"
      by (rule revoked_exactly_cong) (use True in auto)
    moreover have "revokeGrants (memRevoke rfc) reason (x # xs) r = (None, r')"
      using True r'(1) by (simp add: unrevoked_def memRevoke_def)
    ultimately show ?thesis by blast
  qed
qed

lemma FindGrants_all: "ref \<noteq> '''' \<Longrightarrow> memoryRepo_FindGrantsBySourceRef ref r = filter (\<lambda>g. g_SourceRef g = ref) (all_grants r)"
  by (simp add: memoryRepo_FindGrantsBySourceRef_def all_grants_def)

lemma revokeMark_SourceRef [simp]: "g_SourceRef (revokeMark reason stamp g) = g_SourceRef g"
  by (simp add: revokeMark_def)

lemma revokeRefs_exact:
  assumes "ledger_inv r" and "'''' \<notin> set refs" and "reason \<noteq> ''''"
  shows "\<exists>r'. revokeRefs memFind (memRevoke rfc) reason refs r = (None, r') \<and>
    revoked_exactly reason (\<lambda>g. g_SourceRef g \<in> set refs \<and> unrevoked g) r r'"
  using assms(1,2)
proof (induction refs arbitrary: r)
  case Nil
  then show ?case by (simp add: revoked_exactly_refl)
next
  case (Cons ref refs)
  let ?xs = "filter (\<lambda>g. g_SourceRef g = ref) (all_grants r)"
  have "distinct (map g_ID ?xs)"
    using Cons.prems(1) by (simp add: ledger_inv_def ids_ok_def distinct_map_filter)
  then obtain r1 where r1: "revokeGrants (memRevoke rfc) reason ?xs r = (None, r1)"
    "revoked_exactly reason (\<lambda>g. g \<in> set ?xs \<and> unrevoked g) r r1"
    using revokeGrants_exact [OF Cons.prems(1) _ _ assms(3), of ?xs rfc] by auto
  then obtain r2 where r2: "revokeRefs memFind (memRevoke rfc) reason refs r1 = (None, r2)"
    "revoked_exactly reason (\<lambda>g. g_SourceRef g \<in> set refs \<and> unrevoked g) r1 r2"
    using Cons.IH [of r1] Cons.prems(2) by (auto simp: revoked_exactly_def)
  have "revoked_exactly reason (\<lambda>g. g \<in> set ?xs \<and> unrevoked g \<or> g_SourceRef g \<in> set refs \<and> unrevoked g) r r2"
    by (rule revoked_exactly_trans [OF r1(2) r2(2)]) (simp add: assms(3))
  then have "revoked_exactly reason (\<lambda>g. g_SourceRef g \<in> set (ref # refs) \<and> unrevoked g) r r2"
    by (rule revoked_exactly_cong) auto
  moreover have "revokeRefs memFind (memRevoke rfc) reason (ref # refs) r = (None, r2)"
    using r1(1) r2(1) Cons.prems(2) FindGrants_all [of ref r] by (auto simp: memFind_def)
  ultimately show ?case by blast
qed

text \<open>C7: A refund revokes exactly what it names. For a refund event that parses to a refund id, payment
  intent and charge, the handler revokes every not yet revoked grant whose source reference equals one of
  the non-empty ids, with the refund as reason, and leaves every other grant and every debit row alone;
  delivering the event again finds only revoked grants and changes none.\<close>

theorem refund_revokes_exactly:
  assumes "ledger_reachable r" and "parseRefundEvent evt = Some (rid, pint, ch)"
    and "ApplyRefundReversal memFind (memRevoke rfc) evt r = (err, r1)"
    and "ApplyRefundReversal memFind (memRevoke rfc) evt r1 = (err', r2)"
  shows "err = None \<and> err' = None \<and> deductionBySubject r1 = deductionBySubject r \<and>
    (\<exists>stamp. all_grants r1 =
       map (\<lambda>g. if g_SourceRef g \<noteq> '''' \<and> g_SourceRef g \<in> {rid, pint, ch} \<and> unrevoked g
                then revokeMark (''refund:'' @ rid) (stamp g) g else g) (all_grants r)) \<and>
    all_grants r2 = all_grants r1"
proof -
  let ?refs = "refundCandidates rid pint ch" and ?reason = "''refund:'' @ rid"
  have refs: "'''' \<notin> set ?refs" "\<And>x. x \<in> set ?refs \<longleftrightarrow> x \<noteq> '''' \<and> x \<in> {rid, pint, ch}"
    by (auto simp: refundCandidates_def)
  have Apply: "ApplyRefundReversal memFind (memRevoke rfc) evt q = revokeRefs memFind (memRevoke rfc) ?reason ?refs q" for q
    by (simp add: ApplyRefundReversal_def assms(2))
  have ex: "\<exists>q'. revokeRefs memFind (memRevoke rfc) ?reason ?refs q = (None, q') \<and>
    revoked_exactly ?reason (\<lambda>g. g_SourceRef g \<in> set ?refs \<and> unrevoked g) q q'" if "ledger_inv q" for q
    by (rule revokeRefs_exact [OF that refs(1)]) simp
  have r1: "err = None" "revoked_exactly ?reason (\<lambda>g. g_SourceRef g \<in> set ?refs \<and> unrevoked g) r r1"
    using ex [OF reachable_inv [OF assms(1)]] assms(3) by (auto simp: Apply)
  then have r2: "err' = None" "revoked_exactly ?reason (\<lambda>g. g_SourceRef g \<in> set ?refs \<and> unrevoked g) r1 r2"
    using ex [of r1] assms(4) by (auto simp: Apply revoked_exactly_def)
  obtain st where st: "all_grants r1 = map (\<lambda>g. if g_SourceRef g \<in> set ?refs \<and> unrevoked g
    then revokeMark ?reason (st g) g else g) (all_grants r)"
    using r1(2) by (rule revoked_exactlyE)
  then have "\<not> (g_SourceRef g \<in> set ?refs \<and> unrevoked g)" if "g \<in> set (all_grants r1)" for g
    using that by (auto simp: st)
  then have "all_grants r2 = all_grants r1"
    using r2(2) by (elim revoked_exactlyE) (simp, rule map_idI, auto)
  moreover have "deductionBySubject r1 = deductionBySubject r" using r1(2) by (simp add: revoked_exactly_def)
  ultimately show ?thesis using r1(1) r2(1) st unfolding refs(2) conj_assoc by blast
qed

definition refund_event :: "string \<Rightarrow> string \<Rightarrow> Event" where
  "refund_event rid pint = fromStripeEvent
     \<lparr>se_ID = ''evt_2'', se_Type = ''refund.created'', se_Livemode = False, se_Created = 0,
      se_Data = Some (prJson (JObj [(''id'', JStr rid), (''object'', JStr ''refund''),
        (''payment_intent'', JStr pint)]))\<rparr>"

theorem refund_revokes_exactly_witness:
  "\<exists>stamp. all_grants (snd (ApplyRefundReversal memFind (memRevoke (\<lambda>_. ''now'')) (refund_event ''re_1'' ''pi_1'') demo_repo)) =
     map (\<lambda>g. if g_SourceRef g \<noteq> '''' \<and> g_SourceRef g \<in> {''re_1'', ''pi_1'', ''''} \<and> unrevoked g
              then revokeMark (''refund:'' @ ''re_1'') (stamp g) g else g) (all_grants demo_repo)"
proof -
  have p: "parseRefundEvent (refund_event ''re_1'' ''pi_1'') = Some (''re_1'', ''pi_1'', '''')" by code_simp
  let ?a = "ApplyRefundReversal memFind (memRevoke (\<lambda>_. ''now'')) (refund_event ''re_1'' ''pi_1'')"
  have "?a demo_repo = (fst (?a demo_repo), snd (?a demo_repo))"
    "?a (snd (?a demo_repo)) = (fst (?a (snd (?a demo_repo))), snd (?a (snd (?a demo_repo))))" by simp_all
  from refund_revokes_exactly [OF demo_reachable p this] show ?thesis by blast
qed


end
