(* ===== verification/Credit_Recurring_Proofs.thy ===== *)
theory Credit_Recurring_Proofs
  imports Credit_Recurring Credit_Handlers_Proofs
begin






text \<open>The inputs are those of the products with a recurring grant whose prices are on the invoice.\<close>

lemma recurringInputsE:
  assumes "inp \<in> set (recurringInputs spec iv)"
  obtains pk p rg where "map_of (sp_Products spec) pk = Some p" "pd_RecurringGrant p = Some rg" "inp = recurringInput iv pk rg"
proof -
  from assms obtain line where "lineGrant spec iv line = Some inp" by (auto simp: recurringInputs_def List.map_filter_def)
  then have "\<exists>pk p rg. map_of (sp_Products spec) pk = Some p \<and> pd_RecurringGrant p = Some rg \<and> inp = recurringInput iv pk rg"
    by (auto simp: lineGrant_def split: option.split_asm if_split_asm prod.split_asm)
  then show ?thesis using that by blast
qed


lemma recurringInputs_key:
  assumes "i \<in> set (recurringInputs spec iv)" and "j \<in> set (recurringInputs spec iv)" and "inputKey i = inputKey j"
  shows "i = j"
proof -
  from recurringInputsE [OF assms(1)] obtain pk p rg where
    i: "map_of (sp_Products spec) pk = Some p" "pd_RecurringGrant p = Some rg" "i = recurringInput iv pk rg" .
  from recurringInputsE [OF assms(2)] obtain pk' p' rg' where
    j: "map_of (sp_Products spec) pk' = Some p'" "pd_RecurringGrant p' = Some rg'" "j = recurringInput iv pk' rg'" .
  have "pk = pk'" using assms(3) i(3) j(3) by (simp add: inputKey_def recurringInput_def)
  with i j show ?thesis by simp
qed






end
