(* ===== verification/Pg_Credits.thy ===== *)
theory Pg_Credits
  imports Credits
begin

text \<open>
  The credit ledger in Postgres, \<open>repos/postgres/credit_repo.go\<close>, over the two tables of its schema. The state is the rows of
  the tables and the source of \<open>gen_random_uuid()\<close>. \<open>now\<close> is the database's \<open>now()\<close>, the same throughout a transaction;
  \<open>appNow\<close> is \<open>time.Now\<close> in the program; \<open>micro\<close> is what the driver makes of an instant it stores. A metadata column holds
  the map itself: reading back what was written as JSON is taken to give the same map. The advisory lock and the row locks
  make a transaction one step. A failed constraint rolls the transaction back. Connection errors are left out.
\<close>

subsection \<open>Tables\<close>

record pgGrant =
  gr_id :: string
  gr_subject_id :: string
  gr_bucket :: string
  gr_amount_initial :: int
  gr_amount_remaining :: int
  gr_granted_at :: time
  gr_expires_at :: "time option"
  gr_source :: string
  gr_source_ref :: "string option"
  gr_metadata :: "(string, string) gomap"
  gr_revoked_at :: "time option"
  gr_revoked_reason :: "string option"

record pgDeduction =
  pd_id :: string
  pd_subject_id :: string
  pd_bucket :: string
  pd_grant_id :: string
  pd_amount :: int
  pd_reason :: string
  pd_request_id :: string
  pd_metadata :: "(string, string) gomap"
  pd_created_at :: time

record pgCredits =
  pc_grants :: "pgGrant list"
  pc_deductions :: "pgDeduction list"
  pc_uuid :: "nat \<Rightarrow> string"
  pc_draws :: nat

datatype pgCreditError =
    GrantAmountNotPositive int
  | GrantLookupFailed
  | BalanceOutOfRange int
  | DecrementFailed string
  | InsertDeductionFailed string
  | RevokeBadUUID string

subsection \<open>Grants\<close>

definition nullString :: "string \<Rightarrow> string option" where
  "nullString s = (if s = '''' then None else Some s)"

definition stringOf :: "string option \<Rightarrow> string" where
  "stringOf s = (case s of None \<Rightarrow> '''' | Some x \<Rightarrow> x)"

text \<open>What \<open>findExisting\<close> and \<open>ListBySubject\<close> scan.\<close>

definition scanGrant :: "pgGrant \<Rightarrow> Grant" where
  "scanGrant row =
     \<lparr>g_ID = gr_id row, g_SubjectID = gr_subject_id row, g_Bucket = gr_bucket row,
      g_AmountInitial = gr_amount_initial row, g_AmountRemaining = gr_amount_remaining row,
      g_GrantedAt = gr_granted_at row, g_ExpiresAt = gr_expires_at row, g_Source = gr_source row,
      g_SourceRef = stringOf (gr_source_ref row), g_Metadata = gr_metadata row\<rparr>"

definition findExisting :: "string \<Rightarrow> string \<Rightarrow> string \<Rightarrow> pgCredits \<Rightarrow> Grant option" where
  "findExisting subject bucket sourceRef r =
     map_option scanGrant (List.find
       (\<lambda>row. gr_subject_id row = subject \<and> gr_bucket row = bucket \<and> gr_source_ref row = Some sourceRef) (pc_grants r))"

text \<open>The partial unique index.\<close>

definition sourceConflict :: "GrantInput \<Rightarrow> pgGrant list \<Rightarrow> bool" where
  "sourceConflict inp t \<longleftrightarrow> gi_SourceRef inp \<noteq> '''' \<and>
     list_ex (\<lambda>row. gr_subject_id row = gi_SubjectID inp \<and> gr_bucket row = gi_Bucket inp \<and>
       gr_source_ref row = Some (gi_SourceRef inp)) t"

definition grantRow :: "(time \<Rightarrow> time) \<Rightarrow> time \<Rightarrow> time option \<Rightarrow> GrantInput \<Rightarrow> string \<Rightarrow> pgGrant" where
  "grantRow micro now expiresAt inp gid =
     \<lparr>gr_id = gid, gr_subject_id = gi_SubjectID inp, gr_bucket = gi_Bucket inp, gr_amount_initial = gi_Amount inp,
      gr_amount_remaining = gi_Amount inp, gr_granted_at = now, gr_expires_at = map_option micro expiresAt,
      gr_source = gi_Source inp, gr_source_ref = nullString (gi_SourceRef inp), gr_metadata = gi_Metadata inp,
      gr_revoked_at = None, gr_revoked_reason = None\<rparr>"

definition pg_Grant ::
  "(time \<Rightarrow> time) \<Rightarrow> time \<Rightarrow> time \<Rightarrow> GrantInput \<Rightarrow> pgCredits \<Rightarrow> (pgCreditError + Grant) \<times> pgCredits" where
  "pg_Grant micro appNow now inp r =
     (if gi_Amount inp \<le> 0 then (Inl (GrantAmountNotPositive (gi_Amount inp)), r)
      else
        let expiresAt = (if gi_ValidDays inp > 0 then Some (AddDays appNow (gi_ValidDays inp)) else None);
            gid = pc_uuid r (pc_draws r);
            r1 = r\<lparr>pc_draws := Suc (pc_draws r)\<rparr>
        in if sourceConflict inp (pc_grants r)
           then (case findExisting (gi_SubjectID inp) (gi_Bucket inp) (gi_SourceRef inp) r1 of
                   None \<Rightarrow> (Inl GrantLookupFailed, r1)
                 | Some g \<Rightarrow> (Inr g, r1))
           else (Inr \<lparr>g_ID = gid, g_SubjectID = gi_SubjectID inp, g_Bucket = gi_Bucket inp,
                      g_AmountInitial = gi_Amount inp, g_AmountRemaining = gi_Amount inp, g_GrantedAt = now,
                      g_ExpiresAt = expiresAt, g_Source = gi_Source inp, g_SourceRef = gi_SourceRef inp,
                      g_Metadata = gi_Metadata inp\<rparr>,
                 r1\<lparr>pc_grants := pc_grants r1 @ [grantRow micro now expiresAt inp gid]\<rparr>))"

definition pg_ListBySubject :: "string \<Rightarrow> pgCredits \<Rightarrow> Grant list" where
  "pg_ListBySubject subject r =
     map scanGrant
       (sort_slice (\<lambda>a b. gr_granted_at a < gr_granted_at b \<or> gr_granted_at a = gr_granted_at b \<and> gr_id a < gr_id b)
         (filter (\<lambda>row. gr_subject_id row = subject) (pc_grants r)))"

subsection \<open>Balances\<close>

text \<open>The condition that every balance and the deduction pool share.\<close>

definition liveRow :: "time \<Rightarrow> pgGrant \<Rightarrow> bool" where
  "liveRow now row \<longleftrightarrow> 0 < gr_amount_remaining row \<and> gr_revoked_at row = None \<and>
     (case gr_expires_at row of None \<Rightarrow> True | Some e \<Rightarrow> now < e)"

definition liveRows :: "time \<Rightarrow> string \<Rightarrow> string \<Rightarrow> pgGrant list \<Rightarrow> pgGrant list" where
  "liveRows now subject bucket t = filter (\<lambda>row. gr_subject_id row = subject \<and> gr_bucket row = bucket \<and> liveRow now row) t"

fun minTime :: "time list \<Rightarrow> time option" where
  "minTime [] = None"
| "minTime (x # xs) = Some (fold min xs x)"

text \<open>The aggregate of a group of rows; a total that does not fit the scanned \<open>int64\<close> is an error.\<close>

definition balanceOf :: "string \<Rightarrow> string \<Rightarrow> pgGrant list \<Rightarrow> pgCreditError + Balance" where
  "balanceOf subject bucket rows =
     (let total = sum_list (map gr_amount_remaining rows)
      in if \<not> in64 total then Inl (BalanceOutOfRange total)
         else Inr \<lparr>b_SubjectID = subject, b_Bucket = bucket, b_Total = total,
                   b_NextExpiry = minTime (List.map_filter gr_expires_at rows),
                   b_GrantCount = int (length (filter (\<lambda>row. 0 < gr_amount_remaining row) rows))\<rparr>)"

definition balanceFromQuerier :: "time \<Rightarrow> string \<Rightarrow> string \<Rightarrow> pgCredits \<Rightarrow> pgCreditError + Balance" where
  "balanceFromQuerier now subject bucket r = balanceOf subject bucket (liveRows now subject bucket (pc_grants r))"

definition pg_Balance :: "time \<Rightarrow> string \<Rightarrow> string \<Rightarrow> pgCredits \<Rightarrow> pgCreditError + Balance" where
  "pg_Balance = balanceFromQuerier"

fun allBalancesRows :: "string \<Rightarrow> pgGrant list \<Rightarrow> string list \<Rightarrow> pgCreditError + (string, Balance) gomap" where
  "allBalancesRows subject live [] = Inr []"
| "allBalancesRows subject live (b # bs) =
     (case balanceOf subject b (filter (\<lambda>row. gr_bucket row = b) live) of
        Inl e \<Rightarrow> Inl e
      | Inr bal \<Rightarrow> map_sum (\<lambda>e. e) (mset_key b bal) (allBalancesRows subject live bs))"

definition pg_AllBalances :: "time \<Rightarrow> string \<Rightarrow> pgCredits \<Rightarrow> pgCreditError + (string, Balance) gomap" where
  "pg_AllBalances now subject r =
     (let live = filter (\<lambda>row. gr_subject_id row = subject \<and> liveRow now row) (pc_grants r)
      in allBalancesRows subject live (remdups (map gr_bucket live)))"

subsection \<open>Deductions\<close>

text \<open>\<open>ORDER BY expires_at NULLS LAST, granted_at\<close>.\<close>

definition pgPoolLess :: "pgGrant \<Rightarrow> pgGrant \<Rightarrow> bool" where
  "pgPoolLess a b =
     (case (gr_expires_at a, gr_expires_at b) of
        (None, Some _) \<Rightarrow> False
      | (Some _, None) \<Rightarrow> True
      | (None, None) \<Rightarrow> gr_granted_at a < gr_granted_at b
      | (Some x, Some y) \<Rightarrow> x < y \<or> x = y \<and> gr_granted_at a < gr_granted_at b)"

definition pgPool :: "time \<Rightarrow> DeductInput \<Rightarrow> pgCredits \<Rightarrow> pgGrant list" where
  "pgPool now inp r = sort_slice pgPoolLess (liveRows now (di_SubjectID inp) (di_Bucket inp) (pc_grants r))"

fun pgPlan :: "int \<Rightarrow> pgGrant list \<Rightarrow> (string \<times> int) list \<times> int" where
  "pgPlan remaining [] = ([], remaining)"
| "pgPlan remaining (g # gs) =
     (if remaining = 0 then ([], remaining)
      else let amount = (if gr_amount_remaining g > remaining then remaining else gr_amount_remaining g);
               (steps, out) = pgPlan (remaining - amount) gs
           in ((gr_id g, amount) # steps, out))"

text \<open>The update of one grant, with its check on \<open>amount_remaining\<close>, and the insert of one deduction, with its check on
  \<open>amount\<close> and its unique constraint.\<close>

definition takeFrom :: "string \<Rightarrow> int \<Rightarrow> pgGrant \<Rightarrow> pgGrant" where
  "takeFrom gid amount row =
     (if gr_id row = gid then row\<lparr>gr_amount_remaining := gr_amount_remaining row - amount\<rparr> else row)"

definition deductionRow :: "time \<Rightarrow> DeductInput \<Rightarrow> string \<Rightarrow> int \<Rightarrow> string \<Rightarrow> pgDeduction" where
  "deductionRow now inp gid amount did =
     \<lparr>pd_id = did, pd_subject_id = di_SubjectID inp, pd_bucket = di_Bucket inp, pd_grant_id = gid, pd_amount = amount,
      pd_reason = di_Reason inp, pd_request_id = di_RequestID inp, pd_metadata = di_Metadata inp, pd_created_at = now\<rparr>"

fun pgApply :: "time \<Rightarrow> DeductInput \<Rightarrow> (string \<times> int) list \<Rightarrow> pgCredits \<Rightarrow> pgCreditError + pgCredits" where
  "pgApply now inp [] r = Inr r"
| "pgApply now inp ((gid, amount) # steps) r =
     (let t = map (takeFrom gid amount) (pc_grants r)
      in if list_ex (\<lambda>row. gr_id row = gid \<and> gr_amount_remaining row < 0) t then Inl (DecrementFailed gid)
         else if amount \<le> 0 \<or> list_ex (\<lambda>d. pd_subject_id d = di_SubjectID inp \<and> pd_request_id d = di_RequestID inp \<and>
              pd_grant_id d = gid) (pc_deductions r)
           then Inl (InsertDeductionFailed gid)
         else pgApply now inp steps
           (r\<lparr>pc_grants := t,
              pc_deductions := pc_deductions r @ [deductionRow now inp gid amount (pc_uuid r (pc_draws r))],
              pc_draws := Suc (pc_draws r)\<rparr>))"

definition requestRecorded :: "DeductInput \<Rightarrow> pgCredits \<Rightarrow> bool" where
  "requestRecorded inp r \<longleftrightarrow>
     list_ex (\<lambda>d. pd_subject_id d = di_SubjectID inp \<and> pd_request_id d = di_RequestID inp) (pc_deductions r)"

text \<open>Commit with the balance, or roll back on an error.\<close>

definition answerWith :: "time \<Rightarrow> DeductInput \<Rightarrow> bool \<Rightarrow> pgCredits \<Rightarrow> pgCredits \<Rightarrow> (pgCreditError + bool \<times> Balance) \<times> pgCredits" where
  "answerWith now inp ok r' r =
     (case balanceFromQuerier now (di_SubjectID inp) (di_Bucket inp) r' of
        Inl e \<Rightarrow> (Inl e, r)
      | Inr bal \<Rightarrow> (Inr (ok, bal), r'))"

definition pg_TryDeduct :: "time \<Rightarrow> DeductInput \<Rightarrow> pgCredits \<Rightarrow> (pgCreditError + bool \<times> Balance) \<times> pgCredits" where
  "pg_TryDeduct now inp r =
     (if requestRecorded inp r then answerWith now inp True r r
      else
        let (steps, remaining) = pgPlan (di_Amount inp) (pgPool now inp r)
        in if remaining > 0 then answerWith now inp False r r
           else (case pgApply now inp steps r of
                   Inl e \<Rightarrow> (Inl e, r)
                 | Inr r' \<Rightarrow> answerWith now inp True r' r))"

subsection \<open>Expiry, history, revocation, queries\<close>

definition pgExpired :: "time \<Rightarrow> pgGrant \<Rightarrow> bool" where
  "pgExpired now row \<longleftrightarrow> (case gr_expires_at row of None \<Rightarrow> False | Some e \<Rightarrow> e < now) \<and>
     0 < gr_amount_remaining row \<and> gr_revoked_at row = None"

text \<open>The two statements of \<open>RunExpiry\<close>, which no transaction joins: each has its own \<open>now\<close> and other writes may come between.\<close>

definition expiryAggregate :: "time \<Rightarrow> pgCredits \<Rightarrow> nat \<times> int" where
  "expiryAggregate now r =
     (let rows = filter (pgExpired now) (pc_grants r) in (length rows, sum_list (map gr_amount_remaining rows)))"

definition expiryZero :: "time \<Rightarrow> pgCredits \<Rightarrow> pgCredits" where
  "expiryZero now r =
     r\<lparr>pc_grants := map (\<lambda>row. if pgExpired now row then row\<lparr>gr_amount_remaining := 0\<rparr> else row) (pc_grants r)\<rparr>"

definition pg_RunExpiry ::
  "time \<Rightarrow> time \<Rightarrow> (pgCredits \<Rightarrow> pgCredits) \<Rightarrow> pgCredits \<Rightarrow> (pgCreditError + nat \<times> int) \<times> pgCredits" where
  "pg_RunExpiry now1 now2 others r =
     (let (n, credits) = expiryAggregate now1 r
      in if \<not> in64 credits then (Inl (BalanceOutOfRange credits), r)
         else if n = 0 then (Inr (0, 0), r)
         else (Inr (n, credits), expiryZero now2 (others r)))"

definition pgGrantEntry :: "pgGrant \<Rightarrow> LedgerEntry" where
  "pgGrantEntry row =
     \<lparr>le_Type = EntryTypeGrant, le_Timestamp = gr_granted_at row, le_Bucket = gr_bucket row,
      le_Amount = gr_amount_initial row, le_Reason = '''', le_Source = gr_source row,
      le_SourceRef = stringOf (gr_source_ref row), le_GrantID = gr_id row\<rparr>"

definition pgDeductionEntry :: "pgDeduction \<Rightarrow> LedgerEntry" where
  "pgDeductionEntry d =
     \<lparr>le_Type = EntryTypeDeduction, le_Timestamp = pd_created_at d, le_Bucket = pd_bucket d, le_Amount = pd_amount d,
      le_Reason = pd_reason d, le_Source = '''', le_SourceRef = '''', le_GrantID = pd_grant_id d\<rparr>"

definition pg_History :: "string \<Rightarrow> time \<Rightarrow> pgCredits \<Rightarrow> LedgerEntry list" where
  "pg_History subject since r =
     sort_slice (\<lambda>a b. le_Timestamp a < le_Timestamp b)
       (map pgGrantEntry (filter (\<lambda>row. gr_subject_id row = subject \<and> since \<le> gr_granted_at row) (pc_grants r)) @
        map pgDeductionEntry (filter (\<lambda>d. pd_subject_id d = subject \<and> since \<le> pd_created_at d) (pc_deductions r)))"

text \<open>\<open>isUUID\<close> is the cast \<open>::uuid\<close>, which fails on any other string.\<close>

definition pgRevoke :: "time \<Rightarrow> string \<Rightarrow> string \<Rightarrow> pgGrant \<Rightarrow> pgGrant" where
  "pgRevoke now gid reason row =
     (if gr_id row = gid \<and> gr_revoked_at row = None
      then row\<lparr>gr_amount_remaining := 0, gr_revoked_at := Some now, gr_revoked_reason := Some reason\<rparr> else row)"

definition pg_RevokeGrant ::
  "(string \<Rightarrow> bool) \<Rightarrow> time \<Rightarrow> string \<Rightarrow> string \<Rightarrow> pgCredits \<Rightarrow> pgCreditError option \<times> pgCredits" where
  "pg_RevokeGrant isUUID now gid reason r =
     (if \<not> isUUID gid then (Some (RevokeBadUUID gid), r)
      else (None, r\<lparr>pc_grants := map (pgRevoke now gid reason) (pc_grants r)\<rparr>))"

text \<open>\<open>rfc3339\<close> formats an instant.\<close>

definition revokedMetadata :: "(time \<Rightarrow> string) \<Rightarrow> pgGrant \<Rightarrow> (string, string) gomap" where
  "revokedMetadata rfc3339 row =
     (case gr_revoked_reason row of None \<Rightarrow> [] | Some x \<Rightarrow> [(''revoked_reason'', x)]) @
     (case gr_revoked_at row of None \<Rightarrow> [] | Some x \<Rightarrow> [(''revoked_at'', rfc3339 x)])"

definition pg_FindGrantsBySourceRef :: "(time \<Rightarrow> string) \<Rightarrow> string \<Rightarrow> pgCredits \<Rightarrow> Grant list" where
  "pg_FindGrantsBySourceRef rfc3339 sourceRef r =
     (if sourceRef = '''' then []
      else map (\<lambda>row. scanGrant row\<lparr>g_Metadata := revokedMetadata rfc3339 row\<rparr>)
        (sort_slice (\<lambda>a b. gr_granted_at a < gr_granted_at b)
          (filter (\<lambda>row. gr_source_ref row = Some sourceRef) (pc_grants r))))"

end
