(* ===== verification/Pg_Credits_Proofs.thy ===== *)
theory Pg_Credits_Proofs
  imports Pg_Credits Credit_Recurring_Proofs
begin

text \<open>
  The credit ledger in Postgres: no reachable state is overdrawn, a deduction is exact, all or nothing and applied once per
  request, and the repository keeps the contracts \<open>grant_ledger\<close> and \<open>durable_ledger\<close>, so that sessions and invoices are
  credited once on it too.
\<close>

subsection \<open>The invariant\<close>

definition pgDebits :: "string \<Rightarrow> pgDeduction list \<Rightarrow> int" where
  "pgDebits gid ds = sum_list (map pd_amount (filter (\<lambda>d. pd_grant_id d = gid) ds))"

definition rowOk :: "pgDeduction list \<Rightarrow> pgGrant \<Rightarrow> bool" where
  "rowOk ds row \<longleftrightarrow> 0 \<le> gr_amount_remaining row \<and>
     gr_amount_remaining row + pgDebits (gr_id row) ds \<le> gr_amount_initial row"

definition debitOk :: "pgGrant list \<Rightarrow> pgDeduction \<Rightarrow> bool" where
  "debitOk t d \<longleftrightarrow> 0 < pd_amount d \<and>
     (\<exists>row \<in> set t. gr_id row = pd_grant_id d \<and> gr_subject_id row = pd_subject_id d \<and> gr_bucket row = pd_bucket d)"

definition pg_inv :: "pgCredits \<Rightarrow> bool" where
  "pg_inv r \<longleftrightarrow> inj (pc_uuid r) \<and> distinct (map gr_id (pc_grants r)) \<and>
     gr_id ` set (pc_grants r) \<subseteq> pc_uuid r ` {..<pc_draws r} \<and>
     (\<forall>row \<in> set (pc_grants r). rowOk (pc_deductions r) row) \<and> (\<forall>d \<in> set (pc_deductions r). debitOk (pc_grants r) d)"

lemma pgDebits_append [simp]: "pgDebits gid (ds @ es) = pgDebits gid ds + pgDebits gid es"
  by (simp add: pgDebits_def)

lemma pgDebits_absent: "\<forall>d \<in> set ds. pd_grant_id d \<noteq> gid \<Longrightarrow> pgDebits gid ds = 0"
  by (simp add: pgDebits_def filter_False)

text \<open>A change of rows that keeps what identifies them and takes nothing below zero.\<close>

definition lowersRow :: "pgGrant \<Rightarrow> pgGrant \<Rightarrow> bool" where
  "lowersRow row row' \<longleftrightarrow> gr_id row' = gr_id row \<and> gr_subject_id row' = gr_subject_id row \<and> gr_bucket row' = gr_bucket row \<and>
     gr_source_ref row' = gr_source_ref row \<and> gr_amount_initial row' = gr_amount_initial row \<and>
     0 \<le> gr_amount_remaining row' \<and> gr_amount_remaining row' \<le> gr_amount_remaining row"

lemma pg_inv_lower:
  assumes "pg_inv r" and "\<forall>row \<in> set (pc_grants r). lowersRow row (f row)"
  shows "pg_inv (r\<lparr>pc_grants := map f (pc_grants r)\<rparr>)"
proof -
  have ids: "map gr_id (map f (pc_grants r)) = map gr_id (pc_grants r)" using assms(2) by (simp add: lowersRow_def)
  then have set_ids: "gr_id ` set (map f (pc_grants r)) = gr_id ` set (pc_grants r)" by (metis set_map)
  have "rowOk (pc_deductions r) (f row)" if "row \<in> set (pc_grants r)" for row
    using assms that by (force simp: pg_inv_def rowOk_def lowersRow_def)
  moreover have "debitOk (map f (pc_grants r)) d" if d: "d \<in> set (pc_deductions r)" for d
  proof -
    have "debitOk (pc_grants r) d" using assms(1) d by (simp add: pg_inv_def)
    then show ?thesis using assms(2) by (force simp: debitOk_def lowersRow_def)
  qed
  ultimately show ?thesis using assms(1) ids set_ids by (simp add: pg_inv_def del: map_map)
qed

subsection \<open>Planning a deduction\<close>

lemma pgPlan_spec:
  "pgPlan a pl = (steps, out) \<Longrightarrow> \<forall>g \<in> set pl. 0 < gr_amount_remaining g \<Longrightarrow> 0 \<le> a \<Longrightarrow>
    sum_list (map snd steps) + out = a \<and> 0 \<le> out \<and>
    (\<exists>n. map fst steps = take n (map gr_id pl)) \<and>
    (\<forall>s \<in> set steps. 0 < snd s \<and> (\<exists>g \<in> set pl. gr_id g = fst s \<and> snd s \<le> gr_amount_remaining g)) \<and>
    (if sum_list (map gr_amount_remaining pl) < a then out = a - sum_list (map gr_amount_remaining pl) else out = 0)"
proof (induction pl arbitrary: a steps out)
  case (Cons g gs)
  show ?case
  proof (cases "a = 0")
    case True
    have "0 \<le> sum_list (map gr_amount_remaining (g # gs))" using Cons.prems(2) by (intro sum_list_nonneg) force
    with True Cons.prems show ?thesis by (auto intro: exI [of _ 0])
  next
    case False
    define x where "x = (if gr_amount_remaining g > a then a else gr_amount_remaining g)"
    obtain ss o' where rec: "pgPlan (a - x) gs = (ss, o')" by fastforce
    from False Cons.prems(1) rec have st: "steps = (gr_id g, x) # ss" "out = o'" by (auto simp: x_def Let_def split_beta)
    have x: "0 < x" "x \<le> a" "x \<le> gr_amount_remaining g" using Cons.prems(2,3) False by (auto simp: x_def)
    have IH: "sum_list (map snd ss) + o' = a - x" "0 \<le> o'" "\<exists>n. map fst ss = take n (map gr_id gs)"
      "\<forall>s \<in> set ss. 0 < snd s \<and> (\<exists>g \<in> set gs. gr_id g = fst s \<and> snd s \<le> gr_amount_remaining g)"
      "if sum_list (map gr_amount_remaining gs) < a - x then o' = a - x - sum_list (map gr_amount_remaining gs) else o' = 0"
      using Cons.IH [OF rec] Cons.prems(2) x(2) by auto
    from IH(3) obtain n where "map fst ss = take n (map gr_id gs)" ..
    then have n: "map fst steps = take (Suc n) (map gr_id (g # gs))" by (simp add: st)
    have nn: "0 \<le> sum_list (map gr_amount_remaining gs)" using Cons.prems(2) by (intro sum_list_nonneg) force
    have out: "if sum_list (map gr_amount_remaining (g # gs)) < a
      then out = a - sum_list (map gr_amount_remaining (g # gs)) else out = 0"
      using IH(5) nn x by (auto simp: st x_def split: if_splits)
    show ?thesis using IH(1,2,4) n out x by (auto simp: st(1) st(2) intro: exI [of _ "Suc n"])
  qed
qed auto

subsection \<open>Applying a plan\<close>

definition withdrawn :: "(string \<times> int) list \<Rightarrow> pgGrant \<Rightarrow> pgGrant" where
  "withdrawn steps row = row\<lparr>gr_amount_remaining := gr_amount_remaining row - mget 0 steps (gr_id row)\<rparr>"

lemma pgApply_ok:
  assumes "distinct (map fst steps)" and "distinct (map gr_id (pc_grants r))"
    and "\<forall>s \<in> set steps. 0 < snd s \<and> (\<forall>row \<in> set (pc_grants r). gr_id row = fst s \<longrightarrow> snd s \<le> gr_amount_remaining row)"
    and "\<forall>d \<in> set (pc_deductions r). pd_subject_id d = di_SubjectID inp \<longrightarrow> pd_request_id d = di_RequestID inp \<longrightarrow>
      pd_grant_id d \<notin> fst ` set steps"
  shows "\<exists>new k. pgApply now inp steps r = Inr (r\<lparr>pc_grants := map (withdrawn steps) (pc_grants r),
      pc_deductions := pc_deductions r @ new, pc_draws := k\<rparr>) \<and>
    map (\<lambda>d. (pd_grant_id d, pd_amount d)) new = steps \<and> pc_draws r \<le> k \<and>
    (\<forall>d \<in> set new. pd_subject_id d = di_SubjectID inp \<and> pd_request_id d = di_RequestID inp \<and> pd_bucket d = di_Bucket inp)"
  using assms
proof (induction steps arbitrary: r)
  case Nil
  have "map (withdrawn []) (pc_grants r) = pc_grants r" by (simp add: withdrawn_def map_idI)
  then show ?case by (intro exI [of _ "[]"] exI [of _ "pc_draws r"]) simp
next
  case (Cons s steps)
  obtain gid x where s: "s = (gid, x)" by force
  let ?d = "deductionRow now inp gid x (pc_uuid r (pc_draws r))"
  let ?r = "r\<lparr>pc_grants := map (takeFrom gid x) (pc_grants r), pc_deductions := pc_deductions r @ [?d], pc_draws := Suc (pc_draws r)\<rparr>"
  have ids: "gr_id (takeFrom gid x row) = gr_id row" for row by (simp add: takeFrom_def)
  have other: "gr_id row \<noteq> gid \<Longrightarrow> takeFrom gid x row = row" for row by (simp add: takeFrom_def)
  have "\<forall>row \<in> set (pc_grants r). gr_id row = gid \<longrightarrow> x \<le> gr_amount_remaining row" using Cons.prems(3) by (simp add: s)
  then have "\<forall>row \<in> set (pc_grants r). \<not> (gr_id (takeFrom gid x row) = gid \<and> gr_amount_remaining (takeFrom gid x row) < 0)"
    by (simp add: takeFrom_def not_less)
  then have "\<not> list_ex (\<lambda>row. gr_id row = gid \<and> gr_amount_remaining row < 0) (map (takeFrom gid x) (pc_grants r))"
    unfolding list_ex_iff set_map by blast
  moreover have "\<not> (x \<le> 0 \<or> list_ex (\<lambda>d. pd_subject_id d = di_SubjectID inp \<and> pd_request_id d = di_RequestID inp \<and>
      pd_grant_id d = gid) (pc_deductions r))"
  proof -
    have "0 < x" using Cons.prems(3) by (simp add: s)
    moreover have "\<forall>d \<in> set (pc_deductions r). pd_subject_id d = di_SubjectID inp \<longrightarrow> pd_request_id d = di_RequestID inp \<longrightarrow>
        pd_grant_id d \<noteq> gid"
      using Cons.prems(4) by (simp add: s)
    ultimately show ?thesis by (simp add: list_ex_iff not_le)
  qed
  ultimately have first: "pgApply now inp (s # steps) r = pgApply now inp steps ?r" by (simp add: s Let_def)
  have "\<forall>u \<in> set steps. 0 < snd u \<and> (\<forall>row \<in> set (pc_grants ?r). gr_id row = fst u \<longrightarrow> snd u \<le> gr_amount_remaining row)"
  proof
    fix u assume u: "u \<in> set steps"
    then have "fst u \<noteq> gid" using Cons.prems(1) by (auto simp: s)
    moreover have "0 < snd u" "\<forall>row \<in> set (pc_grants r). gr_id row = fst u \<longrightarrow> snd u \<le> gr_amount_remaining row"
      using Cons.prems(3) u by simp_all
    ultimately show "0 < snd u \<and> (\<forall>row \<in> set (pc_grants ?r). gr_id row = fst u \<longrightarrow> snd u \<le> gr_amount_remaining row)"
      by (simp add: ids other)
  qed
  moreover have "distinct (map gr_id (pc_grants ?r))" using Cons.prems(2) by (simp add: comp_def ids)
  moreover have "\<forall>d \<in> set (pc_deductions ?r). pd_subject_id d = di_SubjectID inp \<longrightarrow> pd_request_id d = di_RequestID inp \<longrightarrow>
      pd_grant_id d \<notin> fst ` set steps"
    using Cons.prems(1,4) by (simp add: s deductionRow_def)
  ultimately obtain new k where IH: "pgApply now inp steps ?r = Inr (?r\<lparr>pc_grants := map (withdrawn steps) (pc_grants ?r),
      pc_deductions := pc_deductions ?r @ new, pc_draws := k\<rparr>)"
    "map (\<lambda>d. (pd_grant_id d, pd_amount d)) new = steps" "Suc (pc_draws r) \<le> k"
    "\<forall>d \<in> set new. pd_subject_id d = di_SubjectID inp \<and> pd_request_id d = di_RequestID inp \<and> pd_bucket d = di_Bucket inp"
    using Cons.IH [of ?r] Cons.prems(1) by auto
  have w: "map (withdrawn steps) (map (takeFrom gid x) (pc_grants r)) = map (withdrawn (s # steps)) (pc_grants r)"
  proof -
    have "mget 0 steps gid = 0" using Cons.prems(1) by (simp add: mget_def s map_of_eq_None_iff [THEN iffD2])
    moreover have "mget 0 (s # steps) k = (if k = gid then x else mget 0 steps k)" for k by (simp add: mget_def s)
    ultimately show ?thesis by (simp add: withdrawn_def takeFrom_def)
  qed
  have run: "pgApply now inp (s # steps) r = Inr (r\<lparr>pc_grants := map (withdrawn (s # steps)) (pc_grants r),
      pc_deductions := pc_deductions r @ ?d # new, pc_draws := k\<rparr>)"
    unfolding first IH(1) using w by simp
  have "map (\<lambda>d. (pd_grant_id d, pd_amount d)) (?d # new) = s # steps" "pc_draws r \<le> k"
    "\<forall>d \<in> set (?d # new). pd_subject_id d = di_SubjectID inp \<and> pd_request_id d = di_RequestID inp \<and> pd_bucket d = di_Bucket inp"
    using IH(2-4) by (simp_all add: s deductionRow_def)
  with run show ?case by (intro exI [of _ "?d # new"] exI [of _ k] conjI)
qed

subsection \<open>Live credit\<close>

text \<open>What a subject can spend from a bucket: the sum of the live rows.\<close>

definition liveCredit :: "time \<Rightarrow> string \<Rightarrow> string \<Rightarrow> pgCredits \<Rightarrow> int" where
  "liveCredit now subject bucket r = sum_list (map gr_amount_remaining (liveRows now subject bucket (pc_grants r)))"

definition spendable :: "time \<Rightarrow> string \<Rightarrow> string \<Rightarrow> pgGrant \<Rightarrow> bool" where
  "spendable now subject bucket row \<longleftrightarrow> gr_subject_id row = subject \<and> gr_bucket row = bucket \<and> gr_revoked_at row = None \<and>
     (case gr_expires_at row of None \<Rightarrow> True | Some e \<Rightarrow> now < e)"

lemma live_spendable:
  "row \<in> set (liveRows now s b t) \<longleftrightarrow> row \<in> set t \<and> spendable now s b row \<and> 0 < gr_amount_remaining row"
  by (auto simp: liveRows_def liveRow_def spendable_def)

lemma liveCredit_spendable:
  assumes "\<forall>row \<in> set t. 0 \<le> gr_amount_remaining row"
  shows "sum_list (map gr_amount_remaining (liveRows now s b t)) =
    sum_list (map (\<lambda>row. if spendable now s b row then gr_amount_remaining row else 0) t)"
  using assms by (induction t) (auto simp: liveRows_def liveRow_def spendable_def)

lemma sum_mget_steps:
  assumes "distinct (map fst steps)" and "distinct (map gr_id t)" and "fst ` set steps \<subseteq> gr_id ` set t"
  shows "sum_list (map (\<lambda>row. mget 0 steps (gr_id row)) t) = sum_list (map snd steps :: int list)"
  using assms
proof (induction steps)
  case Nil
  then show ?case by simp
next
  case (Cons s steps)
  obtain gid x where s: "s = (gid, x)" by force
  have "mget 0 steps gid = 0" using Cons.prems(1) by (simp add: mget_def s map_of_eq_None_iff [THEN iffD2])
  then have "mget 0 (s # steps) k = (if k = gid then x else 0) + mget 0 steps k" for k by (simp add: mget_def s)
  then have "sum_list (map (\<lambda>row. mget 0 (s # steps) (gr_id row)) t) =
    sum_list (map (\<lambda>row. if gr_id row = gid then x else 0) t) + sum_list (map (\<lambda>row. mget 0 steps (gr_id row)) t)"
    by (simp add: sum_list_addf)
  moreover have none: "sum_list (map (\<lambda>k. if k = gid then x else 0) ks) = 0" if "gid \<notin> set ks" for ks :: "string list"
    using that by (induction ks) auto
  have "sum_list (map (\<lambda>k. if k = gid then x else 0) ks) = x" if "distinct ks" "gid \<in> set ks" for ks
    using that by (induction ks) (auto simp: none)
  from this [of "map gr_id t"] have "sum_list (map (\<lambda>row. if gr_id row = gid then x else 0) t) = x"
    using Cons.prems(2,3) by (simp add: s comp_def)
  ultimately show ?case using Cons by (simp add: s)
qed

lemma liveCredit_withdrawn:
  assumes inv: "pg_inv r" and d: "distinct (map fst steps)"
    and steps: "\<forall>u \<in> set steps. \<exists>g \<in> set (liveRows now s b (pc_grants r)). gr_id g = fst u \<and> snd u \<le> gr_amount_remaining g"
  shows "\<forall>row \<in> set (pc_grants r). 0 \<le> gr_amount_remaining (withdrawn steps row)"
    and "sum_list (map gr_amount_remaining (liveRows now s b (map (withdrawn steps) (pc_grants r)))) =
      sum_list (map gr_amount_remaining (liveRows now s b (pc_grants r))) - sum_list (map snd steps)"
proof -
  let ?t = "pc_grants r"
  have ids: "distinct (map gr_id ?t)" and nonneg: "\<forall>row \<in> set ?t. 0 \<le> gr_amount_remaining row"
    using inv by (auto simp: pg_inv_def rowOk_def)
  have unique: "g = row" if "g \<in> set ?t" "row \<in> set ?t" "gr_id g = gr_id row" for g row
    using ids that by (simp add: distinct_map inj_on_def)
  have step: "spendable now s b row \<and> mget 0 steps (gr_id row) \<le> gr_amount_remaining row"
    if row: "row \<in> set ?t" and some: "map_of steps (gr_id row) \<noteq> None" for row
  proof -
    from some obtain x where x: "map_of steps (gr_id row) = Some x" by auto
    with steps obtain g where "g \<in> set (liveRows now s b ?t)" "gr_id g = gr_id row" "x \<le> gr_amount_remaining g"
      by (auto dest!: map_of_SomeD)
    with unique row x show ?thesis by (auto simp: live_spendable mget_def)
  qed
  show pos: "\<forall>row \<in> set ?t. 0 \<le> gr_amount_remaining (withdrawn steps row)"
  proof
    fix row assume "row \<in> set ?t"
    then show "0 \<le> gr_amount_remaining (withdrawn steps row)"
      using step [of row] nonneg by (cases "map_of steps (gr_id row)") (auto simp: withdrawn_def mget_def)
  qed
  have "(if spendable now s b (withdrawn steps row) then gr_amount_remaining (withdrawn steps row) else 0) =
    (if spendable now s b row then gr_amount_remaining row else 0) - mget 0 steps (gr_id row)" if "row \<in> set ?t" for row
    using step [OF that] by (cases "map_of steps (gr_id row)") (auto simp: withdrawn_def spendable_def mget_def)
  then have "sum_list (map (\<lambda>row. if spendable now s b row then gr_amount_remaining row else 0) (map (withdrawn steps) ?t)) =
    sum_list (map (\<lambda>row. (if spendable now s b row then gr_amount_remaining row else 0) - mget 0 steps (gr_id row)) ?t)"
    by (simp add: comp_def cong: map_cong)
  also have "\<dots> = sum_list (map (\<lambda>row. if spendable now s b row then gr_amount_remaining row else 0) ?t) - sum_list (map snd steps)"
  proof -
    have "fst ` set steps \<subseteq> gr_id ` set ?t" using steps by (force simp: live_spendable)
    then show ?thesis by (simp add: sum_list_subtractf sum_mget_steps [OF d ids])
  qed
  finally show "sum_list (map gr_amount_remaining (liveRows now s b (map (withdrawn steps) ?t))) =
    sum_list (map gr_amount_remaining (liveRows now s b ?t)) - sum_list (map snd steps)"
    using pos nonneg by (simp add: liveCredit_spendable)
qed

subsection \<open>A deduction\<close>

lemma mset_pgPool [simp]: "mset (pgPool now inp r) = mset (liveRows now (di_SubjectID inp) (di_Bucket inp) (pc_grants r))"
  by (simp add: pgPool_def)

lemma set_pgPool [simp]: "set (pgPool now inp r) = set (liveRows now (di_SubjectID inp) (di_Bucket inp) (pc_grants r))"
  by (simp add: pgPool_def)

lemma sum_pgPool: "sum_list (map gr_amount_remaining (pgPool now inp r)) = liveCredit now (di_SubjectID inp) (di_Bucket inp) r"
  unfolding liveCredit_def by (metis mset_map mset_pgPool sum_mset_sum_list)

lemma distinct_pgPool: "pg_inv r \<Longrightarrow> distinct (map gr_id (pgPool now inp r))"
  by (simp add: pgPool_def liveRows_def pg_inv_def distinct_map_filter)

text \<open>The plan of a deduction that is covered, and what applying it makes of the tables.\<close>

lemma pg_covered:
  assumes inv: "pg_inv r" and pos: "0 < di_Amount inp" and fresh: "\<not> requestRecorded inp r"
    and covered: "di_Amount inp \<le> liveCredit now (di_SubjectID inp) (di_Bucket inp) r"
  shows "\<exists>steps new k. pgPlan (di_Amount inp) (pgPool now inp r) = (steps, 0) \<and>
    pgApply now inp steps r = Inr (r\<lparr>pc_grants := map (withdrawn steps) (pc_grants r),
      pc_deductions := pc_deductions r @ new, pc_draws := k\<rparr>) \<and>
    map (\<lambda>d. (pd_grant_id d, pd_amount d)) new = steps \<and> sum_list (map snd steps) = di_Amount inp \<and>
    distinct (map fst steps) \<and> pc_draws r \<le> k \<and>
    (\<forall>u \<in> set steps. 0 < snd u \<and>
      (\<exists>g \<in> set (liveRows now (di_SubjectID inp) (di_Bucket inp) (pc_grants r)). gr_id g = fst u \<and> snd u \<le> gr_amount_remaining g)) \<and>
    (\<forall>d \<in> set new. pd_subject_id d = di_SubjectID inp \<and> pd_request_id d = di_RequestID inp \<and> pd_bucket d = di_Bucket inp)"
proof -
  obtain steps out where plan: "pgPlan (di_Amount inp) (pgPool now inp r) = (steps, out)" by fastforce
  have "\<forall>g \<in> set (pgPool now inp r). 0 < gr_amount_remaining g" by (simp add: live_spendable)
  from pgPlan_spec [OF plan this] pos covered
  have spec: "sum_list (map snd steps) = di_Amount inp" "out = 0" "\<exists>n. map fst steps = take n (map gr_id (pgPool now inp r))"
    "\<forall>u \<in> set steps. 0 < snd u \<and> (\<exists>g \<in> set (pgPool now inp r). gr_id g = fst u \<and> snd u \<le> gr_amount_remaining g)"
    by (auto simp: sum_pgPool split: if_splits)
  from spec(3) distinct_pgPool [OF inv] have dist: "distinct (map fst steps)" by (metis distinct_take)
  have ids: "distinct (map gr_id (pc_grants r))" using inv by (simp add: pg_inv_def)
  have "snd u \<le> gr_amount_remaining row" if "u \<in> set steps" "row \<in> set (pc_grants r)" "gr_id row = fst u" for u row
  proof -
    from spec(4) that(1) have "\<exists>g \<in> set (pgPool now inp r). gr_id g = fst u \<and> snd u \<le> gr_amount_remaining g" by blast
    then obtain g where g: "g \<in> set (pc_grants r)" "gr_id g = fst u" "snd u \<le> gr_amount_remaining g"
      by (auto simp: live_spendable)
    with ids that(2,3) have "g = row" by (simp add: distinct_map inj_on_def)
    with g(3) show ?thesis by simp
  qed
  moreover have "\<forall>d \<in> set (pc_deductions r). pd_subject_id d = di_SubjectID inp \<longrightarrow> pd_request_id d = di_RequestID inp \<longrightarrow>
      pd_grant_id d \<notin> fst ` set steps"
    using fresh by (auto simp: requestRecorded_def list_ex_iff)
  ultimately obtain new k where "pgApply now inp steps r = Inr (r\<lparr>pc_grants := map (withdrawn steps) (pc_grants r),
      pc_deductions := pc_deductions r @ new, pc_draws := k\<rparr>)" "map (\<lambda>d. (pd_grant_id d, pd_amount d)) new = steps"
    "pc_draws r \<le> k"
    "\<forall>d \<in> set new. pd_subject_id d = di_SubjectID inp \<and> pd_request_id d = di_RequestID inp \<and> pd_bucket d = di_Bucket inp"
    using pgApply_ok [OF dist ids] spec(4) by blast
  with plan spec dist show ?thesis by (intro exI conjI) auto
qed

lemma pgDebits_steps:
  assumes "map (\<lambda>d. (pd_grant_id d, pd_amount d)) new = steps" and "distinct (map fst steps)"
  shows "pgDebits gid new = mget 0 steps gid"
  using assms
proof (induction new arbitrary: steps)
  case (Cons d new)
  then obtain steps' where s: "steps = (pd_grant_id d, pd_amount d) # steps'"
    "map (\<lambda>d. (pd_grant_id d, pd_amount d)) new = steps'" by auto
  have IH: "pgDebits gid new = mget 0 steps' gid" using Cons.IH [OF s(2)] Cons.prems(2) by (simp add: s(1))
  show ?case
  proof (cases "gid = pd_grant_id d")
    case True
    then have "mget 0 steps' gid = 0" using Cons.prems(2) by (simp add: s(1) mget_def map_of_eq_None_iff [THEN iffD2])
    with True IH show ?thesis by (simp add: s(1) pgDebits_def mget_def)
  qed (use IH in \<open>simp add: s(1) pgDebits_def mget_def\<close>)
qed (simp add: pgDebits_def)

lemma pg_inv_deducted:
  assumes inv: "pg_inv r" and d: "distinct (map fst steps)" and k: "pc_draws r \<le> k"
    and rows: "map (\<lambda>d. (pd_grant_id d, pd_amount d)) new = steps"
    and steps: "\<forall>u \<in> set steps. 0 < snd u \<and> (\<exists>g \<in> set (liveRows now s b (pc_grants r)). gr_id g = fst u \<and> snd u \<le> gr_amount_remaining g)"
    and keys: "\<forall>d \<in> set new. pd_subject_id d = s \<and> pd_bucket d = b"
  shows "pg_inv (r\<lparr>pc_grants := map (withdrawn steps) (pc_grants r), pc_deductions := pc_deductions r @ new, pc_draws := k\<rparr>)"
proof -
  have same: "gr_id (withdrawn steps row) = gr_id row" "gr_subject_id (withdrawn steps row) = gr_subject_id row"
    "gr_bucket (withdrawn steps row) = gr_bucket row" "gr_amount_initial (withdrawn steps row) = gr_amount_initial row" for row
    by (simp_all add: withdrawn_def)
  have "rowOk (pc_deductions r @ new) (withdrawn steps row)" if "row \<in> set (pc_grants r)" for row
  proof -
    have "rowOk (pc_deductions r) row" using inv that by (simp add: pg_inv_def)
    moreover have "0 \<le> gr_amount_remaining (withdrawn steps row)"
      using liveCredit_withdrawn(1) [OF inv d, of now s b] steps that by blast
    ultimately show ?thesis by (simp add: rowOk_def withdrawn_def pgDebits_steps [OF rows d])
  qed
  moreover have "debitOk (map (withdrawn steps) (pc_grants r)) e" if e: "e \<in> set (pc_deductions r @ new)" for e
  proof (cases "e \<in> set (pc_deductions r)")
    case True
    then have "debitOk (pc_grants r) e" using inv by (simp add: pg_inv_def)
    then show ?thesis by (auto simp: debitOk_def same)
  next
    case False
    with e have e: "e \<in> set new" by simp
    then have "(pd_grant_id e, pd_amount e) \<in> set steps" using rows by force
    with steps obtain g where "g \<in> set (liveRows now s b (pc_grants r))" "gr_id g = pd_grant_id e" "0 < pd_amount e" by force
    then show ?thesis using keys e by (auto simp: debitOk_def same live_spendable spendable_def)
  qed
  moreover have "gr_id ` set (pc_grants r) \<subseteq> pc_uuid r ` {..<k}"
  proof -
    have "pc_uuid r ` {..<pc_draws r} \<subseteq> pc_uuid r ` {..<k}" using k by (intro image_mono) auto
    moreover have "gr_id ` set (pc_grants r) \<subseteq> pc_uuid r ` {..<pc_draws r}" using inv by (simp add: pg_inv_def)
    ultimately show ?thesis by (rule order_trans [rotated])
  qed
  ultimately show ?thesis using inv by (simp add: pg_inv_def comp_def same image_image)
qed

lemma balance_total: "in64 (liveCredit now s b r) \<Longrightarrow> \<exists>bal. balanceFromQuerier now s b r = Inr bal \<and> b_Total bal = liveCredit now s b r"
  by (simp add: balanceFromQuerier_def balanceOf_def liveCredit_def)

lemma pg_TryDeduct_again:
  assumes "requestRecorded inp r"
  shows "snd (pg_TryDeduct now inp r) = r \<and>
    (in64 (liveCredit now (di_SubjectID inp) (di_Bucket inp) r) \<longrightarrow>
      (\<exists>bal. fst (pg_TryDeduct now inp r) = Inr (True, bal) \<and>
         b_Total bal = liveCredit now (di_SubjectID inp) (di_Bucket inp) r))"
  using assms balance_total [of now "di_SubjectID inp" "di_Bucket inp" r]
  by (auto simp: pg_TryDeduct_def answerWith_def split: sum.split)

lemma pg_TryDeduct_short:
  assumes "\<not> requestRecorded inp r" and "liveCredit now (di_SubjectID inp) (di_Bucket inp) r < di_Amount inp" and "0 < di_Amount inp"
  shows "snd (pg_TryDeduct now inp r) = r \<and>
    (in64 (liveCredit now (di_SubjectID inp) (di_Bucket inp) r) \<longrightarrow>
      (\<exists>bal. fst (pg_TryDeduct now inp r) = Inr (False, bal) \<and>
         b_Total bal = liveCredit now (di_SubjectID inp) (di_Bucket inp) r))"
proof -
  obtain steps out where plan: "pgPlan (di_Amount inp) (pgPool now inp r) = (steps, out)" by fastforce
  have "\<forall>g \<in> set (pgPool now inp r). 0 < gr_amount_remaining g" by (simp add: live_spendable)
  from pgPlan_spec [OF plan this] assms have "0 < out" by (auto simp: sum_pgPool)
  with plan assms(1) balance_total [of now "di_SubjectID inp" "di_Bucket inp" r] show ?thesis
    by (auto simp: pg_TryDeduct_def answerWith_def split: sum.split)
qed

lemma pg_TryDeduct_covered:
  assumes inv: "pg_inv r" and pos: "0 < di_Amount inp" and fresh: "\<not> requestRecorded inp r"
    and covered: "di_Amount inp \<le> liveCredit now (di_SubjectID inp) (di_Bucket inp) r"
    and range: "in64 (liveCredit now (di_SubjectID inp) (di_Bucket inp) r)"
  shows "\<exists>bal steps new r'. pg_TryDeduct now inp r = (Inr (True, bal), r') \<and>
    b_Total bal = liveCredit now (di_SubjectID inp) (di_Bucket inp) r - di_Amount inp \<and>
    liveCredit now (di_SubjectID inp) (di_Bucket inp) r' = liveCredit now (di_SubjectID inp) (di_Bucket inp) r - di_Amount inp \<and>
    pc_grants r' = map (withdrawn steps) (pc_grants r) \<and> pc_deductions r' = pc_deductions r @ new \<and>
    map (\<lambda>d. (pd_grant_id d, pd_amount d)) new = steps \<and> sum_list (map pd_amount new) = di_Amount inp \<and>
    (\<forall>u \<in> set steps. \<exists>g \<in> set (pc_grants r). gr_id g = fst u \<and> gr_subject_id g = di_SubjectID inp \<and> gr_bucket g = di_Bucket inp) \<and>
    requestRecorded inp r' \<and> pg_inv r'"
proof -
  from pg_covered [OF inv pos fresh covered] obtain steps new k where p:
    "pgPlan (di_Amount inp) (pgPool now inp r) = (steps, 0)"
    "pgApply now inp steps r = Inr (r\<lparr>pc_grants := map (withdrawn steps) (pc_grants r),
      pc_deductions := pc_deductions r @ new, pc_draws := k\<rparr>)"
    "map (\<lambda>d. (pd_grant_id d, pd_amount d)) new = steps" "sum_list (map snd steps) = di_Amount inp"
    "distinct (map fst steps)" "pc_draws r \<le> k"
    "\<forall>u \<in> set steps. 0 < snd u \<and>
      (\<exists>g \<in> set (liveRows now (di_SubjectID inp) (di_Bucket inp) (pc_grants r)). gr_id g = fst u \<and> snd u \<le> gr_amount_remaining g)"
    "\<forall>d \<in> set new. pd_subject_id d = di_SubjectID inp \<and> pd_request_id d = di_RequestID inp \<and> pd_bucket d = di_Bucket inp"
    by blast
  let ?r = "r\<lparr>pc_grants := map (withdrawn steps) (pc_grants r), pc_deductions := pc_deductions r @ new, pc_draws := k\<rparr>"
  have live: "liveCredit now (di_SubjectID inp) (di_Bucket inp) ?r =
    liveCredit now (di_SubjectID inp) (di_Bucket inp) r - di_Amount inp"
    using liveCredit_withdrawn(2) [OF inv p(5), of now "di_SubjectID inp" "di_Bucket inp"] p(4,7) by (auto simp: liveCredit_def)
  with range covered pos have "in64 (liveCredit now (di_SubjectID inp) (di_Bucket inp) ?r)" by (auto simp: in64_def)
  from balance_total [OF this] obtain bal where bal: "balanceFromQuerier now (di_SubjectID inp) (di_Bucket inp) ?r = Inr bal"
    "b_Total bal = liveCredit now (di_SubjectID inp) (di_Bucket inp) r - di_Amount inp" by (auto simp: live)
  have run: "pg_TryDeduct now inp r = (Inr (True, bal), ?r)"
    using fresh p(1,2) bal(1) by (simp add: pg_TryDeduct_def answerWith_def)
  have sum: "sum_list (map pd_amount new) = di_Amount inp" using p(3,4) by (auto simp: comp_def)
  then have "new \<noteq> []" using pos by auto
  then have "requestRecorded inp ?r" using p(8) by (cases new) (auto simp: requestRecorded_def list_ex_iff)
  moreover have "pg_inv ?r" using pg_inv_deducted [OF inv p(5,6,3), of now "di_SubjectID inp" "di_Bucket inp"] p(7,8) by blast
  moreover have "\<forall>u \<in> set steps. \<exists>g \<in> set (pc_grants r). gr_id g = fst u \<and> gr_subject_id g = di_SubjectID inp \<and> gr_bucket g = di_Bucket inp"
  proof
    fix u assume "u \<in> set steps"
    with p(7) obtain g where "g \<in> set (liveRows now (di_SubjectID inp) (di_Bucket inp) (pc_grants r))" "gr_id g = fst u" by blast
    then show "\<exists>g \<in> set (pc_grants r). gr_id g = fst u \<and> gr_subject_id g = di_SubjectID inp \<and> gr_bucket g = di_Bucket inp"
      by (auto simp: live_spendable spendable_def)
  qed
  ultimately show ?thesis using run bal(2) live p(3) sum by (intro exI [of _ bal] exI [of _ steps] exI [of _ new] exI [of _ ?r]) simp
qed

text \<open>A call whose amount is not positive, which the facade refuses, changes nothing.\<close>

lemma pg_TryDeduct_nonpositive: "di_Amount inp \<le> 0 \<Longrightarrow> snd (pg_TryDeduct now inp r) = r"
proof -
  assume a: "di_Amount inp \<le> 0"
  obtain steps out where plan: "pgPlan (di_Amount inp) (pgPool now inp r) = (steps, out)" by fastforce
  show ?thesis
  proof (cases steps)
    case Nil
    then show ?thesis using plan by (auto simp: pg_TryDeduct_def answerWith_def split: sum.split)
  next
    case (Cons s steps')
    then obtain g gs where pl: "pgPool now inp r = g # gs" using plan by (cases "pgPool now inp r") auto
    have "0 < gr_amount_remaining g" using set_pgPool [of now inp r] by (auto simp: pl live_spendable)
    then have "snd s = di_Amount inp" using plan a by (auto simp: pl Cons Let_def split_beta split: if_splits)
    then have "\<exists>e. pgApply now inp steps r = Inl e" using a by (cases s) (simp add: Cons Let_def)
    then show ?thesis using plan by (auto simp: pg_TryDeduct_def answerWith_def split: sum.split)
  qed
qed

lemma pg_inv_TryDeduct:
  assumes "pg_inv r"
  shows "pg_inv (snd (pg_TryDeduct now inp r))"
proof (cases "0 < di_Amount inp \<and> \<not> requestRecorded inp r \<and> di_Amount inp \<le> liveCredit now (di_SubjectID inp) (di_Bucket inp) r")
  case True
  then have t: "0 < di_Amount inp" "\<not> requestRecorded inp r" "di_Amount inp \<le> liveCredit now (di_SubjectID inp) (di_Bucket inp) r"
    by simp_all
  from pg_covered [OF assms t] obtain steps r' where p: "pgPlan (di_Amount inp) (pgPool now inp r) = (steps, 0)"
    "pgApply now inp steps r = Inr r'" "pg_inv r'"
    using pg_inv_deducted [OF assms, of _ _ _ now "di_SubjectID inp" "di_Bucket inp"] by blast
  with t assms show ?thesis by (auto simp: pg_TryDeduct_def answerWith_def split: sum.split)
next
  case False
  then have "snd (pg_TryDeduct now inp r) = r"
    using pg_TryDeduct_nonpositive [of inp now r] pg_TryDeduct_again [of inp r now] pg_TryDeduct_short [of inp r now] by linarith
  with assms show ?thesis by simp
qed

subsection \<open>The other operations\<close>

lemma pg_inv_Grant:
  assumes inv: "pg_inv r"
  shows "pg_inv (snd (pg_Grant micro appNow now inp r))"
proof -
  let ?gid = "pc_uuid r (pc_draws r)"
  let ?exp = "if gi_ValidDays inp > 0 then Some (AddDays appNow (gi_ValidDays inp)) else None"
  let ?row = "grantRow micro now ?exp inp ?gid"
  have sub: "gr_id ` set (pc_grants r) \<subseteq> pc_uuid r ` {..<pc_draws r}" and inj: "inj (pc_uuid r)"
    using inv by (simp_all add: pg_inv_def)
  then have sub': "gr_id ` set (pc_grants r) \<subseteq> pc_uuid r ` {..<Suc (pc_draws r)}"
    by (meson image_mono lessThan_subset_iff order_trans le_SucI order_refl)
  have draw: "pg_inv (r\<lparr>pc_draws := Suc (pc_draws r)\<rparr>)" using inv sub' by (simp add: pg_inv_def)
  have new: "?gid \<notin> gr_id ` set (pc_grants r)"
  proof
    assume "?gid \<in> gr_id ` set (pc_grants r)"
    with sub have "?gid \<in> pc_uuid r ` {..<pc_draws r}" by blast
    with inj show False by (simp add: inj_image_mem_iff)
  qed
  have "pd_grant_id d \<in> gr_id ` set (pc_grants r)" if "d \<in> set (pc_deductions r)" for d
    using inv that unfolding pg_inv_def debitOk_def by (metis image_eqI)
  with new have "\<forall>d \<in> set (pc_deductions r). pd_grant_id d \<noteq> ?gid" by metis
  then have "pgDebits ?gid (pc_deductions r) = 0" by (rule pgDebits_absent)
  then have "rowOk (pc_deductions r) ?row" if "0 < gi_Amount inp" using that by (simp add: rowOk_def grantRow_def)
  moreover have "debitOk (pc_grants r @ [?row]) d" if "d \<in> set (pc_deductions r)" for d
    using inv that unfolding pg_inv_def debitOk_def by (metis UnCI set_append)
  moreover have "gr_id ?row = ?gid" by (simp add: grantRow_def)
  ultimately have "pg_inv (r\<lparr>pc_draws := Suc (pc_draws r), pc_grants := pc_grants r @ [?row]\<rparr>)" if "0 < gi_Amount inp"
    using that inv new sub' by (simp add: pg_inv_def)
  then show ?thesis using inv draw by (simp add: pg_Grant_def Let_def split: option.split)
qed

lemma pg_inv_expiryZero: "pg_inv r \<Longrightarrow> pg_inv (expiryZero now r)"
  unfolding expiryZero_def by (rule pg_inv_lower) (auto simp: lowersRow_def pg_inv_def rowOk_def)

lemma pg_inv_Revoke: "pg_inv r \<Longrightarrow> pg_inv (snd (pg_RevokeGrant isUUID now gid reason r))"
proof (cases "isUUID gid")
  case True
  assume inv: "pg_inv r"
  then have "\<forall>row \<in> set (pc_grants r). lowersRow row (pgRevoke now gid reason row)"
    by (auto simp: lowersRow_def pg_inv_def rowOk_def pgRevoke_def)
  with pg_inv_lower [OF inv] True show ?thesis by (simp add: pg_RevokeGrant_def)
qed (simp add: pg_RevokeGrant_def)

inductive pgc_step :: "(time \<Rightarrow> time) \<Rightarrow> (string \<Rightarrow> bool) \<Rightarrow> pgCredits \<Rightarrow> pgCredits \<Rightarrow> bool" for micro isUUID where
  grant: "pgc_step micro isUUID r (snd (pg_Grant micro appNow now inp r))"
| deduct: "pgc_step micro isUUID r (snd (pg_TryDeduct now inp r))"
| expire: "pgc_step micro isUUID r (expiryZero now r)"
| revoke: "pgc_step micro isUUID r (snd (pg_RevokeGrant isUUID now gid reason r))"

lemma pgc_step_inv: "pgc_step micro isUUID r r' \<Longrightarrow> pg_inv r \<Longrightarrow> pg_inv r'"
  by (cases rule: pgc_step.cases)
    (auto simp: pg_inv_Grant pg_inv_TryDeduct pg_inv_expiryZero pg_inv_Revoke)

definition emptyCredits :: "(nat \<Rightarrow> string) \<Rightarrow> pgCredits" where
  "emptyCredits uuid = \<lparr>pc_grants = [], pc_deductions = [], pc_uuid = uuid, pc_draws = 0\<rparr>"

lemma pgc_reachable_inv:
  assumes "(pgc_step micro isUUID)\<^sup>*\<^sup>* (emptyCredits uuid) r" and "inj uuid"
  shows "pg_inv r"
  using assms(1) by induction (auto simp: pgc_step_inv, simp add: pg_inv_def emptyCredits_def assms(2))

subsection \<open>The contract of the handlers\<close>

abbreviation pg_rows :: "pgCredits \<Rightarrow> Grant list" where
  "pg_rows r \<equiv> map scanGrant (pc_grants r)"

definition pg_admissible :: "GrantInput \<Rightarrow> bool" where
  "pg_admissible i \<longleftrightarrow> 0 < gi_Amount i \<and> gi_SourceRef i \<noteq> ''''"

lemma matches_scanGrant:
  "gi_SourceRef i \<noteq> '''' \<Longrightarrow> matches i (scanGrant row) \<longleftrightarrow>
    gr_subject_id row = gi_SubjectID i \<and> gr_bucket row = gi_Bucket i \<and> gr_source_ref row = Some (gi_SourceRef i)"
  by (auto simp: matches_def scanGrant_def stringOf_def split: option.split)

lemma sourceConflict_matches:
  "gi_SourceRef i \<noteq> '''' \<Longrightarrow> sourceConflict i t \<longleftrightarrow> (\<exists>row \<in> set t. matches i (scanGrant row))"
  by (simp add: sourceConflict_def list_ex_iff matches_scanGrant)

lemma findExisting_matches:
  assumes "gi_SourceRef i \<noteq> ''''" and "sourceConflict i (pc_grants r)"
  shows "\<exists>g. findExisting (gi_SubjectID i) (gi_Bucket i) (gi_SourceRef i) r = Some g \<and> matches i g"
proof -
  let ?P = "\<lambda>row. gr_subject_id row = gi_SubjectID i \<and> gr_bucket row = gi_Bucket i \<and> gr_source_ref row = Some (gi_SourceRef i)"
  from assms(2) have "\<exists>row \<in> set (pc_grants r). ?P row" by (simp add: sourceConflict_def list_ex_iff)
  then obtain row where "List.find ?P (pc_grants r) = Some row"
    by (cases "List.find ?P (pc_grants r)") (auto simp: find_None_iff)
  moreover from this have "?P row" by (auto simp: find_Some_iff)
  ultimately show ?thesis using assms(1) by (simp add: findExisting_def matches_scanGrant)
qed

lemma pgApply_keys:
  "pgApply now inp steps r = Inr r' \<Longrightarrow> map rowKey (pg_rows r') = map rowKey (pg_rows r)"
proof (induction now inp steps r rule: pgApply.induct)
  case (2 now inp gid amount steps r)
  have "rowKey (scanGrant (takeFrom gid amount row)) = rowKey (scanGrant row)" for row
    by (simp add: takeFrom_def rowKey_def scanGrant_def)
  with 2 show ?case by (simp add: Let_def comp_def split: if_splits)
qed simp

lemma keys_map:
  assumes "pc_grants r' = map f (pc_grants r)" and "\<And>row. rowKey (scanGrant (f row)) = rowKey (scanGrant row)"
  shows "rowKey ` set (pg_rows r) \<subseteq> rowKey ` set (pg_rows r')"
  by (simp add: image_image assms)

lemma pgc_step_keys:
  assumes "pgc_step micro isUUID r r'"
  shows "rowKey ` set (pg_rows r) \<subseteq> rowKey ` set (pg_rows r')"
  using assms
proof cases
  case (grant appNow now inp)
  then show ?thesis by (auto simp: pg_Grant_def Let_def split: option.split)
next
  case (deduct now inp)
  have "map rowKey (pg_rows r') = map rowKey (pg_rows r)"
    using pgApply_keys by (auto simp: deduct pg_TryDeduct_def answerWith_def split_beta split: sum.split simp del: map_map)
  then have "rowKey ` set (pg_rows r') = rowKey ` set (pg_rows r)" by (metis set_map)
  then show ?thesis by simp
next
  case (expire now)
  then have "pc_grants r' = map (\<lambda>row. if pgExpired now row then row\<lparr>gr_amount_remaining := 0\<rparr> else row) (pc_grants r)"
    by (simp add: expiryZero_def)
  then show ?thesis by (rule keys_map) (simp add: rowKey_def scanGrant_def)
next
  case (revoke now gid reason)
  then have "pc_grants r' = map (if isUUID gid then pgRevoke now gid reason else (\<lambda>row. row)) (pc_grants r)"
    by (simp add: pg_RevokeGrant_def)
  then show ?thesis by (rule keys_map) (simp add: pgRevoke_def rowKey_def scanGrant_def)
qed

interpretation pg_credits: durable_ledger "pg_Grant micro appNow now" pg_inv pg_admissible "\<lambda>r. mset (pg_rows r)"
  "pgc_step micro isUUID" for micro appNow now isUUID
proof
  fix r i g
  assume inv: "pg_inv r" and i: "pg_admissible i" and g: "g \<in># mset (pg_rows r)" "matches i g"
  then have c: "sourceConflict i (pc_grants r)" by (auto simp: pg_admissible_def sourceConflict_matches)
  from findExisting_matches [of i "r\<lparr>pc_draws := Suc (pc_draws r)\<rparr>"] c i obtain h where
    h: "findExisting (gi_SubjectID i) (gi_Bucket i) (gi_SourceRef i) (r\<lparr>pc_draws := Suc (pc_draws r)\<rparr>) = Some h" "matches i h"
    by (auto simp: pg_admissible_def)
  have run: "pg_Grant micro appNow now i r = (Inr h, r\<lparr>pc_draws := Suc (pc_draws r)\<rparr>)"
    using i c h(1) by (simp add: pg_Grant_def pg_admissible_def Let_def)
  moreover have "pg_inv (snd (pg_Grant micro appNow now i r))" by (rule pg_inv_Grant [OF inv])
  ultimately show "\<exists>h r'. pg_Grant micro appNow now i r = (Inr h, r') \<and> matches i h \<and> pg_inv r' \<and> mset (pg_rows r') = mset (pg_rows r)"
    using h(2) by simp
next
  fix r i
  assume inv: "pg_inv r" and i: "pg_admissible i" and none: "\<forall>g \<in># mset (pg_rows r). \<not> matches i g"
  then have c: "\<not> sourceConflict i (pc_grants r)" by (auto simp: pg_admissible_def sourceConflict_matches)
  let ?exp = "if gi_ValidDays i > 0 then Some (AddDays appNow (gi_ValidDays i)) else None"
  let ?row = "grantRow micro now ?exp i (pc_uuid r (pc_draws r))"
  have new: "matches i (scanGrant ?row) \<and> credits_input i (scanGrant ?row)"
    using i by (simp add: credits_input_def matches_def scanGrant_def grantRow_def stringOf_def nullString_def pg_admissible_def)
  have run: "\<exists>h. pg_Grant micro appNow now i r = (Inr h, r\<lparr>pc_draws := Suc (pc_draws r), pc_grants := pc_grants r @ [?row]\<rparr>) \<and> matches i h"
    using i c by (simp add: pg_Grant_def pg_admissible_def Let_def matches_def)
  moreover have "pg_inv (snd (pg_Grant micro appNow now i r))" by (rule pg_inv_Grant [OF inv])
  ultimately show "\<exists>h g r'. pg_Grant micro appNow now i r = (Inr h, r') \<and> matches i h \<and> credits_input i g \<and> pg_inv r' \<and>
    mset (pg_rows r') = add_mset g (mset (pg_rows r))"
    using new by fastforce
next
  fix r r'
  assume "pg_inv r" "pgc_step micro isUUID r r'"
  then show "pg_inv r'" by (simp add: pgc_step_inv)
next
  fix r r' g
  assume "pgc_step micro isUUID r r'" "g \<in># mset (pg_rows r)"
  then show "\<exists>h \<in># mset (pg_rows r'). rowKey h = rowKey g" using pgc_step_keys [of micro isUUID r r'] by fastforce
qed

subsection \<open>Properties\<close>

lemma liveCredit_other:
  assumes inv: "pg_inv r" and other: "(s', b') \<noteq> (s, b)"
    and steps: "\<forall>u \<in> set steps. \<exists>g \<in> set (pc_grants r). gr_id g = fst u \<and> gr_subject_id g = s \<and> gr_bucket g = b"
    and rows: "pc_grants r' = map (withdrawn steps) (pc_grants r)"
  shows "liveCredit now s' b' r' = liveCredit now s' b' r"
proof -
  have ids: "inj_on gr_id (set (pc_grants r))" using inv by (simp add: pg_inv_def distinct_map)
  have same: "withdrawn steps row = row"
    if row: "row \<in> set (pc_grants r)" "gr_subject_id row = s'" "gr_bucket row = b'" for row
  proof -
    have "gr_id row \<notin> fst ` set steps"
    proof
      assume "gr_id row \<in> fst ` set steps"
      with steps obtain g where "g \<in> set (pc_grants r)" "gr_id g = gr_id row" "gr_subject_id g = s" "gr_bucket g = b" by force
      with ids row other show False by (auto simp: inj_on_def)
    qed
    then show ?thesis by (simp add: withdrawn_def mget_def map_of_eq_None_iff [THEN iffD2])
  qed
  have keys: "gr_subject_id (withdrawn steps row) = gr_subject_id row" "gr_bucket (withdrawn steps row) = gr_bucket row" for row
    by (simp_all add: withdrawn_def)
  have "liveRows now s' b' (map (withdrawn steps) t) = liveRows now s' b' t" if "set t \<subseteq> set (pc_grants r)" for t
    using that by (induction t) (auto simp: liveRows_def same keys)
  then show ?thesis by (simp add: liveCredit_def rows)
qed

text \<open>C11: in every state that grants, deductions, expiry runs and revocations can bring the Postgres ledger to, no grant is
  overdrawn: what is left of it is not negative and, with everything ever deducted from it, is at most what was granted.
  From such a state a deduction has one of three outcomes. A request that is already recorded is answered with success and
  changes nothing. A request for more than the live credit of the bucket is refused and changes nothing. Any other succeeds:
  the new rows of the deduction ledger add up to the amount, the live credit falls by exactly that amount, no other
  subject's or bucket's live credit changes, and the request is recorded. Each answer carries the live credit after it.\<close>
theorem pg_deduction_exact:
  assumes "inj uuid" and reach: "(pgc_step micro isUUID)\<^sup>*\<^sup>* (emptyCredits uuid) r" and pos: "0 < di_Amount inp"
    and range: "in64 (liveCredit now (di_SubjectID inp) (di_Bucket inp) r)"
    and run: "pg_TryDeduct now inp r = (res, r')"
  shows "(\<forall>row \<in> set (pc_grants r). 0 \<le> gr_amount_remaining row \<and>
      gr_amount_remaining row + pgDebits (gr_id row) (pc_deductions r) \<le> gr_amount_initial row) \<and>
    (\<exists>ok bal. res = Inr (ok, bal) \<and> b_Total bal = liveCredit now (di_SubjectID inp) (di_Bucket inp) r' \<and>
      ok = (requestRecorded inp r \<or> di_Amount inp \<le> liveCredit now (di_SubjectID inp) (di_Bucket inp) r) \<and>
      (if requestRecorded inp r \<or> \<not> ok then r' = r
       else requestRecorded inp r' \<and>
         (\<exists>new. pc_deductions r' = pc_deductions r @ new \<and> sum_list (map pd_amount new) = di_Amount inp) \<and>
         liveCredit now (di_SubjectID inp) (di_Bucket inp) r' =
           liveCredit now (di_SubjectID inp) (di_Bucket inp) r - di_Amount inp \<and>
         (\<forall>s b t. (s, b) \<noteq> (di_SubjectID inp, di_Bucket inp) \<longrightarrow> liveCredit t s b r' = liveCredit t s b r)))"
proof -
  have inv: "pg_inv r" by (rule pgc_reachable_inv [OF reach assms(1)])
  then have safe: "\<forall>row \<in> set (pc_grants r). 0 \<le> gr_amount_remaining row \<and>
      gr_amount_remaining row + pgDebits (gr_id row) (pc_deductions r) \<le> gr_amount_initial row"
    by (simp add: pg_inv_def rowOk_def)
  consider (again) "requestRecorded inp r"
    | (short) "\<not> requestRecorded inp r" "liveCredit now (di_SubjectID inp) (di_Bucket inp) r < di_Amount inp"
    | (covered) "\<not> requestRecorded inp r" "di_Amount inp \<le> liveCredit now (di_SubjectID inp) (di_Bucket inp) r"
    by linarith
  then show ?thesis
  proof cases
    case again
    then show ?thesis using safe pg_TryDeduct_again [OF again, of now] range run by auto
  next
    case short
    then show ?thesis using safe pg_TryDeduct_short [OF short pos] range run by auto
  next
    case covered
    from pg_TryDeduct_covered [OF inv pos covered range] run obtain bal steps new where c:
      "res = Inr (True, bal)" "b_Total bal = liveCredit now (di_SubjectID inp) (di_Bucket inp) r - di_Amount inp"
      "liveCredit now (di_SubjectID inp) (di_Bucket inp) r' = liveCredit now (di_SubjectID inp) (di_Bucket inp) r - di_Amount inp"
      "pc_grants r' = map (withdrawn steps) (pc_grants r)" "pc_deductions r' = pc_deductions r @ new"
      "map (\<lambda>d. (pd_grant_id d, pd_amount d)) new = steps" "sum_list (map pd_amount new) = di_Amount inp"
      "requestRecorded inp r'"
      and from_bucket: "\<forall>u \<in> set steps. \<exists>g \<in> set (pc_grants r). gr_id g = fst u \<and> gr_subject_id g = di_SubjectID inp \<and>
        gr_bucket g = di_Bucket inp" by auto
    then have "\<forall>s b t. (s, b) \<noteq> (di_SubjectID inp, di_Bucket inp) \<longrightarrow> liveCredit t s b r' = liveCredit t s b r"
      using liveCredit_other [OF inv _ _ c(4)] by blast
    with safe c covered show ?thesis by auto
  qed
qed

text \<open>C12: a checkout session is credited once on the Postgres ledger. Its first delivery adds rows for exactly the intents
  that were not credited yet, in full; after any grants, deductions, expiry runs and revocations, a second delivery of the
  event, at whatever time, succeeds and adds nothing. No condition on the characters of subjects and buckets is needed, as
  it is in memory: the unique index compares columns and not a joined key.\<close>
theorem pg_session_credited_once:
  assumes "inj uuid" and "(pgc_step micro isUUID)\<^sup>*\<^sup>* (emptyCredits uuid) r"
    and "sessionGrants evt = Some (s, pgs)" and "\<forall>g \<in> set pgs. 0 < pg_Amount g"
    and "ApplyGrantsFromSession (Some (pg_Grant micro appNow now)) evt r = (err, r1)"
    and "(pgc_step micro isUUID)\<^sup>*\<^sup>* r1 r2"
    and "ApplyGrantsFromSession (Some (pg_Grant micro appNow' now')) evt r2 = (err', r3)"
  shows "err = None \<and>
    (\<exists>new. mset (pg_rows r1) = mset (pg_rows r) + mset new \<and>
       list_all2 credits_input (freshInputs (rowKey ` set (pg_rows r)) (sessionInputs s pgs)) new) \<and>
    err' = None \<and> mset (pg_rows r3) = mset (pg_rows r2)"
proof -
  have inv: "pg_inv r" by (rule pgc_reachable_inv [OF assms(2,1)])
  have adm: "\<forall>i \<in> set (sessionInputs s pgs). pg_admissible i"
  proof
    fix i assume "i \<in> set (sessionInputs s pgs)"
    then obtain k g u where "g \<in> set pgs" "i = sessionInput s k g u" by (rule sessionInputs_memD)
    with assms(4) show "pg_admissible i" by (simp add: pg_admissible_def sessionInput_def sessionRef_def)
  qed
  have first: "err = None \<and> (\<exists>new. mset (pg_rows r1) = mset (pg_rows r) + mset new \<and>
      list_all2 credits_input (freshInputs (rowKey ` set (pg_rows r)) (sessionInputs s pgs)) new) \<and>
    pg_inv r2 \<and> (\<forall>i \<in> set (sessionInputs s pgs). \<exists>g \<in># mset (pg_rows r2). matches i g)"
    using pg_credits.granted_known [OF inv adm, of micro appNow now err r1 isUUID r2] assms(5,6)
    by (simp add: Apply_sessionGrants [OF assms(3)])
  then have "err' = None \<and> mset (pg_rows r3) = mset (pg_rows r2)"
    using pg_credits.grantAll_known [of r2 "sessionInputs s pgs" micro appNow' now'] adm assms(7)
    by (auto simp: Apply_sessionGrants [OF assms(3)])
  with first show ?thesis by blast
qed

subsection \<open>Instances\<close>

definition pg_demo_input :: GrantInput where
  "pg_demo_input =
     \<lparr>gi_SubjectID = ''u1'', gi_Bucket = ''api'', gi_Amount = 10, gi_ValidDays = 0, gi_Source = SourceStripePayment,
      gi_SourceRef = ''pi_1'', gi_Metadata = []\<rparr>"

definition pg_demo :: pgCredits where
  "pg_demo = snd (pg_Grant (\<lambda>t. t) 0 0 pg_demo_input (emptyCredits (\<lambda>n. replicate n CHR ''a'')))"

definition pg_demo_deduct :: DeductInput where
  "pg_demo_deduct =
     \<lparr>di_SubjectID = ''u1'', di_Bucket = ''api'', di_Amount = 7, di_Reason = ''call'', di_RequestID = ''req_1'', di_Metadata = []\<rparr>"

lemma pg_demo_reachable: "(pgc_step (\<lambda>t. t) (\<lambda>s. True))\<^sup>*\<^sup>* (emptyCredits (\<lambda>n. replicate n CHR ''a'')) pg_demo"
  unfolding pg_demo_def by (rule r_into_rtranclp) (rule pgc_step.grant)

lemma replicate_inj: "inj (\<lambda>n. replicate n CHR ''a'')"
  by (rule injI) (metis length_replicate)

theorem pg_deduction_exact_witness:
  "\<exists>bal. fst (pg_TryDeduct 5 pg_demo_deduct pg_demo) = Inr (True, bal) \<and> b_Total bal = 3"
proof -
  have live: "liveCredit 5 ''u1'' ''api'' pg_demo = 10" and fresh: "\<not> requestRecorded pg_demo_deduct pg_demo" by code_simp+
  have d: "di_SubjectID pg_demo_deduct = ''u1''" "di_Bucket pg_demo_deduct = ''api''" "di_Amount pg_demo_deduct = 7"
    by (simp_all add: pg_demo_deduct_def)
  show ?thesis
    using pg_deduction_exact [OF replicate_inj pg_demo_reachable, of pg_demo_deduct 5 "fst (pg_TryDeduct 5 pg_demo_deduct pg_demo)"
      "snd (pg_TryDeduct 5 pg_demo_deduct pg_demo)"] live fresh
    by (auto simp: d in64_def)
qed

theorem pg_session_credited_once_witness:
  "fst (ApplyGrantsFromSession (Some (pg_Grant (\<lambda>t. t) 0 0)) demo_session pg_demo) = None \<and>
   mset (pg_rows (snd (ApplyGrantsFromSession (Some (pg_Grant (\<lambda>t. t) 9 9)) demo_session
     (snd (ApplyGrantsFromSession (Some (pg_Grant (\<lambda>t. t) 0 0)) demo_session pg_demo))))) =
   mset (pg_rows (snd (ApplyGrantsFromSession (Some (pg_Grant (\<lambda>t. t) 0 0)) demo_session pg_demo)))"
proof -
  obtain s where s: "sessionGrants demo_session = Some (s, demo_intents)" using demo_sessionGrants by blast
  have pos: "\<forall>g \<in> set demo_intents. 0 < pg_Amount g" by (simp add: demo_intents_def)
  show ?thesis
    using pg_session_credited_once [OF replicate_inj pg_demo_reachable s pos surjective_pairing [of "ApplyGrantsFromSession
      (Some (pg_Grant (\<lambda>t. t) 0 0)) demo_session pg_demo"] rtranclp.rtrancl_refl surjective_pairing] by blast
qed

end
