(* ===== verification/Webhooks.thy ===== *)
theory Webhooks
  imports Webhook_Event
begin

text \<open>
  Package \<open>webhooks\<close>: the typed-handler dispatch of \<open>handlers.go\<close>, the event log of \<open>eventlog.go\<close>, and of
  \<open>handler.go\<close> the constructor, the source-address filter, signature verification over several secrets,
  the HTTP entry point \<open>Handle\<close>, the queue entry point \<open>ProcessQueued\<close> with its failure policy, the replay
  helper and the log rate limiter.

  App handlers are functions from an event and the app's state to an optional error and the new state. The
  dedup store (rho-kit's \<open>idempotency.Store\<close>), the SDK's signature check and event decoding, the address
  functions of package \<open>net\<close> and the queue's \<open>Enqueue\<close> are arguments: the record \<open>storeOps\<close> over an
  abstract store state, the record \<open>wlib\<close> and the field \<open>wh_queue\<close>. Logging to slog and HTTP bodies are left
  out; the response is its status code. Context cancellation appears as whatever error the handler then
  returns.
\<close>

subsection \<open>The event log\<close>

record LoggedEvent =
  l_EventID :: string
  l_EventType :: string
  l_Status :: string
  l_LastError :: string
  l_AttemptCount :: int
  l_ReceivedAt :: time
  l_ProcessedAt :: "time option"
  l_Payload :: string
  l_Namespace :: string

type_synonym memoryLog = "(string, LoggedEvent) gomap"

definition NewMemoryLog :: memoryLog where
  "NewMemoryLog = []"

definition memoryLog_Record :: "time \<Rightarrow> LoggedEvent \<Rightarrow> memoryLog \<Rightarrow> memoryLog" where
  "memoryLog_Record now e m =
     (let e1 = (case map_of m (l_EventID e) of
                  None \<Rightarrow> e
                | Some existing \<Rightarrow>
                    (let e0 = (if l_ReceivedAt e = zero_time then e\<lparr>l_ReceivedAt := l_ReceivedAt existing\<rparr> else e)
                     in if l_AttemptCount e0 = 0 then e0\<lparr>l_AttemptCount := l_AttemptCount existing\<rparr> else e0));
          e2 = (if l_ReceivedAt e1 = zero_time then e1\<lparr>l_ReceivedAt := now\<rparr> else e1)
      in mset_key (l_EventID e) e2 m)"

definition memoryLog_Get :: "string \<Rightarrow> memoryLog \<Rightarrow> LoggedEvent option" where
  "memoryLog_Get eventID m = map_of m eventID"

definition memoryLog_StuckEvents :: "int \<Rightarrow> memoryLog \<Rightarrow> LoggedEvent list" where
  "memoryLog_StuckEvents minAttempts m =
     filter (\<lambda>e. l_Status e \<noteq> ''processed'' \<and> l_AttemptCount e \<ge> minAttempts) (map snd m)"

definition memoryLog_PruneOlderThan :: "time \<Rightarrow> memoryLog \<Rightarrow> nat \<times> memoryLog" where
  "memoryLog_PruneOlderThan before m =
     (length (filter (\<lambda>(_, e). l_ReceivedAt e < before) m), filter (\<lambda>(_, e). \<not> l_ReceivedAt e < before) m)"

subsection \<open>Handlers and dispatch\<close>

type_synonym 'w handler = "Event \<Rightarrow> 'w \<Rightarrow> string option \<times> 'w"

record 'w Handlers =
  OnCheckoutCompleted :: "'w handler option"
  OnPaymentSucceeded :: "'w handler option"
  OnPaymentFailed :: "'w handler option"
  OnInvoicePaid :: "'w handler option"
  OnInvoicePaymentFailed :: "'w handler option"
  OnSubscriptionCreated :: "'w handler option"
  OnSubscriptionUpdated :: "'w handler option"
  OnSubscriptionCanceled :: "'w handler option"
  OnSubscriptionTrialWillEnd :: "'w handler option"
  OnRefundCreated :: "'w handler option"
  OnRefundFailed :: "'w handler option"
  OnCustomerBalanceFunded :: "'w handler option"
  OnDisputeCreated :: "'w handler option"
  OnDisputeUpdated :: "'w handler option"
  OnDisputeClosed :: "'w handler option"
  OnDisputeFundsWithdrawn :: "'w handler option"
  OnDisputeFundsReinstated :: "'w handler option"
  OnOtherEvent :: "'w handler option"

definition runIfSet :: "'w handler option \<Rightarrow> 'w handler" where
  "runIfSet fn evt w = (case fn of None \<Rightarrow> (None, w) | Some f \<Rightarrow> f evt w)"

definition typedHandler :: "'w Handlers \<Rightarrow> string \<Rightarrow> 'w handler option" where
  "typedHandler h t =
     (if t = ''checkout.session.completed'' then OnCheckoutCompleted h
      else if t = ''payment_intent.succeeded'' then OnPaymentSucceeded h
      else if t = ''payment_intent.payment_failed'' then OnPaymentFailed h
      else if t = ''invoice.paid'' \<or> t = ''invoice.payment_succeeded'' then OnInvoicePaid h
      else if t = ''invoice.payment_failed'' then OnInvoicePaymentFailed h
      else if t = ''customer.subscription.created'' then OnSubscriptionCreated h
      else if t = ''customer.subscription.updated'' then OnSubscriptionUpdated h
      else if t = ''customer.subscription.deleted'' then OnSubscriptionCanceled h
      else if t = ''customer.subscription.trial_will_end'' then OnSubscriptionTrialWillEnd h
      else if t = ''charge.refunded'' \<or> t = ''refund.created'' then OnRefundCreated h
      else if t = ''refund.failed'' \<or> t = ''charge.refund.updated'' then OnRefundFailed h
      else if t = ''customer_balance_funds_reinstated'' \<or> t = ''customer_balance_transaction.created''
        then OnCustomerBalanceFunded h
      else if t = ''charge.dispute.created'' then OnDisputeCreated h
      else if t = ''charge.dispute.updated'' then OnDisputeUpdated h
      else if t = ''charge.dispute.closed'' then OnDisputeClosed h
      else if t = ''charge.dispute.funds_withdrawn'' then OnDisputeFundsWithdrawn h
      else if t = ''charge.dispute.funds_reinstated'' then OnDisputeFundsReinstated h
      else OnOtherEvent h)"

subsection \<open>Configuration and construction\<close>

record CachedResponse =
  cr_StatusCode :: int

definition okResponse :: CachedResponse where
  "okResponse = \<lparr>cr_StatusCode = 200\<rparr>"

text \<open>The dedup store's operations: \<open>Get\<close> returns found and the cached response, \<open>TryLock\<close> the token,
  mismatch and ok; an error is \<open>Inl\<close>. \<open>Set\<close> and \<open>Unlock\<close> return an optional error.\<close>

record 's storeOps =
  so_Get :: "string \<Rightarrow> 's \<Rightarrow> (string + bool \<times> CachedResponse option) \<times> 's"
  so_TryLock :: "string \<Rightarrow> int \<Rightarrow> 's \<Rightarrow> (string + string \<times> bool \<times> bool) \<times> 's"
  so_Set :: "string \<Rightarrow> string \<Rightarrow> CachedResponse \<Rightarrow> int \<Rightarrow> 's \<Rightarrow> string option \<times> 's"
  so_Unlock :: "string \<Rightarrow> string \<Rightarrow> 's \<Rightarrow> string option \<times> 's"

record QueueItem =
  q_EventID :: string
  q_EventType :: string
  q_Namespace :: string
  q_Body :: string
  q_Token :: string

record 'w EventPolicy =
  ep_MaxAttempts :: int
  ep_OnExhausted :: "(LoggedEvent \<Rightarrow> 'w \<Rightarrow> string option \<times> 'w) option"

type_synonym 'q enqueue = "QueueItem \<Rightarrow> 'q \<Rightarrow> string option \<times> 'q"

record ('s, 'q, 'w) Config =
  cfg_SigningSecret :: string
  cfg_AdditionalSigningSecrets :: "string list"
  cfg_Store :: "'s storeOps option"
  cfg_Namespace :: string
  cfg_Handlers :: "'w Handlers"
  cfg_DedupTTL :: int
  cfg_SignatureTolerance :: int
  cfg_StrictAPIVersion :: bool
  cfg_Queue :: "'q enqueue option"
  cfg_PerEventPolicy :: "(string, 'w EventPolicy) gomap"
  cfg_SyncDispatchTimeout :: int
  cfg_MaxBodyBytes :: int
  cfg_AllowedSourceCIDRs :: "string list"
  cfg_RealIPHeader :: string

record ('s, 'q, 'w, 'c) Webhooks =
  wh_signingSecret :: string
  wh_additionalSecrets :: "string list"
  wh_store :: "'s storeOps"
  wh_namespace :: string
  wh_handlers :: "'w Handlers"
  wh_dedupTTL :: int
  wh_sigTolerance :: int
  wh_strictAPIVersion :: bool
  wh_perEventPolicy :: "(string, 'w EventPolicy) gomap"
  wh_queue :: "'q enqueue option"
  wh_allowedCIDRs :: "'c list"
  wh_realIPHeader :: string
  wh_maxBodyBytes :: int
  wh_syncDispatchTimeout :: int
  wh_customHandlers :: "(string, 'w handler) gomap"

text \<open>The library functions: the SDK's \<open>ConstructEventWithOptions\<close> (body, signature, secret, tolerance,
  ignore-version flag) and the decoding of a stored body, and \<open>ParseIP\<close>, \<open>Contains\<close>, \<open>ParseCIDR\<close> and the
  host part of \<open>SplitHostPort\<close>.\<close>

record ('ip, 'c) wlib =
  lib_ConstructEvent :: "string \<Rightarrow> string \<Rightarrow> string \<Rightarrow> int \<Rightarrow> bool \<Rightarrow> string + stripeEvent"
  lib_UnmarshalEvent :: "string \<Rightarrow> string + stripeEvent"
  lib_ParseIP :: "string \<Rightarrow> 'ip option"
  lib_Contains :: "'c \<Rightarrow> 'ip \<Rightarrow> bool"
  lib_ParseCIDR :: "string \<Rightarrow> 'c option"
  lib_SplitHost :: "string \<Rightarrow> string option"

definition secondNs :: int where
  "secondNs = 1000000000"

definition DefaultDedupTTL :: int where
  "DefaultDedupTTL = 7 * 24 * 3600 * secondNs"

definition DefaultSignatureTolerance :: int where
  "DefaultSignatureTolerance = 5 * 60 * secondNs"

definition DefaultSyncDispatchTimeout :: int where
  "DefaultSyncDispatchTimeout = 20 * secondNs"

definition DefaultMaxBodyBytes :: int where
  "DefaultMaxBodyBytes = 1048576"

fun parseCIDRs :: "(string \<Rightarrow> 'c option) \<Rightarrow> string list \<Rightarrow> string + 'c list" where
  "parseCIDRs parse [] = Inr []"
| "parseCIDRs parse (c # cs) =
     (case parse c of
        None \<Rightarrow> Inl c
      | Some n \<Rightarrow> (case parseCIDRs parse cs of Inl bad \<Rightarrow> Inl bad | Inr ns \<Rightarrow> Inr (n # ns)))"

datatype new_panic = PanicNoSecret | PanicNoStore | PanicBadCIDR string

definition webhooks_New ::
  "('ip, 'c) wlib \<Rightarrow> ('s, 'q, 'w) Config \<Rightarrow> new_panic + ('s, 'q, 'w, 'c) Webhooks" where
  "webhooks_New lib cfg =
     (if cfg_SigningSecret cfg = '''' then Inl PanicNoSecret
      else case cfg_Store cfg of
        None \<Rightarrow> Inl PanicNoStore
      | Some st \<Rightarrow>
          (case parseCIDRs (lib_ParseCIDR lib) (cfg_AllowedSourceCIDRs cfg) of
             Inl bad \<Rightarrow> Inl (PanicBadCIDR bad)
           | Inr nets \<Rightarrow> Inr
               \<lparr>wh_signingSecret = cfg_SigningSecret cfg,
                wh_additionalSecrets = cfg_AdditionalSigningSecrets cfg,
                wh_store = st,
                wh_namespace = cfg_Namespace cfg,
                wh_handlers = cfg_Handlers cfg,
                wh_dedupTTL = (if cfg_DedupTTL cfg = 0 then DefaultDedupTTL else cfg_DedupTTL cfg),
                wh_sigTolerance =
                  (if cfg_SignatureTolerance cfg = 0 then DefaultSignatureTolerance else cfg_SignatureTolerance cfg),
                wh_strictAPIVersion = cfg_StrictAPIVersion cfg,
                wh_perEventPolicy = cfg_PerEventPolicy cfg,
                wh_queue = cfg_Queue cfg,
                wh_allowedCIDRs = nets,
                wh_realIPHeader = cfg_RealIPHeader cfg,
                wh_maxBodyBytes =
                  (if cfg_MaxBodyBytes cfg = 0 then DefaultMaxBodyBytes
                   else if cfg_MaxBodyBytes cfg < 0 then 0 else cfg_MaxBodyBytes cfg),
                wh_syncDispatchTimeout =
                  (if cfg_SyncDispatchTimeout cfg = 0 then DefaultSyncDispatchTimeout
                   else if cfg_SyncDispatchTimeout cfg < 0 then 0 else cfg_SyncDispatchTimeout cfg),
                wh_customHandlers = []\<rparr>))"

definition Register ::
  "string \<Rightarrow> 'w handler option \<Rightarrow> ('s, 'q, 'w, 'c) Webhooks \<Rightarrow> ('s, 'q, 'w, 'c) Webhooks" where
  "Register eventType fn w =
     (if eventType = '''' then w
      else case fn of
        None \<Rightarrow> w\<lparr>wh_customHandlers := AList.delete eventType (wh_customHandlers w)\<rparr>
      | Some f \<Rightarrow> w\<lparr>wh_customHandlers := mset_key eventType f (wh_customHandlers w)\<rparr>)"

definition SetQueue ::
  "'q enqueue option \<Rightarrow> ('s, 'q, 'w, 'c) Webhooks \<Rightarrow> ('s, 'q, 'w, 'c) Webhooks" where
  "SetQueue q w = w\<lparr>wh_queue := q\<rparr>"

definition SetAllowedCIDRs ::
  "('ip, 'c) wlib \<Rightarrow> string list \<Rightarrow> ('s, 'q, 'w, 'c) Webhooks \<Rightarrow> string option \<times> ('s, 'q, 'w, 'c) Webhooks" where
  "SetAllowedCIDRs lib cidrs w =
     (case parseCIDRs (lib_ParseCIDR lib) cidrs of
        Inl bad \<Rightarrow> (Some bad, w)
      | Inr nets \<Rightarrow> (None, w\<lparr>wh_allowedCIDRs := nets\<rparr>))"

definition lookupCustomHandler :: "('s, 'q, 'w, 'c) Webhooks \<Rightarrow> string \<Rightarrow> 'w handler option" where
  "lookupCustomHandler w eventType = map_of (wh_customHandlers w) eventType"

definition dispatchEvent :: "('s, 'q, 'w, 'c) Webhooks \<Rightarrow> 'w handler" where
  "dispatchEvent w evt app =
     (case lookupCustomHandler w (ev_Type evt) of
        Some f \<Rightarrow> f evt app
      | None \<Rightarrow> runIfSet (typedHandler (wh_handlers w) (ev_Type evt)) evt app)"

subsection \<open>The log rate limiter\<close>

record logRateLimiter =
  rl_lastSec :: int
  rl_emittedThisSec :: int
  rl_suppressed :: int
  rl_burstPerSec :: int

definition recordAndShouldLog :: "int \<Rightarrow> logRateLimiter \<Rightarrow> int \<times> logRateLimiter" where
  "recordAndShouldLog now l =
     (let burst = (if rl_burstPerSec l \<le> 0 then 10 else rl_burstPerSec l);
          l1 = (if now \<noteq> rl_lastSec l then l\<lparr>rl_lastSec := now, rl_emittedThisSec := 0\<rparr> else l)
      in if rl_emittedThisSec l1 \<ge> burst then (-1, l1\<lparr>rl_suppressed := rl_suppressed l1 + 1\<rparr>)
         else (rl_suppressed l1, l1\<lparr>rl_emittedThisSec := rl_emittedThisSec l1 + 1, rl_suppressed := 0\<rparr>))"

subsection \<open>The world a delivery acts on\<close>

text \<open>The dedup store, the event log (\<open>None\<close> when not configured), the queue's and the app's state, the
  clock's readings with the number taken, and the limiter of signature-failure logs.\<close>

record ('s, 'q, 'w) world =
  wd_store :: 's
  wd_log :: "memoryLog option"
  wd_queue :: 'q
  wd_app :: 'w
  wd_clock :: "nat \<Rightarrow> time"
  wd_ticks :: nat
  wd_sigFail :: logRateLimiter

definition wdNow :: "('s, 'q, 'w) world \<Rightarrow> time \<times> ('s, 'q, 'w) world" where
  "wdNow d = (wd_clock d (wd_ticks d), d\<lparr>wd_ticks := Suc (wd_ticks d)\<rparr>)"

definition eventLogGet :: "string \<Rightarrow> ('s, 'q, 'w) world \<Rightarrow> LoggedEvent option" where
  "eventLogGet eventID d = (case wd_log d of None \<Rightarrow> None | Some m \<Rightarrow> memoryLog_Get eventID m)"

definition recordToLog :: "LoggedEvent \<Rightarrow> ('s, 'q, 'w) world \<Rightarrow> ('s, 'q, 'w) world" where
  "recordToLog e d =
     (case wd_log d of
        None \<Rightarrow> d
      | Some m \<Rightarrow> (let (now, d') = wdNow d in d'\<lparr>wd_log := Some (memoryLog_Record now e m)\<rparr>))"

definition storeSet :: "('s, 'q, 'w, 'c) Webhooks \<Rightarrow> string \<Rightarrow> string \<Rightarrow> ('s, 'q, 'w) world \<Rightarrow> ('s, 'q, 'w) world" where
  "storeSet w eventID token d =
     d\<lparr>wd_store := snd (so_Set (wh_store w) eventID token okResponse (wh_dedupTTL w) (wd_store d))\<rparr>"

definition storeUnlock :: "('s, 'q, 'w, 'c) Webhooks \<Rightarrow> string \<Rightarrow> string \<Rightarrow> ('s, 'q, 'w) world \<Rightarrow> ('s, 'q, 'w) world" where
  "storeUnlock w eventID token d =
     d\<lparr>wd_store := snd (so_Unlock (wh_store w) eventID token (wd_store d))\<rparr>"

definition markProcessed :: "('s, 'q, 'w, 'c) Webhooks \<Rightarrow> string \<Rightarrow> string \<Rightarrow> ('s, 'q, 'w) world \<Rightarrow> ('s, 'q, 'w) world" where
  "markProcessed = storeSet"

subsection \<open>Requests\<close>

text \<open>A request body is the bytes that can be read and whether reading then fails.\<close>

record Request =
  rq_Header :: "string \<Rightarrow> string"
  rq_RemoteAddr :: string
  rq_Body :: string
  rq_BodyFails :: bool

definition isSpaceChar :: "char \<Rightarrow> bool" where
  "isSpaceChar c \<longleftrightarrow> c = CHR '' '' \<or> (9 \<le> (of_char c :: nat) \<and> (of_char c :: nat) \<le> 13)"

definition TrimSpace :: "string \<Rightarrow> string" where
  "TrimSpace s = rev (dropWhile isSpaceChar (rev (dropWhile isSpaceChar s)))"

definition extractClientIP :: "('ip, 'c) wlib \<Rightarrow> ('s, 'q, 'w, 'c) Webhooks \<Rightarrow> Request \<Rightarrow> string" where
  "extractClientIP lib w r =
     (let h = rq_Header r (wh_realIPHeader w)
      in if wh_realIPHeader w \<noteq> '''' \<and> h \<noteq> ''''
         then TrimSpace (case cutAt CHR '','' h of None \<Rightarrow> h | Some (a, _) \<Rightarrow> a)
         else case lib_SplitHost lib (rq_RemoteAddr r) of None \<Rightarrow> rq_RemoteAddr r | Some host \<Rightarrow> host)"

definition ipInAllowlist :: "('ip, 'c) wlib \<Rightarrow> ('s, 'q, 'w, 'c) Webhooks \<Rightarrow> string \<Rightarrow> bool" where
  "ipInAllowlist lib w ipStr =
     (if wh_allowedCIDRs w = [] then True
      else case lib_ParseIP lib ipStr of
        None \<Rightarrow> False
      | Some ip \<Rightarrow> list_ex (\<lambda>n. lib_Contains lib n ip) (wh_allowedCIDRs w))"

definition allowlistConfigured :: "('s, 'q, 'w, 'c) Webhooks \<Rightarrow> bool" where
  "allowlistConfigured w \<longleftrightarrow> wh_allowedCIDRs w \<noteq> []"

definition readBody :: "('s, 'q, 'w, 'c) Webhooks \<Rightarrow> Request \<Rightarrow> int + string" where
  "readBody w r =
     (if wh_maxBodyBytes w > 0 \<and> int (length (rq_Body r)) > wh_maxBodyBytes w then Inl 413
      else if rq_BodyFails r then Inl 400
      else Inr (rq_Body r))"

fun tryAlternates :: "(string \<Rightarrow> string + stripeEvent) \<Rightarrow> string list \<Rightarrow> stripeEvent option" where
  "tryAlternates check [] = None"
| "tryAlternates check (alt # alts) =
     (if alt = '''' then tryAlternates check alts
      else case check alt of Inr e \<Rightarrow> Some e | Inl _ \<Rightarrow> tryAlternates check alts)"

definition verifySignature ::
  "('ip, 'c) wlib \<Rightarrow> ('s, 'q, 'w, 'c) Webhooks \<Rightarrow> string \<Rightarrow> string \<Rightarrow> string + stripeEvent" where
  "verifySignature lib w body signature =
     (let check = (\<lambda>secret. lib_ConstructEvent lib body signature secret (wh_sigTolerance w)
                              (\<not> wh_strictAPIVersion w))
      in case check (wh_signingSecret w) of
           Inr e \<Rightarrow> Inr e
         | Inl primaryErr \<Rightarrow>
             (case tryAlternates check (wh_additionalSecrets w) of
                Some e \<Rightarrow> Inr e
              | None \<Rightarrow> Inl primaryErr))"

definition writeReplay :: "CachedResponse option \<Rightarrow> int" where
  "writeReplay cached =
     (case cached of
        None \<Rightarrow> 200
      | Some c \<Rightarrow> if cr_StatusCode c = 0 then 200 else cr_StatusCode c)"

subsection \<open>Handle\<close>

definition mkLogged :: "Event \<Rightarrow> string \<Rightarrow> string \<Rightarrow> int \<Rightarrow> string \<Rightarrow> string \<Rightarrow> LoggedEvent" where
  "mkLogged evt status lastErr attempt payload ns =
     \<lparr>l_EventID = ev_ID evt, l_EventType = ev_Type evt, l_Status = status, l_LastError = lastErr,
      l_AttemptCount = attempt, l_ReceivedAt = zero_time, l_ProcessedAt = None, l_Payload = payload,
      l_Namespace = ns\<rparr>"

definition recordProcessed ::
  "Event \<Rightarrow> string \<Rightarrow> string \<Rightarrow> ('s, 'q, 'w) world \<Rightarrow> ('s, 'q, 'w) world" where
  "recordProcessed evt body ns d =
     (let (now, d') = wdNow d
      in recordToLog ((mkLogged evt ''processed'' '''' 0 body ns)\<lparr>l_ProcessedAt := Some now\<rparr>) d')"

text \<open>Synchronous dispatch of a claimed event: run the handler, then mark the event processed, give up
  under the event type's policy, or release the claim and ask for a retry.\<close>

definition handleSync ::
  "('s, 'q, 'w, 'c) Webhooks \<Rightarrow> Event \<Rightarrow> string \<Rightarrow> string \<Rightarrow> string \<Rightarrow> ('s, 'q, 'w) world \<Rightarrow> int \<times> ('s, 'q, 'w) world" where
  "handleSync w evt body ns token d =
     (let (dispatchErr, app) = dispatchEvent w evt (wd_app d);
          d1 = d\<lparr>wd_app := app\<rparr>
      in case dispatchErr of
           None \<Rightarrow> (200, recordProcessed evt body ns (storeSet w (ev_ID evt) token d1))
         | Some err \<Rightarrow>
             (let attempt = (case eventLogGet (ev_ID evt) d1 of None \<Rightarrow> 0 | Some p \<Rightarrow> l_AttemptCount p) + 1;
                  lg = mkLogged evt ''failed'' err attempt body ns;
                  release = (\<lambda>d. (500, recordToLog lg (storeUnlock w (ev_ID evt) token d)))
              in case map_of (wh_perEventPolicy w) (ev_Type evt) of
                   None \<Rightarrow> release d1
                 | Some policy \<Rightarrow>
                     if ep_MaxAttempts policy > 0 \<and> attempt \<ge> ep_MaxAttempts policy then
                       (let d2 = recordToLog lg d1;
                            (giveUpErr, app2) = (case ep_OnExhausted policy of
                                                   None \<Rightarrow> (None, wd_app d2)
                                                 | Some f \<Rightarrow> f lg (wd_app d2));
                            d3 = d2\<lparr>wd_app := app2\<rparr>
                        in if giveUpErr = None then (200, markProcessed w (ev_ID evt) token d3)
                           else release d3)
                     else release d1))"

text \<open>A claimed event: skip foreign namespaces, route unstamped events to the catch-all handler, hand over to
  the queue when there is one (falling back to synchronous dispatch when it refuses), else dispatch.\<close>

definition handleClaimed ::
  "('s, 'q, 'w, 'c) Webhooks \<Rightarrow> stripeEvent \<Rightarrow> string \<Rightarrow> string \<Rightarrow> ('s, 'q, 'w) world \<Rightarrow> int \<times> ('s, 'q, 'w) world" where
  "handleClaimed w sevt body token d =
     (let evt = fromStripeEvent sevt;
          ns = (case extractAppNamespace sevt of None \<Rightarrow> '''' | Some n \<Rightarrow> n)
      in case classifyNamespace (wh_namespace w) sevt of
           filterSkip \<Rightarrow>
             (200, recordToLog (mkLogged evt ''skipped'' '''' 0 body ns) (markProcessed w (ev_ID evt) token d))
         | filterUnrouted \<Rightarrow>
             (let (err, app) = runIfSet (OnOtherEvent (wh_handlers w)) evt (wd_app d);
                  d1 = d\<lparr>wd_app := app\<rparr>
              in case err of
                   Some e \<Rightarrow> (500, recordToLog (mkLogged evt ''failed'' e 1 body ns)
                                     (storeUnlock w (ev_ID evt) token d1))
                 | None \<Rightarrow> (200, recordProcessed evt body ns (markProcessed w (ev_ID evt) token d1)))
         | filterDispatch \<Rightarrow>
             (case wh_queue w of
                None \<Rightarrow> handleSync w evt body ns token d
              | Some enq \<Rightarrow>
                  (let d1 = recordToLog (mkLogged evt ''claimed'' '''' 0 body ns) d;
                       (enqErr, q) = enq \<lparr>q_EventID = ev_ID evt, q_EventType = ev_Type evt, q_Namespace = ns,
                                         q_Body = body, q_Token = token\<rparr> (wd_queue d1);
                       d2 = d1\<lparr>wd_queue := q\<rparr>
                   in if enqErr = None then (200, d2) else handleSync w evt body ns token d2)))"

text \<open>The dedup claim: an answer for a known or claimed event, or the token of a fresh claim.\<close>

definition claimEvent ::
  "('s, 'q, 'w, 'c) Webhooks \<Rightarrow> string \<Rightarrow> ('s, 'q, 'w) world \<Rightarrow> (int + string) \<times> ('s, 'q, 'w) world" where
  "claimEvent w eventID d =
     (case so_Get (wh_store w) eventID (wd_store d) of
        (Inl _, s) \<Rightarrow> (Inl 500, d\<lparr>wd_store := s\<rparr>)
      | (Inr (found, cached), s) \<Rightarrow>
          if found then (Inl (writeReplay cached), d\<lparr>wd_store := s\<rparr>)
          else (case so_TryLock (wh_store w) eventID (wh_dedupTTL w) s of
             (Inl _, s') \<Rightarrow> (Inl 500, d\<lparr>wd_store := s'\<rparr>)
           | (Inr (token, mismatch, ok), s') \<Rightarrow>
               (if mismatch then Inl 400 else if \<not> ok then Inl 200 else Inr token, d\<lparr>wd_store := s'\<rparr>)))"

definition webhooks_Handle ::
  "('ip, 'c) wlib \<Rightarrow> ('s, 'q, 'w, 'c) Webhooks \<Rightarrow> Request \<Rightarrow> ('s, 'q, 'w) world \<Rightarrow> int \<times> ('s, 'q, 'w) world" where
  "webhooks_Handle lib w r d =
     (if allowlistConfigured w \<and> \<not> ipInAllowlist lib w (extractClientIP lib w r) then (403, d)
      else case readBody w r of
        Inl status \<Rightarrow> (status, d)
      | Inr body \<Rightarrow>
          (case verifySignature lib w body (rq_Header r ''Stripe-Signature'') of
             Inl _ \<Rightarrow>
               (let (now, d') = wdNow d
                in (400, d'\<lparr>wd_sigFail := snd (recordAndShouldLog (now div 1000000000) (wd_sigFail d'))\<rparr>))
           | Inr sevt \<Rightarrow>
               (case claimEvent w (se_ID sevt) d of
                  (Inl status, d') \<Rightarrow> (status, d')
                | (Inr token, d') \<Rightarrow> handleClaimed w sevt body token d')))"

subsection \<open>Queued events\<close>

datatype queued_error = PermanentFailure string | HandlerFailure string

definition itemLogged :: "QueueItem \<Rightarrow> string \<Rightarrow> string \<Rightarrow> int \<Rightarrow> LoggedEvent" where
  "itemLogged item status lastErr attempt =
     \<lparr>l_EventID = q_EventID item, l_EventType = q_EventType item, l_Status = status, l_LastError = lastErr,
      l_AttemptCount = attempt, l_ReceivedAt = zero_time, l_ProcessedAt = None, l_Payload = q_Body item,
      l_Namespace = q_Namespace item\<rparr>"

definition markQueuedProcessed ::
  "('s, 'q, 'w, 'c) Webhooks \<Rightarrow> QueueItem \<Rightarrow> string \<Rightarrow> string \<Rightarrow> int \<Rightarrow> ('s, 'q, 'w) world \<Rightarrow> ('s, 'q, 'w) world" where
  "markQueuedProcessed w item status lastErr attempt d =
     (let d1 = storeSet w (q_EventID item) (q_Token item) d;
          (now, d2) = wdNow d1;
          lg = itemLogged item status lastErr attempt
      in recordToLog (if status = ''processed'' then lg\<lparr>l_ProcessedAt := Some now\<rparr> else lg) d2)"

definition handleQueuedFailure ::
  "('s, 'q, 'w, 'c) Webhooks \<Rightarrow> QueueItem \<Rightarrow> string \<Rightarrow> ('s, 'q, 'w) world \<Rightarrow> queued_error option \<times> ('s, 'q, 'w) world" where
  "handleQueuedFailure w item dispatchErr d =
     (let attempt = (case eventLogGet (q_EventID item) d of None \<Rightarrow> 0 | Some p \<Rightarrow> l_AttemptCount p) + 1;
          lg = itemLogged item ''failed'' dispatchErr attempt;
          release = (\<lambda>d. (Some (HandlerFailure dispatchErr),
                          recordToLog lg (storeUnlock w (q_EventID item) (q_Token item) d)))
      in case map_of (wh_perEventPolicy w) (q_EventType item) of
           None \<Rightarrow> release d
         | Some policy \<Rightarrow>
             if ep_MaxAttempts policy > 0 \<and> attempt \<ge> ep_MaxAttempts policy then
               (let (giveUpErr, app) = (case ep_OnExhausted policy of
                                          None \<Rightarrow> (None, wd_app d)
                                        | Some f \<Rightarrow> f lg (wd_app d));
                    d1 = d\<lparr>wd_app := app\<rparr>
                in if giveUpErr = None then (None, markQueuedProcessed w item ''failed'' dispatchErr attempt d1)
                   else release d1)
             else release d)"

definition ProcessQueued ::
  "('ip, 'c) wlib \<Rightarrow> ('s, 'q, 'w, 'c) Webhooks \<Rightarrow> QueueItem \<Rightarrow> ('s, 'q, 'w) world
    \<Rightarrow> queued_error option \<times> ('s, 'q, 'w) world" where
  "ProcessQueued lib w item d =
     (case lib_UnmarshalEvent lib (q_Body item) of
        Inl err \<Rightarrow> (Some (PermanentFailure err), markQueuedProcessed w item ''failed'' err 1 d)
      | Inr sevt \<Rightarrow>
          (let (err, app) = dispatchEvent w (fromStripeEvent sevt) (wd_app d);
               d1 = d\<lparr>wd_app := app\<rparr>
           in case err of
                Some e \<Rightarrow> handleQueuedFailure w item e d1
              | None \<Rightarrow> (None, markQueuedProcessed w item ''processed'' '''' 1 d1)))"

subsection \<open>Operational helpers\<close>

datatype replay_error = ErrEventLogNotConfigured | ErrEventNotInLog | ErrNoPayload | ErrReplayParse string | ErrReplayHandler string

definition StuckEvents :: "int \<Rightarrow> ('s, 'q, 'w) world \<Rightarrow> LoggedEvent list" where
  "StuckEvents minAttempts d = (case wd_log d of None \<Rightarrow> [] | Some m \<Rightarrow> memoryLog_StuckEvents minAttempts m)"

definition RetrieveEvent :: "string \<Rightarrow> ('s, 'q, 'w) world \<Rightarrow> LoggedEvent option" where
  "RetrieveEvent eventID d = (case wd_log d of None \<Rightarrow> None | Some m \<Rightarrow> memoryLog_Get eventID m)"

definition PruneOldEvents :: "time \<Rightarrow> ('s, 'q, 'w) world \<Rightarrow> nat \<times> ('s, 'q, 'w) world" where
  "PruneOldEvents before d =
     (case wd_log d of
        None \<Rightarrow> (0, d)
      | Some m \<Rightarrow> (let (n, m') = memoryLog_PruneOlderThan before m in (n, d\<lparr>wd_log := Some m'\<rparr>)))"

definition ReplayEvent ::
  "('ip, 'c) wlib \<Rightarrow> ('s, 'q, 'w, 'c) Webhooks \<Rightarrow> string \<Rightarrow> ('s, 'q, 'w) world \<Rightarrow> replay_error option \<times> ('s, 'q, 'w) world" where
  "ReplayEvent lib w eventID d =
     (case wd_log d of
        None \<Rightarrow> (Some ErrEventLogNotConfigured, d)
      | Some m \<Rightarrow>
          (case memoryLog_Get eventID m of
             None \<Rightarrow> (Some ErrEventNotInLog, d)
           | Some logged \<Rightarrow>
               if l_Payload logged = '''' then (Some ErrNoPayload, d)
               else (case lib_UnmarshalEvent lib (l_Payload logged) of
                  Inl e \<Rightarrow> (Some (ErrReplayParse e), d)
                | Inr sevt \<Rightarrow>
                    (let (err, app) = dispatchEvent w (fromStripeEvent sevt) (wd_app d)
                     in (map_option ErrReplayHandler err, d\<lparr>wd_app := app\<rparr>)))))"

end
