(* ===== verification/Webhook_Queue.thy ===== *)
theory Webhook_Queue
  imports Webhooks
begin

text \<open>
  The two async-dispatch queues: the channel-backed \<open>MemoryQueue\<close> of \<open>webhooks/async.go\<close> and the table-backed
  \<open>WebhookQueue\<close> of \<open>repos/postgres/webhook_queue.go\<close>.

  The channel is a list, its goroutines are steps; blocking is a step that is not enabled. The table is its list
  of rows; each SQL statement or transaction of the source is one function on it, and \<open>now()\<close> is an argument.
  Database errors are not modelled, nor are poll intervals and the shutdown of the worker pool.
\<close>

subsection \<open>MemoryQueue\<close>

record MemoryQueue =
  mq_ch :: "QueueItem list"
  mq_cap :: nat
  mq_closed :: bool
  mq_errors :: int

definition NewMemoryQueue :: "int \<Rightarrow> MemoryQueue" where
  "NewMemoryQueue capacity =
     \<lparr>mq_ch = [], mq_cap = (if capacity \<le> 0 then 256 else nat capacity), mq_closed = False, mq_errors = 0\<rparr>"

definition mq_Depth :: "MemoryQueue \<Rightarrow> nat" where
  "mq_Depth q = length (mq_ch q)"

definition mq_Capacity :: "MemoryQueue \<Rightarrow> nat" where
  "mq_Capacity q = mq_cap q"

text \<open>\<open>None\<close> while the send blocks. \<open>cancelled\<close> says whether the caller's context is done; when the channel has
  room as well, the \<open>select\<close> may take either case, and \<open>pick\<close> says that it takes the cancellation.\<close>

definition mq_Enqueue :: "bool \<Rightarrow> bool \<Rightarrow> QueueItem \<Rightarrow> MemoryQueue \<Rightarrow> (string option \<times> MemoryQueue) option" where
  "mq_Enqueue cancelled pick item q =
     (if mq_closed q then Some (Some ''webhooks.MemoryQueue: closed'', q)
      else if length (mq_ch q) < mq_cap q \<and> \<not> (cancelled \<and> pick) then Some (None, q\<lparr>mq_ch := mq_ch q @ [item]\<rparr>)
      else if cancelled then Some (Some ''context canceled'', q)
      else None)"

text \<open>One turn of a worker: receive and dispatch; an error is counted and logged, the item is gone.\<close>

definition mq_worker ::
  "(QueueItem \<Rightarrow> 'd \<Rightarrow> queued_error option \<times> 'd) \<Rightarrow> MemoryQueue \<times> 'd \<Rightarrow> (MemoryQueue \<times> 'd) option" where
  "mq_worker dispatch st =
     (case st of (q, d) \<Rightarrow>
        (case mq_ch q of
           [] \<Rightarrow> None
         | item # rest \<Rightarrow>
             (let (err, d') = dispatch item d;
                  q' = q\<lparr>mq_ch := rest\<rparr>
              in Some (if err = None then q' else q'\<lparr>mq_errors := mq_errors q' + 1\<rparr>, d'))))"

definition mq_Shutdown :: "MemoryQueue \<Rightarrow> MemoryQueue" where
  "mq_Shutdown q = q\<lparr>mq_closed := True\<rparr>"

subsection \<open>The table-backed queue\<close>

datatype row_state = Queued | Processing

record qrow =
  qr_item :: QueueItem
  qr_state :: row_state
  qr_attempts :: int
  qr_enqueued_at :: time
  qr_locked_at :: "time option"
  qr_locked_by :: string

type_synonym qtable = "qrow list"

abbreviation qr_id :: "qrow \<Rightarrow> string" where
  "qr_id row \<equiv> q_EventID (qr_item row)"

definition wq_Enqueue :: "time \<Rightarrow> QueueItem \<Rightarrow> qtable \<Rightarrow> qtable" where
  "wq_Enqueue now item t =
     (if q_EventID item \<in> set (map qr_id t) then t
      else t @ [\<lparr>qr_item = item, qr_state = Queued, qr_attempts = 0, qr_enqueued_at = now,
                 qr_locked_at = None, qr_locked_by = ''''\<rparr>])"

text \<open>\<open>ORDER BY enqueued_at LIMIT 1\<close> among the queued rows; ties are broken by position.\<close>

fun oldest :: "qrow list \<Rightarrow> qrow option" where
  "oldest [] = None"
| "oldest (r # rs) =
     (case oldest rs of
        None \<Rightarrow> Some r
      | Some s \<Rightarrow> if qr_enqueued_at s < qr_enqueued_at r then Some s else Some r)"

definition update_row :: "string \<Rightarrow> (qrow \<Rightarrow> qrow) \<Rightarrow> qtable \<Rightarrow> qtable" where
  "update_row eid f t = map (\<lambda>row. if qr_id row = eid then f row else row) t"

definition wq_dequeue :: "time \<Rightarrow> string \<Rightarrow> qtable \<Rightarrow> QueueItem option \<times> qtable" where
  "wq_dequeue now hostID t =
     (case oldest (filter (\<lambda>row. qr_state row = Queued) t) of
        None \<Rightarrow> (None, t)
      | Some row \<Rightarrow>
          (Some (qr_item row),
           update_row (qr_id row)
             (\<lambda>r. r\<lparr>qr_state := Processing, qr_locked_at := Some now, qr_locked_by := hostID,
                    qr_attempts := qr_attempts r + 1\<rparr>) t))"

definition wq_complete :: "string \<Rightarrow> qtable \<Rightarrow> qtable" where
  "wq_complete eid t = filter (\<lambda>row. qr_id row \<noteq> eid) t"

definition release_row :: "qrow \<Rightarrow> qrow" where
  "release_row r = r\<lparr>qr_state := Queued, qr_locked_at := None, qr_locked_by := ''''\<rparr>"

definition wq_releaseFailed :: "string \<Rightarrow> qtable \<Rightarrow> qtable" where
  "wq_releaseFailed eid t = update_row eid release_row t"

definition wq_sweep :: "time \<Rightarrow> int \<Rightarrow> qtable \<Rightarrow> qtable" where
  "wq_sweep now stuckAfter t =
     map (\<lambda>row. if qr_state row = Processing \<and>
                    (case qr_locked_at row of None \<Rightarrow> False | Some l \<Rightarrow> l < now - stuckAfter)
                 then release_row row else row) t"

text \<open>What a worker does with the outcome of a dispatch.\<close>

definition wq_finish :: "queued_error option \<Rightarrow> string \<Rightarrow> qtable \<Rightarrow> qtable" where
  "wq_finish err eid t =
     (case err of
        None \<Rightarrow> wq_complete eid t
      | Some (PermanentFailure _) \<Rightarrow> wq_complete eid t
      | Some (HandlerFailure _) \<Rightarrow> wq_releaseFailed eid t)"

subsection \<open>Workers and the table\<close>

text \<open>
  Workers in any number of processes share the table. \<open>ws_inflight\<close> holds the items dequeued and not yet
  finished. \<open>ws_history\<close> is what happened, latest first: an accepted \<open>Enqueue\<close>, and a dispatch that succeeded or
  failed permanently; no code reads it. A crashed worker just never finishes; the sweeper may release its row.
\<close>

datatype wq_event = Accepted string | Dispatched string

record wq_state =
  ws_table :: qtable
  ws_inflight :: "QueueItem list"
  ws_history :: "wq_event list"

inductive wq_step :: "wq_state \<Rightarrow> wq_state \<Rightarrow> bool" where
  enqueue: "wq_step s (s\<lparr>ws_table := wq_Enqueue now item (ws_table s), ws_history := Accepted (q_EventID item) # ws_history s\<rparr>)"
| dequeue: "wq_dequeue now host (ws_table s) = (Some item, t) \<Longrightarrow>
    wq_step s (s\<lparr>ws_table := t, ws_inflight := item # ws_inflight s\<rparr>)"
| finish: "item \<in> set (ws_inflight s) \<Longrightarrow>
    wq_step s (s\<lparr>ws_table := wq_finish err (q_EventID item) (ws_table s), ws_inflight := remove1 item (ws_inflight s),
      ws_history := (case err of Some (HandlerFailure _) \<Rightarrow> ws_history s
                      | _ \<Rightarrow> Dispatched (q_EventID item) # ws_history s)\<rparr>)"
| crash: "wq_step s (s\<lparr>ws_inflight := remove1 item (ws_inflight s)\<rparr>)"
| sweep: "wq_step s (s\<lparr>ws_table := wq_sweep now stuckAfter (ws_table s)\<rparr>)"

definition wq_initial :: wq_state where
  "wq_initial = \<lparr>ws_table = [], ws_inflight = [], ws_history = []\<rparr>"

end
