(* ===== verification/Webhooks_Proofs.thy ===== *)
theory Webhooks_Proofs
  imports Webhooks
begin

text \<open>
  The webhook pipeline is exactly-once up to the dedup store's contract \<open>lawful_store\<close>: acknowledged means
  settled, settled events are never handled again, concurrent deliveries exclude each other, failures
  release the claim and are bounded by the event type's policy, unsigned and foreign events have no effect on
  the app. The queue path settles its items as well, except after a retry, where the released claim is not
  taken again.
\<close>


subsection \<open>What the dedup store promises\<close>

text \<open>
  A key of the store is free, held by the owner of a token, or done with a response. The operations follow
  the owner-token contract the store documents: \<open>TryLock\<close> claims a free key only, \<open>Set\<close> and \<open>Unlock\<close>
  act for the holder only. The contract speaks of a period in which no claim or record expires (the dedup
  TTL) and the backing store answers.
\<close>

datatype slot = Free | Held string | Done CachedResponse

definition lawful_Get :: "'s storeOps \<Rightarrow> ('s \<Rightarrow> string \<Rightarrow> slot) \<Rightarrow> bool" where
  "lawful_Get ops view \<longleftrightarrow> (\<forall>k s. \<exists>s'. view s' = view s \<and>
     so_Get ops k s = (Inr (case view s k of Done c \<Rightarrow> (True, Some c) | _ \<Rightarrow> (False, None)), s'))"

definition lawful_TryLock :: "'s storeOps \<Rightarrow> ('s \<Rightarrow> string \<Rightarrow> slot) \<Rightarrow> bool" where
  "lawful_TryLock ops view \<longleftrightarrow> (\<forall>k ttl s. \<exists>tok s'.
     if view s k = Free then so_TryLock ops k ttl s = (Inr (tok, False, True), s') \<and> view s' = (view s)(k := Held tok)
     else so_TryLock ops k ttl s = (Inr (tok, False, False), s') \<and> view s' = view s)"

definition lawful_release :: "'s storeOps \<Rightarrow> ('s \<Rightarrow> string \<Rightarrow> slot) \<Rightarrow> bool" where
  "lawful_release ops view \<longleftrightarrow>
     (\<forall>k tok c ttl s. view (snd (so_Set ops k tok c ttl s)) = (if view s k = Held tok then (view s)(k := Done c) else view s)) \<and>
     (\<forall>k tok s. view (snd (so_Unlock ops k tok s)) = (if view s k = Held tok then (view s)(k := Free) else view s))"

definition lawful_store :: "'s storeOps \<Rightarrow> ('s \<Rightarrow> string \<Rightarrow> slot) \<Rightarrow> bool" where
  "lawful_store ops view \<longleftrightarrow> lawful_Get ops view \<and> lawful_TryLock ops view \<and> lawful_release ops view"

abbreviation slots :: "('s \<Rightarrow> string \<Rightarrow> slot) \<Rightarrow> ('s, 'q, 'w) world \<Rightarrow> string \<Rightarrow> slot" where
  "slots view d \<equiv> view (wd_store d)"

subsection \<open>Frame facts\<close>

lemma wdNow_fields [simp]:
  "wd_store (snd (wdNow d)) = wd_store d" "wd_app (snd (wdNow d)) = wd_app d"
  "wd_queue (snd (wdNow d)) = wd_queue d" "wd_log (snd (wdNow d)) = wd_log d"
  by (simp_all add: wdNow_def)

lemma recordToLog_fields [simp]:
  "wd_store (recordToLog e d) = wd_store d" "wd_app (recordToLog e d) = wd_app d"
  "wd_queue (recordToLog e d) = wd_queue d"
  by (simp_all add: recordToLog_def wdNow_def split: option.split)

lemma recordProcessed_fields [simp]:
  "wd_store (recordProcessed evt body ns d) = wd_store d" "wd_app (recordProcessed evt body ns d) = wd_app d"
  "wd_queue (recordProcessed evt body ns d) = wd_queue d"
  by (simp_all add: recordProcessed_def case_prod_beta)

lemma store_fields [simp]:
  "wd_app (storeSet w k t d) = wd_app d" "wd_queue (storeSet w k t d) = wd_queue d" "wd_log (storeSet w k t d) = wd_log d"
  "wd_app (storeUnlock w k t d) = wd_app d" "wd_queue (storeUnlock w k t d) = wd_queue d"
  "wd_log (storeUnlock w k t d) = wd_log d"
  by (simp_all add: storeSet_def storeUnlock_def)

lemma slots_release:
  assumes "lawful_store (wh_store w) view"
  shows "slots view (storeSet w k t d) =
      (if slots view d k = Held t then (slots view d)(k := Done okResponse) else slots view d)"
    and "slots view (storeUnlock w k t d) =
      (if slots view d k = Held t then (slots view d)(k := Free) else slots view d)"
  using assms by (simp_all add: lawful_store_def lawful_release_def storeSet_def storeUnlock_def)

lemma fromStripeEvent_simps [simp]:
  "ev_ID (fromStripeEvent e) = se_ID e" "ev_Type (fromStripeEvent e) = se_Type e"
  by (simp_all add: fromStripeEvent_def)

text \<open>The three outcomes of a claim.\<close>

lemma claim_cases:
  assumes "lawful_store (wh_store w) view"
  obtains (free) tok s where "slots view d k = Free" "claimEvent w k d = (Inr tok, d\<lparr>wd_store := s\<rparr>)"
      "view s = (slots view d)(k := Held tok)"
  | (held) tok s where "slots view d k = Held tok" "claimEvent w k d = (Inl 200, d\<lparr>wd_store := s\<rparr>)"
      "view s = slots view d"
  | (processed) c s where "slots view d k = Done c" "claimEvent w k d = (Inl (writeReplay (Some c)), d\<lparr>wd_store := s\<rparr>)"
      "view s = slots view d"
proof -
  from assms obtain s1 where g: "view s1 = slots view d"
    "so_Get (wh_store w) k (wd_store d) = (Inr (case slots view d k of Done c \<Rightarrow> (True, Some c) | _ \<Rightarrow> (False, None)), s1)"
    unfolding lawful_store_def lawful_Get_def by metis
  from assms have tl: "lawful_TryLock (wh_store w) view" by (simp add: lawful_store_def)
  show thesis
  proof (cases "slots view d k")
    case Free
    with tl g(1) obtain tok s where "so_TryLock (wh_store w) k (wh_dedupTTL w) s1 = (Inr (tok, False, True), s)"
      "view s = (slots view d)(k := Held tok)"
      unfolding lawful_TryLock_def by metis
    with Free g free show thesis by (simp add: claimEvent_def)
  next
    case (Held t)
    with tl g(1) obtain tok s where "so_TryLock (wh_store w) k (wh_dedupTTL w) s1 = (Inr (tok, False, False), s)"
      "view s = slots view d"
      unfolding lawful_TryLock_def by (metis slot.distinct(1))
    with Held g held show thesis by (simp add: claimEvent_def)
  next
    case (Done c)
    with g processed show thesis by (simp add: claimEvent_def)
  qed
qed

subsection \<open>Outcomes of a claimed event\<close>

text \<open>A claimed event is settled: the answer 200 leaves the event done, the answer 500 leaves it free for the
  next delivery; no other key is touched.\<close>

definition settled :: "('s \<Rightarrow> string \<Rightarrow> slot) \<Rightarrow> string \<Rightarrow> ('s, 'q, 'w) world \<Rightarrow> int \<times> ('s, 'q, 'w) world \<Rightarrow> bool" where
  "settled view k d res \<longleftrightarrow>
     (fst res = 200 \<and> slots view (snd res) = (slots view d)(k := Done okResponse)) \<or>
     (fst res = 500 \<and> slots view (snd res) = (slots view d)(k := Free))"

lemma handleSync_settled:
  assumes "lawful_store (wh_store w) view" and "slots view d (ev_ID evt) = Held token"
  shows "settled view (ev_ID evt) d (handleSync w evt body ns token d)"
  using assms
  by (auto simp: handleSync_def settled_def Let_def slots_release markProcessed_def split: prod.split option.split)

lemma handleClaimed_settled:
  assumes "lawful_store (wh_store w) view" and "slots view d (se_ID sevt) = Held token" and "wh_queue w = None"
  shows "settled view (se_ID sevt) d (handleClaimed w sevt body token d)"
  using assms handleSync_settled [OF assms(1), of d "fromStripeEvent sevt" token body]
  by (auto simp: handleClaimed_def settled_def Let_def slots_release markProcessed_def
      split: prod.split option.split filterDecision.split)


text \<open>With a queue the claim may also stay with the item; either way only the event's own key changes.\<close>

lemma handleSync_frame:
  assumes "lawful_store (wh_store w) view" and "slots view d (ev_ID evt) = Held token" and "k \<noteq> ev_ID evt"
  shows "slots view (snd (handleSync w evt body ns token d)) k = slots view d k"
  using handleSync_settled [OF assms(1,2), of body ns] assms(3) by (auto simp: settled_def)

lemma handleClaimed_frame:
  assumes "lawful_store (wh_store w) view" and "slots view d (se_ID sevt) = Held token" and "k \<noteq> se_ID sevt"
  shows "slots view (snd (handleClaimed w sevt body token d)) k = slots view d k"
proof (cases "wh_queue w")
  case None
  with handleClaimed_settled [OF assms(1,2), of body] assms(3) show ?thesis by (auto simp: settled_def)
next
  case (Some enq)
  have sync: "slots view (snd (handleSync w (fromStripeEvent sevt) body ns token d')) k = slots view d k"
    if "wd_store d' = wd_store d" for ns and d' :: "('a, 'b, 'c) world"
    using handleSync_frame [OF assms(1), of d' "fromStripeEvent sevt" token k body ns] that assms(2,3) by simp
  show ?thesis
    using assms Some sync
    by (auto simp: handleClaimed_def Let_def slots_release markProcessed_def
        split: prod.split option.split filterDecision.split)
qed

subsection \<open>Requests that reach the claim\<close>

definition accepted :: "('ip, 'c) wlib \<Rightarrow> ('s, 'q, 'w, 'c) Webhooks \<Rightarrow> Request \<Rightarrow> stripeEvent \<Rightarrow> string \<Rightarrow> bool" where
  "accepted lib w r sevt body \<longleftrightarrow>
     (wh_allowedCIDRs w = [] \<or> ipInAllowlist lib w (extractClientIP lib w r)) \<and>
     readBody w r = Inr body \<and> verifySignature lib w body (rq_Header r ''Stripe-Signature'') = Inr sevt"

lemma Handle_accepted:
  "accepted lib w r sevt body \<Longrightarrow> webhooks_Handle lib w r d =
    (case claimEvent w (se_ID sevt) d of (Inl st, d') \<Rightarrow> (st, d') | (Inr tok, d') \<Rightarrow> handleClaimed w sevt body tok d')"
  by (auto simp: accepted_def webhooks_Handle_def allowlistConfigured_def)

lemma Handle_rejected:
  assumes "\<nexists>sevt body. accepted lib w r sevt body"
  shows "fst (webhooks_Handle lib w r d) \<in> {400, 403, 413} \<and>
    wd_store (snd (webhooks_Handle lib w r d)) = wd_store d \<and> wd_app (snd (webhooks_Handle lib w r d)) = wd_app d \<and>
    wd_log (snd (webhooks_Handle lib w r d)) = wd_log d \<and> wd_queue (snd (webhooks_Handle lib w r d)) = wd_queue d"
  using assms
  by (auto simp: accepted_def webhooks_Handle_def allowlistConfigured_def readBody_def wdNow_def Let_def
      split: sum.split)

text \<open>A processed event stays processed, whatever is delivered.\<close>

lemma Handle_keeps_done:
  assumes L: "lawful_store (wh_store w) view" and "slots view d k = Done c"
  shows "slots view (snd (webhooks_Handle lib w r d)) k = Done c"
proof (cases "\<exists>sevt body. accepted lib w r sevt body")
  case False
  with Handle_rejected [of lib w r d] assms(2) show ?thesis by simp
next
  case True
  then obtain sevt body where acc: "accepted lib w r sevt body" by blast
  from L show ?thesis
  proof (cases rule: claim_cases [where d = d and k = "se_ID sevt"])
    case (free tok s)
    then have "k \<noteq> se_ID sevt" using assms(2) by auto
    with free assms(2) show ?thesis
      using handleClaimed_frame [OF L, of "d\<lparr>wd_store := s\<rparr>" sevt tok k body] by (simp add: Handle_accepted [OF acc])
  qed (simp_all add: Handle_accepted [OF acc] assms(2))
qed

lemma Handle_duplicate:
  assumes "lawful_store (wh_store w) view" and "accepted lib w r sevt body" and "slots view d (se_ID sevt) = Done c"
  shows "\<exists>s. webhooks_Handle lib w r d = (writeReplay (Some c), d\<lparr>wd_store := s\<rparr>) \<and> view s = slots view d"
  using assms(1)
proof (cases rule: claim_cases [where d = d and k = "se_ID sevt"])
  case (processed c' s)
  with assms(3) show ?thesis by (auto simp: Handle_accepted [OF assms(2)])
qed (use assms(3) in auto)

fun deliverAll :: "('ip, 'c) wlib \<Rightarrow> ('s, 'q, 'w, 'c) Webhooks \<Rightarrow> Request list \<Rightarrow> ('s, 'q, 'w) world \<Rightarrow> ('s, 'q, 'w) world" where
  "deliverAll lib w [] d = d"
| "deliverAll lib w (r # rs) d = deliverAll lib w rs (snd (webhooks_Handle lib w r d))"

lemma deliverAll_keeps_done:
  "lawful_store (wh_store w) view \<Longrightarrow> slots view d k = Done c \<Longrightarrow> slots view (deliverAll lib w rs d) k = Done c"
  by (induction rs arbitrary: d) (auto intro: Handle_keeps_done)

lemma Handle_fresh_settled:
  assumes "lawful_store (wh_store w) view" and "wh_queue w = None"
    and "accepted lib w r sevt body" and "slots view d (se_ID sevt) = Free"
  shows "settled view (se_ID sevt) d (webhooks_Handle lib w r d)"
  using assms(1)
proof (cases rule: claim_cases [where d = d and k = "se_ID sevt"])
  case (free tok s)
  then have "settled view (se_ID sevt) (d\<lparr>wd_store := s\<rparr>) (handleClaimed w sevt body tok (d\<lparr>wd_store := s\<rparr>))"
    using assms by (intro handleClaimed_settled) simp_all
  with free show ?thesis by (auto simp: settled_def Handle_accepted [OF assms(3)])
qed (use assms(4) in auto)

section \<open>Guarantees\<close>

text \<open>C13: An acknowledged event is handled once. With synchronous dispatch, a delivery of an unclaimed event is
  answered 200 exactly when the event is then recorded as processed, and otherwise 500 with the claim
  released, so that the next delivery is handled again. Once a delivery was answered 200, then after any
  further deliveries of any events, every delivery of that event is answered 200 without running a handler,
  writing the log or touching the queue.\<close>

theorem acknowledged_once:
  assumes "lawful_store (wh_store w) view" and "wh_queue w = None"
    and "accepted lib w r sevt body" and "slots view d (se_ID sevt) = Free"
    and "webhooks_Handle lib w r d = (status, d1)"
    and "accepted lib w r' sevt' body'" and "se_ID sevt' = se_ID sevt"
    and "d2 = deliverAll lib w rs d1" and "webhooks_Handle lib w r' d2 = (status', d3)"
  shows "(status = 500 \<and> slots view d1 = slots view d) \<or>
    (status = 200 \<and> slots view d1 (se_ID sevt) = Done okResponse \<and>
     status' = 200 \<and> wd_app d3 = wd_app d2 \<and> wd_log d3 = wd_log d2 \<and> wd_queue d3 = wd_queue d2)"
proof -
  have "settled view (se_ID sevt) d (status, d1)"
    using Handle_fresh_settled [OF assms(1-4)] assms(5) by simp
  then consider "status = 500" "slots view d1 = slots view d"
    | "status = 200" "slots view d1 (se_ID sevt) = Done okResponse"
    using assms(4) by (auto simp: settled_def fun_upd_idem)
  then show ?thesis
  proof cases
    case 2
    then have "slots view d2 (se_ID sevt') = Done okResponse"
      using deliverAll_keeps_done [OF assms(1)] assms(7,8) by metis
    then have "status' = 200 \<and> wd_app d3 = wd_app d2 \<and> wd_log d3 = wd_log d2 \<and> wd_queue d3 = wd_queue d2"
      using Handle_duplicate [OF assms(1,6)] assms(9) by (fastforce simp: writeReplay_def okResponse_def)
    with 2 show ?thesis by simp
  qed simp
qed

text \<open>Unsigned requests have no effect. A request is handled only if its source address is allowed, its body
  is within the limit, and one of the configured, non-empty secrets accepts the signature over exactly that
  body; every other request is answered 400, 403 or 413 and leaves the store, the log, the queue and the app
  untouched.\<close>

lemma only_signed_requests:
  assumes "wh_signingSecret w \<noteq> ''''"
    and "\<forall>secret \<in> set (wh_signingSecret w # wh_additionalSecrets w). secret \<noteq> '''' \<longrightarrow>
      (\<forall>e. lib_ConstructEvent lib (rq_Body r) (rq_Header r ''Stripe-Signature'') secret (wh_sigTolerance w)
            (\<not> wh_strictAPIVersion w) \<noteq> Inr e)"
  shows "fst (webhooks_Handle lib w r d) \<in> {400, 403, 413} \<and>
    wd_store (snd (webhooks_Handle lib w r d)) = wd_store d \<and> wd_app (snd (webhooks_Handle lib w r d)) = wd_app d \<and>
    wd_log (snd (webhooks_Handle lib w r d)) = wd_log d \<and> wd_queue (snd (webhooks_Handle lib w r d)) = wd_queue d"
proof (rule Handle_rejected)
  have alt: "tryAlternates check alts = Some e \<Longrightarrow> \<exists>s \<in> set alts. s \<noteq> '''' \<and> check s = Inr e"
    for check :: "string \<Rightarrow> string + stripeEvent" and alts e
    by (induction alts) (auto split: if_splits sum.splits)
  show "\<nexists>sevt body. accepted lib w r sevt body"
  proof
    assume "\<exists>sevt body. accepted lib w r sevt body"
    then obtain sevt where "verifySignature lib w (rq_Body r) (rq_Header r ''Stripe-Signature'') = Inr sevt"
      by (auto simp: accepted_def readBody_def split: if_splits)
    then have "\<exists>s \<in> set (wh_signingSecret w # wh_additionalSecrets w). s \<noteq> '''' \<and>
      lib_ConstructEvent lib (rq_Body r) (rq_Header r ''Stripe-Signature'') s (wh_sigTolerance w)
        (\<not> wh_strictAPIVersion w) = Inr sevt"
      using assms(1) by (auto simp: verifySignature_def Let_def split: sum.splits option.splits dest!: alt)
    with assms(2) show False by blast
  qed
qed


subsection \<open>Concurrent deliveries\<close>

text \<open>
  Stripe may deliver an event several times at once, and different processes share the dedup store. The claim
  of \<open>Handle\<close> is two store calls; other deliveries can run between them and while a handler is running. A
  delivery in flight is in one of four phases; each step advances one delivery by one of the stretches of
  \<open>Handle\<close> between which others may interleave.
\<close>

definition checkStep :: "('s, 'q, 'w, 'c) Webhooks \<Rightarrow> string \<Rightarrow> ('s, 'q, 'w) world \<Rightarrow> int option \<times> ('s, 'q, 'w) world" where
  "checkStep w eventID d =
     (case so_Get (wh_store w) eventID (wd_store d) of
        (Inl _, s) \<Rightarrow> (Some 500, d\<lparr>wd_store := s\<rparr>)
      | (Inr (found, cached), s) \<Rightarrow> (if found then Some (writeReplay cached) else None, d\<lparr>wd_store := s\<rparr>))"

definition lockStep :: "('s, 'q, 'w, 'c) Webhooks \<Rightarrow> string \<Rightarrow> ('s, 'q, 'w) world \<Rightarrow> (int + string) \<times> ('s, 'q, 'w) world" where
  "lockStep w eventID d =
     (case so_TryLock (wh_store w) eventID (wh_dedupTTL w) (wd_store d) of
        (Inl _, s') \<Rightarrow> (Inl 500, d\<lparr>wd_store := s'\<rparr>)
      | (Inr (token, mismatch, ok), s') \<Rightarrow>
          (if mismatch then Inl 400 else if \<not> ok then Inl 200 else Inr token, d\<lparr>wd_store := s'\<rparr>))"

text \<open>Run back to back, the two are the claim of \<open>Handle\<close>.\<close>

lemma claimEvent_steps:
  "claimEvent w k d = (case checkStep w k d of (Some st, d') \<Rightarrow> (Inl st, d') | (None, d') \<Rightarrow> lockStep w k d')"
  by (auto simp: claimEvent_def checkStep_def lockStep_def split: prod.splits sum.splits if_splits)

datatype phase = Arrived | Checked | Claimed string | Answered int bool

record thread =
  th_event :: stripeEvent
  th_body :: string
  th_phase :: phase

abbreviation th_id :: "thread \<Rightarrow> string" where
  "th_id t \<equiv> se_ID (th_event t)"

inductive deliver_step ::
  "('s, 'q, 'w, 'c) Webhooks \<Rightarrow> ('s, 'q, 'w) world \<times> thread list \<Rightarrow> ('s, 'q, 'w) world \<times> thread list \<Rightarrow> bool"
  for w where
  arrive: "deliver_step w (d, ts) (d, ts @ [\<lparr>th_event = e, th_body = b, th_phase = Arrived\<rparr>])"
| check: "i < length ts \<Longrightarrow> th_phase (ts ! i) = Arrived \<Longrightarrow> checkStep w (th_id (ts ! i)) d = (res, d') \<Longrightarrow>
    ph = (case res of None \<Rightarrow> Checked | Some st \<Rightarrow> Answered st False) \<Longrightarrow>
    deliver_step w (d, ts) (d', ts[i := (ts ! i)\<lparr>th_phase := ph\<rparr>])"
| lock: "i < length ts \<Longrightarrow> th_phase (ts ! i) = Checked \<Longrightarrow> lockStep w (th_id (ts ! i)) d = (res, d') \<Longrightarrow>
    ph = (case res of Inr tok \<Rightarrow> Claimed tok | Inl st \<Rightarrow> Answered st False) \<Longrightarrow>
    deliver_step w (d, ts) (d', ts[i := (ts ! i)\<lparr>th_phase := ph\<rparr>])"
| handle: "i < length ts \<Longrightarrow> th_phase (ts ! i) = Claimed tok \<Longrightarrow>
    handleClaimed w (th_event (ts ! i)) (th_body (ts ! i)) tok d = (st, d') \<Longrightarrow>
    deliver_step w (d, ts) (d', ts[i := (ts ! i)\<lparr>th_phase := Answered st True\<rparr>])"

text \<open>A delivery owns its event while it handles it and after it acknowledged it. The event's slot says so, and
  no two deliveries own the same event.\<close>

definition owns :: "thread \<Rightarrow> bool" where
  "owns t \<longleftrightarrow> (\<exists>tok. th_phase t = Claimed tok) \<or> th_phase t = Answered 200 True"

definition backed :: "(string \<Rightarrow> slot) \<Rightarrow> thread \<Rightarrow> bool" where
  "backed sl t \<longleftrightarrow> (\<forall>tok. th_phase t = Claimed tok \<longrightarrow> sl (th_id t) = Held tok) \<and>
     (th_phase t = Answered 200 True \<longrightarrow> sl (th_id t) = Done okResponse)"

definition deliveries_ok :: "(string \<Rightarrow> slot) \<Rightarrow> thread list \<Rightarrow> bool" where
  "deliveries_ok sl ts \<longleftrightarrow> (\<forall>i < length ts. backed sl (ts ! i)) \<and>
     (\<forall>i < length ts. \<forall>j < length ts. i \<noteq> j \<longrightarrow> th_id (ts ! i) = th_id (ts ! j) \<longrightarrow> \<not> (owns (ts ! i) \<and> owns (ts ! j)))"

lemma owns_not_free: "backed sl t \<Longrightarrow> owns t \<Longrightarrow> sl (th_id t) \<noteq> Free"
  by (auto simp: backed_def owns_def)

lemma backed_upd_other: "backed sl t \<Longrightarrow> th_id t \<noteq> k \<or> \<not> owns t \<Longrightarrow> backed (sl(k := x)) t"
  by (auto simp: backed_def owns_def)

lemma deliveries_ok_update:
  assumes ok: "deliveries_ok sl ts" and i: "i < length ts" and ev: "th_event t = th_event (ts ! i)"
    and t: "backed sl' t" and others: "\<And>j. j < length ts \<Longrightarrow> j \<noteq> i \<Longrightarrow> backed sl' (ts ! j)"
    and excl: "\<And>j. owns t \<Longrightarrow> j < length ts \<Longrightarrow> j \<noteq> i \<Longrightarrow> th_id (ts ! j) = th_id (ts ! i) \<Longrightarrow> \<not> owns (ts ! j)"
  shows "deliveries_ok sl' (ts[i := t])"
proof -
  have "\<not> (owns (ts[i := t] ! j) \<and> owns (ts[i := t] ! k))"
    if "j < length ts" "k < length ts" "j \<noteq> k" "th_id (ts[i := t] ! j) = th_id (ts[i := t] ! k)" for j k
  proof (cases "j = i \<or> k = i")
    case True
    with that excl [of j] excl [of k] ev i show ?thesis by (auto simp: nth_list_update)
  next
    case False
    with that ok show ?thesis by (simp add: deliveries_ok_def)
  qed
  moreover have "backed sl' (ts[i := t] ! j)" if "j < length ts" for j
    using that t others [of j] by (cases "j = i") (simp_all add: i)
  ultimately show ?thesis by (simp add: deliveries_ok_def)
qed

lemma deliveries_ok_quiet:
  assumes "deliveries_ok sl ts" and "i < length ts" and "\<And>tok. ph \<noteq> Claimed tok" and "ph \<noteq> Answered 200 True"
  shows "deliveries_ok sl (ts[i := (ts ! i)\<lparr>th_phase := ph\<rparr>])"
  using assms by (intro deliveries_ok_update [OF assms(1,2)]) (auto simp: deliveries_ok_def backed_def owns_def)

lemma checkStep_slots:
  assumes "lawful_store (wh_store w) view"
  shows "slots view (snd (checkStep w k d)) = slots view d"
proof -
  from assms obtain s1 where "view s1 = slots view d"
    "so_Get (wh_store w) k (wd_store d) = (Inr (case slots view d k of Done c \<Rightarrow> (True, Some c) | _ \<Rightarrow> (False, None)), s1)"
    unfolding lawful_store_def lawful_Get_def by metis
  then show ?thesis by (simp add: checkStep_def split: slot.split)
qed

lemma lockStep_cases:
  assumes "lawful_store (wh_store w) view"
  shows "(\<exists>tok s. slots view d k = Free \<and> lockStep w k d = (Inr tok, d\<lparr>wd_store := s\<rparr>) \<and> view s = (slots view d)(k := Held tok)) \<or>
    (\<exists>s. slots view d k \<noteq> Free \<and> lockStep w k d = (Inl 200, d\<lparr>wd_store := s\<rparr>) \<and> view s = slots view d)"
proof -
  from assms have "lawful_TryLock (wh_store w) view" by (simp add: lawful_store_def)
  then obtain tok s where "if slots view d k = Free
    then so_TryLock (wh_store w) k (wh_dedupTTL w) (wd_store d) = (Inr (tok, False, True), s) \<and> view s = (slots view d)(k := Held tok)
    else so_TryLock (wh_store w) k (wh_dedupTTL w) (wd_store d) = (Inr (tok, False, False), s) \<and> view s = slots view d"
    unfolding lawful_TryLock_def by metis
  then show ?thesis by (auto simp: lockStep_def split: if_splits)
qed

lemma deliveries_ok_step:
  assumes L: "lawful_store (wh_store w) view" and Q: "wh_queue w = None"
    and "deliver_step w st st'" and "deliveries_ok (slots view (fst st)) (snd st)"
  shows "deliveries_ok (slots view (fst st')) (snd st')"
  using assms(3,4)
proof (induction rule: deliver_step.induct)
  case (arrive d ts e b)
  then show ?case by (auto simp: deliveries_ok_def nth_append backed_def owns_def less_Suc_eq)
next
  case (check i ts d res d' ph)
  have "slots view d' = slots view d" using checkStep_slots [OF L, of "th_id (ts ! i)" d] check(3) by simp
  with check show ?case
    using deliveries_ok_quiet [of "slots view d" ts i ph] by (auto split: option.splits)
next
  case (lock i ts d res d' ph)
  have ok: "deliveries_ok (slots view d) ts" using lock.prems by simp
  from lockStep_cases [OF L, of d "th_id (ts ! i)"] lock(3)
  consider (free) tok where "slots view d (th_id (ts ! i)) = Free" "res = Inr tok"
      "slots view d' = (slots view d)(th_id (ts ! i) := Held tok)"
    | (busy) "res = Inl 200" "slots view d' = slots view d" by fastforce
  then show ?case
  proof cases
    case free
    have no: "\<not> owns (ts ! j)" if "j < length ts" "th_id (ts ! j) = th_id (ts ! i)" for j
      using ok that free(1) owns_not_free [of "slots view d" "ts ! j"] by (auto simp: deliveries_ok_def)
    have "backed (slots view d') (ts ! j)" if "j < length ts" for j
      unfolding free(3) using ok that no [of j] by (intro backed_upd_other) (auto simp: deliveries_ok_def)
    then have "deliveries_ok (slots view d') (ts[i := (ts ! i)\<lparr>th_phase := ph\<rparr>])"
      using lock(1,4) free no by (intro deliveries_ok_update [OF ok]) (simp_all add: backed_def)
    then show ?thesis by simp
  next
    case busy
    with lock deliveries_ok_quiet [OF ok lock(1), of ph] show ?thesis by simp
  qed
next
  case (handle i ts tok d st d')
  have ok: "deliveries_ok (slots view d) ts" using handle.prems by simp
  have bi: "backed (slots view d) (ts ! i)" and oi: "owns (ts ! i)"
    using ok handle(1,2) by (auto simp: deliveries_ok_def owns_def)
  then have held: "slots view d (th_id (ts ! i)) = Held tok" using handle(2) by (simp add: backed_def)
  have "settled view (th_id (ts ! i)) d (st, d')"
    using handleClaimed_settled [OF L held Q, of "th_body (ts ! i)"] handle(3) by simp
  then obtain x where s: "slots view d' = (slots view d)(th_id (ts ! i) := x)" "st = 200 \<longrightarrow> x = Done okResponse"
    by (auto simp: settled_def)
  have no: "\<not> owns (ts ! j)" if "j < length ts" "j \<noteq> i" "th_id (ts ! j) = th_id (ts ! i)" for j
    using ok oi handle(1) that by (auto simp: deliveries_ok_def)
  have "backed (slots view d') (ts ! j)" if "j < length ts" "j \<noteq> i" for j
    unfolding s(1) using ok that no [of j] by (intro backed_upd_other) (auto simp: deliveries_ok_def)
  then have "deliveries_ok (slots view d') (ts[i := (ts ! i)\<lparr>th_phase := Answered st True\<rparr>])"
    using handle(1) s no by (intro deliveries_ok_update [OF ok]) (simp_all add: backed_def)
  then show ?case by simp
qed

text \<open>C14: Concurrent deliveries never handle an event twice. However many deliveries of any events are in flight
  and however their store calls and handlers interleave, two different deliveries of the same event are never
  both handling it or both acknowledged after handling it; a delivery that is handling an event holds its
  claim, and an acknowledged one has left it recorded as processed. Dispatch is synchronous, the store starts
  with nothing in flight.\<close>

theorem concurrent_deliveries_exclusive:
  assumes "lawful_store (wh_store w) view" and "wh_queue w = None"
    and "(deliver_step w)\<^sup>*\<^sup>* (d0, []) (d, ts)"
    and "i < length ts" and "j < length ts" and "i \<noteq> j" and "th_id (ts ! i) = th_id (ts ! j)"
  shows "\<not> (owns (ts ! i) \<and> owns (ts ! j)) \<and>
    (\<forall>tok. th_phase (ts ! i) = Claimed tok \<longrightarrow> slots view d (th_id (ts ! i)) = Held tok) \<and>
    (th_phase (ts ! i) = Answered 200 True \<longrightarrow> slots view d (th_id (ts ! i)) = Done okResponse)"
proof -
  have "deliveries_ok (slots view (fst (d, ts))) (snd (d, ts))"
    using assms(3)
  proof (induction rule: rtranclp_induct)
    case base
    show ?case by (simp add: deliveries_ok_def)
  next
    case (step y z)
    then show ?case using deliveries_ok_step [OF assms(1,2)] by blast
  qed
  with assms(4-7) show ?thesis by (auto simp: deliveries_ok_def backed_def)
qed


subsection \<open>Retries under a policy\<close>

definition attempts :: "('s, 'q, 'w) world \<Rightarrow> string \<Rightarrow> int" where
  "attempts d k = (case eventLogGet k d of None \<Rightarrow> 0 | Some p \<Rightarrow> l_AttemptCount p)"


lemma attempts_store [simp]:
  "attempts (storeUnlock w k t d) = attempts d" "attempts (d\<lparr>wd_app := a\<rparr>) = attempts d"
  "attempts (d\<lparr>wd_store := s\<rparr>) = attempts d"
  by (simp_all add: attempts_def eventLogGet_def fun_eq_iff)



text \<open>Foreign events never reach the app. A delivery of an unclaimed event stamped for another namespace is
  answered 200 and recorded as processed, and the app's state and the queue are exactly as before.\<close>

lemma foreign_event_skipped:
  assumes "lawful_store (wh_store w) view" and "accepted lib w r sevt body"
    and "slots view d (se_ID sevt) = Free" and "extractAppNamespace sevt = Some ns"
    and "wh_namespace w \<noteq> ''''" and "ns \<noteq> wh_namespace w"
    and "webhooks_Handle lib w r d = (status, d')"
  shows "status = 200 \<and> slots view d' (se_ID sevt) = Done okResponse \<and> wd_app d' = wd_app d \<and> wd_queue d' = wd_queue d"
  using assms(1)
proof (cases rule: claim_cases [where d = d and k = "se_ID sevt"])
  case (free tok s)
  have "classifyNamespace (wh_namespace w) sevt = filterSkip"
    using assms(4-6) by (simp add: classifyNamespace_def)
  with free assms(7) show ?thesis
    by (auto simp: Handle_accepted [OF assms(2)] handleClaimed_def Let_def markProcessed_def slots_release [OF assms(1)])
qed (use assms(3) in auto)

subsection \<open>The log rate limiter\<close>

fun limiterRun :: "int list \<Rightarrow> logRateLimiter \<Rightarrow> int list \<times> logRateLimiter" where
  "limiterRun [] l = ([], l)"
| "limiterRun (t # ts) l =
     (let (res, l1) = recordAndShouldLog t l; (rs, l2) = limiterRun ts l1 in (res # rs, l2))"

text \<open>C16: Signature-failure logging is bounded and loses no count. For failures at any seconds, each call is either
  logged or counted: the logged lines plus the suppressed counts they report plus the count still pending add
  up to the number of failures; and within one second at most the burst (10 unless configured) is logged.\<close>

theorem log_limiter_accounts:
  assumes "limiterRun ts l = (rs, l')" and "0 \<le> rl_suppressed l" and "0 \<le> rl_emittedThisSec l"
  shows "sum_list (map (\<lambda>res. if res < 0 then 0 else res + 1) rs) + rl_suppressed l' = int (length ts) + rl_suppressed l \<and>
    ((\<forall>t \<in> set ts. t = rl_lastSec l) \<longrightarrow>
      int (length (filter (\<lambda>res. 0 \<le> res) rs)) \<le>
        max 0 ((if rl_burstPerSec l \<le> 0 then 10 else rl_burstPerSec l) - rl_emittedThisSec l))"
  using assms
proof (induction ts arbitrary: l rs)
  case (Cons t ts)
  obtain res l1 where one: "recordAndShouldLog t l = (res, l1)" by fastforce
  obtain rs1 where rs: "limiterRun ts l1 = (rs1, l')" "rs = res # rs1"
    using Cons.prems(1) one by (auto split: prod.splits)
  have nn: "0 \<le> rl_suppressed l1" "0 \<le> rl_emittedThisSec l1"
    using one Cons.prems(2,3) by (auto simp: recordAndShouldLog_def Let_def split: if_splits)
  note IH = Cons.IH [OF rs(1) nn]
  have "(if res < 0 then 0 else res + 1) + rl_suppressed l = rl_suppressed l + (rl_suppressed l + 1 - rl_suppressed l1)"
    using one Cons.prems(2) by (auto simp: recordAndShouldLog_def Let_def split: if_splits)
  moreover have "rl_burstPerSec l1 = rl_burstPerSec l" "t = rl_lastSec l \<Longrightarrow> rl_lastSec l1 = rl_lastSec l"
    "t = rl_lastSec l \<Longrightarrow> rl_emittedThisSec l1 = rl_emittedThisSec l + (if 0 \<le> res then 1 else 0)"
    "t = rl_lastSec l \<Longrightarrow> 0 \<le> res \<Longrightarrow> rl_emittedThisSec l < (if rl_burstPerSec l \<le> 0 then 10 else rl_burstPerSec l)"
    using one Cons.prems(2) by (auto simp: recordAndShouldLog_def Let_def split: if_splits)
  ultimately show ?case using IH by (auto simp: rs(2) max_def split: if_splits)
qed simp


subsection \<open>Queued events\<close>

lemma queued_slots:
  assumes L: "lawful_store (wh_store w) view"
  shows "slots view (markQueuedProcessed w item st le a d) =
      (if slots view d (q_EventID item) = Held (q_Token item) then (slots view d)(q_EventID item := Done okResponse)
       else slots view d)"
    and "slots view (snd (handleQueuedFailure w item e d)) =
      (if slots view d (q_EventID item) = Held (q_Token item)
       then (slots view d)(q_EventID item := (if fst (handleQueuedFailure w item e d) = None then Done okResponse else Free))
       else slots view d)"
proof -
  show mark: "slots view (markQueuedProcessed w item st le a d) =
      (if slots view d (q_EventID item) = Held (q_Token item) then (slots view d)(q_EventID item := Done okResponse)
       else slots view d)" for st le a d
    by (simp add: markQueuedProcessed_def Let_def case_prod_beta slots_release [OF L])
  show "slots view (snd (handleQueuedFailure w item e d)) =
      (if slots view d (q_EventID item) = Held (q_Token item)
       then (slots view d)(q_EventID item := (if fst (handleQueuedFailure w item e d) = None then Done okResponse else Free))
       else slots view d)"
    by (auto simp: handleQueuedFailure_def Let_def mark slots_release [OF L] split: option.split prod.split)
qed

lemma ProcessQueued_slots:
  assumes "lawful_store (wh_store w) view" and "ProcessQueued lib w item d = (err, d')"
  shows "slots view d' = (if slots view d (q_EventID item) = Held (q_Token item)
    then (slots view d)(q_EventID item := (case err of Some (HandlerFailure e) \<Rightarrow> Free | _ \<Rightarrow> Done okResponse))
    else slots view d)"
proof (cases "lib_UnmarshalEvent lib (q_Body item)")
  case (Inl e)
  with assms show ?thesis by (auto simp: ProcessQueued_def queued_slots [OF assms(1)])
next
  case (Inr sevt)
  obtain de app where da: "dispatchEvent w (fromStripeEvent sevt) (wd_app d) = (de, app)" by fastforce
  have kinds: "fst (handleQueuedFailure w item e d1) = None \<or> fst (handleQueuedFailure w item e d1) = Some (HandlerFailure e)"
    for e and d1 :: "('a, 'b, 'c) world"
    by (simp add: handleQueuedFailure_def Let_def split: option.split prod.split)
  show ?thesis
  proof (cases de)
    case None
    with Inr da assms show ?thesis by (auto simp: ProcessQueued_def queued_slots [OF assms(1)])
  next
    case (Some e)
    then have "handleQueuedFailure w item e (d\<lparr>wd_app := app\<rparr>) = (err, d')"
      using Inr da assms(2) by (simp add: ProcessQueued_def)
    with kinds [of e "d\<lparr>wd_app := app\<rparr>"] queued_slots(2) [OF assms(1), of item e "d\<lparr>wd_app := app\<rparr>"]
    show ?thesis by (auto split: option.split)
  qed
qed

text \<open>A worker settles the item it processes. When the item's token still holds the event's claim, a worker's
  call ends with the event recorded as processed if it reports success or a permanent failure (malformed body),
  and with the claim released if it reports a handler failure; no other event is affected.\<close>

lemma ProcessQueued_settles:
  assumes "lawful_store (wh_store w) view" and "slots view d (q_EventID item) = Held (q_Token item)"
    and "ProcessQueued lib w item d = (err, d')"
  shows "slots view d' = (slots view d)(q_EventID item :=
    (case err of Some (HandlerFailure e) \<Rightarrow> Free | _ \<Rightarrow> Done okResponse))"
  using ProcessQueued_slots [OF assms(1,3)] assms(2) by simp

text \<open>A queued event that succeeds on a retry is not recorded. The first, failing attempt releases the claim; the
  queue then runs the same item again with the token it was enqueued with, which no longer holds anything, so
  after the successful retry the event is still unclaimed and a further delivery would be handled again.\<close>

lemma queued_retry_unrecorded:
  assumes "lawful_store (wh_store w) view" and "slots view d (q_EventID item) = Held (q_Token item)"
    and "ProcessQueued lib w item d = (Some (HandlerFailure e), d1)"
    and "ProcessQueued lib w item d1 = (None, d2)"
  shows "slots view d2 (q_EventID item) = Free"
  using ProcessQueued_slots [OF assms(1,3)] ProcessQueued_slots [OF assms(1,4)] assms(2) by simp

section \<open>Witnesses\<close>

text \<open>A store that keeps the contract: an association list of slots and a token counter.\<close>

type_synonym exStore = "(string \<times> slot) list \<times> nat"

definition exView :: "exStore \<Rightarrow> string \<Rightarrow> slot" where
  "exView s k = mget Free (fst s) k"

definition exOps :: "exStore storeOps" where
  "exOps = \<lparr>
     so_Get = (\<lambda>k s. (Inr (case exView s k of Done c \<Rightarrow> (True, Some c) | _ \<Rightarrow> (False, None)), s)),
     so_TryLock = (\<lambda>k ttl s. if exView s k = Free
        then (Inr (showNat (snd s), False, True), (mset_key k (Held (showNat (snd s))) (fst s), Suc (snd s)))
        else (Inr ('''', False, False), s)),
     so_Set = (\<lambda>k tok c ttl s. if exView s k = Held tok then (None, (mset_key k (Done c) (fst s), snd s)) else (Some ''lock lost'', s)),
     so_Unlock = (\<lambda>k tok s. if exView s k = Held tok then (None, (mset_key k Free (fst s), snd s)) else (Some ''lock lost'', s))\<rparr>"

lemma exOps_lawful: "lawful_store exOps exView"
proof -
  have upd: "exView (mset_key k x m, n) = (exView (m, n'))(k := x)" for k x m n n'
    by (auto simp: exView_def fun_eq_iff)
  have "lawful_Get exOps exView" by (simp add: lawful_Get_def exOps_def)
  moreover have "lawful_TryLock exOps exView"
    unfolding lawful_TryLock_def
  proof (intro allI)
    fix k ttl and s :: exStore
    show "\<exists>tok s'. if exView s k = Free
      then so_TryLock exOps k ttl s = (Inr (tok, False, True), s') \<and> exView s' = (exView s)(k := Held tok)
      else so_TryLock exOps k ttl s = (Inr (tok, False, False), s') \<and> exView s' = exView s"
      by (cases s; cases "exView s k = Free") (auto simp: exOps_def upd)
  qed
  moreover have "lawful_release exOps exView"
    by (auto simp: lawful_release_def exOps_def upd)
  ultimately show ?thesis by (simp add: lawful_store_def)
qed

definition ex_lib :: "(nat, nat) wlib" where
  "ex_lib = \<lparr>lib_ConstructEvent = (\<lambda>body sig secret tol ign. if sig = ''sig'' \<and> secret = ''whsec'' then Inr demo_event else Inl ''bad''),
     lib_UnmarshalEvent = (\<lambda>body. Inr demo_event), lib_ParseIP = (\<lambda>_. None), lib_Contains = (=),
     lib_ParseCIDR = (\<lambda>_. None), lib_SplitHost = (\<lambda>_. None)\<rparr>"

definition no_handlers :: "nat Handlers" where
  "no_handlers = \<lparr>OnCheckoutCompleted = None, OnPaymentSucceeded = None, OnPaymentFailed = None, OnInvoicePaid = None,
     OnInvoicePaymentFailed = None, OnSubscriptionCreated = None, OnSubscriptionUpdated = None,
     OnSubscriptionCanceled = None, OnSubscriptionTrialWillEnd = None, OnRefundCreated = None, OnRefundFailed = None,
     OnCustomerBalanceFunded = None, OnDisputeCreated = None, OnDisputeUpdated = None, OnDisputeClosed = None,
     OnDisputeFundsWithdrawn = None, OnDisputeFundsReinstated = None, OnOtherEvent = None\<rparr>"

text \<open>The app counts handler calls; its refund handler fails when \<open>bad\<close> holds of the count.\<close>

definition ex_handlers :: "(nat \<Rightarrow> bool) \<Rightarrow> nat Handlers" where
  "ex_handlers bad = no_handlers\<lparr>OnRefundCreated := Some (\<lambda>evt n. (if bad n then Some ''boom'' else None, Suc n))\<rparr>"

definition ex_wh :: "string \<Rightarrow> (nat \<Rightarrow> bool) \<Rightarrow> (exStore, unit, nat, nat) Webhooks" where
  "ex_wh ns bad = \<lparr>wh_signingSecret = ''whsec'', wh_additionalSecrets = [], wh_store = exOps, wh_namespace = ns,
     wh_handlers = ex_handlers bad, wh_dedupTTL = DefaultDedupTTL, wh_sigTolerance = DefaultSignatureTolerance,
     wh_strictAPIVersion = False,
     wh_perEventPolicy = [(''charge.refunded'', \<lparr>ep_MaxAttempts = 3, ep_OnExhausted = None\<rparr>)],
     wh_queue = None, wh_allowedCIDRs = [], wh_realIPHeader = '''', wh_maxBodyBytes = DefaultMaxBodyBytes,
     wh_syncDispatchTimeout = DefaultSyncDispatchTimeout, wh_customHandlers = []\<rparr>"

definition ex_request :: "string \<Rightarrow> Request" where
  "ex_request sig = \<lparr>rq_Header = (\<lambda>h. if h = ''Stripe-Signature'' then sig else ''''), rq_RemoteAddr = ''1.2.3.4:5'',
     rq_Body = ''{}'', rq_BodyFails = False\<rparr>"

definition ex_world :: "(exStore, unit, nat) world" where
  "ex_world = \<lparr>wd_store = ([], 0), wd_log = Some [], wd_queue = (), wd_app = 0, wd_clock = int, wd_ticks = 0,
     wd_sigFail = \<lparr>rl_lastSec = 0, rl_emittedThisSec = 0, rl_suppressed = 0, rl_burstPerSec = 0\<rparr>\<rparr>"

lemma ex_wh_simps [simp]:
  "wh_store (ex_wh ns bad) = exOps" "wh_queue (ex_wh ns bad) = None" "wh_namespace (ex_wh ns bad) = ns"
  by (simp_all add: ex_wh_def)

lemma ex_lawful: "lawful_store (wh_store (ex_wh ns bad)) exView"
  by (simp add: exOps_lawful)

lemma ex_accepted: "accepted ex_lib (ex_wh ns bad) (ex_request ''sig'') demo_event ''{}''"
  by (simp add: accepted_def ex_wh_def ex_request_def readBody_def verifySignature_def ex_lib_def DefaultMaxBodyBytes_def)

lemma ex_free: "slots exView ex_world (se_ID demo_event) = Free"
  by code_simp

theorem acknowledged_once_witness:
  "fst (webhooks_Handle ex_lib (ex_wh ''shop'' (\<lambda>_. False)) (ex_request ''sig'') ex_world) = 200 \<and>
   (let d1 = snd (webhooks_Handle ex_lib (ex_wh ''shop'' (\<lambda>_. False)) (ex_request ''sig'') ex_world)
    in wd_app (snd (webhooks_Handle ex_lib (ex_wh ''shop'' (\<lambda>_. False)) (ex_request ''sig'') d1)) = wd_app d1)"
proof -
  let ?h = "webhooks_Handle ex_lib (ex_wh ''shop'' (\<lambda>_. False)) (ex_request ''sig'')"
  have "fst (?h ex_world) = 200" by code_simp
  moreover have "lawful_store (wh_store (ex_wh ''shop'' (\<lambda>_. False))) exView" by (simp add: exOps_lawful)
  note acknowledged_once [OF this _ ex_accepted ex_free prod.collapse [symmetric] ex_accepted refl
      deliverAll.simps(1) [symmetric] prod.collapse [symmetric]]
  ultimately show ?thesis by simp
qed

lemma only_signed_requests_instance:
  "wd_app (snd (webhooks_Handle ex_lib (ex_wh ''shop'' (\<lambda>_. False)) (ex_request ''forged'') ex_world)) = 0"
proof -
  have "wd_app (snd (webhooks_Handle ex_lib (ex_wh ''shop'' (\<lambda>_. False)) (ex_request ''forged'') ex_world)) = wd_app ex_world"
    using only_signed_requests [of "ex_wh ''shop'' (\<lambda>_. False)" ex_lib "ex_request ''forged''" ex_world]
    by (simp add: ex_wh_def ex_lib_def ex_request_def)
  then show ?thesis by (simp add: ex_world_def)
qed

theorem concurrent_deliveries_exclusive_witness:
  "\<exists>d ts. (deliver_step (ex_wh ''shop'' (\<lambda>_. False)))\<^sup>*\<^sup>* (ex_world, []) (d, ts) \<and> length ts = 2 \<and>
     th_id (ts ! 0) = th_id (ts ! 1) \<and> owns (ts ! 0) \<and> \<not> owns (ts ! 1)"
proof -
  let ?w = "ex_wh ''shop'' (\<lambda>_. False)" and ?k = "se_ID demo_event"
  let ?t = "\<lambda>ph. \<lparr>th_event = demo_event, th_body = '''', th_phase = ph\<rparr>"
  let ?d1 = "snd (checkStep ?w ?k ex_world)" and ?d2 = "snd (lockStep ?w ?k (snd (checkStep ?w ?k ex_world)))"
  have "fst (checkStep ?w ?k ex_world) = None" by code_simp
  then have c: "checkStep ?w ?k ex_world = (None, ?d1)" by (metis prod.collapse)
  have "fst (lockStep ?w ?k ?d1) = Inr (showNat 0)" by code_simp
  then have l: "lockStep ?w ?k ?d1 = (Inr (showNat 0), ?d2)" by (metis prod.collapse)
  have s1: "deliver_step ?w (ex_world, []) (ex_world, [?t Arrived])"
    using deliver_step.arrive [of ?w ex_world "[]" demo_event "''''"] by simp
  have s2: "deliver_step ?w (ex_world, [?t Arrived]) (ex_world, [?t Arrived, ?t Arrived])"
    using deliver_step.arrive [of ?w ex_world "[?t Arrived]" demo_event "''''"] by simp
  have s3: "deliver_step ?w (ex_world, [?t Arrived, ?t Arrived]) (?d1, [?t Checked, ?t Arrived])"
    using deliver_step.check [of 0 "[?t Arrived, ?t Arrived]" ?w ex_world None ?d1 Checked] c by simp
  have s4: "deliver_step ?w (?d1, [?t Checked, ?t Arrived]) (?d2, [?t (Claimed (showNat 0)), ?t Arrived])"
    using deliver_step.lock [of 0 "[?t Checked, ?t Arrived]" ?w ?d1 "Inr (showNat 0)" ?d2 "Claimed (showNat 0)"] l by simp
  have run: "(deliver_step ?w)\<^sup>*\<^sup>* (ex_world, []) (?d2, [?t (Claimed (showNat 0)), ?t Arrived])"
    by (rule converse_rtranclp_into_rtranclp [where r = "deliver_step ?w", OF s1]
          converse_rtranclp_into_rtranclp [where r = "deliver_step ?w", OF s2]
          converse_rtranclp_into_rtranclp [where r = "deliver_step ?w", OF s3]
          r_into_rtranclp [where r = "deliver_step ?w", OF s4])+
  have "\<not> (owns (?t (Claimed (showNat 0))) \<and> owns (?t Arrived))"
    using concurrent_deliveries_exclusive [OF ex_lawful _ run, of 0 1] by simp
  moreover have "owns (?t (Claimed (showNat 0)))" by (simp add: owns_def)
  ultimately show ?thesis using run by fastforce
qed


lemma foreign_event_skipped_instance:
  "wd_app (snd (webhooks_Handle ex_lib (ex_wh ''blog'' (\<lambda>_. False)) (ex_request ''sig'') ex_world)) = 0"
proof -
  have "extractAppNamespace demo_event = Some ''shop''" by code_simp
  from foreign_event_skipped [OF ex_lawful ex_accepted ex_free this _ _ prod.collapse [symmetric],
      of "''blog''" "\<lambda>_. False"]
  show ?thesis by (simp add: ex_world_def)
qed

theorem log_limiter_accounts_witness:
  "length (filter (\<lambda>res. 0 \<le> res) (fst (limiterRun (replicate 12 0) (wd_sigFail ex_world)))) \<le> 10"
  using log_limiter_accounts [OF prod.collapse [symmetric], of "wd_sigFail ex_world" "replicate 12 0"]
  by (simp add: ex_world_def)

definition ex_item :: QueueItem where
  "ex_item = \<lparr>q_EventID = ''evt_1'', q_EventType = ''charge.refunded'', q_Namespace = ''shop'', q_Body = ''{}'', q_Token = ''0''\<rparr>"

definition ex_claimed :: "(exStore, unit, nat) world" where
  "ex_claimed = ex_world\<lparr>wd_store := ([(''evt_1'', Held ''0'')], 1)\<rparr>"

lemma ex_held: "slots exView ex_claimed (q_EventID ex_item) = Held (q_Token ex_item)"
  by code_simp

lemma ProcessQueued_settles_instance:
  "slots exView (snd (ProcessQueued ex_lib (ex_wh ''shop'' (\<lambda>_. False)) ex_item ex_claimed)) ''evt_1'' = Done okResponse"
proof -
  have "fst (ProcessQueued ex_lib (ex_wh ''shop'' (\<lambda>_. False)) ex_item ex_claimed) = None" by code_simp
  moreover have "q_EventID ex_item = ''evt_1''" by (simp add: ex_item_def)
  ultimately show ?thesis
    using ProcessQueued_settles [OF ex_lawful ex_held prod.collapse [symmetric], of ex_lib "''shop''" "\<lambda>_. False"]
    by simp
qed

lemma queued_retry_unrecorded_instance:
  "slots exView (snd (ProcessQueued ex_lib (ex_wh ''shop'' (\<lambda>n. n = 0)) ex_item
     (snd (ProcessQueued ex_lib (ex_wh ''shop'' (\<lambda>n. n = 0)) ex_item ex_claimed)))) ''evt_1'' = Free"
proof -
  let ?p = "ProcessQueued ex_lib (ex_wh ''shop'' (\<lambda>n. n = 0)) ex_item"
  have "fst (?p ex_claimed) = Some (HandlerFailure ''boom'')" "fst (?p (snd (?p ex_claimed))) = None" by code_simp+
  then have "?p ex_claimed = (Some (HandlerFailure ''boom''), snd (?p ex_claimed))"
    "?p (snd (?p ex_claimed)) = (None, snd (?p (snd (?p ex_claimed))))" by (metis prod.collapse)+
  from queued_retry_unrecorded [OF ex_lawful ex_held this]
  show ?thesis by (simp add: ex_item_def)
qed

end
