(* ===== verification/Webhook_Queue_Proofs.thy ===== *)
theory Webhook_Queue_Proofs
  imports Webhook_Queue Webhooks_Proofs
begin

text \<open>
  The async queues. The table queue keeps exactly the events that are owed a dispatch and hands out the oldest one,
  but lets a failing event hold up the rest; the channel queue dispatches every accepted item once, in order.
  The locale \<open>event_queue\<close> states what \<open>Handle\<close> needs of a queue; both queues are instances, so an event
  answered 200 is settled or pending.
\<close>

subsection \<open>Rows\<close>

lemma update_row_ids:
  assumes "\<And>r. qr_id (f r) = qr_id r"
  shows "map qr_id (update_row eid f t) = map qr_id t"
  using assms by (simp add: update_row_def)

lemma release_row_item [simp]: "qr_item (release_row r) = qr_item r"
  by (simp add: release_row_def)

lemma oldest_None [simp]: "oldest rs = None \<longleftrightarrow> rs = []"
  by (cases rs) (auto split: option.split)

lemma oldest_spec:
  "oldest rs = Some r \<Longrightarrow> r \<in> set rs \<and> (\<forall>x \<in> set rs. qr_enqueued_at r \<le> qr_enqueued_at x)"
proof (induction rs arbitrary: r)
  case (Cons a rs)
  then show ?case
  proof (cases "oldest rs")
    case (Some x)
    with Cons show ?thesis by (auto split: if_splits)
  qed simp
qed simp

lemma oldest_map: "(\<And>r. qr_enqueued_at (g r) = qr_enqueued_at r) \<Longrightarrow> oldest (map g rs) = map_option g (oldest rs)"
  by (induction rs) (auto split: option.split)

lemma dequeue_ids: "map qr_id (snd (wq_dequeue now host t)) = map qr_id t"
  by (simp add: wq_dequeue_def update_row_ids split: option.split)

lemma sweep_ids: "map qr_id (wq_sweep now n t) = map qr_id t"
  by (simp add: wq_sweep_def)

lemma Enqueue_ids: "set (map qr_id (wq_Enqueue now item t)) = insert (q_EventID item) (set (map qr_id t))"
  by (auto simp: wq_Enqueue_def)

lemma release_ids: "map qr_id (wq_releaseFailed eid t) = map qr_id t"
  by (simp add: wq_releaseFailed_def update_row_ids)

lemma complete_ids: "map qr_id (wq_complete eid t) = filter (\<lambda>i. i \<noteq> eid) (map qr_id t)"
  by (simp add: wq_complete_def filter_map comp_def)

lemma finish_ids: "map qr_id (wq_finish err eid t) =
    (case err of Some (HandlerFailure _) \<Rightarrow> map qr_id t | _ \<Rightarrow> filter (\<lambda>i. i \<noteq> eid) (map qr_id t))"
  by (simp add: wq_finish_def release_ids complete_ids split: option.split queued_error.split)

text \<open>An event is owed a dispatch when its latest entry in the history is an accepted \<open>Enqueue\<close>.\<close>

fun owed :: "string \<Rightarrow> wq_event list \<Rightarrow> bool" where
  "owed eid [] = False"
| "owed eid (Accepted e # h) = (e = eid \<or> owed eid h)"
| "owed eid (Dispatched e # h) = (e \<noteq> eid \<and> owed eid h)"

definition table_ok :: "qtable \<Rightarrow> wq_event list \<Rightarrow> bool" where
  "table_ok t h \<longleftrightarrow> distinct (map qr_id t) \<and> (\<forall>eid. eid \<in> set (map qr_id t) \<longleftrightarrow> owed eid h)"

lemma table_ok_cong: "map qr_id t' = map qr_id t \<Longrightarrow> table_ok t' h \<longleftrightarrow> table_ok t h"
  by (simp only: table_ok_def)

lemma finish_ok:
  "table_ok t h \<Longrightarrow> table_ok (wq_finish err eid t) (case err of Some (HandlerFailure _) \<Rightarrow> h | _ \<Rightarrow> Dispatched eid # h)"
  unfolding table_ok_def finish_ids by (auto split: option.split queued_error.split)

lemma wq_step_ok: "wq_step s s' \<Longrightarrow> table_ok (ws_table s) (ws_history s) \<Longrightarrow> table_ok (ws_table s') (ws_history s')"
proof (induction rule: wq_step.induct)
  case (enqueue s now item)
  then show ?case by (auto simp: table_ok_def wq_Enqueue_def)
next
  case (dequeue now host s item t)
  then show ?case using table_ok_cong [OF dequeue_ids [of now host "ws_table s"]] by simp
next
  case (finish item s err)
  then show ?case using finish_ok [of "ws_table s" "ws_history s" err "q_EventID item"] by simp
qed (simp_all add: table_ok_cong [OF sweep_ids])

lemma wq_reach_ok: "wq_step\<^sup>*\<^sup>* wq_initial s \<Longrightarrow> table_ok (ws_table s) (ws_history s)"
proof (induction rule: rtranclp_induct)
  case base
  then show ?case by (simp add: table_ok_def wq_initial_def)
next
  case (step s s')
  then show ?case by (blast intro: wq_step_ok)
qed

abbreviation queued_rows :: "qtable \<Rightarrow> qrow list" where
  "queued_rows t \<equiv> filter (\<lambda>row. qr_state row = Queued) t"

lemma dequeue_got: "fst (wq_dequeue now host t) = map_option qr_item (oldest (queued_rows t))"
  by (simp add: wq_dequeue_def split: option.split)

lemma dequeue_row:
  assumes "wq_dequeue now host t = (Some item, t')"
  obtains row where "oldest (queued_rows t) = Some row" "qr_item row = item"
  using assms dequeue_got [of now host t] by (cases "oldest (queued_rows t)") auto

lemma dequeue_oldest:
  assumes "wq_dequeue now host t = (Some item, t')"
  shows "\<exists>row \<in> set t. Some item = Some (qr_item row) \<and> qr_state row = Queued \<and>
    (\<forall>x \<in> set t. qr_state x = Queued \<longrightarrow> qr_enqueued_at row \<le> qr_enqueued_at x)"
proof -
  obtain row where "oldest (queued_rows t) = Some row" "qr_item row = item"
    using assms by (rule dequeue_row)
  with oldest_spec [OF this(1)] show ?thesis by auto
qed

lemma dequeue_none:
  assumes "wq_dequeue now host t = (got, t')"
  shows "got = None \<longleftrightarrow> (\<forall>row \<in> set t. qr_state row = Processing)"
  using assms dequeue_got [of now host t] row_state.exhaust by (auto simp: filter_empty_conv)

text \<open>C18: The durable queue loses no event and runs oldest first. Whatever workers, crashes and sweeps do, the table
  holds a row of an event exactly when the event was accepted and not dispatched to success or permanent failure
  since; it never holds two rows of one event; and a dequeue that finds a queued row takes one that was
  enqueued no later than any other queued row.\<close>

theorem durable_queue_no_loss:
  assumes "wq_step\<^sup>*\<^sup>* wq_initial s" and "wq_dequeue now host (ws_table s) = (got, t)"
  shows "(eid \<in> set (map qr_id (ws_table s)) \<longleftrightarrow> owed eid (ws_history s)) \<and> distinct (map qr_id (ws_table s)) \<and>
    (got = None \<longleftrightarrow> (\<forall>row \<in> set (ws_table s). qr_state row = Processing)) \<and>
    (got \<noteq> None \<longrightarrow> (\<exists>row \<in> set (ws_table s). got = Some (qr_item row) \<and> qr_state row = Queued \<and>
       (\<forall>x \<in> set (ws_table s). qr_state x = Queued \<longrightarrow> qr_enqueued_at row \<le> qr_enqueued_at x)))"
  using wq_reach_ok [OF assms(1)] dequeue_none [OF assms(2)] dequeue_oldest [of now host "ws_table s" _ t] assms(2)
  unfolding table_ok_def by blast

subsection \<open>A failing head\<close>

text \<open>One worker alone, every dispatch of which fails with a retryable error: the items it dequeues.\<close>

fun failing_rounds :: "string \<Rightarrow> string \<Rightarrow> time list \<Rightarrow> qtable \<Rightarrow> QueueItem option list" where
  "failing_rounds host err [] t = []"
| "failing_rounds host err (now # nows) t =
     (case wq_dequeue now host t of
        (None, t1) \<Rightarrow> None # failing_rounds host err nows t1
      | (Some item, t1) \<Rightarrow>
          Some item # failing_rounds host err nows (wq_finish (Some (HandlerFailure err)) (q_EventID item) t1))"

lemma queued_after_failure:
  assumes "distinct (map qr_id t)" and "row \<in> set t" and "qr_state row = Queued"
  shows "queued_rows (wq_finish (Some (HandlerFailure err)) (qr_id row) (update_row (qr_id row)
      (\<lambda>r. r\<lparr>qr_state := Processing, qr_locked_at := Some now, qr_locked_by := host, qr_attempts := qr_attempts r + 1\<rparr>) t)) =
    map (\<lambda>r. if qr_id r = qr_id row then release_row (r\<lparr>qr_attempts := qr_attempts r + 1\<rparr>) else r) (queued_rows t)"
proof -
  have "\<forall>r \<in> set t. qr_id r = qr_id row \<longrightarrow> qr_state r = Queued"
    using assms by (metis distinct_map inj_onD)
  then show ?thesis
    by (induction t) (auto simp: wq_finish_def wq_releaseFailed_def update_row_def release_row_def)
qed

lemma failing_rounds_same:
  assumes "distinct (map qr_id t)" and "oldest (queued_rows t) = Some row"
  shows "failing_rounds host err nows t = replicate (length nows) (Some (qr_item row))"
  using assms
proof (induction nows arbitrary: t row)
  case (Cons now nows)
  let ?g = "\<lambda>r. if qr_id r = qr_id row then release_row (r\<lparr>qr_attempts := qr_attempts r + 1\<rparr>) else r"
  let ?t1 = "update_row (qr_id row)
      (\<lambda>r. r\<lparr>qr_state := Processing, qr_locked_at := Some now, qr_locked_by := host, qr_attempts := qr_attempts r + 1\<rparr>) t"
  let ?t2 = "wq_finish (Some (HandlerFailure err)) (qr_id row) ?t1"
  have row: "row \<in> set t" "qr_state row = Queued" using oldest_spec [OF Cons.prems(2)] by auto
  have "queued_rows ?t2 = map ?g (queued_rows t)"
    by (rule queued_after_failure [OF Cons.prems(1) row])
  then have "oldest (queued_rows ?t2) = Some (?g row)"
    using Cons.prems(2) oldest_map [of ?g "queued_rows t"] by (simp add: release_row_def)
  moreover have "distinct (map qr_id ?t2)"
    using Cons.prems(1) by (simp add: finish_ids update_row_ids)
  ultimately have "failing_rounds host err nows ?t2 = replicate (length nows) (Some (qr_item (?g row)))"
    by (intro Cons.IH)
  then show ?case using Cons.prems(2) by (simp add: wq_dequeue_def)
qed simp

text \<open>A failing event holds up the table queue. A failed row goes back with its old position, so a worker whose
  dispatch of the oldest row keeps failing dequeues that row every time, however many other events wait.\<close>

lemma failing_head_starves:
  assumes "wq_step\<^sup>*\<^sup>* wq_initial s" and "wq_dequeue now host (ws_table s) = (Some item, t)"
  shows "failing_rounds host err (now # nows) (ws_table s) = replicate (Suc (length nows)) (Some item)"
proof -
  obtain row where "oldest (queued_rows (ws_table s)) = Some row" "qr_item row = item"
    using assms(2) by (rule dequeue_row)
  then show ?thesis
    using failing_rounds_same [of "ws_table s" row host err "now # nows"] wq_reach_ok [OF assms(1)]
    unfolding table_ok_def length_Cons by blast
qed

subsection \<open>The interface Handle relies on\<close>

text \<open>
  What \<open>Handle\<close> needs of a queue: an accepted item is pending, and nothing already pending is dropped by an
  \<open>Enqueue\<close>, accepted or refused.
\<close>

lemma handleSync_queue: "wd_queue (snd (handleSync w evt body ns token d)) = wd_queue d"
  by (auto simp: handleSync_def Let_def markProcessed_def split: prod.split option.split)

locale event_queue =
  fixes enq :: "QueueItem \<Rightarrow> 'q \<Rightarrow> string option \<times> 'q" and pending :: "'q \<Rightarrow> string set"
  assumes enq_accepts: "enq item q = (None, q') \<Longrightarrow> pending q' = insert (q_EventID item) (pending q)"
    and enq_refuses: "enq item q = (Some err, q') \<Longrightarrow> pending q' = pending q"
begin

text \<open>A claimed event is settled synchronously or it keeps its claim and is pending.\<close>

lemma claimed_settled_or_pending:
  assumes "lawful_store (wh_store w) view" and "slots view d (se_ID sevt) = Held token" and "wh_queue w = Some enq"
    and res_def: "res = handleClaimed w sevt body token d"
  shows "pending (wd_queue d) \<subseteq> pending (wd_queue (snd res)) \<and>
    (settled view (se_ID sevt) d res \<or>
     fst res = 200 \<and> se_ID sevt \<in> pending (wd_queue (snd res)) \<and> slots view (snd res) = slots view d)"
proof (cases "classifyNamespace (wh_namespace w) sevt")
  case filterDispatch
  let ?ns = "case extractAppNamespace sevt of None \<Rightarrow> '''' | Some n \<Rightarrow> n"
  let ?item = "\<lparr>q_EventID = se_ID sevt, q_EventType = se_Type sevt, q_Namespace = ?ns, q_Body = body, q_Token = token\<rparr>"
  let ?d1 = "(recordToLog (mkLogged (fromStripeEvent sevt) ''claimed'' '''' 0 body ?ns) d)"
  obtain e q where e: "enq ?item (wd_queue d) = (e, q)" by fastforce
  have res: "res = (if e = None then (200, ?d1\<lparr>wd_queue := q\<rparr>)
      else handleSync w (fromStripeEvent sevt) body ?ns token (?d1\<lparr>wd_queue := q\<rparr>))"
    using e filterDispatch assms(3) by (simp add: res_def handleClaimed_def Let_def)
  show ?thesis
  proof (cases e)
    case None
    then show ?thesis using e enq_accepts [of ?item "wd_queue d" q] res by auto
  next
    case (Some err)
    have "settled view (se_ID sevt) (?d1\<lparr>wd_queue := q\<rparr>) res"
      using handleSync_settled [OF assms(1), of "?d1\<lparr>wd_queue := q\<rparr>" "fromStripeEvent sevt" token] assms(2) Some res by simp
    then show ?thesis
      using Some e enq_refuses [of ?item "wd_queue d" err q] res handleSync_queue [of w "fromStripeEvent sevt" body ?ns token]
      by (simp add: settled_def)
  qed
qed (use assms(1,2) in \<open>auto simp: res_def handleClaimed_def settled_def Let_def slots_release markProcessed_def
      split: prod.split option.split\<close>)

lemma delivery_settled_or_pending:
  assumes "lawful_store (wh_store w) view" and "wh_queue w = Some enq"
    and "accepted lib w r sevt body" and "slots view d (se_ID sevt) = Free"
    and "webhooks_Handle lib w r d = (status, d1)"
  shows "pending (wd_queue d) \<subseteq> pending (wd_queue d1) \<and>
    (status = 500 \<and> slots view d1 = slots view d \<or>
     status = 200 \<and> (slots view d1 (se_ID sevt) = Done okResponse \<or>
       se_ID sevt \<in> pending (wd_queue d1) \<and> (\<exists>token. slots view d1 (se_ID sevt) = Held token)))"
  using assms(1)
proof (cases rule: claim_cases [where d = d and k = "se_ID sevt"])
  case (free tok s)
  let ?d = "d\<lparr>wd_store := s\<rparr>"
  have "handleClaimed w sevt body tok ?d = (status, d1)"
    using free assms(5) by (simp add: Handle_accepted [OF assms(3)])
  then show ?thesis
    using claimed_settled_or_pending [OF assms(1), of ?d sevt tok "(status, d1)" body] assms(2,4) free(3)
    by (auto simp: settled_def fun_upd_idem)
qed (use assms(4) in auto)

end

text \<open>A send to the channel blocks \<open>Handle\<close> until there is room or the request's context ends.\<close>

definition mq_EnqueueWait :: "bool \<Rightarrow> bool \<Rightarrow> QueueItem \<Rightarrow> MemoryQueue \<Rightarrow> string option \<times> MemoryQueue" where
  "mq_EnqueueWait cancelled pick item q =
     (case mq_Enqueue cancelled pick item q of None \<Rightarrow> (Some ''context canceled'', q) | Some r \<Rightarrow> r)"

definition tq_Enqueue :: "time \<Rightarrow> QueueItem \<Rightarrow> qtable \<Rightarrow> string option \<times> qtable" where
  "tq_Enqueue now item t = (None, wq_Enqueue now item t)"

interpretation memory_queue: event_queue "mq_EnqueueWait cancelled pick" "\<lambda>q. set (map q_EventID (mq_ch q))"
  for cancelled pick
  by unfold_locales (auto simp: mq_EnqueueWait_def mq_Enqueue_def split: option.splits if_splits)

interpretation table_queue: event_queue "tq_Enqueue now" "\<lambda>t. set (map qr_id t)" for now
  by unfold_locales (auto simp: tq_Enqueue_def Enqueue_ids simp del: set_map)

text \<open>C17: Async acknowledgement is safe with the table queue. When a delivery of an unclaimed event is answered 200,
  the event is either recorded as processed or holds its claim and has a row in the queue table; when it is
  answered 500 the claim is released. No delivery drops a row.\<close>

theorem async_acknowledged_settled_or_queued:
  assumes "lawful_store (wh_store w) view" and "wh_queue w = Some (tq_Enqueue now)"
    and "accepted lib w r sevt body" and "slots view d (se_ID sevt) = Free"
    and "webhooks_Handle lib w r d = (status, d1)"
  shows "set (map qr_id (wd_queue d)) \<subseteq> set (map qr_id (wd_queue d1)) \<and>
    (status = 500 \<and> slots view d1 = slots view d \<or>
     status = 200 \<and> (slots view d1 (se_ID sevt) = Done okResponse \<or>
       se_ID sevt \<in> set (map qr_id (wd_queue d1)) \<and> (\<exists>token. slots view d1 (se_ID sevt) = Held token)))"
  by (rule table_queue.delivery_settled_or_pending [OF assms])

subsection \<open>Runs of the channel queue\<close>

datatype mq_op = Send bool bool QueueItem | Turn | Close

text \<open>Sends, worker turns and shutdown in any order; a send or a turn that blocks is skipped. The run collects the
  accepted and the dispatched items.\<close>

fun mq_run ::
  "(QueueItem \<Rightarrow> 'd \<Rightarrow> queued_error option \<times> 'd) \<Rightarrow> mq_op list \<Rightarrow> MemoryQueue \<times> 'd \<Rightarrow> QueueItem list \<times> QueueItem list \<times> MemoryQueue \<times> 'd" where
  "mq_run dispatch [] (q, d) = ([], [], q, d)"
| "mq_run dispatch (Send cancelled pick item # ops) (q, d) =
     (case mq_Enqueue cancelled pick item q of
        Some (None, q') \<Rightarrow> (let (acc, rest) = mq_run dispatch ops (q', d) in (item # acc, rest))
      | _ \<Rightarrow> mq_run dispatch ops (q, d))"
| "mq_run dispatch (Turn # ops) (q, d) =
     (case mq_worker dispatch (q, d) of
        None \<Rightarrow> mq_run dispatch ops (q, d)
      | Some st \<Rightarrow> (let (acc, taken, rest) = mq_run dispatch ops st in (acc, hd (mq_ch q) # taken, rest)))"
| "mq_run dispatch (Close # ops) (q, d) = mq_run dispatch ops (mq_Shutdown q, d)"

fun dispatchAll :: "(QueueItem \<Rightarrow> 'd \<Rightarrow> queued_error option \<times> 'd) \<Rightarrow> QueueItem list \<Rightarrow> int \<times> 'd \<Rightarrow> int \<times> 'd" where
  "dispatchAll dispatch [] st = st"
| "dispatchAll dispatch (item # items) (errs, d) =
     (case dispatch item d of (err, d') \<Rightarrow> dispatchAll dispatch items (errs + (if err = None then 0 else 1), d'))"

lemma mq_run_spec:
  assumes "mq_run dispatch ops (q, d) = (acc, taken, q', d')" and "length (mq_ch q) \<le> mq_cap q"
  shows "mq_ch q @ acc = taken @ mq_ch q' \<and> length (mq_ch q') \<le> mq_cap q' \<and>
    (mq_errors q', d') = dispatchAll dispatch taken (mq_errors q, d) \<and> (mq_closed q \<longrightarrow> acc = [])"
  using assms
proof (induction ops arbitrary: q d acc taken)
  case (Cons op ops)
  show ?case
  proof (cases op)
    case (Send cancelled pick item)
    show ?thesis
    proof (cases "\<exists>q'. mq_Enqueue cancelled pick item q = Some (None, q')")
      case True
      then have q': "mq_Enqueue cancelled pick item q = Some (None, q\<lparr>mq_ch := mq_ch q @ [item]\<rparr>)"
        "\<not> mq_closed q" "length (mq_ch q) < mq_cap q"
        by (auto simp: mq_Enqueue_def split: if_splits)
      with Send Cons.prems(1) obtain acc' where "acc = item # acc'"
        "mq_run dispatch ops (q\<lparr>mq_ch := mq_ch q @ [item]\<rparr>, d) = (acc', taken, q', d')"
        by (auto split: prod.splits)
      with Cons.IH [OF this(2)] q' show ?thesis by auto
    next
      case False
      then have "mq_run dispatch ops (q, d) = (acc, taken, q', d')"
        using Send Cons.prems(1) by (auto split: option.splits prod.splits)
      from Cons.IH [OF this Cons.prems(2)] show ?thesis .
    qed
  next
    case Turn
    show ?thesis
    proof (cases "mq_ch q")
      case Nil
      then have "mq_run dispatch ops (q, d) = (acc, taken, q', d')"
        using Turn Cons.prems(1) by (simp add: mq_worker_def)
      from Cons.IH [OF this Cons.prems(2)] show ?thesis .
    next
      case (Cons item rest)
      obtain err d1 where disp: "dispatch item d = (err, d1)" by fastforce
      let ?q1 = "q\<lparr>mq_ch := rest, mq_errors := mq_errors q + (if err = None then 0 else 1)\<rparr>"
      have "mq_worker dispatch (q, d) = Some (?q1, d1)"
        using Cons disp by (simp add: mq_worker_def Let_def)
      then obtain taken' where run: "taken = item # taken'" "mq_run dispatch ops (?q1, d1) = (acc, taken', q', d')"
        using Turn Cons \<open>mq_run dispatch (op # ops) (q, d) = _\<close> by (auto split: prod.splits)
      show ?thesis
        using Cons.IH [OF run(2)] run(1) Cons disp \<open>length (mq_ch q) \<le> mq_cap q\<close> by auto
    qed
  next
    case Close
    then show ?thesis using Cons.IH [of "mq_Shutdown q"] Cons.prems by (auto simp: mq_Shutdown_def)
  qed
qed simp

text \<open>The channel queue dispatches in order and once. In every run of sends, worker turns and shutdown, the accepted
  items are the dispatched ones followed by the waiting ones, in order; the channel stays within its capacity, a
  closed queue accepts nothing, and the state and the error count are those of dispatching the taken items one
  after the other. A failed item is counted but not put back.\<close>

lemma memory_queue_fifo:
  assumes "mq_run dispatch ops (NewMemoryQueue capacity, d) = (acc, taken, q, d')"
  shows "acc = taken @ mq_ch q \<and> mq_Depth q \<le> mq_Capacity q \<and>
    (mq_errors q, d') = dispatchAll dispatch taken (0, d)"
  using mq_run_spec [OF assms] by (simp add: NewMemoryQueue_def mq_Depth_def mq_Capacity_def)

subsection \<open>Witnesses\<close>

definition ex_queue :: wq_state where
  "ex_queue = \<lparr>ws_table = wq_Enqueue 7 (ex_item\<lparr>q_EventID := ''evt_2''\<rparr>) (wq_Enqueue 5 ex_item []), ws_inflight = [],
     ws_history = [Accepted ''evt_2'', Accepted (q_EventID ex_item)]\<rparr>"

lemma ex_queue_reachable: "wq_step\<^sup>*\<^sup>* wq_initial ex_queue"
proof -
  let ?s = "\<lparr>ws_table = wq_Enqueue 5 ex_item [], ws_inflight = [], ws_history = [Accepted (q_EventID ex_item)]\<rparr>"
  have "wq_step wq_initial ?s" using wq_step.enqueue [where s = wq_initial and now = 5 and item = ex_item] by (simp add: wq_initial_def)
  moreover have "wq_step ?s ex_queue"
    using wq_step.enqueue [where s = ?s and now = 7 and item = "ex_item\<lparr>q_EventID := ''evt_2''\<rparr>"] by (simp add: ex_queue_def)
  ultimately show ?thesis by (blast intro: converse_rtranclp_into_rtranclp)
qed

lemma ex_queue_dequeue:
  "\<exists>t. wq_dequeue 9 ''host'' (ws_table ex_queue) = (Some ex_item, t)"
  by (simp add: ex_queue_def ex_item_def wq_Enqueue_def wq_dequeue_def)

theorem durable_queue_no_loss_witness:
  "''evt_2'' \<in> set (map qr_id (ws_table ex_queue)) \<and> distinct (map qr_id (ws_table ex_queue)) \<and>
   fst (wq_dequeue 9 ''host'' (ws_table ex_queue)) \<noteq> None"
proof -
  obtain t where t: "wq_dequeue 9 ''host'' (ws_table ex_queue) = (Some ex_item, t)" using ex_queue_dequeue by blast
  from durable_queue_no_loss [OF ex_queue_reachable this, of "''evt_2''"] t show ?thesis
    by (simp add: ex_queue_def)
qed

lemma failing_head_starves_instance:
  "failing_rounds ''host'' ''timeout'' [9, 10, 11] (ws_table ex_queue) = [Some ex_item, Some ex_item, Some ex_item]"
proof -
  obtain t where "wq_dequeue 9 ''host'' (ws_table ex_queue) = (Some ex_item, t)" using ex_queue_dequeue by blast
  from failing_head_starves [OF ex_queue_reachable this, of "''timeout''" "[10, 11]"] show ?thesis
    by simp
qed

lemma memory_queue_fifo_instance:
  "fst (snd (mq_run (\<lambda>item n. (None, n + (1::nat))) [Send False False ex_item, Turn, Close, Turn] (NewMemoryQueue 2, 0))) = [ex_item]"
proof -
  obtain acc taken q d' where r: "mq_run (\<lambda>item n. (None, n + (1::nat))) [Send False False ex_item, Turn, Close, Turn]
      (NewMemoryQueue 2, 0) = (acc, taken, q, d')" by (metis surj_pair)
  from memory_queue_fifo [OF r] r show ?thesis
    by (auto simp: NewMemoryQueue_def mq_Enqueue_def mq_worker_def mq_Shutdown_def)
qed

definition ex_async :: "(exStore, qtable, nat, nat) Webhooks" where
  "ex_async = \<lparr>wh_signingSecret = ''whsec'', wh_additionalSecrets = [], wh_store = exOps, wh_namespace = ''shop'',
     wh_handlers = ex_handlers (\<lambda>_. False), wh_dedupTTL = DefaultDedupTTL, wh_sigTolerance = DefaultSignatureTolerance,
     wh_strictAPIVersion = False, wh_perEventPolicy = [], wh_queue = Some (tq_Enqueue 5), wh_allowedCIDRs = [],
     wh_realIPHeader = '''', wh_maxBodyBytes = DefaultMaxBodyBytes,
     wh_syncDispatchTimeout = DefaultSyncDispatchTimeout, wh_customHandlers = []\<rparr>"

definition ex_async_world :: "(exStore, qtable, nat) world" where
  "ex_async_world = \<lparr>wd_store = ([], 0), wd_log = Some [], wd_queue = [], wd_app = 0, wd_clock = int, wd_ticks = 0,
     wd_sigFail = \<lparr>rl_lastSec = 0, rl_emittedThisSec = 0, rl_suppressed = 0, rl_burstPerSec = 0\<rparr>\<rparr>"

theorem async_acknowledged_settled_or_queued_witness:
  "se_ID demo_event \<in> set (map qr_id (wd_queue (snd (webhooks_Handle ex_lib ex_async (ex_request ''sig'') ex_async_world))))"
proof -
  let ?res = "webhooks_Handle ex_lib ex_async (ex_request ''sig'') ex_async_world"
  have "lawful_store (wh_store ex_async) exView" by (simp add: ex_async_def exOps_lawful)
  moreover have "wh_queue ex_async = Some (tq_Enqueue 5)" by (simp add: ex_async_def)
  moreover have "accepted ex_lib ex_async (ex_request ''sig'') demo_event ''{}''"
    by (simp add: accepted_def ex_async_def ex_request_def readBody_def verifySignature_def ex_lib_def DefaultMaxBodyBytes_def)
  moreover have "slots exView ex_async_world (se_ID demo_event) = Free" by code_simp
  moreover have "fst ?res = 200" "slots exView (snd ?res) (se_ID demo_event) \<noteq> Done okResponse" by code_simp+
  ultimately show ?thesis
    using async_acknowledged_settled_or_queued [OF _ _ _ _ prod.collapse [symmetric]] by fastforce
qed

end
