(* ===== verification/Catalog_Sync.thy ===== *)
theory Catalog_Sync
  imports Catalog Namespace_Stamp
begin

text \<open>
  Reconciling Stripe with the catalog: \<open>catalog/diff.go\<close> computes a plan from the specification and the objects
  Stripe lists, \<open>catalog/sync.go\<close> executes it in dependency order, \<open>catalog/drift.go\<close> reports it, and
  \<open>catalog/cache.go\<close> resolves lookup keys to price ids. The \<open>Backend\<close> and \<open>PriceLister\<close> interfaces are
  parameters: the record \<open>backendOps\<close> over an abstract state, whose calls answer an error or nothing, and a
  function. The human-readable reasons and renderings of a plan are left out.

  \<open>Diff\<close> slices each product id after five bytes, which panics on a shorter one; \<open>None\<close> is that panic.
\<close>

subsection \<open>Stripe objects\<close>

record ExistingPrice =
  ep_ID :: string
  ep_LookupKey :: string
  ep_Active :: bool
  ep_Amount :: int
  ep_Currency :: string
  ep_Type :: string
  ep_Interval :: string
  ep_IntervalCount :: int
  ep_Metadata :: "(string, string) gomap"

record ExistingProduct =
  xp_ID :: string
  xp_Name :: string
  xp_TaxCode :: string
  xp_Active :: bool
  xp_Description :: string
  xp_Metadata :: "(string, string) gomap"
  xp_Prices :: "ExistingPrice list"

record ExistingMeter =
  xm_ID :: string
  xm_EventName :: string
  xm_DisplayName :: string
  xm_AggregateBy :: string
  xm_Active :: bool

record NewMeter =
  nm_EventName :: string
  nm_DisplayName :: string
  nm_AggregateBy :: string

record ProductUpdate =
  pu_Name :: string
  pu_Description :: string
  pu_Metadata :: "(string, string) gomap"

record NewProduct =
  np_ID :: string
  np_Name :: string
  np_TaxCode :: string
  np_Description :: string
  np_Metadata :: "(string, string) gomap"

record NewPrice =
  nr_ProductID :: string
  nr_LookupKey :: string
  nr_Amount :: int
  nr_Currency :: string
  nr_Type :: string
  nr_Interval :: string
  nr_IntervalCount :: int
  nr_Metadata :: "(string, string) gomap"
  nr_TransferLookupKey :: bool
  nr_TaxBehavior :: string
  nr_TaxRateOverrides :: "string list"

subsection \<open>Plans\<close>

datatype PlanOp = OpCreate | OpUpdate | OpReplace | OpArchive | OpUnarchive | OpDrift

datatype PlanKind = KindProduct | KindPrice | KindMeter

record PlanItem =
  it_Op :: PlanOp
  it_Kind :: PlanKind
  it_Key :: string
  it_NewProduct :: "NewProduct option"
  it_ExistingProduct :: "ExistingProduct option"
  it_NewPrice :: "NewPrice option"
  it_ExistingPrice :: "ExistingPrice option"
  it_NewMeter :: "NewMeter option"
  it_ExistingMeter :: "ExistingMeter option"

record Plan =
  plan_Namespace :: string
  plan_Items :: "PlanItem list"

definition item :: "PlanOp \<Rightarrow> PlanKind \<Rightarrow> string \<Rightarrow> PlanItem" where
  "item oper kind key =
     \<lparr>it_Op = oper, it_Kind = kind, it_Key = key, it_NewProduct = None, it_ExistingProduct = None, it_NewPrice = None,
      it_ExistingPrice = None, it_NewMeter = None, it_ExistingMeter = None\<rparr>"

definition Plan_Empty :: "Plan \<Rightarrow> bool" where
  "Plan_Empty p \<longleftrightarrow> \<not> list_ex (\<lambda>it. it_Op it \<noteq> OpDrift) (plan_Items p)"

subsection \<open>Helpers of Diff\<close>

definition sortedKeys :: "(string, 'v) gomap \<Rightarrow> string list" where
  "sortedKeys m = sortStrings (map fst m)"

definition namespacedMetadata :: "string \<Rightarrow> (string, string) gomap \<Rightarrow> (string, string) gomap" where
  "namespacedMetadata namespace base = mset_key MetadataKeyNamespace namespace base"

definition priceNeedsReplace :: "Price \<Rightarrow> ExistingPrice \<Rightarrow> bool" where
  "priceNeedsReplace spec existing \<longleftrightarrow>
     (if \<not> ep_Active existing then True
      else if pr_Amount spec \<noteq> ep_Amount existing then True
      else if pr_Currency spec \<noteq> ep_Currency existing then True
      else if pr_Type spec \<noteq> ep_Type existing then True
      else if pr_Type spec = PriceTypeRecurring then
        pr_Interval spec \<noteq> ep_Interval existing \<or> pr_IntervalCount spec \<noteq> ep_IntervalCount existing
      else False)"

definition productNeedsUpdate :: "Product \<Rightarrow> ExistingProduct \<Rightarrow> bool" where
  "productNeedsUpdate spec existing \<longleftrightarrow> pd_Name spec \<noteq> xp_Name existing \<or> pd_Description spec \<noteq> xp_Description existing"

definition existingProductKey :: "ExistingProduct \<Rightarrow> string \<Rightarrow> string" where
  "existingProductKey p namespace =
     (let prefix = ''prod_'' @ namespace @ ''_''
      in if HasPrefix (xp_ID p) prefix then TrimPrefix (xp_ID p) prefix else '''')"

definition stripeProductSuffix :: "string \<Rightarrow> string option" where
  "stripeProductSuffix pid =
     (if length pid < 5 then None
      else Some (case cutAt CHR ''_'' (drop 5 pid) of None \<Rightarrow> '''' | Some (_, rest) \<Rightarrow> rest))"

definition sortedProductKeys :: "ExistingProduct list \<Rightarrow> string list option" where
  "sortedProductKeys current =
     (if list_ex (\<lambda>p. stripeProductSuffix (xp_ID p) = None) current then None
      else Some (sortStrings (remdups (filter (\<lambda>k. k \<noteq> '''')
                   (map (\<lambda>p. the (stripeProductSuffix (xp_ID p))) current)))))"

definition lookupKeyInSpec :: "Spec \<Rightarrow> string \<Rightarrow> string" where
  "lookupKeyInSpec spec lookupKey =
     (if \<not> HasPrefix lookupKey (sp_Namespace spec @ ''.'') then ''''
      else case cutAt CHR ''.'' (TrimPrefix lookupKey (sp_Namespace spec @ ''.'')) of
             None \<Rightarrow> ''''
           | Some (productKey, priceKey) \<Rightarrow>
               (case map_of (sp_Products spec) productKey of
                  None \<Rightarrow> ''''
                | Some product \<Rightarrow>
                    (case map_of (pd_Prices product) priceKey of
                       None \<Rightarrow> ''''
                     | Some _ \<Rightarrow> productKey @ ''.'' @ priceKey)))"

definition keyFromLookupKey :: "string \<Rightarrow> string \<Rightarrow> string" where
  "keyFromLookupKey namespace lookupKey = TrimPrefix lookupKey (namespace @ ''.'')"

subsection \<open>Diff\<close>

text \<open>The indexes of the current state; a later entry of the list overwrites an earlier one.\<close>

definition currentByID :: "ExistingProduct list \<Rightarrow> string \<Rightarrow> ExistingProduct option" where
  "currentByID current = map_of (rev (map (\<lambda>p. (xp_ID p, p)) current))"

definition currentPriceByLookupKey :: "ExistingProduct list \<Rightarrow> string \<Rightarrow> ExistingPrice option" where
  "currentPriceByLookupKey current =
     map_of (rev (map (\<lambda>r. (ep_LookupKey r, r))
       (filter (\<lambda>r. ep_LookupKey r \<noteq> '''') (concat (map xp_Prices current)))))"

definition newProduct :: "Spec \<Rightarrow> string \<Rightarrow> Product \<Rightarrow> NewProduct" where
  "newProduct spec productKey product =
     \<lparr>np_ID = NamespacedProductID spec productKey, np_Name = pd_Name product, np_TaxCode = pd_TaxCategory product,
      np_Description = pd_Description product,
      np_Metadata = namespacedMetadata (sp_Namespace spec) (pd_Metadata product)\<rparr>"

definition newPrice :: "Spec \<Rightarrow> string \<Rightarrow> string \<Rightarrow> Price \<Rightarrow> bool \<Rightarrow> NewPrice" where
  "newPrice spec productKey priceKey price transfer =
     \<lparr>nr_ProductID = NamespacedProductID spec productKey, nr_LookupKey = NamespacedPriceKey spec productKey priceKey,
      nr_Amount = pr_Amount price, nr_Currency = pr_Currency price, nr_Type = pr_Type price,
      nr_Interval = pr_Interval price, nr_IntervalCount = pr_IntervalCount price,
      nr_Metadata = namespacedMetadata (sp_Namespace spec) [], nr_TransferLookupKey = transfer,
      nr_TaxBehavior = pr_TaxBehavior price, nr_TaxRateOverrides = pr_TaxRateOverrides price\<rparr>"

definition diffProduct :: "Spec \<Rightarrow> ExistingProduct list \<Rightarrow> string \<Rightarrow> Product \<Rightarrow> PlanItem list" where
  "diffProduct spec current productKey product =
     (case currentByID current (NamespacedProductID spec productKey) of
        None \<Rightarrow> [(item OpCreate KindProduct productKey)\<lparr>it_NewProduct := Some (newProduct spec productKey product)\<rparr>]
      | Some existing \<Rightarrow>
          if xp_Active existing \<and> productNeedsUpdate product existing then
            [(item OpUpdate KindProduct productKey)
               \<lparr>it_NewProduct := Some (newProduct spec productKey product), it_ExistingProduct := Some existing\<rparr>]
          else if \<not> xp_Active existing then
            [(item OpUnarchive KindProduct productKey)\<lparr>it_ExistingProduct := Some existing\<rparr>]
          else [])"

definition diffPrice :: "Spec \<Rightarrow> ExistingProduct list \<Rightarrow> string \<Rightarrow> string \<Rightarrow> Price \<Rightarrow> PlanItem list" where
  "diffPrice spec current productKey priceKey price =
     (let itemKey = productKey @ ''.'' @ priceKey
      in case currentPriceByLookupKey current (NamespacedPriceKey spec productKey priceKey) of
           None \<Rightarrow> [(item OpCreate KindPrice itemKey)\<lparr>it_NewPrice := Some (newPrice spec productKey priceKey price False)\<rparr>]
         | Some existingPrice \<Rightarrow>
             if priceNeedsReplace price existingPrice then
               [(item OpReplace KindPrice itemKey)
                  \<lparr>it_NewPrice := Some (newPrice spec productKey priceKey price True),
                   it_ExistingPrice := Some existingPrice\<rparr>]
             else [])"

text \<open>The walk over the specification in key order.\<close>

definition diffSpec :: "Spec \<Rightarrow> ExistingProduct list \<Rightarrow> PlanItem list" where
  "diffSpec spec current =
     concat (map (\<lambda>productKey.
       (case map_of (sp_Products spec) productKey of
          None \<Rightarrow> []
        | Some product \<Rightarrow>
            diffProduct spec current productKey product
            @ concat (map (\<lambda>priceKey.
                (case map_of (pd_Prices product) priceKey of
                   None \<Rightarrow> []
                 | Some price \<Rightarrow> diffPrice spec current productKey priceKey price)) (sortedKeys (pd_Prices product)))))
       (sortedKeys (sp_Products spec)))"

text \<open>The walk over Stripe's state: what the specification no longer names is archived.\<close>

definition diffExisting :: "Spec \<Rightarrow> string \<Rightarrow> ExistingProduct \<Rightarrow> PlanItem list" where
  "diffExisting spec productKey existing =
     (if map_of (sp_Products spec) productKey = None \<and> xp_Active existing then
        [(item OpArchive KindProduct productKey)\<lparr>it_ExistingProduct := Some existing\<rparr>]
      else [])
     @ concat (map (\<lambda>ep.
         if lookupKeyInSpec spec (ep_LookupKey ep) = '''' \<and> ep_Active ep then
           [(item OpArchive KindPrice (keyFromLookupKey (sp_Namespace spec) (ep_LookupKey ep)))
              \<lparr>it_ExistingPrice := Some ep\<rparr>]
         else []) (xp_Prices existing))"

text \<open>When no product has the key, the source goes on with the zero value, which plans nothing.\<close>

definition diffCurrent :: "Spec \<Rightarrow> ExistingProduct list \<Rightarrow> string \<Rightarrow> PlanItem list" where
  "diffCurrent spec current productKey =
     (case List.find (\<lambda>p. existingProductKey p (sp_Namespace spec) = productKey) current of
        None \<Rightarrow> []
      | Some existing \<Rightarrow> diffExisting spec productKey existing)"

definition Diff :: "Spec \<Rightarrow> ExistingProduct list \<Rightarrow> Plan option" where
  "Diff spec current =
     (case sortedProductKeys current of
        None \<Rightarrow> None
      | Some keys \<Rightarrow>
          Some \<lparr>plan_Namespace = sp_Namespace spec,
                plan_Items = diffSpec spec current @ concat (map (diffCurrent spec current) keys)\<rparr>)"

definition diffMeterCreate :: "Spec \<Rightarrow> ExistingMeter list \<Rightarrow> string \<Rightarrow> PlanItem list" where
  "diffMeterCreate spec currentMeters meterKey =
     (case map_of (sp_Meters spec) meterKey of
        None \<Rightarrow> []
      | Some m \<Rightarrow>
          (let namespacedEvent = sp_Namespace spec @ ''.'' @ mt_EventName m
           in if list_ex (\<lambda>x. xm_EventName x = namespacedEvent) currentMeters then []
              else [(item OpCreate KindMeter meterKey)
                      \<lparr>it_NewMeter := Some \<lparr>nm_EventName = namespacedEvent, nm_DisplayName = mt_DisplayName m,
                                            nm_AggregateBy = mt_AggregateBy m\<rparr>\<rparr>]))"

definition diffMeterArchive :: "Spec \<Rightarrow> ExistingMeter \<Rightarrow> PlanItem list" where
  "diffMeterArchive spec m =
     (let prefix = sp_Namespace spec @ ''.''
      in if length (xm_EventName m) < length prefix \<or> take (length prefix) (xm_EventName m) \<noteq> prefix then []
         else (let shortName = drop (length prefix) (xm_EventName m)
               in if \<not> list_ex (\<lambda>(_, sm). mt_EventName sm = shortName) (sp_Meters spec) \<and> xm_Active m then
                    [(item OpArchive KindMeter shortName)\<lparr>it_ExistingMeter := Some m\<rparr>]
                  else []))"

definition DiffWithMeters :: "Spec \<Rightarrow> ExistingProduct list \<Rightarrow> ExistingMeter list \<Rightarrow> Plan option" where
  "DiffWithMeters spec currentProducts currentMeters =
     (case Diff spec currentProducts of
        None \<Rightarrow> None
      | Some plan \<Rightarrow>
          Some (plan\<lparr>plan_Items := plan_Items plan
                  @ concat (map (diffMeterCreate spec currentMeters) (sortedKeys (sp_Meters spec)))
                  @ concat (map (diffMeterArchive spec) currentMeters)\<rparr>))"

subsection \<open>Apply\<close>

record 's backendOps =
  be_CreateProduct :: "NewProduct \<Rightarrow> 's \<Rightarrow> string option \<times> 's"
  be_UpdateProduct :: "string \<Rightarrow> ProductUpdate \<Rightarrow> 's \<Rightarrow> string option \<times> 's"
  be_UpdateProductActive :: "string \<Rightarrow> bool \<Rightarrow> 's \<Rightarrow> string option \<times> 's"
  be_CreatePrice :: "NewPrice \<Rightarrow> 's \<Rightarrow> string option \<times> 's"
  be_UpdatePriceActive :: "string \<Rightarrow> bool \<Rightarrow> 's \<Rightarrow> string option \<times> 's"
  be_CreateMeter :: "NewMeter \<Rightarrow> 's \<Rightarrow> string option \<times> 's"
  be_ArchiveMeter :: "string \<Rightarrow> 's \<Rightarrow> string option \<times> 's"
  be_ListProducts :: "string \<Rightarrow> 's \<Rightarrow> (string + ExistingProduct list) \<times> 's"
  be_ListMeters :: "string \<Rightarrow> 's \<Rightarrow> (string + ExistingMeter list) \<times> 's"

text \<open>A failed call with the operation and key of its item, or a nil dereference of an item without its object.\<close>

datatype applyError = CallFailed PlanOp PlanKind string string | NilDereference

definition itemsByOpKind :: "PlanItem list \<Rightarrow> PlanOp \<Rightarrow> PlanKind \<Rightarrow> PlanItem list" where
  "itemsByOpKind items oper kind = filter (\<lambda>it. it_Op it = oper \<and> it_Kind it = kind) items"

fun forItems :: "(PlanItem \<Rightarrow> 's \<Rightarrow> applyError option \<times> 's) \<Rightarrow> PlanItem list \<Rightarrow> 's \<Rightarrow> applyError option \<times> 's" where
  "forItems act [] s = (None, s)"
| "forItems act (it # its) s =
     (case act it s of
        (Some err, s') \<Rightarrow> (Some err, s')
      | (None, s') \<Rightarrow> forItems act its s')"

text \<open>A call on the object the item carries.\<close>

definition callOn :: "PlanItem \<Rightarrow> 'a option \<Rightarrow> ('a \<Rightarrow> 's \<Rightarrow> string option \<times> 's) \<Rightarrow> 's \<Rightarrow> applyError option \<times> 's" where
  "callOn it obj call s =
     (case obj of
        None \<Rightarrow> (Some NilDereference, s)
      | Some x \<Rightarrow>
          (case call x s of
             (None, s') \<Rightarrow> (None, s')
           | (Some err, s') \<Rightarrow> (Some (CallFailed (it_Op it) (it_Kind it) (it_Key it) err), s')))"

definition andThen :: "('s \<Rightarrow> 'e option \<times> 's) \<Rightarrow> ('s \<Rightarrow> 'e option \<times> 's) \<Rightarrow> 's \<Rightarrow> 'e option \<times> 's" where
  "andThen f g s = (case f s of (Some err, s') \<Rightarrow> (Some err, s') | (None, s') \<Rightarrow> g s')"

definition applyItem :: "'s backendOps \<Rightarrow> PlanItem \<Rightarrow> 's \<Rightarrow> applyError option \<times> 's" where
  "applyItem be it =
     (case (it_Op it, it_Kind it) of
        (OpCreate, KindProduct) \<Rightarrow> callOn it (it_NewProduct it) (be_CreateProduct be)
      | (OpUnarchive, KindProduct) \<Rightarrow> callOn it (it_ExistingProduct it) (\<lambda>p. be_UpdateProductActive be (xp_ID p) True)
      | (OpUpdate, KindProduct) \<Rightarrow>
          callOn it (case (it_NewProduct it, it_ExistingProduct it) of (Some n, Some p) \<Rightarrow> Some (n, p) | _ \<Rightarrow> None)
            (\<lambda>(n, p). be_UpdateProduct be (xp_ID p)
               \<lparr>pu_Name = np_Name n, pu_Description = np_Description n, pu_Metadata = np_Metadata n\<rparr>)
      | (OpCreate, KindPrice) \<Rightarrow> callOn it (it_NewPrice it) (be_CreatePrice be)
      | (OpReplace, KindPrice) \<Rightarrow>
          andThen (callOn it (it_NewPrice it) (be_CreatePrice be))
                  (callOn it (it_ExistingPrice it) (\<lambda>r. be_UpdatePriceActive be (ep_ID r) False))
      | (OpArchive, KindPrice) \<Rightarrow> callOn it (it_ExistingPrice it) (\<lambda>r. be_UpdatePriceActive be (ep_ID r) False)
      | (OpArchive, KindProduct) \<Rightarrow> callOn it (it_ExistingProduct it) (\<lambda>p. be_UpdateProductActive be (xp_ID p) False)
      | (OpCreate, KindMeter) \<Rightarrow> callOn it (it_NewMeter it) (be_CreateMeter be)
      | (OpArchive, KindMeter) \<Rightarrow> callOn it (it_ExistingMeter it) (\<lambda>m. be_ArchiveMeter be (xm_ID m))
      | _ \<Rightarrow> (\<lambda>s. (None, s)))"

text \<open>The passes in the order of the source.\<close>

definition applyOrder :: "(PlanOp \<times> PlanKind) list" where
  "applyOrder =
     [(OpCreate, KindProduct), (OpUnarchive, KindProduct), (OpUpdate, KindProduct), (OpCreate, KindPrice),
      (OpReplace, KindPrice), (OpArchive, KindPrice), (OpArchive, KindProduct), (OpCreate, KindMeter),
      (OpArchive, KindMeter)]"

definition catalog_Apply :: "'s backendOps \<Rightarrow> PlanItem list \<Rightarrow> 's \<Rightarrow> applyError option \<times> 's" where
  "catalog_Apply be items =
     forItems (applyItem be) (concat (map (\<lambda>(oper, kind). itemsByOpKind items oper kind) applyOrder))"

subsection \<open>Drift\<close>

record DriftReport =
  dr_Namespace :: string
  dr_CheckedAt :: time
  dr_Items :: "PlanItem list"
  dr_HasDrift :: bool

datatype driftError = ListProductsFailed string | ListMetersFailed string | DiffPanics

definition CheckDrift :: "'s backendOps \<Rightarrow> time \<Rightarrow> Spec \<Rightarrow> 's \<Rightarrow> (driftError + DriftReport) \<times> 's" where
  "CheckDrift be now spec s =
     (case be_ListProducts be (sp_Namespace spec) s of
        (Inl err, s1) \<Rightarrow> (Inl (ListProductsFailed err), s1)
      | (Inr products, s1) \<Rightarrow>
          (case be_ListMeters be (sp_Namespace spec) s1 of
             (Inl err, s2) \<Rightarrow> (Inl (ListMetersFailed err), s2)
           | (Inr meters, s2) \<Rightarrow>
               (case DiffWithMeters spec products meters of
                  None \<Rightarrow> (Inl DiffPanics, s2)
                | Some plan \<Rightarrow>
                    (Inr \<lparr>dr_Namespace = sp_Namespace spec, dr_CheckedAt = now, dr_Items = plan_Items plan,
                          dr_HasDrift = \<not> Plan_Empty plan\<rparr>, s2))))"

definition DriftReport_Apply :: "'s backendOps \<Rightarrow> DriftReport \<Rightarrow> 's \<Rightarrow> applyError option \<times> 's" where
  "DriftReport_Apply be r s = (if \<not> dr_HasDrift r then (None, s) else catalog_Apply be (dr_Items r) s)"

subsection \<open>The price cache\<close>

record ResolvedPrice =
  rp_LookupKey :: string
  rp_PriceID :: string
  rp_ProductID :: string
  rp_Active :: bool

record Cache =
  ca_byKey :: "(string, string) gomap"
  ca_warmed :: bool

definition NewCache :: Cache where
  "NewCache = \<lparr>ca_byKey = [], ca_warmed = False\<rparr>"

datatype warmError = ListFailed string | KeysMissing "string list"

fun indexActive :: "ResolvedPrice list \<Rightarrow> (string, string) gomap \<Rightarrow> (string, string) gomap" where
  "indexActive [] m = m"
| "indexActive (p # ps) m = indexActive ps (if rp_Active p then mset_key (rp_LookupKey p) (rp_PriceID p) m else m)"

text \<open>\<open>lister\<close> is \<open>PriceLister.ListByLookupKeys\<close>.\<close>

definition Cache_Warm :: "(string list \<Rightarrow> string + ResolvedPrice list) \<Rightarrow> Spec \<Rightarrow> Cache \<Rightarrow> warmError option \<times> Cache" where
  "Cache_Warm lister spec c =
     (let keys = AllLookupKeys spec
      in if keys = [] then (None, c\<lparr>ca_warmed := True\<rparr>)
         else case lister keys of
                Inl err \<Rightarrow> (Some (ListFailed err), c)
              | Inr resolved \<Rightarrow>
                  (let next = indexActive resolved [];
                       missing = filter (\<lambda>k. map_of next k = None) keys
                   in if missing \<noteq> [] then (Some (KeysMissing missing), c)
                      else (None, c\<lparr>ca_byKey := next, ca_warmed := True\<rparr>)))"

definition Cache_Lookup :: "Cache \<Rightarrow> string \<Rightarrow> string option" where
  "Cache_Lookup c namespacedKey = map_of (ca_byKey c) namespacedKey"

definition PriceKeyByStripeID :: "Cache \<Rightarrow> string \<Rightarrow> string option" where
  "PriceKeyByStripeID c stripeID = map_option fst (List.find (\<lambda>(_, id). id = stripeID) (ca_byKey c))"

end
