(* ===== verification/Catalog_Names.thy ===== *)
theory Catalog_Names
  imports Catalog_Sync
begin

text \<open>
  What \<open>NewSpec\<close> accepts is well formed and in normal form; lookup keys of an accepted specification identify its
  prices.
\<close>

subsection \<open>Well-formed specifications\<close>

definition price_ok :: "Price \<Rightarrow> bool" where
  "price_ok p \<longleftrightarrow> 0 \<le> pr_Amount p \<and> currencyRegex (pr_Currency p) \<and>
     (pr_Type p = PriceTypeRecurring \<and> pr_Interval p \<noteq> '''' \<and> pr_IntervalCount p \<noteq> 0 \<or>
      pr_Type p = PriceTypeOneTime \<and> pr_Interval p = '''' \<and> pr_IntervalCount p = 0)"

definition prices_ok :: "(string, Price) gomap \<Rightarrow> bool" where
  "prices_ok ps \<longleftrightarrow> (\<forall>(k, p) \<in> set ps. keyRegex k \<and> price_ok p)"

definition product_ok :: "Product \<Rightarrow> bool" where
  "product_ok p \<longleftrightarrow> pd_Name p \<noteq> '''' \<and> pd_TaxCategory p \<noteq> '''' \<and> pd_Prices p \<noteq> [] \<and> prices_ok (pd_Prices p) \<and>
     (\<forall>g. pd_RecurringGrant p = Some g \<longrightarrow>
        hasRecurring (pd_Prices p) \<and> rg_Bucket g \<noteq> '''' \<and> 0 < rg_Amount g \<and> 0 \<le> rg_ValidDaysFromGrant g) \<and>
     (\<forall>g. pd_CreditGrant p = Some g \<longrightarrow>
        \<not> hasRecurring (pd_Prices p) \<and> cg_Bucket g \<noteq> '''' \<and> 0 < cg_Amount g \<and> 0 \<le> cg_ValidDays g)"

definition products_ok :: "(string, Product) gomap \<Rightarrow> bool" where
  "products_ok ps \<longleftrightarrow> (\<forall>(k, p) \<in> set ps. keyRegex k \<and> product_ok p)"

definition coupons_ok :: "(string, Coupon) gomap \<Rightarrow> bool" where
  "coupons_ok cs \<longleftrightarrow> (\<forall>(k, c) \<in> set cs. couponKeyRegex k \<and> validateCoupon k c = [])"

definition meters_ok :: "(string, Meter) gomap \<Rightarrow> bool" where
  "meters_ok ms \<longleftrightarrow> (\<forall>(k, m) \<in> set ms. keyRegex k \<and> mt_EventName m \<noteq> '''' \<and> mt_AggregateBy m \<noteq> '''' \<and> mt_DisplayName m \<noteq> '''')"

definition meter_refs_ok :: "(string, Meter) gomap \<Rightarrow> (string, Product) gomap \<Rightarrow> bool" where
  "meter_refs_ok ms ps \<longleftrightarrow> (\<forall>(_, p) \<in> set ps. \<forall>(_, r) \<in> set (pd_Prices p). pr_MeterRef r \<noteq> '''' \<longrightarrow>
     map_of ms (pr_MeterRef r) \<noteq> None \<and> pr_Type r = PriceTypeRecurring)"

definition spec_ok :: "Spec \<Rightarrow> bool" where
  "spec_ok s \<longleftrightarrow> namespaceRegex (sp_Namespace s) \<and> sp_Products s \<noteq> [] \<and> products_ok (sp_Products s) \<and>
     coupons_ok (sp_Coupons s) \<and> meters_ok (sp_Meters s) \<and> meter_refs_ok (sp_Meters s) (sp_Products s)"

lemma validatePrice_sound: "validatePrice pre p = (q, []) \<Longrightarrow> price_ok q"
  by (auto simp: validatePrice_def price_ok_def Let_def split: if_splits)

lemma validatePrice_complete: "price_ok p \<Longrightarrow> validatePrice pre p = (p, [])"
  by (auto simp: validatePrice_def price_ok_def Let_def currencyRegex_def)

lemma validatePrices_sound: "validatePrices pre ps = (qs, []) \<Longrightarrow> map fst qs = map fst ps \<and> prices_ok qs"
proof (induction ps arbitrary: qs)
  case (Cons kp ps)
  then show ?case
    by (cases kp) (fastforce simp: prices_ok_def Let_def split: prod.splits if_splits dest: validatePrice_sound)
qed (simp add: prices_ok_def)

lemma validatePrices_complete: "prices_ok ps \<Longrightarrow> validatePrices pre ps = (ps, [])"
  by (induction ps) (auto simp: prices_ok_def validatePrice_complete)

lemma validateProduct_sound: "validateProduct k p = (q, []) \<Longrightarrow> product_ok q"
  by (auto simp: validateProduct_def product_ok_def Let_def validateRecurringGrant_def validateCreditGrant_def
      split: prod.splits if_splits option.splits dest: validatePrices_sound)

lemma validateProduct_complete: "product_ok p \<Longrightarrow> validateProduct k p = (p, [])"
  by (auto simp: validateProduct_def product_ok_def Let_def validateRecurringGrant_def validateCreditGrant_def
      validatePrices_complete split: option.split)

lemma validateProducts_sound: "validateProducts ps = (qs, []) \<Longrightarrow> map fst qs = map fst ps \<and> products_ok qs"
proof (induction ps arbitrary: qs)
  case (Cons kp ps)
  then show ?case
    by (cases kp) (fastforce simp: products_ok_def Let_def split: prod.splits if_splits dest: validateProduct_sound)
qed (simp add: products_ok_def)

lemma validateProducts_complete: "products_ok ps \<Longrightarrow> validateProducts ps = (ps, [])"
  by (induction ps) (auto simp: products_ok_def validateProduct_complete)

lemma validateCoupons_sound: "validateCoupons cs = (ds, []) \<Longrightarrow> ds = cs \<and> coupons_ok ds"
proof (induction cs arbitrary: ds)
  case (Cons kc cs)
  then show ?case
    by (cases kc) (fastforce simp: coupons_ok_def Let_def split: prod.splits if_splits)
qed (simp add: coupons_ok_def)

lemma validateCoupons_complete: "coupons_ok cs \<Longrightarrow> validateCoupons cs = (cs, [])"
  by (induction cs) (auto simp: coupons_ok_def)

lemma keyRegex_nonempty: "keyRegex k \<Longrightarrow> k \<noteq> ''''"
  by (auto simp: keyRegex_def)

lemma validateMeters_sound: "validateMeters ms = (ns, []) \<Longrightarrow> map fst ns = map fst ms \<and> meters_ok ns"
proof (induction ms arbitrary: ns)
  case (Cons km ms)
  then show ?case
    by (cases km) (fastforce simp: meters_ok_def Let_def normalizeMeter_def split: prod.splits if_splits dest: keyRegex_nonempty)
qed (simp add: meters_ok_def)

lemma normalizeMeter_id:
  "mt_EventName m \<noteq> '''' \<Longrightarrow> mt_AggregateBy m \<noteq> '''' \<Longrightarrow> mt_DisplayName m \<noteq> '''' \<Longrightarrow> normalizeMeter k m = m"
  by (simp add: normalizeMeter_def)

lemma validateMeters_complete: "meters_ok ms \<Longrightarrow> validateMeters ms = (ms, [])"
  by (induction ms) (auto simp: meters_ok_def normalizeMeter_id)

lemma price_type: "price_ok p \<Longrightarrow> pr_Type p \<noteq> ''''"
  by (auto simp: price_ok_def)

lemma validateMeterRef_iff:
  "price_ok r \<Longrightarrow> validateMeterRef ms pk (rk, r) = [] \<longleftrightarrow>
    (pr_MeterRef r \<noteq> '''' \<longrightarrow> map_of ms (pr_MeterRef r) \<noteq> None \<and> pr_Type r = PriceTypeRecurring)"
  using price_type [of r] by (simp add: validateMeterRef_def Let_def)

lemma validateMeterRefs_iff:
  assumes "products_ok ps"
  shows "validateMeterRefs ms ps = [] \<longleftrightarrow> meter_refs_ok ms ps"
proof -
  have ok: "price_ok r" if "(pk, p) \<in> set ps" "(rk, r) \<in> set (pd_Prices p)" for pk p rk r
    using assms that by (auto simp: products_ok_def product_ok_def prices_ok_def)
  have "validateMeterRefs ms ps = [] \<longleftrightarrow>
      (\<forall>(pk, p) \<in> set ps. \<forall>(rk, r) \<in> set (pd_Prices p). validateMeterRef ms pk (rk, r) = [])"
    by (auto simp: validateMeterRefs_def)
  also have "\<dots> \<longleftrightarrow> meter_refs_ok ms ps"
    unfolding meter_refs_ok_def using ok validateMeterRef_iff by (intro ball_cong refl) (auto split: prod.split)
  finally show ?thesis .
qed

lemma NewSpec_sound: "NewSpec s = Inr t \<Longrightarrow> spec_ok t \<and> map fst (sp_Products t) = map fst (sp_Products s)"
proof -
  assume ok: "NewSpec s = Inr t"
  obtain ps pf cs cf ms mf where v: "validateProducts (sp_Products s) = (ps, pf)"
    "validateCoupons (sp_Coupons s) = (cs, cf)" "validateMeters (sp_Meters s) = (ms, mf)"
    by (meson surj_pair)
  with ok have e: "pf = []" "cf = []" "mf = []" "validateMeterRefs ms ps = []" "namespaceRegex (sp_Namespace s)"
    "sp_Products s \<noteq> []"
    "t = \<lparr>sp_Namespace = sp_Namespace s, sp_Products = ps, sp_Coupons = cs, sp_Meters = ms\<rparr>"
    by (simp_all add: NewSpec_def Let_def split: if_splits)
  have "map fst ps = map fst (sp_Products s) \<and> products_ok ps" "coupons_ok cs" "meters_ok ms"
    using v e validateProducts_sound validateCoupons_sound validateMeters_sound by blast+
  with e show ?thesis using validateMeterRefs_iff [of ps ms] by (auto simp: spec_ok_def)
qed

lemma NewSpec_complete: "spec_ok s \<Longrightarrow> NewSpec s = Inr s"
  using validateMeterRefs_iff [of "sp_Products s" "sp_Meters s"]
  by (simp add: NewSpec_def spec_ok_def validateProducts_complete validateCoupons_complete validateMeters_complete)

subsection \<open>Names\<close>

lemma isKeyChar_no_dot: "isKeyChar c \<Longrightarrow> c \<noteq> CHR ''.''"
  by (auto simp: isKeyChar_def isLowerAZ_def isDigit_def)

lemma isLowerAZ_key: "isLowerAZ c \<Longrightarrow> isKeyChar c" "isDigit c \<Longrightarrow> isKeyChar c"
  by (simp_all add: isKeyChar_def)

lemma keyRegex_no_dot: "keyRegex k \<Longrightarrow> CHR ''.'' \<notin> set k"
  by (auto simp: keyRegex_def list_all_iff split: list.splits dest: isKeyChar_no_dot isLowerAZ_key)

lemma namespaceRegex_no_dot: "namespaceRegex k \<Longrightarrow> CHR ''.'' \<notin> set k"
  by (auto simp: namespaceRegex_def list_all_iff split: list.splits dest: isKeyChar_no_dot isLowerAZ_key)

lemma spec_ok_product: "spec_ok s \<Longrightarrow> map_of (sp_Products s) pk = Some p \<Longrightarrow> keyRegex pk \<and> product_ok p"
  by (auto simp: spec_ok_def products_ok_def dest!: map_of_SomeD)

lemma NamespacedPriceKey_inj:
  assumes "CHR ''.'' \<notin> set pk" and "CHR ''.'' \<notin> set pk'"
  shows "NamespacedPriceKey s pk rk = NamespacedPriceKey s pk' rk' \<longleftrightarrow> pk = pk' \<and> rk = rk'"
  using sep_inj [OF assms, of rk rk'] by (auto simp: NamespacedPriceKey_def)

definition declared :: "Spec \<Rightarrow> string \<Rightarrow> string \<Rightarrow> Price \<Rightarrow> bool" where
  "declared s pk rk r \<longleftrightarrow> (\<exists>p. map_of (sp_Products s) pk = Some p \<and> map_of (pd_Prices p) rk = Some r)"

lemma declared_key: "spec_ok s \<Longrightarrow> declared s pk rk r \<Longrightarrow> CHR ''.'' \<notin> set pk"
  using spec_ok_product keyRegex_no_dot by (auto simp: declared_def)

lemma lookupKeyInSpec_declared:
  assumes "spec_ok s"
  shows "lookupKeyInSpec s lk \<noteq> '''' \<longleftrightarrow> (\<exists>pk rk r. declared s pk rk r \<and> lk = NamespacedPriceKey s pk rk)"
proof
  assume "lookupKeyInSpec s lk \<noteq> ''''"
  then obtain rest where rest: "lk = (sp_Namespace s @ ''.'') @ rest" "lookupKeyInSpec s lk \<noteq> ''''"
    by (auto simp: lookupKeyInSpec_def HasPrefix_iff split: if_splits)
  then have trim: "TrimPrefix lk (sp_Namespace s @ ''.'') = rest" "HasPrefix lk (sp_Namespace s @ ''.'')"
    by (simp_all only: TrimPrefix_append HasPrefix_append)
  with rest(2) obtain pk rk where "cutAt CHR ''.'' rest = Some (pk, rk)"
    by (cases "cutAt CHR ''.'' rest") (auto simp: lookupKeyInSpec_def)
  moreover from this rest(2) trim obtain p r where
    "map_of (sp_Products s) pk = Some p" "map_of (pd_Prices p) rk = Some r"
    by (auto simp: lookupKeyInSpec_def split: option.splits)
  moreover have "lk = sp_Namespace s @ ''.'' @ pk @ ''.'' @ rk" using calculation(1) rest(1) cutAt_SomeD by fastforce
  ultimately show "\<exists>pk rk r. declared s pk rk r \<and> lk = NamespacedPriceKey s pk rk"
    unfolding declared_def NamespacedPriceKey_def by blast
next
  assume "\<exists>pk rk r. declared s pk rk r \<and> lk = NamespacedPriceKey s pk rk"
  then obtain pk rk r p where d: "declared s pk rk r" "lk = (sp_Namespace s @ ''.'') @ (pk @ CHR ''.'' # rk)"
    "map_of (sp_Products s) pk = Some p" "map_of (pd_Prices p) rk = Some r"
    by (auto simp: declared_def NamespacedPriceKey_def)
  have "TrimPrefix lk (sp_Namespace s @ ''.'') = pk @ CHR ''.'' # rk" "HasPrefix lk (sp_Namespace s @ ''.'')"
    unfolding d(2) by (rule TrimPrefix_append, rule HasPrefix_append)
  with d(3,4) declared_key [OF assms d(1)] show "lookupKeyInSpec s lk \<noteq> ''''"
    by (simp add: lookupKeyInSpec_def)
qed


definition spec_maps :: "Spec \<Rightarrow> bool" where
  "spec_maps s \<longleftrightarrow> distinct (map fst (sp_Products s)) \<and> (\<forall>(_, p) \<in> set (sp_Products s). distinct (map fst (pd_Prices p)))"

lemma declared_iff:
  "spec_maps s \<Longrightarrow> declared s pk rk r \<longleftrightarrow> (\<exists>p. (pk, p) \<in> set (sp_Products s) \<and> (rk, r) \<in> set (pd_Prices p))"
  unfolding declared_def spec_maps_def by (metis (mono_tags, lifting) case_prodD map_of_SomeD map_of_is_SomeI)

lemma set_AllLookupKeys:
  "spec_maps s \<Longrightarrow> set (AllLookupKeys s) = {NamespacedPriceKey s pk rk | pk rk. \<exists>r. declared s pk rk r}"
  by (fastforce simp: AllLookupKeys_def sortStrings_def declared_iff)

lemma distinct_concat_keys:
  assumes "distinct (map fst m)" and "\<And>k v. (k, v) \<in> set m \<Longrightarrow> distinct (g k v)"
    and "\<And>k v k' v'. (k, v) \<in> set m \<Longrightarrow> (k', v') \<in> set m \<Longrightarrow> k \<noteq> k' \<Longrightarrow> set (g k v) \<inter> set (g k' v') = {}"
  shows "distinct (concat (map (\<lambda>(k, v). g k v) m))"
  using assms
proof (induction m)
  case (Cons kv m)
  obtain k v where kv: "kv = (k, v)" by fastforce
  have "set (g k v) \<inter> set (g k' v') = {}" if "(k', v') \<in> set m" for k' v'
    using Cons.prems(1) Cons.prems(3) [of k v k' v'] that kv by force
  moreover have "distinct (concat (map (\<lambda>(k, v). g k v) m))"
    using Cons by (intro Cons.IH) auto
  ultimately show ?case using Cons.prems(2) [of k v] kv by fastforce
qed simp

lemma distinct_AllLookupKeys:
  assumes "spec_ok s" and "spec_maps s"
  shows "distinct (AllLookupKeys s)"
proof -
  let ?g = "\<lambda>pk p. map (\<lambda>(rk, _). NamespacedPriceKey s pk rk) (pd_Prices p)"
  have dot: "CHR ''.'' \<notin> set pk" if "(pk, p) \<in> set (sp_Products s)" for pk p
    using assms(1) that keyRegex_no_dot by (auto simp: spec_ok_def products_ok_def)
  have "distinct (?g pk p)" if "(pk, p) \<in> set (sp_Products s)" for pk p
  proof -
    have "inj_on (\<lambda>(rk, _). NamespacedPriceKey s pk rk) (set (pd_Prices p))"
      using assms(2) that dot [OF that]
      by (fastforce simp: inj_on_def NamespacedPriceKey_inj spec_maps_def eq_key_imp_eq_value)
    then show ?thesis using assms(2) that by (auto simp: distinct_map spec_maps_def)
  qed
  moreover have "set (?g pk p) \<inter> set (?g pk' p') = {}"
    if "(pk, p) \<in> set (sp_Products s)" "(pk', p') \<in> set (sp_Products s)" "pk \<noteq> pk'" for pk p pk' p'
    using that dot [OF that(1)] dot [OF that(2)] by (auto simp: NamespacedPriceKey_inj)
  ultimately have "distinct (concat (map (\<lambda>(pk, p). ?g pk p) (sp_Products s)))"
    using assms(2) by (intro distinct_concat_keys) (auto simp: spec_maps_def)
  then show ?thesis
    using distinct_sort_slice [of id "(<)" "concat (map (\<lambda>(pk, p). ?g pk p) (sp_Products s))"]
    by (simp add: AllLookupKeys_def sortStrings_def)
qed

lemma lookupKeyInSpec_value:
  assumes "spec_ok s" and "declared s pk rk r"
  shows "lookupKeyInSpec s (NamespacedPriceKey s pk rk) = pk @ ''.'' @ rk"
    and "keyFromLookupKey (sp_Namespace s) (NamespacedPriceKey s pk rk) = pk @ ''.'' @ rk"
proof -
  have lk: "NamespacedPriceKey s pk rk = (sp_Namespace s @ ''.'') @ (pk @ CHR ''.'' # rk)"
    by (simp add: NamespacedPriceKey_def)
  have "TrimPrefix (NamespacedPriceKey s pk rk) (sp_Namespace s @ ''.'') = pk @ CHR ''.'' # rk"
    "HasPrefix (NamespacedPriceKey s pk rk) (sp_Namespace s @ ''.'')"
    unfolding lk by (rule TrimPrefix_append, rule HasPrefix_append)
  then show "lookupKeyInSpec s (NamespacedPriceKey s pk rk) = pk @ ''.'' @ rk"
    "keyFromLookupKey (sp_Namespace s) (NamespacedPriceKey s pk rk) = pk @ ''.'' @ rk"
    using assms declared_key [OF assms] by (auto simp: lookupKeyInSpec_def keyFromLookupKey_def declared_def)
qed

end
