(* ===== verification/Catalog_Diff.thy ===== *)
theory Catalog_Diff
  imports Catalog_Names
begin

text \<open>
  \<open>Diff\<close> plans nothing exactly when Stripe and the specification agree. Stripe's objects are read as two maps from
  ids, \<open>prodView\<close> and \<open>priceView\<close>.
\<close>

subsection \<open>What Stripe lists\<close>

text \<open>Products and prices without the fields the reconciliation does not compare.\<close>

definition bareProduct :: "ExistingProduct \<Rightarrow> ExistingProduct" where
  "bareProduct x = x\<lparr>xp_TaxCode := '''', xp_Metadata := [], xp_Prices := []\<rparr>"

definition barePrice :: "ExistingPrice \<Rightarrow> ExistingPrice" where
  "barePrice r = r\<lparr>ep_Metadata := []\<rparr>"

definition allPrices :: "ExistingProduct list \<Rightarrow> ExistingPrice list" where
  "allPrices cur = concat (map xp_Prices cur)"

definition prodView :: "ExistingProduct list \<Rightarrow> string \<Rightarrow> ExistingProduct option" where
  "prodView cur = map_of (map (\<lambda>x. (xp_ID x, bareProduct x)) cur)"

definition priceView :: "ExistingProduct list \<Rightarrow> string \<Rightarrow> ExistingPrice option" where
  "priceView cur = map_of (map (\<lambda>r. (ep_ID r, barePrice r)) (allPrices cur))"

text \<open>Ids identify objects, and no two prices have one lookup key.\<close>

definition listing_ok :: "ExistingProduct list \<Rightarrow> bool" where
  "listing_ok cur \<longleftrightarrow> distinct (map xp_ID cur) \<and> distinct (map ep_ID (allPrices cur)) \<and>
     distinct (filter (\<lambda>k. k \<noteq> '''') (map ep_LookupKey (allPrices cur)))"

text \<open>Every listed product has an id the library could have assigned in the namespace.\<close>

definition managed :: "Spec \<Rightarrow> string \<Rightarrow> bool" where
  "managed t i \<longleftrightarrow> (\<exists>k. k \<noteq> '''' \<and> i = NamespacedProductID t k)"

lemma map_of_keyed:
  assumes "distinct (map f xs)"
  shows "map_of (map (\<lambda>x. (f x, g x)) xs) k = Some y \<longleftrightarrow> (\<exists>x \<in> set xs. f x = k \<and> y = g x)"
proof -
  have "distinct (map fst (map (\<lambda>x. (f x, g x)) xs))" using assms by (simp add: comp_def)
  from map_of_eq_Some_iff [OF this] show ?thesis by auto
qed

lemma map_of_keyed_rev:
  assumes "distinct (map f xs)"
  shows "map_of (rev (map (\<lambda>x. (f x, g x)) xs)) k = Some y \<longleftrightarrow> (\<exists>x \<in> set xs. f x = k \<and> y = g x)"
proof -
  have "distinct (map fst (rev (map (\<lambda>x. (f x, g x)) xs)))" using assms by (simp add: comp_def rev_map [symmetric])
  from map_of_eq_Some_iff [OF this] show ?thesis by auto
qed

lemma currentByID_eq:
  assumes "distinct (map xp_ID cur)"
  shows "currentByID cur i = Some x \<longleftrightarrow> x \<in> set cur \<and> xp_ID x = i"
  using map_of_keyed_rev [OF assms, of "\<lambda>x. x" i x] by (auto simp: currentByID_def)

lemma currentPrice_eq:
  assumes "distinct (filter (\<lambda>k. k \<noteq> '''') (map ep_LookupKey (allPrices cur)))" and "lk \<noteq> ''''"
  shows "currentPriceByLookupKey cur lk = Some r \<longleftrightarrow> r \<in> set (allPrices cur) \<and> ep_LookupKey r = lk"
proof -
  let ?xs = "filter (\<lambda>r. ep_LookupKey r \<noteq> '''') (allPrices cur)"
  have "distinct (map ep_LookupKey ?xs)" using assms(1) by (simp add: filter_map comp_def)
  from map_of_keyed_rev [OF this, of "\<lambda>x. x" lk r] show ?thesis
    using assms(2) unfolding currentPriceByLookupKey_def allPrices_def by auto
qed

lemma NamespacedPriceKey_nonempty [simp]: "NamespacedPriceKey s pk rk \<noteq> ''''"
  by (simp add: NamespacedPriceKey_def)

lemma NamespacedProductID_inj [simp]: "NamespacedProductID s k = NamespacedProductID s k' \<longleftrightarrow> k = k'"
  by (simp add: NamespacedProductID_def)

lemma existingProductKey_eq: "k \<noteq> '''' \<Longrightarrow> existingProductKey x (sp_Namespace t) = k \<longleftrightarrow> xp_ID x = NamespacedProductID t k"
proof -
  let ?pre = "''prod_'' @ sp_Namespace t @ ''_''"
  have "NamespacedProductID t k = ?pre @ k" by (simp add: NamespacedProductID_def)
  moreover assume "k \<noteq> ''''"
  ultimately show ?thesis
    unfolding existingProductKey_def Let_def
    by (metis HasPrefix_append HasPrefix_iff TrimPrefix_append)
qed

lemma stripeProductSuffix_managed:
  assumes "CHR ''_'' \<notin> set (sp_Namespace t)"
  shows "stripeProductSuffix (NamespacedProductID t k) = Some k"
  using assms by (simp add: stripeProductSuffix_def NamespacedProductID_def)

subsection \<open>When nothing is planned\<close>

text \<open>Stripe matches the specification: every declared product and price is there with its values, and nothing
  else is active.\<close>

definition in_sync :: "Spec \<Rightarrow> (string \<Rightarrow> ExistingProduct option) \<Rightarrow> (string \<Rightarrow> ExistingPrice option) \<Rightarrow> bool" where
  "in_sync t P R \<longleftrightarrow>
     (\<forall>pk p. map_of (sp_Products t) pk = Some p \<longrightarrow>
        (\<exists>x. P (NamespacedProductID t pk) = Some x \<and> xp_Active x \<and> \<not> productNeedsUpdate p x)) \<and>
     (\<forall>pk rk r. declared t pk rk r \<longrightarrow>
        (\<exists>i e. R i = Some e \<and> ep_LookupKey e = NamespacedPriceKey t pk rk \<and> \<not> priceNeedsReplace r e)) \<and>
     (\<forall>k x. P (NamespacedProductID t k) = Some x \<longrightarrow> xp_Active x \<longrightarrow> map_of (sp_Products t) k \<noteq> None) \<and>
     (\<forall>i e. R i = Some e \<longrightarrow> ep_Active e \<longrightarrow> lookupKeyInSpec t (ep_LookupKey e) \<noteq> '''')"

lemma bareProduct_simps [simp]:
  "xp_ID (bareProduct x) = xp_ID x" "xp_Active (bareProduct x) = xp_Active x"
  "xp_Name (bareProduct x) = xp_Name x" "xp_Description (bareProduct x) = xp_Description x"
  "productNeedsUpdate p (bareProduct x) = productNeedsUpdate p x"
  by (simp_all add: bareProduct_def productNeedsUpdate_def)

lemma barePrice_simps [simp]:
  "ep_ID (barePrice x) = ep_ID x" "ep_Active (barePrice x) = ep_Active x" "ep_LookupKey (barePrice x) = ep_LookupKey x"
  "priceNeedsReplace p (barePrice x) = priceNeedsReplace p x"
  by (simp_all add: barePrice_def priceNeedsReplace_def)

lemma prodView_eq:
  "listing_ok cur \<Longrightarrow> prodView cur i = Some y \<longleftrightarrow> (\<exists>x \<in> set cur. xp_ID x = i \<and> y = bareProduct x)"
  by (simp add: prodView_def listing_ok_def map_of_keyed)

lemma priceView_eq:
  "listing_ok cur \<Longrightarrow> priceView cur i = Some y \<longleftrightarrow> (\<exists>r \<in> set (allPrices cur). ep_ID r = i \<and> y = barePrice r)"
  by (simp add: priceView_def listing_ok_def map_of_keyed)

lemma listing_currentByID:
  "listing_ok cur \<Longrightarrow> currentByID cur i = Some x \<longleftrightarrow> x \<in> set cur \<and> xp_ID x = i"
  by (simp add: listing_ok_def currentByID_eq)

lemma listing_currentPrice:
  "listing_ok cur \<Longrightarrow> lk \<noteq> '''' \<Longrightarrow> currentPriceByLookupKey cur lk = Some r \<longleftrightarrow> r \<in> set (allPrices cur) \<and> ep_LookupKey r = lk"
  by (simp add: listing_ok_def currentPrice_eq)

lemma diffProduct_Nil:
  assumes "listing_ok cur"
  shows "diffProduct t cur pk p = [] \<longleftrightarrow>
    (\<exists>x. prodView cur (NamespacedProductID t pk) = Some x \<and> xp_Active x \<and> \<not> productNeedsUpdate p x)"
proof (cases "currentByID cur (NamespacedProductID t pk)")
  case None
  then have "\<nexists>x. prodView cur (NamespacedProductID t pk) = Some x"
    using assms by (metis listing_currentByID prodView_eq option.distinct(1))
  with None show ?thesis by (simp add: diffProduct_def)
next
  case (Some x)
  then have "prodView cur (NamespacedProductID t pk) = Some (bareProduct x)"
    using assms prodView_eq listing_currentByID by fastforce
  with Some show ?thesis by (simp add: diffProduct_def)
qed

lemma diffPrice_Nil:
  assumes "listing_ok cur"
  shows "diffPrice t cur pk rk r = [] \<longleftrightarrow>
    (\<exists>i e. priceView cur i = Some e \<and> ep_LookupKey e = NamespacedPriceKey t pk rk \<and> \<not> priceNeedsReplace r e)"
proof (cases "currentPriceByLookupKey cur (NamespacedPriceKey t pk rk)")
  case None
  then have "\<nexists>e. e \<in> set (allPrices cur) \<and> ep_LookupKey e = NamespacedPriceKey t pk rk"
    using assms by (metis listing_currentPrice option.distinct(1) NamespacedPriceKey_nonempty)
  with None show ?thesis using assms by (auto simp: diffPrice_def priceView_eq)
next
  case (Some e)
  then have e: "e \<in> set (allPrices cur)" "ep_LookupKey e = NamespacedPriceKey t pk rk"
    using assms listing_currentPrice NamespacedPriceKey_nonempty by blast+
  have uniq: "e' = e" if "e' \<in> set (allPrices cur)" "ep_LookupKey e' = NamespacedPriceKey t pk rk" for e'
    using assms Some that by (metis listing_currentPrice option.inject NamespacedPriceKey_nonempty)
  have "priceView cur (ep_ID e) = Some (barePrice e)" using assms e by (auto simp: priceView_eq)
  moreover have "e' = barePrice e" if "priceView cur i = Some e'" "ep_LookupKey e' = NamespacedPriceKey t pk rk" for i e'
    using assms that uniq by (auto simp: priceView_eq)
  ultimately have "(\<exists>i e. priceView cur i = Some e \<and> ep_LookupKey e = NamespacedPriceKey t pk rk \<and> \<not> priceNeedsReplace r e)
      \<longleftrightarrow> \<not> priceNeedsReplace r e"
    using e(2) by (metis barePrice_simps(3,4))
  with Some show ?thesis by (simp add: diffPrice_def)
qed

lemma set_sortedKeys [simp]: "set (sortedKeys m) = fst ` set m"
  by (simp add: sortedKeys_def sortStrings_def)

text \<open>A walk over a map in key order visits exactly its entries.\<close>

lemma in_walk:
  "x \<in> set (concat (map (\<lambda>k. case map_of m k of None \<Rightarrow> [] | Some v \<Rightarrow> g k v) (sortedKeys m))) \<longleftrightarrow>
    (\<exists>k v. map_of m k = Some v \<and> x \<in> set (g k v))"
proof -
  let ?h = "\<lambda>k. case map_of m k of None \<Rightarrow> [] | Some v \<Rightarrow> g k v"
  have h: "x \<in> set (?h k) \<longleftrightarrow> (\<exists>v. map_of m k = Some v \<and> x \<in> set (g k v))" for x k
    by (cases "map_of m k") simp_all
  have "k \<in> fst ` set m" if "map_of m k = Some v" for k v
    using that by (force dest: map_of_SomeD)
  then have "(\<exists>k \<in> fst ` set m. x \<in> set (?h k)) \<longleftrightarrow> (\<exists>k v. map_of m k = Some v \<and> x \<in> set (g k v))" for x
    unfolding h by blast
  then show ?thesis by (simp only: set_concat set_map set_sortedKeys UN_iff bex_simps(7) h)
qed

lemma walk_Nil:
  "concat (map (\<lambda>k. case map_of m k of None \<Rightarrow> [] | Some v \<Rightarrow> g k v) (sortedKeys m)) = [] \<longleftrightarrow>
    (\<forall>k v. map_of m k = Some v \<longrightarrow> g k v = [])"
  unfolding set_empty [symmetric] set_eq_iff in_walk by blast

lemma diffSpec_Nil:
  "diffSpec t cur = [] \<longleftrightarrow>
    (\<forall>pk p. map_of (sp_Products t) pk = Some p \<longrightarrow> diffProduct t cur pk p = []) \<and>
    (\<forall>pk rk r. declared t pk rk r \<longrightarrow> diffPrice t cur pk rk r = [])"
  unfolding diffSpec_def walk_Nil append_is_Nil_conv declared_def by blast

lemma find_unique:
  "x \<in> set xs \<Longrightarrow> P x \<Longrightarrow> (\<And>y. y \<in> set xs \<Longrightarrow> P y \<Longrightarrow> y = x) \<Longrightarrow> List.find P xs = Some x"
proof (induction xs)
  case (Cons a xs)
  show ?case
  proof (cases "P a")
    case True
    then show ?thesis using Cons.prems(3) [of a] by simp
  next
    case False
    then have "x \<in> set xs" using Cons.prems(1,2) by auto
    then have "List.find P xs = Some x" using Cons.prems(2,3) by (intro Cons.IH) simp_all
    then show ?thesis using False by simp
  qed
qed simp

lemma diffCurrent_eq:
  assumes "listing_ok cur" and "x \<in> set cur" and "xp_ID x = NamespacedProductID t k" and "k \<noteq> ''''"
  shows "diffCurrent t cur k = diffExisting t k x"
proof -
  have "List.find (\<lambda>p. existingProductKey p (sp_Namespace t) = k) cur = Some x"
    using assms by (intro find_unique) (auto simp: existingProductKey_eq listing_ok_def distinct_map inj_on_def)
  then show ?thesis by (simp add: diffCurrent_def)
qed

lemma sortedProductKeys_managed:
  assumes "CHR ''_'' \<notin> set (sp_Namespace t)" and "\<forall>x \<in> set cur. managed t (xp_ID x)"
  obtains keys where "sortedProductKeys cur = Some keys" "set keys = {k. k \<noteq> '''' \<and> (\<exists>x \<in> set cur. xp_ID x = NamespacedProductID t k)}"
proof -
  have suf: "stripeProductSuffix (xp_ID x) = Some k" if "xp_ID x = NamespacedProductID t k" for x k
    using that stripeProductSuffix_managed [OF assms(1)] by simp
  then have "\<not> list_ex (\<lambda>p. stripeProductSuffix (xp_ID p) = None) cur"
    using assms(2) by (fastforce simp: managed_def list_ex_iff)
  then obtain keys where k: "sortedProductKeys cur = Some keys"
    "set keys = {k. k \<noteq> '''' \<and> (\<exists>x \<in> set cur. k = the (stripeProductSuffix (xp_ID x)))}"
    by (auto simp: sortedProductKeys_def sortStrings_def)
  have "(\<exists>x \<in> set cur. k = the (stripeProductSuffix (xp_ID x))) \<longleftrightarrow> (\<exists>x \<in> set cur. xp_ID x = NamespacedProductID t k)" for k
    using assms(2) suf unfolding managed_def by (metis option.sel)
  with k that show thesis by presburger
qed

lemma diffExisting_Nil:
  "diffExisting t k x = [] \<longleftrightarrow> (xp_Active x \<longrightarrow> map_of (sp_Products t) k \<noteq> None) \<and>
    (\<forall>e \<in> set (xp_Prices x). ep_Active e \<longrightarrow> lookupKeyInSpec t (ep_LookupKey e) \<noteq> '''')"
  unfolding diffExisting_def append_is_Nil_conv concat_eq_Nil_conv set_map ball_simps by auto

text \<open>An empty plan is exactly synchrony.\<close>

lemma Diff_Nil_iff:
  assumes "listing_ok cur" and "CHR ''_'' \<notin> set (sp_Namespace t)" and "\<forall>x \<in> set cur. managed t (xp_ID x)"
    and "spec_ok t"
  shows "\<exists>plan. Diff t cur = Some plan \<and> (plan_Items plan = [] \<longleftrightarrow> in_sync t (prodView cur) (priceView cur))"
proof -
  obtain keys where keys: "sortedProductKeys cur = Some keys"
    "set keys = {k. k \<noteq> '''' \<and> (\<exists>x \<in> set cur. xp_ID x = NamespacedProductID t k)}"
    using assms(2,3) by (rule sortedProductKeys_managed)
  have key: "prodView cur (NamespacedProductID t k) = Some x \<longrightarrow> xp_Active x \<longrightarrow> Q" if
    "\<forall>y. k \<noteq> '''' \<longrightarrow> y \<in> set cur \<longrightarrow> xp_ID y = NamespacedProductID t k \<longrightarrow> xp_Active y \<longrightarrow> Q" for k x Q
    using that assms(3) by (auto simp: prodView_eq [OF assms(1)] managed_def)
  have view: "prodView cur (xp_ID x) = Some (bareProduct x)" if "x \<in> set cur" for x
    using that by (auto simp: prodView_eq [OF assms(1)])
  have prices: "(\<forall>e \<in> set (allPrices cur). ep_Active e \<longrightarrow> lookupKeyInSpec t (ep_LookupKey e) \<noteq> '''') \<longleftrightarrow>
      (\<forall>i e. priceView cur i = Some e \<longrightarrow> ep_Active e \<longrightarrow> lookupKeyInSpec t (ep_LookupKey e) \<noteq> '''')"
    unfolding priceView_eq [OF assms(1)] by (metis barePrice_simps(2,3))
  have products: "(\<forall>k x. k \<noteq> '''' \<longrightarrow> x \<in> set cur \<longrightarrow> xp_ID x = NamespacedProductID t k \<longrightarrow> xp_Active x \<longrightarrow>
        map_of (sp_Products t) k \<noteq> None) \<longleftrightarrow>
      (\<forall>k x. prodView cur (NamespacedProductID t k) = Some x \<longrightarrow> xp_Active x \<longrightarrow> map_of (sp_Products t) k \<noteq> None)"
    using key view by (metis bareProduct_simps(2))
  have "concat (map (diffCurrent t cur) keys) = [] \<longleftrightarrow>
      (\<forall>k x. k \<noteq> '''' \<longrightarrow> x \<in> set cur \<longrightarrow> xp_ID x = NamespacedProductID t k \<longrightarrow> diffExisting t k x = [])"
    using keys(2) diffCurrent_eq [OF assms(1)] by fastforce
  also have "\<dots> \<longleftrightarrow> (\<forall>k x. k \<noteq> '''' \<longrightarrow> x \<in> set cur \<longrightarrow> xp_ID x = NamespacedProductID t k \<longrightarrow>
      (xp_Active x \<longrightarrow> map_of (sp_Products t) k \<noteq> None) \<and>
      (\<forall>e \<in> set (xp_Prices x). ep_Active e \<longrightarrow> lookupKeyInSpec t (ep_LookupKey e) \<noteq> ''''))"
    by (simp only: diffExisting_Nil)
  also have "\<dots> \<longleftrightarrow> (\<forall>k x. k \<noteq> '''' \<longrightarrow> x \<in> set cur \<longrightarrow> xp_ID x = NamespacedProductID t k \<longrightarrow> xp_Active x \<longrightarrow>
        map_of (sp_Products t) k \<noteq> None) \<and>
      (\<forall>e \<in> set (allPrices cur). ep_Active e \<longrightarrow> lookupKeyInSpec t (ep_LookupKey e) \<noteq> '''')"
    using assms(3) unfolding allPrices_def managed_def by fastforce
  also have "\<dots> \<longleftrightarrow>
      (\<forall>k x. prodView cur (NamespacedProductID t k) = Some x \<longrightarrow> xp_Active x \<longrightarrow> map_of (sp_Products t) k \<noteq> None) \<and>
      (\<forall>i e. priceView cur i = Some e \<longrightarrow> ep_Active e \<longrightarrow> lookupKeyInSpec t (ep_LookupKey e) \<noteq> '''')"
    unfolding products prices ..
  finally show ?thesis
    unfolding Diff_def keys(1) in_sync_def by (simp add: diffSpec_Nil diffProduct_Nil [OF assms(1)] diffPrice_Nil [OF assms(1)])
qed

end
