(* ===== verification/Catalog_Converge.thy ===== *)
theory Catalog_Converge
  imports Catalog_Diff
begin

text \<open>
  Executing a plan reaches the specification. The backend's contract \<open>lawful_backend\<close> describes each call by its
  effect on the two maps; a plan is then a fold of product changes and a sequence of price changes, and both end in
  synchrony.
\<close>

subsection \<open>What the backend promises\<close>

text \<open>
  The effect of a successful call on the products and prices of the namespace, by id, as Stripe documents it.
  \<open>transfer_lookup_key\<close> takes the lookup key away from the price that has it.
\<close>

definition mkProduct :: "NewProduct \<Rightarrow> ExistingProduct" where
  "mkProduct n = \<lparr>xp_ID = np_ID n, xp_Name = np_Name n, xp_TaxCode = '''', xp_Active = True,
     xp_Description = np_Description n, xp_Metadata = [], xp_Prices = []\<rparr>"

definition mkPrice :: "NewPrice \<Rightarrow> string \<Rightarrow> ExistingPrice" where
  "mkPrice n i = \<lparr>ep_ID = i, ep_LookupKey = nr_LookupKey n, ep_Active = True, ep_Amount = nr_Amount n,
     ep_Currency = nr_Currency n, ep_Type = nr_Type n, ep_Interval = nr_Interval n,
     ep_IntervalCount = nr_IntervalCount n, ep_Metadata = []\<rparr>"

type_synonym pmap = "string \<Rightarrow> ExistingProduct option"
type_synonym rmap = "string \<Rightarrow> ExistingPrice option"

definition setName :: "string \<Rightarrow> ProductUpdate \<Rightarrow> pmap \<Rightarrow> pmap" where
  "setName i u P = P(i := map_option (\<lambda>x. x\<lparr>xp_Name := pu_Name u, xp_Description := pu_Description u\<rparr>) (P i))"

definition setActive :: "string \<Rightarrow> bool \<Rightarrow> pmap \<Rightarrow> pmap" where
  "setActive i a P = P(i := map_option (\<lambda>x. x\<lparr>xp_Active := a\<rparr>) (P i))"

definition setPriceActive :: "string \<Rightarrow> bool \<Rightarrow> rmap \<Rightarrow> rmap" where
  "setPriceActive i a R = R(i := map_option (\<lambda>e. e\<lparr>ep_Active := a\<rparr>) (R i))"

definition clearKey :: "string \<Rightarrow> rmap \<Rightarrow> rmap" where
  "clearKey lk R = (\<lambda>j. map_option (\<lambda>e. if ep_LookupKey e = lk then e\<lparr>ep_LookupKey := ''''\<rparr> else e) (R j))"

definition addPrice :: "NewPrice \<Rightarrow> string \<Rightarrow> rmap \<Rightarrow> rmap" where
  "addPrice n i R = (if nr_TransferLookupKey n then clearKey (nr_LookupKey n) R else R)(i \<mapsto> mkPrice n i)"

definition lawful_products :: "'s backendOps \<Rightarrow> ('s \<Rightarrow> pmap) \<Rightarrow> ('s \<Rightarrow> rmap) \<Rightarrow> bool" where
  "lawful_products be P R \<longleftrightarrow>
     (\<forall>n s s'. be_CreateProduct be n s = (None, s') \<longrightarrow> P s' = (P s)(np_ID n \<mapsto> mkProduct n) \<and> R s' = R s) \<and>
     (\<forall>i u s s'. be_UpdateProduct be i u s = (None, s') \<longrightarrow> P s' = setName i u (P s) \<and> R s' = R s) \<and>
     (\<forall>i a s s'. be_UpdateProductActive be i a s = (None, s') \<longrightarrow> P s' = setActive i a (P s) \<and> R s' = R s)"

definition lawful_prices :: "'s backendOps \<Rightarrow> ('s \<Rightarrow> pmap) \<Rightarrow> ('s \<Rightarrow> rmap) \<Rightarrow> bool" where
  "lawful_prices be P R \<longleftrightarrow>
     (\<forall>n s s'. be_CreatePrice be n s = (None, s') \<longrightarrow> P s' = P s \<and> (\<exists>i. R s i = None \<and> R s' = addPrice n i (R s))) \<and>
     (\<forall>i a s s'. be_UpdatePriceActive be i a s = (None, s') \<longrightarrow> P s' = P s \<and> R s' = setPriceActive i a (R s))"

text \<open>A listing shows the current objects, ids identify them, and a lookup key belongs to one price.\<close>

definition lawful_listing :: "'s backendOps \<Rightarrow> string \<Rightarrow> ('s \<Rightarrow> pmap) \<Rightarrow> ('s \<Rightarrow> rmap) \<Rightarrow> bool" where
  "lawful_listing be ns P R \<longleftrightarrow>
     (\<forall>s cur s'. be_ListProducts be ns s = (Inr cur, s') \<longrightarrow>
        listing_ok cur \<and> prodView cur = P s \<and> priceView cur = R s \<and> P s' = P s \<and> R s' = R s)"

definition lawful_backend :: "'s backendOps \<Rightarrow> string \<Rightarrow> ('s \<Rightarrow> pmap) \<Rightarrow> ('s \<Rightarrow> rmap) \<Rightarrow> bool" where
  "lawful_backend be ns P R \<longleftrightarrow> lawful_products be P R \<and> lawful_prices be P R \<and> lawful_listing be ns P R"

subsection \<open>The effect of a plan item\<close>

text \<open>The product an item changes and how.\<close>

definition ptarget :: "PlanItem \<Rightarrow> string option" where
  "ptarget it =
     (if it_Kind it \<noteq> KindProduct then None
      else case it_Op it of
             OpCreate \<Rightarrow> map_option np_ID (it_NewProduct it)
           | OpReplace \<Rightarrow> None
           | OpDrift \<Rightarrow> None
           | _ \<Rightarrow> map_option xp_ID (it_ExistingProduct it))"

definition pchange :: "PlanItem \<Rightarrow> ExistingProduct option \<Rightarrow> ExistingProduct option" where
  "pchange it v =
     (case it_Op it of
        OpCreate \<Rightarrow> map_option mkProduct (it_NewProduct it)
      | OpUnarchive \<Rightarrow> map_option (\<lambda>x. x\<lparr>xp_Active := True\<rparr>) v
      | OpUpdate \<Rightarrow> map_option (\<lambda>x. x\<lparr>xp_Name := np_Name (the (it_NewProduct it)),
                                       xp_Description := np_Description (the (it_NewProduct it))\<rparr>) v
      | OpArchive \<Rightarrow> map_option (\<lambda>x. x\<lparr>xp_Active := False\<rparr>) v
      | _ \<Rightarrow> v)"

definition pstep :: "PlanItem \<Rightarrow> pmap \<Rightarrow> pmap" where
  "pstep it P = (case ptarget it of None \<Rightarrow> P | Some i \<Rightarrow> P(i := pchange it (P i)))"

text \<open>The effect on prices, up to the id Stripe chooses.\<close>

definition rstep :: "PlanItem \<Rightarrow> rmap \<Rightarrow> rmap \<Rightarrow> bool" where
  "rstep it R R' \<longleftrightarrow>
     (if it_Kind it \<noteq> KindPrice then R' = R
      else case it_Op it of
             OpCreate \<Rightarrow> \<exists>n i. it_NewPrice it = Some n \<and> R i = None \<and> R' = addPrice n i R
           | OpReplace \<Rightarrow> \<exists>n e i. it_NewPrice it = Some n \<and> it_ExistingPrice it = Some e \<and> R i = None \<and>
               R' = setPriceActive (ep_ID e) False (addPrice n i R)
           | OpArchive \<Rightarrow> \<exists>e. it_ExistingPrice it = Some e \<and> R' = setPriceActive (ep_ID e) False R
           | _ \<Rightarrow> R' = R)"

lemma callOn_None: "callOn it obj call s = (None, s') \<longleftrightarrow> (\<exists>x. obj = Some x \<and> call x s = (None, s'))"
  by (auto simp: callOn_def split: option.splits prod.splits)

lemma andThen_None: "andThen f g s = (None, s') \<longleftrightarrow> (\<exists>s1. f s = (None, s1) \<and> g s1 = (None, s'))"
  by (auto simp: andThen_def split: prod.splits option.splits)

lemma applyItem_effect:
  assumes "lawful_products be P R" and "lawful_prices be P R"
    and "it_Kind it \<noteq> KindMeter" and "applyItem be it s = (None, s')"
  shows "P s' = pstep it (P s) \<and> rstep it (R s) (R s')"
proof (cases "it_Kind it")
  case KindProduct
  then show ?thesis
    using assms(1,4)
    by (cases "it_Op it")
      (auto simp: applyItem_def callOn_None lawful_products_def pstep_def ptarget_def pchange_def rstep_def
        setName_def setActive_def split: option.splits)
next
  case KindPrice
  then show ?thesis
    using assms(2,4)
    by (cases "it_Op it")
      (fastforce simp: applyItem_def callOn_None andThen_None lawful_prices_def pstep_def ptarget_def rstep_def)+
qed (use assms(3) in simp)

fun rsteps :: "PlanItem list \<Rightarrow> rmap \<Rightarrow> rmap \<Rightarrow> bool" where
  "rsteps [] R R' = (R' = R)"
| "rsteps (it # its) R R' = (\<exists>R1. rstep it R R1 \<and> rsteps its R1 R')"

lemma forItems_effect:
  assumes "lawful_products be P R" and "lawful_prices be P R"
    and "\<forall>it \<in> set its. it_Kind it \<noteq> KindMeter" and "forItems (applyItem be) its s = (None, s')"
  shows "P s' = fold pstep its (P s) \<and> rsteps its (R s) (R s')"
  using assms(3,4)
proof (induction its arbitrary: s)
  case (Cons it its)
  obtain e s1 where step: "applyItem be it s = (e, s1)" by fastforce
  with Cons.prems(2) have "e = None" "forItems (applyItem be) its s1 = (None, s')" by (cases e; simp)+
  with Cons step applyItem_effect [OF assms(1,2), of it s s1] show ?case by auto
qed simp

subsection \<open>Where the items of a plan come from\<close>

lemma Diff_items:
  assumes "listing_ok cur" and "CHR ''_'' \<notin> set (sp_Namespace t)" and "\<forall>x \<in> set cur. managed t (xp_ID x)"
    and "Diff t cur = Some plan"
  shows "it \<in> set (plan_Items plan) \<longleftrightarrow>
    (\<exists>pk p. map_of (sp_Products t) pk = Some p \<and> it \<in> set (diffProduct t cur pk p)) \<or>
    (\<exists>pk rk r. declared t pk rk r \<and> it \<in> set (diffPrice t cur pk rk r)) \<or>
    (\<exists>k x. k \<noteq> '''' \<and> x \<in> set cur \<and> xp_ID x = NamespacedProductID t k \<and> it \<in> set (diffExisting t k x))"
proof -
  obtain keys where keys: "sortedProductKeys cur = Some keys"
    "set keys = {k. k \<noteq> '''' \<and> (\<exists>x \<in> set cur. xp_ID x = NamespacedProductID t k)}"
    using assms(2,3) by (rule sortedProductKeys_managed)
  have items: "plan_Items plan = diffSpec t cur @ concat (map (diffCurrent t cur) keys)"
    using assms(4) keys(1) by (auto simp: Diff_def)
  have spec: "it \<in> set (diffSpec t cur) \<longleftrightarrow>
      (\<exists>pk p. map_of (sp_Products t) pk = Some p \<and> it \<in> set (diffProduct t cur pk p)) \<or>
      (\<exists>pk rk r. declared t pk rk r \<and> it \<in> set (diffPrice t cur pk rk r))"
    unfolding diffSpec_def in_walk declared_def set_append Un_iff by blast
  have "it \<in> set (concat (map (diffCurrent t cur) keys)) \<longleftrightarrow>
      (\<exists>k x. k \<noteq> '''' \<and> x \<in> set cur \<and> xp_ID x = NamespacedProductID t k \<and> it \<in> set (diffExisting t k x))"
  proof -
    have "it \<in> set (concat (map (diffCurrent t cur) keys)) \<longleftrightarrow> (\<exists>k \<in> set keys. it \<in> set (diffCurrent t cur k))"
      by simp
    also have "\<dots> \<longleftrightarrow> (\<exists>k x. k \<noteq> '''' \<and> x \<in> set cur \<and> xp_ID x = NamespacedProductID t k \<and> it \<in> set (diffCurrent t cur k))"
      unfolding keys(2) by blast
    finally show ?thesis using diffCurrent_eq [OF assms(1)] by metis
  qed
  then show ?thesis unfolding items set_append Un_iff spec by blast
qed

definition ordered :: "PlanItem list \<Rightarrow> PlanItem list" where
  "ordered items = concat (map (\<lambda>(oper, kind). itemsByOpKind items oper kind) applyOrder)"

lemma in_ordered: "it \<in> set (ordered items) \<longleftrightarrow> it \<in> set items \<and> (it_Op it, it_Kind it) \<in> set applyOrder"
  by (auto simp: ordered_def itemsByOpKind_def)

lemma item_simps [simp]:
  "it_Op (item oper kind key) = oper" "it_Kind (item oper kind key) = kind" "it_Key (item oper kind key) = key"
  "it_NewProduct (item oper kind key) = None" "it_ExistingProduct (item oper kind key) = None"
  "it_NewPrice (item oper kind key) = None" "it_ExistingPrice (item oper kind key) = None"
  by (simp_all add: item_def)

subsection \<open>Products after a plan\<close>

lemma fold_pstep_at:
  "fold pstep its P i = fold (\<lambda>it v. if ptarget it = Some i then pchange it v else v) its (P i)"
  by (induction its arbitrary: P) (auto simp: pstep_def split: option.split)

lemma pchange_idem: "pchange it (pchange it v) = pchange it v"
  by (cases "it_Op it"; cases v) (simp_all add: pchange_def)

lemma fold_untouched: "\<forall>it \<in> set its. ptarget it \<noteq> Some i \<Longrightarrow> fold pstep its P i = P i"
  unfolding fold_pstep_at by (induction its) auto

lemma fold_touched_again:
  "\<forall>it \<in> set its. ptarget it = Some i \<longrightarrow> it = it0 \<Longrightarrow>
    fold (\<lambda>it v. if ptarget it = Some i then pchange it v else v) its (pchange it0 v) = pchange it0 v"
  by (induction its) (auto simp: pchange_idem)

lemma fold_touched:
  assumes "it0 \<in> set its" and "ptarget it0 = Some i" and "\<forall>it \<in> set its. ptarget it = Some i \<longrightarrow> it = it0"
  shows "fold pstep its P i = pchange it0 (P i)"
proof -
  have "fold (\<lambda>it v. if ptarget it = Some i then pchange it v else v) its v = pchange it0 v" for v
    using assms(1,3)
  proof (induction its arbitrary: v)
    case (Cons it its)
    show ?case
    proof (cases "it = it0")
      case True
      then show ?thesis using Cons.prems(2) assms(2) fold_touched_again [of its i it0 v] by simp
    next
      case False
      then have "ptarget it \<noteq> Some i" "it0 \<in> set its" using Cons.prems by auto
      then show ?thesis using Cons.IH [of v] Cons.prems(2) by simp
    qed
  qed simp
  then show ?thesis unfolding fold_pstep_at .
qed

text \<open>A product id is touched by the items of its own key only.\<close>

lemma diffExisting_items:
  assumes "it \<in> set (diffExisting t k x)"
  shows "it_Op it = OpArchive \<and> (it_Kind it = KindProduct \<longrightarrow> it_ExistingProduct it = Some x \<and>
      map_of (sp_Products t) k = None \<and> xp_Active x) \<and>
    (it_Kind it = KindPrice \<longrightarrow> (\<exists>e \<in> set (xp_Prices x). it_ExistingPrice it = Some e \<and> ep_Active e \<and>
       lookupKeyInSpec t (ep_LookupKey e) = '''')) \<and> it_Kind it \<noteq> KindMeter"
  using assms by (auto simp: diffExisting_def split: if_splits)

lemma diffPrice_items:
  assumes "listing_ok cur" and "it \<in> set (diffPrice t cur pk rk r)"
  shows "it_Kind it = KindPrice \<and> it_Key it = pk @ ''.'' @ rk \<and> diffPrice t cur pk rk r = [it] \<and>
    (it_Op it = OpCreate \<and> it_NewPrice it = Some (newPrice t pk rk r False) \<or>
     it_Op it = OpReplace \<and> it_NewPrice it = Some (newPrice t pk rk r True) \<and>
     (\<exists>e \<in> set (allPrices cur). it_ExistingPrice it = Some e \<and> ep_LookupKey e = NamespacedPriceKey t pk rk))"
proof (cases "currentPriceByLookupKey cur (NamespacedPriceKey t pk rk)")
  case None
  with assms(2) show ?thesis by (simp add: diffPrice_def)
next
  case (Some e)
  have "e \<in> set (allPrices cur)" "ep_LookupKey e = NamespacedPriceKey t pk rk"
    using listing_currentPrice [OF assms(1) NamespacedPriceKey_nonempty] Some by blast+
  with Some assms(2) show ?thesis by (simp add: diffPrice_def split: if_splits)
qed

lemma diffProduct_items:
  assumes "listing_ok cur" and "it \<in> set (diffProduct t cur pk p)"
  shows "it_Kind it = KindProduct \<and> it_Key it = pk \<and> diffProduct t cur pk p = [it] \<and>
    ptarget it = Some (NamespacedProductID t pk) \<and> it_Op it \<in> {OpCreate, OpUpdate, OpUnarchive}"
proof (cases "currentByID cur (NamespacedProductID t pk)")
  case None
  with assms(2) show ?thesis by (simp add: diffProduct_def ptarget_def newProduct_def)
next
  case (Some x)
  then have "xp_ID x = NamespacedProductID t pk" using listing_currentByID [OF assms(1)] by blast
  with Some assms(2) show ?thesis by (simp add: diffProduct_def ptarget_def newProduct_def split: if_splits)
qed

text \<open>The setting of a reconciliation: a valid specification, a listing of products the library manages, and the plan.\<close>

definition reconciling :: "Spec \<Rightarrow> ExistingProduct list \<Rightarrow> Plan \<Rightarrow> bool" where
  "reconciling t cur plan \<longleftrightarrow> spec_ok t \<and> spec_maps t \<and> listing_ok cur \<and> CHR ''_'' \<notin> set (sp_Namespace t) \<and>
     (\<forall>x \<in> set cur. managed t (xp_ID x)) \<and> Diff t cur = Some plan"

lemma reconciling_listing: "reconciling t cur plan \<Longrightarrow> listing_ok cur"
  by (simp add: reconciling_def)

lemma reconciling_items: "reconciling t cur plan \<Longrightarrow> it \<in> set (plan_Items plan) \<longleftrightarrow>
    (\<exists>pk p. map_of (sp_Products t) pk = Some p \<and> it \<in> set (diffProduct t cur pk p)) \<or>
    (\<exists>pk rk r. declared t pk rk r \<and> it \<in> set (diffPrice t cur pk rk r)) \<or>
    (\<exists>k x. k \<noteq> '''' \<and> x \<in> set cur \<and> xp_ID x = NamespacedProductID t k \<and> it \<in> set (diffExisting t k x))"
  unfolding reconciling_def by (intro Diff_items) simp_all

abbreviation work :: "Plan \<Rightarrow> PlanItem list" where
  "work plan \<equiv> ordered (plan_Items plan)"

text \<open>The five kinds of items of a plan.\<close>

lemma item_cases:
  assumes "reconciling t cur plan" and "it \<in> set (work plan)"
  obtains (product) pk p where "map_of (sp_Products t) pk = Some p" "diffProduct t cur pk p = [it]"
      "it_Kind it = KindProduct" "ptarget it = Some (NamespacedProductID t pk)" "it_Op it \<noteq> OpArchive"
  | (create) pk rk r where "declared t pk rk r" "diffPrice t cur pk rk r = [it]" "it_Kind it = KindPrice"
      "it_Op it = OpCreate" "it_NewPrice it = Some (newPrice t pk rk r False)"
  | (replace) pk rk r e where "declared t pk rk r" "diffPrice t cur pk rk r = [it]" "it_Kind it = KindPrice"
      "it_Op it = OpReplace" "it_NewPrice it = Some (newPrice t pk rk r True)" "it_ExistingPrice it = Some e"
      "e \<in> set (allPrices cur)" "ep_LookupKey e = NamespacedPriceKey t pk rk"
  | (archiveProduct) k x where "x \<in> set cur" "xp_ID x = NamespacedProductID t k" "it_Kind it = KindProduct"
      "it_Op it = OpArchive" "ptarget it = Some (NamespacedProductID t k)" "map_of (sp_Products t) k = None"
  | (archivePrice) e where "it_Kind it = KindPrice" "it_Op it = OpArchive" "it_ExistingPrice it = Some e"
      "e \<in> set (allPrices cur)" "lookupKeyInSpec t (ep_LookupKey e) = ''''"
proof -
  have it: "it \<in> set (plan_Items plan)" using assms(2) by (simp add: in_ordered)
  note lst = reconciling_listing [OF assms(1)]
  from it consider (a) pk p where "map_of (sp_Products t) pk = Some p" "it \<in> set (diffProduct t cur pk p)"
    | (b) pk rk r where "declared t pk rk r" "it \<in> set (diffPrice t cur pk rk r)"
    | (c) k x where "x \<in> set cur" "xp_ID x = NamespacedProductID t k" "it \<in> set (diffExisting t k x)"
    unfolding reconciling_items [OF assms(1)] by blast
  then show thesis
  proof cases
    case a
    with diffProduct_items [OF lst a(2)] show thesis by (intro product) auto
  next
    case b
    with diffPrice_items [OF lst b(2)] create replace show thesis by blast
  next
    case c
    note ex = diffExisting_items [OF c(3)]
    show thesis
    proof (cases "it_Kind it")
      case KindProduct
      with ex c(2) have "ptarget it = Some (NamespacedProductID t k)" by (simp add: ptarget_def)
      with ex KindProduct c archiveProduct show thesis by blast
    next
      case KindPrice
      with ex obtain e where "e \<in> set (xp_Prices x)" "it_ExistingPrice it = Some e" "lookupKeyInSpec t (ep_LookupKey e) = ''''"
        by blast
      moreover from this(1) c(1) have "e \<in> set (allPrices cur)" by (auto simp: allPrices_def)
      ultimately show thesis using ex KindPrice archivePrice by blast
    qed (use ex in blast)
  qed
qed

lemma no_meters:
  assumes "reconciling t cur plan"
  shows "\<forall>it \<in> set (work plan). it_Kind it \<noteq> KindMeter"
proof
  fix it assume "it \<in> set (work plan)"
  with assms show "it_Kind it \<noteq> KindMeter" by (cases rule: item_cases) simp_all
qed

lemma price_no_target: "it_Kind it = KindPrice \<Longrightarrow> ptarget it = None"
  by (simp add: ptarget_def)

lemma product_item:
  assumes "reconciling t cur plan" and "it \<in> set (work plan)"
    and "map_of (sp_Products t) pk = Some p" and "ptarget it = Some (NamespacedProductID t pk)"
  shows "diffProduct t cur pk p = [it]"
  using assms(1,2) by (cases rule: item_cases) (use assms(3,4) price_no_target in auto)

lemma undeclared_item:
  assumes "reconciling t cur plan" and "it \<in> set (work plan)"
    and "map_of (sp_Products t) k = None" and "ptarget it = Some (NamespacedProductID t k)"
  shows "it_Op it = OpArchive"
  using assms(1,2) by (cases rule: item_cases) (use assms(3,4) price_no_target in auto)

text \<open>A declared product ends active with the declared name and description, provided an archived one had them.\<close>

lemma declared_product:
  assumes rc: "reconciling t cur plan" and p: "map_of (sp_Products t) pk = Some p"
    and arch: "\<And>x. prodView cur (NamespacedProductID t pk) = Some x \<Longrightarrow> \<not> xp_Active x \<Longrightarrow> \<not> productNeedsUpdate p x"
  shows "\<exists>x. fold pstep (work plan) (prodView cur) (NamespacedProductID t pk) = Some x \<and> xp_Active x \<and> \<not> productNeedsUpdate p x"
proof (cases "diffProduct t cur pk p")
  case Nil
  then have "\<forall>it \<in> set (work plan). ptarget it \<noteq> Some (NamespacedProductID t pk)"
    using product_item [OF rc _ p] by fastforce
  then show ?thesis using Nil diffProduct_Nil [OF reconciling_listing [OF rc]] by (simp add: fold_untouched)
next
  case (Cons it0 rest)
  note lst = reconciling_listing [OF rc]
  have it0: "it0 \<in> set (diffProduct t cur pk p)" using Cons by simp
  note i = diffProduct_items [OF lst it0]
  have "it0 \<in> set (plan_Items plan)" using p it0 unfolding reconciling_items [OF rc] by blast
  then have "it0 \<in> set (work plan)" using i by (auto simp: in_ordered applyOrder_def)
  moreover have "it = it0" if "it \<in> set (work plan)" "ptarget it = Some (NamespacedProductID t pk)" for it
    using product_item [OF rc that(1) p that(2)] i by simp
  ultimately have fin: "fold pstep (work plan) (prodView cur) (NamespacedProductID t pk) =
      pchange it0 (prodView cur (NamespacedProductID t pk))"
    using i by (intro fold_touched) blast+
  show ?thesis
  proof (cases "currentByID cur (NamespacedProductID t pk)")
    case None
    then show ?thesis using fin it0 by (simp add: diffProduct_def pchange_def mkProduct_def newProduct_def productNeedsUpdate_def)
  next
    case (Some x)
    then have v: "prodView cur (NamespacedProductID t pk) = Some (bareProduct x)"
      using listing_currentByID [OF lst] prodView_eq [OF lst] by blast
    from arch [OF v] have "\<not> xp_Active x \<Longrightarrow> \<not> productNeedsUpdate p x" by simp
    with Some it0 show ?thesis unfolding fin v
      by (auto simp: diffProduct_def pchange_def newProduct_def productNeedsUpdate_def split: if_splits)
  qed
qed

lemma fold_archived:
  assumes "\<forall>it \<in> set l. ptarget it = Some i \<longrightarrow> it_Op it = OpArchive" and "\<exists>it \<in> set l. ptarget it = Some i"
    and "fold pstep l P i = Some x"
  shows "\<not> xp_Active x"
  using assms unfolding fold_pstep_at
proof (induction l arbitrary: x rule: rev_induct)
  case (snoc it l)
  then show ?case by (cases "ptarget it = Some i") (auto simp: pchange_def)
qed simp

lemma undeclared_product:
  assumes rc: "reconciling t cur plan" and k: "map_of (sp_Products t) k = None"
    and x: "fold pstep (work plan) (prodView cur) (NamespacedProductID t k) = Some x"
  shows "\<not> xp_Active x"
proof (cases "\<exists>it \<in> set (work plan). ptarget it = Some (NamespacedProductID t k)")
  case True
  then show ?thesis using undeclared_item [OF rc _ k] x by (intro fold_archived [of "work plan"]) auto
next
  case False
  note lst = reconciling_listing [OF rc]
  have "prodView cur (NamespacedProductID t k) = Some x" using False x by (simp add: fold_untouched)
  then obtain y where y: "y \<in> set cur" "xp_ID y = NamespacedProductID t k" "x = bareProduct y"
    using prodView_eq [OF lst] by auto
  show ?thesis
  proof
    assume act: "xp_Active x"
    let ?it = "(item OpArchive KindProduct k)\<lparr>it_ExistingProduct := Some y\<rparr>"
    have "?it \<in> set (diffExisting t k y)" using act k y by (simp add: diffExisting_def)
    moreover have "k \<noteq> ''''" using rc y(1,2) by (auto simp: managed_def reconciling_def)
    ultimately have "?it \<in> set (plan_Items plan)" using y(1,2) unfolding reconciling_items [OF rc] by blast
    then have "?it \<in> set (work plan)" by (simp add: in_ordered applyOrder_def)
    moreover have "ptarget ?it = Some (NamespacedProductID t k)" using y(2) by (simp add: ptarget_def)
    ultimately show False using False by blast
  qed
qed

subsection \<open>Price items are distinct\<close>

lemma distinct_concat_map:
  assumes "distinct ks" and "\<And>k. k \<in> set ks \<Longrightarrow> distinct (g k)" and "\<And>k x. k \<in> set ks \<Longrightarrow> x \<in> set (g k) \<Longrightarrow> f x = k"
  shows "distinct (concat (map g ks))"
  using assms
proof (induction ks)
  case (Cons k ks)
  have "set (g k) \<inter> set (concat (map g ks)) = {}"
  proof (rule ccontr)
    assume "set (g k) \<inter> set (concat (map g ks)) \<noteq> {}"
    then obtain x k' where "x \<in> set (g k)" "k' \<in> set ks" "x \<in> set (g k')" by auto
    with Cons.prems(1) Cons.prems(3) [of k x] Cons.prems(3) [of k' x] show False by auto
  qed
  moreover have "distinct (concat (map g ks))" using Cons by (intro Cons.IH) auto
  ultimately show ?case using Cons.prems(2) [of k] by simp
qed simp

lemma distinct_walk:
  assumes "distinct (map fst m)" and "\<And>k v. map_of m k = Some v \<Longrightarrow> distinct (g k v)"
    and "\<And>k v x. map_of m k = Some v \<Longrightarrow> x \<in> set (g k v) \<Longrightarrow> f x = k"
  shows "distinct (concat (map (\<lambda>k. case map_of m k of None \<Rightarrow> [] | Some v \<Rightarrow> g k v) (sortedKeys m)))"
proof (rule distinct_concat_map [where f = f])
  show "distinct (sortedKeys m)"
    using assms(1) distinct_sort_slice [of id "(<)" "map fst m"] by (simp add: sortedKeys_def sortStrings_def)
  show "f x = k" if "x \<in> set (case map_of m k of None \<Rightarrow> [] | Some v \<Rightarrow> g k v)" for k x
    using that assms(3) by (cases "map_of m k") simp_all
qed (use assms(2) in \<open>auto split: option.split\<close>)

lemma distinct_diffSpec:
  assumes "spec_ok t" and "spec_maps t" and lst: "listing_ok cur"
  shows "distinct (diffSpec t cur)"
  unfolding diffSpec_def
proof (rule distinct_walk [where f = "\<lambda>it. takeWhile (\<lambda>c. c \<noteq> CHR ''.'') (it_Key it)"])
  let ?ps = "\<lambda>pk p. concat (map (\<lambda>rk. case map_of (pd_Prices p) rk of None \<Rightarrow> [] | Some r \<Rightarrow> diffPrice t cur pk rk r)
    (sortedKeys (pd_Prices p)))"
  show "distinct (map fst (sp_Products t))" using assms(2) by (simp add: spec_maps_def)
  fix pk p assume p: "map_of (sp_Products t) pk = Some p"
  have price: "it_Kind it = KindPrice \<and> (\<exists>rk. it_Key it = pk @ ''.'' @ rk)" if "it \<in> set (?ps pk p)" for it
    using that diffPrice_items [OF lst] unfolding in_walk by blast
  have "distinct (?ps pk p)"
  proof (rule distinct_walk [where f = "\<lambda>it. drop (Suc (length pk)) (it_Key it)"])
    show "distinct (map fst (pd_Prices p))" using assms(2) p by (auto simp: spec_maps_def dest: map_of_SomeD)
    fix rk r
    show "distinct (diffPrice t cur pk rk r)"
      by (auto simp: diffPrice_def Let_def split: option.split)
    show "drop (Suc (length pk)) (it_Key it) = rk" if "it \<in> set (diffPrice t cur pk rk r)" for it
      using diffPrice_items [OF lst that] by simp
  qed
  moreover have "distinct (diffProduct t cur pk p)" by (auto simp: diffProduct_def split: option.split)
  moreover have "set (diffProduct t cur pk p) \<inter> set (?ps pk p) = {}"
  proof -
    have "it_Kind it = KindProduct" if "it \<in> set (diffProduct t cur pk p)" for it
      using diffProduct_items [OF lst that] by blast
    then show ?thesis using price unfolding disjoint_iff by fastforce
  qed
  ultimately show "distinct (diffProduct t cur pk p @ ?ps pk p)" by simp
  have dot: "\<forall>c \<in> set pk. c \<noteq> CHR ''.''"
    using spec_ok_product [OF assms(1) p] keyRegex_no_dot by blast
  show "takeWhile (\<lambda>c. c \<noteq> CHR ''.'') (it_Key it) = pk" if "it \<in> set (diffProduct t cur pk p @ ?ps pk p)" for it
  proof (cases "it \<in> set (?ps pk p)")
    case True
    then obtain rk where "it_Key it = pk @ ''.'' @ rk" using price by blast
    with dot show ?thesis by (simp add: takeWhile_append)
  next
    case False
    with that have "it_Key it = pk" using diffProduct_items [OF lst, of it t pk p] by auto
    with dot show ?thesis by (simp add: takeWhile_eq_all_conv)
  qed
qed

subsection \<open>Prices after a plan\<close>

lemma rsteps_append: "rsteps (a @ b) R R' \<longleftrightarrow> (\<exists>R1. rsteps a R R1 \<and> rsteps b R1 R')"
  by (induction a arbitrary: R) auto

lemma rsteps_other: "\<forall>it \<in> set its. it_Kind it \<noteq> KindPrice \<Longrightarrow> rsteps its R R' \<longleftrightarrow> R' = R"
  by (induction its arbitrary: R) (auto simp: rstep_def)

abbreviation creations :: "Plan \<Rightarrow> PlanItem list" where
  "creations plan \<equiv> itemsByOpKind (plan_Items plan) OpCreate KindPrice @ itemsByOpKind (plan_Items plan) OpReplace KindPrice"

abbreviation archivals :: "Plan \<Rightarrow> PlanItem list" where
  "archivals plan \<equiv> itemsByOpKind (plan_Items plan) OpArchive KindPrice"

lemma rsteps_phases:
  "rsteps (work plan) R R' \<longleftrightarrow> (\<exists>R1. rsteps (creations plan) R R1 \<and> rsteps (archivals plan) R1 R')"
proof -
  have other: "\<forall>it \<in> set (itemsByOpKind its oper kind). it_Kind it \<noteq> KindPrice" if "kind \<noteq> KindPrice" for its oper kind
    using that by (simp add: itemsByOpKind_def)
  show ?thesis
    unfolding ordered_def applyOrder_def
    by (simp add: rsteps_append rsteps_other [OF other]) blast
qed

definition lookupOf :: "PlanItem \<Rightarrow> string" where
  "lookupOf it = nr_LookupKey (the (it_NewPrice it))"

definition oldOf :: "PlanItem \<Rightarrow> string" where
  "oldOf it = ep_ID (the (it_ExistingPrice it))"

lemma addPrice_SomeD:
  assumes "addPrice n i R j = Some e"
  shows "e = mkPrice n i \<and> j = i \<or> (\<exists>e0. R j = Some e0 \<and>
    (e = e0 \<and> (nr_TransferLookupKey n \<longrightarrow> ep_LookupKey e0 \<noteq> nr_LookupKey n) \<or>
     nr_TransferLookupKey n \<and> ep_LookupKey e = '''' \<and> ep_LookupKey e0 = nr_LookupKey n))"
proof (cases "j = i")
  case False
  show ?thesis
  proof (cases "R j")
    case None
    with False assms show ?thesis by (simp add: addPrice_def clearKey_def split: if_splits)
  next
    case (Some e0)
    with False assms
    have "(if nr_TransferLookupKey n \<and> ep_LookupKey e0 = nr_LookupKey n then e0\<lparr>ep_LookupKey := ''''\<rparr> else e0) = e"
      by (simp add: addPrice_def clearKey_def split: if_splits)
    then show ?thesis using Some
      by (cases "nr_TransferLookupKey n \<and> ep_LookupKey e0 = nr_LookupKey n") force+
  qed
qed (use assms in \<open>simp add: addPrice_def\<close>)

lemma setPriceActive_SomeD:
  assumes "setPriceActive i False R j = Some e"
  shows "\<exists>e0. R j = Some e0 \<and> ep_LookupKey e = ep_LookupKey e0 \<and> (ep_Active e \<longrightarrow> j \<noteq> i \<and> e = e0)"
  using assms by (auto simp: setPriceActive_def split: if_splits)

lemma lookup_mkPrice [simp]: "ep_LookupKey (mkPrice n i) = nr_LookupKey n"
  by (simp add: mkPrice_def)

text \<open>Creating and replacing prices: no active price is left that is neither declared nor about to be archived.\<close>

lemma creations_leave_no_stray:
  assumes "rsteps its R R'" and "distinct (map lookupOf its)"
    and "\<forall>it \<in> set its. it_Kind it = KindPrice \<and> lookupOf it \<noteq> '''' \<and> good (lookupOf it) \<and>
      (it_Op it = OpCreate \<and> \<not> nr_TransferLookupKey (the (it_NewPrice it)) \<or>
       it_Op it = OpReplace \<and> nr_TransferLookupKey (the (it_NewPrice it)) \<and>
       (\<forall>i e. R i = Some e \<longrightarrow> ep_LookupKey e = lookupOf it \<longrightarrow> i = oldOf it))"
    and "\<forall>i e. R i = Some e \<longrightarrow> ep_Active e \<longrightarrow> good (ep_LookupKey e) \<or> i \<in> A"
  shows "\<forall>i e. R' i = Some e \<longrightarrow> ep_Active e \<longrightarrow> good (ep_LookupKey e) \<or> i \<in> A"
  using assms
proof (induction its arbitrary: R)
  case (Cons it its)
  obtain R1 where step: "rstep it R R1" and rest: "rsteps its R1 R'" using Cons.prems(1) by auto
  have it: "it_Kind it = KindPrice" "lookupOf it \<noteq> ''''" "good (lookupOf it)" using Cons.prems(3) by auto
  have "(\<forall>i e. R1 i = Some e \<longrightarrow> ep_LookupKey e \<noteq> '''' \<longrightarrow> ep_LookupKey e \<noteq> lookupOf it \<longrightarrow>
        (\<exists>e0. R i = Some e0 \<and> ep_LookupKey e0 = ep_LookupKey e)) \<and>
      (\<forall>i e. R1 i = Some e \<longrightarrow> ep_Active e \<longrightarrow> ep_LookupKey e = lookupOf it \<or> R i = Some e)"
  proof (cases "it_Op it = OpCreate")
    case True
    then have t: "\<not> nr_TransferLookupKey (the (it_NewPrice it))" using Cons.prems(3) by auto
    obtain n i where "it_NewPrice it = Some n" "R1 = addPrice n i R"
      using True step it(1) by (auto simp: rstep_def)
    with t addPrice_SomeD [of n i R] show ?thesis unfolding lookupOf_def by (metis lookup_mkPrice option.sel)
  next
    case False
    then have o: "it_Op it = OpReplace" "nr_TransferLookupKey (the (it_NewPrice it))"
      "\<forall>i e. R i = Some e \<longrightarrow> ep_LookupKey e = lookupOf it \<longrightarrow> i = oldOf it"
      using Cons.prems(3) by auto
    obtain n e i where r: "it_NewPrice it = Some n" "it_ExistingPrice it = Some e"
      "R1 = setPriceActive (ep_ID e) False (addPrice n i R)"
      using o(1) step it(1) by (auto simp: rstep_def)
    have "\<exists>e0. R j = Some e0 \<and> ep_LookupKey e0 = ep_LookupKey e'"
      if "R1 j = Some e'" "ep_LookupKey e' \<noteq> ''''" "ep_LookupKey e' \<noteq> lookupOf it" for j e'
    proof -
      from setPriceActive_SomeD that(1) r(3) obtain e1 where e1: "addPrice n i R j = Some e1" "ep_LookupKey e' = ep_LookupKey e1"
        by blast
      from addPrice_SomeD [OF e1(1)] that(2,3) e1(2) r(1) show ?thesis by (auto simp: lookupOf_def)
    qed
    moreover have "ep_LookupKey e' = lookupOf it \<or> R j = Some e'" if "R1 j = Some e'" "ep_Active e'" for j e'
    proof -
      from setPriceActive_SomeD that r(3) have e1: "addPrice n i R j = Some e'" "j \<noteq> ep_ID e" by blast+
      with addPrice_SomeD [OF e1(1)] o(3) r(1,2) show ?thesis by (auto simp: lookupOf_def oldOf_def)
    qed
    ultimately show ?thesis by blast
  qed
  then have keep: "\<And>i e. R1 i = Some e \<Longrightarrow> ep_LookupKey e \<noteq> '''' \<Longrightarrow> ep_LookupKey e \<noteq> lookupOf it \<Longrightarrow>
        \<exists>e0. R i = Some e0 \<and> ep_LookupKey e0 = ep_LookupKey e"
    and act: "\<And>i e. R1 i = Some e \<Longrightarrow> ep_Active e \<Longrightarrow> ep_LookupKey e = lookupOf it \<or> R i = Some e"
    by blast+
  show ?case
  proof (rule Cons.IH [OF rest])
    show "distinct (map lookupOf its)" using Cons.prems(2) by simp
    show "\<forall>i e. R1 i = Some e \<longrightarrow> ep_Active e \<longrightarrow> good (ep_LookupKey e) \<or> i \<in> A"
      using act it(3) Cons.prems(4) by metis
    show "\<forall>it \<in> set its. it_Kind it = KindPrice \<and> lookupOf it \<noteq> '''' \<and> good (lookupOf it) \<and>
      (it_Op it = OpCreate \<and> \<not> nr_TransferLookupKey (the (it_NewPrice it)) \<or>
       it_Op it = OpReplace \<and> nr_TransferLookupKey (the (it_NewPrice it)) \<and>
       (\<forall>i e. R1 i = Some e \<longrightarrow> ep_LookupKey e = lookupOf it \<longrightarrow> i = oldOf it))"
    proof
      fix it' assume it': "it' \<in> set its"
      then have "lookupOf it' \<noteq> lookupOf it" using Cons.prems(2) by (metis distinct.simps(2) image_eqI list.simps(9) list.set_map)
      with Cons.prems(3) it' keep show "it_Kind it' = KindPrice \<and> lookupOf it' \<noteq> '''' \<and> good (lookupOf it') \<and>
      (it_Op it' = OpCreate \<and> \<not> nr_TransferLookupKey (the (it_NewPrice it')) \<or>
       it_Op it' = OpReplace \<and> nr_TransferLookupKey (the (it_NewPrice it')) \<and>
       (\<forall>i e. R1 i = Some e \<longrightarrow> ep_LookupKey e = lookupOf it' \<longrightarrow> i = oldOf it'))"
        by (metis list.set_intros(2))
    qed
  qed
qed simp

text \<open>A declared price is present, under an id outside the set \<open>T\<close> of prices to be deactivated.\<close>

definition present :: "Spec \<Rightarrow> string \<Rightarrow> string \<Rightarrow> Price \<Rightarrow> string set \<Rightarrow> rmap \<Rightarrow> bool" where
  "present t pk rk r T R \<longleftrightarrow>
     (\<exists>i e. i \<notin> T \<and> R i = Some e \<and> ep_LookupKey e = NamespacedPriceKey t pk rk \<and> \<not> priceNeedsReplace r e)"

lemma present_deactivate: "present t pk rk r T R \<Longrightarrow> old \<in> T \<Longrightarrow> present t pk rk r T (setPriceActive old False R)"
  unfolding present_def setPriceActive_def by (metis fun_upd_other)

lemma present_new:
  assumes "R i = None" and "T \<subseteq> dom R"
  shows "present t pk rk r T (addPrice (newPrice t pk rk r b) i R)"
proof -
  have "i \<notin> T" using assms by blast
  moreover have "\<not> priceNeedsReplace r (mkPrice (newPrice t pk rk r b) i)"
    by (simp add: priceNeedsReplace_def mkPrice_def newPrice_def)
  ultimately show ?thesis unfolding present_def by (auto simp: addPrice_def newPrice_def)
qed

lemma present_other:
  assumes "present t pk rk r T R" and "R i = None" and "nr_LookupKey n \<noteq> NamespacedPriceKey t pk rk"
  shows "present t pk rk r T (addPrice n i R)"
proof -
  from assms(1) obtain j e where j: "j \<notin> T" "R j = Some e" "ep_LookupKey e = NamespacedPriceKey t pk rk" "\<not> priceNeedsReplace r e"
    unfolding present_def by blast
  then have "addPrice n i R j = Some e" using assms(2,3) by (auto simp: addPrice_def clearKey_def)
  with j show ?thesis unfolding present_def by blast
qed

lemma dom_addPrice: "dom R \<subseteq> dom (addPrice n i R)"
  by (auto simp: addPrice_def clearKey_def)

lemma dom_setPriceActive [simp]: "dom (setPriceActive i a R) = dom R"
  by (auto simp: setPriceActive_def split: if_splits)

text \<open>An item that creates the price of \<open>pk\<close> and \<open>rk\<close>, and whose deactivation, if any, is in \<open>T\<close>.\<close>

definition creates :: "Spec \<Rightarrow> string set \<Rightarrow> PlanItem \<Rightarrow> string \<Rightarrow> string \<Rightarrow> Price \<Rightarrow> bool" where
  "creates t T it pk rk r \<longleftrightarrow> declared t pk rk r \<and> it_Kind it = KindPrice \<and>
     (it_Op it = OpCreate \<or> it_Op it = OpReplace \<and> oldOf it \<in> T) \<and>
     it_NewPrice it = Some (newPrice t pk rk r (it_Op it = OpReplace))"

lemma creates_step:
  assumes "spec_ok t" and "creates t T it pk' rk' r'" and "rstep it R R1" and "T \<subseteq> dom R" and "declared t pk rk r"
    and "present t pk rk r T R \<or> creates t T it pk rk r"
  shows "present t pk rk r T R1 \<and> T \<subseteq> dom R1"
proof -
  let ?n = "newPrice t pk' rk' r' (it_Op it = OpReplace)"
  obtain i where i: "R i = None" "R1 = addPrice ?n i R \<or> oldOf it \<in> T \<and> R1 = setPriceActive (oldOf it) False (addPrice ?n i R)"
    using assms(2,3) by (auto simp: creates_def rstep_def oldOf_def)
  have "present t pk rk r T (addPrice ?n i R)"
  proof (cases "creates t T it pk rk r")
    case True
    then have "?n = newPrice t pk rk r (it_Op it = OpReplace)" using assms(2) by (simp add: creates_def)
    then show ?thesis using present_new [OF i(1) assms(4)] by simp
  next
    case False
    show ?thesis
    proof (cases "NamespacedPriceKey t pk' rk' = NamespacedPriceKey t pk rk")
      case True
      have "declared t pk' rk' r'" using assms(2) by (simp add: creates_def)
      then have "pk' = pk" "rk' = rk" "r' = r"
        using True assms(5) NamespacedPriceKey_inj [of pk' pk t rk' rk] declared_key [OF assms(1)]
        by (auto simp: declared_def)
      with assms(2) False show ?thesis by simp
    next
      case diff: False
      then show ?thesis using assms(6) False i(1) by (intro present_other) (auto simp: newPrice_def)
    qed
  qed
  moreover have "T \<subseteq> dom (addPrice ?n i R)" using assms(4) dom_addPrice by blast
  ultimately show ?thesis using i(2) present_deactivate dom_setPriceActive by metis
qed

lemma creates_steps:
  assumes "spec_ok t" and "declared t pk rk r" and "rsteps its R R'"
    and "\<forall>it \<in> set its. \<exists>pk rk r. creates t T it pk rk r" and "T \<subseteq> dom R"
    and "present t pk rk r T R \<or> (\<exists>it \<in> set its. creates t T it pk rk r)"
  shows "present t pk rk r T R'"
  using assms(3-6)
proof (induction its arbitrary: R)
  case (Cons it its)
  obtain R1 where step: "rstep it R R1" and rest: "rsteps its R1 R'" using Cons.prems(1) by auto
  obtain pk' rk' r' where c: "creates t T it pk' rk' r'" using Cons.prems(2) by auto
  note s = creates_step [OF assms(1) c step Cons.prems(3)]
  have "T \<subseteq> dom R1" using s [of pk' rk' r'] c by (auto simp: creates_def)
  moreover have "present t pk rk r T R1 \<or> (\<exists>it \<in> set its. creates t T it pk rk r)"
    using s [OF assms(2)] Cons.prems(4) by auto
  ultimately show ?case using Cons.IH [OF rest] Cons.prems(2) by simp
qed simp

lemma archivals_steps:
  assumes "rsteps its R R'" and "\<forall>it \<in> set its. it_Kind it = KindPrice \<and> it_Op it = OpArchive \<and> oldOf it \<in> T"
  shows "(present t pk rk r T R \<longrightarrow> present t pk rk r T R') \<and>
    (\<forall>i e. R' i = Some e \<longrightarrow> ep_Active e \<longrightarrow> R i = Some e \<and> i \<notin> oldOf ` set its)"
  using assms
proof (induction its arbitrary: R)
  case (Cons it its)
  obtain R1 where "rstep it R R1" and rest: "rsteps its R1 R'" using Cons.prems(1) by auto
  then have R1: "R1 = setPriceActive (oldOf it) False R"
    using Cons.prems(2) by (simp add: rstep_def oldOf_def) force
  have "R i = Some e \<and> i \<noteq> oldOf it" if "R1 i = Some e" "ep_Active e" for i e
    using setPriceActive_SomeD that unfolding R1 by blast
  moreover have "present t pk rk r T R1" if "present t pk rk r T R"
    using that Cons.prems(2) present_deactivate unfolding R1 by simp
  moreover have "(present t pk rk r T R1 \<longrightarrow> present t pk rk r T R') \<and>
    (\<forall>i e. R' i = Some e \<longrightarrow> ep_Active e \<longrightarrow> R1 i = Some e \<and> i \<notin> oldOf ` set its)"
    using Cons.prems(2) by (intro Cons.IH [OF rest]) simp
  ultimately show ?case by simp
qed simp

subsection \<open>Assembly\<close>

definition doomed :: "Plan \<Rightarrow> string set" where
  "doomed plan = oldOf ` {it \<in> set (creations plan). it_Op it = OpReplace} \<union> oldOf ` set (archivals plan)"

lemma in_creations: "it \<in> set (creations plan) \<longleftrightarrow>
    it \<in> set (work plan) \<and> it_Kind it = KindPrice \<and> (it_Op it = OpCreate \<or> it_Op it = OpReplace)"
  by (auto simp: itemsByOpKind_def in_ordered applyOrder_def)

lemma in_archivals: "it \<in> set (archivals plan) \<longleftrightarrow> it \<in> set (work plan) \<and> it_Kind it = KindPrice \<and> it_Op it = OpArchive"
  by (auto simp: itemsByOpKind_def in_ordered applyOrder_def)

lemma creations_create:
  assumes "reconciling t cur plan" and "it \<in> set (creations plan)"
  obtains pk rk r where "creates t (doomed plan) it pk rk r" "diffPrice t cur pk rk r = [it]"
    "lookupOf it = NamespacedPriceKey t pk rk"
proof -
  have w: "it \<in> set (work plan)" "it_Kind it = KindPrice" "it_Op it = OpCreate \<or> it_Op it = OpReplace"
    using assms(2) unfolding in_creations by blast+
  have d: "it_Op it = OpReplace \<Longrightarrow> oldOf it \<in> doomed plan" using assms(2) by (auto simp: doomed_def)
  from assms(1) w(1) show thesis
  proof (cases rule: item_cases)
    case (create pk rk r)
    then show thesis by (intro that [of pk rk r]) (simp_all add: creates_def lookupOf_def newPrice_def)
  next
    case (replace pk rk r e)
    with d show thesis by (intro that [of pk rk r]) (simp_all add: creates_def lookupOf_def newPrice_def)
  qed (use w in auto)
qed

lemma doomed_price:
  assumes "reconciling t cur plan" and "i \<in> doomed plan"
  obtains e where "e \<in> set (allPrices cur)" "ep_ID e = i"
    "lookupKeyInSpec t (ep_LookupKey e) = '''' \<or>
     (\<exists>pk rk r. declared t pk rk r \<and> ep_LookupKey e = NamespacedPriceKey t pk rk \<and> diffPrice t cur pk rk r \<noteq> [])"
proof -
  obtain it where it: "it \<in> set (work plan)" "it_Kind it = KindPrice" "it_Op it = OpReplace \<or> it_Op it = OpArchive" "i = oldOf it"
    using assms(2) by (auto simp: doomed_def in_creations in_archivals simp del: set_append)
  from assms(1) it(1) show thesis
  proof (cases rule: item_cases)
    case (replace pk rk r e)
    then have "diffPrice t cur pk rk r \<noteq> []" "ep_ID e = i" using it(4) by (simp_all add: oldOf_def)
    with replace(1,7,8) show thesis by (intro that [of e]) blast+
  next
    case (archivePrice e)
    then show thesis using that [of e] it(4) by (auto simp: oldOf_def)
  qed (use it in auto)
qed

lemma distinct_creations:
  assumes "reconciling t cur plan"
  shows "distinct (map lookupOf (creations plan))"
proof -
  note lst = reconciling_listing [OF assms]
  obtain keys where "plan_Items plan = diffSpec t cur @ concat (map (diffCurrent t cur) keys)"
    using assms by (auto simp: reconciling_def Diff_def split: option.splits)
  moreover have "it_Op it = OpArchive" if "it \<in> set (diffCurrent t cur k)" for it k
    using that diffExisting_items by (auto simp: diffCurrent_def split: option.splits)
  ultimately have "itemsByOpKind (plan_Items plan) oper KindPrice = itemsByOpKind (diffSpec t cur) oper KindPrice"
    if "oper \<noteq> OpArchive" for oper
    using that by (auto simp: itemsByOpKind_def filter_empty_conv)
  then have "distinct (creations plan)"
    using distinct_diffSpec [of t cur] assms by (auto simp: reconciling_def itemsByOpKind_def)
  moreover have "inj_on lookupOf (set (creations plan))"
  proof (rule inj_onI)
    fix a b assume ab: "a \<in> set (creations plan)" "b \<in> set (creations plan)" "lookupOf a = lookupOf b"
    obtain pk rk r where a: "creates t (doomed plan) a pk rk r" "diffPrice t cur pk rk r = [a]" "lookupOf a = NamespacedPriceKey t pk rk"
      using assms ab(1) by (rule creations_create)
    obtain pk' rk' r' where b: "creates t (doomed plan) b pk' rk' r'" "diffPrice t cur pk' rk' r' = [b]"
      "lookupOf b = NamespacedPriceKey t pk' rk'"
      using assms ab(2) by (rule creations_create)
    have d: "declared t pk rk r" "declared t pk' rk' r'" "spec_ok t" using a(1) b(1) assms by (simp_all add: creates_def reconciling_def)
    then have "pk = pk' \<and> rk = rk'"
      using ab(3) a(3) b(3) NamespacedPriceKey_inj declared_key by metis
    with d a(2) b(2) show "a = b" by (auto simp: declared_def)
  qed
  ultimately show ?thesis unfolding distinct_map by blast
qed

lemma priceView_ID: "listing_ok cur \<Longrightarrow> e \<in> set (allPrices cur) \<Longrightarrow> priceView cur (ep_ID e) = Some (barePrice e)"
  by (auto simp: priceView_eq)

lemma same_ID:
  assumes "listing_ok cur" and "e \<in> set (allPrices cur)" and "e' \<in> set (allPrices cur)" and "ep_ID e = ep_ID e'"
  shows "e = e'"
  using assms by (auto simp: listing_ok_def distinct_map inj_on_def)

lemma doomed_in_view: "reconciling t cur plan \<Longrightarrow> doomed plan \<subseteq> dom (priceView cur)"
  using doomed_price priceView_ID reconciling_listing by (metis domI subsetI)

text \<open>Every declared price is present from the start or is created by the plan.\<close>

lemma present_or_created:
  assumes rc: "reconciling t cur plan" and d: "declared t pk rk r"
  shows "present t pk rk r (doomed plan) (priceView cur) \<or> (\<exists>it \<in> set (creations plan). creates t (doomed plan) it pk rk r)"
proof (cases "diffPrice t cur pk rk r")
  case Nil
  note lst = reconciling_listing [OF rc]
  from Nil obtain i x where "priceView cur i = Some x" "ep_LookupKey x = NamespacedPriceKey t pk rk" "\<not> priceNeedsReplace r x"
    using diffPrice_Nil [OF lst] by blast
  moreover from this(1) obtain e where e: "e \<in> set (allPrices cur)" "ep_ID e = i" "x = barePrice e"
    using priceView_eq [OF lst] by blast
  moreover have "i \<notin> doomed plan"
  proof
    assume "i \<in> doomed plan"
    with rc show False
    proof (rule doomed_price)
      fix e' assume e': "e' \<in> set (allPrices cur)" "ep_ID e' = i"
        "lookupKeyInSpec t (ep_LookupKey e') = '''' \<or>
         (\<exists>pk rk r. declared t pk rk r \<and> ep_LookupKey e' = NamespacedPriceKey t pk rk \<and> diffPrice t cur pk rk r \<noteq> [])"
      have "e' = e" using same_ID [OF lst e'(1) e(1)] e(2) e'(2) by simp
      then have lk: "ep_LookupKey e' = NamespacedPriceKey t pk rk" using calculation(2) e(3) by simp
      have ok: "spec_ok t" using rc by (simp add: reconciling_def)
      have "lookupKeyInSpec t (ep_LookupKey e') \<noteq> ''''" using lookupKeyInSpec_declared [OF ok] d lk by blast
      with e'(3) obtain pk' rk' r' where o: "declared t pk' rk' r'" "NamespacedPriceKey t pk rk = NamespacedPriceKey t pk' rk'"
        "diffPrice t cur pk' rk' r' \<noteq> []" using lk by auto
      then have "pk' = pk \<and> rk' = rk" using NamespacedPriceKey_inj declared_key [OF ok] d by metis
      with o(1,3) d Nil show False by (auto simp: declared_def)
    qed
  qed
  ultimately show ?thesis unfolding present_def by blast
next
  case (Cons it0 rest)
  note lst = reconciling_listing [OF rc]
  have it0: "it0 \<in> set (diffPrice t cur pk rk r)" using Cons by simp
  note i = diffPrice_items [OF lst it0]
  have "it0 \<in> set (plan_Items plan)" using d it0 unfolding reconciling_items [OF rc] by blast
  then have c: "it0 \<in> set (creations plan)" using i by (auto simp: itemsByOpKind_def)
  then have "it_Op it0 = OpReplace \<Longrightarrow> oldOf it0 \<in> doomed plan" by (auto simp: doomed_def)
  with i d have "creates t (doomed plan) it0 pk rk r" by (auto simp: creates_def)
  with c show ?thesis by blast
qed

lemma creation_facts:
  assumes rc: "reconciling t cur plan" and it: "it \<in> set (creations plan)"
  shows "it_Kind it = KindPrice \<and> lookupOf it \<noteq> '''' \<and> lookupKeyInSpec t (lookupOf it) \<noteq> '''' \<and>
    (it_Op it = OpCreate \<and> \<not> nr_TransferLookupKey (the (it_NewPrice it)) \<or>
     it_Op it = OpReplace \<and> nr_TransferLookupKey (the (it_NewPrice it)) \<and>
     (\<forall>i e. priceView cur i = Some e \<longrightarrow> ep_LookupKey e = lookupOf it \<longrightarrow> i = oldOf it))"
proof -
  note lst = reconciling_listing [OF rc]
  have ok: "spec_ok t" using rc by (simp add: reconciling_def)
  have w: "it \<in> set (work plan)" "it_Kind it = KindPrice" "it_Op it = OpCreate \<or> it_Op it = OpReplace"
    using it unfolding in_creations by blast+
  obtain pk rk r where c: "creates t (doomed plan) it pk rk r" "lookupOf it = NamespacedPriceKey t pk rk"
    using rc it by (rule creations_create)
  have d: "declared t pk rk r" and transfer: "nr_TransferLookupKey (the (it_NewPrice it)) \<longleftrightarrow> it_Op it = OpReplace"
    using c(1) by (auto simp: creates_def newPrice_def)
  have "lookupOf it \<noteq> ''''" "lookupKeyInSpec t (lookupOf it) \<noteq> ''''"
    using d lookupKeyInSpec_declared [OF ok] c(2) by auto
  moreover have "i = oldOf it" if rp: "it_Op it = OpReplace" "priceView cur i = Some x" "ep_LookupKey x = lookupOf it" for i x
  proof -
    obtain e where e: "e \<in> set (allPrices cur)" "it_ExistingPrice it = Some e" "ep_LookupKey e = NamespacedPriceKey t pk rk"
      using rc w(1) by (cases rule: item_cases) (use w rp(1) c(2) in \<open>auto simp: lookupOf_def newPrice_def\<close>)
    obtain e' where e': "e' \<in> set (allPrices cur)" "ep_ID e' = i" "x = barePrice e'"
      using rp(2) priceView_eq [OF lst] by blast
    then have "e' = e" using rp(3) e(1,3) c(2) listing_currentPrice [OF lst NamespacedPriceKey_nonempty]
      by (metis barePrice_simps(3) option.inject)
    with e' e(2) show ?thesis by (simp add: oldOf_def)
  qed
  ultimately show ?thesis using w transfer by auto
qed

lemma strays_archived:
  assumes rc: "reconciling t cur plan" and x: "priceView cur i = Some x" "ep_Active x" "lookupKeyInSpec t (ep_LookupKey x) = ''''"
  shows "i \<in> oldOf ` set (archivals plan)"
proof -
  note lst = reconciling_listing [OF rc]
  obtain e where e: "e \<in> set (allPrices cur)" "ep_ID e = i" "x = barePrice e"
    using x(1) priceView_eq [OF lst] by blast
  then obtain p where p: "p \<in> set cur" "e \<in> set (xp_Prices p)" by (auto simp: allPrices_def)
  with rc obtain k where k: "k \<noteq> ''''" "xp_ID p = NamespacedProductID t k" by (auto simp: reconciling_def managed_def)
  let ?it = "(item OpArchive KindPrice (keyFromLookupKey (sp_Namespace t) (ep_LookupKey e)))\<lparr>it_ExistingPrice := Some e\<rparr>"
  have "?it \<in> set (diffExisting t k p)" using e(3) p(2) x(2,3) by (auto simp: diffExisting_def)
  then have "?it \<in> set (plan_Items plan)" using p(1) k unfolding reconciling_items [OF rc] by blast
  then have "?it \<in> set (archivals plan)" by (simp add: itemsByOpKind_def)
  moreover have "oldOf ?it = i" using e(2) by (simp add: oldOf_def)
  ultimately show ?thesis by blast
qed

lemma prices_after:
  assumes rc: "reconciling t cur plan" and steps: "rsteps (work plan) (priceView cur) R'"
  shows "(\<forall>pk rk r. declared t pk rk r \<longrightarrow>
      (\<exists>i e. R' i = Some e \<and> ep_LookupKey e = NamespacedPriceKey t pk rk \<and> \<not> priceNeedsReplace r e)) \<and>
    (\<forall>i e. R' i = Some e \<longrightarrow> ep_Active e \<longrightarrow> lookupKeyInSpec t (ep_LookupKey e) \<noteq> '''')"
proof -
  note lst = reconciling_listing [OF rc]
  have ok: "spec_ok t" using rc by (simp add: reconciling_def)
  obtain R1 where s1: "rsteps (creations plan) (priceView cur) R1" and s2: "rsteps (archivals plan) R1 R'"
    using steps unfolding rsteps_phases by blast
  have cr: "\<forall>it \<in> set (creations plan). \<exists>pk rk r. creates t (doomed plan) it pk rk r"
    using creations_create [OF rc] by metis
  have ar: "\<forall>it \<in> set (archivals plan). it_Kind it = KindPrice \<and> it_Op it = OpArchive \<and> oldOf it \<in> doomed plan"
    by (auto simp: in_archivals doomed_def)
  note kept = archivals_steps [OF s2 ar, THEN conjunct1, THEN mp]
  note gone = archivals_steps [OF s2 ar, THEN conjunct2, rule_format]
  have "present t pk rk r (doomed plan) R'" if d: "declared t pk rk r" for pk rk r
    by (rule kept [OF creates_steps [OF ok d s1 cr doomed_in_view [OF rc] present_or_created [OF rc d]]])
  moreover have "lookupKeyInSpec t (ep_LookupKey e) \<noteq> ''''" if e: "R' i = Some e" "ep_Active e" for i e
  proof -
    have "\<forall>i e. R1 i = Some e \<longrightarrow> ep_Active e \<longrightarrow> lookupKeyInSpec t (ep_LookupKey e) \<noteq> '''' \<or> i \<in> oldOf ` set (archivals plan)"
    proof (rule creations_leave_no_stray [OF s1 distinct_creations [OF rc]])
      show "\<forall>it \<in> set (creations plan). it_Kind it = KindPrice \<and> lookupOf it \<noteq> '''' \<and> lookupKeyInSpec t (lookupOf it) \<noteq> '''' \<and>
        (it_Op it = OpCreate \<and> \<not> nr_TransferLookupKey (the (it_NewPrice it)) \<or>
         it_Op it = OpReplace \<and> nr_TransferLookupKey (the (it_NewPrice it)) \<and>
         (\<forall>i e. priceView cur i = Some e \<longrightarrow> ep_LookupKey e = lookupOf it \<longrightarrow> i = oldOf it))"
        using creation_facts [OF rc] by blast
      show "\<forall>i e. priceView cur i = Some e \<longrightarrow> ep_Active e \<longrightarrow>
          lookupKeyInSpec t (ep_LookupKey e) \<noteq> '''' \<or> i \<in> oldOf ` set (archivals plan)"
        using strays_archived [OF rc] by blast
    qed
    with gone [OF e] e(2) show ?thesis by blast
  qed
  ultimately show ?thesis unfolding present_def by blast
qed

lemma fold_origin:
  "fold pstep its P i \<noteq> None \<Longrightarrow> P i \<noteq> None \<or> (\<exists>it \<in> set its. ptarget it = Some i)"
  using fold_untouched [of its i P] by metis

lemma targets_managed:
  assumes "reconciling t cur plan" and "it \<in> set (work plan)" and "ptarget it = Some i"
  shows "managed t i"
  using assms(1,2)
proof (cases rule: item_cases)
  case (product pk p)
  then have "pk \<noteq> ''''" using assms(1) spec_ok_product keyRegex_nonempty by (auto simp: reconciling_def)
  with product assms(3) show ?thesis by (auto simp: managed_def)
next
  case (archiveProduct k x)
  then show ?thesis using assms(1,3) by (auto simp: reconciling_def)
qed (use assms(3) price_no_target in auto)

text \<open>A product that was archived under another name or description is reactivated with the old one.\<close>

lemma reactivated_keeps_name:
  assumes rc: "reconciling t cur plan" and p: "map_of (sp_Products t) pk = Some p"
    and x: "prodView cur (NamespacedProductID t pk) = Some x" "\<not> xp_Active x" "productNeedsUpdate p x"
  shows "\<exists>y. fold pstep (work plan) (prodView cur) (NamespacedProductID t pk) = Some y \<and> productNeedsUpdate p y"
proof -
  note lst = reconciling_listing [OF rc]
  obtain e where e: "e \<in> set cur" "xp_ID e = NamespacedProductID t pk" "x = bareProduct e"
    using x(1) prodView_eq [OF lst] by blast
  then have "currentByID cur (NamespacedProductID t pk) = Some e" using listing_currentByID [OF lst] by blast
  then have d: "diffProduct t cur pk p = [(item OpUnarchive KindProduct pk)\<lparr>it_ExistingProduct := Some e\<rparr>]"
    using x(2) e(3) by (simp add: diffProduct_def)
  have op: "it_Op it = OpUnarchive" if "it \<in> set (work plan)" "ptarget it = Some (NamespacedProductID t pk)" for it
    using product_item [OF rc that(1) p that(2)] d by auto
  have "\<exists>y. fold (\<lambda>it v. if ptarget it = Some i then pchange it v else v) l (Some z) = Some y \<and> productNeedsUpdate p y"
    if "\<forall>it \<in> set l. ptarget it = Some i \<longrightarrow> it_Op it = OpUnarchive" "productNeedsUpdate p z" for l i z
    using that
  proof (induction l arbitrary: z)
    case (Cons it l)
    have "productNeedsUpdate p (z\<lparr>xp_Active := True\<rparr>)" using Cons.prems(2) by (simp add: productNeedsUpdate_def)
    then show ?case using Cons by (cases "ptarget it = Some i") (auto simp: pchange_def)
  qed simp
  from this [OF _ x(3), of "work plan" "NamespacedProductID t pk"] show ?thesis
    unfolding fold_pstep_at x(1) using op by blast
qed

lemma sync_result:
  assumes law: "lawful_backend be (sp_Namespace t) P R" and spec: "spec_ok t" "spec_maps t" "CHR ''_'' \<notin> set (sp_Namespace t)"
    and list1: "be_ListProducts be (sp_Namespace t) s = (Inr cur, s1)" and man: "\<forall>x \<in> set cur. managed t (xp_ID x)"
    and diff: "Diff t cur = Some plan" and run: "catalog_Apply be (plan_Items plan) s1 = (None, s2)"
    and list2: "be_ListProducts be (sp_Namespace t) s2 = (Inr cur2, s3)"
  shows "\<exists>plan2. Diff t cur2 = Some plan2 \<and> (plan_Items plan2 = [] \<longleftrightarrow>
    (\<forall>pk p x. map_of (sp_Products t) pk = Some p \<longrightarrow> P s (NamespacedProductID t pk) = Some x \<longrightarrow>
       xp_Active x \<or> \<not> productNeedsUpdate p x))"
proof -
  have l1: "listing_ok cur" "prodView cur = P s" "priceView cur = R s" "P s1 = P s" "R s1 = R s"
    and l2: "listing_ok cur2" "prodView cur2 = P s2" "priceView cur2 = R s2"
    using law list1 list2 by (auto simp: lawful_backend_def lawful_listing_def)
  have rc: "reconciling t cur plan" using spec l1(1) man diff by (simp add: reconciling_def)
  have "P s2 = fold pstep (work plan) (P s1) \<and> rsteps (work plan) (R s1) (R s2)"
    using law no_meters [OF rc] run
    by (intro forItems_effect [of be P R]) (auto simp: lawful_backend_def catalog_Apply_def ordered_def)
  then have P2: "P s2 = fold pstep (work plan) (prodView cur)" and R2: "rsteps (work plan) (priceView cur) (R s2)"
    using l1 by simp_all
  have man2: "\<forall>x \<in> set cur2. managed t (xp_ID x)"
  proof
    fix x assume "x \<in> set cur2"
    then have "fold pstep (work plan) (prodView cur) (xp_ID x) \<noteq> None"
      using prodView_eq [OF l2(1)] l2(2) P2 by (metis option.distinct(1))
    then consider "prodView cur (xp_ID x) \<noteq> None" | it where "it \<in> set (work plan)" "ptarget it = Some (xp_ID x)"
      using fold_origin by blast
    then show "managed t (xp_ID x)"
      using man prodView_eq [OF l1(1)] targets_managed [OF rc] by cases (metis not_None_eq, blast)
  qed
  obtain plan2 where plan2: "Diff t cur2 = Some plan2" "plan_Items plan2 = [] \<longleftrightarrow> in_sync t (P s2) (R s2)"
    using Diff_Nil_iff [OF l2(1) spec(3) man2 spec(1)] l2(2,3) by auto
  have "in_sync t (P s2) (R s2) \<longleftrightarrow> (\<forall>pk p. map_of (sp_Products t) pk = Some p \<longrightarrow>
        (\<exists>x. P s2 (NamespacedProductID t pk) = Some x \<and> xp_Active x \<and> \<not> productNeedsUpdate p x))"
    using prices_after [OF rc R2] undeclared_product [OF rc] unfolding in_sync_def P2 by blast
  also have "\<dots> \<longleftrightarrow> (\<forall>pk p x. map_of (sp_Products t) pk = Some p \<longrightarrow> P s (NamespacedProductID t pk) = Some x \<longrightarrow>
       xp_Active x \<or> \<not> productNeedsUpdate p x)"
    (is "?L \<longleftrightarrow> ?R")
  proof
    assume L: ?L
    show ?R
    proof (intro allI impI, rule ccontr)
      fix pk p x
      assume a: "map_of (sp_Products t) pk = Some p" "P s (NamespacedProductID t pk) = Some x"
        "\<not> (xp_Active x \<or> \<not> productNeedsUpdate p x)"
      then obtain y where "P s2 (NamespacedProductID t pk) = Some y" "productNeedsUpdate p y"
        using reactivated_keeps_name [OF rc a(1), of x] unfolding P2 l1(2) by blast
      with L a(1) show False by fastforce
    qed
  next
    assume ?R
    then show ?L using declared_product [OF rc] unfolding P2 l1(2) by blast
  qed
  finally show ?thesis using plan2 by blast
qed

end
