(* ===== verification/Catalog_Properties.thy ===== *)
theory Catalog_Properties
  imports Catalog_Converge
begin

text \<open>
  The guarantees of the catalog, with a model backend and the witnesses.
\<close>

subsection \<open>Guarantees\<close>


text \<open>C22: Lookup keys identify prices. In an accepted specification the lookup keys of all prices are pairwise different,
  \<open>lookupKeyInSpec\<close> recognises exactly those keys, and both it and \<open>keyFromLookupKey\<close> give back the product and
  price key a lookup key was made from.\<close>

theorem lookup_key_roundtrip:
  assumes "NewSpec s = Inr t" and "spec_maps t"
  shows "distinct (AllLookupKeys t) \<and> (lookupKeyInSpec t lk \<noteq> '''' \<longleftrightarrow> lk \<in> set (AllLookupKeys t)) \<and>
    (declared t pk rk r \<longrightarrow> lookupKeyInSpec t (NamespacedPriceKey t pk rk) = pk @ ''.'' @ rk \<and>
       keyFromLookupKey (sp_Namespace t) (NamespacedPriceKey t pk rk) = pk @ ''.'' @ rk)"
proof -
  have ok: "spec_ok t" using NewSpec_sound [OF assms(1)] by blast
  show ?thesis
    using distinct_AllLookupKeys [OF ok assms(2)] lookupKeyInSpec_declared [OF ok, of lk] lookupKeyInSpec_value [OF ok]
      set_AllLookupKeys [OF assms(2)] by blast
qed



text \<open>An underscore in the namespace disables archiving. \<open>Diff\<close> cuts product ids at the first underscore after
  \<open>prod_\<close>; when the namespace itself has one, the key it looks for starts with the rest of the namespace, no product
  has it, and neither the product nor its prices are archived, although they are active and undeclared.\<close>

lemma underscore_namespace_never_archives:
  assumes "sp_Namespace t = n1 @ CHR ''_'' # n2" and "CHR ''_'' \<notin> set n1"
    and "\<forall>x \<in> set cur. managed t (xp_ID x)"
    and "\<forall>x \<in> set cur. \<not> HasPrefix (existingProductKey x (sp_Namespace t)) (n2 @ ''_'')"
    and "Diff t cur = Some plan"
  shows "\<forall>it \<in> set (plan_Items plan). it_Op it \<noteq> OpArchive"
proof -
  have suffix: "stripeProductSuffix (NamespacedProductID t k) = Some ((n2 @ ''_'') @ k)" for k
    using assms(1,2) by (simp add: stripeProductSuffix_def NamespacedProductID_def)
  obtain keys where keys: "sortedProductKeys cur = Some keys"
    and items: "plan_Items plan = diffSpec t cur @ concat (map (diffCurrent t cur) keys)"
    using assms(5) by (auto simp: Diff_def split: option.splits)
  have "diffCurrent t cur k = []" if k: "k \<in> set keys" for k
  proof -
    obtain x where "x \<in> set cur" "k = the (stripeProductSuffix (xp_ID x))"
      using k keys by (auto simp: sortedProductKeys_def sortStrings_def split: if_splits)
    then have "HasPrefix k (n2 @ ''_'')" using assms(3) suffix HasPrefix_append unfolding managed_def by (metis option.sel)
    then have "List.find (\<lambda>p. existingProductKey p (sp_Namespace t) = k) cur = None"
      using assms(4) by (auto simp: find_None_iff)
    then show ?thesis by (simp add: diffCurrent_def)
  qed
  moreover have "it_Op it \<noteq> OpArchive" if "it \<in> set (diffSpec t cur)" for it
    using that unfolding diffSpec_def in_walk set_append Un_iff
    by (auto simp: diffProduct_def diffPrice_def Let_def split: option.splits if_splits)
  ultimately show ?thesis unfolding items by auto
qed

lemma indexActive_spec:
  "map_of (indexActive ps m) k = Some v \<Longrightarrow> map_of m k = Some v \<or> (\<exists>p \<in> set ps. rp_Active p \<and> rp_LookupKey p = k \<and> rp_PriceID p = v)"
proof (induction ps arbitrary: m)
  case (Cons p ps)
  then show ?case by (cases "rp_Active p") (fastforce split: if_splits)+
qed simp

lemma distinct_indexActive: "distinct (map fst m) \<Longrightarrow> distinct (map fst (indexActive ps m))"
  by (induction ps arbitrary: m) simp_all

lemma find_Some_set: "List.find Q xs = Some x \<Longrightarrow> x \<in> set xs \<and> Q x"
  by (induction xs) (auto split: if_splits)

text \<open>A warm cache resolves every declared price. When \<open>Warm\<close> succeeds, \<open>Lookup\<close> finds for every lookup key of the
  specification the id of an active price Stripe listed under that key, and the reverse lookup of that id gives a
  key that resolves to it; when \<open>Warm\<close> fails, the cache is unchanged.\<close>

lemma Warm_resolves:
  assumes "Cache_Warm lister t c = (err, c')" and "lk \<in> set (AllLookupKeys t)"
  shows "(err \<noteq> None \<and> c' = c) \<or>
    (err = None \<and> (\<exists>ps i. lister (AllLookupKeys t) = Inr ps \<and> Cache_Lookup c' lk = Some i \<and>
       (\<exists>p \<in> set ps. rp_Active p \<and> rp_LookupKey p = lk \<and> rp_PriceID p = i) \<and>
       (\<exists>k. PriceKeyByStripeID c' i = Some k \<and> Cache_Lookup c' k = Some i)))"
proof (cases err)
  case None
  have "AllLookupKeys t \<noteq> []" using assms(2) by auto
  with assms(1) None obtain ps where ps: "lister (AllLookupKeys t) = Inr ps"
    "filter (\<lambda>k. map_of (indexActive ps []) k = None) (AllLookupKeys t) = []"
    "c' = c\<lparr>ca_byKey := indexActive ps [], ca_warmed := True\<rparr>"
    by (auto simp: Cache_Warm_def Let_def split: sum.splits if_splits)
  then obtain i where i: "map_of (indexActive ps []) lk = Some i"
    using assms(2) by (auto simp: filter_empty_conv)
  have "List.find (\<lambda>(_, id). id = i) (indexActive ps []) \<noteq> None"
    using map_of_SomeD [OF i] by (auto simp: find_None_iff)
  then obtain k j where f: "List.find (\<lambda>(_, id). id = i) (indexActive ps []) = Some (k, j)" by auto
  then have "(k, i) \<in> set (indexActive ps [])" using find_Some_set [OF f] by auto
  then have "map_of (indexActive ps []) k = Some i" using distinct_indexActive [of "[]" ps] by simp
  with f i ps indexActive_spec [OF i] None show ?thesis
    by (auto simp: Cache_Lookup_def PriceKeyByStripeID_def)
next
  case (Some e)
  with assms(1) show ?thesis by (auto simp: Cache_Warm_def Let_def split: sum.splits if_splits)
qed

subsection \<open>A model backend\<close>

text \<open>Stripe as its list of products, with the rules of the hypotheses: a taken product id or a missing product is
  refused, a new price gets an unused id.\<close>

type_synonym exStripe = "ExistingProduct list"



definition ex_change :: "string \<Rightarrow> (ExistingProduct \<Rightarrow> ExistingProduct) \<Rightarrow> exStripe \<Rightarrow> exStripe" where
  "ex_change i f = map (\<lambda>x. if xp_ID x = i then f x else x)"

definition ex_prices :: "(ExistingPrice \<Rightarrow> ExistingPrice) \<Rightarrow> exStripe \<Rightarrow> exStripe" where
  "ex_prices f = map (\<lambda>x. x\<lparr>xp_Prices := map f (xp_Prices x)\<rparr>)"





lemma prodView_ex_prices [simp]: "prodView (ex_prices f cur) = prodView cur"
  by (simp add: prodView_def ex_prices_def bareProduct_def comp_def)

lemma priceView_ex_change [simp]: "(\<And>x. xp_Prices (f x) = xp_Prices x) \<Longrightarrow> priceView (ex_change i f cur) = priceView cur"
proof -
  assume "\<And>x. xp_Prices (f x) = xp_Prices x"
  then have "allPrices (ex_change i f cur) = allPrices cur"
    by (induction cur) (simp_all add: allPrices_def ex_change_def)
  then show ?thesis by (simp only: priceView_def)
qed




lemma barePrice_idem [simp]: "barePrice (mkPrice n i) = mkPrice n i" "ep_ID (mkPrice n i) = i"
  by (simp_all add: barePrice_def mkPrice_def)





subsection \<open>Witnesses\<close>

definition ex_price :: Price where
  "ex_price = \<lparr>pr_Amount = 900, pr_Currency = ''eur'', pr_Type = '''', pr_Interval = ''month'', pr_IntervalCount = 0,
     pr_MeterRef = '''', pr_TaxBehavior = '''', pr_TaxRateOverrides = []\<rparr>"

definition ex_product :: Product where
  "ex_product = \<lparr>pd_Name = ''Pro'', pd_Description = '''', pd_TaxCategory = ''txcd_10103000'',
     pd_Prices = [(''monthly'', ex_price)], pd_CreditGrant = None, pd_RecurringGrant = None, pd_Metadata = []\<rparr>"

definition ex_input :: "string \<Rightarrow> Spec" where
  "ex_input ns = \<lparr>sp_Namespace = ns, sp_Products = [(''pro'', ex_product)], sp_Coupons = [], sp_Meters = []\<rparr>"

definition ex_spec :: "string \<Rightarrow> Spec" where
  "ex_spec ns = (ex_input ns)\<lparr>sp_Products := [(''pro'', ex_product\<lparr>pd_Prices :=
     [(''monthly'', ex_price\<lparr>pr_Type := ''recurring'', pr_IntervalCount := 1\<rparr>)]\<rparr>)]\<rparr>"




lemma ex_accepted_spec: "NewSpec (ex_input ''shop'') = Inr (ex_spec ''shop'')"
  by code_simp

lemma ex_maps: "spec_maps (ex_spec ns)"
  by (simp add: spec_maps_def ex_spec_def ex_input_def)



theorem lookup_key_roundtrip_witness:
  "distinct (AllLookupKeys (ex_spec ''shop'')) \<and> ''shop.pro.monthly'' \<in> set (AllLookupKeys (ex_spec ''shop''))"
proof -
  have "lookupKeyInSpec (ex_spec ''shop'') ''shop.pro.monthly'' \<noteq> ''''" by code_simp
  with lookup_key_roundtrip [OF ex_accepted_spec ex_maps, of "''shop.pro.monthly''"] show ?thesis by blast
qed



definition ex_other :: exStripe where
  "ex_other = [\<lparr>xp_ID = ''prod_my_app_old'', xp_Name = ''Old'', xp_TaxCode = '''', xp_Active = True,
     xp_Description = '''', xp_Metadata = [], xp_Prices = []\<rparr>]"

lemma underscore_namespace_never_archives_instance:
  "list_all (\<lambda>it. it_Op it \<noteq> OpArchive) (plan_Items (the (Diff (ex_spec ''my_app'') ex_other)))"
proof -
  have "sp_Namespace (ex_spec ''my_app'') = ''my'' @ CHR ''_'' # ''app''" "CHR ''_'' \<notin> set ''my''" by code_simp+
  moreover have "\<forall>x \<in> set ex_other. managed (ex_spec ''my_app'') (xp_ID x)"
    by (simp add: ex_other_def managed_def NamespacedProductID_def ex_spec_def ex_input_def)
  moreover have "\<forall>x \<in> set ex_other. \<not> HasPrefix (existingProductKey x (sp_Namespace (ex_spec ''my_app''))) (''app'' @ ''_'')"
    by code_simp
  moreover have "Diff (ex_spec ''my_app'') ex_other \<noteq> None" by code_simp
  then obtain plan where "Diff (ex_spec ''my_app'') ex_other = Some plan" by auto
  ultimately show ?thesis using underscore_namespace_never_archives by (fastforce simp: list_all_iff)
qed

lemma Warm_resolves_instance:
  "Cache_Lookup (snd (Cache_Warm (\<lambda>keys. Inr (map (\<lambda>k. \<lparr>rp_LookupKey = k, rp_PriceID = ''price_'' @ k, rp_ProductID = '''', rp_Active = True\<rparr>) keys))
      (ex_spec ''shop'') NewCache)) ''shop.pro.monthly'' = Some ''price_shop.pro.monthly''"
proof -
  let ?l = "\<lambda>keys. Inr (map (\<lambda>k. \<lparr>rp_LookupKey = k, rp_PriceID = ''price_'' @ k, rp_ProductID = '''', rp_Active = True\<rparr>) keys)"
  have "fst (Cache_Warm ?l (ex_spec ''shop'') NewCache) = None" "''shop.pro.monthly'' \<in> set (AllLookupKeys (ex_spec ''shop''))"
    by code_simp+
  with Warm_resolves [OF prod.collapse [symmetric], of "''shop.pro.monthly''" "ex_spec ''shop''" ?l NewCache] show ?thesis
    by auto
qed

end
