(* ===== verification/Subscriptions.thy ===== *)
theory Subscriptions
  imports Webhook_Event Catalog_Sync
begin

text \<open>
  The subscription mirror of package \<open>subscriptions\<close>: its rows (\<open>types.go\<close>), the in-memory repository
  (\<open>repo.go\<close>), the webhook step that projects a Stripe event onto a row (\<open>mirror.go\<close>), the hot-path queries
  (\<open>hot_path.go\<close>) and the Postgres repository (\<open>repos/postgres/subscription_repo.go\<close>).

  A repository is a record of functions on its state. A \<open>*time.Time\<close> is a \<open>time option\<close>; the calls of
  \<open>time.Now\<close> and the database's \<open>now()\<close> are arguments. Copies of rows share their items and metadata with the
  caller in the source; rows are values here. Logging is left out.
\<close>

subsection \<open>Rows\<close>

definition StatusActive :: string where "StatusActive = ''active''"
definition StatusTrialing :: string where "StatusTrialing = ''trialing''"
definition StatusPastDue :: string where "StatusPastDue = ''past_due''"
definition StatusCanceled :: string where "StatusCanceled = ''canceled''"

definition IsAccessGranting :: "string \<Rightarrow> bool" where
  "IsAccessGranting s \<longleftrightarrow> s = StatusActive \<or> s = StatusTrialing \<or> s = StatusPastDue"

record SubscriptionItem =
  si_StripeID :: string
  si_PriceKey :: string
  si_Quantity :: int

record LatestInvoiceState =
  li_Status :: string
  li_AttemptCount :: int
  li_NextPaymentAttempt :: "time option"

record Subscription =
  sub_StripeID :: string
  sub_SubjectID :: string
  sub_StripeCustomerID :: string
  sub_Status :: string
  sub_Items :: "SubscriptionItem list"
  sub_CurrentPeriodStart :: time
  sub_CurrentPeriodEnd :: time
  sub_CancelAtPeriodEnd :: bool
  sub_CanceledAt :: "time option"
  sub_EndedAt :: "time option"
  sub_TrialStart :: "time option"
  sub_TrialEnd :: "time option"
  sub_Metadata :: "(string, string) gomap"
  sub_UpdatedAt :: time
  sub_StripeUpdatedAt :: time
  sub_LatestInvoice :: "LatestInvoiceState option"

definition InGracePeriod :: "Subscription \<Rightarrow> bool" where
  "InGracePeriod s \<longleftrightarrow> sub_Status s = StatusPastDue"

definition NextPaymentRetryAt :: "Subscription \<Rightarrow> time option" where
  "NextPaymentRetryAt s = (case sub_LatestInvoice s of None \<Rightarrow> None | Some li \<Rightarrow> li_NextPaymentAttempt li)"

definition SmartRetryAttemptCount :: "Subscription \<Rightarrow> int" where
  "SmartRetryAttemptCount s = (case sub_LatestInvoice s of None \<Rightarrow> 0 | Some li \<Rightarrow> li_AttemptCount li)"

subsection \<open>Repositories\<close>

record 'r subsRepo =
  sr_Upsert :: "Subscription \<Rightarrow> 'r \<Rightarrow> string option \<times> 'r"
  sr_GetByStripeID :: "string \<Rightarrow> 'r \<Rightarrow> string + Subscription option"
  sr_ListBySubject :: "string \<Rightarrow> 'r \<Rightarrow> string + Subscription list"

type_synonym memorySubs = "(string, Subscription) gomap"

definition ms_New :: memorySubs where
  "ms_New = []"

definition ms_Upsert :: "Subscription \<Rightarrow> memorySubs \<Rightarrow> string option \<times> memorySubs" where
  "ms_Upsert s r =
     (case map_of r (sub_StripeID s) of
        Some existing \<Rightarrow>
          if sub_StripeUpdatedAt existing > sub_StripeUpdatedAt s then (None, r)
          else (None, mset_key (sub_StripeID s) s r)
      | None \<Rightarrow> (None, mset_key (sub_StripeID s) s r))"

definition ms_GetByStripeID :: "string \<Rightarrow> memorySubs \<Rightarrow> string + Subscription option" where
  "ms_GetByStripeID sid r = Inr (map_of r sid)"

definition ms_ListBySubject :: "string \<Rightarrow> memorySubs \<Rightarrow> string + Subscription list" where
  "ms_ListBySubject subject r = Inr (filter (\<lambda>s. sub_SubjectID s = subject) (map snd r))"

definition ms_repo :: "memorySubs subsRepo" where
  "ms_repo = \<lparr>sr_Upsert = ms_Upsert, sr_GetByStripeID = ms_GetByStripeID, sr_ListBySubject = ms_ListBySubject\<rparr>"

subsection \<open>From an event to a row\<close>

record subscriptionPriceShape =
  psh_ID :: string
  psh_LookupKey :: string

record subscriptionItemShape =
  ish_ID :: string
  ish_Quantity :: int
  ish_CurrentPeriodStart :: int
  ish_CurrentPeriodEnd :: int
  ish_Price :: "subscriptionPriceShape option"

record latestInvoiceShape =
  lish_Status :: string
  lish_AttemptCount :: int
  lish_NextPaymentAttempt :: int

text \<open>\<open>LatestInvoice\<close> is a \<open>json.RawMessage\<close>: \<open>None\<close> when the member is absent.\<close>

record subscriptionShape =
  ssh_ID :: string
  ssh_Status :: string
  ssh_Customer :: string
  ssh_CancelAtPeriodEnd :: bool
  ssh_CanceledAt :: int
  ssh_EndedAt :: int
  ssh_TrialStart :: int
  ssh_TrialEnd :: int
  ssh_Metadata :: "(string, string) gomap"
  ssh_Items :: "subscriptionItemShape list option"
  ssh_LatestInvoice :: "json option"

definition priceShapeField :: "string \<Rightarrow> json \<Rightarrow> subscriptionPriceShape \<Rightarrow> subscriptionPriceShape option" where
  "priceShapeField k v s =
     (if k = ''id'' then map_option (\<lambda>x. s\<lparr>psh_ID := x\<rparr>) (dString v (psh_ID s))
      else if k = ''lookup_key'' then map_option (\<lambda>x. s\<lparr>psh_LookupKey := x\<rparr>) (dString v (psh_LookupKey s))
      else Some s)"

definition itemShapeField :: "string \<Rightarrow> json \<Rightarrow> subscriptionItemShape \<Rightarrow> subscriptionItemShape option" where
  "itemShapeField k v s =
     (if k = ''id'' then map_option (\<lambda>x. s\<lparr>ish_ID := x\<rparr>) (dString v (ish_ID s))
      else if k = ''quantity'' then map_option (\<lambda>x. s\<lparr>ish_Quantity := x\<rparr>) (dInt v (ish_Quantity s))
      else if k = ''current_period_start''
        then map_option (\<lambda>x. s\<lparr>ish_CurrentPeriodStart := x\<rparr>) (dInt v (ish_CurrentPeriodStart s))
      else if k = ''current_period_end''
        then map_option (\<lambda>x. s\<lparr>ish_CurrentPeriodEnd := x\<rparr>) (dInt v (ish_CurrentPeriodEnd s))
      else if k = ''price''
        then map_option (\<lambda>x. s\<lparr>ish_Price := x\<rparr>)
               (dPtr \<lparr>psh_ID = '''', psh_LookupKey = ''''\<rparr> (dStruct priceShapeField) v (ish_Price s))
      else Some s)"

definition zeroItemShape :: subscriptionItemShape where
  "zeroItemShape =
     \<lparr>ish_ID = '''', ish_Quantity = 0, ish_CurrentPeriodStart = 0, ish_CurrentPeriodEnd = 0, ish_Price = None\<rparr>"

definition itemListField ::
  "string \<Rightarrow> json \<Rightarrow> subscriptionItemShape list \<Rightarrow> subscriptionItemShape list option" where
  "itemListField k v xs = (if k = ''data'' then dSlice zeroItemShape (dStruct itemShapeField) v else Some xs)"

definition latestInvoiceField :: "string \<Rightarrow> json \<Rightarrow> latestInvoiceShape \<Rightarrow> latestInvoiceShape option" where
  "latestInvoiceField k v s =
     (if k = ''status'' then map_option (\<lambda>x. s\<lparr>lish_Status := x\<rparr>) (dString v (lish_Status s))
      else if k = ''attempt_count'' then map_option (\<lambda>x. s\<lparr>lish_AttemptCount := x\<rparr>) (dInt v (lish_AttemptCount s))
      else if k = ''next_payment_attempt''
        then map_option (\<lambda>x. s\<lparr>lish_NextPaymentAttempt := x\<rparr>) (dInt v (lish_NextPaymentAttempt s))
      else Some s)"

definition subscriptionField :: "string \<Rightarrow> json \<Rightarrow> subscriptionShape \<Rightarrow> subscriptionShape option" where
  "subscriptionField k v s =
     (if k = ''id'' then map_option (\<lambda>x. s\<lparr>ssh_ID := x\<rparr>) (dString v (ssh_ID s))
      else if k = ''status'' then map_option (\<lambda>x. s\<lparr>ssh_Status := x\<rparr>) (dString v (ssh_Status s))
      else if k = ''customer'' then map_option (\<lambda>x. s\<lparr>ssh_Customer := x\<rparr>) (dString v (ssh_Customer s))
      else if k = ''cancel_at_period_end''
        then map_option (\<lambda>x. s\<lparr>ssh_CancelAtPeriodEnd := x\<rparr>) (dBool v (ssh_CancelAtPeriodEnd s))
      else if k = ''canceled_at'' then map_option (\<lambda>x. s\<lparr>ssh_CanceledAt := x\<rparr>) (dInt v (ssh_CanceledAt s))
      else if k = ''ended_at'' then map_option (\<lambda>x. s\<lparr>ssh_EndedAt := x\<rparr>) (dInt v (ssh_EndedAt s))
      else if k = ''trial_start'' then map_option (\<lambda>x. s\<lparr>ssh_TrialStart := x\<rparr>) (dInt v (ssh_TrialStart s))
      else if k = ''trial_end'' then map_option (\<lambda>x. s\<lparr>ssh_TrialEnd := x\<rparr>) (dInt v (ssh_TrialEnd s))
      else if k = ''metadata'' then map_option (\<lambda>x. s\<lparr>ssh_Metadata := x\<rparr>) (dStrMap v (ssh_Metadata s))
      else if k = ''items''
        then map_option (\<lambda>x. s\<lparr>ssh_Items := x\<rparr>) (dPtr [] (dStruct itemListField) v (ssh_Items s))
      else if k = ''latest_invoice'' then Some (s\<lparr>ssh_LatestInvoice := Some v\<rparr>)
      else Some s)"

definition zeroSubscriptionShape :: subscriptionShape where
  "zeroSubscriptionShape =
     \<lparr>ssh_ID = '''', ssh_Status = '''', ssh_Customer = '''', ssh_CancelAtPeriodEnd = False, ssh_CanceledAt = 0,
      ssh_EndedAt = 0, ssh_TrialStart = 0, ssh_TrialEnd = 0, ssh_Metadata = [], ssh_Items = None,
      ssh_LatestInvoice = None\<rparr>"

definition unixToTimePtr :: "int \<Rightarrow> time option" where
  "unixToTimePtr unix = (if unix = 0 then None else Some (unixTime unix))"

text \<open>The resolver is \<open>PriceKeyByStripeID\<close> of a cache; \<open>None\<close> for a nil resolver.\<close>

definition resolvePriceKey :: "(string \<Rightarrow> string option) option \<Rightarrow> subscriptionPriceShape \<Rightarrow> string" where
  "resolvePriceKey resolver price =
     (let fallback = (if psh_LookupKey price \<noteq> '''' then psh_LookupKey price else ''stripe:'' @ psh_ID price)
      in case resolver of
           None \<Rightarrow> fallback
         | Some res \<Rightarrow> (case res (psh_ID price) of Some key \<Rightarrow> key | None \<Rightarrow> fallback))"

definition latestInvoice :: "json option \<Rightarrow> LatestInvoiceState option" where
  "latestInvoice raw =
     (case raw of
        Some (JObj ms) \<Rightarrow>
          (case dStruct latestInvoiceField (JObj ms)
                  \<lparr>lish_Status = '''', lish_AttemptCount = 0, lish_NextPaymentAttempt = 0\<rparr> of
             Some li \<Rightarrow>
               if lish_Status li \<noteq> '''' then
                 Some \<lparr>li_Status = lish_Status li, li_AttemptCount = lish_AttemptCount li,
                       li_NextPaymentAttempt = unixToTimePtr (lish_NextPaymentAttempt li)\<rparr>
               else None
           | None \<Rightarrow> None)
      | _ \<Rightarrow> None)"

text \<open>The body of the loop over the items.\<close>

definition addItem ::
  "(string \<Rightarrow> string option) option \<Rightarrow> subscriptionItemShape \<Rightarrow> Subscription \<Rightarrow> Subscription" where
  "addItem resolver raw sub =
     (let item = \<lparr>si_StripeID = ish_ID raw,
                  si_PriceKey = (case ish_Price raw of None \<Rightarrow> '''' | Some p \<Rightarrow> resolvePriceKey resolver p),
                  si_Quantity = ish_Quantity raw\<rparr>;
          sub' = sub\<lparr>sub_Items := sub_Items sub @ [item]\<rparr>
      in if sub_CurrentPeriodStart sub' = zero_time \<and> ish_CurrentPeriodStart raw > 0
         then sub'\<lparr>sub_CurrentPeriodStart := unixTime (ish_CurrentPeriodStart raw),
                   sub_CurrentPeriodEnd := unixTime (ish_CurrentPeriodEnd raw)\<rparr>
         else sub')"

definition projectSubscription ::
  "(string \<Rightarrow> string option) option \<Rightarrow> subscriptionShape \<Rightarrow> Subscription" where
  "projectSubscription resolver shape =
     fold (addItem resolver) (case ssh_Items shape of None \<Rightarrow> [] | Some xs \<Rightarrow> xs)
       \<lparr>sub_StripeID = ssh_ID shape, sub_SubjectID = mstr (ssh_Metadata shape) ''subject_id'',
        sub_StripeCustomerID = ssh_Customer shape, sub_Status = ssh_Status shape, sub_Items = [],
        sub_CurrentPeriodStart = zero_time, sub_CurrentPeriodEnd = zero_time,
        sub_CancelAtPeriodEnd = ssh_CancelAtPeriodEnd shape, sub_CanceledAt = unixToTimePtr (ssh_CanceledAt shape),
        sub_EndedAt = unixToTimePtr (ssh_EndedAt shape), sub_TrialStart = unixToTimePtr (ssh_TrialStart shape),
        sub_TrialEnd = unixToTimePtr (ssh_TrialEnd shape), sub_Metadata = ssh_Metadata shape,
        sub_UpdatedAt = zero_time, sub_StripeUpdatedAt = zero_time,
        sub_LatestInvoice = latestInvoice (ssh_LatestInvoice shape)\<rparr>"

datatype mirrorError =
    MirrorNoData string
  | MirrorSyntax
  | MirrorUpsert string

definition parseSubscription ::
  "(string \<Rightarrow> string option) option \<Rightarrow> Event \<Rightarrow> mirrorError + Subscription" where
  "parseSubscription resolver evt =
     (case eventData evt of
        None \<Rightarrow> Inl (MirrorNoData (ev_ID evt))
      | Some b \<Rightarrow>
          (case Unmarshal (dStruct subscriptionField) b zeroSubscriptionShape of
             None \<Rightarrow> Inl MirrorSyntax
           | Some shape \<Rightarrow> Inr (projectSubscription resolver shape)))"

definition mirrorTypes :: "string list" where
  "mirrorTypes =
     [''customer.subscription.created'', ''customer.subscription.updated'', ''customer.subscription.deleted'',
      ''customer.subscription.paused'', ''customer.subscription.resumed'']"

text \<open>The row an event writes: \<open>now1\<close> and \<open>now2\<close> are the two readings of the clock.\<close>

definition stampRow :: "time \<Rightarrow> time \<Rightarrow> Event \<Rightarrow> Subscription \<Rightarrow> Subscription" where
  "stampRow now1 now2 evt sub =
     (let sub1 = (if ev_Type evt = ''customer.subscription.deleted''
                  then sub\<lparr>sub_Status := StatusCanceled,
                           sub_EndedAt := (case sub_EndedAt sub of None \<Rightarrow> Some now1 | Some t \<Rightarrow> Some t)\<rparr>
                  else sub)
      in sub1\<lparr>sub_UpdatedAt := now2, sub_StripeUpdatedAt := unixTime (ev_CreatedUnix evt)\<rparr>)"

definition ApplyEventToMirror ::
  "'r subsRepo option \<Rightarrow> (string \<Rightarrow> string option) option \<Rightarrow> time \<Rightarrow> time \<Rightarrow> Event \<Rightarrow> 'r
    \<Rightarrow> mirrorError option \<times> 'r" where
  "ApplyEventToMirror repo resolver now1 now2 evt r =
     (case repo of
        None \<Rightarrow> (None, r)
      | Some repo \<Rightarrow>
          if ev_Type evt \<notin> set mirrorTypes then (None, r)
          else (case parseSubscription resolver evt of
             Inl e \<Rightarrow> (Some e, r)
           | Inr sub \<Rightarrow>
               (let (err, r') = sr_Upsert repo (stampRow now1 now2 evt sub) r
                in (map_option MirrorUpsert err, r'))))"

subsection \<open>Hot-path queries\<close>

definition subs_ListActive :: "'r subsRepo \<Rightarrow> string \<Rightarrow> 'r \<Rightarrow> string + Subscription list" where
  "subs_ListActive repo subject r =
     (case sr_ListBySubject repo subject r of
        Inl e \<Rightarrow> Inl e
      | Inr subs \<Rightarrow> Inr (filter (\<lambda>s. IsAccessGranting (sub_Status s)) subs))"

definition newPriceKeyMatcher :: "string \<Rightarrow> string \<Rightarrow> bool" where
  "newPriceKeyMatcher pat =
     (if HasSuffix pat ''*'' then (\<lambda>k. HasPrefix k (TrimSuffix pat ''*'')) else (\<lambda>k. k = pat))"

definition subs_HasActivePrice :: "'r subsRepo \<Rightarrow> string \<Rightarrow> string \<Rightarrow> 'r \<Rightarrow> string + bool" where
  "subs_HasActivePrice repo subject pat r =
     (case subs_ListActive repo subject r of
        Inl e \<Rightarrow> Inl e
      | Inr subs \<Rightarrow>
          Inr (list_ex (\<lambda>s. list_ex (\<lambda>item. newPriceKeyMatcher pat (si_PriceKey item)) (sub_Items s)) subs))"

definition subs_ListByPriceKey :: "'r subsRepo \<Rightarrow> string \<Rightarrow> string \<Rightarrow> 'r \<Rightarrow> string + Subscription list" where
  "subs_ListByPriceKey repo subject pat r =
     (case subs_ListActive repo subject r of
        Inl e \<Rightarrow> Inl e
      | Inr subs \<Rightarrow>
          Inr (filter (\<lambda>s. list_ex (\<lambda>item. newPriceKeyMatcher pat (si_PriceKey item)) (sub_Items s)) subs))"

subsection \<open>The Postgres repository\<close>

text \<open>
  The table is the list of its rows. A JSONB column holds a tree; a nullable column is an option. \<open>micro\<close> is the
  database driver's conversion of an instant to the microseconds of a \<open>TIMESTAMPTZ\<close>. Database errors are
  left out.
\<close>

record pgSub =
  ps_stripe_id :: string
  ps_subject_id :: string
  ps_stripe_customer_id :: string
  ps_status :: string
  ps_current_period_start :: "time option"
  ps_current_period_end :: "time option"
  ps_cancel_at_period_end :: bool
  ps_canceled_at :: "time option"
  ps_ended_at :: "time option"
  ps_trial_start :: "time option"
  ps_trial_end :: "time option"
  ps_metadata :: json
  ps_items :: json
  ps_updated_at :: time
  ps_stripe_updated_at :: time

definition nullTime :: "time \<Rightarrow> time option" where
  "nullTime t = (if t = zero_time then None else Some t)"

definition nullTimePtr :: "time option \<Rightarrow> time option" where
  "nullTimePtr t = (case t of None \<Rightarrow> None | Some x \<Rightarrow> if x = zero_time then None else Some x)"

text \<open>A \<open>SubscriptionItem\<close> has no tags, so its members carry the field names.\<close>

definition itemJson :: "SubscriptionItem \<Rightarrow> json" where
  "itemJson it =
     JObj [(''StripeID'', JStr (si_StripeID it)), (''PriceKey'', JStr (si_PriceKey it)),
           (''Quantity'', JNum (showInt (si_Quantity it)))]"

definition itemsJson :: "SubscriptionItem list \<Rightarrow> json" where
  "itemsJson its = (if its = [] then JNull else JArr (map itemJson its))"

definition pgSubRow :: "(time \<Rightarrow> time) \<Rightarrow> time \<Rightarrow> Subscription \<Rightarrow> pgSub" where
  "pgSubRow micro now s =
     \<lparr>ps_stripe_id = sub_StripeID s, ps_subject_id = sub_SubjectID s,
      ps_stripe_customer_id = sub_StripeCustomerID s, ps_status = sub_Status s,
      ps_current_period_start = map_option micro (nullTime (sub_CurrentPeriodStart s)),
      ps_current_period_end = map_option micro (nullTime (sub_CurrentPeriodEnd s)),
      ps_cancel_at_period_end = sub_CancelAtPeriodEnd s,
      ps_canceled_at = map_option micro (nullTimePtr (sub_CanceledAt s)),
      ps_ended_at = map_option micro (nullTimePtr (sub_EndedAt s)),
      ps_trial_start = map_option micro (nullTimePtr (sub_TrialStart s)),
      ps_trial_end = map_option micro (nullTimePtr (sub_TrialEnd s)),
      ps_metadata = metadataObj (sub_Metadata s), ps_items = itemsJson (sub_Items s),
      ps_updated_at = now, ps_stripe_updated_at = micro (sub_StripeUpdatedAt s)\<rparr>"

definition pg_sub_Upsert ::
  "(time \<Rightarrow> time) \<Rightarrow> time \<Rightarrow> Subscription \<Rightarrow> pgSub list \<Rightarrow> string option \<times> pgSub list" where
  "pg_sub_Upsert micro now s t =
     (let new = pgSubRow micro now s
      in (None,
          if sub_StripeID s \<in> set (map ps_stripe_id t)
          then map (\<lambda>row. if ps_stripe_id row = sub_StripeID s \<and> ps_stripe_updated_at row < ps_stripe_updated_at new
                          then new else row) t
          else t @ [new]))"

text \<open>
  \<open>json.Unmarshal\<close> into a field whose error is only logged: a mismatched member keeps the target's value, the
  others are decoded.
\<close>

definition lenient :: "('j \<Rightarrow> 'a \<Rightarrow> 'a option) \<Rightarrow> 'j \<Rightarrow> 'a \<Rightarrow> 'a" where
  "lenient dec j x = (case dec j x of None \<Rightarrow> x | Some y \<Rightarrow> y)"

definition pgItemField :: "string \<Rightarrow> json \<Rightarrow> SubscriptionItem \<Rightarrow> SubscriptionItem option" where
  "pgItemField k v it =
     (if k = ''stripeid'' then Some (it\<lparr>si_StripeID := lenient dString v (si_StripeID it)\<rparr>)
      else if k = ''pricekey'' then Some (it\<lparr>si_PriceKey := lenient dString v (si_PriceKey it)\<rparr>)
      else if k = ''quantity'' then Some (it\<lparr>si_Quantity := lenient dInt v (si_Quantity it)\<rparr>)
      else Some it)"

definition pgItems :: "json \<Rightarrow> SubscriptionItem list" where
  "pgItems j =
     (case j of
        JArr js \<Rightarrow> map (\<lambda>v. lenient (dStruct pgItemField) v \<lparr>si_StripeID = '''', si_PriceKey = '''', si_Quantity = 0\<rparr>) js
      | _ \<Rightarrow> [])"

definition pgMetadata :: "json \<Rightarrow> (string, string) gomap" where
  "pgMetadata j =
     (case j of
        JObj ms \<Rightarrow> fold (\<lambda>(k, v) m. mset_key k (lenient dString v '''') m) ms []
      | _ \<Rightarrow> [])"

definition scanSubscription :: "pgSub \<Rightarrow> Subscription" where
  "scanSubscription row =
     \<lparr>sub_StripeID = ps_stripe_id row, sub_SubjectID = ps_subject_id row,
      sub_StripeCustomerID = ps_stripe_customer_id row, sub_Status = ps_status row,
      sub_Items = pgItems (ps_items row),
      sub_CurrentPeriodStart = (case ps_current_period_start row of None \<Rightarrow> zero_time | Some t \<Rightarrow> t),
      sub_CurrentPeriodEnd = (case ps_current_period_end row of None \<Rightarrow> zero_time | Some t \<Rightarrow> t),
      sub_CancelAtPeriodEnd = ps_cancel_at_period_end row,
      sub_CanceledAt = ps_canceled_at row, sub_EndedAt = ps_ended_at row,
      sub_TrialStart = ps_trial_start row, sub_TrialEnd = ps_trial_end row,
      sub_Metadata = pgMetadata (ps_metadata row), sub_UpdatedAt = ps_updated_at row,
      sub_StripeUpdatedAt = ps_stripe_updated_at row, sub_LatestInvoice = None\<rparr>"

definition pg_sub_GetByStripeID :: "string \<Rightarrow> pgSub list \<Rightarrow> string + Subscription option" where
  "pg_sub_GetByStripeID sid t = Inr (map_option scanSubscription (List.find (\<lambda>row. ps_stripe_id row = sid) t))"

definition pg_sub_ListBySubject :: "string \<Rightarrow> pgSub list \<Rightarrow> string + Subscription list" where
  "pg_sub_ListBySubject subject t =
     Inr (map scanSubscription
       (sort_slice (\<lambda>a b. ps_updated_at b < ps_updated_at a) (filter (\<lambda>row. ps_subject_id row = subject) t)))"

definition pg_sub_repo :: "(time \<Rightarrow> time) \<Rightarrow> time \<Rightarrow> pgSub list subsRepo" where
  "pg_sub_repo micro now =
     \<lparr>sr_Upsert = pg_sub_Upsert micro now, sr_GetByStripeID = pg_sub_GetByStripeID,
      sr_ListBySubject = pg_sub_ListBySubject\<rparr>"

end
