(* ===== verification/Subscription_Ops.thy ===== *)
theory Subscription_Ops
  imports Subscriptions
begin

text \<open>
  App-initiated subscription operations: \<open>subscriptions/operations.go\<close>, \<open>seats.go\<close>, \<open>schedules.go\<close>,
  \<open>reconcile.go\<close> and \<open>refund_failed_handler.go\<close>. The Stripe adapter (\<open>backend.go\<close>) is a record of functions on a
  backend state, the repository a \<open>subsRepo\<close>. Errors are values; the texts of the ad-hoc ones name the missing
  field only.
\<close>

subsection \<open>The backend interface\<close>

record PauseOptions =
  po_Behavior :: string
  po_ResumesAt :: time

record MigratePreviewLine =
  mpl_Description :: string
  mpl_Amount :: int
  mpl_PriceID :: string

record MigratePreview =
  mp_Currency :: string
  mp_AmountDueNow :: int
  mp_AmountSubtotal :: int
  mp_AmountTax :: int
  mp_NextBillingTotal :: int
  mp_NextBillingAt :: time
  mp_ProrationLineItems :: "MigratePreviewLine list"

record AddInvoiceItem =
  aii_StripePriceID :: string
  aii_InlineAmount :: int
  aii_Currency :: string
  aii_Name :: string
  aii_Quantity :: int

record InvoicedSubscriptionInput =
  isi_StripeCustomerID :: string
  isi_StripePriceID :: string
  isi_Quantity :: int
  isi_DueIn :: int
  isi_AutoFinalize :: bool
  isi_Metadata :: "(string, string) gomap"
  isi_TrialDays :: int
  isi_AddInvoiceItems :: "AddInvoiceItem list"

record ReconciledSubscription =
  rs_StripeID :: string
  rs_StripeCustomerID :: string
  rs_Status :: string
  rs_CancelAtPeriodEnd :: bool
  rs_CanceledAt :: "time option"
  rs_EndedAt :: "time option"
  rs_TrialStart :: "time option"
  rs_TrialEnd :: "time option"
  rs_Metadata :: "(string, string) gomap"
  rs_Items :: "SubscriptionItem list"
  rs_CurrentPeriodStart :: time
  rs_CurrentPeriodEnd :: time
  rs_UpdatedUnix :: int

record CancelNowOptions =
  cno_Prorate :: bool
  cno_Reason :: string

record UpdateOptions =
  uo_ProrationBehavior :: string

record ItemChange =
  ic_StripeItemID :: string
  ic_PriceID :: string
  ic_Quantity :: int
  ic_Deleted :: bool

record Schedule =
  sc_StripeID :: string
  sc_Status :: string

record BackendPhase =
  bp_StripePriceID :: string
  bp_StripeCouponID :: string
  bp_Quantity :: int
  bp_Iterations :: int

record ScheduleBackendInput =
  sbi_StripeCustomerID :: string
  sbi_Phases :: "BackendPhase list"
  sbi_EndBehavior :: string
  sbi_StartAt :: time
  sbi_Metadata :: "(string, string) gomap"

text \<open>\<open>sbk_ListByCustomer\<close> is the optional capability \<open>CustomerSubscriptionLister\<close>.\<close>

record 's subsBackend =
  sbk_CancelAtPeriodEnd :: "string \<Rightarrow> bool \<Rightarrow> 's \<Rightarrow> string option \<times> 's"
  sbk_CancelNow :: "string \<Rightarrow> CancelNowOptions \<Rightarrow> 's \<Rightarrow> string option \<times> 's"
  sbk_UpdateItems :: "string \<Rightarrow> ItemChange list \<Rightarrow> UpdateOptions \<Rightarrow> 's \<Rightarrow> string option \<times> 's"
  sbk_ApplyCoupon :: "string \<Rightarrow> string \<Rightarrow> 's \<Rightarrow> string option \<times> 's"
  sbk_RemoveCoupon :: "string \<Rightarrow> 's \<Rightarrow> string option \<times> 's"
  sbk_ListSince :: "time \<Rightarrow> 's \<Rightarrow> (string + ReconciledSubscription list) \<times> 's"
  sbk_CreateInvoiced :: "InvoicedSubscriptionInput \<Rightarrow> 's \<Rightarrow> (string + Subscription) \<times> 's"
  sbk_CreateSubscriptionSchedule :: "ScheduleBackendInput \<Rightarrow> 's \<Rightarrow> (string + Schedule) \<times> 's"
  sbk_GetSubscriptionItems :: "string \<Rightarrow> 's \<Rightarrow> (string + SubscriptionItem list) \<times> 's"
  sbk_PreviewItemChange :: "string \<Rightarrow> ItemChange list \<Rightarrow> 's \<Rightarrow> (string + MigratePreview) \<times> 's"
  sbk_Pause :: "string \<Rightarrow> PauseOptions \<Rightarrow> 's \<Rightarrow> string option \<times> 's"
  sbk_Resume :: "string \<Rightarrow> 's \<Rightarrow> string option \<times> 's"
  sbk_ListByCustomer :: "(string \<Rightarrow> 's \<Rightarrow> (string + ReconciledSubscription list) \<times> 's) option"

subsection \<open>Construction\<close>

record ('s, 'r) subsOps =
  so_backend :: "'s subsBackend"
  so_repo :: "'r subsRepo"
  so_spec :: "Spec option"
  so_cache :: "Cache option"
  so_namespace :: string

record ('s, 'r) subsConfig =
  scf_Backend :: "'s subsBackend option"
  scf_Repo :: "'r subsRepo option"
  scf_Spec :: "Spec option"
  scf_Cache :: "Cache option"

text \<open>\<open>None\<close> is the panic on a missing backend or repository.\<close>

definition subs_New :: "('s, 'r) subsConfig \<Rightarrow> ('s, 'r) subsOps option" where
  "subs_New cfg =
     (case (scf_Backend cfg, scf_Repo cfg) of
        (Some be, Some repo) \<Rightarrow>
          Some \<lparr>so_backend = be, so_repo = repo, so_spec = scf_Spec cfg, so_cache = scf_Cache cfg,
                so_namespace = (case scf_Spec cfg of None \<Rightarrow> '''' | Some spec \<Rightarrow> sp_Namespace spec)\<rparr>
      | _ \<Rightarrow> None)"

datatype subsError =
    SubFieldInvalid string
  | ErrMigrateNeedsCacheAndSpec
  | ErrSubscriptionNotInMirror
  | ErrFromPriceNotOnSub string
  | ErrPriceKeyUnresolved string
  | ErrSubscriptionNotForSubject
  | ErrSeatPriceNotInSubscription
  | ErrSubjectReconcileUnsupported
  | PhaseResolveError nat string
  | SubLookupFailed string
  | SubBackendFailed string
  | RefundEventEmpty
  | RefundEventSyntax
  | RefundResolverFailed string
  | RefundCancelFailed string subsError

definition wrapBackend :: "string option \<times> 's \<Rightarrow> subsError option \<times> 's" where
  "wrapBackend res = (map_option SubBackendFailed (fst res), snd res)"

definition wrapResult :: "(string + 'a) \<times> 's \<Rightarrow> (subsError + 'a) \<times> 's" where
  "wrapResult res = (map_sum SubBackendFailed (\<lambda>x. x) (fst res), snd res)"

definition namespacedKeyOrSelf :: "Spec option \<Rightarrow> string \<Rightarrow> string" where
  "namespacedKeyOrSelf spec key =
     (case spec of
        None \<Rightarrow> key
      | Some sp \<Rightarrow>
          if key = '''' then key
          else let prefix = sp_Namespace sp @ ''.'' in if HasPrefix key prefix then key else prefix @ key)"

definition prorationBehavior :: "bool \<Rightarrow> string" where
  "prorationBehavior prorate = (if prorate then ''create_prorations'' else ''none'')"

subsection \<open>Cancelling, pausing, coupons\<close>

definition subs_CancelAtPeriodEnd :: "('s, 'r) subsOps \<Rightarrow> string \<Rightarrow> 's \<Rightarrow> subsError option \<times> 's" where
  "subs_CancelAtPeriodEnd ops sid s =
     (if sid = '''' then (Some (SubFieldInvalid ''stripeSubID''), s)
      else wrapBackend (sbk_CancelAtPeriodEnd (so_backend ops) sid True s))"

definition subs_UndoCancelAtPeriodEnd :: "('s, 'r) subsOps \<Rightarrow> string \<Rightarrow> 's \<Rightarrow> subsError option \<times> 's" where
  "subs_UndoCancelAtPeriodEnd ops sid s =
     (if sid = '''' then (Some (SubFieldInvalid ''stripeSubID''), s)
      else wrapBackend (sbk_CancelAtPeriodEnd (so_backend ops) sid False s))"

definition subs_CancelNow ::
  "('s, 'r) subsOps \<Rightarrow> string \<Rightarrow> CancelNowOptions \<Rightarrow> 's \<Rightarrow> subsError option \<times> 's" where
  "subs_CancelNow ops sid opts s =
     (if sid = '''' then (Some (SubFieldInvalid ''stripeSubID''), s)
      else wrapBackend (sbk_CancelNow (so_backend ops) sid opts s))"

definition subs_CancelNowByStripeID :: "('s, 'r) subsOps \<Rightarrow> string \<Rightarrow> 's \<Rightarrow> subsError option \<times> 's" where
  "subs_CancelNowByStripeID ops sid s =
     subs_CancelNow ops sid \<lparr>cno_Prorate = False, cno_Reason = ''gdpr_forget''\<rparr> s"

definition subs_Pause :: "('s, 'r) subsOps \<Rightarrow> string \<Rightarrow> PauseOptions \<Rightarrow> 's \<Rightarrow> subsError option \<times> 's" where
  "subs_Pause ops sid opts s =
     (if sid = '''' then (Some (SubFieldInvalid ''stripeSubID''), s)
      else wrapBackend (sbk_Pause (so_backend ops) sid opts s))"

definition subs_Resume :: "('s, 'r) subsOps \<Rightarrow> string \<Rightarrow> 's \<Rightarrow> subsError option \<times> 's" where
  "subs_Resume ops sid s =
     (if sid = '''' then (Some (SubFieldInvalid ''stripeSubID''), s)
      else wrapBackend (sbk_Resume (so_backend ops) sid s))"

definition subs_ApplyCoupon :: "('s, 'r) subsOps \<Rightarrow> string \<Rightarrow> string \<Rightarrow> 's \<Rightarrow> subsError option \<times> 's" where
  "subs_ApplyCoupon ops sid couponKey s =
     (if sid = '''' then (Some (SubFieldInvalid ''stripeSubID''), s)
      else if couponKey = '''' then (Some (SubFieldInvalid ''couponKey''), s)
      else wrapBackend (sbk_ApplyCoupon (so_backend ops) sid
             (case so_spec ops of None \<Rightarrow> couponKey | Some spec \<Rightarrow> NamespacedCouponID spec couponKey) s))"

definition subs_RemoveCoupon :: "('s, 'r) subsOps \<Rightarrow> string \<Rightarrow> 's \<Rightarrow> subsError option \<times> 's" where
  "subs_RemoveCoupon ops sid s =
     (if sid = '''' then (Some (SubFieldInvalid ''stripeSubID''), s)
      else wrapBackend (sbk_RemoveCoupon (so_backend ops) sid s))"

subsection \<open>Migrating a price\<close>

record MigrateInput =
  mi_StripeSubID :: string
  mi_FromPriceKey :: string
  mi_ToPriceKey :: string
  mi_Prorate :: bool

text \<open>The id of the first item priced at \<open>key\<close>; empty when there is none.\<close>

definition itemIDByKey :: "SubscriptionItem list \<Rightarrow> string \<Rightarrow> string" where
  "itemIDByKey items key =
     (case List.find (\<lambda>it. si_PriceKey it = key) items of None \<Rightarrow> '''' | Some it \<Rightarrow> si_StripeID it)"

definition migrateChanges :: "string \<Rightarrow> string \<Rightarrow> ItemChange list" where
  "migrateChanges fromItemID toPriceID =
     [\<lparr>ic_StripeItemID = fromItemID, ic_PriceID = '''', ic_Quantity = 0, ic_Deleted = True\<rparr>,
      \<lparr>ic_StripeItemID = '''', ic_PriceID = toPriceID, ic_Quantity = 1, ic_Deleted = False\<rparr>]"

text \<open>The checks and lookups \<open>Migrate\<close> and \<open>PreviewMigrate\<close> share.\<close>

definition resolveMigration :: "('s, 'r) subsOps \<Rightarrow> MigrateInput \<Rightarrow> 'r \<Rightarrow> subsError + ItemChange list" where
  "resolveMigration ops inp r =
     (case (so_spec ops, so_cache ops) of
        (Some spec, Some cache) \<Rightarrow>
          if mi_StripeSubID inp = '''' then Inl (SubFieldInvalid ''StripeSubID'')
          else (case sr_GetByStripeID (so_repo ops) (mi_StripeSubID inp) r of
             Inl e \<Rightarrow> Inl (SubLookupFailed e)
           | Inr None \<Rightarrow> Inl ErrSubscriptionNotInMirror
           | Inr (Some sub) \<Rightarrow>
               (let from = namespacedKeyOrSelf (Some spec) (mi_FromPriceKey inp);
                    to = namespacedKeyOrSelf (Some spec) (mi_ToPriceKey inp);
                    itemID = itemIDByKey (sub_Items sub) from
                in if itemID = '''' then Inl (ErrFromPriceNotOnSub from)
                   else (case Cache_Lookup cache to of
                      None \<Rightarrow> Inl (ErrPriceKeyUnresolved to)
                    | Some priceID \<Rightarrow> Inr (migrateChanges itemID priceID))))
      | _ \<Rightarrow> Inl ErrMigrateNeedsCacheAndSpec)"

definition subs_Migrate :: "('s, 'r) subsOps \<Rightarrow> MigrateInput \<Rightarrow> 'r \<Rightarrow> 's \<Rightarrow> subsError option \<times> 's" where
  "subs_Migrate ops inp r s =
     (case resolveMigration ops inp r of
        Inl e \<Rightarrow> (Some e, s)
      | Inr changes \<Rightarrow>
          wrapBackend (sbk_UpdateItems (so_backend ops) (mi_StripeSubID inp) changes
            \<lparr>uo_ProrationBehavior = prorationBehavior (mi_Prorate inp)\<rparr> s))"

definition subs_PreviewMigrate ::
  "('s, 'r) subsOps \<Rightarrow> MigrateInput \<Rightarrow> 'r \<Rightarrow> 's \<Rightarrow> (subsError + MigratePreview) \<times> 's" where
  "subs_PreviewMigrate ops inp r s =
     (case resolveMigration ops inp r of
        Inl e \<Rightarrow> (Inl e, s)
      | Inr changes \<Rightarrow> wrapResult (sbk_PreviewItemChange (so_backend ops) (mi_StripeSubID inp) changes s))"

subsection \<open>Queries\<close>

definition ops_ListActive :: "('s, 'r) subsOps \<Rightarrow> string \<Rightarrow> 'r \<Rightarrow> string + Subscription list" where
  "ops_ListActive ops subject r = subs_ListActive (so_repo ops) subject r"

definition ops_HasActivePrice :: "('s, 'r) subsOps \<Rightarrow> string \<Rightarrow> string \<Rightarrow> 'r \<Rightarrow> string + bool" where
  "ops_HasActivePrice ops subject pat r =
     subs_HasActivePrice (so_repo ops) subject (namespacedKeyOrSelf (so_spec ops) pat) r"

definition ops_ListByPriceKey :: "('s, 'r) subsOps \<Rightarrow> string \<Rightarrow> string \<Rightarrow> 'r \<Rightarrow> string + Subscription list" where
  "ops_ListByPriceKey ops subject pat r =
     subs_ListByPriceKey (so_repo ops) subject (namespacedKeyOrSelf (so_spec ops) pat) r"

subsection \<open>Invoiced subscriptions\<close>

record InvoicedInput =
  ii_StripeCustomerID :: string
  ii_PriceKey :: string
  ii_Quantity :: int
  ii_DueIn :: int
  ii_AutoFinalize :: bool
  ii_Metadata :: "(string, string) gomap"
  ii_TrialDays :: int
  ii_SetupFee :: int
  ii_SetupFeeDescription :: string
  ii_AddInvoiceItems :: "AddInvoiceItem list"

definition splitTwoDot :: "string \<Rightarrow> (string \<times> string) option" where
  "splitTwoDot s =
     (case cutAt (CHR ''.'') s of
        None \<Rightarrow> None
      | Some (a, b) \<Rightarrow> if a \<noteq> '''' \<and> b \<noteq> '''' then Some (a, b) else None)"

text \<open>\<open>None\<close> stands for the zero \<open>Price\<close>.\<close>

definition lookupSpecPrice :: "Spec \<Rightarrow> string \<Rightarrow> Price option" where
  "lookupSpecPrice spec key =
     (case splitTwoDot key of
        None \<Rightarrow> None
      | Some (pk, prk) \<Rightarrow>
          (case map_of (sp_Products spec) pk of None \<Rightarrow> None | Some p \<Rightarrow> map_of (pd_Prices p) prk))"

definition setupFeeItem :: "Spec \<Rightarrow> InvoicedInput \<Rightarrow> (subsError + AddInvoiceItem list)" where
  "setupFeeItem spec inp =
     (if ii_SetupFee inp > 0 then
        (let currency = (case lookupSpecPrice spec (ii_PriceKey inp) of None \<Rightarrow> '''' | Some p \<Rightarrow> pr_Currency p);
             desc = (if ii_SetupFeeDescription inp = '''' then ''Setup fee'' else ii_SetupFeeDescription inp)
         in if currency = '''' then Inl (SubFieldInvalid ''Currency'')
            else Inr [\<lparr>aii_StripePriceID = '''', aii_InlineAmount = ii_SetupFee inp, aii_Currency = currency,
                       aii_Name = desc, aii_Quantity = 1\<rparr>])
      else Inr [])"

definition subs_CreateInvoiced ::
  "('s, 'r) subsOps \<Rightarrow> InvoicedInput \<Rightarrow> 's \<Rightarrow> (subsError + Subscription) \<times> 's" where
  "subs_CreateInvoiced ops inp s =
     (case (so_spec ops, so_cache ops) of
        (Some spec, Some cache) \<Rightarrow>
          if ii_StripeCustomerID inp = '''' then (Inl (SubFieldInvalid ''StripeCustomerID''), s)
          else if ii_PriceKey inp = '''' then (Inl (SubFieldInvalid ''PriceKey''), s)
          else (let nskey = namespacedKeyOrSelf (Some spec) (ii_PriceKey inp)
                in case Cache_Lookup cache nskey of
                     None \<Rightarrow> (Inl (ErrPriceKeyUnresolved nskey), s)
                   | Some priceID \<Rightarrow>
                       if ii_TrialDays inp \<noteq> 0 \<and> (ii_TrialDays inp < 1 \<or> ii_TrialDays inp > 730)
                       then (Inl (SubFieldInvalid ''TrialDays''), s)
                       else (case setupFeeItem spec inp of
                          Inl e \<Rightarrow> (Inl e, s)
                        | Inr fee \<Rightarrow>
                            wrapResult (sbk_CreateInvoiced (so_backend ops)
                              \<lparr>isi_StripeCustomerID = ii_StripeCustomerID inp, isi_StripePriceID = priceID,
                               isi_Quantity = (if ii_Quantity inp \<le> 0 then 1 else ii_Quantity inp),
                               isi_DueIn = ii_DueIn inp, isi_AutoFinalize = ii_AutoFinalize inp,
                               isi_Metadata = StampNamespace (ii_Metadata inp) (so_namespace ops),
                               isi_TrialDays = ii_TrialDays inp,
                               isi_AddInvoiceItems = ii_AddInvoiceItems inp @ fee\<rparr> s)))
      | _ \<Rightarrow> (Inl ErrMigrateNeedsCacheAndSpec, s))"

subsection \<open>Seats\<close>

text \<open>The pair is the item's id and quantity; a miss in the mirror asks the backend.\<close>

definition resolveSeatItem ::
  "('s, 'r) subsOps \<Rightarrow> string \<Rightarrow> string \<Rightarrow> string \<Rightarrow> 'r \<Rightarrow> 's \<Rightarrow> (subsError + string \<times> int) \<times> 's" where
  "resolveSeatItem ops subjectID sid nskey r s =
     (let pick = (\<lambda>items. case List.find (\<lambda>it. si_PriceKey it = nskey) items of
                            None \<Rightarrow> Inl ErrSeatPriceNotInSubscription
                          | Some it \<Rightarrow> Inr (si_StripeID it, si_Quantity it))
      in case sr_GetByStripeID (so_repo ops) sid r of
           Inl e \<Rightarrow> (Inl (SubLookupFailed e), s)
         | Inr (Some sub) \<Rightarrow>
             (if sub_SubjectID sub \<noteq> subjectID then Inl ErrSubscriptionNotForSubject else pick (sub_Items sub), s)
         | Inr None \<Rightarrow>
             (case sbk_GetSubscriptionItems (so_backend ops) sid s of
                (Inl e, s') \<Rightarrow> (Inl (SubBackendFailed e), s')
              | (Inr items, s') \<Rightarrow> (pick items, s')))"

definition seatChange :: "string \<Rightarrow> int \<Rightarrow> ItemChange list" where
  "seatChange itemID n = [\<lparr>ic_StripeItemID = itemID, ic_PriceID = '''', ic_Quantity = n, ic_Deleted = False\<rparr>]"

definition subs_SetSeats ::
  "('s, 'r) subsOps \<Rightarrow> string \<Rightarrow> string \<Rightarrow> string \<Rightarrow> int \<Rightarrow> bool \<Rightarrow> 'r \<Rightarrow> 's \<Rightarrow> subsError option \<times> 's" where
  "subs_SetSeats ops subjectID sid priceKey newCount prorate r s =
     (if newCount \<le> 0 then (Some (SubFieldInvalid ''newCount''), s)
      else if sid = '''' then (Some (SubFieldInvalid ''stripeSubID''), s)
      else if priceKey = '''' then (Some (SubFieldInvalid ''priceKey''), s)
      else (case resolveSeatItem ops subjectID sid (namespacedKeyOrSelf (so_spec ops) priceKey) r s of
         (Inl e, s') \<Rightarrow> (Some e, s')
       | (Inr (itemID, current), s') \<Rightarrow>
           if current = newCount then (None, s')
           else wrapBackend (sbk_UpdateItems (so_backend ops) sid (seatChange itemID newCount)
                  \<lparr>uo_ProrationBehavior = prorationBehavior prorate\<rparr> s')))"

definition subs_SeatCount ::
  "('s, 'r) subsOps \<Rightarrow> string \<Rightarrow> string \<Rightarrow> string \<Rightarrow> 'r \<Rightarrow> 's \<Rightarrow> (subsError + int) \<times> 's" where
  "subs_SeatCount ops subjectID sid priceKey r s =
     (case resolveSeatItem ops subjectID sid (namespacedKeyOrSelf (so_spec ops) priceKey) r s of
        (Inl e, s') \<Rightarrow> (if e = ErrSeatPriceNotInSubscription then Inr 0 else Inl e, s')
      | (Inr (_, current), s') \<Rightarrow> (Inr current, s'))"

definition subs_AddSeats ::
  "('s, 'r) subsOps \<Rightarrow> string \<Rightarrow> string \<Rightarrow> string \<Rightarrow> int \<Rightarrow> bool \<Rightarrow> 'r \<Rightarrow> 's \<Rightarrow> subsError option \<times> 's" where
  "subs_AddSeats ops subjectID sid priceKey delta prorate r s =
     (if delta = 0 then (None, s)
      else (case subs_SeatCount ops subjectID sid priceKey r s of
         (Inl e, s') \<Rightarrow> (Some e, s')
       | (Inr cur, s') \<Rightarrow>
           (let next = wrap64 (cur + delta)
            in if next \<le> 0 then (Some (SubFieldInvalid ''delta''), s')
               else subs_SetSeats ops subjectID sid priceKey next prorate r s')))"

definition subs_AdjustSeats ::
  "('s, 'r) subsOps \<Rightarrow> string \<Rightarrow> string \<Rightarrow> int \<Rightarrow> bool \<Rightarrow> 's \<Rightarrow> subsError option \<times> 's" where
  "subs_AdjustSeats ops sid itemID newQuantity prorate s =
     (if sid = '''' then (Some (SubFieldInvalid ''stripeSubID''), s)
      else if itemID = '''' then (Some (SubFieldInvalid ''itemID''), s)
      else if newQuantity \<le> 0 then (Some (SubFieldInvalid ''newQuantity''), s)
      else wrapBackend (sbk_UpdateItems (so_backend ops) sid (seatChange itemID newQuantity)
             \<lparr>uo_ProrationBehavior = prorationBehavior prorate\<rparr> s))"

subsection \<open>Schedules\<close>

record SchedulePhase =
  sph_PriceKey :: string
  sph_Quantity :: int
  sph_Iterations :: int
  sph_CouponKey :: string

record ScheduleInput =
  sin_StripeCustomerID :: string
  sin_Phases :: "SchedulePhase list"
  sin_EndBehavior :: string
  sin_Metadata :: "(string, string) gomap"
  sin_StartAt :: time

fun resolvePhases :: "Spec \<Rightarrow> Cache \<Rightarrow> nat \<Rightarrow> SchedulePhase list \<Rightarrow> subsError + BackendPhase list" where
  "resolvePhases spec cache i [] = Inr []"
| "resolvePhases spec cache i (p # ps) =
     (let nskey = namespacedKeyOrSelf (Some spec) (sph_PriceKey p)
      in case Cache_Lookup cache nskey of
           None \<Rightarrow> Inl (PhaseResolveError i nskey)
         | Some priceID \<Rightarrow>
             (case resolvePhases spec cache (Suc i) ps of
                Inl e \<Rightarrow> Inl e
              | Inr bps \<Rightarrow>
                  Inr (\<lparr>bp_StripePriceID = priceID,
                        bp_StripeCouponID =
                          (if sph_CouponKey p \<noteq> '''' then NamespacedCouponID spec (sph_CouponKey p) else ''''),
                        bp_Quantity = (if sph_Quantity p \<le> 0 then 1 else sph_Quantity p),
                        bp_Iterations = sph_Iterations p\<rparr> # bps)))"

definition subs_CreateSchedule ::
  "('s, 'r) subsOps \<Rightarrow> ScheduleInput \<Rightarrow> 's \<Rightarrow> (subsError + Schedule) \<times> 's" where
  "subs_CreateSchedule ops inp s =
     (case (so_spec ops, so_cache ops) of
        (Some spec, Some cache) \<Rightarrow>
          if sin_StripeCustomerID inp = '''' then (Inl (SubFieldInvalid ''StripeCustomerID''), s)
          else if sin_Phases inp = [] then (Inl (SubFieldInvalid ''Phases''), s)
          else (case resolvePhases spec cache 0 (sin_Phases inp) of
             Inl e \<Rightarrow> (Inl e, s)
           | Inr phases \<Rightarrow>
               wrapResult (sbk_CreateSubscriptionSchedule (so_backend ops)
                 \<lparr>sbi_StripeCustomerID = sin_StripeCustomerID inp, sbi_Phases = phases,
                  sbi_EndBehavior = (if sin_EndBehavior inp = '''' then ''release'' else sin_EndBehavior inp),
                  sbi_StartAt = sin_StartAt inp,
                  sbi_Metadata = StampNamespace (sin_Metadata inp) (so_namespace ops)\<rparr> s))
      | _ \<Rightarrow> (Inl ErrMigrateNeedsCacheAndSpec, s))"

text \<open>
  \<open>itoa\<close> writes digits from the end of a ten-byte buffer; \<open>None\<close> is the index panic when the buffer is full, and
  a negative argument leaves the buffer empty.
\<close>

fun itoaLoop :: "int \<Rightarrow> string \<Rightarrow> string option" where
  "itoaLoop n buf =
     (if n > 0 then (if length buf = 10 then None else itoaLoop (n div 10) (digit (nat n) # buf)) else Some buf)"

declare itoaLoop.simps [simp del]

definition itoa :: "int \<Rightarrow> string option" where
  "itoa n = (if n = 0 then Some ''0'' else itoaLoop n [])"

definition phaseResolveError_Error :: "int \<Rightarrow> string \<Rightarrow> string option" where
  "phaseResolveError_Error i key =
     map_option (\<lambda>n. ''subscriptions.CreateSchedule: phase '' @ n @ '' price key not in cache: '' @ key) (itoa i)"

subsection \<open>Reconciliation\<close>

record ReconcileStats =
  rst_Listed :: nat
  rst_Upserted :: nat

definition reconciledRow :: "time \<Rightarrow> ReconciledSubscription \<Rightarrow> Subscription" where
  "reconciledRow now rs =
     \<lparr>sub_StripeID = rs_StripeID rs, sub_SubjectID = mstr (rs_Metadata rs) ''subject_id'',
      sub_StripeCustomerID = rs_StripeCustomerID rs, sub_Status = rs_Status rs, sub_Items = rs_Items rs,
      sub_CurrentPeriodStart = rs_CurrentPeriodStart rs, sub_CurrentPeriodEnd = rs_CurrentPeriodEnd rs,
      sub_CancelAtPeriodEnd = rs_CancelAtPeriodEnd rs, sub_CanceledAt = rs_CanceledAt rs,
      sub_EndedAt = rs_EndedAt rs, sub_TrialStart = rs_TrialStart rs, sub_TrialEnd = rs_TrialEnd rs,
      sub_Metadata = rs_Metadata rs, sub_UpdatedAt = now,
      sub_StripeUpdatedAt = unixTime (rs_UpdatedUnix rs), sub_LatestInvoice = None\<rparr>"

text \<open>\<open>clock i\<close> is the reading of the clock in turn \<open>i\<close> of the loop.\<close>

fun upsertLoop ::
  "'r subsRepo \<Rightarrow> (nat \<Rightarrow> time) \<Rightarrow> nat \<Rightarrow> ReconciledSubscription list \<Rightarrow> nat \<Rightarrow> 'r \<Rightarrow> nat \<times> 'r" where
  "upsertLoop repo clock i [] n r = (n, r)"
| "upsertLoop repo clock i (rs # rss) n r =
     (case sr_Upsert repo (reconciledRow (clock i) rs) r of
        (Some e, r') \<Rightarrow> upsertLoop repo clock (Suc i) rss n r'
      | (None, r') \<Rightarrow> upsertLoop repo clock (Suc i) rss (Suc n) r')"

definition upsertReconciled ::
  "('s, 'r) subsOps \<Rightarrow> (nat \<Rightarrow> time) \<Rightarrow> ReconciledSubscription list \<Rightarrow> 'r \<Rightarrow> ReconcileStats \<times> 'r" where
  "upsertReconciled ops clock subs r =
     (let (n, r') = upsertLoop (so_repo ops) clock 0 subs 0 r
      in (\<lparr>rst_Listed = length subs, rst_Upserted = n\<rparr>, r'))"

definition ReconcileFromStripe ::
  "('s, 'r) subsOps \<Rightarrow> (nat \<Rightarrow> time) \<Rightarrow> time \<Rightarrow> 's \<Rightarrow> 'r \<Rightarrow> (subsError + ReconcileStats) \<times> 's \<times> 'r" where
  "ReconcileFromStripe ops clock since s r =
     (case sbk_ListSince (so_backend ops) since s of
        (Inl e, s') \<Rightarrow> (Inl (SubBackendFailed e), s', r)
      | (Inr subs, s') \<Rightarrow> (let (stats, r') = upsertReconciled ops clock subs r in (Inr stats, s', r')))"

definition ReconcileSubject ::
  "('s, 'r) subsOps \<Rightarrow> (nat \<Rightarrow> time) \<Rightarrow> string \<Rightarrow> 's \<Rightarrow> 'r \<Rightarrow> (subsError + ReconcileStats) \<times> 's \<times> 'r" where
  "ReconcileSubject ops clock customerID s r =
     (if customerID = '''' then (Inr \<lparr>rst_Listed = 0, rst_Upserted = 0\<rparr>, s, r)
      else case sbk_ListByCustomer (so_backend ops) of
        None \<Rightarrow> (Inl ErrSubjectReconcileUnsupported, s, r)
      | Some list \<Rightarrow>
          (case list customerID s of
             (Inl e, s') \<Rightarrow> (Inl (SubBackendFailed e), s', r)
           | (Inr subs, s') \<Rightarrow> (let (stats, r') = upsertReconciled ops clock subs r in (Inr stats, s', r'))))"

subsection \<open>Failed refunds\<close>

record refundUpdateShape =
  rus_PaymentIntent :: string
  rus_Status :: string

definition refundUpdateField :: "string \<Rightarrow> json \<Rightarrow> refundUpdateShape \<Rightarrow> refundUpdateShape option" where
  "refundUpdateField k v s =
     (if k = ''payment_intent'' then map_option (\<lambda>x. s\<lparr>rus_PaymentIntent := x\<rparr>) (dString v (rus_PaymentIntent s))
      else if k = ''status'' then map_option (\<lambda>x. s\<lparr>rus_Status := x\<rparr>) (dString v (rus_Status s))
      else Some s)"

definition CancelSubscriptionFromFailedRefund ::
  "('s, 'r) subsOps \<Rightarrow> (string \<Rightarrow> string + string) option \<Rightarrow> Event \<Rightarrow> 's \<Rightarrow> subsError option \<times> 's" where
  "CancelSubscriptionFromFailedRefund ops resolver evt s =
     (case eventData evt of
        None \<Rightarrow> (Some RefundEventEmpty, s)
      | Some b \<Rightarrow>
          (case Unmarshal (dStruct refundUpdateField) b \<lparr>rus_PaymentIntent = '''', rus_Status = ''''\<rparr> of
             None \<Rightarrow> (Some RefundEventSyntax, s)
           | Some shape \<Rightarrow>
               if rus_Status shape \<noteq> ''failed'' then (None, s)
               else if rus_PaymentIntent shape = '''' then (None, s)
               else (case resolver of
                  None \<Rightarrow> (None, s)
                | Some res \<Rightarrow>
                    (case res (rus_PaymentIntent shape) of
                       Inl e \<Rightarrow> (Some (RefundResolverFailed e), s)
                     | Inr subID \<Rightarrow>
                         if subID = '''' then (None, s)
                         else (case subs_CancelNow ops subID
                                      \<lparr>cno_Prorate = False, cno_Reason = ''refund_failed:'' @ ev_ID evt\<rparr> s of
                            (Some e, s') \<Rightarrow> (Some (RefundCancelFailed subID e), s')
                          | (None, s') \<Rightarrow> (None, s'))))))"

end
