(* ===== verification/Subscription_Proofs.thy ===== *)
theory Subscription_Proofs
  imports Subscription_Ops
begin

text \<open>
  The contract of a subscription mirror and its two repositories. A repository keeps, for each subscription, a row
  with the greatest watermark among those written (locale \<open>mirror_store\<close>, interpreted for the in-memory and the
  Postgres repository). Proved once from the contract: after any sequence of webhook deliveries the rows, and with them
  the answer of \<open>HasActivePrice\<close>, depend on the set of events only. Then the seat operations, \<open>itoa\<close>, and the round trip
  of a row through the table.
\<close>

subsection \<open>The contract of a mirror\<close>

abbreviation wm :: "Subscription \<Rightarrow> time" where
  "wm \<equiv> sub_StripeUpdatedAt"

definition newest :: "Subscription set \<Rightarrow> Subscription option \<Rightarrow> bool" where
  "newest C x \<longleftrightarrow> (case x of None \<Rightarrow> C = {} | Some w \<Rightarrow> w \<in> C \<and> (\<forall>c \<in> C. wm c \<le> wm w))"

lemma newest_mono:
  assumes "newest C' x" and "C' \<subseteq> C" and dom: "\<And>c. c \<in> C \<Longrightarrow> \<exists>c' \<in> C'. wm c \<le> wm c'"
  shows "newest C x"
proof (cases x)
  case None
  with assms(1) have "C' = {}" by (simp add: newest_def)
  then have "C = {}" using dom by blast
  with None show ?thesis by (simp add: newest_def)
next
  case (Some w)
  with assms(1) have "w \<in> C'" "\<forall>c \<in> C'. wm c \<le> wm w" by (simp_all add: newest_def)
  with assms(2) dom Some show ?thesis by (simp add: newest_def) (meson order_trans subsetD)
qed

text \<open>
  Deliveries of webhook events: each carries the readings of the app's clock and of the database's. \<open>mirrored\<close> is
  what an event says of its subscription, \<open>hasAccess\<close> what the events together say of a subject: some
  subscription's latest event grants the price.
\<close>

type_synonym delivery = "time \<times> time \<times> time \<times> Event"

abbreviation evt_of :: "delivery \<Rightarrow> Event" where
  "evt_of d \<equiv> snd (snd (snd d))"

definition deliver ::
  "(time \<Rightarrow> 'r subsRepo) \<Rightarrow> (string \<Rightarrow> string option) option \<Rightarrow> delivery list \<Rightarrow> 'r \<Rightarrow> 'r" where
  "deliver repo resolver ds r =
     fold (\<lambda>(now1, now2, db, evt) r. snd (ApplyEventToMirror (Some (repo db)) resolver now1 now2 evt r)) ds r"

definition mirrored :: "(string \<Rightarrow> string option) option \<Rightarrow> Event \<Rightarrow> Subscription option" where
  "mirrored resolver evt =
     (if ev_Type evt \<in> set mirrorTypes then
        (case parseSubscription resolver evt of
           Inl _ \<Rightarrow> None
         | Inr sub \<Rightarrow> Some (if ev_Type evt = ''customer.subscription.deleted''
                           then sub\<lparr>sub_Status := StatusCanceled\<rparr> else sub))
      else None)"

definition grantsAccess :: "string \<Rightarrow> string \<Rightarrow> Subscription \<Rightarrow> bool" where
  "grantsAccess subject pat s \<longleftrightarrow>
     sub_SubjectID s = subject \<and> IsAccessGranting (sub_Status s) \<and>
     list_ex (newPriceKeyMatcher pat) (map si_PriceKey (sub_Items s))"

definition supersedes :: "(string \<Rightarrow> string option) option \<Rightarrow> Event \<Rightarrow> Event \<Rightarrow> bool" where
  "supersedes resolver e' e \<longleftrightarrow>
     map_option sub_StripeID (mirrored resolver e') = map_option sub_StripeID (mirrored resolver e) \<and>
     mirrored resolver e \<noteq> None \<and> ev_CreatedUnix e < ev_CreatedUnix e'"

definition hasAccess :: "(string \<Rightarrow> string option) option \<Rightarrow> Event list \<Rightarrow> string \<Rightarrow> string \<Rightarrow> bool" where
  "hasAccess resolver evs subject pat \<longleftrightarrow>
     list_ex (\<lambda>e. (case mirrored resolver e of None \<Rightarrow> False | Some sub \<Rightarrow> grantsAccess subject pat sub) \<and>
                  \<not> list_ex (\<lambda>e'. supersedes resolver e' e) evs) evs"

text \<open>Events of one subscription with the same \<open>created\<close> are deliveries of one event.\<close>

definition well_stamped :: "(string \<Rightarrow> string option) option \<Rightarrow> Event list \<Rightarrow> bool" where
  "well_stamped resolver evs \<longleftrightarrow>
     list_all (\<lambda>e. list_all (\<lambda>e'.
       map_option sub_StripeID (mirrored resolver e') = map_option sub_StripeID (mirrored resolver e) \<and>
       mirrored resolver e \<noteq> None \<and> ev_CreatedUnix e = ev_CreatedUnix e' \<longrightarrow> e = e') evs) evs"

text \<open>The row a delivery upserts.\<close>

definition deliveredRow :: "(string \<Rightarrow> string option) option \<Rightarrow> delivery \<Rightarrow> (time \<times> Subscription) option" where
  "deliveredRow resolver d =
     (case d of (now1, now2, db, evt) \<Rightarrow>
        if ev_Type evt \<in> set mirrorTypes then
          (case parseSubscription resolver evt of
             Inl _ \<Rightarrow> None
           | Inr sub \<Rightarrow> Some (db, stampRow now1 now2 evt sub))
        else None)"

lemma deliveredRow_mirrored:
  assumes "deliveredRow resolver d = Some (t, s)"
  shows "\<exists>sub. mirrored resolver (evt_of d) = Some sub \<and> sub_StripeID s = sub_StripeID sub \<and>
    wm s = unixTime (ev_CreatedUnix (evt_of d)) \<and> (\<forall>subject pat. grantsAccess subject pat s = grantsAccess subject pat sub)"
  using assms
  by (cases d) (auto simp: deliveredRow_def mirrored_def stampRow_def Let_def grantsAccess_def split: if_splits sum.splits)

lemma mirrored_delivered:
  "mirrored resolver (evt_of d) \<noteq> None \<Longrightarrow> \<exists>t s. deliveredRow resolver d = Some (t, s)"
  by (cases d) (auto simp: deliveredRow_def mirrored_def split: if_splits sum.splits)

lemma unixTime_mono [simp]: "unixTime a \<le> unixTime b \<longleftrightarrow> a \<le> b"
  by (simp add: unixTime_def)

locale mirror_store =
  fixes repo :: "time \<Rightarrow> 'r subsRepo"
    and invar :: "'r \<Rightarrow> bool"
    and row :: "'r \<Rightarrow> string \<Rightarrow> Subscription option"
    and view :: "time \<Rightarrow> Subscription \<Rightarrow> Subscription"
    and ok :: "Subscription \<Rightarrow> bool"
  assumes upsert_total: "invar r \<Longrightarrow> ok s \<Longrightarrow> \<exists>r'. sr_Upsert (repo t) s r = (None, r') \<and> invar r'"
    and upsert_new: "invar r \<Longrightarrow> ok s \<Longrightarrow> row r (sub_StripeID s) = None \<Longrightarrow>
      row (snd (sr_Upsert (repo t) s r)) = (row r)(sub_StripeID s \<mapsto> view t s)"
    and upsert_newer: "invar r \<Longrightarrow> ok s \<Longrightarrow> row r (sub_StripeID s) = Some old \<Longrightarrow> wm old < wm s \<Longrightarrow>
      row (snd (sr_Upsert (repo t) s r)) = (row r)(sub_StripeID s \<mapsto> view t s)"
    and upsert_tie: "invar r \<Longrightarrow> ok s \<Longrightarrow> row r (sub_StripeID s) = Some old \<Longrightarrow> wm old = wm s \<Longrightarrow>
      row (snd (sr_Upsert (repo t) s r)) \<in> {row r, (row r)(sub_StripeID s \<mapsto> view t s)}"
    and upsert_older: "invar r \<Longrightarrow> ok s \<Longrightarrow> row r (sub_StripeID s) = Some old \<Longrightarrow> wm s < wm old \<Longrightarrow>
      row (snd (sr_Upsert (repo t) s r)) = row r"
    and view_wm: "ok s \<Longrightarrow> wm (view t s) = wm s"
    and view_access: "sub_StripeID (view t s) = sub_StripeID s" "sub_SubjectID (view t s) = sub_SubjectID s"
      "sub_Status (view t s) = sub_Status s"
      "map si_PriceKey (sub_Items (view t s)) = map si_PriceKey (sub_Items s)"
    and list_rows: "invar r \<Longrightarrow> \<exists>ws. sr_ListBySubject (repo t) subject r = Inr ws \<and>
      set ws = {w. \<exists>sid. row r sid = Some w \<and> sub_SubjectID w = subject}"
    and get_row: "invar r \<Longrightarrow> sr_GetByStripeID (repo t) sid r = Inr (row r sid)"
begin

text \<open>A sequence of upserts, each with the time the database reads.\<close>

fun upserts :: "(time \<times> Subscription) list \<Rightarrow> 'r \<Rightarrow> 'r" where
  "upserts [] r = r"
| "upserts ((t, s) # xs) r = upserts xs (snd (sr_Upsert (repo t) s r))"

definition written :: "(time \<times> Subscription) list \<Rightarrow> string \<Rightarrow> Subscription set" where
  "written xs sid = {view t s | t s. (t, s) \<in> set xs \<and> sub_StripeID s = sid}"

lemma upserts_invar: "invar r \<Longrightarrow> \<forall>(t, s) \<in> set xs. ok s \<Longrightarrow> invar (upserts xs r)"
proof (induction xs arbitrary: r)
  case (Cons x xs)
  obtain t s where x: "x = (t, s)" by fastforce
  from Cons.prems x obtain r' where "sr_Upsert (repo t) s r = (None, r')" "invar r'"
    using upsert_total [of r s t] by auto
  then show ?case using Cons.IH [of r'] Cons.prems(2) x by simp
qed simp

text \<open>One upsert keeps a row with the greatest watermark among the old row and the new one.\<close>

lemma upsert_step:
  assumes "invar r" and "ok s" and r': "r' = snd (sr_Upsert (repo t) s r)"
  shows "row r' sid = row r sid \<and> (sub_StripeID s = sid \<longrightarrow> (\<exists>w. row r sid = Some w \<and> wm s \<le> wm w))
    \<or> sub_StripeID s = sid \<and> row r' sid = Some (view t s) \<and> (\<forall>w. row r sid = Some w \<longrightarrow> wm w \<le> wm s)"
proof (cases "row r (sub_StripeID s)")
  case None
  with upsert_new [OF assms(1,2), of t] r' show ?thesis by auto
next
  case (Some old)
  consider "wm old < wm s" | "wm old = wm s" | "wm s < wm old" by linarith
  then show ?thesis
  proof cases
    case 1
    with upsert_newer [OF assms(1,2) Some, of t] Some r' show ?thesis by auto
  next
    case 2
    with upsert_tie [OF assms(1,2) Some, of t] Some r' show ?thesis by (cases "sub_StripeID s = sid") auto
  next
    case 3
    with upsert_older [OF assms(1,2) Some, of t] Some r' show ?thesis by auto
  qed
qed

lemma upserts_newest:
  assumes "invar r" and "\<forall>(t, s) \<in> set xs. ok s"
  shows "newest (set_option (row r sid) \<union> written xs sid) (row (upserts xs r) sid)"
  using assms
proof (induction xs arbitrary: r)
  case Nil
  then show ?case by (auto simp: written_def newest_def split: option.split)
next
  case (Cons x xs)
  obtain t s where x: "x = (t, s)" by fastforce
  define r' where "r' = snd (sr_Upsert (repo t) s r)"
  have ok: "ok s" and inv: "invar r'"
    using Cons.prems x upsert_total [of r s t] by (auto simp: r'_def)
  note step = upsert_step [OF Cons.prems(1) ok r'_def, of sid]
  have w: "written ((t, s) # xs) sid = (if sub_StripeID s = sid then {view t s} else {}) \<union> written xs sid"
    by (auto simp: written_def)
  have "newest (set_option (row r' sid) \<union> written xs sid) (row (upserts xs r') sid)"
    using Cons.IH [OF inv] Cons.prems(2) by simp
  moreover have "set_option (row r' sid) \<union> written xs sid \<subseteq> set_option (row r sid) \<union> written ((t, s) # xs) sid"
    using step by (auto simp: w)
  moreover have "\<exists>c' \<in> set_option (row r' sid) \<union> written xs sid. wm c \<le> wm c'"
    if "c \<in> set_option (row r sid) \<union> written ((t, s) # xs) sid" for c
    using that step view_wm [OF ok, of t] by (auto simp: w split: if_splits)
  ultimately have "newest (set_option (row r sid) \<union> written ((t, s) # xs) sid) (row (upserts xs r') sid)"
    by (rule newest_mono)
  then show ?case by (simp add: x r'_def)
qed

lemma deliver_upserts: "deliver repo resolver ds r = upserts (List.map_filter (deliveredRow resolver) ds) r"
proof (induction ds arbitrary: r)
  case (Cons d ds)
  then show ?case
    by (cases d) (auto simp: deliver_def deliveredRow_def ApplyEventToMirror_def map_filter_simps Let_def
        split: sum.split prod.split)
qed (simp add: deliver_def map_filter_simps)

lemma list_access:
  assumes "invar r"
  shows "subs_HasActivePrice (repo t) subject pat r = Inr (\<exists>sid w. row r sid = Some w \<and> grantsAccess subject pat w)"
proof -
  from list_rows [OF assms, of t subject] obtain ws where
    "sr_ListBySubject (repo t) subject r = Inr ws" and "set ws = {w. \<exists>sid. row r sid = Some w \<and> sub_SubjectID w = subject}"
    by blast
  then show ?thesis
    by (auto simp: subs_HasActivePrice_def subs_ListActive_def list_ex_iff grantsAccess_def)
qed

lemma grantsAccess_view [simp]: "grantsAccess subject pat (view t s) = grantsAccess subject pat s"
  by (simp add: grantsAccess_def view_access)

lemma deliver_newest:
  assumes "invar r" and "row r = (\<lambda>_. None)" and "\<forall>c s. wm s = unixTime c \<longrightarrow> ok s"
  shows "invar (deliver repo resolver ds r)"
    and "newest {view t s | t s. \<exists>d \<in> set ds. deliveredRow resolver d = Some (t, s) \<and> sub_StripeID s = sid}
      (row (deliver repo resolver ds r) sid)"
proof -
  let ?xs = "List.map_filter (deliveredRow resolver) ds"
  have mem: "(t, s) \<in> set ?xs \<longleftrightarrow> (\<exists>d \<in> set ds. deliveredRow resolver d = Some (t, s))" for t s
    by (force simp: List.map_filter_def)
  have ok: "\<forall>(t, s) \<in> set ?xs. ok s"
    using assms(3) by (fastforce simp: mem dest: deliveredRow_mirrored)
  show "invar (deliver repo resolver ds r)"
    unfolding deliver_upserts by (rule upserts_invar [OF assms(1) ok])
  have "written ?xs sid = {view t s | t s. \<exists>d \<in> set ds. deliveredRow resolver d = Some (t, s) \<and> sub_StripeID s = sid}"
    by (auto simp: written_def mem)
  with upserts_newest [OF assms(1) ok, of sid] assms(2)
  show "newest {view t s | t s. \<exists>d \<in> set ds. deliveredRow resolver d = Some (t, s) \<and> sub_StripeID s = sid}
      (row (deliver repo resolver ds r) sid)"
    by (simp add: deliver_upserts)
qed

text \<open>A row of the mirror is the image of a delivered one that no delivered row of the subscription supersedes.\<close>

lemma deliver_row:
  assumes start: "invar r" "row r = (\<lambda>_. None)" "\<forall>c s. wm s = unixTime c \<longrightarrow> ok s"
    and "row (deliver repo resolver ds r) sid = Some w"
  obtains d t s where "d \<in> set ds" "deliveredRow resolver d = Some (t, s)" "sub_StripeID s = sid" "w = view t s"
    "\<And>d' t' s'. d' \<in> set ds \<Longrightarrow> deliveredRow resolver d' = Some (t', s') \<Longrightarrow> sub_StripeID s' = sid \<Longrightarrow> wm s' \<le> wm s"
proof -
  from deliver_newest(2) [OF start, where resolver = resolver and ds = ds and sid = sid] assms(4)
  obtain d t s where d: "d \<in> set ds" "deliveredRow resolver d = Some (t, s)" "sub_StripeID s = sid" "w = view t s"
    and max: "\<forall>c \<in> {view t s | t s. \<exists>d \<in> set ds. deliveredRow resolver d = Some (t, s) \<and> sub_StripeID s = sid}. wm c \<le> wm w"
    by (auto simp: newest_def)
  have "wm s' \<le> wm s" if "d' \<in> set ds" "deliveredRow resolver d' = Some (t', s')" "sub_StripeID s' = sid" for d' t' s'
  proof -
    have "wm (view t' s') \<le> wm (view t s)" using max that d(4) by blast
    moreover have "wm (view t' s') = wm s'" using deliveredRow_mirrored [OF that(2)] start(3) view_wm by blast
    moreover have "wm (view t s) = wm s" using deliveredRow_mirrored [OF d(2)] start(3) view_wm by blast
    ultimately show ?thesis by simp
  qed
  with d that show ?thesis by blast
qed

lemma deliver_row_exists:
  assumes start: "invar r" "row r = (\<lambda>_. None)" "\<forall>c s. wm s = unixTime c \<longrightarrow> ok s"
    and d: "d \<in> set ds" "deliveredRow resolver d = Some (t, s)"
  obtains w where "row (deliver repo resolver ds r) (sub_StripeID s) = Some w"
proof (cases "row (deliver repo resolver ds r) (sub_StripeID s)")
  case None
  with deliver_newest(2) [OF start, where resolver = resolver and ds = ds and sid = "sub_StripeID s"] have
    "{view t' s' | t' s'. \<exists>d \<in> set ds. deliveredRow resolver d = Some (t', s') \<and> sub_StripeID s' = sub_StripeID s} = {}"
    by (simp add: newest_def)
  with d show ?thesis by blast
qed (rule that)

lemma access_sound:
  assumes start: "invar r" "row r = (\<lambda>_. None)" "\<forall>c s. wm s = unixTime c \<longrightarrow> ok s"
    and w: "row (deliver repo resolver ds r) sid = Some w" "grantsAccess subject pat w"
  shows "hasAccess resolver (map evt_of ds) subject pat"
proof -
  from deliver_row [OF start w(1)] obtain d t s where d: "d \<in> set ds" "deliveredRow resolver d = Some (t, s)"
    "sub_StripeID s = sid" "w = view t s"
    and max: "\<And>d' t' s'. d' \<in> set ds \<Longrightarrow> deliveredRow resolver d' = Some (t', s') \<Longrightarrow> sub_StripeID s' = sid \<Longrightarrow> wm s' \<le> wm s" by blast
  from deliveredRow_mirrored [OF d(2)] obtain sub where sub:
    "mirrored resolver (evt_of d) = Some sub" "sub_StripeID s = sub_StripeID sub"
    "wm s = unixTime (ev_CreatedUnix (evt_of d))" "grantsAccess subject pat s = grantsAccess subject pat sub" by blast
  have "\<not> supersedes resolver (evt_of d') (evt_of d)" if d': "d' \<in> set ds" for d'
  proof
    assume sup: "supersedes resolver (evt_of d') (evt_of d)"
    then have "mirrored resolver (evt_of d') \<noteq> None" by (auto simp: supersedes_def)
    then obtain t' s' where row': "deliveredRow resolver d' = Some (t', s')" using mirrored_delivered by blast
    from deliveredRow_mirrored [OF row'] obtain sub' where
      "mirrored resolver (evt_of d') = Some sub'" "sub_StripeID s' = sub_StripeID sub'" "wm s' = unixTime (ev_CreatedUnix (evt_of d'))"
      by blast
    with max [OF d' row'] sup sub d(3) show False by (auto simp: supersedes_def)
  qed
  moreover have "grantsAccess subject pat sub" using w(2) d(4) sub(4) by simp
  ultimately show ?thesis
    using sub(1) d(1) by (auto simp: hasAccess_def list_ex_iff intro!: bexI [of _ d])
qed

lemma access_complete:
  assumes start: "invar r" "row r = (\<lambda>_. None)" "\<forall>c s. wm s = unixTime c \<longrightarrow> ok s"
    and ws: "well_stamped resolver (map evt_of ds)" and acc: "hasAccess resolver (map evt_of ds) subject pat"
  shows "\<exists>sid w. row (deliver repo resolver ds r) sid = Some w \<and> grantsAccess subject pat w"
proof -
  from acc obtain d sub where d: "d \<in> set ds" "mirrored resolver (evt_of d) = Some sub" "grantsAccess subject pat sub"
    and top: "\<And>d'. d' \<in> set ds \<Longrightarrow> \<not> supersedes resolver (evt_of d') (evt_of d)"
    by (simp add: hasAccess_def list_ex_iff split: option.splits) blast
  obtain t0 s0 where row0: "deliveredRow resolver d = Some (t0, s0)" using mirrored_delivered [of resolver d] d(2) by auto
  have s0: "sub_StripeID s0 = sub_StripeID sub" "wm s0 = unixTime (ev_CreatedUnix (evt_of d))"
    using deliveredRow_mirrored [OF row0] d(2) by auto
  from deliver_row_exists [OF start d(1) row0] obtain w where
    w: "row (deliver repo resolver ds r) (sub_StripeID sub) = Some w" unfolding s0 by blast
  from deliver_row [OF start w] obtain d1 t1 s1 where d1: "d1 \<in> set ds" "deliveredRow resolver d1 = Some (t1, s1)"
    "sub_StripeID s1 = sub_StripeID sub" "w = view t1 s1" and le: "wm s0 \<le> wm s1"
    using d(1) row0 s0(1) by metis
  from deliveredRow_mirrored [OF d1(2)] obtain sub1 where sub1:
    "mirrored resolver (evt_of d1) = Some sub1" "sub_StripeID s1 = sub_StripeID sub1"
    "wm s1 = unixTime (ev_CreatedUnix (evt_of d1))" "grantsAccess subject pat s1 = grantsAccess subject pat sub1" by blast
  have "ev_CreatedUnix (evt_of d) = ev_CreatedUnix (evt_of d1)"
    using top [OF d1(1)] le s0(2) sub1 d(2) d1(3) by (auto simp: supersedes_def)
  with ws d(1,2) d1(1,3) sub1(1,2) have "evt_of d = evt_of d1"
    by (auto simp: well_stamped_def list_all_iff)
  with sub1(1,4) d(2,3) d1(4) have "grantsAccess subject pat w" by simp
  with w show ?thesis by blast
qed

lemma deliver_access:
  assumes start: "invar r" "row r = (\<lambda>_. None)" "\<forall>c s. wm s = unixTime c \<longrightarrow> ok s"
    and "well_stamped resolver (map evt_of ds)"
  shows "subs_HasActivePrice (repo t) subject pat (deliver repo resolver ds r) =
    Inr (hasAccess resolver (map evt_of ds) subject pat)"
  using access_sound [OF start] access_complete [OF start assms(4)]
  by (fastforce simp: list_access [OF deliver_newest(1) [OF start]])

end

subsection \<open>Both repositories keep the contract\<close>

definition ms_invar :: "memorySubs \<Rightarrow> bool" where
  "ms_invar r \<longleftrightarrow> distinct (map fst r) \<and> (\<forall>(k, s) \<in> set r. k = sub_StripeID s)"

lemma ms_invar_update: "ms_invar r \<Longrightarrow> ms_invar (mset_key (sub_StripeID s) s r)"
proof -
  have "set (mset_key k s r) \<subseteq> insert (k, s) (set r)" for k by (induction r) auto
  then show "ms_invar r \<Longrightarrow> ms_invar (mset_key (sub_StripeID s) s r)"
    by (fastforce simp: ms_invar_def distinct_update)
qed

interpretation memory_mirror: mirror_store "\<lambda>_. ms_repo" ms_invar map_of "\<lambda>_ s. s" "\<lambda>_. True"
proof (unfold_locales, goal_cases)
  case (1 r s t)
  then show ?case by (auto simp: ms_repo_def ms_Upsert_def ms_invar_update split: option.split)
next
  case (11 r t subject)
  then have "distinct (map fst r)" by (simp add: ms_invar_def)
  then show ?case by (force simp: ms_repo_def ms_ListBySubject_def)
qed (auto simp: ms_repo_def ms_Upsert_def ms_GetByStripeID_def)

lemma pgItems_keys [simp]: "map si_PriceKey (pgItems (itemsJson its)) = map si_PriceKey its"
proof -
  have "lower ''StripeID'' = ''stripeid''" "lower ''PriceKey'' = ''pricekey''" "lower ''Quantity'' = ''quantity''"
    by code_simp+
  then show ?thesis
    by (simp add: pgItems_def itemsJson_def itemJson_def lenient_def dStruct_def pgItemField_def dString_def comp_def)
qed

definition pg_row :: "pgSub list \<Rightarrow> string \<Rightarrow> Subscription option" where
  "pg_row t sid = map_option scanSubscription (List.find (\<lambda>row. ps_stripe_id row = sid) t)"

lemma pgSubRow_sel [simp]:
  "ps_stripe_id (pgSubRow micro now s) = sub_StripeID s"
  "ps_stripe_updated_at (pgSubRow micro now s) = micro (wm s)"
  by (simp_all add: pgSubRow_def)

abbreviation find_id :: "string \<Rightarrow> pgSub list \<Rightarrow> pgSub option" where
  "find_id k t \<equiv> List.find (\<lambda>row. ps_stripe_id row = k) t"

lemma find_upsert:
  "find_id k (snd (pg_sub_Upsert micro now s t)) =
    (case find_id k t of
       None \<Rightarrow> if k = sub_StripeID s then Some (pgSubRow micro now s) else None
     | Some row \<Rightarrow> Some (if k = sub_StripeID s \<and> ps_stripe_updated_at row < micro (wm s) then pgSubRow micro now s else row))"
proof -
  define f where "f row = (if ps_stripe_id row = sub_StripeID s \<and> ps_stripe_updated_at row < micro (wm s)
    then pgSubRow micro now s else row)" for row
  have id: "ps_stripe_id (f row) = ps_stripe_id row" for row by (simp add: f_def)
  have upd: "find_id k (map f t) = map_option f (find_id k t)" by (induction t) (auto simp: id)
  have app: "find_id k (t @ [x]) =
    (case find_id k t of None \<Rightarrow> if ps_stripe_id x = k then Some x else None | Some y \<Rightarrow> Some y)" for x
    by (induction t) auto
  have ups: "snd (pg_sub_Upsert micro now s t) =
    (if sub_StripeID s \<in> set (map ps_stripe_id t) then map f t else t @ [pgSubRow micro now s])"
    by (simp add: pg_sub_Upsert_def Let_def f_def)
  have none: "find_id k t = None \<longleftrightarrow> k \<notin> set (map ps_stripe_id t)" by (auto simp: find_None_iff)
  have key: "ps_stripe_id row = k" if "find_id k t = Some row" for row using that by (auto simp: find_Some_iff)
  show ?thesis
  proof (cases "find_id k t")
    case None
    with none app [of "pgSubRow micro now s"] show ?thesis by (cases "k = sub_StripeID s") (simp_all add: ups upd)
  next
    case (Some row)
    with key [OF Some] none upd app [of "pgSubRow micro now s"] show ?thesis
      by (cases "k = sub_StripeID s") (simp_all add: ups f_def)
  qed
qed

lemma scan_row_sel [simp]: "wm (scanSubscription row) = ps_stripe_updated_at row"
  by (simp add: scanSubscription_def)

lemma pg_row_upsert:
  "pg_row (snd (pg_sub_Upsert micro now s t)) =
    (if \<exists>old. pg_row t (sub_StripeID s) = Some old \<and> \<not> wm old < micro (wm s) then pg_row t
     else (pg_row t)(sub_StripeID s \<mapsto> scanSubscription (pgSubRow micro now s)))"
  by (rule ext) (auto simp: pg_row_def find_upsert split: option.split)

lemma pg_upsert_distinct:
  "distinct (map ps_stripe_id t) \<Longrightarrow> distinct (map ps_stripe_id (snd (pg_sub_Upsert micro now s t)))"
proof -
  have eq: "map (ps_stripe_id \<circ> (\<lambda>row. if ps_stripe_id row = sub_StripeID s \<and> P row then pgSubRow micro now s else row)) t =
    map ps_stripe_id t" for P by (rule map_cong) auto
  show "distinct (map ps_stripe_id t) \<Longrightarrow> ?thesis" by (simp add: pg_sub_Upsert_def Let_def eq del: map_eq_conv)
qed

lemma pg_rows_set:
  assumes "distinct (map ps_stripe_id t)"
  shows "scanSubscription ` set (filter (\<lambda>row. ps_subject_id row = subject) t) =
    {w. \<exists>sid. pg_row t sid = Some w \<and> sub_SubjectID w = subject}"
proof -
  have "find_id (ps_stripe_id row) t = Some row" if "row \<in> set t" for row
    using that assms by (induction t) auto
  moreover have "row \<in> set t" if "find_id sid t = Some row" for row sid
    using that by (auto simp: find_Some_iff)
  ultimately have "row \<in> set t \<longleftrightarrow> (\<exists>sid. find_id sid t = Some row)" for row by blast
  then show ?thesis by (auto simp: pg_row_def scanSubscription_def image_iff)
qed

interpretation pg_mirror: mirror_store "pg_sub_repo micro" "\<lambda>t. distinct (map ps_stripe_id t)" pg_row
  "\<lambda>now s. scanSubscription (pgSubRow micro now s)" "\<lambda>s. micro (wm s) = wm s" for micro
proof (unfold_locales, goal_cases)
  case (1 r s t)
  then show ?case using pg_upsert_distinct [of r micro t s] by (auto simp: pg_sub_repo_def pg_sub_Upsert_def Let_def)
next
  case (11 r t subject)
  then show ?case using pg_rows_set [of r subject] by (simp add: pg_sub_repo_def pg_sub_ListBySubject_def)
qed (auto simp: pg_sub_repo_def pg_row_upsert pg_sub_GetByStripeID_def pg_row_def [symmetric] scanSubscription_def pgSubRow_def)

subsection \<open>Properties\<close>

text \<open>C23: Webhook deliveries may come in any order and any number of times, and into either repository: what
  \<open>HasActivePrice\<close> answers is decided by the events alone. It is true exactly when some subscription of the
  subject has, as its latest delivered event, one with an access-granting status and an item matching the key.
  Two delivery sequences of the same events therefore give the same answer in memory and in Postgres. Events of one
  subscription with equal timestamps have to be redeliveries of one event: on a tie the in-memory repository
  keeps the last delivery and the Postgres one the first.\<close>

theorem mirror_access_order_independent:
  assumes "set (map evt_of ds) = set (map evt_of ds')" and "well_stamped resolver (map evt_of ds)"
    and "\<And>c. micro (unixTime c) = unixTime c"
  shows "subs_HasActivePrice ms_repo subject pat (deliver (\<lambda>_. ms_repo) resolver ds ms_New) =
      Inr (hasAccess resolver (map evt_of ds) subject pat) \<and>
    subs_HasActivePrice (pg_sub_repo micro t) subject pat (deliver (pg_sub_repo micro) resolver ds' []) =
      Inr (hasAccess resolver (map evt_of ds) subject pat)"
proof -
  have ws': "well_stamped resolver (map evt_of ds')"
    and eq: "hasAccess resolver (map evt_of ds') subject pat = hasAccess resolver (map evt_of ds) subject pat"
    using assms(1,2) by (simp_all only: well_stamped_def hasAccess_def list_all_iff list_ex_iff)
  have mem: "subs_HasActivePrice ms_repo subject pat (deliver (\<lambda>_. ms_repo) resolver ds ms_New) =
      Inr (hasAccess resolver (map evt_of ds) subject pat)"
    by (rule memory_mirror.deliver_access [OF _ _ _ assms(2)]) (auto simp: ms_invar_def ms_New_def)
  have "subs_HasActivePrice (pg_sub_repo micro t) subject pat (deliver (pg_sub_repo micro) resolver ds' []) =
      Inr (hasAccess resolver (map evt_of ds) subject pat)"
    unfolding eq [symmetric]
    by (rule pg_mirror.deliver_access [OF _ _ _ ws']) (auto simp: pg_row_def assms(3))
  with mem show ?thesis by simp
qed

definition demo_sub_event :: "string \<Rightarrow> int \<Rightarrow> string \<Rightarrow> Event" where
  \<open>demo_sub_event typ created status = fromStripeEvent
     \<lparr>se_ID = ''evt_'' @ status, se_Type = typ, se_Livemode = False, se_Created = created,
      se_Data = Some (''{"id":"sub_1","status":"'' @ status @
        ''","metadata":{"subject_id":"org"},"items":{"data":[{"id":"si_1","quantity":2,"price":{"id":"price_1"}}]}}'')\<rparr>\<close>

definition demo_deliveries :: "delivery list" where
  "demo_deliveries =
     [(1, 2, 3, demo_sub_event ''customer.subscription.deleted'' 200 ''active''),
      (4, 5, 6, demo_sub_event ''customer.subscription.updated'' 100 ''past_due'')]"

theorem mirror_access_order_independent_witness:
  "subs_HasActivePrice ms_repo ''org'' ''stripe:*'' (deliver (\<lambda>_. ms_repo) None demo_deliveries ms_New) = Inr False \<and>
   subs_HasActivePrice (pg_sub_repo (\<lambda>t. t) 9) ''org'' ''stripe:*''
     (deliver (pg_sub_repo (\<lambda>t. t)) None (rev demo_deliveries) []) = Inr False"
proof -
  have "well_stamped None (map evt_of demo_deliveries)" by code_simp
  moreover have "set (map evt_of demo_deliveries) = set (map evt_of (rev demo_deliveries))" by simp
  moreover have "\<not> hasAccess None (map evt_of demo_deliveries) ''org'' ''stripe:*''" by code_simp
  ultimately show ?thesis
    using mirror_access_order_independent [of demo_deliveries "rev demo_deliveries" None "\<lambda>t. t"] by simp
qed

text \<open>C24: Seats of a mirrored subscription change only for its owner, and by the requested amount. For another
  subject \<open>AddSeats\<close> and \<open>SetSeats\<close> fail and Stripe is not called. For the owner, \<open>AddSeats\<close> sends one
  update, of the first item with the key, to the sum of its quantity and the delta; a sum that is not positive or that
  overflows, and a key that is not on the subscription, are refused without a call.\<close>

theorem seats_change_for_owner_only:
  assumes "sr_GetByStripeID (so_repo ops) sid r = Inr (Some sub)" and "sid \<noteq> ''''" and "key \<noteq> ''''" and "delta \<noteq> 0"
    and "in64 delta" and "list_all (\<lambda>it. 0 \<le> si_Quantity it \<and> si_Quantity it \<le> MaxInt64) (sub_Items sub)" and "0 < n"
  shows "(if sub_SubjectID sub \<noteq> subject then
      subs_AddSeats ops subject sid key delta prorate r s = (Some ErrSubscriptionNotForSubject, s) \<and>
      subs_SetSeats ops subject sid key n prorate r s = (Some ErrSubscriptionNotForSubject, s)
    else case List.find (\<lambda>it. si_PriceKey it = namespacedKeyOrSelf (so_spec ops) key) (sub_Items sub) of
      None \<Rightarrow> (\<exists>e. subs_AddSeats ops subject sid key delta prorate r s = (Some e, s))
    | Some it \<Rightarrow>
        subs_AddSeats ops subject sid key delta prorate r s =
          (if 0 < si_Quantity it + delta \<and> si_Quantity it + delta \<le> MaxInt64
           then wrapBackend (sbk_UpdateItems (so_backend ops) sid
             [\<lparr>ic_StripeItemID = si_StripeID it, ic_PriceID = '''', ic_Quantity = si_Quantity it + delta, ic_Deleted = False\<rparr>]
             \<lparr>uo_ProrationBehavior = prorationBehavior prorate\<rparr> s)
           else (Some (SubFieldInvalid ''delta''), s)))"
proof (cases "List.find (\<lambda>it. si_PriceKey it = namespacedKeyOrSelf (so_spec ops) key) (sub_Items sub)")
  case None
  with assms show ?thesis
    by (auto simp: subs_AddSeats_def subs_SeatCount_def subs_SetSeats_def resolveSeatItem_def Let_def)
next
  case (Some it)
  then have q: "0 \<le> si_Quantity it" "si_Quantity it \<le> MaxInt64" using assms(6) by (auto simp: list_all_iff find_Some_iff)
  have "wrap64 (si_Quantity it + delta) =
    (if si_Quantity it + delta \<le> MaxInt64 then si_Quantity it + delta else si_Quantity it + delta - 18446744073709551616)"
    using q assms(5) wrap64_over [of "si_Quantity it + delta"] by (auto simp: in64_def MaxInt64_def)
  with q assms(1-5,7) Some show ?thesis
    by (auto simp: subs_AddSeats_def subs_SeatCount_def subs_SetSeats_def resolveSeatItem_def Let_def seatChange_def
        in64_def MaxInt64_def)
qed

definition demo_seat_ops :: "(ItemChange list, memorySubs) subsOps" where
  "demo_seat_ops =
     \<lparr>so_backend =
        \<lparr>sbk_CancelAtPeriodEnd = \<lambda>_ _ s. (None, s), sbk_CancelNow = \<lambda>_ _ s. (None, s),
         sbk_UpdateItems = \<lambda>_ items _ s. (None, s @ items), sbk_ApplyCoupon = \<lambda>_ _ s. (None, s),
         sbk_RemoveCoupon = \<lambda>_ s. (None, s), sbk_ListSince = \<lambda>_ s. (Inr [], s),
         sbk_CreateInvoiced = \<lambda>_ s. (Inl ''unsupported'', s), sbk_CreateSubscriptionSchedule = \<lambda>_ s. (Inl ''unsupported'', s),
         sbk_GetSubscriptionItems = \<lambda>_ s. (Inr [], s), sbk_PreviewItemChange = \<lambda>_ _ s. (Inl ''unsupported'', s),
         sbk_Pause = \<lambda>_ _ s. (None, s), sbk_Resume = \<lambda>_ s. (None, s), sbk_ListByCustomer = None\<rparr>,
      so_repo = ms_repo, so_spec = None, so_cache = None, so_namespace = ''''\<rparr>"

definition demo_sub :: Subscription where
  "demo_sub =
     \<lparr>sub_StripeID = ''sub_1'', sub_SubjectID = ''org'', sub_StripeCustomerID = ''cus_1'', sub_Status = StatusActive,
      sub_Items = [\<lparr>si_StripeID = ''si_1'', si_PriceKey = ''seat'', si_Quantity = 3\<rparr>],
      sub_CurrentPeriodStart = zero_time, sub_CurrentPeriodEnd = zero_time, sub_CancelAtPeriodEnd = False,
      sub_CanceledAt = None, sub_EndedAt = None, sub_TrialStart = None, sub_TrialEnd = None, sub_Metadata = [],
      sub_UpdatedAt = 0, sub_StripeUpdatedAt = 0, sub_LatestInvoice = None\<rparr>"

theorem seats_change_for_owner_only_witness:
  "subs_AddSeats demo_seat_ops ''org'' ''sub_1'' ''seat'' 2 True [(''sub_1'', demo_sub)] [] =
     (None, [\<lparr>ic_StripeItemID = ''si_1'', ic_PriceID = '''', ic_Quantity = 5, ic_Deleted = False\<rparr>]) \<and>
   subs_AddSeats demo_seat_ops ''rival'' ''sub_1'' ''seat'' 2 True [(''sub_1'', demo_sub)] [] =
     (Some ErrSubscriptionNotForSubject, [])"
proof -
  have "sr_GetByStripeID (so_repo demo_seat_ops) ''sub_1'' [(''sub_1'', demo_sub)] = Inr (Some demo_sub)"
    by (simp add: demo_seat_ops_def ms_repo_def ms_GetByStripeID_def)
  note owner = seats_change_for_owner_only [OF this, of "''seat''" 2 1 _ True "[]"]
  have "so_spec demo_seat_ops = None" "sbk_UpdateItems (so_backend demo_seat_ops) = (\<lambda>_ items _ s. (None, s @ items))"
    "sub_SubjectID demo_sub = ''org''" "sub_Items demo_sub = [\<lparr>si_StripeID = ''si_1'', si_PriceKey = ''seat'', si_Quantity = 3\<rparr>]"
    by (simp_all add: demo_seat_ops_def demo_sub_def)
  with owner [of "''org''"] owner [of "''rival''"] show ?thesis
    by (simp add: namespacedKeyOrSelf_def in64_def MaxInt64_def wrapBackend_def)
qed

text \<open>\<open>itoa\<close> ends on every argument and prints what \<open>%d\<close> prints when ten digits suffice.\<close>

lemma itoaLoop_showNat:
  "0 < n \<Longrightarrow> n < 10 ^ k \<Longrightarrow> length buf + k \<le> 10 \<Longrightarrow> itoaLoop n buf = Some (showNat (nat n) @ buf)"
proof (induction k arbitrary: n buf)
  case (Suc k)
  have d: "digit (nat n) = digit (nat (n mod 10))" using Suc.prems(1) by (simp add: digit_def nat_mod_distrib)
  show ?case
  proof (cases "n div 10 = 0")
    case True
    with Suc.prems have "n < 10" by presburger
    with Suc.prems True show ?thesis by (subst itoaLoop.simps, subst itoaLoop.simps, subst showNat.simps) simp
  next
    case False
    with Suc.prems have "itoaLoop (n div 10) (digit (nat n) # buf) = Some (showNat (nat (n div 10)) @ digit (nat n) # buf)"
      by (intro Suc.IH) auto
    moreover have "\<not> nat n < 10" using False Suc.prems(1) by (auto simp: div_pos_pos_trivial)
    ultimately show ?thesis
      using Suc.prems by (subst itoaLoop.simps, subst showNat.simps) (simp add: nat_div_distrib)
  qed
qed simp

lemma itoa_showInt: "0 \<le> n \<Longrightarrow> n < 10 ^ 10 \<Longrightarrow> itoa n = Some (showInt n)"
proof (cases "n = 0")
  case True
  have "showInt 0 = ''0''" by code_simp
  with True show ?thesis by (simp add: itoa_def)
next
  case False
  then show "0 \<le> n \<Longrightarrow> n < 10 ^ 10 \<Longrightarrow> ?thesis"
    using itoaLoop_showNat [of n 10 "[]"] by (simp add: itoa_def showInt_def)
qed

subsection \<open>Storing and reading a row\<close>

text \<open>A row reads back as it was stored, apart from the write time and the invoice state, which has no column.\<close>

lemma pgItems_roundtrip: "\<forall>it \<in> set its. in64 (si_Quantity it) \<Longrightarrow> pgItems (itemsJson its) = its"
proof -
  assume q: "\<forall>it \<in> set its. in64 (si_Quantity it)"
  have "lower ''StripeID'' = ''stripeid''" "lower ''PriceKey'' = ''pricekey''" "lower ''Quantity'' = ''quantity''"
    by code_simp+
  with q show ?thesis
    by (simp add: pgItems_def itemsJson_def itemJson_def lenient_def dStruct_def pgItemField_def dString_def dInt_def
        ParseInt_showInt comp_def map_idI)
qed

lemma update_conv_append: "k \<notin> fst ` set m \<Longrightarrow> mset_key k v m = m @ [(k, v)]"
  by (induction m) auto

lemma fold_update_append:
  "distinct (map fst (m0 @ m)) \<Longrightarrow> fold (\<lambda>(k, v) m. mset_key k v m) m m0 = m0 @ m"
proof (induction m arbitrary: m0)
  case (Cons p m)
  obtain k v where p: "p = (k, v)" by fastforce
  have "mset_key k v m0 = m0 @ [(k, v)]"
    using Cons.prems p by (simp add: update_conv_append)
  with Cons.IH [of "m0 @ [(k, v)]"] Cons.prems p show ?case by simp
qed simp

lemma pgMetadata_roundtrip: "distinct (map fst m) \<Longrightarrow> pgMetadata (metadataObj m) = m"
  using fold_update_append [of "[]" m]
  by (simp add: pgMetadata_def metadataObj_def lenient_def dString_def fold_map comp_def case_prod_unfold)

lemma pg_sub_roundtrip:
  assumes "\<forall>it \<in> set (sub_Items s). in64 (si_Quantity it)" and "distinct (map fst (sub_Metadata s))"
    and "\<And>t. micro t = t"
    and "Some zero_time \<notin> {sub_CanceledAt s, sub_EndedAt s, sub_TrialStart s, sub_TrialEnd s}"
    and "pg_row t (sub_StripeID s) = None"
  shows "pg_sub_GetByStripeID (sub_StripeID s) (snd (pg_sub_Upsert micro now s t)) =
    Inr (Some (s\<lparr>sub_UpdatedAt := now, sub_LatestInvoice := None\<rparr>))"
proof -
  have "micro = (\<lambda>t. t)" using assms(3) by blast
  then have "map_option micro x = x" for x by (simp add: option.map_ident)
  moreover have "nullTimePtr x = x" if "Some zero_time \<noteq> x" for x using that by (auto simp: nullTimePtr_def split: option.split)
  moreover have "(case nullTime x of None \<Rightarrow> zero_time | Some t \<Rightarrow> t) = x" for x by (simp add: nullTime_def)
  ultimately have "scanSubscription (pgSubRow micro now s) = s\<lparr>sub_UpdatedAt := now, sub_LatestInvoice := None\<rparr>"
    using assms(1-4) by (cases s) (simp add: scanSubscription_def pgSubRow_def pgItems_roundtrip pgMetadata_roundtrip)
  then show ?thesis
    using assms(5) by (simp add: pg_sub_GetByStripeID_def pg_row_def [symmetric] pg_row_upsert)
qed

end
