(* ===== verification/Plans.thy ===== *)
theory Plans
  imports Credits Subscriptions
begin

text \<open>
  Package \<open>plans\<close>: the snapshot of a subject's entitlements. \<open>SnapshotFor\<close> walks the subject's mirrored
  subscriptions and merges the metadata of the products behind their items; the accessors read the result. A
  snapshot's maps are association lists and \<open>range\<close> over a product's metadata visits its list in order.
\<close>

record Snapshot =
  sn_SubjectID :: string
  sn_PeriodEnd :: time
  sn_TrialEndsAt :: "time option"
  sn_anyActive :: bool
  sn_inGracePeriod :: bool
  sn_isTrialing :: bool
  sn_planKeys :: "string list"
  sn_features :: "(string, bool) gomap"
  sn_limits :: "(string, int) gomap"
  sn_adds :: "(string, int) gomap"
  sn_hasLimit :: "(string, bool) gomap"

definition emptySnapshot :: "string \<Rightarrow> Snapshot" where
  "emptySnapshot subject =
     \<lparr>sn_SubjectID = subject, sn_PeriodEnd = zero_time, sn_TrialEndsAt = None, sn_anyActive = False,
      sn_inGracePeriod = False, sn_isTrialing = False, sn_planKeys = [], sn_features = [], sn_limits = [],
      sn_adds = [], sn_hasLimit = []\<rparr>"

subsection \<open>Keys\<close>

definition stripNamespace :: "string \<Rightarrow> string \<Rightarrow> string \<times> bool" where
  "stripNamespace ns key =
     (let prefix = ns @ ''.''
      in if length key > length prefix \<and> take (length prefix) key = prefix then (drop (length prefix) key, True)
         else (key, False))"

definition splitPriceKey :: "string \<Rightarrow> string \<times> string" where
  "splitPriceKey key = (case cutAt (CHR ''.'') key of None \<Rightarrow> ('''', '''') | Some (a, b) \<Rightarrow> (a, b))"

subsection \<open>Merging metadata\<close>

definition setMaxLimit :: "string \<Rightarrow> int \<Rightarrow> Snapshot \<Rightarrow> Snapshot" where
  "setMaxLimit name n snap =
     (case map_of (sn_limits snap) name of
        Some cur \<Rightarrow> if n > cur then snap\<lparr>sn_limits := mset_key name n (sn_limits snap)\<rparr> else snap
      | None \<Rightarrow> snap\<lparr>sn_limits := mset_key name n (sn_limits snap)\<rparr>)"

definition markLimit :: "string \<Rightarrow> Snapshot \<Rightarrow> Snapshot" where
  "markLimit name snap = snap\<lparr>sn_hasLimit := mset_key name True (sn_hasLimit snap)\<rparr>"

definition mergeLimit :: "string \<Rightarrow> string \<Rightarrow> Snapshot \<Rightarrow> Snapshot" where
  "mergeLimit name0 v snap =
     (let additive = (length name0 > 4 \<and> drop (length name0 - 4) name0 = ''.add'');
          name = (if additive then take (length name0 - 4) name0 else name0)
      in if v = ''unlimited'' then
           (if additive then snap else markLimit name (setMaxLimit name MaxInt64 snap))
         else case ParseInt v of
           None \<Rightarrow> snap
         | Some parsed \<Rightarrow>
             markLimit name
               (if additive
                then snap\<lparr>sn_adds := mset_key name (wrap64 (mget 0 (sn_adds snap) name + parsed)) (sn_adds snap)\<rparr>
                else setMaxLimit name parsed snap))"

definition mergeEntry :: "string \<times> string \<Rightarrow> Snapshot \<Rightarrow> Snapshot" where
  "mergeEntry kv snap =
     (case kv of (k, v) \<Rightarrow>
        if length k > 8 \<and> take 8 k = ''feature.'' then
          (if v \<noteq> '''' \<and> v \<noteq> ''false'' \<and> v \<noteq> ''0''
           then snap\<lparr>sn_features := mset_key (drop 8 k) True (sn_features snap)\<rparr> else snap)
        else if length k > 6 \<and> take 6 k = ''limit.'' then mergeLimit (drop 6 k) v snap
        else snap)"

definition mergeMetadata :: "(string, string) gomap \<Rightarrow> Snapshot \<Rightarrow> Snapshot" where
  "mergeMetadata m snap = fold mergeEntry m snap"

subsection \<open>The snapshot\<close>

definition itemProduct :: "Spec \<Rightarrow> SubscriptionItem \<Rightarrow> (string \<times> Product) option" where
  "itemProduct spec it =
     (let (pk, _) = stripNamespace (sp_Namespace spec) (si_PriceKey it);
          (productKey, _) = splitPriceKey pk
      in if productKey = '''' then None else map_option (Pair productKey) (map_of (sp_Products spec) productKey))"

definition addPlanItem :: "Spec \<Rightarrow> SubscriptionItem \<Rightarrow> Snapshot \<Rightarrow> Snapshot" where
  "addPlanItem spec it snap =
     (case itemProduct spec it of
        None \<Rightarrow> snap
      | Some (productKey, product) \<Rightarrow>
          mergeMetadata (pd_Metadata product) (snap\<lparr>sn_planKeys := sn_planKeys snap @ [productKey]\<rparr>))"

text \<open>The flags and dates a subscription contributes.\<close>

definition addStatus :: "time \<Rightarrow> Subscription \<Rightarrow> Snapshot \<Rightarrow> Snapshot" where
  "addStatus now sub snap =
     snap\<lparr>sn_anyActive := True,
          sn_inGracePeriod := sn_inGracePeriod snap \<or> sub_Status sub = StatusPastDue,
          sn_isTrialing := sn_isTrialing snap \<or> sub_Status sub = StatusTrialing,
          sn_PeriodEnd :=
            (if sub_CurrentPeriodEnd sub \<noteq> zero_time \<and>
                (sn_PeriodEnd snap = zero_time \<or> sub_CurrentPeriodEnd sub > sn_PeriodEnd snap)
             then sub_CurrentPeriodEnd sub else sn_PeriodEnd snap),
          sn_TrialEndsAt :=
            (case sub_TrialEnd sub of
               None \<Rightarrow> sn_TrialEndsAt snap
             | Some te \<Rightarrow>
                 if te > now \<and> (case sn_TrialEndsAt snap of None \<Rightarrow> True | Some cur \<Rightarrow> te > cur)
                 then Some te else sn_TrialEndsAt snap)\<rparr>"

definition addSubscription :: "Spec \<Rightarrow> time \<Rightarrow> Subscription \<Rightarrow> Snapshot \<Rightarrow> Snapshot" where
  "addSubscription spec now sub snap =
     (if IsAccessGranting (sub_Status sub) then fold (addPlanItem spec) (sub_Items sub) (addStatus now sub snap)
      else snap)"

definition SnapshotFor :: "'r subsRepo \<Rightarrow> Spec \<Rightarrow> time \<Rightarrow> string \<Rightarrow> 'r \<Rightarrow> string + Snapshot" where
  "SnapshotFor repo spec now subject r =
     (case sr_ListBySubject repo subject r of
        Inl e \<Rightarrow> Inl e
      | Inr subs \<Rightarrow> Inr (fold (addSubscription spec now) subs (emptySnapshot subject)))"

subsection \<open>Reading a snapshot\<close>

definition HasFeature :: "Snapshot \<Rightarrow> string \<Rightarrow> bool" where
  "HasFeature snap key = mget False (sn_features snap) key"

definition IntLimit :: "Snapshot \<Rightarrow> string \<Rightarrow> int \<times> bool" where
  "IntLimit snap key =
     (if \<not> mget False (sn_hasLimit snap) key then (0, False)
      else let base = mget 0 (sn_limits snap) key;
               add = mget 0 (sn_adds snap) key
           in if base = MaxInt64 then (MaxInt64, True)
              else if add > wrap64 (MaxInt64 - base) then (MaxInt64, True)
              else (wrap64 (base + add), True))"

definition CreditsRemaining :: "(string \<Rightarrow> string \<Rightarrow> 'e + Balance) option \<Rightarrow> Snapshot \<Rightarrow> string \<Rightarrow> int" where
  "CreditsRemaining credits snap bucket =
     (case credits of
        None \<Rightarrow> 0
      | Some balance \<Rightarrow> (case balance (sn_SubjectID snap) bucket of Inl _ \<Rightarrow> 0 | Inr bal \<Rightarrow> b_Total bal))"

fun planKeysLoop :: "string list \<Rightarrow> string set \<Rightarrow> string list" where
  "planKeysLoop [] seen = []"
| "planKeysLoop (k # ks) seen = (if k \<in> seen then planKeysLoop ks seen else k # planKeysLoop ks (insert k seen))"

definition PlanKeys :: "Snapshot \<Rightarrow> string list" where
  "PlanKeys snap = planKeysLoop (sn_planKeys snap) {}"

end
