(* ===== verification/Plans_Proofs.thy ===== *)
theory Plans_Proofs
  imports Plans
begin

text \<open>
  The snapshot of package \<open>plans\<close> against its specification: features are the disjunction over all plans' metadata,
  limits the saturating sum of the highest base and all addons, whatever order the loops visit subscriptions, items and
  metadata in. \<open>snapshot_fold\<close> reduces every field of a snapshot to a fold over the entries.
\<close>

subsection \<open>What a metadata entry declares\<close>

definition featureOn :: "string \<Rightarrow> string \<times> string \<Rightarrow> bool" where
  "featureOn name kv \<longleftrightarrow> fst kv = ''feature.'' @ name \<and> snd kv \<notin> {'''', ''false'', ''0''}"

definition baseVal :: "string \<Rightarrow> string \<times> string \<Rightarrow> int option" where
  "baseVal name kv =
     (if fst kv = ''limit.'' @ name then (if snd kv = ''unlimited'' then Some MaxInt64 else ParseInt (snd kv)) else None)"

definition addVal :: "string \<Rightarrow> string \<times> string \<Rightarrow> int option" where
  "addVal name kv = (if fst kv = ''limit.'' @ name @ ''.add'' then ParseInt (snd kv) else None)"

text \<open>A limit's name that is not read as an additive one.\<close>

definition plainName :: "string \<Rightarrow> bool" where
  "plainName name \<longleftrightarrow> name \<noteq> '''' \<and> (4 < length name \<longrightarrow> drop (length name - 4) name \<noteq> ''.add'')"

definition itemEntries :: "Spec \<Rightarrow> SubscriptionItem \<Rightarrow> (string \<times> string) list" where
  "itemEntries spec it = (case itemProduct spec it of None \<Rightarrow> [] | Some (_, p) \<Rightarrow> pd_Metadata p)"

text \<open>Every entry of every product behind an access-granting subscription.\<close>

definition planEntries :: "Spec \<Rightarrow> Subscription list \<Rightarrow> (string \<times> string) list" where
  "planEntries spec subs =
     concat (map (itemEntries spec) (concat (map sub_Items (filter (\<lambda>s. IsAccessGranting (sub_Status s)) subs))))"

lemma ParseInt_unlimited [simp]: "ParseInt ''unlimited'' = None"
  by code_simp

lemma prefix_split: "length p < length k \<and> take (length p) k = p \<longleftrightarrow> (\<exists>x. x \<noteq> [] \<and> k = p @ x)"
proof
  assume "length p < length k \<and> take (length p) k = p"
  then have "k = p @ drop (length p) k" "drop (length p) k \<noteq> []" by (metis append_take_drop_id, simp)
  then show "\<exists>x. x \<noteq> [] \<and> k = p @ x" by blast
qed auto

lemma add_key: "4 < length x \<and> drop (length x - 4) x = ''.add'' \<longleftrightarrow> (\<exists>y. y \<noteq> [] \<and> x = y @ ''.add'')"
proof
  assume "4 < length x \<and> drop (length x - 4) x = ''.add''"
  then have "x = take (length x - 4) x @ ''.add''" "take (length x - 4) x \<noteq> []"
    by (metis append_take_drop_id, auto)
  then show "\<exists>y. y \<noteq> [] \<and> x = y @ ''.add''" by blast
qed auto

lemma mergeEntry_cases:
  obtains (feature) x where "x \<noteq> []" "k = ''feature.'' @ x"
    "mergeEntry (k, v) s = (if featureOn x (k, v) then s\<lparr>sn_features := mset_key x True (sn_features s)\<rparr> else s)"
  | (additive) x where "x \<noteq> []" "k = ''limit.'' @ x @ ''.add''"
    "mergeEntry (k, v) s = (case ParseInt v of None \<Rightarrow> s | Some n \<Rightarrow>
       markLimit x (s\<lparr>sn_adds := mset_key x (wrap64 (mget 0 (sn_adds s) x + n)) (sn_adds s)\<rparr>))"
  | (base) x where "plainName x" "k = ''limit.'' @ x"
    "mergeEntry (k, v) s = (case baseVal x (k, v) of None \<Rightarrow> s | Some n \<Rightarrow> markLimit x (setMaxLimit x n s))"
  | (other) "\<nexists>x. x \<noteq> [] \<and> k = ''feature.'' @ x" "\<nexists>x. x \<noteq> [] \<and> k = ''limit.'' @ x" "mergeEntry (k, v) s = s"
proof -
  have f: "length k > 8 \<and> take 8 k = ''feature.'' \<longleftrightarrow> (\<exists>x. x \<noteq> [] \<and> k = ''feature.'' @ x)"
    using prefix_split [of "''feature.''" k] by (simp add: eval_nat_numeral)
  have l: "length k > 6 \<and> take 6 k = ''limit.'' \<longleftrightarrow> (\<exists>x. x \<noteq> [] \<and> k = ''limit.'' @ x)"
    using prefix_split [of "''limit.''" k] by (simp add: eval_nat_numeral)
  consider x where "x \<noteq> []" "k = ''feature.'' @ x" | y where "y \<noteq> []" "k = ''limit.'' @ y @ ''.add''"
    | x where "plainName x" "k = ''limit.'' @ x"
    | "\<nexists>x. x \<noteq> [] \<and> k = ''feature.'' @ x" "\<nexists>x. x \<noteq> [] \<and> k = ''limit.'' @ x"
    using add_key by (metis plainName_def)
  then show ?thesis
  proof cases
    case (1 x)
    then show ?thesis by (intro feature [of x]) (auto simp: mergeEntry_def featureOn_def)
  next
    case (2 y)
    then show ?thesis by (intro additive [of y]) (auto simp: mergeEntry_def mergeLimit_def Let_def split: option.split)
  next
    case (3 x)
    then show ?thesis by (intro base [of x]) (auto simp: mergeEntry_def mergeLimit_def Let_def baseVal_def plainName_def split: option.split)
  next
    case 4
    then show ?thesis using f l by (intro other) (auto simp: mergeEntry_def)
  qed
qed

subsection \<open>One entry\<close>

definition maxOpt :: "int option \<Rightarrow> int option \<Rightarrow> int option" where
  "maxOpt x y = (case x of None \<Rightarrow> y | Some a \<Rightarrow> (case y of None \<Rightarrow> x | Some b \<Rightarrow> Some (max a b)))"

lemma setMaxLimit_sel [simp]:
  "sn_features (setMaxLimit x n s) = sn_features s" "sn_adds (setMaxLimit x n s) = sn_adds s"
  "sn_hasLimit (setMaxLimit x n s) = sn_hasLimit s"
  "map_of (sn_limits (setMaxLimit x n s)) y = (if y = x then maxOpt (map_of (sn_limits s) x) (Some n) else map_of (sn_limits s) y)"
  by (auto simp: setMaxLimit_def maxOpt_def split: option.split)

lemma markLimit_sel [simp]:
  "sn_features (markLimit x s) = sn_features s" "sn_adds (markLimit x s) = sn_adds s" "sn_limits (markLimit x s) = sn_limits s"
  "mget False (sn_hasLimit (markLimit x s)) y = (y = x \<or> mget False (sn_hasLimit s) y)"
  by (simp_all add: markLimit_def)

lemma mergeEntry_feature:
  "name \<noteq> [] \<Longrightarrow> mget False (sn_features (mergeEntry (k, v) s)) name = (mget False (sn_features s) name \<or> featureOn name (k, v))"
  by (cases rule: mergeEntry_cases [of k v s]) (auto simp: featureOn_def split: option.split)

lemma mergeEntry_limit:
  assumes "plainName name"
  shows "map_of (sn_limits (mergeEntry (k, v) s)) name = maxOpt (map_of (sn_limits s) name) (baseVal name (k, v))"
proof (cases rule: mergeEntry_cases [of k v s])
    case (additive x)
    then have "x @ ''.add'' \<noteq> name" using assms by (auto simp: plainName_def)
    with additive show ?thesis by (auto simp: baseVal_def maxOpt_def split: option.split)
  qed (use assms in \<open>auto simp: baseVal_def maxOpt_def plainName_def split: option.split\<close>)

lemma mergeEntry_add:
  assumes n: "name \<noteq> []"
  shows "mget 0 (sn_adds (mergeEntry (k, v) s)) name =
    (case addVal name (k, v) of None \<Rightarrow> mget 0 (sn_adds s) name | Some n \<Rightarrow> wrap64 (mget 0 (sn_adds s) name + n))"
proof (cases rule: mergeEntry_cases [of k v s])
    case (base x)
    then have "x \<noteq> name @ ''.add''" using n by (auto simp: plainName_def)
    with base show ?thesis by (auto simp: addVal_def split: option.split)
  qed (use n in \<open>auto simp: addVal_def markLimit_def split: option.split\<close>)

lemma mergeEntry_has:
  assumes "plainName name"
  shows "mget False (sn_hasLimit (mergeEntry (k, v) s)) name =
    (mget False (sn_hasLimit s) name \<or> baseVal name (k, v) \<noteq> None \<or> addVal name (k, v) \<noteq> None)"
proof (cases rule: mergeEntry_cases [of k v s])
    case (additive x)
    then have "x @ ''.add'' \<noteq> name" using assms by (auto simp: plainName_def)
    with additive show ?thesis by (auto simp: baseVal_def addVal_def split: option.split)
  next
    case (base x)
    then have "x \<noteq> name @ ''.add''" using assms by (auto simp: plainName_def)
    with base show ?thesis by (auto simp: baseVal_def addVal_def split: option.split)
  qed (use assms in \<open>auto simp: baseVal_def addVal_def plainName_def split: option.split\<close>)

subsection \<open>All entries\<close>

text \<open>An observation that every entry updates by \<open>f\<close> and nothing else changes is a fold over the entries.\<close>

lemma snapshot_fold:
  assumes entry: "\<And>k v s. obs (mergeEntry (k, v) s) = f (k, v) (obs s)"
    and status: "\<And>now sub s. obs (addStatus now sub s) = obs s"
    and keys: "\<And>ks s. obs (s\<lparr>sn_planKeys := ks\<rparr>) = obs s"
  shows "obs (fold (addSubscription spec now) subs s) = fold f (planEntries spec subs) (obs s)"
proof -
  have meta: "obs (mergeMetadata m s) = fold f m (obs s)" for m s
    by (induction m arbitrary: s) (auto simp: mergeMetadata_def entry)
  have item: "obs (addPlanItem spec it s) = fold f (itemEntries spec it) (obs s)" for it s
    by (auto simp: addPlanItem_def itemEntries_def meta keys split: option.split)
  have items: "obs (fold (addPlanItem spec) its s) = fold f (concat (map (itemEntries spec) its)) (obs s)" for its s
    by (induction its arbitrary: s) (auto simp: item)
  show ?thesis
    by (induction subs arbitrary: s) (auto simp: addSubscription_def planEntries_def items status)
qed

lemma addStatus_sel [simp]:
  "sn_features (addStatus now sub s) = sn_features s" "sn_limits (addStatus now sub s) = sn_limits s"
  "sn_adds (addStatus now sub s) = sn_adds s" "sn_hasLimit (addStatus now sub s) = sn_hasLimit s"
  by (simp_all add: addStatus_def)

definition baseVals :: "string \<Rightarrow> (string \<times> string) list \<Rightarrow> int list" where
  "baseVals name es = List.map_filter (baseVal name) es"

definition addVals :: "string \<Rightarrow> (string \<times> string) list \<Rightarrow> int list" where
  "addVals name es = List.map_filter (addVal name) es"

lemma fold_maxOpt:
  "fold (\<lambda>e x. maxOpt x (baseVal name e)) es x =
    (if baseVals name es = [] then x else maxOpt x (Some (Max (set (baseVals name es)))))"
proof (induction es arbitrary: x)
  case (Cons e es)
  show ?case
  proof (cases "baseVal name e")
    case None
    with Cons show ?thesis by (simp add: baseVals_def map_filter_simps maxOpt_def split: option.split)
  next
    case (Some n)
    with Cons show ?thesis
      by (cases "baseVals name es = []")
        (auto simp: baseVals_def map_filter_simps maxOpt_def max.assoc split: option.split)
  qed
qed (simp add: baseVals_def map_filter_simps)

lemma fold_adds:
  "fold (\<lambda>e x. case addVal name e of None \<Rightarrow> x | Some n \<Rightarrow> wrap64 (x + n)) es (wrap64 x) =
    wrap64 (x + sum_list (addVals name es))"
  by (induction es arbitrary: x) (auto simp: addVals_def map_filter_simps add.assoc split: option.split)

lemma map_filter_None: "List.map_filter f xs = [] \<longleftrightarrow> (\<forall>x \<in> set xs. f x = None)"
  by (induction xs) (auto simp: map_filter_simps split: option.split)

lemma snapshot_feature:
  "name \<noteq> [] \<Longrightarrow> mget False (sn_features (fold (addSubscription spec now) subs (emptySnapshot subject))) name =
    list_ex (featureOn name) (planEntries spec subs)"
proof -
  assume n: "name \<noteq> []"
  have "mget False (sn_features (fold (addSubscription spec now) subs (emptySnapshot subject))) name =
    fold (\<lambda>e b. b \<or> featureOn name e) (planEntries spec subs) (mget False (sn_features (emptySnapshot subject)) name)"
    by (rule snapshot_fold) (simp_all add: mergeEntry_feature [OF n])
  moreover have "fold (\<lambda>e b. b \<or> featureOn name e) es b \<longleftrightarrow> b \<or> list_ex (featureOn name) es" for es b
    by (induction es arbitrary: b) auto
  ultimately show ?thesis by (simp add: emptySnapshot_def)
qed

lemma snapshot_limits:
  assumes "plainName name"
    and s_def: "s = fold (addSubscription spec now) subs (emptySnapshot subject)"
  shows "map_of (sn_limits s) name =
      (if baseVals name (planEntries spec subs) = [] then None else Some (Max (set (baseVals name (planEntries spec subs)))))"
    and "mget 0 (sn_adds s) name = wrap64 (sum_list (addVals name (planEntries spec subs)))"
    and "mget False (sn_hasLimit s) name \<longleftrightarrow>
      baseVals name (planEntries spec subs) \<noteq> [] \<or> addVals name (planEntries spec subs) \<noteq> []"
proof -
  have n: "name \<noteq> []" using assms(1) by (simp add: plainName_def)
  have "map_of (sn_limits s) name =
    fold (\<lambda>e x. maxOpt x (baseVal name e)) (planEntries spec subs) (map_of (sn_limits (emptySnapshot subject)) name)"
    unfolding s_def by (rule snapshot_fold) (simp_all add: mergeEntry_limit [OF assms(1)])
  then show "map_of (sn_limits s) name =
      (if baseVals name (planEntries spec subs) = [] then None else Some (Max (set (baseVals name (planEntries spec subs)))))"
    unfolding fold_maxOpt by (simp add: emptySnapshot_def maxOpt_def)
  have "mget 0 (sn_adds s) name =
    fold (\<lambda>e x. case addVal name e of None \<Rightarrow> x | Some n \<Rightarrow> wrap64 (x + n)) (planEntries spec subs)
      (mget 0 (sn_adds (emptySnapshot subject)) name)"
    unfolding s_def by (rule snapshot_fold) (simp_all add: mergeEntry_add [OF n])
  moreover have "mget 0 (sn_adds (emptySnapshot subject)) name = wrap64 0" by (simp add: emptySnapshot_def in64_def)
  ultimately show "mget 0 (sn_adds s) name = wrap64 (sum_list (addVals name (planEntries spec subs)))"
    using fold_adds [of name "planEntries spec subs" 0] by simp
  have "mget False (sn_hasLimit s) name =
    fold (\<lambda>e b. b \<or> baseVal name e \<noteq> None \<or> addVal name e \<noteq> None) (planEntries spec subs)
      (mget False (sn_hasLimit (emptySnapshot subject)) name)"
    unfolding s_def by (rule snapshot_fold) (simp_all add: mergeEntry_has [OF assms(1)])
  moreover have "fold (\<lambda>e b. b \<or> P e) es b \<longleftrightarrow> b \<or> list_ex P es" for P :: "string \<times> string \<Rightarrow> bool" and es b
    by (induction es arbitrary: b) auto
  ultimately show "mget False (sn_hasLimit s) name \<longleftrightarrow>
      baseVals name (planEntries spec subs) \<noteq> [] \<or> addVals name (planEntries spec subs) \<noteq> []"
    by (auto simp: emptySnapshot_def baseVals_def addVals_def map_filter_None list_ex_iff)
qed

lemma anyActive_entry [simp]: "sn_anyActive (mergeEntry (k, v) s) = sn_anyActive s"
proof -
  have "sn_anyActive (markLimit x s) = sn_anyActive s" "sn_anyActive (setMaxLimit x n s) = sn_anyActive s" for x n s
    by (simp_all add: markLimit_def setMaxLimit_def split: option.split)
  then show ?thesis by (cases rule: mergeEntry_cases [of k v s]) (simp_all split: option.split)
qed

lemma anyActive_items [simp]: "sn_anyActive (fold (addPlanItem spec) its s) = sn_anyActive s"
proof (induction its arbitrary: s)
  case (Cons it its)
  have "sn_anyActive (fold mergeEntry m s) = sn_anyActive s" for m s
    by (induction m arbitrary: s) (simp_all add: split_paired_all)
  with Cons show ?case by (simp add: addPlanItem_def mergeMetadata_def split: option.split)
qed simp

lemma ParseInt_in64: "ParseInt s = Some n \<Longrightarrow> in64 n"
  by (auto simp: ParseInt_def Let_def split: option.splits if_splits prod.splits)

lemma baseVals_max: "n \<in> set (baseVals name es) \<Longrightarrow> n \<le> MaxInt64"
proof -
  have "n \<le> MaxInt64" if "baseVal name e = Some n" for e
    using that ParseInt_in64 [of "snd e" n] by (auto simp: baseVal_def in64_def MaxInt64_def split: if_splits)
  then show "n \<in> set (baseVals name es) \<Longrightarrow> n \<le> MaxInt64" by (auto simp: baseVals_def List.map_filter_def)
qed

lemma IntLimit_saturates:
  assumes "mget False (sn_hasLimit s) name" and "mget 0 (sn_limits s) name = b" and "mget 0 (sn_adds s) name = a"
    and "0 \<le> b" "b \<le> MaxInt64" "0 \<le> a" "a \<le> MaxInt64"
  shows "IntLimit s name = (min MaxInt64 (b + a), True)"
proof -
  have "wrap64 (MaxInt64 - b) = MaxInt64 - b" using assms(4,5) by (simp add: in64_def MaxInt64_def)
  moreover have "a \<le> MaxInt64 - b \<Longrightarrow> wrap64 (b + a) = b + a" using assms(4-7) by (simp add: in64_def MaxInt64_def)
  ultimately show ?thesis using assms by (auto simp: IntLimit_def Let_def)
qed

subsection \<open>Properties\<close>

text \<open>C25: A snapshot aggregates the entitlements of every access-granting subscription, in whatever order
  subscriptions and metadata are visited. A feature is on exactly when some plan's metadata switches it on. A limit is
  declared exactly when some plan declares a base or an addon for it; it is then the highest base plus the sum of the
  addons, capped at the largest \<open>int64\<close>, which \<open>unlimited\<close> stands for. Base values and the addons' sum have to be
  non-negative and the sum has to fit an \<open>int64\<close>.\<close>

theorem snapshot_aggregates:
  assumes "sr_ListBySubject repo subject r = Inr subs" and "es = planEntries spec subs"
    and "plainName name" and "list_all (\<lambda>n. 0 \<le> n) (baseVals name es)"
    and "0 \<le> sum_list (addVals name es)" and "sum_list (addVals name es) \<le> MaxInt64" and "feature \<noteq> ''''"
  shows "\<exists>snap. SnapshotFor repo spec now subject r = Inr snap \<and>
    (sn_anyActive snap \<longleftrightarrow> list_ex (\<lambda>s. IsAccessGranting (sub_Status s)) subs) \<and>
    (HasFeature snap feature \<longleftrightarrow>
      list_ex (\<lambda>(k, v). k = ''feature.'' @ feature \<and> v \<noteq> '''' \<and> v \<noteq> ''false'' \<and> v \<noteq> ''0'') es) \<and>
    IntLimit snap name =
      (if baseVals name es = [] \<and> addVals name es = [] then (0, False)
       else (min MaxInt64 (Max (insert 0 (set (baseVals name es))) + sum_list (addVals name es)), True))"
proof -
  define s where "s = fold (addSubscription spec now) subs (emptySnapshot subject)"
  have snap: "SnapshotFor repo spec now subject r = Inr s" by (simp add: SnapshotFor_def assms(1) s_def)
  note lims = snapshot_limits [OF assms(3) s_def, folded assms(2)]
  have "sn_anyActive (fold (addSubscription spec now) subs x) \<longleftrightarrow>
    sn_anyActive x \<or> list_ex (\<lambda>s. IsAccessGranting (sub_Status s)) subs" for x
    by (induction subs arbitrary: x) (auto simp: addSubscription_def addStatus_def)
  then have act: "sn_anyActive s \<longleftrightarrow> list_ex (\<lambda>s. IsAccessGranting (sub_Status s)) subs"
    by (simp add: s_def emptySnapshot_def)
  have feat: "HasFeature s feature \<longleftrightarrow>
      list_ex (\<lambda>(k, v). k = ''feature.'' @ feature \<and> v \<noteq> '''' \<and> v \<noteq> ''false'' \<and> v \<noteq> ''0'') es"
    using snapshot_feature [OF assms(7), of spec now subs subject] assms(2)
    by (simp add: HasFeature_def s_def featureOn_def case_prod_unfold list_ex_iff)
  have base: "mget 0 (sn_limits s) name = Max (insert 0 (set (baseVals name es)))"
  proof (cases "baseVals name es = []")
    case False
    then have "0 \<le> Max (set (baseVals name es))"
      using assms(4) by (simp add: list_all_iff Max_ge_iff) (metis list.set_intros(1) neq_Nil_conv)
    with False lims(1) show ?thesis by (simp add: mget_def)
  qed (simp add: lims(1) mget_def)
  have "IntLimit s name =
      (if baseVals name es = [] \<and> addVals name es = [] then (0, False)
       else (min MaxInt64 (Max (insert 0 (set (baseVals name es))) + sum_list (addVals name es)), True))"
  proof (cases "baseVals name es = [] \<and> addVals name es = []")
    case True
    with lims(3) show ?thesis by (simp add: IntLimit_def)
  next
    case False
    have "Max (insert 0 (set (baseVals name es))) \<le> MaxInt64"
      using baseVals_max [of _ name es] by (auto simp: MaxInt64_def)
    moreover have "mget 0 (sn_adds s) name = sum_list (addVals name es)"
      using lims(2) assms(5,6) by (simp add: in64_def MaxInt64_def)
    moreover have "0 \<le> Max (insert 0 (set (baseVals name es)))" by (simp add: Max_ge_iff)
    ultimately show ?thesis using False lims(3) IntLimit_saturates [OF _ base] assms(5,6) by simp
  qed
  with snap act feat show ?thesis by blast
qed

definition demo_plan_spec :: Spec where
  "demo_plan_spec =
     (let prod = (\<lambda>name meta. \<lparr>pd_Name = name, pd_Description = '''', pd_TaxCategory = '''', pd_Prices = [],
                    pd_CreditGrant = None, pd_RecurringGrant = None, pd_Metadata = meta\<rparr>)
      in \<lparr>sp_Namespace = ''shop'',
          sp_Products =
            [(''pro'', prod ''Pro'' [(''limit.seats'', ''10''), (''feature.sso'', ''true''), (''feature.beta'', ''0'')]),
             (''pack'', prod ''Seat pack'' [(''limit.seats.add'', ''5'')])],
          sp_Coupons = [], sp_Meters = []\<rparr>)"

definition demo_plan_sub :: Subscription where
  "demo_plan_sub =
     \<lparr>sub_StripeID = ''sub_1'', sub_SubjectID = ''org'', sub_StripeCustomerID = ''cus_1'', sub_Status = StatusPastDue,
      sub_Items = [\<lparr>si_StripeID = ''si_1'', si_PriceKey = ''shop.pack.monthly'', si_Quantity = 1\<rparr>,
                   \<lparr>si_StripeID = ''si_2'', si_PriceKey = ''shop.pro.monthly'', si_Quantity = 1\<rparr>],
      sub_CurrentPeriodStart = zero_time, sub_CurrentPeriodEnd = zero_time, sub_CancelAtPeriodEnd = False,
      sub_CanceledAt = None, sub_EndedAt = None, sub_TrialStart = None, sub_TrialEnd = None, sub_Metadata = [],
      sub_UpdatedAt = 0, sub_StripeUpdatedAt = 0, sub_LatestInvoice = None\<rparr>"

theorem snapshot_aggregates_witness:
  "\<exists>snap. SnapshotFor ms_repo demo_plan_spec 0 ''org'' [(''sub_1'', demo_plan_sub)] = Inr snap \<and>
    HasFeature snap ''sso'' \<and> IntLimit snap ''seats'' = (15, True)"
proof -
  have "sr_ListBySubject ms_repo ''org'' [(''sub_1'', demo_plan_sub)] = Inr [demo_plan_sub]" by code_simp
  note thm1 = snapshot_aggregates [OF this refl, of "''seats''" demo_plan_spec "''sso''" 0]
  have "plainName ''seats''" by code_simp
  moreover have "baseVals ''seats'' (planEntries demo_plan_spec [demo_plan_sub]) = [10]" by code_simp
  moreover have "addVals ''seats'' (planEntries demo_plan_spec [demo_plan_sub]) = [5]" by code_simp
  moreover have "list_ex (\<lambda>(k, v). k = ''feature.'' @ ''sso'' \<and> v \<noteq> '''' \<and> v \<noteq> ''false'' \<and> v \<noteq> ''0'')
    (planEntries demo_plan_spec [demo_plan_sub])" by code_simp
  ultimately show ?thesis using thm1 by (auto simp: MaxInt64_def)
qed

text \<open>A negative base overflows the guard's subtraction and reads as unlimited.\<close>

lemma negative_base_unlimited:
  assumes "mget False (sn_hasLimit s) name" and "mget 0 (sn_limits s) name = b" and "mget 0 (sn_adds s) name = 0"
    and "b < 0" and "- MaxInt64 \<le> b"
  shows "IntLimit s name = (MaxInt64, True)"
proof -
  have "wrap64 (MaxInt64 - b) = - 9223372036854775809 - b"
    using assms(4,5) by (subst wrap64_over) (simp_all add: MaxInt64_def)
  with assms show ?thesis by (simp add: IntLimit_def Let_def MaxInt64_def)
qed

end
