(* ===== verification/Invoices.thy ===== *)
theory Invoices
  imports Namespace_Stamp
begin

text \<open>
  Package \<open>invoices\<close>: the ledger of invoice numbers (\<open>number_repo.go\<close>, and the table behind
  \<open>repos/postgres/invoice_number_repo.go\<close>), the creation of drafts and the other operations (\<open>operations.go\<close>), and the
  audit report (\<open>audit.go\<close>). The Stripe adapter is a record of functions on its state. A counter is an unbounded integer:
  no repository issues \<open>2^63\<close> numbers. The orphan hook is a function on a state of its own; its errors only reach a log.
\<close>

subsection \<open>Number repositories\<close>

datatype numberError = ErrNumberNotIssued | ErrNumberAlreadyResolved | NumberInsertFailed

record 'r numberRepo =
  nr_Next :: "string \<Rightarrow> 'r \<Rightarrow> (numberError + string) \<times> 'r"
  nr_MarkUsed :: "string \<Rightarrow> string \<Rightarrow> 'r \<Rightarrow> numberError option \<times> 'r"
  nr_MarkVoided :: "string \<Rightarrow> string \<Rightarrow> 'r \<Rightarrow> numberError option \<times> 'r"

definition formatNumber :: "string \<Rightarrow> int \<Rightarrow> string" where
  "formatNumber prefix counter = prefix @ showPad6 counter"

subsubsection \<open>In memory\<close>

record nrStatus =
  ns_State :: string
  ns_StripeID :: string
  ns_Reason :: string

record MemoryNumberRepo =
  mn_seq :: "(string, int) gomap"
  mn_status :: "(string, nrStatus) gomap"

definition NewMemoryNumberRepo :: MemoryNumberRepo where
  "NewMemoryNumberRepo = \<lparr>mn_seq = [], mn_status = []\<rparr>"

definition mn_Next :: "string \<Rightarrow> MemoryNumberRepo \<Rightarrow> (numberError + string) \<times> MemoryNumberRepo" where
  "mn_Next prefix r =
     (let seq = mset_key prefix (mget 0 (mn_seq r) prefix + 1) (mn_seq r);
          number = formatNumber prefix (mget 0 seq prefix)
      in (Inr number,
          r\<lparr>mn_seq := seq,
            mn_status := mset_key number \<lparr>ns_State = ''issued'', ns_StripeID = '''', ns_Reason = ''''\<rparr> (mn_status r)\<rparr>))"

definition mn_MarkUsed :: "string \<Rightarrow> string \<Rightarrow> MemoryNumberRepo \<Rightarrow> numberError option \<times> MemoryNumberRepo" where
  "mn_MarkUsed number stripeID r =
     (case map_of (mn_status r) number of
        None \<Rightarrow> (Some ErrNumberNotIssued, r)
      | Some cur \<Rightarrow>
          if ns_State cur = ''issued'' then
            (None, r\<lparr>mn_status :=
               mset_key number \<lparr>ns_State = ''used'', ns_StripeID = stripeID, ns_Reason = ''''\<rparr> (mn_status r)\<rparr>)
          else if ns_State cur = ''used'' then
            (if ns_StripeID cur = stripeID then None else Some ErrNumberAlreadyResolved, r)
          else (Some ErrNumberAlreadyResolved, r))"

definition mn_MarkVoided :: "string \<Rightarrow> string \<Rightarrow> MemoryNumberRepo \<Rightarrow> numberError option \<times> MemoryNumberRepo" where
  "mn_MarkVoided number reason r =
     (case map_of (mn_status r) number of
        None \<Rightarrow> (Some ErrNumberNotIssued, r)
      | Some cur \<Rightarrow>
          if ns_State cur = ''issued'' then
            (None, r\<lparr>mn_status :=
               mset_key number \<lparr>ns_State = ''voided'', ns_StripeID = '''', ns_Reason = reason\<rparr> (mn_status r)\<rparr>)
          else if ns_State cur = ''voided'' then (None, r)
          else (Some ErrNumberAlreadyResolved, r))"

definition memory_numbers :: "MemoryNumberRepo numberRepo" where
  "memory_numbers = \<lparr>nr_Next = mn_Next, nr_MarkUsed = mn_MarkUsed, nr_MarkVoided = mn_MarkVoided\<rparr>"

subsubsection \<open>In Postgres\<close>

text \<open>
  The table as its rows. \<open>number\<close> is the primary key and \<open>(prefix, counter)\<close> is unique, so an insert that repeats
  either fails. \<open>now\<close> is the column default and \<open>time.Now\<close>. Connection errors are left out; the advisory lock makes
  \<open>Next\<close> atomic.
\<close>

record pgNumber =
  pn_number :: string
  pn_prefix :: string
  pn_counter :: int
  pn_state :: string
  pn_stripe_invoice_id :: "string option"
  pn_void_reason :: "string option"
  pn_issued_at :: time
  pn_resolved_at :: "time option"

definition maxCounter :: "string \<Rightarrow> pgNumber list \<Rightarrow> int option" where
  "maxCounter prefix t =
     (case map pn_counter (filter (\<lambda>row. pn_prefix row = prefix) t) of [] \<Rightarrow> None | c # cs \<Rightarrow> Some (fold max cs c))"

definition pn_Next ::
  "(string \<Rightarrow> int \<Rightarrow> string) \<Rightarrow> time \<Rightarrow> string \<Rightarrow> pgNumber list \<Rightarrow> (numberError + string) \<times> pgNumber list" where
  "pn_Next formatter now prefix t =
     (let next = (case maxCounter prefix t of None \<Rightarrow> 1 | Some c \<Rightarrow> c + 1);
          number = formatter prefix next
      in if list_ex (\<lambda>row. pn_number row = number \<or> pn_prefix row = prefix \<and> pn_counter row = next) t
         then (Inl NumberInsertFailed, t)
         else (Inr number,
               t @ [\<lparr>pn_number = number, pn_prefix = prefix, pn_counter = next, pn_state = ''issued'',
                     pn_stripe_invoice_id = None, pn_void_reason = None, pn_issued_at = now, pn_resolved_at = None\<rparr>]))"

definition update_number :: "string \<Rightarrow> (pgNumber \<Rightarrow> pgNumber) \<Rightarrow> pgNumber list \<Rightarrow> pgNumber list" where
  "update_number number f t = map (\<lambda>row. if pn_number row = number then f row else row) t"

definition pn_MarkUsed :: "time \<Rightarrow> string \<Rightarrow> string \<Rightarrow> pgNumber list \<Rightarrow> numberError option \<times> pgNumber list" where
  "pn_MarkUsed now number stripeID t =
     (case List.find (\<lambda>row. pn_number row = number) t of
        None \<Rightarrow> (Some ErrNumberNotIssued, t)
      | Some row \<Rightarrow>
          if pn_state row = ''issued'' then
            (None, update_number number
               (\<lambda>row. row\<lparr>pn_state := ''used'', pn_stripe_invoice_id := Some stripeID, pn_resolved_at := Some now\<rparr>) t)
          else if pn_state row = ''used'' then
            (if pn_stripe_invoice_id row = Some stripeID then None else Some ErrNumberAlreadyResolved, t)
          else if pn_state row = ''voided'' then (Some ErrNumberAlreadyResolved, t)
          else (None, t))"

definition pn_MarkVoided :: "time \<Rightarrow> string \<Rightarrow> string \<Rightarrow> pgNumber list \<Rightarrow> numberError option \<times> pgNumber list" where
  "pn_MarkVoided now number reason t =
     (case List.find (\<lambda>row. pn_number row = number) t of
        None \<Rightarrow> (Some ErrNumberNotIssued, t)
      | Some row \<Rightarrow>
          if pn_state row = ''issued'' then
            (None, update_number number
               (\<lambda>row. row\<lparr>pn_state := ''voided'', pn_void_reason := Some reason, pn_resolved_at := Some now\<rparr>) t)
          else if pn_state row = ''voided'' then (None, t)
          else if pn_state row = ''used'' then (Some ErrNumberAlreadyResolved, t)
          else (None, t))"

definition ListIssuedOlderThan :: "time \<Rightarrow> pgNumber list \<Rightarrow> (string \<times> string \<times> int \<times> time) list" where
  "ListIssuedOlderThan deadline t =
     map (\<lambda>row. (pn_number row, pn_prefix row, pn_counter row, pn_issued_at row))
       (sort_slice (\<lambda>a b. pn_prefix a < pn_prefix b \<or> pn_prefix a = pn_prefix b \<and> pn_counter a < pn_counter b)
         (filter (\<lambda>row. pn_state row = ''issued'' \<and> pn_issued_at row < deadline) t))"

definition pg_numbers :: "time \<Rightarrow> pgNumber list numberRepo" where
  "pg_numbers now = \<lparr>nr_Next = pn_Next formatNumber now, nr_MarkUsed = pn_MarkUsed now, nr_MarkVoided = pn_MarkVoided now\<rparr>"

subsection \<open>Invoices and the backend\<close>

record CreateLineItem =
  cli_Description :: string
  cli_Amount :: int
  cli_Currency :: string
  cli_Quantity :: int

record CreateInput =
  ci_Customer :: string
  ci_DueIn :: int
  ci_Memo :: string
  ci_LineItems :: "CreateLineItem list"
  ci_Metadata :: "(string, string) gomap"
  ci_NumberOverride :: string
  ci_NumberPrefix :: string

record Invoice =
  inv_StripeID :: string
  inv_Number :: string
  inv_Status :: string
  inv_Customer :: string
  inv_Currency :: string
  inv_AmountTotal :: int
  inv_AmountPaid :: int
  inv_DueDate :: "time option"
  inv_HostedInvoiceURL :: string
  inv_PDFURL :: string

record CreditNoteInput =
  cni_InvoiceID :: string
  cni_Lines :: "CreateLineItem list"
  cni_Reason :: string
  cni_Refund :: bool

record InvoicePageRequest =
  ipr_CustomerID :: string
  ipr_Status :: string
  ipr_Limit :: int
  ipr_StartingAfter :: string

record InvoicePage =
  ip_Invoices :: "Invoice list"
  ip_HasMore :: bool
  ip_LastID :: string

record 's invoiceBackend =
  ib_CreateDraft :: "CreateInput \<Rightarrow> 's \<Rightarrow> (string + Invoice) \<times> 's"
  ib_Finalize :: "string \<Rightarrow> 's \<Rightarrow> (string + Invoice) \<times> 's"
  ib_FinalizeAndSend :: "string \<Rightarrow> 's \<Rightarrow> (string + Invoice) \<times> 's"
  ib_Void :: "string \<Rightarrow> 's \<Rightarrow> string option \<times> 's"
  ib_MarkUncollectible :: "string \<Rightarrow> 's \<Rightarrow> string option \<times> 's"
  ib_IssueCreditNote :: "CreditNoteInput \<Rightarrow> 's \<Rightarrow> string option \<times> 's"
  ib_ListOverdue :: "'s \<Rightarrow> (string + Invoice list) \<times> 's"
  ib_ListByCustomer :: "string \<Rightarrow> string \<Rightarrow> int \<Rightarrow> 's \<Rightarrow> (string + Invoice list) \<times> 's"
  ib_ListByCustomerPage :: "InvoicePageRequest \<Rightarrow> 's \<Rightarrow> (string + InvoicePage) \<times> 's"

record OrphanInfo =
  oi_Number :: string
  oi_Reason :: string
  oi_StripeInvoiceID :: string
  oi_LedgerError :: numberError
  oi_StripeError :: "string option"

record ('s, 'r, 'h) invoiceOps =
  io_backend :: "'s invoiceBackend"
  io_numbers :: "'r numberRepo option"
  io_namespace :: string
  io_onOrphan :: "(OrphanInfo \<Rightarrow> 'h \<Rightarrow> 'h) option"

subsection \<open>Drafts\<close>

datatype invoiceError =
    InvoiceFieldInvalid string
  | NumberNextFailed numberError
  | InvoiceBackendFailed string
  | NumberNotRecorded Invoice string numberError

fun checkLineItems :: "CreateLineItem list \<Rightarrow> invoiceError option" where
  "checkLineItems [] = None"
| "checkLineItems (li # lis) =
     (if cli_Amount li \<le> 0 then Some (InvoiceFieldInvalid ''Amount'')
      else if cli_Currency li = '''' then Some (InvoiceFieldInvalid ''Currency'')
      else checkLineItems lis)"

definition checkDraft :: "CreateInput \<Rightarrow> invoiceError option" where
  "checkDraft inp =
     (if ci_Customer inp = '''' then Some (InvoiceFieldInvalid ''Customer'')
      else if ci_LineItems inp = [] then Some (InvoiceFieldInvalid ''LineItems'')
      else checkLineItems (ci_LineItems inp))"

text \<open>The allocation step: the input to send and the allocated number, empty when the repository was not asked.\<close>

definition allocateNumber ::
  "'r numberRepo option \<Rightarrow> CreateInput \<Rightarrow> 'r \<Rightarrow> (invoiceError + CreateInput \<times> string) \<times> 'r" where
  "allocateNumber numbers inp r =
     (case numbers of
        None \<Rightarrow> (Inr (inp, ''''), r)
      | Some repo \<Rightarrow>
          if ci_NumberOverride inp \<noteq> '''' then (Inr (inp, ''''), r)
          else (case nr_Next repo (ci_NumberPrefix inp) r of
             (Inl e, r') \<Rightarrow> (Inl (NumberNextFailed e), r')
           | (Inr num, r') \<Rightarrow> (Inr (inp\<lparr>ci_NumberOverride := num\<rparr>, num), r')))"

definition reportOrphan :: "(OrphanInfo \<Rightarrow> 'h \<Rightarrow> 'h) option \<Rightarrow> OrphanInfo \<Rightarrow> 'h \<Rightarrow> 'h" where
  "reportOrphan hook info h = (case hook of None \<Rightarrow> h | Some f \<Rightarrow> f info h)"

text \<open>The settlement step: what follows the backend's answer.\<close>

definition settleNumber ::
  "'r numberRepo option \<Rightarrow> (OrphanInfo \<Rightarrow> 'h \<Rightarrow> 'h) option \<Rightarrow> string \<Rightarrow> string + Invoice \<Rightarrow> 'r \<Rightarrow> 'h
    \<Rightarrow> (invoiceError + Invoice) \<times> 'r \<times> 'h" where
  "settleNumber numbers hook allocated answer r h =
     (case answer of
        Inl err \<Rightarrow>
          (case numbers of
             Some repo \<Rightarrow>
               if allocated = '''' then (Inl (InvoiceBackendFailed err), r, h)
               else (case nr_MarkVoided repo allocated (''stripe CreateDraft failed: '' @ err) r of
                  (None, r') \<Rightarrow> (Inl (InvoiceBackendFailed err), r', h)
                | (Some e, r') \<Rightarrow>
                    (Inl (InvoiceBackendFailed err), r',
                     reportOrphan hook \<lparr>oi_Number = allocated, oi_Reason = ''void_failed_after_stripe_error'',
                       oi_StripeInvoiceID = '''', oi_LedgerError = e, oi_StripeError = Some err\<rparr> h))
           | None \<Rightarrow> (Inl (InvoiceBackendFailed err), r, h))
      | Inr iv \<Rightarrow>
          (case numbers of
             Some repo \<Rightarrow>
               if allocated = '''' then (Inr iv, r, h)
               else (case nr_MarkUsed repo allocated (inv_StripeID iv) r of
                  (None, r') \<Rightarrow> (Inr iv, r', h)
                | (Some e, r') \<Rightarrow>
                    (Inl (NumberNotRecorded iv allocated e), r',
                     reportOrphan hook \<lparr>oi_Number = allocated, oi_Reason = ''used_failed_after_stripe_success'',
                       oi_StripeInvoiceID = inv_StripeID iv, oi_LedgerError = e, oi_StripeError = None\<rparr> h))
           | None \<Rightarrow> (Inr iv, r, h)))"

definition invoices_CreateDraft ::
  "('s, 'r, 'h) invoiceOps \<Rightarrow> CreateInput \<Rightarrow> 's \<Rightarrow> 'r \<Rightarrow> 'h \<Rightarrow> (invoiceError + Invoice) \<times> 's \<times> 'r \<times> 'h" where
  "invoices_CreateDraft ops inp s r h =
     (case checkDraft inp of
        Some e \<Rightarrow> (Inl e, s, r, h)
      | None \<Rightarrow>
          (case allocateNumber (io_numbers ops) inp r of
             (Inl e, r') \<Rightarrow> (Inl e, s, r', h)
           | (Inr (inp', allocated), r') \<Rightarrow>
               (let (answer, s') = ib_CreateDraft (io_backend ops)
                      (inp'\<lparr>ci_Metadata := StampNamespace (ci_Metadata inp') (io_namespace ops)\<rparr>) s;
                    (res, r'', h') = settleNumber (io_numbers ops) (io_onOrphan ops) allocated answer r' h
                in (res, s', r'', h'))))"

subsection \<open>The other operations\<close>

definition liftInvoice :: "(string + 'a) \<times> 's \<Rightarrow> (invoiceError + 'a) \<times> 's" where
  "liftInvoice res = (map_sum InvoiceBackendFailed (\<lambda>x. x) (fst res), snd res)"

definition liftUnit :: "string option \<times> 's \<Rightarrow> invoiceError option \<times> 's" where
  "liftUnit res = (map_option InvoiceBackendFailed (fst res), snd res)"

definition invoices_Finalize :: "('s, 'r, 'h) invoiceOps \<Rightarrow> string \<Rightarrow> 's \<Rightarrow> (invoiceError + Invoice) \<times> 's" where
  "invoices_Finalize ops iid s =
     (if iid = '''' then (Inl (InvoiceFieldInvalid ''invoiceID''), s)
      else liftInvoice (ib_Finalize (io_backend ops) iid s))"

definition invoices_FinalizeAndSend :: "('s, 'r, 'h) invoiceOps \<Rightarrow> string \<Rightarrow> 's \<Rightarrow> (invoiceError + Invoice) \<times> 's" where
  "invoices_FinalizeAndSend ops iid s =
     (if iid = '''' then (Inl (InvoiceFieldInvalid ''invoiceID''), s)
      else liftInvoice (ib_FinalizeAndSend (io_backend ops) iid s))"

definition invoices_Void :: "('s, 'r, 'h) invoiceOps \<Rightarrow> string \<Rightarrow> 's \<Rightarrow> invoiceError option \<times> 's" where
  "invoices_Void ops iid s =
     (if iid = '''' then (Some (InvoiceFieldInvalid ''invoiceID''), s) else liftUnit (ib_Void (io_backend ops) iid s))"

definition invoices_MarkUncollectible :: "('s, 'r, 'h) invoiceOps \<Rightarrow> string \<Rightarrow> 's \<Rightarrow> invoiceError option \<times> 's" where
  "invoices_MarkUncollectible ops iid s =
     (if iid = '''' then (Some (InvoiceFieldInvalid ''invoiceID''), s)
      else liftUnit (ib_MarkUncollectible (io_backend ops) iid s))"

definition invoices_IssueCreditNote :: "('s, 'r, 'h) invoiceOps \<Rightarrow> CreditNoteInput \<Rightarrow> 's \<Rightarrow> invoiceError option \<times> 's" where
  "invoices_IssueCreditNote ops inp s =
     (if cni_InvoiceID inp = '''' then (Some (InvoiceFieldInvalid ''InvoiceID''), s)
      else if cni_Lines inp = [] then (Some (InvoiceFieldInvalid ''Lines''), s)
      else liftUnit (ib_IssueCreditNote (io_backend ops) inp s))"

definition invoices_ListOverdue :: "('s, 'r, 'h) invoiceOps \<Rightarrow> 's \<Rightarrow> (invoiceError + Invoice list) \<times> 's" where
  "invoices_ListOverdue ops s = liftInvoice (ib_ListOverdue (io_backend ops) s)"

definition invoices_ListByCustomer ::
  "('s, 'r, 'h) invoiceOps \<Rightarrow> string \<Rightarrow> string \<Rightarrow> int \<Rightarrow> 's \<Rightarrow> (invoiceError + Invoice list) \<times> 's" where
  "invoices_ListByCustomer ops customer status limit s =
     (if customer = '''' then (Inl (InvoiceFieldInvalid ''customerID''), s)
      else liftInvoice (ib_ListByCustomer (io_backend ops) customer status limit s))"

definition invoices_ListByCustomerPage ::
  "('s, 'r, 'h) invoiceOps \<Rightarrow> InvoicePageRequest \<Rightarrow> 's \<Rightarrow> (invoiceError + InvoicePage) \<times> 's" where
  "invoices_ListByCustomerPage ops req s =
     (if ipr_CustomerID req = '''' then (Inl (InvoiceFieldInvalid ''CustomerID''), s)
      else liftInvoice (ib_ListByCustomerPage (io_backend ops) req s))"

subsection \<open>The audit report\<close>

record AuditEntry =
  ae_StripeID :: string
  ae_Number :: string
  ae_Type :: string
  ae_Status :: string
  ae_CustomerID :: string
  ae_CustomerEmail :: string
  ae_CustomerVATID :: string
  ae_CustomerCountry :: string
  ae_Currency :: string
  ae_AmountTotal :: int
  ae_AmountTax :: int
  ae_AmountPaid :: int
  ae_Created :: time
  ae_Finalized :: "time option"
  ae_Paid :: "time option"
  ae_Voided :: "time option"
  ae_HostedInvoiceURL :: string

record AuditReport =
  ar_Period :: "time \<times> time"
  ar_Entries :: "AuditEntry list"
  ar_TotalsTotal :: "(string, int) gomap"
  ar_TotalsTax :: "(string, int) gomap"
  ar_TotalsPaid :: "(string, int) gomap"

definition auditLess :: "AuditEntry \<Rightarrow> AuditEntry \<Rightarrow> bool" where
  "auditLess a b =
     (if ae_Created a = ae_Created b then ae_StripeID a < ae_StripeID b else ae_Created a < ae_Created b)"

definition addTotal :: "string \<Rightarrow> int \<Rightarrow> (string, int) gomap \<Rightarrow> (string, int) gomap" where
  "addTotal c n m = mset_key c (wrap64 (mget 0 m c + n)) m"

datatype auditError = AuditListerMissing | AuditPeriodReversed | AuditListFailed string

definition ExportAuditLog ::
  "(time \<times> time \<Rightarrow> string + AuditEntry list) option \<Rightarrow> time \<times> time \<Rightarrow> auditError + AuditReport" where
  "ExportAuditLog lister period =
     (case lister of
        None \<Rightarrow> Inl AuditListerMissing
      | Some list \<Rightarrow>
          if snd period < fst period then Inl AuditPeriodReversed
          else (case list period of
             Inl e \<Rightarrow> Inl (AuditListFailed e)
           | Inr listed \<Rightarrow>
               (let entries = sort_slice auditLess listed
                in Inr \<lparr>ar_Period = period, ar_Entries = entries,
                        ar_TotalsTotal = fold (\<lambda>e. addTotal (ae_Currency e) (ae_AmountTotal e)) entries [],
                        ar_TotalsTax = fold (\<lambda>e. addTotal (ae_Currency e) (ae_AmountTax e)) entries [],
                        ar_TotalsPaid = fold (\<lambda>e. addTotal (ae_Currency e) (ae_AmountPaid e)) entries []\<rparr>)))"

end
