(* ===== verification/Invoices_Proofs.thy ===== *)
theory Invoices_Proofs
  imports Invoices
begin

text \<open>
  The ledger of invoice numbers under concurrent drafts: the contract \<open>number_ledger\<close> of a number repository, the invariant
  it gives for every interleaving of drafts, answers and crashes, and its interpretation on the repository in memory and the
  one in Postgres.
\<close>

subsection \<open>Numbers\<close>

text \<open>A set of prefixes none of which is another one followed by digits.\<close>

definition clear_prefixes :: "string list \<Rightarrow> bool" where
  "clear_prefixes ps \<longleftrightarrow>
     list_all (\<lambda>p. list_all (\<lambda>q. p \<noteq> q \<longrightarrow> \<not> (HasPrefix q p \<and> list_all isDigit (drop (length p) q))) ps) ps"

lemma showPad6_digits: "list_all isDigit (showPad6 n)"
proof -
  have "isDigit (CHR ''0'')" by code_simp
  then show ?thesis using showNat_digits by (auto simp: showPad6_def Let_def list_all_iff)
qed

lemma formatNumber_inj:
  assumes "clear_prefixes ps" and "p \<in> set ps" and "q \<in> set ps" and "0 \<le> i" and "0 \<le> j"
    and eq: "formatNumber p i = formatNumber q j"
  shows "p = q \<and> i = j"
proof -
  have clear: "a = b" if "a \<in> set ps" "a @ us \<in> set ps" "b = a @ us" "list_all isDigit us" for a b us
  proof (rule ccontr)
    assume "a \<noteq> b"
    with assms(1) that have "\<not> (HasPrefix b a \<and> list_all isDigit (drop (length a) b))"
      unfolding clear_prefixes_def list_all_iff by blast
    with that show False by (simp add: HasPrefix_def)
  qed
  from eq have "p @ showPad6 i = q @ showPad6 j" by (simp add: formatNumber_def)
  then obtain us where "p = q @ us \<and> us @ showPad6 i = showPad6 j \<or> p @ us = q \<and> showPad6 i = us @ showPad6 j"
    by (auto simp: append_eq_append_conv2)
  then have "p = q"
  proof
    assume *: "p = q @ us \<and> us @ showPad6 i = showPad6 j"
    then have "list_all isDigit (us @ showPad6 i)" using showPad6_digits [of j] by simp
    then have "list_all isDigit us" by simp
    moreover from * have "p = q @ us" by simp
    ultimately show ?thesis using clear [of q us p] assms(2,3) by simp
  next
    assume *: "p @ us = q \<and> showPad6 i = us @ showPad6 j"
    then have "list_all isDigit (us @ showPad6 j)" using showPad6_digits [of i] by simp
    then have "list_all isDigit us" by simp
    moreover from * have "q = p @ us" by simp
    ultimately show ?thesis using clear [of p us q] assms(2,3) by simp
  qed
  with eq have "showPad6 i = showPad6 j" by (simp add: formatNumber_def)
  then have "i = j" by (rule showPad6_inj [OF assms(4,5)])
  with \<open>p = q\<close> show ?thesis by simp
qed

lemma formatNumber_nonempty [simp]: "formatNumber p i \<noteq> ''''"
proof -
  have "6 \<le> length (showPad6 i)" by (simp add: showPad6_def Let_def)
  then show ?thesis by (auto simp: formatNumber_def)
qed

datatype numberState = NIssued | NUsed string | NVoided string

subsection \<open>Concurrent drafts\<close>

text \<open>
  Drafts in flight: each has allocated a number and waits for Stripe. A step starts a draft, settles one with Stripe's
  answer, or loses one to a crash. \<open>dr_settled\<close> records each answer with what \<open>CreateDraft\<close> returned.
\<close>

record ('r, 'h) drafts =
  dr_repo :: 'r
  dr_hook :: 'h
  dr_pending :: "string list"
  dr_lost :: "string list"
  dr_settled :: "(string \<times> (string + Invoice) \<times> (invoiceError + Invoice)) list"

inductive draft_step ::
  "(time \<Rightarrow> 'r numberRepo) \<Rightarrow> (OrphanInfo \<Rightarrow> 'h \<Rightarrow> 'h) option \<Rightarrow> string list \<Rightarrow> ('r, 'h) drafts \<Rightarrow> ('r, 'h) drafts \<Rightarrow> bool"
  for repo hook ps where
  start: "ci_NumberPrefix inp \<in> set ps \<Longrightarrow> ci_NumberOverride inp = '''' \<Longrightarrow>
    allocateNumber (Some (repo now)) inp (dr_repo s) = (Inr (inp', n), r') \<Longrightarrow>
    draft_step repo hook ps s (s\<lparr>dr_repo := r', dr_pending := n # dr_pending s\<rparr>)"
| settle: "n \<in> set (dr_pending s) \<Longrightarrow>
    settleNumber (Some (repo now)) hook n answer (dr_repo s) (dr_hook s) = (res, r', h') \<Longrightarrow>
    draft_step repo hook ps s (s\<lparr>dr_repo := r', dr_hook := h', dr_pending := remove1 n (dr_pending s),
      dr_settled := (n, answer, res) # dr_settled s\<rparr>)"
| crash: "n \<in> set (dr_pending s) \<Longrightarrow>
    draft_step repo hook ps s (s\<lparr>dr_pending := remove1 n (dr_pending s), dr_lost := n # dr_lost s\<rparr>)"

text \<open>The state a number is in after Stripe's answer.\<close>

fun resolved :: "string + Invoice \<Rightarrow> numberState" where
  "resolved (Inl err) = NVoided (''stripe CreateDraft failed: '' @ err)"
| "resolved (Inr iv) = NUsed (inv_StripeID iv)"

definition answered :: "string + Invoice \<Rightarrow> invoiceError + Invoice" where
  "answered answer = map_sum InvoiceBackendFailed (\<lambda>x. x) answer"

text \<open>
  The book of the drafts agrees with the repository: every recorded number is pending, lost or settled, in one place only;
  a pending or lost one is still issued, a settled one carries Stripe's answer, and \<open>CreateDraft\<close> returned that answer.
\<close>

definition booked ::
  "(string \<rightharpoonup> numberState) \<Rightarrow> string list \<Rightarrow> string list \<Rightarrow> (string \<times> (string + Invoice) \<times> (invoiceError + Invoice)) list
    \<Rightarrow> bool" where
  "booked st pend lost settled \<longleftrightarrow>
     distinct (pend @ lost @ map fst settled) \<and> dom st = set (pend @ lost @ map fst settled) \<and>
     (\<forall>n \<in> set (pend @ lost). st n = Some NIssued) \<and>
     (\<forall>x \<in> set settled. st (fst x) = Some (resolved (fst (snd x))) \<and> snd (snd x) = answered (fst (snd x)))"

lemma booked_next:
  assumes "booked st pend lost settled" and "st n = None"
  shows "booked (st(n \<mapsto> NIssued)) (n # pend) lost settled"
proof -
  from assms have "n \<notin> set (pend @ lost @ map fst settled)" unfolding booked_def by blast
  with assms(1) show ?thesis by (auto simp: booked_def)
qed

lemma booked_settle:
  assumes "booked st pend lost settled" and "n \<in> set pend"
  shows "booked (st(n \<mapsto> resolved a)) (remove1 n pend) lost ((n, a, answered a) # settled)"
proof -
  from assms(2) obtain xs ys where x: "pend = xs @ n # ys" "n \<notin> set xs" by (auto dest: split_list_first)
  then have "remove1 n pend = xs @ ys" by (simp add: remove1_append)
  with x assms(1) show ?thesis by (auto simp: booked_def)
qed

lemma booked_crash:
  assumes "booked st pend lost settled" and "n \<in> set pend"
  shows "booked st (remove1 n pend) (n # lost) settled"
proof -
  from assms(2) obtain xs ys where x: "pend = xs @ n # ys" "n \<notin> set xs" by (auto dest: split_list_first)
  then have "remove1 n pend = xs @ ys" by (simp add: remove1_append)
  with x assms(1) show ?thesis by (auto simp: booked_def)
qed

subsection \<open>The contract of a number repository\<close>

locale number_ledger =
  fixes repo :: "time \<Rightarrow> 'r numberRepo"
    and invar :: "'r \<Rightarrow> bool"
    and count :: "'r \<Rightarrow> string \<Rightarrow> nat"
    and state :: "'r \<Rightarrow> string \<Rightarrow> numberState option"
  assumes Next: "invar r \<Longrightarrow> state r (formatNumber p (int (count r p) + 1)) = None \<Longrightarrow>
      \<exists>r'. nr_Next (repo now) p r = (Inr (formatNumber p (int (count r p) + 1)), r') \<and> invar r' \<and>
        count r' = (count r)(p := count r p + 1) \<and> state r' = (state r)(formatNumber p (int (count r p) + 1) \<mapsto> NIssued)"
    and MarkUsed: "invar r \<Longrightarrow> state r n = Some NIssued \<Longrightarrow>
      \<exists>r'. nr_MarkUsed (repo now) n sid r = (None, r') \<and> invar r' \<and> count r' = count r \<and> state r' = (state r)(n \<mapsto> NUsed sid)"
    and MarkVoided: "invar r \<Longrightarrow> state r n = Some NIssued \<Longrightarrow>
      \<exists>r'. nr_MarkVoided (repo now) n why r = (None, r') \<and> invar r' \<and> count r' = count r \<and> state r' = (state r)(n \<mapsto> NVoided why)"
begin

definition gapless :: "string list \<Rightarrow> 'r \<Rightarrow> bool" where
  "gapless ps r \<longleftrightarrow> dom (state r) = {formatNumber p (int i) | p i. p \<in> set ps \<and> 1 \<le> i \<and> i \<le> count r p}"

definition draft_inv :: "string list \<Rightarrow> ('r, 'h) drafts \<Rightarrow> bool" where
  "draft_inv ps s \<longleftrightarrow> invar (dr_repo s) \<and> gapless ps (dr_repo s) \<and>
     booked (state (dr_repo s)) (dr_pending s) (dr_lost s) (dr_settled s)"

lemma next_fresh:
  assumes "clear_prefixes ps" and "p \<in> set ps" and "gapless ps r"
  shows "state r (formatNumber p (int (count r p) + 1)) = None"
proof (rule ccontr)
  assume "state r (formatNumber p (int (count r p) + 1)) \<noteq> None"
  then obtain q i where qi: "q \<in> set ps" "i \<le> count r q" "formatNumber p (int (count r p) + 1) = formatNumber q (int i)"
    using assms(3) by (auto simp: gapless_def dom_def set_eq_iff)
  then have "p = q \<and> int (count r p) + 1 = int i" by (intro formatNumber_inj [OF assms(1,2)]) auto
  with qi(2) show False by auto
qed

lemma gapless_next:
  assumes "gapless ps r" and "p \<in> set ps" and "count r' = (count r)(p := count r p + 1)"
    and "state r' = (state r)(formatNumber p (int (count r p) + 1) \<mapsto> NIssued)"
  shows "gapless ps r'"
proof -
  have "{formatNumber q (int i) | q i. q \<in> set ps \<and> 1 \<le> i \<and> i \<le> count r' q} =
    insert (formatNumber p (int (count r p) + 1)) {formatNumber q (int i) | q i. q \<in> set ps \<and> 1 \<le> i \<and> i \<le> count r q}"
    (is "?A = insert ?x ?B")
  proof
    show "?A \<subseteq> insert ?x ?B"
    proof
      fix y assume "y \<in> ?A"
      then obtain q i where q: "y = formatNumber q (int i)" "q \<in> set ps" "1 \<le> i" "i \<le> count r' q" by blast
      show "y \<in> insert ?x ?B"
      proof (cases "q = p \<and> i = count r p + 1")
        case False
        with q assms(3) have "i \<le> count r q" by (auto split: if_splits)
        with q show ?thesis by blast
      qed (simp add: q(1) add.commute)
    qed
    have "?x = formatNumber p (int (count r p + 1)) \<and> p \<in> set ps \<and> 1 \<le> count r p + 1 \<and> count r p + 1 \<le> count r' p"
      using assms(2,3) by (simp add: add.commute)
    then have "?x \<in> ?A" by blast
    moreover have "count r q \<le> count r' q" for q using assms(3) by simp
    then have "?B \<subseteq> ?A" using le_trans by blast
    ultimately show "insert ?x ?B \<subseteq> ?A" by blast
  qed
  with assms(1,4) show ?thesis by (simp add: gapless_def)
qed

lemma next_ok:
  assumes "clear_prefixes ps" and "draft_inv ps s" and "p \<in> set ps"
  shows "\<exists>r'. nr_Next (repo now) p (dr_repo s) = (Inr (formatNumber p (int (count (dr_repo s) p) + 1)), r') \<and>
    draft_inv ps (s\<lparr>dr_repo := r', dr_pending := formatNumber p (int (count (dr_repo s) p) + 1) # dr_pending s\<rparr>)"
proof -
  let ?r = "dr_repo s" let ?n = "formatNumber p (int (count ?r p) + 1)"
  from assms(2) have g: "invar ?r" "gapless ps ?r" by (auto simp: draft_inv_def)
  have fresh: "state ?r ?n = None" by (rule next_fresh [OF assms(1,3) g(2)])
  from Next [OF g(1) fresh, of now] obtain r' where r': "nr_Next (repo now) p ?r = (Inr ?n, r')" "invar r'"
    "count r' = (count ?r)(p := count ?r p + 1)" "state r' = (state ?r)(?n \<mapsto> NIssued)" by blast
  have "draft_inv ps (s\<lparr>dr_repo := r', dr_pending := ?n # dr_pending s\<rparr>)"
    using assms(2) r'(2) gapless_next [OF g(2) assms(3) r'(3,4)] booked_next [of "state ?r"] fresh
    by (simp add: draft_inv_def r'(4))
  with r'(1) show ?thesis by blast
qed

lemma settle_ok:
  assumes "draft_inv ps s" and "n \<in> set (dr_pending s)"
  shows "\<exists>r'. settleNumber (Some (repo now)) hook n answer (dr_repo s) (dr_hook s) = (answered answer, r', dr_hook s) \<and>
    invar r' \<and> count r' = count (dr_repo s) \<and> state r' = (state (dr_repo s))(n \<mapsto> resolved answer)"
proof -
  from assms have g: "invar (dr_repo s)" "gapless ps (dr_repo s)" and st: "state (dr_repo s) n = Some NIssued"
    by (auto simp: draft_inv_def booked_def)
  from st have "n \<in> dom (state (dr_repo s))" by blast
  with g(2) obtain p i where "n = formatNumber p i" unfolding gapless_def by blast
  then have "n \<noteq> ''''" by simp
  show ?thesis
  proof (cases answer)
    case (Inl err)
    from MarkVoided [OF g(1) st, of now "''stripe CreateDraft failed: '' @ err"] \<open>n \<noteq> ''''\<close> Inl show ?thesis
      by (auto simp: settleNumber_def answered_def)
  next
    case (Inr iv)
    from MarkUsed [OF g(1) st, of now "inv_StripeID iv"] \<open>n \<noteq> ''''\<close> Inr show ?thesis
      by (auto simp: settleNumber_def answered_def)
  qed
qed

lemma step_inv:
  assumes "draft_step repo hook ps s s'" and "clear_prefixes ps" and "draft_inv ps s"
  shows "draft_inv ps s' \<and> dr_hook s' = dr_hook s"
  using assms(1)
proof cases
  case (start inp now inp' n r')
  from next_ok [OF assms(2,3) start(2), of now] start(3,4) show ?thesis
    by (auto simp: start(1) allocateNumber_def)
next
  case (settle n now answer res r' h')
  from settle_ok [OF assms(3) settle(2), of now hook answer] settle(3)
  have r: "res = answered answer" "h' = dr_hook s" "invar r'" "count r' = count (dr_repo s)"
    "state r' = (state (dr_repo s))(n \<mapsto> resolved answer)" by auto
  have n: "state (dr_repo s) n = Some NIssued" using assms(3) settle(2) by (auto simp: draft_inv_def booked_def)
  then have "dom (state r') = dom (state (dr_repo s))" using r(5) by auto
  then have "gapless ps r'" using assms(3) r(4) by (simp add: draft_inv_def gapless_def)
  then show ?thesis using assms(3) r booked_settle [OF _ settle(2), of "state (dr_repo s)"]
    by (simp add: draft_inv_def settle(1))
next
  case (crash n)
  then show ?thesis using assms(3) booked_crash [OF _ crash(2)] by (simp add: draft_inv_def)
qed

lemma drafts_inv:
  assumes "(draft_step repo hook ps)\<^sup>*\<^sup>* s s'" and "clear_prefixes ps" and "draft_inv ps s"
  shows "draft_inv ps s' \<and> dr_hook s' = dr_hook s"
  using assms(1)
proof induction
  case (step t u)
  then show ?case using step_inv [OF step(2) assms(2)] by simp
qed (simp add: assms(3))

end

subsection \<open>The two repositories keep the contract\<close>

definition mem_count :: "MemoryNumberRepo \<Rightarrow> string \<Rightarrow> nat" where
  "mem_count r p = nat (mget 0 (mn_seq r) p)"

definition status_state :: "nrStatus \<Rightarrow> numberState" where
  "status_state st =
     (if ns_State st = ''issued'' then NIssued
      else if ns_State st = ''used'' then NUsed (ns_StripeID st) else NVoided (ns_Reason st))"

definition mem_state :: "MemoryNumberRepo \<Rightarrow> string \<Rightarrow> numberState option" where
  "mem_state r n = map_option status_state (map_of (mn_status r) n)"

lemma status_state_issued [simp]: "status_state st = NIssued \<longleftrightarrow> ns_State st = ''issued''"
  by (simp add: status_state_def)

lemma mem_state_update [simp]:
  "mem_state (r\<lparr>mn_status := mset_key n st (mn_status r)\<rparr>) = (mem_state r)(n \<mapsto> status_state st)"
  by (simp add: mem_state_def fun_eq_iff update_conv)

definition mem_invar :: "MemoryNumberRepo \<Rightarrow> bool" where
  "mem_invar r \<longleftrightarrow> (\<forall>p. 0 \<le> mget 0 (mn_seq r) p)"

interpretation memory_ledger: number_ledger "\<lambda>now. memory_numbers" mem_invar mem_count mem_state
proof
  fix r p and now :: time
  assume "mem_invar r"
  then show "\<exists>r'. nr_Next memory_numbers p r = (Inr (formatNumber p (int (mem_count r p) + 1)), r') \<and> mem_invar r' \<and>
    mem_count r' = (mem_count r)(p := mem_count r p + 1) \<and>
    mem_state r' = (mem_state r)(formatNumber p (int (mem_count r p) + 1) \<mapsto> NIssued)"
    by (auto simp: memory_numbers_def mn_Next_def Let_def mem_invar_def mem_count_def mem_state_def nat_add_distrib fun_eq_iff)
next
  fix r n sid and now :: time
  assume "mem_invar r" "mem_state r n = Some NIssued"
  then show "\<exists>r'. nr_MarkUsed memory_numbers n sid r = (None, r') \<and> mem_invar r' \<and> mem_count r' = mem_count r \<and>
    mem_state r' = (mem_state r)(n \<mapsto> NUsed sid)"
    by (auto simp: memory_numbers_def mn_MarkUsed_def mem_invar_def mem_count_def fun_eq_iff mem_state_def [of r n])
      (auto simp: status_state_def mem_state_def update_conv)
next
  fix r n why and now :: time
  assume "mem_invar r" "mem_state r n = Some NIssued"
  then show "\<exists>r'. nr_MarkVoided memory_numbers n why r = (None, r') \<and> mem_invar r' \<and> mem_count r' = mem_count r \<and>
    mem_state r' = (mem_state r)(n \<mapsto> NVoided why)"
    by (auto simp: memory_numbers_def mn_MarkVoided_def mem_invar_def mem_count_def fun_eq_iff mem_state_def [of r n])
      (auto simp: status_state_def mem_state_def update_conv)
qed

definition pg_count :: "pgNumber list \<Rightarrow> string \<Rightarrow> nat" where
  "pg_count t p = nat (case maxCounter p t of None \<Rightarrow> 0 | Some c \<Rightarrow> c)"

definition row_state :: "pgNumber \<Rightarrow> numberState" where
  "row_state row =
     (if pn_state row = ''issued'' then NIssued
      else if pn_state row = ''used'' then NUsed (case pn_stripe_invoice_id row of None \<Rightarrow> '''' | Some i \<Rightarrow> i)
      else NVoided (case pn_void_reason row of None \<Rightarrow> '''' | Some w \<Rightarrow> w))"

definition pg_state :: "pgNumber list \<Rightarrow> string \<Rightarrow> numberState option" where
  "pg_state t n = map_option row_state (List.find (\<lambda>row. pn_number row = n) t)"

definition pg_invar :: "pgNumber list \<Rightarrow> bool" where
  "pg_invar t \<longleftrightarrow> distinct (map pn_number t) \<and> (\<forall>row \<in> set t. 1 \<le> pn_counter row)"

lemma fold_max_ge: "(c::int) \<le> fold max cs c \<and> (\<forall>x \<in> set cs. x \<le> fold max cs c)"
  by (induction cs arbitrary: c) (auto simp: max_def, (smt (verit))+)

lemma maxCounter_bound: "row \<in> set t \<Longrightarrow> pn_prefix row = p \<Longrightarrow> \<exists>c. maxCounter p t = Some c \<and> pn_counter row \<le> c"
proof -
  assume "row \<in> set t" "pn_prefix row = p"
  then have "pn_counter row \<in> set (map pn_counter (filter (\<lambda>row. pn_prefix row = p) t))" by auto
  then show ?thesis
    using fold_max_ge unfolding maxCounter_def
    by (cases "map pn_counter (filter (\<lambda>row. pn_prefix row = p) t)") (simp, simp only: list.case, fastforce)
qed

lemma maxCounter_append:
  "maxCounter p (t @ [row]) =
     (if pn_prefix row = p then Some (case maxCounter p t of None \<Rightarrow> pn_counter row | Some c \<Rightarrow> max (pn_counter row) c)
      else maxCounter p t)"
  by (auto simp: maxCounter_def split: list.split)

lemma maxCounter_pos:
  assumes "pg_invar t" and "maxCounter p t = Some c"
  shows "1 \<le> c"
proof -
  from assms(2) have "filter (\<lambda>row. pn_prefix row = p) t \<noteq> []" by (auto simp: maxCounter_def)
  then obtain row where "row \<in> set t" "pn_prefix row = p" by (auto simp: filter_empty_conv)
  with maxCounter_bound [of row t p] assms show ?thesis by (force simp: pg_invar_def)
qed

lemma maxCounter_update [simp]:
  assumes "\<And>row. pn_prefix (f row) = pn_prefix row" and "\<And>row. pn_counter (f row) = pn_counter row"
  shows "maxCounter p (update_number n f t) = maxCounter p t"
proof -
  have "map pn_counter (filter (\<lambda>row. pn_prefix row = p) (update_number n f t)) =
    map pn_counter (filter (\<lambda>row. pn_prefix row = p) t)"
    by (induction t) (auto simp: update_number_def assms)
  then show ?thesis by (simp add: maxCounter_def)
qed

lemma find_update:
  assumes "\<And>row. pn_number (f row) = pn_number row"
  shows "List.find (\<lambda>row. pn_number row = m) (update_number n f t) =
    map_option (\<lambda>row. if m = n then f row else row) (List.find (\<lambda>row. pn_number row = m) t)"
  by (induction t) (auto simp: update_number_def assms)

lemma update_invar:
  assumes "pg_invar t" and "\<And>row. pn_number (f row) = pn_number row" and "\<And>row. pn_counter (f row) = pn_counter row"
  shows "pg_invar (update_number n f t)"
proof -
  have "map pn_number (update_number n f t) = map pn_number t" by (induction t) (auto simp: update_number_def assms)
  moreover have "\<forall>row \<in> set (update_number n f t). 1 \<le> pn_counter row"
    using assms by (auto simp: pg_invar_def update_number_def)
  ultimately show ?thesis using assms(1) by (simp add: pg_invar_def)
qed

lemma pg_settle:
  assumes "pg_state t n = Some NIssued" and "\<And>row. pn_number (f row) = pn_number row" and "\<And>row. row_state (f row) = v"
  shows "\<exists>row. List.find (\<lambda>row. pn_number row = n) t = Some row \<and> pn_state row = ''issued''"
    and "pg_state (update_number n f t) = (pg_state t)(n \<mapsto> v)"
proof -
  from assms(1) show row: "\<exists>row. List.find (\<lambda>row. pn_number row = n) t = Some row \<and> pn_state row = ''issued''"
    by (auto simp: pg_state_def row_state_def split: if_splits)
  then show "pg_state (update_number n f t) = (pg_state t)(n \<mapsto> v)"
    by (auto simp: pg_state_def find_update assms(2,3) fun_eq_iff option.map_comp comp_def)
qed

lemma pg_append:
  assumes "pg_invar t" and "pg_state t (pn_number row) = None" and "pn_state row = ''issued''"
    and "pn_counter row = int (pg_count t (pn_prefix row)) + 1"
  shows "pg_invar (t @ [row]) \<and> pg_count (t @ [row]) = (pg_count t)(pn_prefix row := pg_count t (pn_prefix row) + 1) \<and>
    pg_state (t @ [row]) = (pg_state t)(pn_number row \<mapsto> NIssued)"
proof (intro conjI)
  show "pg_invar (t @ [row])" using assms by (auto simp: pg_invar_def pg_state_def find_None_iff)
  have "pg_count (t @ [row]) p = (if p = pn_prefix row then pg_count t p + 1 else pg_count t p)" for p
    using assms(4) by (auto simp: pg_count_def maxCounter_append max_def nat_add_distrib split: option.split)
  then show "pg_count (t @ [row]) = (pg_count t)(pn_prefix row := pg_count t (pn_prefix row) + 1)" by auto
  have "List.find P (t @ [row]) = (case List.find P t of None \<Rightarrow> if P row then Some row else None | Some r \<Rightarrow> Some r)" for P
    by (induction t) auto
  then show "pg_state (t @ [row]) = (pg_state t)(pn_number row \<mapsto> NIssued)"
    using assms(2,3) by (auto simp: pg_state_def fun_eq_iff row_state_def split: option.split)
qed

interpretation pg_ledger: number_ledger pg_numbers pg_invar pg_count pg_state
proof
  fix r p now
  assume inv: "pg_invar r" and fresh: "pg_state r (formatNumber p (int (pg_count r p) + 1)) = None"
  let ?next = "case maxCounter p r of None \<Rightarrow> 1 | Some c \<Rightarrow> c + 1"
  have next_eq: "?next = int (pg_count r p) + 1"
    using maxCounter_pos [OF inv, of p] by (cases "maxCounter p r") (force simp: pg_count_def)+
  have "\<not> list_ex (\<lambda>row. pn_number row = formatNumber p ?next \<or> pn_prefix row = p \<and> pn_counter row = ?next) r"
  proof
    assume "list_ex (\<lambda>row. pn_number row = formatNumber p ?next \<or> pn_prefix row = p \<and> pn_counter row = ?next) r"
    then obtain row where "row \<in> set r" "pn_number row = formatNumber p ?next \<or> pn_prefix row = p \<and> pn_counter row = ?next"
      by (auto simp: list_ex_iff)
    then show False using fresh maxCounter_bound [of row r p]
      by (auto simp: next_eq [symmetric] pg_state_def find_None_iff)
  qed
  then show "\<exists>r'. nr_Next (pg_numbers now) p r = (Inr (formatNumber p (int (pg_count r p) + 1)), r') \<and> pg_invar r' \<and>
    pg_count r' = (pg_count r)(p := pg_count r p + 1) \<and>
    pg_state r' = (pg_state r)(formatNumber p (int (pg_count r p) + 1) \<mapsto> NIssued)"
    using inv fresh
    by (auto simp: pg_numbers_def pn_Next_def Let_def next_eq pg_append)
next
  fix r n sid now
  assume "pg_invar r" "pg_state r n = Some NIssued"
  then show "\<exists>r'. nr_MarkUsed (pg_numbers now) n sid r = (None, r') \<and> pg_invar r' \<and> pg_count r' = pg_count r \<and>
    pg_state r' = (pg_state r)(n \<mapsto> NUsed sid)"
    using pg_settle [of r n "\<lambda>row. row\<lparr>pn_state := ''used'', pn_stripe_invoice_id := Some sid, pn_resolved_at := Some now\<rparr>"
      "NUsed sid"]
    by (auto simp: pg_numbers_def pn_MarkUsed_def update_invar pg_count_def fun_eq_iff row_state_def)
next
  fix r n why now
  assume "pg_invar r" "pg_state r n = Some NIssued"
  then show "\<exists>r'. nr_MarkVoided (pg_numbers now) n why r = (None, r') \<and> pg_invar r' \<and> pg_count r' = pg_count r \<and>
    pg_state r' = (pg_state r)(n \<mapsto> NVoided why)"
    using pg_settle [of r n "\<lambda>row. row\<lparr>pn_state := ''voided'', pn_void_reason := Some why, pn_resolved_at := Some now\<rparr>"
      "NVoided why"]
    by (auto simp: pg_numbers_def pn_MarkVoided_def update_invar pg_count_def fun_eq_iff row_state_def)
qed

subsection \<open>Gapless numbering\<close>

definition newDrafts :: "'r \<Rightarrow> 'h \<Rightarrow> ('r, 'h) drafts" where
  "newDrafts r h = \<lparr>dr_repo = r, dr_hook = h, dr_pending = [], dr_lost = [], dr_settled = []\<rparr>"

text \<open>\<open>CreateDraft\<close> that gets past its checks is a start followed by a settlement.\<close>

lemma CreateDraft_steps:
  assumes "io_numbers ops = Some (repo now)" and "checkDraft inp = None" and "ci_NumberOverride inp = ''''"
    and "ci_NumberPrefix inp \<in> set ps" and "nr_Next (repo now) (ci_NumberPrefix inp) r = (Inr n, r1)" and "n \<noteq> ''''"
    and run: "invoices_CreateDraft ops inp st r h = (res, st', r', h')"
  shows "\<exists>answer. (draft_step repo (io_onOrphan ops) ps)\<^sup>*\<^sup>* (newDrafts r h)
    \<lparr>dr_repo = r', dr_hook = h', dr_pending = [], dr_lost = [], dr_settled = [(n, answer, res)]\<rparr>"
proof -
  let ?alloc = "inp\<lparr>ci_NumberOverride := n\<rparr>"
  have alloc: "allocateNumber (Some (repo now)) inp r = (Inr (?alloc, n), r1)"
    using assms by (simp add: allocateNumber_def)
  let ?answer = "fst (ib_CreateDraft (io_backend ops) (?alloc\<lparr>ci_Metadata := StampNamespace (ci_Metadata inp) (io_namespace ops)\<rparr>) st)"
  have settled: "settleNumber (Some (repo now)) (io_onOrphan ops) n ?answer r1 h = (res, r', h')"
    using run assms(1,2) alloc by (auto simp: invoices_CreateDraft_def split_beta prod_eq_iff)
  have "draft_step repo (io_onOrphan ops) ps (newDrafts r h) (newDrafts r h\<lparr>dr_repo := r1, dr_pending := [n]\<rparr>)"
    using draft_step.start [OF assms(4,3), of repo now "newDrafts r h"] alloc by (simp add: newDrafts_def)
  moreover have "draft_step repo (io_onOrphan ops) ps (newDrafts r h\<lparr>dr_repo := r1, dr_pending := [n]\<rparr>)
    \<lparr>dr_repo = r', dr_hook = h', dr_pending = [], dr_lost = [], dr_settled = [(n, ?answer, res)]\<rparr>"
    using draft_step.settle [of n "newDrafts r h\<lparr>dr_repo := r1, dr_pending := [n]\<rparr>" repo now] settled
    by (simp add: newDrafts_def)
  ultimately show ?thesis by (meson converse_rtranclp_into_rtranclp rtranclp.rtrancl_refl)
qed

lemma new_memory_inv: "memory_ledger.draft_inv ps (newDrafts NewMemoryNumberRepo h)"
proof -
  have "mem_state NewMemoryNumberRepo = Map.empty" by (simp add: mem_state_def NewMemoryNumberRepo_def fun_eq_iff)
  then show ?thesis
    by (simp add: memory_ledger.draft_inv_def memory_ledger.gapless_def newDrafts_def mem_invar_def mem_count_def booked_def)
       (simp add: NewMemoryNumberRepo_def)
qed

lemma new_pg_inv: "pg_ledger.draft_inv ps (newDrafts [] h)"
proof -
  have "pg_state [] = Map.empty" by (simp add: pg_state_def fun_eq_iff)
  then show ?thesis
    by (simp add: pg_ledger.draft_inv_def pg_ledger.gapless_def newDrafts_def pg_invar_def pg_count_def maxCounter_def booked_def)
qed

text \<open>C26: however many drafts run at once, in whatever order Stripe answers them, and whichever of them are lost to a crash,
  the numbers a ledger holds under each prefix are exactly 1 to the last one issued: none is missing and none is issued
  twice. Every draft still waiting (or lost) has a number that is still issued, for reconciliation to find; every draft
  Stripe answered has its number used with that invoice or voided with that error, and \<open>CreateDraft\<close> returned the answer.
  No call to the ledger fails and no orphan is reported. This holds of the repository in memory and of the one in Postgres,
  for prefixes none of which is another followed by digits.\<close>
theorem invoice_numbers_gapless:
  assumes "clear_prefixes ps"
    and "(draft_step (\<lambda>now. memory_numbers) hook ps)\<^sup>*\<^sup>* (newDrafts NewMemoryNumberRepo h) s"
    and "(draft_step pg_numbers hook' ps)\<^sup>*\<^sup>* (newDrafts [] h') t"
  shows "(dom (mem_state (dr_repo s)) = {formatNumber p (int i) | p i. p \<in> set ps \<and> 1 \<le> i \<and> i \<le> mem_count (dr_repo s) p} \<and>
      booked (mem_state (dr_repo s)) (dr_pending s) (dr_lost s) (dr_settled s) \<and> dr_hook s = h) \<and>
    (dom (pg_state (dr_repo t)) = {formatNumber p (int i) | p i. p \<in> set ps \<and> 1 \<le> i \<and> i \<le> pg_count (dr_repo t) p} \<and>
      booked (pg_state (dr_repo t)) (dr_pending t) (dr_lost t) (dr_settled t) \<and> dr_hook t = h' \<and>
      (\<forall>p \<in> set ps. \<forall>now. \<exists>t'. pn_Next formatNumber now p (dr_repo t) =
        (Inr (formatNumber p (int (pg_count (dr_repo t) p) + 1)), t')))"
proof -
  have m: "memory_ledger.draft_inv ps s \<and> dr_hook s = h"
    using memory_ledger.drafts_inv [OF assms(2,1) new_memory_inv] by (simp add: newDrafts_def)
  have p: "pg_ledger.draft_inv ps t \<and> dr_hook t = h'"
    using pg_ledger.drafts_inv [OF assms(3,1) new_pg_inv] by (simp add: newDrafts_def)
  have "\<forall>p \<in> set ps. \<forall>now. \<exists>t'. pn_Next formatNumber now p (dr_repo t) =
      (Inr (formatNumber p (int (pg_count (dr_repo t) p) + 1)), t')"
    using pg_ledger.next_ok [OF assms(1)] p by (fastforce simp: pg_numbers_def)
  with m p show ?thesis
    by (simp add: memory_ledger.draft_inv_def memory_ledger.gapless_def pg_ledger.draft_inv_def pg_ledger.gapless_def)
qed

text \<open>
  Without that condition on the prefixes the numbers collide: after a million invoices under \<open>A\<close>, its next number is the
  first one of \<open>A1\<close>.
\<close>

lemma prefix_collision: "formatNumber ''A'' 1000001 = formatNumber ''A1'' 1"
proof -
  have "char_of (48 :: nat) = CHR ''0''" "char_of (49 :: nat) = CHR ''1''" "replicate 5 CHR ''0'' = ''00000''" by code_simp+
  then show ?thesis by (simp add: formatNumber_def showPad6_def showNat.simps digit_def)
qed

lemma one_draft:
  assumes "nr_Next (repo now) ''INV-'' r = (Inr n, r')"
  shows "(draft_step repo hook [''INV-''])\<^sup>*\<^sup>* (newDrafts r h) (newDrafts r h\<lparr>dr_repo := r', dr_pending := [n]\<rparr>)"
proof -
  let ?inp = "\<lparr>ci_Customer = ''cus_1'', ci_DueIn = 0, ci_Memo = '''', ci_LineItems = [], ci_Metadata = [],
    ci_NumberOverride = '''', ci_NumberPrefix = ''INV-''\<rparr>"
  have "draft_step repo hook [''INV-''] (newDrafts r h) (newDrafts r h\<lparr>dr_repo := r', dr_pending := [n]\<rparr>)"
    using draft_step.start [of ?inp "[''INV-'']" repo now "newDrafts r h" "?inp\<lparr>ci_NumberOverride := n\<rparr>" n r' hook] assms
    by (simp add: allocateNumber_def newDrafts_def)
  then show ?thesis by (rule r_into_rtranclp)
qed

theorem invoice_numbers_gapless_witness:
  "mem_state (snd (mn_Next ''INV-'' NewMemoryNumberRepo)) ''INV-000001'' = Some NIssued \<and>
   pg_state (snd (pn_Next formatNumber 0 ''INV-'' [])) ''INV-000001'' = Some NIssued \<and>
   (\<exists>t'. pn_Next formatNumber 0 ''INV-'' (snd (pn_Next formatNumber 0 ''INV-'' [])) = (Inr ''INV-000002'', t'))"
proof -
  let ?m = "snd (mn_Next ''INV-'' NewMemoryNumberRepo)" and ?t = "snd (pn_Next formatNumber 0 ''INV-'' [])"
  have one: "formatNumber ''INV-'' 1 = ''INV-000001''" and two: "formatNumber ''INV-'' 2 = ''INV-000002''" by code_simp+
  have m: "(draft_step (\<lambda>now. memory_numbers) None [''INV-''])\<^sup>*\<^sup>* (newDrafts NewMemoryNumberRepo ())
      (newDrafts NewMemoryNumberRepo ()\<lparr>dr_repo := ?m, dr_pending := [''INV-000001'']\<rparr>)"
    by (rule one_draft [of _ 0]) (simp add: memory_numbers_def mn_Next_def NewMemoryNumberRepo_def mget_def one Let_def)
  have p: "(draft_step pg_numbers None [''INV-''])\<^sup>*\<^sup>* (newDrafts [] ()) (newDrafts [] ()\<lparr>dr_repo := ?t, dr_pending := [''INV-000001'']\<rparr>)"
    by (rule one_draft [of _ 0]) (simp add: pg_numbers_def pn_Next_def maxCounter_def one Let_def)
  have clear: "clear_prefixes [''INV-'']" by code_simp
  have count: "pg_count ?t ''INV-'' = 1" by code_simp
  from invoice_numbers_gapless [OF clear m p]
  have b: "booked (mem_state ?m) [''INV-000001''] [] []" "booked (pg_state ?t) [''INV-000001''] [] []"
    and nxt: "\<exists>t'. pn_Next formatNumber 0 ''INV-'' ?t = (Inr (formatNumber ''INV-'' (int (pg_count ?t ''INV-'') + 1)), t')"
    by (simp_all add: newDrafts_def)
  from b have "mem_state ?m ''INV-000001'' = Some NIssued" "pg_state ?t ''INV-000001'' = Some NIssued"
    by (simp_all add: booked_def)
  with nxt show ?thesis by (simp add: count two)
qed

end
