(* ===== verification/Idempotency.thy ===== *)
theory Idempotency
  imports Go_Prelude
begin

text \<open>
  The helpers of package \<open>stripeapi\<close> that every outbound write goes through: the derivation of idempotency keys
  (\<open>idempotency.go\<close>), the checks on metadata and currencies (\<open>metadata_validate.go\<close>) and the reading of Stripe's
  timestamps (\<open>time.go\<close>). SHA-256 is the parameter \<open>sha256\<close>, a function on byte strings. The state of a running hash is the
  bytes written to it. A context carries at most the caller's key.
\<close>

subsection \<open>The bytes that are hashed\<close>

text \<open>\<open>binary.BigEndian.PutUint64\<close>.\<close>

definition PutUint64 :: "nat \<Rightarrow> string" where
  "PutUint64 n = map (\<lambda>i. char_of ((n div 256 ^ i) mod 256)) [7, 6, 5, 4, 3, 2, 1, 0]"

definition writeLenPrefixed :: "string \<Rightarrow> string \<Rightarrow> string" where
  "writeLenPrefixed h s = h @ PutUint64 (length s mod 2 ^ 64) @ s"

text \<open>\<open>hex.EncodeToString\<close>.\<close>

definition hexChar :: "nat \<Rightarrow> char" where
  "hexChar n = char_of (if n < 10 then 48 + n else 87 + n)"

definition EncodeToString :: "string \<Rightarrow> string" where
  "EncodeToString bs = concat (map (\<lambda>b. [hexChar (of_char b div 16), hexChar (of_char b mod 16)]) bs)"

text \<open>The bytes \<open>deriveKey\<close> writes to the hash.\<close>

definition keyBytes :: "string \<Rightarrow> string list \<Rightarrow> string" where
  "keyBytes op inputs = fold (\<lambda>s h. writeLenPrefixed h s) inputs (writeLenPrefixed '''' op)"

definition deriveKey :: "(string \<Rightarrow> string) \<Rightarrow> string \<Rightarrow> string list \<Rightarrow> string" where
  "deriveKey sha256 op inputs = op @ '':'' @ EncodeToString (take 16 (sha256 (keyBytes op inputs)))"

text \<open>\<open>WithIdempotencyKey\<close>, on a context that is the caller's key, if any.\<close>

definition WithIdempotencyKey :: "string option \<Rightarrow> string \<Rightarrow> string option" where
  "WithIdempotencyKey ctx key = Some key"

definition callerKey :: "string option \<Rightarrow> string" where
  "callerKey ctx = (case ctx of None \<Rightarrow> '''' | Some k \<Rightarrow> k)"

definition ApplyIdempotencyKey :: "(string \<Rightarrow> string) \<Rightarrow> string option \<Rightarrow> string \<Rightarrow> string list \<Rightarrow> string" where
  "ApplyIdempotencyKey sha256 ctx op inputs =
     (let k = callerKey ctx in if k \<noteq> '''' then k else deriveKey sha256 op inputs)"

subsection \<open>Canonical inputs\<close>

definition mapKeys :: "(string, string) gomap \<Rightarrow> string list" where
  "mapKeys m = sort_slice (<) (map fst m)"

fun joinNul :: "string list \<Rightarrow> string" where
  "joinNul [] = ''''"
| "joinNul [s] = s"
| "joinNul (s # t # ts) = s @ CHR 0x00 # joinNul (t # ts)"

definition CanonicalMap :: "(string, string) gomap \<Rightarrow> string" where
  "CanonicalMap m = (if m = [] then '''' else joinNul (map (\<lambda>k. k @ ''='' @ mstr m k) (mapKeys m)))"

definition CanonicalStrings :: "string list \<Rightarrow> string" where
  "CanonicalStrings xs = joinNul xs"

definition CanonicalInt64 :: "int \<Rightarrow> string" where
  "CanonicalInt64 n = showInt n"

text \<open>The bytes \<open>ContentHash\<close> writes to the hash.\<close>

definition contentBytes :: "string \<Rightarrow> (string, string) gomap \<Rightarrow> string" where
  "contentBytes op fields =
     fold (\<lambda>k h. writeLenPrefixed (writeLenPrefixed h k) (mstr fields k)) (mapKeys fields) (writeLenPrefixed '''' op)"

definition ContentHash :: "(string \<Rightarrow> string) \<Rightarrow> string \<Rightarrow> (string, string) gomap \<Rightarrow> string" where
  "ContentHash sha256 op fields = EncodeToString (take 16 (sha256 (contentBytes op fields)))"

subsection \<open>Metadata and currencies\<close>

text \<open>
  \<open>utf8.RuneCountInString\<close>: the width of the first rune, where a byte that starts no valid encoding counts as a rune of
  its own.
\<close>

definition inRange :: "nat \<Rightarrow> nat \<Rightarrow> char \<Rightarrow> bool" where
  "inRange lo hi c \<longleftrightarrow> lo \<le> (of_char c :: nat) \<and> (of_char c :: nat) \<le> hi"

definition runeWidth :: "char \<Rightarrow> string \<Rightarrow> nat" where
  "runeWidth c rest =
     (let b = (of_char c :: nat);
          lo = (if b = 0xE0 then 0xA0 else if b = 0xF0 then 0x90 else 0x80);
          hi = (if b = 0xED then 0x9F else if b = 0xF4 then 0x8F else 0xBF);
          size = (if b < 0xC2 then 1 else if b \<le> 0xDF then 2 else if b \<le> 0xEF then 3 else if b \<le> 0xF4 then 4 else 1)
      in if size = 1 then 1
         else if length rest < size - 1 then 1
         else if inRange lo hi (hd rest) \<and> list_all (inRange 0x80 0xBF) (take (size - 2) (tl rest)) then size else 1)"

lemma runeWidth_pos: "0 < runeWidth c rest"
  by (simp add: runeWidth_def Let_def)

function RuneCountInString :: "string \<Rightarrow> nat" where
  "RuneCountInString [] = 0"
| "RuneCountInString (c # rest) = 1 + RuneCountInString (drop (runeWidth c rest - 1) rest)"
  by pat_completeness auto
termination by (relation "measure length") (auto simp: less_Suc_eq_le)

datatype metadataError = TooManyKeys nat | KeyTooLong string | ValueTooLong string nat

fun checkEntries :: "(string, string) gomap \<Rightarrow> metadataError option" where
  "checkEntries [] = None"
| "checkEntries ((k, v) # m) =
     (if 40 < RuneCountInString k then Some (KeyTooLong k)
      else if 500 < RuneCountInString v then Some (ValueTooLong k (RuneCountInString v))
      else checkEntries m)"

definition ValidateMetadata :: "(string, string) gomap \<Rightarrow> metadataError option" where
  "ValidateMetadata m = (if 50 < length m then Some (TooManyKeys (length m)) else checkEntries m)"

definition lowerByte :: "char \<Rightarrow> char" where
  "lowerByte c = (if 65 \<le> (of_char c :: nat) \<and> (of_char c :: nat) \<le> 90 then char_of ((of_char c :: nat) + 32) else c)"

definition NormalizeCurrency :: "string \<Rightarrow> string" where
  "NormalizeCurrency currency = map lowerByte currency"

subsection \<open>Timestamps\<close>

definition UnixToTime :: "int \<Rightarrow> time" where
  "UnixToTime u = (if u = 0 then zero_time else unixTime u)"

definition UnixToTimePtr :: "int \<Rightarrow> time option" where
  "UnixToTimePtr u = (if u = 0 then None else Some (unixTime u))"

end
