(* ===== verification/Metering.thy ===== *)
theory Metering
  imports Idempotency
begin

text \<open>
  Package \<open>metering\<close>: the repository of usage events in memory (\<open>repo.go\<close>) and in Postgres
  (\<open>repos/postgres/usage_repo.go\<close>), the facade (\<open>operations.go\<close>) and the push of aggregates to Stripe (\<open>reconcile.go\<close>).
  \<open>now\<close> is \<open>time.Now\<close>; \<open>micro\<close> is what the driver makes of an instant it stores. The customer repository is a function from
  subjects, the Stripe adapter a function on its state. \<open>fmtTime\<close> is what \<open>%v\<close> makes of an instant. The nil checks of
  \<open>ReconcileToStripe\<close> and \<open>RecordDirect\<close> and the log line on a skipped subject are left out.
\<close>

subsection \<open>Events and repositories\<close>

record MeterEvent =
  me_SubjectID :: string
  me_Metric :: string
  me_Quantity :: int
  me_OccurredAt :: time
  me_RequestID :: string
  me_Metadata :: "(string, string) gomap"

record Period =
  pe_Start :: time
  pe_End :: time

record UsageAggregate =
  ua_SubjectID :: string
  ua_Metric :: string
  ua_Total :: int
  ua_Period :: Period

datatype usageError = UsageFieldInvalid string | UsageQuantityCheck | UsageTotalOutOfRange int

definition inPeriod :: "time \<Rightarrow> time \<Rightarrow> MeterEvent \<Rightarrow> bool" where
  "inPeriod start end e \<longleftrightarrow> \<not> (me_OccurredAt e < start \<or> \<not> me_OccurredAt e < end)"

subsubsection \<open>In memory\<close>

record usageMemory =
  um_rows :: "MeterEvent list"
  um_events :: "(string, bool) gomap"

definition NewMemoryUsage :: usageMemory where
  "NewMemoryUsage = \<lparr>um_rows = [], um_events = []\<rparr>"

definition usageKey :: "MeterEvent \<Rightarrow> string" where
  "usageKey evt = me_SubjectID evt @ ''|'' @ me_Metric evt @ ''|'' @ me_RequestID evt"

definition um_RecordUsage :: "time \<Rightarrow> MeterEvent \<Rightarrow> usageMemory \<Rightarrow> usageError option \<times> usageMemory" where
  "um_RecordUsage now evt r =
     (let key = usageKey evt
      in if me_RequestID evt \<noteq> '''' \<and> mget False (um_events r) key then (None, r)
         else
           let evt' = (if me_OccurredAt evt = zero_time then evt\<lparr>me_OccurredAt := now\<rparr> else evt);
               r1 = r\<lparr>um_rows := um_rows r @ [evt']\<rparr>
           in (None, if me_RequestID evt' \<noteq> '''' then r1\<lparr>um_events := mset_key key True (um_events r1)\<rparr> else r1))"

text \<open>The totals of the aggregation loop, then the sorted slice.\<close>

fun usageTotals :: "string \<Rightarrow> Period \<Rightarrow> MeterEvent list \<Rightarrow> (string, int) gomap \<Rightarrow> (string, int) gomap" where
  "usageTotals metric period [] totals = totals"
| "usageTotals metric period (e # es) totals =
     (if me_Metric e \<noteq> metric then usageTotals metric period es totals
      else if \<not> inPeriod (pe_Start period) (pe_End period) e then usageTotals metric period es totals
      else usageTotals metric period es
        (mset_key (me_SubjectID e) (wrap64 (mget 0 totals (me_SubjectID e) + me_Quantity e)) totals))"

definition aggregateOf :: "string \<Rightarrow> Period \<Rightarrow> string \<times> int \<Rightarrow> UsageAggregate" where
  "aggregateOf metric period x = \<lparr>ua_SubjectID = fst x, ua_Metric = metric, ua_Total = snd x, ua_Period = period\<rparr>"

definition um_AggregateByPeriod :: "string \<Rightarrow> Period \<Rightarrow> usageMemory \<Rightarrow> usageError + UsageAggregate list" where
  "um_AggregateByPeriod metric period r =
     Inr (sort_slice (\<lambda>a b. ua_SubjectID a < ua_SubjectID b)
       (map (aggregateOf metric period) (usageTotals metric period (um_rows r) [])))"

fun queryTotal :: "string \<Rightarrow> string \<Rightarrow> time \<Rightarrow> time \<Rightarrow> MeterEvent list \<Rightarrow> int \<Rightarrow> int" where
  "queryTotal subject metric start end [] tot = tot"
| "queryTotal subject metric start end (e # es) tot =
     (if me_SubjectID e \<noteq> subject \<or> me_Metric e \<noteq> metric then queryTotal subject metric start end es tot
      else if \<not> inPeriod start end e then queryTotal subject metric start end es tot
      else queryTotal subject metric start end es (wrap64 (tot + me_Quantity e)))"

definition um_QueryByPeriod :: "string \<Rightarrow> string \<Rightarrow> time \<Rightarrow> time \<Rightarrow> usageMemory \<Rightarrow> usageError + int" where
  "um_QueryByPeriod subject metric start end r = Inr (queryTotal subject metric start end (um_rows r) 0)"

definition um_PruneOlderThan :: "time \<Rightarrow> usageMemory \<Rightarrow> (usageError + nat) \<times> usageMemory" where
  "um_PruneOlderThan before r =
     (Inr (length (filter (\<lambda>e. me_OccurredAt e < before) (um_rows r))),
      r\<lparr>um_rows := filter (\<lambda>e. \<not> me_OccurredAt e < before) (um_rows r)\<rparr>)"

subsubsection \<open>In Postgres\<close>

text \<open>The table as its rows, with the check on the quantity and the unique triple. Connection errors are left out.\<close>

definition pu_conflict :: "MeterEvent \<Rightarrow> MeterEvent \<Rightarrow> bool" where
  "pu_conflict evt row \<longleftrightarrow> me_SubjectID row = me_SubjectID evt \<and> me_Metric row = me_Metric evt \<and> me_RequestID row = me_RequestID evt"

definition pu_RecordUsage :: "(time \<Rightarrow> time) \<Rightarrow> time \<Rightarrow> MeterEvent \<Rightarrow> MeterEvent list \<Rightarrow> usageError option \<times> MeterEvent list" where
  "pu_RecordUsage micro now evt t =
     (let occurredAt = (if me_OccurredAt evt = zero_time then now else me_OccurredAt evt)
      in if \<not> 0 < me_Quantity evt then (Some UsageQuantityCheck, t)
         else if list_ex (pu_conflict evt) t then (None, t)
         else (None, t @ [evt\<lparr>me_OccurredAt := micro occurredAt\<rparr>]))"

definition pu_total :: "MeterEvent list \<Rightarrow> usageError + int" where
  "pu_total rows =
     (let tot = sum_list (map me_Quantity rows) in if in64 tot then Inr tot else Inl (UsageTotalOutOfRange tot))"

definition pu_rows :: "string \<Rightarrow> Period \<Rightarrow> MeterEvent list \<Rightarrow> MeterEvent list" where
  "pu_rows metric period t = filter (\<lambda>e. me_Metric e = metric \<and> inPeriod (pe_Start period) (pe_End period) e) t"

fun pu_groups :: "string \<Rightarrow> Period \<Rightarrow> MeterEvent list \<Rightarrow> string list \<Rightarrow> usageError + UsageAggregate list" where
  "pu_groups metric period rows [] = Inr []"
| "pu_groups metric period rows (s # ss) =
     (case pu_total (filter (\<lambda>e. me_SubjectID e = s) rows) of
        Inl e \<Rightarrow> Inl e
      | Inr tot \<Rightarrow> map_sum (\<lambda>e. e) (Cons (aggregateOf metric period (s, tot))) (pu_groups metric period rows ss))"

definition pu_AggregateByPeriod :: "string \<Rightarrow> Period \<Rightarrow> MeterEvent list \<Rightarrow> usageError + UsageAggregate list" where
  "pu_AggregateByPeriod metric period t =
     (let rows = pu_rows metric period t in pu_groups metric period rows (sort_slice (<) (remdups (map me_SubjectID rows))))"

definition pu_QueryByPeriod :: "string \<Rightarrow> string \<Rightarrow> time \<Rightarrow> time \<Rightarrow> MeterEvent list \<Rightarrow> usageError + int" where
  "pu_QueryByPeriod subject metric start end t =
     pu_total (filter (\<lambda>e. me_SubjectID e = subject \<and> me_Metric e = metric \<and> inPeriod start end e) t)"

definition pu_PruneOlderThan :: "time \<Rightarrow> MeterEvent list \<Rightarrow> (usageError + nat) \<times> MeterEvent list" where
  "pu_PruneOlderThan before t =
     (Inr (length (filter (\<lambda>e. me_OccurredAt e < before) t)), filter (\<lambda>e. \<not> me_OccurredAt e < before) t)"

subsubsection \<open>The interface and the facade\<close>

record 'r usageRepo =
  ur_RecordUsage :: "time \<Rightarrow> MeterEvent \<Rightarrow> 'r \<Rightarrow> usageError option \<times> 'r"
  ur_AggregateByPeriod :: "string \<Rightarrow> Period \<Rightarrow> 'r \<Rightarrow> usageError + UsageAggregate list"
  ur_QueryByPeriod :: "string \<Rightarrow> string \<Rightarrow> time \<Rightarrow> time \<Rightarrow> 'r \<Rightarrow> usageError + int"
  ur_PruneOlderThan :: "time \<Rightarrow> 'r \<Rightarrow> (usageError + nat) \<times> 'r"

definition memory_usage :: "usageMemory usageRepo" where
  "memory_usage =
     \<lparr>ur_RecordUsage = um_RecordUsage, ur_AggregateByPeriod = um_AggregateByPeriod,
      ur_QueryByPeriod = um_QueryByPeriod, ur_PruneOlderThan = um_PruneOlderThan\<rparr>"

definition pg_usage :: "(time \<Rightarrow> time) \<Rightarrow> MeterEvent list usageRepo" where
  "pg_usage micro =
     \<lparr>ur_RecordUsage = pu_RecordUsage micro, ur_AggregateByPeriod = pu_AggregateByPeriod,
      ur_QueryByPeriod = pu_QueryByPeriod, ur_PruneOlderThan = pu_PruneOlderThan\<rparr>"

definition metering_Record :: "'r usageRepo \<Rightarrow> time \<Rightarrow> MeterEvent \<Rightarrow> 'r \<Rightarrow> usageError option \<times> 'r" where
  "metering_Record repo now evt r =
     (if me_SubjectID evt = '''' then (Some (UsageFieldInvalid ''SubjectID''), r)
      else if me_Metric evt = '''' then (Some (UsageFieldInvalid ''Metric''), r)
      else if me_Quantity evt \<le> 0 then (Some (UsageFieldInvalid ''Quantity''), r)
      else if me_RequestID evt = '''' then (Some (UsageFieldInvalid ''RequestID''), r)
      else ur_RecordUsage repo now evt r)"

definition metering_QueryByPeriod :: "'r usageRepo \<Rightarrow> string \<Rightarrow> string \<Rightarrow> time \<Rightarrow> time \<Rightarrow> 'r \<Rightarrow> usageError + int" where
  "metering_QueryByPeriod repo subject metric start end r = ur_QueryByPeriod repo subject metric start end r"

definition metering_PruneOldEvents :: "'r usageRepo \<Rightarrow> time \<Rightarrow> 'r \<Rightarrow> (usageError + nat) \<times> 'r" where
  "metering_PruneOldEvents repo before r = ur_PruneOlderThan repo before r"

subsection \<open>Pushing to Stripe\<close>

record PushEvent =
  ps_EventName :: string
  ps_StripeCustomer :: string
  ps_Value :: int
  ps_Identifier :: string
  ps_TimestampUnix :: int

record ReconcileStats =
  rs_Aggregates :: nat
  rs_Pushed :: nat

datatype reconcileError =
    ReconcileAggregateFailed usageError
  | ReconcileCustomerFailed string
  | ReconcileNoCustomer string
  | ReconcilePushFailed string

text \<open>\<open>t.Unix()\<close>.\<close>

definition Unix :: "time \<Rightarrow> int" where
  "Unix t = t div 1000000000"

definition reconcileIdentifier :: "(string \<Rightarrow> string) \<Rightarrow> string \<Rightarrow> string \<Rightarrow> string \<Rightarrow> string \<Rightarrow> string" where
  "reconcileIdentifier sha256 namespace metric subject periodStart =
     EncodeToString (sha256 (namespace @ ''|'' @ metric @ ''|'' @ subject @ ''|'' @ periodStart))"

fun pushEvents ::
  "(string \<Rightarrow> string) \<Rightarrow> (time \<Rightarrow> string) \<Rightarrow> (string \<Rightarrow> string + string option) \<Rightarrow> string \<Rightarrow> string \<Rightarrow> Period \<Rightarrow>
    UsageAggregate list \<Rightarrow> string + PushEvent list" where
  "pushEvents sha256 fmtTime customers namespace metric period [] = Inr []"
| "pushEvents sha256 fmtTime customers namespace metric period (a # as) =
     (case customers (ua_SubjectID a) of
        Inl e \<Rightarrow> Inl e
      | Inr None \<Rightarrow> pushEvents sha256 fmtTime customers namespace metric period as
      | Inr (Some custID) \<Rightarrow>
          map_sum (\<lambda>e. e) (Cons
            \<lparr>ps_EventName = namespace @ ''.'' @ metric, ps_StripeCustomer = custID, ps_Value = ua_Total a,
             ps_Identifier = reconcileIdentifier sha256 namespace metric (ua_SubjectID a) (fmtTime (pe_Start period)),
             ps_TimestampUnix = Unix (pe_End period)\<rparr>)
            (pushEvents sha256 fmtTime customers namespace metric period as))"

definition ReconcileToStripe ::
  "(string \<Rightarrow> string) \<Rightarrow> (time \<Rightarrow> string) \<Rightarrow> 'r usageRepo \<Rightarrow> (PushEvent list \<Rightarrow> 's \<Rightarrow> string option \<times> 's) \<Rightarrow>
    (string \<Rightarrow> string + string option) \<Rightarrow> string \<Rightarrow> string \<Rightarrow> Period \<Rightarrow> 'r \<Rightarrow> 's \<Rightarrow> (ReconcileStats \<times> reconcileError option) \<times> 's" where
  "ReconcileToStripe sha256 fmtTime repo PushBatch customers namespace metric period r s =
     (case ur_AggregateByPeriod repo metric period r of
        Inl e \<Rightarrow> ((\<lparr>rs_Aggregates = 0, rs_Pushed = 0\<rparr>, Some (ReconcileAggregateFailed e)), s)
      | Inr aggs \<Rightarrow>
          (let stats = \<lparr>rs_Aggregates = length aggs, rs_Pushed = 0\<rparr>
           in if aggs = [] then ((stats, None), s)
              else (case pushEvents sha256 fmtTime customers namespace metric period aggs of
                 Inl e \<Rightarrow> ((stats, Some (ReconcileCustomerFailed e)), s)
               | Inr events \<Rightarrow>
                   if events = [] then ((stats, None), s)
                   else (case PushBatch events s of
                      (Some e, s') \<Rightarrow> ((stats, Some (ReconcilePushFailed e)), s')
                    | (None, s') \<Rightarrow> ((stats\<lparr>rs_Pushed := length events\<rparr>, None), s')))))"

definition RecordDirect ::
  "(string \<Rightarrow> string) \<Rightarrow> (PushEvent list \<Rightarrow> 's \<Rightarrow> string option \<times> 's) \<Rightarrow> (string \<Rightarrow> string + string option) \<Rightarrow>
    string \<Rightarrow> string \<Rightarrow> string \<Rightarrow> int \<Rightarrow> string \<Rightarrow> 's \<Rightarrow> reconcileError option \<times> 's" where
  "RecordDirect sha256 PushBatch customers namespace metric subj value requestID s =
     (case customers subj of
        Inl e \<Rightarrow> (Some (ReconcileCustomerFailed e), s)
      | Inr None \<Rightarrow> (Some (ReconcileNoCustomer subj), s)
      | Inr (Some custID) \<Rightarrow>
          (let identifier = (if requestID = '''' then reconcileIdentifier sha256 namespace metric subj ''{}'' else requestID);
               (err, s') = PushBatch [\<lparr>ps_EventName = namespace @ ''.'' @ metric, ps_StripeCustomer = custID, ps_Value = value,
                 ps_Identifier = identifier, ps_TimestampUnix = 0\<rparr>] s
           in (map_option ReconcilePushFailed err, s')))"

end
