(* ===== verification/Idempotency_Proofs.thy ===== *)
theory Idempotency_Proofs
  imports Idempotency
begin

text \<open>
  What an idempotency key identifies: the bytes behind a key determine the operation and its inputs, the hash of a set of
  fields does not depend on the order of the map, and where the joined inputs of \<open>CanonicalMap\<close> do collide.
\<close>

subsection \<open>Length prefixes\<close>

lemma length_PutUint64 [simp]: "length (PutUint64 n) = 8"
  by (simp add: PutUint64_def)

text \<open>Reading the eight bytes back.\<close>

definition readUint64 :: "string \<Rightarrow> nat" where
  "readUint64 s = fold (\<lambda>c n. n * 256 + of_char c) s 0"

lemma readUint64_PutUint64: "n < 2 ^ 64 \<Longrightarrow> readUint64 (PutUint64 n) = n"
proof -
  assume n: "n < 2 ^ 64"
  have step: "n div (256 * k) * 256 + n div k mod 256 = n div k" for k :: nat
    by (metis div_mult2_eq div_mult_mod_eq mult.commute)
  have "n div 72057594037927936 < 256" using n by (simp add: less_mult_imp_div_less)
  then have top: "n div 72057594037927936 mod 256 = n div 72057594037927936" by simp
  show ?thesis
    using step [of 281474976710656] step [of 1099511627776] step [of 4294967296] step [of 16777216] step [of 65536]
      step [of 256] step [of 1]
    by (simp add: readUint64_def PutUint64_def top)
qed

lemma PutUint64_inj: "m < 2 ^ 64 \<Longrightarrow> n < 2 ^ 64 \<Longrightarrow> PutUint64 m = PutUint64 n \<Longrightarrow> m = n"
  by (metis readUint64_PutUint64)

definition frame :: "string \<Rightarrow> string" where
  "frame s = PutUint64 (length s mod 2 ^ 64) @ s"

definition short :: "string \<Rightarrow> bool" where
  "short s \<longleftrightarrow> length s < 2 ^ 64"

lemma frame_append_inj:
  assumes "short s" and "short t" and "frame s @ u = frame t @ v"
  shows "s = t \<and> u = v"
proof -
  from assms(3) have "PutUint64 (length s mod 2 ^ 64) = PutUint64 (length t mod 2 ^ 64)" and rest: "s @ u = t @ v"
    by (auto simp: frame_def append_eq_append_conv)
  then have "length s = length t" using assms(1,2) PutUint64_inj by (simp add: short_def)
  with rest show ?thesis by simp
qed

lemma frame_nonempty [simp]: "frame s \<noteq> []"
  by (metis append_is_Nil_conv frame_def length_PutUint64 list.size(3) zero_neq_numeral)

lemma frames_inj:
  "list_all short xs \<Longrightarrow> list_all short ys \<Longrightarrow> concat (map frame xs) = concat (map frame ys) \<Longrightarrow> xs = ys"
proof (induction xs arbitrary: ys)
  case Nil
  then show ?case by (cases ys) simp_all
next
  case (Cons x xs)
  from Cons.prems(3) have "ys \<noteq> []" by auto
  then obtain y ys' where ys: "ys = y # ys'" by (cases ys) auto
  with Cons.prems have "x = y \<and> concat (map frame xs) = concat (map frame ys')" by (intro frame_append_inj) auto
  with Cons ys show ?case by simp
qed

lemma keyBytes_frames: "keyBytes op inputs = concat (map frame (op # inputs))"
proof -
  have "fold (\<lambda>s h. writeLenPrefixed h s) xs h = h @ concat (map frame xs)" for xs h
    by (induction xs arbitrary: h) (simp_all add: writeLenPrefixed_def frame_def)
  then show ?thesis by (simp add: keyBytes_def writeLenPrefixed_def frame_def)
qed

definition flatPairs :: "string list \<Rightarrow> (string, string) gomap \<Rightarrow> string list" where
  "flatPairs ks m = concat (map (\<lambda>k. [k, mstr m k]) ks)"

lemma contentBytes_frames: "contentBytes op m = concat (map frame (op # flatPairs (mapKeys m) m))"
proof -
  have "fold (\<lambda>k h. writeLenPrefixed (writeLenPrefixed h k) (mstr m k)) ks h = h @ concat (map frame (flatPairs ks m))" for ks h
    by (induction ks arbitrary: h) (simp_all add: writeLenPrefixed_def frame_def flatPairs_def)
  then show ?thesis by (simp add: contentBytes_def writeLenPrefixed_def frame_def)
qed

lemma keyBytes_inj:
  assumes "list_all short (op # xs)" and "list_all short (op' # ys)"
  shows "keyBytes op xs = keyBytes op' ys \<longleftrightarrow> op = op' \<and> xs = ys"
  using frames_inj [OF assms] by (auto simp: keyBytes_frames)

subsection \<open>Sorted keys\<close>

lemma sorted_mapKeys: "sorted (mapKeys m)"
proof -
  have "slice_order (\<lambda>x y. (x :: string) < y)" using slice_order_key [of "\<lambda>x. x"] by simp
  then have "sorted_wrt (\<lambda>a b. \<not> b < a) (mapKeys m)" unfolding mapKeys_def by (rule slice_order.sorted_sort_slice)
  then show ?thesis by (simp add: not_less)
qed

lemma set_mapKeys [simp]: "set (mapKeys m) = dom (map_of m)"
  by (simp add: mapKeys_def dom_map_of_conv_image_fst)

lemma distinct_mapKeys: "distinct (map fst m) \<Longrightarrow> distinct (mapKeys m)"
  using distinct_sort_slice [of "\<lambda>x. x" "(<)" "map fst m"] by (simp add: mapKeys_def)

lemma mapKeys_cong: "distinct (map fst m) \<Longrightarrow> distinct (map fst m') \<Longrightarrow> map_of m = map_of m' \<Longrightarrow> mapKeys m = mapKeys m'"
  by (intro sorted_distinct_set_unique) (simp_all add: sorted_mapKeys distinct_mapKeys)

lemma flatPairs_inj:
  "flatPairs ks m = flatPairs ks' m' \<longleftrightarrow> ks = ks' \<and> (\<forall>k \<in> set ks. mstr m k = mstr m' k)"
proof (induction ks arbitrary: ks')
  case Nil
  then show ?case by (cases ks') (simp_all add: flatPairs_def)
next
  case (Cons k ks)
  then show ?case by (cases ks') (auto simp: flatPairs_def)
qed

lemma contentBytes_inj:
  assumes "distinct (map fst m)" and "distinct (map fst m')"
    and "list_all short (op # map fst m @ map snd m)" and "list_all short (op' # map fst m' @ map snd m')"
  shows "contentBytes op m = contentBytes op' m' \<longleftrightarrow> op = op' \<and> map_of m = map_of m'"
proof -
  have short_flat: "list_all short (flatPairs (mapKeys x) x)" if "list_all short (map fst x @ map snd x)" for x
  proof -
    have "short k \<and> short (mstr x k)" if "k \<in> set (mapKeys x)" for k
      using \<open>list_all short (map fst x @ map snd x)\<close> \<open>k \<in> set (mapKeys x)\<close>
      by (force simp: list_all_iff mget_def dest: map_of_SomeD)
    then show ?thesis by (auto simp: flatPairs_def list_all_iff)
  qed
  have "contentBytes op m = contentBytes op' m' \<longleftrightarrow> op # flatPairs (mapKeys m) m = op' # flatPairs (mapKeys m') m'"
    using frames_inj [of "op # flatPairs (mapKeys m) m" "op' # flatPairs (mapKeys m') m'"] assms(3,4) short_flat
    by (auto simp: contentBytes_frames)
  also have "\<dots> \<longleftrightarrow> op = op' \<and> map_of m = map_of m'"
  proof -
    have "map_of m = map_of m'" if k: "mapKeys m = mapKeys m'" and v: "\<forall>k \<in> set (mapKeys m). mstr m k = mstr m' k"
    proof
      fix x
      from k have "dom (map_of m) = dom (map_of m')" by (metis set_mapKeys)
      then show "map_of m x = map_of m' x" using v by (cases "map_of m x"; cases "map_of m' x") (force simp: mget_def)+
    qed
    moreover have "mapKeys m = mapKeys m' \<and> (\<forall>k \<in> set (mapKeys m). mstr m k = mstr m' k)" if "map_of m = map_of m'"
      using mapKeys_cong [OF assms(1,2) that] that by (simp add: mget_def)
    ultimately show ?thesis unfolding list.inject flatPairs_inj by blast
  qed
  finally show ?thesis .
qed

subsection \<open>Hexadecimal digits\<close>

lemma hexChar_inj: "a < 16 \<Longrightarrow> b < 16 \<Longrightarrow> hexChar a = hexChar b \<Longrightarrow> a = b"
  by (auto simp: hexChar_def split: if_splits dest!: arg_cong [where f = "of_char :: char \<Rightarrow> nat"])

lemma length_EncodeToString [simp]: "length (EncodeToString bs) = 2 * length bs"
  by (induction bs) (simp_all add: EncodeToString_def)

lemma EncodeToString_inj: "EncodeToString bs = EncodeToString cs \<Longrightarrow> bs = cs"
proof (induction bs arbitrary: cs)
  case Nil
  then show ?case by (cases cs) (simp_all add: EncodeToString_def)
next
  case (Cons b bs)
  then obtain c cs' where cs: "cs = c # cs'" by (cases cs) (auto simp: EncodeToString_def)
  have lt: "of_char x < (256 :: nat)" for x :: char by simp
  from Cons.prems cs have "hexChar (of_char b div 16) = hexChar (of_char c div 16)"
    "hexChar (of_char b mod 16) = hexChar (of_char c mod 16)" and rest: "EncodeToString bs = EncodeToString cs'"
    by (simp_all add: EncodeToString_def)
  then have "of_char b div 16 = (of_char c div 16 :: nat)" "of_char b mod 16 = (of_char c mod 16 :: nat)"
    using lt by (auto intro!: hexChar_inj simp: less_mult_imp_div_less)
  then have "of_char b = (of_char c :: nat)" by (metis div_mult_mod_eq)
  with Cons.IH [OF rest] cs show ?case by simp
qed

subsection \<open>Keys\<close>

lemma deriveKey_eq:
  assumes "\<forall>m. length (sha m) = 32"
  shows "deriveKey sha op xs = deriveKey sha op' ys \<longleftrightarrow>
    op = op' \<and> take 16 (sha (keyBytes op xs)) = take 16 (sha (keyBytes op' ys))"
proof -
  have "length ('':'' @ EncodeToString (take 16 (sha (keyBytes a zs)))) = 33" for a zs using assms by simp
  then have "deriveKey sha op xs = deriveKey sha op' ys \<longleftrightarrow>
    op = op' \<and> EncodeToString (take 16 (sha (keyBytes op xs))) = EncodeToString (take 16 (sha (keyBytes op' ys)))"
    unfolding deriveKey_def by (subst append_eq_append_conv) auto
  then show ?thesis using EncodeToString_inj by auto
qed

text \<open>C27: an idempotency key stands for one operation on one list of inputs. The bytes that are hashed are equal exactly when
  the operation and all inputs are, whatever bytes the inputs contain, so that two derived keys are equal only for the
  same intent or on a collision of SHA-256 cut to 128 bits; a key of the caller replaces the derived one. The bytes
  behind the hash of a set of fields are equal exactly when the operation and the map are, in whatever order the map is
  iterated, and the canonical rendering of a map does not depend on that order either.\<close>
theorem idempotency_key_identifies_intent:
  assumes "\<forall>m. length (sha m) = 32"
    and "list_all short (op # xs)" and "list_all short (op' # ys)"
    and "distinct (map fst m)" and "distinct (map fst m')"
    and "list_all short (op # map fst m @ map snd m)" and "list_all short (op' # map fst m' @ map snd m')"
  shows "(keyBytes op xs = keyBytes op' ys \<longleftrightarrow> op = op' \<and> xs = ys) \<and>
    (ApplyIdempotencyKey sha None op xs = ApplyIdempotencyKey sha None op' ys \<longleftrightarrow>
      op = op' \<and> take 16 (sha (keyBytes op xs)) = take 16 (sha (keyBytes op' ys))) \<and>
    (k \<noteq> '''' \<longrightarrow> ApplyIdempotencyKey sha (WithIdempotencyKey ctx k) op xs = k) \<and>
    ApplyIdempotencyKey sha (WithIdempotencyKey ctx '''') op xs = deriveKey sha op xs \<and>
    (contentBytes op m = contentBytes op' m' \<longleftrightarrow> op = op' \<and> map_of m = map_of m') \<and>
    (ContentHash sha op m = ContentHash sha op' m' \<longleftrightarrow>
      take 16 (sha (contentBytes op m)) = take 16 (sha (contentBytes op' m'))) \<and>
    (map_of m = map_of m' \<longrightarrow> CanonicalMap m = CanonicalMap m')"
proof -
  have apply_none: "ApplyIdempotencyKey sha None a zs = deriveKey sha a zs" for a zs
    by (simp add: ApplyIdempotencyKey_def callerKey_def)
  have cm: "CanonicalMap m = CanonicalMap m'" if e: "map_of m = map_of m'"
  proof -
    from e have "m = [] \<longleftrightarrow> m' = []" by (metis map_of_eq_empty_iff)
    moreover have "mstr m = mstr m'" by (simp add: mget_def e fun_eq_iff)
    ultimately show ?thesis using mapKeys_cong [OF assms(4,5) e] by (simp add: CanonicalMap_def)
  qed
  have ch: "ContentHash sha op m = ContentHash sha op' m' \<longleftrightarrow>
      take 16 (sha (contentBytes op m)) = take 16 (sha (contentBytes op' m'))"
    unfolding ContentHash_def using EncodeToString_inj by auto
  show ?thesis
    unfolding apply_none
    using keyBytes_inj [OF assms(2,3)] deriveKey_eq [OF assms(1)] contentBytes_inj [OF assms(4-7)] ch cm
    by (simp add: ApplyIdempotencyKey_def WithIdempotencyKey_def callerKey_def)
qed

theorem idempotency_key_identifies_intent_witness:
  "keyBytes ''op'' [''a'' @ [CHR 0x00] @ ''b''] \<noteq> keyBytes ''op'' [''a'', ''b''] \<and>
   contentBytes ''op'' [(''x'', ''1''), (''y'', ''2'')] = contentBytes ''op'' [(''y'', ''2''), (''x'', ''1'')] \<and>
   CanonicalMap [(''x'', ''1''), (''y'', ''2'')] = CanonicalMap [(''y'', ''2''), (''x'', ''1'')]"
proof -
  have m: "map_of [(''x'', ''1''), (''y'', ''2'')] = map_of [(''y'', ''2''), (''x'', ''1'')]" by auto
  show ?thesis
    using idempotency_key_identifies_intent [where sha = "\<lambda>m. replicate 32 CHR ''0''" and op = "''op''" and op' = "''op''"
      and xs = "[''a'' @ [CHR 0x00] @ ''b'']" and ys = "[''a'', ''b'']"
      and m = "[(''x'', ''1''), (''y'', ''2'')]" and m' = "[(''y'', ''2''), (''x'', ''1'')]"] m
    by (simp add: short_def)
qed

text \<open>
  The joined renderings do collide: a value that contains a zero byte and an equals sign reads as a second entry, and two
  lists of strings can join to the same one.
\<close>

lemma CanonicalMap_collision:
  "CanonicalMap [(''a'', ''b'' @ [CHR 0x00] @ ''c=d'')] = CanonicalMap [(''a'', ''b''), (''c'', ''d'')]"
  by code_simp

lemma CanonicalStrings_collision: "CanonicalStrings [''a'' @ [CHR 0x00] @ ''b''] = CanonicalStrings [''a'', ''b'']"
  by code_simp

subsection \<open>The other helpers\<close>

lemma lowerByte_idem [simp]: "lowerByte (lowerByte c) = lowerByte c"
proof -
  have "lowerByte (char_of n) = char_of n" if "97 \<le> n" "n \<le> 122" for n :: nat using that by (simp add: lowerByte_def)
  then show ?thesis by (cases "65 \<le> (of_char c :: nat) \<and> (of_char c :: nat) \<le> 90") (auto simp: lowerByte_def)
qed

lemma NormalizeCurrency_idem: "NormalizeCurrency (NormalizeCurrency c) = NormalizeCurrency c"
  by (simp add: NormalizeCurrency_def)

lemma RuneCountInString_le: "RuneCountInString s \<le> length s"
proof (induction s rule: RuneCountInString.induct)
  case (2 c rest)
  then show ?case by (simp add: le_diff_conv)
qed simp

lemma ValidateMetadata_ok:
  "ValidateMetadata m = None \<longleftrightarrow>
     length m \<le> 50 \<and> list_all (\<lambda>(k, v). RuneCountInString k \<le> 40 \<and> RuneCountInString v \<le> 500) m"
proof -
  have "checkEntries m = None \<longleftrightarrow> list_all (\<lambda>(k, v). RuneCountInString k \<le> 40 \<and> RuneCountInString v \<le> 500) m"
    by (induction m rule: checkEntries.induct) auto
  then show ?thesis by (simp add: ValidateMetadata_def not_less)
qed

end
