(* ===== verification/Metering_Proofs.thy ===== *)
theory Metering_Proofs
  imports Metering Idempotency_Proofs
begin

text \<open>
  Usage is billed once per request: the contract \<open>usage_ledger\<close> of a usage repository, its interpretation in memory and in
  Postgres, and the push of aggregates to a Stripe that drops repeated identifiers.
\<close>

subsection \<open>What is to be billed\<close>

definition usageTriple :: "MeterEvent \<Rightarrow> string \<times> string \<times> string" where
  "usageTriple e = (me_SubjectID e, me_Metric e, me_RequestID e)"

definition validEvent :: "MeterEvent \<Rightarrow> bool" where
  "validEvent e \<longleftrightarrow> me_SubjectID e \<noteq> '''' \<and> me_Metric e \<noteq> '''' \<and> 0 < me_Quantity e \<and> me_RequestID e \<noteq> ''''"

text \<open>An event as a call at \<open>now\<close> stores it.\<close>

definition stamped :: "(time \<Rightarrow> time) \<Rightarrow> time \<Rightarrow> MeterEvent \<Rightarrow> MeterEvent" where
  "stamped micro now e = e\<lparr>me_OccurredAt := micro (if me_OccurredAt e = zero_time then now else me_OccurredAt e)\<rparr>"

text \<open>The events a sequence of calls must keep: the first one with each triple.\<close>

fun firstEvents :: "(time \<Rightarrow> time) \<Rightarrow> (string \<times> string \<times> string) set \<Rightarrow> (time \<times> MeterEvent) list \<Rightarrow> MeterEvent list" where
  "firstEvents micro seen [] = []"
| "firstEvents micro seen ((now, e) # calls) =
     (if validEvent e \<and> usageTriple e \<notin> seen
      then stamped micro now e # firstEvents micro (insert (usageTriple e) seen) calls
      else firstEvents micro seen calls)"

definition usageOf :: "string \<Rightarrow> Period \<Rightarrow> MeterEvent list \<Rightarrow> string \<Rightarrow> int" where
  "usageOf metric period es s = sum_list (map me_Quantity (filter (\<lambda>e. me_SubjectID e = s) (pu_rows metric period es)))"

definition billed :: "string \<Rightarrow> Period \<Rightarrow> MeterEvent list \<Rightarrow> UsageAggregate list" where
  "billed metric period es =
     map (\<lambda>s. aggregateOf metric period (s, usageOf metric period es s))
       (sort_slice (<) (remdups (map me_SubjectID (pu_rows metric period es))))"

fun recordAll :: "'r usageRepo \<Rightarrow> (time \<times> MeterEvent) list \<Rightarrow> 'r \<Rightarrow> 'r" where
  "recordAll repo [] r = r"
| "recordAll repo ((now, e) # calls) r = recordAll repo calls (snd (metering_Record repo now e r))"

lemma stamped_sel [simp]:
  "me_SubjectID (stamped micro now e) = me_SubjectID e" "me_Metric (stamped micro now e) = me_Metric e"
  "me_RequestID (stamped micro now e) = me_RequestID e" "me_Quantity (stamped micro now e) = me_Quantity e"
  "usageTriple (stamped micro now e) = usageTriple e"
  by (simp_all add: stamped_def usageTriple_def)

lemma metering_Record_invalid: "\<not> validEvent e \<Longrightarrow> snd (metering_Record repo now e r) = r"
  by (auto simp: metering_Record_def validEvent_def)

lemma metering_Record_valid: "validEvent e \<Longrightarrow> metering_Record repo now e r = ur_RecordUsage repo now e r"
  by (auto simp: metering_Record_def validEvent_def)

subsection \<open>The contract of a usage repository\<close>

locale usage_ledger =
  fixes repo :: "'r usageRepo"
    and micro :: "time \<Rightarrow> time"
    and invar :: "'r \<Rightarrow> bool"
    and admissible :: "MeterEvent \<Rightarrow> bool"
    and rows :: "'r \<Rightarrow> MeterEvent list"
  assumes Record_known: "invar r \<Longrightarrow> admissible e \<Longrightarrow> validEvent e \<Longrightarrow> usageTriple e \<in> usageTriple ` set (rows r) \<Longrightarrow>
      ur_RecordUsage repo now e r = (None, r)"
    and Record_new: "invar r \<Longrightarrow> admissible e \<Longrightarrow> validEvent e \<Longrightarrow> usageTriple e \<notin> usageTriple ` set (rows r) \<Longrightarrow>
      \<exists>r'. ur_RecordUsage repo now e r = (None, r') \<and> invar r' \<and> rows r' = rows r @ [stamped micro now e]"
    and Aggregate: "invar r \<Longrightarrow> \<forall>s. in64 (usageOf metric period (rows r) s) \<Longrightarrow>
      ur_AggregateByPeriod repo metric period r = Inr (billed metric period (rows r))"
begin

lemma recordAll_rows:
  "invar r \<Longrightarrow> \<forall>c \<in> set calls. admissible (snd c) \<Longrightarrow>
    invar (recordAll repo calls r) \<and>
    rows (recordAll repo calls r) = rows r @ firstEvents micro (usageTriple ` set (rows r)) calls"
proof (induction calls arbitrary: r)
  case (Cons c calls)
  obtain now e where c: "c = (now, e)" by force
  consider (bad) "\<not> validEvent e" | (known) "validEvent e" "usageTriple e \<in> usageTriple ` set (rows r)"
    | (new) "validEvent e" "usageTriple e \<notin> usageTriple ` set (rows r)" by blast
  then show ?case
  proof cases
    case bad
    then show ?thesis using Cons by (simp add: c metering_Record_invalid)
  next
    case known
    then show ?thesis using Cons Record_known [of r e now] by (simp add: c metering_Record_valid)
  next
    case new
    from Record_new [OF Cons.prems(1) _ new, of now] Cons.prems(2) obtain r' where
      r': "ur_RecordUsage repo now e r = (None, r')" "invar r'" "rows r' = rows r @ [stamped micro now e]" by (auto simp: c)
    then show ?thesis using Cons.IH [of r'] Cons.prems(2) new by (simp add: c metering_Record_valid)
  qed
qed simp

lemma aggregate_billed:
  assumes "invar r" and "rows r = []" and "\<forall>c \<in> set calls. admissible (snd c)"
    and "\<forall>s. in64 (usageOf metric period (firstEvents micro {} calls) s)"
  shows "ur_AggregateByPeriod repo metric period (recordAll repo calls r) = Inr (billed metric period (firstEvents micro {} calls))"
  using recordAll_rows [OF assms(1,3)] Aggregate [of "recordAll repo calls r" metric period] assms(2,4) by simp

end

subsection \<open>In memory\<close>

definition plain :: "MeterEvent \<Rightarrow> bool" where
  "plain e \<longleftrightarrow> CHR ''|'' \<notin> set (me_SubjectID e) \<and> CHR ''|'' \<notin> set (me_Metric e)"

lemma usageKey_inj: "plain a \<Longrightarrow> plain b \<Longrightarrow> usageKey a = usageKey b \<longleftrightarrow> usageTriple a = usageTriple b"
proof
  assume p: "plain a" "plain b" and "usageKey a = usageKey b"
  then have "me_SubjectID a @ CHR ''|'' # (me_Metric a @ CHR ''|'' # me_RequestID a) =
    me_SubjectID b @ CHR ''|'' # (me_Metric b @ CHR ''|'' # me_RequestID b)" by (simp add: usageKey_def)
  moreover from this have "me_SubjectID a = me_SubjectID b \<and>
    me_Metric a @ CHR ''|'' # me_RequestID a = me_Metric b @ CHR ''|'' # me_RequestID b"
    by (rule sep_inj [rotated 2]) (use p in \<open>simp_all add: plain_def\<close>)
  then have "me_SubjectID a = me_SubjectID b"
    and "me_Metric a @ CHR ''|'' # me_RequestID a = me_Metric b @ CHR ''|'' # me_RequestID b" by blast+
  moreover from this(2) have "me_Metric a = me_Metric b \<and> me_RequestID a = me_RequestID b"
    by (rule sep_inj [rotated 2]) (use p in \<open>simp_all add: plain_def\<close>)
  ultimately show "usageTriple a = usageTriple b" by (simp add: usageTriple_def)
qed (simp add: usageKey_def usageTriple_def)

definition um_invar :: "usageMemory \<Rightarrow> bool" where
  "um_invar r \<longleftrightarrow> (\<forall>e \<in> set (um_rows r). plain e \<and> me_RequestID e \<noteq> '''') \<and>
     (\<forall>k. mget False (um_events r) k \<longleftrightarrow> k \<in> usageKey ` set (um_rows r))"

lemma um_known:
  assumes "um_invar r" and "plain e"
  shows "mget False (um_events r) (usageKey e) \<longleftrightarrow> usageTriple e \<in> usageTriple ` set (um_rows r)"
  using assms usageKey_inj [OF assms(2)] by (auto simp: um_invar_def image_iff)

lemma mget_usageTotals:
  "\<forall>x \<in> set tot. in64 (snd x) \<Longrightarrow> mget 0 (usageTotals metric period es tot) s = wrap64 (mget 0 tot s + usageOf metric period es s)"
proof (induction metric period es tot rule: usageTotals.induct)
  case (1 metric period tot)
  have "in64 (mget 0 tot s)" using 1 by (auto simp: mget_def in64_def dest!: map_of_SomeD split: option.split)
  then show ?case by (simp add: usageOf_def pu_rows_def)
next
  case (2 metric period e es tot)
  have "set (mset_key k v tot) \<subseteq> insert (k, v) (set tot)" for k and v :: int by (induction tot) auto
  then have "\<forall>x \<in> set (mset_key (me_SubjectID e) (wrap64 n) tot). in64 (snd x)" for n using 2(4) by fastforce
  with 2 show ?case by (auto simp: usageOf_def pu_rows_def algebra_simps)
qed

lemma keys_usageTotals:
  "fst ` set (usageTotals metric period es tot) = fst ` set tot \<union> me_SubjectID ` set (pu_rows metric period es)"
  by (induction metric period es tot rule: usageTotals.induct) (auto simp: pu_rows_def dom_update)

lemma distinct_usageTotals: "distinct (map fst tot) \<Longrightarrow> distinct (map fst (usageTotals metric period es tot))"
  by (induction metric period es tot rule: usageTotals.induct) (auto simp: distinct_update)

text \<open>Two lists in the order of a key that they do not repeat are equal when they have the same members.\<close>

lemma sorted_by_unique:
  fixes f :: "'a \<Rightarrow> 'b :: linorder"
  assumes "sorted (map f xs)" "sorted (map f ys)" "distinct (map f xs)" "distinct (map f ys)" "set xs = set ys"
  shows "xs = ys"
proof -
  have "map f xs = map f ys" using assms by (intro sorted_distinct_set_unique) simp_all
  moreover have "inj_on f (set xs \<union> set ys)" using assms(3,5) by (simp add: distinct_map)
  ultimately show ?thesis by (simp add: inj_on_map_eq_map)
qed

lemma sorted_sort_strings: "sorted (sort_slice (<) (ks :: string list))"
proof -
  have "slice_order (\<lambda>x y. (x :: string) < y)" using slice_order_key [of "\<lambda>x. x"] by simp
  then show ?thesis using slice_order.sorted_sort_slice [of "(<)" ks] by (simp add: not_less)
qed

lemma um_Aggregate:
  assumes "\<forall>s. in64 (usageOf metric period (um_rows r) s)"
  shows "um_AggregateByPeriod metric period r = Inr (billed metric period (um_rows r))"
proof -
  let ?tot = "usageTotals metric period (um_rows r) []"
  let ?L = "sort_slice (\<lambda>a b. ua_SubjectID a < ua_SubjectID b) (map (aggregateOf metric period) ?tot)"
  have subj: "ua_SubjectID (aggregateOf metric period x) = fst x" for x by (simp add: aggregateOf_def)
  have tot: "snd x = usageOf metric period (um_rows r) (fst x)" if "x \<in> set ?tot" for x
  proof -
    have "mget 0 ?tot (fst x) = snd x" using that distinct_usageTotals [of "[]" metric period "um_rows r"]
      by (simp add: mget_def map_of_is_SomeI [of _ "fst x" "snd x"])
    moreover have "mget 0 ?tot (fst x) = usageOf metric period (um_rows r) (fst x)"
      using assms by (simp add: mget_usageTotals)
    ultimately show ?thesis by simp
  qed
  have "sorted_wrt (\<lambda>a b. \<not> ua_SubjectID b < ua_SubjectID a) ?L" by (rule slice_order.sorted_sort_slice [OF slice_order_key])
  then have "sorted (map ua_SubjectID ?L)" by (simp add: sorted_map not_less)
  moreover have "map ua_SubjectID (billed metric period (um_rows r)) =
      sort_slice (<) (remdups (map me_SubjectID (pu_rows metric period (um_rows r))))"
    by (simp add: billed_def comp_def subj)
  moreover have "distinct (map ua_SubjectID ?L)"
    using distinct_usageTotals [of "[]" metric period "um_rows r"] by (simp add: comp_def subj)
  moreover have "distinct (sort_slice (<) (remdups (map me_SubjectID (pu_rows metric period (um_rows r)))))"
    using distinct_sort_slice [of "\<lambda>x. x" "(<)" "remdups (map me_SubjectID (pu_rows metric period (um_rows r)))"] by simp
  moreover have "set ?L = set (billed metric period (um_rows r))"
  proof -
    have "set ?L = aggregateOf metric period ` set ?tot" by simp
    also have "\<dots> = (\<lambda>s. aggregateOf metric period (s, usageOf metric period (um_rows r) s)) ` fst ` set ?tot"
      using tot by (force simp: image_iff)
    also have "\<dots> = set (billed metric period (um_rows r))" by (simp add: keys_usageTotals billed_def)
    finally show ?thesis .
  qed
  ultimately have "?L = billed metric period (um_rows r)"
    using sorted_sort_strings by (intro sorted_by_unique [where f = ua_SubjectID]) simp_all
  then show ?thesis by (simp add: um_AggregateByPeriod_def)
qed

interpretation memory_usage: usage_ledger memory_usage "\<lambda>t. t" um_invar plain um_rows
proof
  fix r e and now :: time
  assume "um_invar r" "plain e" "validEvent e" "usageTriple e \<in> usageTriple ` set (um_rows r)"
  then show "ur_RecordUsage memory_usage now e r = (None, r)"
    by (simp add: memory_usage_def um_RecordUsage_def um_known validEvent_def)
next
  fix r e and now :: time
  assume a: "um_invar r" "plain e" "validEvent e" "usageTriple e \<notin> usageTriple ` set (um_rows r)"
  let ?r = "r\<lparr>um_rows := um_rows r @ [stamped (\<lambda>t. t) now e], um_events := mset_key (usageKey e) True (um_events r)\<rparr>"
  have "ur_RecordUsage memory_usage now e r = (None, ?r)"
    using a um_known [OF a(1,2)] by (auto simp: memory_usage_def um_RecordUsage_def Let_def validEvent_def stamped_def)
  moreover have "um_invar ?r" using a by (auto simp: um_invar_def plain_def usageKey_def validEvent_def)
  ultimately show "\<exists>r'. ur_RecordUsage memory_usage now e r = (None, r') \<and> um_invar r' \<and>
    um_rows r' = um_rows r @ [stamped (\<lambda>t. t) now e]" by simp
next
  fix r :: usageMemory and metric period
  assume "\<forall>s. in64 (usageOf metric period (um_rows r) s)"
  then show "ur_AggregateByPeriod memory_usage metric period r = Inr (billed metric period (um_rows r))"
    by (simp add: memory_usage_def um_Aggregate)
qed

subsection \<open>In Postgres\<close>

lemma pu_groups_billed:
  assumes "\<forall>s. in64 (usageOf metric period t s)"
  shows "pu_groups metric period (pu_rows metric period t) ss =
    Inr (map (\<lambda>s. aggregateOf metric period (s, usageOf metric period t s)) ss)"
  using assms by (induction ss) (simp_all add: pu_total_def usageOf_def)

interpretation pg_usage: usage_ledger "pg_usage micro" micro "\<lambda>t. True" "\<lambda>e. True" "\<lambda>t. t" for micro
proof
  fix t e and now :: time
  assume "validEvent e" "usageTriple e \<in> usageTriple ` set t"
  then show "ur_RecordUsage (pg_usage micro) now e t = (None, t)"
    by (auto simp: pg_usage_def pu_RecordUsage_def validEvent_def list_ex_iff pu_conflict_def usageTriple_def Let_def)
next
  fix t e and now :: time
  assume v: "validEvent e" and new: "usageTriple e \<notin> usageTriple ` set t"
  have "\<not> list_ex (pu_conflict e) t"
  proof
    assume "list_ex (pu_conflict e) t"
    then obtain row where "row \<in> set t" "usageTriple row = usageTriple e"
      by (auto simp: list_ex_iff pu_conflict_def usageTriple_def)
    with new show False by (metis image_eqI)
  qed
  with v show "\<exists>t'. ur_RecordUsage (pg_usage micro) now e t = (None, t') \<and> True \<and> t' = t @ [stamped micro now e]"
    by (simp add: pg_usage_def pu_RecordUsage_def validEvent_def Let_def stamped_def)
next
  fix t metric period
  assume "\<forall>s. in64 (usageOf metric period t s)"
  then show "ur_AggregateByPeriod (pg_usage micro) metric period t = Inr (billed metric period t)"
    by (simp add: pg_usage_def pu_AggregateByPeriod_def Let_def pu_groups_billed billed_def)
qed

text \<open>C28: usage is counted once per request. After any sequence of \<open>Record\<close> calls, repeated and invalid ones included, both
  repositories aggregate exactly this over a period: for every subject with usage of the metric in it, in the order of the
  subjects, the sum of the quantities of the first valid call of each (subject, metric, request). Postgres places a call in
  time after the rounding of its driver. In memory, subjects and metrics must not contain a bar.\<close>
theorem usage_counted_once:
  assumes "\<forall>c \<in> set calls. plain (snd c)"
    and "\<forall>f \<in> {micro, \<lambda>t. t}. \<forall>s. in64 (usageOf metric period (firstEvents f {} calls) s)"
  shows "um_AggregateByPeriod metric period (recordAll memory_usage calls NewMemoryUsage) =
      Inr (billed metric period (firstEvents (\<lambda>t. t) {} calls)) \<and>
    pu_AggregateByPeriod metric period (recordAll (pg_usage micro) calls []) =
      Inr (billed metric period (firstEvents micro {} calls))"
proof -
  have new: "um_invar NewMemoryUsage" "um_rows NewMemoryUsage = []" by (simp_all add: um_invar_def NewMemoryUsage_def)
  have "ur_AggregateByPeriod memory_usage metric period (recordAll memory_usage calls NewMemoryUsage) =
      Inr (billed metric period (firstEvents (\<lambda>t. t) {} calls))"
    using assms by (intro memory_usage.aggregate_billed [OF new]) auto
  moreover have "ur_AggregateByPeriod (pg_usage micro) metric period (recordAll (pg_usage micro) calls []) =
      Inr (billed metric period (firstEvents micro {} calls))"
    using assms by (intro pg_usage.aggregate_billed) auto
  ultimately show ?thesis by (simp add: memory_usage_def pg_usage_def)
qed

subsection \<open>Retrying a push\<close>

text \<open>
  Stripe's side of a push: an event whose identifier it has seen is dropped. A failed call may have kept any first part of
  its batch.
\<close>

definition addOnce :: "PushEvent \<Rightarrow> (string \<rightharpoonup> PushEvent) \<Rightarrow> (string \<rightharpoonup> PushEvent)" where
  "addOnce e v = (if ps_Identifier e \<in> dom v then v else v(ps_Identifier e \<mapsto> e))"

definition lawful_push :: "(PushEvent list \<Rightarrow> 's \<Rightarrow> string option \<times> 's) \<Rightarrow> ('s \<Rightarrow> string \<rightharpoonup> PushEvent) \<Rightarrow> bool" where
  "lawful_push PushBatch view \<longleftrightarrow> (\<forall>events s err s'. PushBatch events s = (err, s') \<longrightarrow>
     (\<exists>n. view s' = fold addOnce (take n events) (view s)) \<and> (err = None \<longrightarrow> view s' = fold addOnce events (view s)))"

lemma addOnce_known: "ps_Identifier e \<in> dom v \<Longrightarrow> addOnce e v = v"
  by (simp add: addOnce_def)

lemma dom_addAll: "dom (fold addOnce es v) = dom v \<union> ps_Identifier ` set es"
  by (induction es arbitrary: v) (auto simp: addOnce_def split: if_splits)

lemma addAll_known: "ps_Identifier ` set es \<subseteq> dom v \<Longrightarrow> fold addOnce es v = v"
  by (induction es arbitrary: v) (auto simp: addOnce_known)

lemma addAll_retry: "fold addOnce es (fold addOnce (take n es) v) = fold addOnce es v"
proof -
  have "fold addOnce (take n es) (fold addOnce (take n es) v) = fold addOnce (take n es) v"
    by (rule addAll_known) (simp add: dom_addAll)
  then show ?thesis by (metis append_take_drop_id fold_append comp_apply)
qed

lemma addAll_lookup:
  "distinct (map ps_Identifier es) \<Longrightarrow> ps_Identifier ` set es \<inter> dom v = {} \<Longrightarrow>
    fold addOnce es v i = (case List.find (\<lambda>e. ps_Identifier e = i) es of None \<Rightarrow> v i | Some e \<Rightarrow> Some e)"
proof (induction es arbitrary: v)
  case (Cons e es)
  have "addOnce e v = v(ps_Identifier e \<mapsto> e)" using Cons.prems(2) by (auto simp: addOnce_def)
  moreover have "List.find (\<lambda>x. ps_Identifier x = ps_Identifier e) es = None"
    using Cons.prems(1) by (simp add: find_None_iff) (metis image_eqI)
  moreover have "fold addOnce es (v(ps_Identifier e \<mapsto> e)) i =
    (case List.find (\<lambda>e. ps_Identifier e = i) es of None \<Rightarrow> (v(ps_Identifier e \<mapsto> e)) i | Some e \<Rightarrow> Some e)"
  proof (rule Cons.IH)
    show "distinct (map ps_Identifier es)" using Cons.prems(1) by simp
    have "ps_Identifier e \<notin> ps_Identifier ` set es" using Cons.prems(1) by simp
    with Cons.prems(2) show "ps_Identifier ` set es \<inter> dom (v(ps_Identifier e \<mapsto> e)) = {}" by auto
  qed
  ultimately show ?case by (cases "ps_Identifier e = i") (auto split: option.split)
qed simp

lemma find_unique_id:
  "distinct (map ps_Identifier es) \<Longrightarrow> e \<in> set es \<Longrightarrow> List.find (\<lambda>x. ps_Identifier x = ps_Identifier e) es = Some e"
proof (induction es)
  case (Cons x es)
  then show ?case by (cases "x = e") (auto simp: image_iff)
qed simp

text \<open>The batch of a window.\<close>

definition pushOf :: "(string \<Rightarrow> string) \<Rightarrow> string \<Rightarrow> string \<Rightarrow> string \<Rightarrow> Period \<Rightarrow> UsageAggregate \<Rightarrow> string \<Rightarrow> PushEvent" where
  "pushOf sha start namespace metric period a custID =
     \<lparr>ps_EventName = namespace @ ''.'' @ metric, ps_StripeCustomer = custID, ps_Value = ua_Total a,
      ps_Identifier = reconcileIdentifier sha namespace metric (ua_SubjectID a) start, ps_TimestampUnix = Unix (pe_End period)\<rparr>"

definition batchOf ::
  "(string \<Rightarrow> string) \<Rightarrow> string \<Rightarrow> string \<Rightarrow> string \<Rightarrow> Period \<Rightarrow> (string \<Rightarrow> string option) \<Rightarrow> UsageAggregate list \<Rightarrow> PushEvent list" where
  "batchOf sha start namespace metric period cust aggs =
     List.map_filter (\<lambda>a. map_option (pushOf sha start namespace metric period a) (cust (ua_SubjectID a))) aggs"

lemma pushEvents_batch:
  assumes "\<forall>s. customers s = Inr (cust s)"
  shows "pushEvents sha fmt customers namespace metric period as =
    Inr (batchOf sha (fmt (pe_Start period)) namespace metric period cust as)"
  using assms by (induction as) (auto simp: batchOf_def pushOf_def List.map_filter_simps split: option.split)

lemma addAll_takes: "\<exists>k. fold addOnce (take m es) (fold addOnce (take n es) v) = fold addOnce (take k es) v"
proof (cases "n \<le> m")
  case True
  then have "take n es = take n (take m es)" by (simp add: min_def)
  then show ?thesis by (metis addAll_retry)
next
  case False
  then have "ps_Identifier ` set (take m es) \<subseteq> dom (fold addOnce (take n es) v)"
    using set_take_subset_set_take [of m n es] by (auto simp: dom_addAll)
  then show ?thesis by (metis addAll_known)
qed

lemma reconcile_step:
  assumes lawful: "lawful_push PushBatch view" and aggs: "ur_AggregateByPeriod repo metric period r = Inr aggs"
    and cust: "\<forall>x. customers x = Inr (cust x)" and es: "es = batchOf sha (fmt (pe_Start period)) namespace metric period cust aggs"
    and run: "ReconcileToStripe sha fmt repo PushBatch customers namespace metric period r s = ((stats, err), s')"
  shows "(\<exists>n. view s' = fold addOnce (take n es) (view s)) \<and>
    (err = None \<longrightarrow> view s' = fold addOnce es (view s) \<and> rs_Pushed stats = length es)"
proof -
  have batch: "pushEvents sha fmt customers namespace metric period aggs = Inr es" using pushEvents_batch [OF cust] es by simp
  show ?thesis
  proof (cases "es = []")
    case True
    then have "s' = s \<and> rs_Pushed stats = 0" using run by (auto simp: ReconcileToStripe_def aggs batch Let_def split: if_splits)
    with True show ?thesis by simp
  next
    case False
    then have "aggs \<noteq> []" by (auto simp: es batchOf_def List.map_filter_def)
    obtain e' s1 where push: "PushBatch es s = (e', s1)" by fastforce
    have "s' = s1 \<and> (err = None \<longleftrightarrow> e' = None) \<and> (err = None \<longrightarrow> rs_Pushed stats = length es)"
      using run False \<open>aggs \<noteq> []\<close> push by (auto simp: ReconcileToStripe_def aggs batch Let_def split: option.splits)
    with lawful push show ?thesis unfolding lawful_push_def by blast
  qed
qed

lemma reconcileIdentifier_eq:
  "reconcileIdentifier sha namespace metric a t = reconcileIdentifier sha namespace metric b t \<longleftrightarrow>
    sha (namespace @ ''|'' @ metric @ ''|'' @ a @ ''|'' @ t) = sha (namespace @ ''|'' @ metric @ ''|'' @ b @ ''|'' @ t)"
  unfolding reconcileIdentifier_def using EncodeToString_inj by metis

text \<open>C29: pushing a window may be retried. However many attempts on a closed window fail, each after Stripe kept any part of
  its batch, once an attempt succeeds Stripe holds, for every subject with usage and a customer, exactly one event of the
  window with the subject's total, and nothing else has changed. This rests on Stripe dropping repeated identifiers (within
  its 24 hours) and on SHA-256 not colliding on the identifiers of the window.\<close>
theorem reconcile_bills_once:
  assumes lawful: "lawful_push PushBatch view" and aggs: "ur_AggregateByPeriod repo metric period r = Inr aggs"
    and dist: "distinct (map ua_SubjectID aggs)" and cust: "\<forall>x. customers x = Inr (cust x)"
    and sha: "inj_on (\<lambda>x. sha (namespace @ ''|'' @ metric @ ''|'' @ x @ ''|'' @ fmt (pe_Start period))) (ua_SubjectID ` set aggs)"
    and fresh: "\<forall>a \<in> set aggs. view s (reconcileIdentifier sha namespace metric (ua_SubjectID a) (fmt (pe_Start period))) = None"
    and attempts: "(\<lambda>x y. \<exists>res. ReconcileToStripe sha fmt repo PushBatch customers namespace metric period r x = (res, y))\<^sup>*\<^sup>* s s1"
    and run: "ReconcileToStripe sha fmt repo PushBatch customers namespace metric period r s1 = ((stats, None), s2)"
  shows "(\<forall>a \<in> set aggs. view s2 (reconcileIdentifier sha namespace metric (ua_SubjectID a) (fmt (pe_Start period))) =
      map_option (pushOf sha (fmt (pe_Start period)) namespace metric period a) (cust (ua_SubjectID a))) \<and>
    (\<forall>i. (\<forall>a \<in> set aggs. i \<noteq> reconcileIdentifier sha namespace metric (ua_SubjectID a) (fmt (pe_Start period))) \<longrightarrow>
      view s2 i = view s i) \<and>
    rs_Pushed stats = length (filter (\<lambda>a. cust (ua_SubjectID a) \<noteq> None) aggs)"
proof -
  let ?id = "\<lambda>a. reconcileIdentifier sha namespace metric (ua_SubjectID a) (fmt (pe_Start period))"
  let ?push = "\<lambda>a. map_option (pushOf sha (fmt (pe_Start period)) namespace metric period a) (cust (ua_SubjectID a))"
  define es where "es = batchOf sha (fmt (pe_Start period)) namespace metric period cust aggs"
  from attempts have "\<exists>n. view s1 = fold addOnce (take n es) (view s)"
  proof induction
    case base
    have "view s = fold addOnce (take 0 es) (view s)" by simp
    then show ?case by blast
  next
    case (step x y)
    from step(2) obtain st err where "ReconcileToStripe sha fmt repo PushBatch customers namespace metric period r x = ((st, err), y)"
      by (metis surj_pair)
    from reconcile_step [OF lawful aggs cust es_def this] step(3) addAll_takes show ?case by metis
  qed
  with reconcile_step [OF lawful aggs cust es_def run]
  have final: "view s2 = fold addOnce es (view s)" "rs_Pushed stats = length es" by (auto simp: addAll_retry)
  have es_eq: "es = map (\<lambda>a. the (?push a)) (filter (\<lambda>a. cust (ua_SubjectID a) \<noteq> None) aggs)"
    by (simp add: es_def batchOf_def List.map_filter_def comp_def)
  have inj: "?id a = ?id b \<longleftrightarrow> a = b" if "a \<in> set aggs" "b \<in> set aggs" for a b
    using that sha dist unfolding reconcileIdentifier_eq by (auto simp: inj_on_def distinct_map)
  have "distinct (map ?id (filter (\<lambda>a. cust (ua_SubjectID a) \<noteq> None) aggs))"
    using dist inj by (auto simp: distinct_map inj_on_def)
  moreover have map_ids: "map ps_Identifier es = map ?id (filter (\<lambda>a. cust (ua_SubjectID a) \<noteq> None) aggs)"
    unfolding es_eq map_map by (rule map_cong) (auto simp: pushOf_def)
  ultimately have d: "distinct (map ps_Identifier es)" by (simp only: map_ids)
  have known: "ps_Identifier ` set es = ?id ` set (filter (\<lambda>a. cust (ua_SubjectID a) \<noteq> None) aggs)"
    using arg_cong [OF map_ids, of set] by simp
  then have "ps_Identifier ` set es \<inter> dom (view s) = {}" using fresh by auto
  note look = addAll_lookup [OF d this, folded final(1)]
  have found: "List.find (\<lambda>e. ps_Identifier e = ?id a) es = ?push a" if a: "a \<in> set aggs" for a
  proof (cases "cust (ua_SubjectID a)")
    case None
    have "?id a \<notin> ps_Identifier ` set es" using a None inj unfolding known by auto
    then have "List.find (\<lambda>e. ps_Identifier e = ?id a) es = None" by (simp add: find_None_iff) (metis image_eqI)
    with None show ?thesis by simp
  next
    case (Some c)
    then have "the (?push a) \<in> set es" using a by (force simp: es_eq)
    moreover have "ps_Identifier (the (?push a)) = ?id a" by (simp add: Some pushOf_def)
    ultimately show ?thesis using d Some find_unique_id [of es "the (?push a)"] by simp
  qed
  have "view s2 (?id a) = ?push a" if "a \<in> set aggs" for a
    using look [of "?id a"] found [OF that] fresh that by (simp split: option.split)
  moreover have "view s2 i = view s i" if "\<forall>a \<in> set aggs. i \<noteq> ?id a" for i
  proof -
    have "i \<notin> ps_Identifier ` set es" using that unfolding known by auto
    then have "List.find (\<lambda>e. ps_Identifier e = i) es = None" by (simp add: find_None_iff) (metis image_eqI)
    with look [of i] show ?thesis by simp
  qed
  ultimately show ?thesis using final(2) by (simp add: es_eq)
qed

subsection \<open>Instances\<close>

definition usage_event :: "string \<Rightarrow> int \<Rightarrow> MeterEvent" where
  "usage_event req n =
     \<lparr>me_SubjectID = ''u1'', me_Metric = ''calls'', me_Quantity = n, me_OccurredAt = 5, me_RequestID = req, me_Metadata = []\<rparr>"

definition usage_window :: Period where
  "usage_window = \<lparr>pe_Start = 0, pe_End = 10\<rparr>"

definition usage_calls :: "(time \<times> MeterEvent) list" where
  "usage_calls = [(5, usage_event ''r1'' 3), (6, usage_event ''r1'' 3), (7, usage_event ''r2'' 4)]"

lemma usage_calls_first: "firstEvents (\<lambda>t. t) {} usage_calls = [usage_event ''r1'' 3, usage_event ''r2'' 4]"
  by (simp add: usage_calls_def usage_event_def validEvent_def usageTriple_def stamped_def zero_time_def)

theorem usage_counted_once_witness:
  "um_AggregateByPeriod ''calls'' usage_window (recordAll memory_usage usage_calls NewMemoryUsage) =
     Inr [\<lparr>ua_SubjectID = ''u1'', ua_Metric = ''calls'', ua_Total = 7, ua_Period = usage_window\<rparr>]"
proof -
  have plain: "\<forall>c \<in> set usage_calls. plain (snd c)" by (simp add: usage_calls_def usage_event_def plain_def)
  have "usageOf ''calls'' usage_window [usage_event ''r1'' 3, usage_event ''r2'' 4] s = (if s = ''u1'' then 7 else 0)" for s
    by (simp add: usageOf_def pu_rows_def inPeriod_def usage_window_def usage_event_def)
  moreover have "billed ''calls'' usage_window [usage_event ''r1'' 3, usage_event ''r2'' 4] =
      [\<lparr>ua_SubjectID = ''u1'', ua_Metric = ''calls'', ua_Total = 7, ua_Period = usage_window\<rparr>]"
    by (simp add: billed_def usageOf_def pu_rows_def inPeriod_def usage_window_def usage_event_def aggregateOf_def)
  ultimately show ?thesis
    using usage_counted_once [OF plain, of "\<lambda>t. t" "''calls''" usage_window] by (simp add: usage_calls_first in64_def)
qed

theorem reconcile_bills_once_witness:
  "fold addOnce [pushOf (\<lambda>s. s) ''t'' ''shop'' ''calls'' usage_window
       \<lparr>ua_SubjectID = ''u1'', ua_Metric = ''calls'', ua_Total = 7, ua_Period = usage_window\<rparr> ''cus_1''] Map.empty
     (reconcileIdentifier (\<lambda>s. s) ''shop'' ''calls'' ''u1'' ''t'') =
   Some (pushOf (\<lambda>s. s) ''t'' ''shop'' ''calls'' usage_window
       \<lparr>ua_SubjectID = ''u1'', ua_Metric = ''calls'', ua_Total = 7, ua_Period = usage_window\<rparr> ''cus_1'')"
proof -
  let ?a = "\<lparr>ua_SubjectID = ''u1'', ua_Metric = ''calls'', ua_Total = 7, ua_Period = usage_window\<rparr>"
  let ?t = "recordAll memory_usage usage_calls NewMemoryUsage"
  let ?push = "\<lambda>es v. (None :: string option, fold addOnce es v)"
  have aggs: "ur_AggregateByPeriod memory_usage ''calls'' usage_window ?t = Inr [?a]"
    by code_simp
  have lawful: "lawful_push ?push (\<lambda>v. v)" unfolding lawful_push_def by (metis fst_conv snd_conv take_all order_refl)
  have run: "ReconcileToStripe (\<lambda>s. s) (\<lambda>_. ''t'') memory_usage ?push (\<lambda>_. Inr (Some ''cus_1'')) ''shop'' ''calls'' usage_window ?t Map.empty =
    ((\<lparr>rs_Aggregates = 1, rs_Pushed = 1\<rparr>, None), fold addOnce [pushOf (\<lambda>s. s) ''t'' ''shop'' ''calls'' usage_window ?a ''cus_1''] Map.empty)"
    by (simp add: ReconcileToStripe_def aggs pushOf_def)
  from reconcile_bills_once [OF lawful aggs, of "\<lambda>_. Inr (Some ''cus_1'')" "\<lambda>_. Some ''cus_1''" "\<lambda>s. s" "''shop''" "\<lambda>_. ''t''" Map.empty
    Map.empty, OF _ _ _ _ rtranclp.rtrancl_refl run]
  show ?thesis by simp
qed

text \<open>
  Pruning forgets requests in Postgres and not in memory: a call repeated after its row was pruned is stored, and so counted,
  a second time.
\<close>

lemma prune_forgets_requests:
  "recordAll (pg_usage (\<lambda>t. t)) [(5, usage_event ''r1'' 3)] (snd (pu_PruneOlderThan 10 (recordAll (pg_usage (\<lambda>t. t)) [(5, usage_event ''r1'' 3)] [])))
     = [usage_event ''r1'' 3] \<and>
   um_rows (recordAll memory_usage [(5, usage_event ''r1'' 3)]
     (snd (um_PruneOlderThan 10 (recordAll memory_usage [(5, usage_event ''r1'' 3)] NewMemoryUsage)))) = []"
  by (simp add: usage_event_def metering_Record_def pg_usage_def pu_RecordUsage_def pu_PruneOlderThan_def memory_usage_def
      um_RecordUsage_def um_PruneOlderThan_def NewMemoryUsage_def zero_time_def Let_def mget_def usageKey_def)

text \<open>
  Without a request id, \<open>RecordDirect\<close> uses one identifier for every event of a subject and metric, so a Stripe that drops
  repeated identifiers keeps only the first of two genuine events.
\<close>

lemma RecordDirect_constant_identifier:
  assumes "customers subj = Inr (Some c)"
  shows "\<exists>identifier. \<forall>value PushBatch (s :: 's). \<exists>e.
    RecordDirect sha PushBatch customers namespace metric subj value '''' s =
      (let (err, s') = PushBatch [e] s in (map_option ReconcilePushFailed err, s')) \<and>
    ps_Identifier e = identifier \<and> ps_Value e = value"
  using assms by (intro exI [of _ "reconcileIdentifier sha namespace metric subj ''{}''"]) (auto simp: RecordDirect_def)

end
