(* ===== verification/Customers.thy ===== *)
theory Customers
  imports Idempotency Namespace_Stamp Credits Subscriptions
begin

text \<open>
  Packages \<open>subject\<close> and \<open>customers\<close>, and \<open>repos/postgres/customer_repo.go\<close>: the mapping of subjects to Stripe customers,
  erasure (\<open>forget.go\<close>), import (\<open>backfill.go\<close>), tax ids (\<open>tax_ids.go\<close>) and the data export (\<open>export.go\<close>). The Stripe client
  is a record of functions on its state. A list call gives the items it yields before it ends or fails, and the failure.
  A Stripe object is a record of the fields the code reads. The repositories and the app's hooks are functions on their
  states.
\<close>

subsection \<open>The mapping of subjects\<close>

type_synonym memoryCustomers = "(string, string) gomap"

definition mc_Get :: "string \<Rightarrow> memoryCustomers \<Rightarrow> string + string option" where
  "mc_Get subject r = Inr (map_of r subject)"

definition mc_Upsert :: "string \<Rightarrow> string \<Rightarrow> memoryCustomers \<Rightarrow> string option \<times> memoryCustomers" where
  "mc_Upsert subject cid r = (None, mset_key subject cid r)"

record pgCustomer =
  pcu_subject_id :: string
  pcu_stripe_customer_id :: string

definition pcu_Get :: "string \<Rightarrow> pgCustomer list \<Rightarrow> string + string option" where
  "pcu_Get subject t = Inr (map_option pcu_stripe_customer_id (List.find (\<lambda>row. pcu_subject_id row = subject) t))"

text \<open>The unique constraint on the customer id refuses to link it to a second subject.\<close>

definition pcu_Upsert :: "string \<Rightarrow> string \<Rightarrow> pgCustomer list \<Rightarrow> string option \<times> pgCustomer list" where
  "pcu_Upsert subject cid t =
     (if list_ex (\<lambda>row. pcu_stripe_customer_id row = cid \<and> pcu_subject_id row \<noteq> subject) t then (Some ''unique_violation'', t)
      else if list_ex (\<lambda>row. pcu_subject_id row = subject) t
        then (None, map (\<lambda>row. if pcu_subject_id row = subject then row\<lparr>pcu_stripe_customer_id := cid\<rparr> else row) t)
      else (None, t @ [\<lparr>pcu_subject_id = subject, pcu_stripe_customer_id = cid\<rparr>]))"

record 'c customerRepo =
  cu_Get :: "string \<Rightarrow> 'c \<Rightarrow> string + string option"
  cu_Upsert :: "string \<Rightarrow> string \<Rightarrow> 'c \<Rightarrow> string option \<times> 'c"

subsection \<open>Stripe objects and the client\<close>

record stripeSubItem =
  sit_ID :: string
  sit_Quantity :: int
  sit_Price :: "(string \<times> string) option"
  sit_CurrentPeriodStart :: int
  sit_CurrentPeriodEnd :: int

record stripeSub =
  ss_SubID :: string
  ss_Status :: string
  ss_SubMetadata :: "(string, string) gomap"
  ss_CancelAtPeriodEnd :: bool
  ss_Created :: int
  ss_Customer :: "string option"
  ss_Items :: "stripeSubItem list"
  ss_CanceledAt :: int
  ss_EndedAt :: int
  ss_TrialEnd :: int

record stripeTaxID =
  stx_ID :: string
  stx_Type :: string
  stx_Value :: string
  stx_Country :: string
  stx_Created :: int
  stx_Verification :: "(string \<times> string) option"

record 's stripeClient =
  sc_CustomerMetadata :: "string \<Rightarrow> 's \<Rightarrow> string + (string, string) gomap"
  sc_StampCustomer :: "string \<Rightarrow> string \<Rightarrow> string \<Rightarrow> 's \<Rightarrow> string option \<times> 's"
  sc_ListSubs :: "string \<Rightarrow> 's \<Rightarrow> stripeSub list \<times> string option"
  sc_StampSub :: "string \<Rightarrow> string \<Rightarrow> string \<Rightarrow> 's \<Rightarrow> (string + stripeSub) \<times> 's"
  sc_CancelSub :: "string \<Rightarrow> 's \<Rightarrow> string option \<times> 's"
  sc_DeleteCustomer :: "string \<Rightarrow> 's \<Rightarrow> string option \<times> 's"
  sc_CreateTaxID :: "string \<Rightarrow> string \<Rightarrow> string \<Rightarrow> string \<Rightarrow> 's \<Rightarrow> (string + stripeTaxID) \<times> 's"
  sc_ListTaxIDs :: "string \<Rightarrow> 's \<Rightarrow> stripeTaxID list \<times> string option"
  sc_DeleteTaxID :: "string \<Rightarrow> string \<Rightarrow> 's \<Rightarrow> string option \<times> 's"

record 'l creditBook =
  cb_ListBySubject :: "string \<Rightarrow> 'l \<Rightarrow> string + Grant list"
  cb_RevokeGrant :: "string \<Rightarrow> string \<Rightarrow> 'l \<Rightarrow> string option \<times> 'l"
  cb_AllBalances :: "string \<Rightarrow> 'l \<Rightarrow> string + (string, Balance) gomap"
  cb_History :: "string \<Rightarrow> time \<Rightarrow> 'l \<Rightarrow> string + LedgerEntry list"

record ('s, 'c, 'm, 'l, 'a) customersConfig =
  cc_Stripe :: "'s stripeClient"
  cc_CustomerRepo :: "'c customerRepo"
  cc_SubscriptionRepo :: "'m subsRepo option"
  cc_CreditRepo :: "'l creditBook option"
  cc_AppDataExporter :: "(string \<Rightarrow> 'a \<Rightarrow> string + (string, string) gomap) option"
  cc_AppDataForgetter :: "(string \<Rightarrow> 'a \<Rightarrow> string option \<times> 'a) option"
  cc_SubscriptionCanceler :: "(string \<Rightarrow> 's \<Rightarrow> string option \<times> 's) option"

datatype customersError =
    CustomersFieldInvalid string
  | ResolveFailed string string
  | NoStripeCustomer string
  | CancelSubsFailed string
  | ListGrantsFailed string
  | RevokeGrantFailed string string
  | CustomerDeleteFailed string
  | AppHookFailed string
  | CustomerRetrieveFailed string
  | ErrNamespaceConflict
  | StampFailed string
  | CustomerUpsertFailed string
  | BackfillFailed string
  | TaxIDFailed string
  | ExportFailed string string

definition resolveStripeID :: "('s, 'c, 'm, 'l, 'a) customersConfig \<Rightarrow> string \<Rightarrow> 'c \<Rightarrow> customersError + string" where
  "resolveStripeID cfg subject c =
     (case cu_Get (cc_CustomerRepo cfg) subject c of
        Inl e \<Rightarrow> Inl (ResolveFailed subject e)
      | Inr None \<Rightarrow> Inl (NoStripeCustomer subject)
      | Inr (Some cid) \<Rightarrow> Inr cid)"

subsection \<open>Erasure\<close>

record ForgetReport =
  fr_SubjectID :: string
  fr_StripeCustomerID :: string
  fr_StripeCustomerDeleted :: bool
  fr_SubscriptionsRevoked :: nat
  fr_CreditsForgotten :: nat
  fr_AppHookCalled :: bool
  fr_AppHookError :: "string option"

definition isTerminalStatus :: "string \<Rightarrow> bool" where
  "isTerminalStatus s \<longleftrightarrow> s = ''canceled'' \<or> s = ''incomplete_expired''"

fun cancelSubs :: "(string \<Rightarrow> 's \<Rightarrow> string option \<times> 's) \<Rightarrow> string list \<Rightarrow> ForgetReport \<Rightarrow> 's \<Rightarrow> string option \<times> ForgetReport \<times> 's" where
  "cancelSubs cancel [] report s = (None, report, s)"
| "cancelSubs cancel (sid # ids) report s =
     (case cancel sid s of
        (Some e, s') \<Rightarrow> (Some e, report, s')
      | (None, s') \<Rightarrow> cancelSubs cancel ids (report\<lparr>fr_SubscriptionsRevoked := fr_SubscriptionsRevoked report + 1\<rparr>) s')"

definition cancelActiveSubscriptions ::
  "('s, 'c, 'm, 'l, 'a) customersConfig \<Rightarrow> string \<Rightarrow> ForgetReport \<Rightarrow> 's \<Rightarrow> string option \<times> ForgetReport \<times> 's" where
  "cancelActiveSubscriptions cfg customerID report s =
     (case sc_ListSubs (cc_Stripe cfg) customerID s of
        (_, Some e) \<Rightarrow> (Some e, report, s)
      | (subs, None) \<Rightarrow>
          cancelSubs (case cc_SubscriptionCanceler cfg of Some f \<Rightarrow> f | None \<Rightarrow> sc_CancelSub (cc_Stripe cfg))
            (map ss_SubID (filter (\<lambda>x. \<not> isTerminalStatus (ss_Status x)) subs)) report s)"

fun forgetGrants :: "'l creditBook \<Rightarrow> Grant list \<Rightarrow> ForgetReport \<Rightarrow> 'l \<Rightarrow> customersError option \<times> ForgetReport \<times> 'l" where
  "forgetGrants book [] report l = (None, report, l)"
| "forgetGrants book (g # gs) report l =
     (case cb_RevokeGrant book (g_ID g) ''gdpr_forget'' l of
        (Some e, l') \<Rightarrow> (Some (RevokeGrantFailed (g_ID g) e), report, l')
      | (None, l') \<Rightarrow> forgetGrants book gs (report\<lparr>fr_CreditsForgotten := fr_CreditsForgotten report + 1\<rparr>) l')"

definition forgetCredits ::
  "('s, 'c, 'm, 'l, 'a) customersConfig \<Rightarrow> string \<Rightarrow> ForgetReport \<Rightarrow> 'l \<Rightarrow> customersError option \<times> ForgetReport \<times> 'l" where
  "forgetCredits cfg subject report l =
     (case cc_CreditRepo cfg of
        None \<Rightarrow> (None, report, l)
      | Some book \<Rightarrow>
          (case cb_ListBySubject book subject l of
             Inl e \<Rightarrow> (Some (ListGrantsFailed e), report, l)
           | Inr gs \<Rightarrow> forgetGrants book gs report l))"

text \<open>The states after \<open>Forget\<close>: Stripe's, the ledger's and the app's. The mapping is only read.\<close>

definition Forget ::
  "('s, 'c, 'm, 'l, 'a) customersConfig \<Rightarrow> string \<Rightarrow> 's \<Rightarrow> 'c \<Rightarrow> 'l \<Rightarrow> 'a \<Rightarrow>
    (ForgetReport option \<times> customersError option) \<times> 's \<times> 'l \<times> 'a" where
  "Forget cfg subject s c l a =
     (case resolveStripeID cfg subject c of
        Inl e \<Rightarrow> ((None, Some e), s, l, a)
      | Inr stripeID \<Rightarrow>
          (case cancelActiveSubscriptions cfg stripeID
              \<lparr>fr_SubjectID = subject, fr_StripeCustomerID = stripeID, fr_StripeCustomerDeleted = False, fr_SubscriptionsRevoked = 0,
               fr_CreditsForgotten = 0, fr_AppHookCalled = False, fr_AppHookError = None\<rparr> s of
             (Some e, report, s1) \<Rightarrow> ((Some report, Some (CancelSubsFailed e)), s1, l, a)
           | (None, report, s1) \<Rightarrow>
               (case forgetCredits cfg subject report l of
                  (Some e, report1, l1) \<Rightarrow> ((Some report1, Some e), s1, l1, a)
                | (None, report1, l1) \<Rightarrow>
                    (case sc_DeleteCustomer (cc_Stripe cfg) stripeID s1 of
                       (Some e, s2) \<Rightarrow> ((Some report1, Some (CustomerDeleteFailed e)), s2, l1, a)
                     | (None, s2) \<Rightarrow>
                         (let report2 = report1\<lparr>fr_StripeCustomerDeleted := True\<rparr>
                          in case cc_AppDataForgetter cfg of
                               None \<Rightarrow> ((Some report2, None), s2, l1, a)
                             | Some forget \<Rightarrow>
                                 (case forget subject a of
                                    (Some e, a1) \<Rightarrow>
                                      ((Some (report2\<lparr>fr_AppHookCalled := True, fr_AppHookError := Some e\<rparr>), Some (AppHookFailed e)), s2, l1, a1)
                                  | (None, a1) \<Rightarrow> ((Some (report2\<lparr>fr_AppHookCalled := True\<rparr>), None), s2, l1, a1)))))))"

subsection \<open>Import\<close>

record ImportCustomerInput =
  ici_SubjectID :: string
  ici_StripeCustomerID :: string
  ici_Namespace :: string
  ici_AdoptNamespace :: bool
  ici_BackfillSubscriptions :: bool

record ImportCustomerResult =
  icr_SubjectID :: string
  icr_StripeCustomerID :: string
  icr_NamespaceStamped :: bool
  icr_PreviouslyHadDifferentNS :: bool
  icr_PreviousNamespace :: string
  icr_SubscriptionsBackfilled :: nat

definition positiveTime :: "int \<Rightarrow> time option" where
  "positiveTime u = (if u > 0 then Some (unixTime u) else None)"

definition importedItem :: "stripeSubItem \<Rightarrow> SubscriptionItem" where
  "importedItem it =
     \<lparr>si_StripeID = sit_ID it,
      si_PriceKey = (case sit_Price it of
          None \<Rightarrow> ''''
        | Some (pid, lookupKey) \<Rightarrow> if lookupKey \<noteq> '''' then lookupKey else ''stripe:'' @ pid),
      si_Quantity = sit_Quantity it\<rparr>"

definition importItem :: "stripeSubItem \<Rightarrow> Subscription \<Rightarrow> Subscription" where
  "importItem it sub =
     (let sub' = sub\<lparr>sub_Items := sub_Items sub @ [importedItem it]\<rparr>
      in if sub_CurrentPeriodStart sub' = zero_time \<and> sit_CurrentPeriodStart it > 0
         then sub'\<lparr>sub_CurrentPeriodStart := unixTime (sit_CurrentPeriodStart it), sub_CurrentPeriodEnd := unixTime (sit_CurrentPeriodEnd it)\<rparr>
         else sub')"

definition projectImportedSubscription :: "string \<Rightarrow> stripeSub \<Rightarrow> Subscription" where
  "projectImportedSubscription subject x =
     (fold importItem (ss_Items x)
       \<lparr>sub_StripeID = ss_SubID x, sub_SubjectID = subject,
        sub_StripeCustomerID = (case ss_Customer x of None \<Rightarrow> '''' | Some cid \<Rightarrow> cid),
        sub_Status = ss_Status x, sub_Items = [], sub_CurrentPeriodStart = zero_time, sub_CurrentPeriodEnd = zero_time,
        sub_CancelAtPeriodEnd = ss_CancelAtPeriodEnd x, sub_CanceledAt = None, sub_EndedAt = None, sub_TrialStart = None,
        sub_TrialEnd = None, sub_Metadata = ss_SubMetadata x, sub_UpdatedAt = unixTime (ss_Created x),
        sub_StripeUpdatedAt = unixTime (ss_Created x), sub_LatestInvoice = None\<rparr>)
      \<lparr>sub_CanceledAt := positiveTime (ss_CanceledAt x), sub_EndedAt := positiveTime (ss_EndedAt x),
       sub_TrialEnd := positiveTime (ss_TrialEnd x)\<rparr>"

text \<open>The loop over the listed subscriptions: the failure of the listing comes after the items it yielded.\<close>

fun backfillLoop ::
  "(string \<Rightarrow> string) \<Rightarrow> string option \<Rightarrow> 's stripeClient \<Rightarrow> 'm subsRepo \<Rightarrow> string \<Rightarrow> string \<Rightarrow> string option \<Rightarrow>
    stripeSub list \<Rightarrow> nat \<Rightarrow> 's \<Rightarrow> 'm \<Rightarrow> (string option \<times> nat) \<times> 's \<times> 'm" where
  "backfillLoop sha256 ctx client mirror subject namespace failure [] n0 s m = ((failure, n0), s, m)"
| "backfillLoop sha256 ctx client mirror subject namespace failure (x # xs) n0 s m =
     (let (stamped, s1) =
            (if map_of (ss_SubMetadata x) MetadataKeyNamespace = Some namespace then (Inr x, s)
             else sc_StampSub client
               (ApplyIdempotencyKey sha256 ctx ''customers.import.stamp_sub'' [ss_SubID x, namespace]) (ss_SubID x) namespace s)
      in case stamped of
           Inl e \<Rightarrow> ((Some e, n0), s1, m)
         | Inr x' \<Rightarrow>
             (case sr_Upsert mirror (projectImportedSubscription subject x') m of
                (Some e, m1) \<Rightarrow> ((Some e, n0), s1, m1)
              | (None, m1) \<Rightarrow> backfillLoop sha256 ctx client mirror subject namespace failure xs (n0 + 1) s1 m1))"

definition backfillSubscriptions ::
  "(string \<Rightarrow> string) \<Rightarrow> string option \<Rightarrow> 's stripeClient \<Rightarrow> 'm subsRepo \<Rightarrow> string \<Rightarrow> string \<Rightarrow> string \<Rightarrow> 's \<Rightarrow> 'm \<Rightarrow>
    (string option \<times> nat) \<times> 's \<times> 'm" where
  "backfillSubscriptions sha256 ctx client mirror subject customerID namespace s m =
     (let (subs, failure) = sc_ListSubs client customerID s
      in backfillLoop sha256 ctx client mirror subject namespace failure subs 0 s m)"

definition explicitOptOut :: "ImportCustomerInput \<Rightarrow> bool" where
  "explicitOptOut inp = (\<not> ici_BackfillSubscriptions inp)"

definition importMapped ::
  "(string \<Rightarrow> string) \<Rightarrow> string option \<Rightarrow> ('s, 'c, 'm, 'l, 'a) customersConfig \<Rightarrow> ImportCustomerInput \<Rightarrow> ImportCustomerResult \<Rightarrow>
    's \<Rightarrow> 'c \<Rightarrow> 'm \<Rightarrow> (ImportCustomerResult option \<times> customersError option) \<times> 's \<times> 'c \<times> 'm" where
  "importMapped sha256 ctx cfg inp result s c m =
     (case cu_Upsert (cc_CustomerRepo cfg) (ici_SubjectID inp) (ici_StripeCustomerID inp) c of
        (Some e, c1) \<Rightarrow> ((Some result, Some (CustomerUpsertFailed e)), s, c1, m)
      | (None, c1) \<Rightarrow>
          (case cc_SubscriptionRepo cfg of
             None \<Rightarrow> ((Some result, None), s, c1, m)
           | Some mirror \<Rightarrow>
               if ici_BackfillSubscriptions inp \<or> \<not> explicitOptOut inp then
                 (case backfillSubscriptions sha256 ctx (cc_Stripe cfg) mirror (ici_SubjectID inp) (ici_StripeCustomerID inp)
                      (ici_Namespace inp) s m of
                    ((Some e, n), s1, m1) \<Rightarrow> ((Some result, Some (BackfillFailed e)), s1, c1, m1)
                  | ((None, n), s1, m1) \<Rightarrow> ((Some (result\<lparr>icr_SubscriptionsBackfilled := n\<rparr>), None), s1, c1, m1))
               else ((Some result, None), s, c1, m)))"

definition ImportCustomer ::
  "(string \<Rightarrow> string) \<Rightarrow> string option \<Rightarrow> ('s, 'c, 'm, 'l, 'a) customersConfig \<Rightarrow> ImportCustomerInput \<Rightarrow> 's \<Rightarrow> 'c \<Rightarrow> 'm \<Rightarrow>
    (ImportCustomerResult option \<times> customersError option) \<times> 's \<times> 'c \<times> 'm" where
  "ImportCustomer sha256 ctx cfg inp s c m =
     (if ici_SubjectID inp = '''' then ((None, Some (CustomersFieldInvalid ''SubjectID'')), s, c, m)
      else if ici_StripeCustomerID inp = '''' then ((None, Some (CustomersFieldInvalid ''StripeCustomerID'')), s, c, m)
      else if ici_Namespace inp = '''' then ((None, Some (CustomersFieldInvalid ''Namespace'')), s, c, m)
      else
        let result = \<lparr>icr_SubjectID = ici_SubjectID inp, icr_StripeCustomerID = ici_StripeCustomerID inp, icr_NamespaceStamped = False,
              icr_PreviouslyHadDifferentNS = False, icr_PreviousNamespace = '''', icr_SubscriptionsBackfilled = 0\<rparr>
        in case sc_CustomerMetadata (cc_Stripe cfg) (ici_StripeCustomerID inp) s of
             Inl e \<Rightarrow> ((None, Some (CustomerRetrieveFailed e)), s, c, m)
           | Inr md \<Rightarrow>
               (let existing = map_of md MetadataKeyNamespace;
                    marked = (case existing of
                        Some ns \<Rightarrow> if ns \<noteq> ici_Namespace inp
                          then result\<lparr>icr_PreviouslyHadDifferentNS := True, icr_PreviousNamespace := ns\<rparr> else result
                      | None \<Rightarrow> result)
                in if existing = Some (ici_Namespace inp) then importMapped sha256 ctx cfg inp result s c m
                   else if existing \<noteq> None \<and> \<not> ici_AdoptNamespace inp then ((Some marked, Some ErrNamespaceConflict), s, c, m)
                   else (case sc_StampCustomer (cc_Stripe cfg)
                       (ApplyIdempotencyKey sha256 ctx ''customers.import.stamp'' [ici_StripeCustomerID inp, ici_Namespace inp])
                       (ici_StripeCustomerID inp) (ici_Namespace inp) s of
                      (Some e, s1) \<Rightarrow> ((Some result, Some (StampFailed e)), s1, c, m)
                    | (None, s1) \<Rightarrow> importMapped sha256 ctx cfg inp (marked\<lparr>icr_NamespaceStamped := True\<rparr>) s1 c m)))"

subsection \<open>Tax ids\<close>

record TaxID =
  tx_StripeID :: string
  tx_StripeCustomerID :: string
  tx_Type :: string
  tx_Value :: string
  tx_Country :: string
  tx_Verification :: string
  tx_VerificationName :: string
  tx_Created :: time

record AddTaxIDInput =
  ati_SubjectID :: string
  ati_Type :: string
  ati_Value :: string

definition projectTaxID :: "stripeTaxID \<Rightarrow> string \<Rightarrow> TaxID" where
  "projectTaxID t customerID =
     \<lparr>tx_StripeID = stx_ID t, tx_StripeCustomerID = customerID, tx_Type = stx_Type t, tx_Value = stx_Value t, tx_Country = stx_Country t,
      tx_Verification = (case stx_Verification t of None \<Rightarrow> '''' | Some v \<Rightarrow> fst v),
      tx_VerificationName = (case stx_Verification t of None \<Rightarrow> '''' | Some v \<Rightarrow> snd v),
      tx_Created = unixTime (stx_Created t)\<rparr>"

definition AddTaxID ::
  "(string \<Rightarrow> string) \<Rightarrow> string option \<Rightarrow> ('s, 'c, 'm, 'l, 'a) customersConfig \<Rightarrow> AddTaxIDInput \<Rightarrow> 's \<Rightarrow> 'c \<Rightarrow> (customersError + TaxID) \<times> 's" where
  "AddTaxID sha256 ctx cfg inp s c =
     (if ati_SubjectID inp = '''' then (Inl (CustomersFieldInvalid ''SubjectID''), s)
      else if ati_Type inp = '''' \<or> ati_Value inp = '''' then (Inl (CustomersFieldInvalid ''Type''), s)
      else case resolveStripeID cfg (ati_SubjectID inp) c of
        Inl e \<Rightarrow> (Inl e, s)
      | Inr stripeID \<Rightarrow>
          (case sc_CreateTaxID (cc_Stripe cfg)
              (ApplyIdempotencyKey sha256 ctx ''customers.tax_id.add'' [stripeID, ati_Type inp, ati_Value inp])
              stripeID (ati_Type inp) (ati_Value inp) s of
             (Inl e, s1) \<Rightarrow> (Inl (TaxIDFailed e), s1)
           | (Inr t, s1) \<Rightarrow> (Inr (projectTaxID t stripeID), s1)))"

definition ListTaxIDs :: "('s, 'c, 'm, 'l, 'a) customersConfig \<Rightarrow> string \<Rightarrow> 's \<Rightarrow> 'c \<Rightarrow> customersError + TaxID list" where
  "ListTaxIDs cfg subject s c =
     (case resolveStripeID cfg subject c of
        Inl e \<Rightarrow> Inl e
      | Inr stripeID \<Rightarrow>
          (case sc_ListTaxIDs (cc_Stripe cfg) stripeID s of
             (_, Some e) \<Rightarrow> Inl (TaxIDFailed e)
           | (ts, None) \<Rightarrow> Inr (map (\<lambda>t. projectTaxID t stripeID) ts)))"

definition RemoveTaxID ::
  "('s, 'c, 'm, 'l, 'a) customersConfig \<Rightarrow> string \<Rightarrow> string \<Rightarrow> 's \<Rightarrow> 'c \<Rightarrow> customersError option \<times> 's" where
  "RemoveTaxID cfg subject taxID s c =
     (if taxID = '''' then (Some (CustomersFieldInvalid ''taxIDStripeID''), s)
      else case resolveStripeID cfg subject c of
        Inl e \<Rightarrow> (Some e, s)
      | Inr stripeID \<Rightarrow>
          (let (err, s1) = sc_DeleteTaxID (cc_Stripe cfg) taxID stripeID s in (map_option TaxIDFailed err, s1)))"

subsection \<open>Export\<close>

record AddressSnapshot =
  as_Line1 :: string
  as_Line2 :: string
  as_City :: string
  as_State :: string
  as_PostalCode :: string
  as_Country :: string

record stripeCustomer =
  sct_ID :: string
  sct_Email :: string
  sct_Name :: string
  sct_Description :: string
  sct_Phone :: string
  sct_Currency :: string
  sct_Balance :: int
  sct_Created :: int
  sct_Metadata :: "(string, string) gomap"
  sct_Address :: "AddressSnapshot option"

record CustomerSnapshot =
  cs_ID :: string
  cs_Email :: string
  cs_Name :: string
  cs_Description :: string
  cs_Phone :: string
  cs_Currency :: string
  cs_Balance :: int
  cs_Created :: time
  cs_Metadata :: "(string, string) gomap"
  cs_Address :: "AddressSnapshot option"

record SubscriptionSnapshot =
  ssn_ID :: string
  ssn_Status :: string
  ssn_CurrentPeriodEnd :: time
  ssn_CancelAtPeriodEnd :: bool
  ssn_Created :: time

record stripeInvoice =
  sin_ID :: string
  sin_Number :: string
  sin_Status :: string
  sin_Total :: int
  sin_Currency :: string
  sin_Created :: int
  sin_HostedInvoiceURL :: string
  sin_InvoicePDF :: string

record InvoiceSnapshot =
  ins_ID :: string
  ins_Number :: string
  ins_Status :: string
  ins_Total :: int
  ins_Currency :: string
  ins_Created :: time
  ins_HostedURL :: string
  ins_PDFURL :: string

record stripeCharge =
  sch_ID :: string
  sch_Amount :: int
  sch_Currency :: string
  sch_Status :: string
  sch_Paid :: bool
  sch_Refunded :: bool
  sch_Created :: int

record ChargeSnapshot =
  chs_ID :: string
  chs_Amount :: int
  chs_Currency :: string
  chs_Status :: string
  chs_Paid :: bool
  chs_Refunded :: bool
  chs_Created :: time

record TaxIDSnapshot =
  txs_ID :: string
  txs_Type :: string
  txs_Value :: string
  txs_Country :: string

record cardShape =
  cd_Last4 :: string
  cd_Brand :: string
  cd_ExpMonth :: int
  cd_ExpYear :: int

record stripePaymentMethod =
  spm_ID :: string
  spm_Type :: string
  spm_Card :: "cardShape option"

record PaymentMethodSnapshot =
  pms_ID :: string
  pms_Type :: string
  pms_Last4 :: string
  pms_Brand :: string
  pms_ExpMonth :: int
  pms_ExpYear :: int

definition projectCustomer :: "stripeCustomer \<Rightarrow> CustomerSnapshot" where
  "projectCustomer c =
     \<lparr>cs_ID = sct_ID c, cs_Email = sct_Email c, cs_Name = sct_Name c, cs_Description = sct_Description c, cs_Phone = sct_Phone c,
      cs_Currency = sct_Currency c, cs_Balance = sct_Balance c, cs_Created = unixTime (sct_Created c), cs_Metadata = sct_Metadata c,
      cs_Address = sct_Address c\<rparr>"

text \<open>The end of the period is that of the first item that has one.\<close>

definition projectSubscriptionSnapshot :: "stripeSub \<Rightarrow> SubscriptionSnapshot" where
  "projectSubscriptionSnapshot x =
     \<lparr>ssn_ID = ss_SubID x, ssn_Status = ss_Status x,
      ssn_CurrentPeriodEnd = (case List.find (\<lambda>it. sit_CurrentPeriodEnd it > 0) (ss_Items x) of
          None \<Rightarrow> zero_time | Some it \<Rightarrow> unixTime (sit_CurrentPeriodEnd it)),
      ssn_CancelAtPeriodEnd = ss_CancelAtPeriodEnd x, ssn_Created = unixTime (ss_Created x)\<rparr>"

definition projectInvoiceSnapshot :: "stripeInvoice \<Rightarrow> InvoiceSnapshot" where
  "projectInvoiceSnapshot i =
     \<lparr>ins_ID = sin_ID i, ins_Number = sin_Number i, ins_Status = sin_Status i, ins_Total = sin_Total i, ins_Currency = sin_Currency i,
      ins_Created = unixTime (sin_Created i), ins_HostedURL = sin_HostedInvoiceURL i, ins_PDFURL = sin_InvoicePDF i\<rparr>"

definition projectChargeSnapshot :: "stripeCharge \<Rightarrow> ChargeSnapshot" where
  "projectChargeSnapshot c =
     \<lparr>chs_ID = sch_ID c, chs_Amount = sch_Amount c, chs_Currency = sch_Currency c, chs_Status = sch_Status c, chs_Paid = sch_Paid c,
      chs_Refunded = sch_Refunded c, chs_Created = unixTime (sch_Created c)\<rparr>"

definition projectTaxIDSnapshot :: "stripeTaxID \<Rightarrow> TaxIDSnapshot" where
  "projectTaxIDSnapshot t =
     \<lparr>txs_ID = stx_ID t, txs_Type = stx_Type t, txs_Value = stx_Value t,
      txs_Country = (if stx_Country t \<noteq> '''' then stx_Country t else '''')\<rparr>"

definition projectPaymentMethodSnapshot :: "stripePaymentMethod \<Rightarrow> PaymentMethodSnapshot" where
  "projectPaymentMethodSnapshot p =
     (case spm_Card p of
        None \<Rightarrow> \<lparr>pms_ID = spm_ID p, pms_Type = spm_Type p, pms_Last4 = '''', pms_Brand = '''', pms_ExpMonth = 0, pms_ExpYear = 0\<rparr>
      | Some cd \<Rightarrow>
          \<lparr>pms_ID = spm_ID p, pms_Type = spm_Type p, pms_Last4 = cd_Last4 cd, pms_Brand = cd_Brand cd,
           pms_ExpMonth = cd_ExpMonth cd, pms_ExpYear = cd_ExpYear cd\<rparr>)"

record StripeCustomerExport =
  sx_Customer :: "CustomerSnapshot option"
  sx_Subscriptions :: "SubscriptionSnapshot list"
  sx_Invoices :: "InvoiceSnapshot list"
  sx_Charges :: "ChargeSnapshot list"
  sx_TaxIDs :: "TaxIDSnapshot list"
  sx_PaymentMethods :: "PaymentMethodSnapshot list"

text \<open>The listings of one customer that the export reads, each with the items before its end or failure.\<close>

record stripeListings =
  ls_Customer :: "string + stripeCustomer"
  ls_Subscriptions :: "stripeSub list \<times> string option"
  ls_Invoices :: "stripeInvoice list \<times> string option"
  ls_Charges :: "stripeCharge list \<times> string option"
  ls_TaxIDs :: "stripeTaxID list \<times> string option"
  ls_Cards :: "stripePaymentMethod list \<times> string option"

text \<open>One loop: what was read is kept, and a failure ends the export.\<close>

definition thenList ::
  "('x list \<times> string option) \<Rightarrow> ('x list \<Rightarrow> 'o \<Rightarrow> 'o) \<Rightarrow> 'o \<times> string option \<Rightarrow> 'o \<times> string option" where
  "thenList listing keep out =
     (case snd out of Some e \<Rightarrow> out | None \<Rightarrow> (keep (fst listing) (fst out), snd listing))"

definition exportFromStripe :: "stripeListings \<Rightarrow> StripeCustomerExport \<times> string option" where
  "exportFromStripe ls =
     (let empty = \<lparr>sx_Customer = None, sx_Subscriptions = [], sx_Invoices = [], sx_Charges = [], sx_TaxIDs = [], sx_PaymentMethods = []\<rparr>
      in case ls_Customer ls of
           Inl e \<Rightarrow> (empty, Some e)
         | Inr c \<Rightarrow>
             thenList (ls_Cards ls) (\<lambda>xs out. out\<lparr>sx_PaymentMethods := map projectPaymentMethodSnapshot xs\<rparr>)
            (thenList (ls_TaxIDs ls) (\<lambda>xs out. out\<lparr>sx_TaxIDs := map projectTaxIDSnapshot xs\<rparr>)
            (thenList (ls_Charges ls) (\<lambda>xs out. out\<lparr>sx_Charges := map projectChargeSnapshot xs\<rparr>)
            (thenList (ls_Invoices ls) (\<lambda>xs out. out\<lparr>sx_Invoices := map projectInvoiceSnapshot xs\<rparr>)
            (thenList (ls_Subscriptions ls) (\<lambda>xs out. out\<lparr>sx_Subscriptions := map projectSubscriptionSnapshot xs\<rparr>)
              (empty\<lparr>sx_Customer := Some (projectCustomer c)\<rparr>, None))))))"

record CreditsExport =
  cx_Balances :: "(string, int) gomap"
  cx_Grants :: "Grant list"
  cx_History :: "LedgerEntry list"

definition exportCredits :: "'l creditBook \<Rightarrow> string \<Rightarrow> 'l \<Rightarrow> string + CreditsExport" where
  "exportCredits book subject l =
     (case cb_AllBalances book subject l of
        Inl e \<Rightarrow> Inl e
      | Inr balances \<Rightarrow>
          (case cb_ListBySubject book subject l of
             Inl e \<Rightarrow> Inl e
           | Inr gs \<Rightarrow>
               Inr \<lparr>cx_Balances = map (\<lambda>(bucket, b). (bucket, b_Total b)) balances, cx_Grants = gs,
                    cx_History = (case cb_History book subject zero_time l of Inl _ \<Rightarrow> [] | Inr h \<Rightarrow> h)\<rparr>))"

record Export =
  ex_SubjectID :: string
  ex_StripeCustomerID :: string
  ex_GeneratedAt :: time
  ex_Stripe :: StripeCustomerExport
  ex_Subscriptions :: "Subscription list"
  ex_Credits :: "CreditsExport option"
  ex_App :: "(string, string) gomap"

definition exportApp ::
  "('s, 'c, 'm, 'l, 'a) customersConfig \<Rightarrow> string \<Rightarrow> 'a \<Rightarrow> Export \<Rightarrow> Export option \<times> customersError option" where
  "exportApp cfg subject a out =
     (case cc_AppDataExporter cfg of
        None \<Rightarrow> (Some out, None)
      | Some f \<Rightarrow> (case f subject a of Inl e \<Rightarrow> (Some out, Some (ExportFailed ''app-side'' e)) | Inr d \<Rightarrow> (Some (out\<lparr>ex_App := d\<rparr>), None)))"

definition exportLedger ::
  "('s, 'c, 'm, 'l, 'a) customersConfig \<Rightarrow> string \<Rightarrow> 'l \<Rightarrow> 'a \<Rightarrow> Export \<Rightarrow> Export option \<times> customersError option" where
  "exportLedger cfg subject l a out =
     (case cc_CreditRepo cfg of
        None \<Rightarrow> exportApp cfg subject a out
      | Some book \<Rightarrow>
          (case exportCredits book subject l of
             Inl e \<Rightarrow> (Some out, Some (ExportFailed ''credits'' e))
           | Inr cx \<Rightarrow> exportApp cfg subject a (out\<lparr>ex_Credits := Some cx\<rparr>)))"

definition customers_Export ::
  "('s, 'c, 'm, 'l, 'a) customersConfig \<Rightarrow> (string \<Rightarrow> 's \<Rightarrow> stripeListings) \<Rightarrow> time \<Rightarrow> string \<Rightarrow> 's \<Rightarrow> 'c \<Rightarrow> 'm \<Rightarrow> 'l \<Rightarrow> 'a \<Rightarrow>
    Export option \<times> customersError option" where
  "customers_Export cfg listings now subject s c m l a =
     (case resolveStripeID cfg subject c of
        Inl e \<Rightarrow> (None, Some e)
      | Inr stripeID \<Rightarrow>
          (let (sx, err) = exportFromStripe (listings stripeID s);
               out = \<lparr>ex_SubjectID = subject, ex_StripeCustomerID = stripeID, ex_GeneratedAt = now, ex_Stripe = sx,
                 ex_Subscriptions = [], ex_Credits = None, ex_App = []\<rparr>
           in case err of
                Some e \<Rightarrow> (Some out, Some (ExportFailed ''stripe-side'' e))
              | None \<Rightarrow>
                  (case cc_SubscriptionRepo cfg of
                     None \<Rightarrow> exportLedger cfg subject l a out
                   | Some mirror \<Rightarrow>
                       (case sr_ListBySubject mirror subject m of
                          Inl e \<Rightarrow> (Some out, Some (ExportFailed ''subscription mirror'' e))
                        | Inr subs \<Rightarrow> exportLedger cfg subject l a (out\<lparr>ex_Subscriptions := subs\<rparr>)))))"

end
