(* ===== verification/Checkout.thy ===== *)
theory Checkout
  imports Customers Catalog_Sync Credit_Handlers
begin

text \<open>
  Package \<open>checkout\<close> (\<open>types.go\<close>, \<open>backend.go\<close>, \<open>checkout.go\<close>, \<open>portal.go\<close>, \<open>customer_balance.go\<close>) and its Stripe adapter
  \<open>stripeapi/checkout_backend.go\<close>. The package calls a \<open>Backend\<close>, a record of functions on Stripe's state; the adapter builds one
  from the calls of the Stripe client, which are parameters: each takes the idempotency key and the parameters of the request. A
  pointer that may be nil is an option.
\<close>

subsection \<open>Inputs and requests\<close>

record CustomAmount =
  ca_Currency :: string
  ca_Min :: int
  ca_Max :: int
  ca_Preset :: int
  ca_Name :: string
  ca_TaxCategory :: string

record LineItem =
  li_PriceKey :: string
  li_Quantity :: int
  li_CustomAmount :: "CustomAmount option"

record SessionDefaults =
  sd_AutomaticTax :: "bool option"
  sd_TaxIDCollection :: "bool option"
  sd_BillingAddressCollection :: string
  sd_CustomerUpdateAddress :: string
  sd_CustomerUpdateName :: string
  sd_AllowPromotionCodes :: "bool option"
  sd_RequirePaymentMethodForTrial :: "bool option"

record Input =
  ci_SubjectID :: string
  ci_Actor :: string
  ci_CustomerEmail :: string
  ci_LineItems :: "LineItem list"
  ci_SuccessURL :: string
  ci_CancelURL :: string
  ci_PromoCode :: string
  ci_PromoCodeID :: string
  ci_Metadata :: "(string, string) gomap"
  ci_PaymentMethods :: "string list"
  ci_UIMode :: string
  ci_ReturnURL :: string
  ci_Defaults :: SessionDefaults
  ci_TrialDays :: int
  ci_Locale :: string

definition UIModeEmbedded :: string where
  "UIModeEmbedded = ''embedded''"

definition ModeSubscription :: string where
  "ModeSubscription = ''subscription''"

definition ModePayment :: string where
  "ModePayment = ''payment''"

record Session =
  se_SessionID :: string
  se_URL :: string
  se_ClientSecret :: string

record CustomerCreate =
  ccr_SubjectID :: string
  ccr_Email :: string
  ccr_Metadata :: "(string, string) gomap"

record SessionLineItem =
  sl_StripePriceID :: string
  sl_Quantity :: int
  sl_CustomAmount :: "CustomAmount option"

record SessionCreate =
  scr_StripeCustomerID :: string
  scr_Mode :: string
  scr_LineItems :: "SessionLineItem list"
  scr_SuccessURL :: string
  scr_CancelURL :: string
  scr_ClientReference :: string
  scr_PromoCode :: string
  scr_PromoCodeID :: string
  scr_Metadata :: "(string, string) gomap"
  scr_PaymentMethods :: "string list"
  scr_UIMode :: string
  scr_ReturnURL :: string
  scr_Defaults :: SessionDefaults
  scr_TrialDays :: int
  scr_Locale :: string

record PortalFlow =
  pf_Type :: string
  pf_SubscriptionID :: string

definition PortalFlowSubscriptionCancel :: string where
  "PortalFlowSubscriptionCancel = ''subscription_cancel''"

definition PortalFlowSubscriptionUpdate :: string where
  "PortalFlowSubscriptionUpdate = ''subscription_update''"

definition PortalFlowPaymentMethodUpdate :: string where
  "PortalFlowPaymentMethodUpdate = ''payment_method_update''"

record PortalInput =
  pi_SubjectID :: string
  pi_ReturnURL :: string
  pi_Flow :: "PortalFlow option"

record PortalSessionCreate =
  psc_StripeCustomerID :: string
  psc_ReturnURL :: string
  psc_Flow :: "PortalFlow option"

record PortalSession =
  ps_ID :: string
  ps_URL :: string

record CustomerBalance =
  cba_StripeCustomerID :: string
  cba_Currency :: string
  cba_Balance :: int

record CustomerBalanceTransaction =
  cbt_StripeID :: string
  cbt_Type :: string
  cbt_Amount :: int
  cbt_Currency :: string
  cbt_Description :: string
  cbt_InvoiceID :: string
  cbt_CreatedAt :: time

record 's balanceBackend =
  bb_Adjust :: "string \<Rightarrow> int \<Rightarrow> string \<Rightarrow> string \<Rightarrow> 's \<Rightarrow> (string + CustomerBalanceTransaction) \<times> 's"
  bb_Get :: "string \<Rightarrow> 's \<Rightarrow> string + CustomerBalance"
  bb_List :: "string \<Rightarrow> int \<Rightarrow> 's \<Rightarrow> string + CustomerBalanceTransaction list"

record 's checkoutBackend =
  be_CreateCustomer :: "CustomerCreate \<Rightarrow> 's \<Rightarrow> (string + string) \<times> 's"
  be_CreateCheckoutSession :: "SessionCreate \<Rightarrow> 's \<Rightarrow> (string + Session) \<times> 's"
  be_CreatePortalSession :: "PortalSessionCreate \<Rightarrow> 's \<Rightarrow> (string + PortalSession) \<times> 's"
  be_Balance :: "'s balanceBackend option"

record ('s, 'c) checkoutConfig =
  co_Namespace :: string
  co_Spec :: Spec
  co_Resolver :: "string \<Rightarrow> string option"
  co_Customers :: "'c customerRepo"
  co_Backend :: "'s checkoutBackend"

datatype checkoutError =
    ErrSubjectMissing
  | ErrNoLineItems
  | ErrPriceKeyNotFound string
  | ErrMixedItemTypes
  | ErrMissingSuccessURL
  | ErrMissingCancelURL
  | ErrUnknownPriceInSpec string
  | ErrMissingReturnURL
  | ErrTrialDaysOutOfRange
  | ErrTrialOnPayment
  | ErrCustomAmountAndPrice
  | ErrCustomAmountInvalid
  | CustomersGetFailed string
  | CreateCustomerFailed string
  | CustomersUpsertFailed string
  | GrantMetadataFailed metadata_error
  | BackendFailed string
  | ErrPortalSubjectMissing
  | ErrPortalReturnURLMissing
  | ErrPortalCustomerUnknown
  | ErrPortalFlowSubscriptionMissing
  | BalanceArgumentInvalid string
  | BalanceUnsupported

subsection \<open>Creating a session\<close>

definition validateInput :: "Input \<Rightarrow> checkoutError option" where
  "validateInput inp =
     (if ci_SubjectID inp = '''' then Some ErrSubjectMissing
      else if ci_LineItems inp = [] then Some ErrNoLineItems
      else if ci_UIMode inp = UIModeEmbedded then (if ci_ReturnURL inp = '''' then Some ErrMissingReturnURL else None)
      else if ci_SuccessURL inp = '''' then Some ErrMissingSuccessURL
      else if ci_CancelURL inp = '''' then Some ErrMissingCancelURL
      else None)"

definition validateCustomAmount :: "CustomAmount \<Rightarrow> checkoutError option" where
  "validateCustomAmount ca =
     (if ca_Currency ca = '''' \<or> ca_Name ca = '''' \<or> ca_Min ca < 1 \<or> ca_Max ca < ca_Min ca then Some ErrCustomAmountInvalid
      else if ca_Preset ca \<noteq> 0 \<and> (ca_Preset ca < ca_Min ca \<or> ca_Preset ca > ca_Max ca) then Some ErrCustomAmountInvalid
      else None)"

text \<open>The scan for the dot of \<open>splitPriceKey\<close>: its index, if there is exactly one dot.\<close>

fun scanDot :: "string \<Rightarrow> nat \<Rightarrow> nat option \<Rightarrow> nat option" where
  "scanDot [] i dot = dot"
| "scanDot (c # cs) i dot =
     (if c = CHR ''.'' then (case dot of Some _ \<Rightarrow> None | None \<Rightarrow> scanDot cs (i + 1) (Some i)) else scanDot cs (i + 1) dot)"

definition splitPriceKey :: "string \<Rightarrow> (string \<times> string) option" where
  "splitPriceKey key =
     (case scanDot key 0 None of
        None \<Rightarrow> None
      | Some dot \<Rightarrow> if dot = 0 \<or> length key - 1 \<le> dot then None else Some (take dot key, drop (dot + 1) key))"

definition quantityOf :: "LineItem \<Rightarrow> int" where
  "quantityOf it = (if li_Quantity it = 0 then 1 else li_Quantity it)"

text \<open>One line item: what is sent, and whether it is recurring or one-time. A price of an unknown type is neither.\<close>

definition resolveItem ::
  "('s, 'c) checkoutConfig \<Rightarrow> LineItem \<Rightarrow> checkoutError + (SessionLineItem \<times> bool \<times> bool)" where
  "resolveItem cfg it =
     (case li_CustomAmount it of
        Some ca \<Rightarrow>
          if li_PriceKey it \<noteq> '''' then Inl ErrCustomAmountAndPrice
          else (case validateCustomAmount ca of
             Some e \<Rightarrow> Inl e
           | None \<Rightarrow> Inr (\<lparr>sl_StripePriceID = '''', sl_Quantity = quantityOf it, sl_CustomAmount = Some ca\<rparr>, False, True))
      | None \<Rightarrow>
          (case splitPriceKey (li_PriceKey it) of
             None \<Rightarrow> Inl (ErrPriceKeyNotFound (li_PriceKey it))
           | Some (productKey, priceKey) \<Rightarrow>
               (case map_of (sp_Products (co_Spec cfg)) productKey of
                  None \<Rightarrow> Inl (ErrUnknownPriceInSpec productKey)
                | Some product \<Rightarrow>
                    (case map_of (pd_Prices product) priceKey of
                       None \<Rightarrow> Inl (ErrUnknownPriceInSpec priceKey)
                     | Some specPrice \<Rightarrow>
                         (let namespaced = NamespacedPriceKey (co_Spec cfg) productKey priceKey
                          in case co_Resolver cfg namespaced of
                               None \<Rightarrow> Inl (ErrPriceKeyNotFound namespaced)
                             | Some stripeID \<Rightarrow>
                                 Inr (\<lparr>sl_StripePriceID = stripeID, sl_Quantity = quantityOf it, sl_CustomAmount = None\<rparr>,
                                      pr_Type specPrice = PriceTypeRecurring \<or> pr_Type specPrice = '''',
                                      pr_Type specPrice = PriceTypeOneTime))))))"

fun resolveLoop ::
  "('s, 'c) checkoutConfig \<Rightarrow> LineItem list \<Rightarrow> SessionLineItem list \<Rightarrow> bool \<Rightarrow> bool \<Rightarrow>
    checkoutError + (SessionLineItem list \<times> bool \<times> bool)" where
  "resolveLoop cfg [] out sawRecurring sawOneTime = Inr (out, sawRecurring, sawOneTime)"
| "resolveLoop cfg (it # its) out sawRecurring sawOneTime =
     (case resolveItem cfg it of
        Inl e \<Rightarrow> Inl e
      | Inr (sl, recurring, oneTime) \<Rightarrow> resolveLoop cfg its (out @ [sl]) (sawRecurring \<or> recurring) (sawOneTime \<or> oneTime))"

definition resolveLineItems :: "('s, 'c) checkoutConfig \<Rightarrow> LineItem list \<Rightarrow> checkoutError + (SessionLineItem list \<times> string)" where
  "resolveLineItems cfg items =
     (case resolveLoop cfg items [] False False of
        Inl e \<Rightarrow> Inl e
      | Inr (out, sawRecurring, sawOneTime) \<Rightarrow>
          if sawRecurring \<and> sawOneTime then Inl ErrMixedItemTypes
          else Inr (out, if sawOneTime then ModePayment else ModeSubscription))"

definition resolveCustomer ::
  "('s, 'c) checkoutConfig \<Rightarrow> string \<Rightarrow> string \<Rightarrow> 's \<Rightarrow> 'c \<Rightarrow> (checkoutError + string) \<times> 's \<times> 'c" where
  "resolveCustomer cfg subject email s c =
     (case cu_Get (co_Customers cfg) subject c of
        Inl e \<Rightarrow> (Inl (CustomersGetFailed e), s, c)
      | Inr (Some cid) \<Rightarrow> (Inr cid, s, c)
      | Inr None \<Rightarrow>
          (case be_CreateCustomer (co_Backend cfg)
              \<lparr>ccr_SubjectID = subject, ccr_Email = email,
               ccr_Metadata = [(MetadataKeyNamespace, co_Namespace cfg), (''subject_id'', subject)]\<rparr> s of
             (Inl e, s1) \<Rightarrow> (Inl (CreateCustomerFailed e), s1, c)
           | (Inr created, s1) \<Rightarrow>
               (case cu_Upsert (co_Customers cfg) subject created c of
                  (Some e, c1) \<Rightarrow> (Inl (CustomersUpsertFailed e), s1, c1)
                | (None, c1) \<Rightarrow> (Inr created, s1, c1))))"

definition pendingGrantOf :: "Spec \<Rightarrow> LineItem \<Rightarrow> PendingGrant option" where
  "pendingGrantOf spec it =
     (case splitPriceKey (li_PriceKey it) of
        None \<Rightarrow> None
      | Some (productKey, _) \<Rightarrow>
          (case map_of (sp_Products spec) productKey of
             None \<Rightarrow> None
           | Some product \<Rightarrow>
               map_option (\<lambda>cg. \<lparr>pg_Bucket = cg_Bucket cg, pg_Amount = cg_Amount cg, pg_ValidDays = cg_ValidDays cg,
                 pg_ProductKey = productKey, pg_Quantity = quantityOf it\<rparr>) (pd_CreditGrant product)))"

definition collectPendingGrants :: "Spec \<Rightarrow> LineItem list \<Rightarrow> PendingGrant list" where
  "collectPendingGrants spec items = List.map_filter (pendingGrantOf spec) items"

definition sessionMetadata :: "('s, 'c) checkoutConfig \<Rightarrow> Input \<Rightarrow> checkoutError + (string, string) gomap" where
  "sessionMetadata cfg inp =
     (let out = mset_key ''subject_id'' (ci_SubjectID inp) (mset_key MetadataKeyNamespace (co_Namespace cfg) (ci_Metadata inp));
          out = (if ci_Actor inp \<noteq> '''' then mset_key ''actor_id'' (ci_Actor inp) out else out);
          pending = collectPendingGrants (co_Spec cfg) (ci_LineItems inp)
      in if pending \<noteq> [] then
           (case EncodeSessionMetadata pending of
              Inl e \<Rightarrow> Inl (GrantMetadataFailed e)
            | Inr encoded \<Rightarrow> Inr (mset_key SessionMetadataKey encoded out))
         else Inr out)"

definition CreateSession ::
  "('s, 'c) checkoutConfig \<Rightarrow> Input \<Rightarrow> 's \<Rightarrow> 'c \<Rightarrow> (checkoutError + Session) \<times> 's \<times> 'c" where
  "CreateSession cfg inp s c =
     (case validateInput inp of
        Some e \<Rightarrow> (Inl e, s, c)
      | None \<Rightarrow>
          (case resolveLineItems cfg (ci_LineItems inp) of
             Inl e \<Rightarrow> (Inl e, s, c)
           | Inr (resolved, mode) \<Rightarrow>
               if ci_TrialDays inp \<noteq> 0 \<and> (ci_TrialDays inp < 1 \<or> ci_TrialDays inp > 730) then (Inl ErrTrialDaysOutOfRange, s, c)
               else if ci_TrialDays inp \<noteq> 0 \<and> mode \<noteq> ModeSubscription then (Inl ErrTrialOnPayment, s, c)
               else (case resolveCustomer cfg (ci_SubjectID inp) (ci_CustomerEmail inp) s c of
                  (Inl e, s1, c1) \<Rightarrow> (Inl e, s1, c1)
                | (Inr customerID, s1, c1) \<Rightarrow>
                    (case sessionMetadata cfg inp of
                       Inl e \<Rightarrow> (Inl e, s1, c1)
                     | Inr md \<Rightarrow>
                         (case be_CreateCheckoutSession (co_Backend cfg)
                             \<lparr>scr_StripeCustomerID = customerID, scr_Mode = mode, scr_LineItems = resolved,
                              scr_SuccessURL = ci_SuccessURL inp, scr_CancelURL = ci_CancelURL inp, scr_ClientReference = ci_Actor inp,
                              scr_PromoCode = ci_PromoCode inp, scr_PromoCodeID = ci_PromoCodeID inp, scr_Metadata = md,
                              scr_PaymentMethods = ci_PaymentMethods inp, scr_UIMode = ci_UIMode inp, scr_ReturnURL = ci_ReturnURL inp,
                              scr_Defaults = ci_Defaults inp, scr_TrialDays = ci_TrialDays inp, scr_Locale = ci_Locale inp\<rparr> s1 of
                            (Inl e, s2) \<Rightarrow> (Inl (BackendFailed e), s2, c1)
                          | (Inr sess, s2) \<Rightarrow> (Inr sess, s2, c1))))))"

subsection \<open>The customer portal\<close>

definition CreatePortalSession :: "('s, 'c) checkoutConfig \<Rightarrow> PortalInput \<Rightarrow> 's \<Rightarrow> 'c \<Rightarrow> (checkoutError + PortalSession) \<times> 's" where
  "CreatePortalSession cfg inp s c =
     (if pi_SubjectID inp = '''' then (Inl ErrPortalSubjectMissing, s)
      else if pi_ReturnURL inp = '''' then (Inl ErrPortalReturnURLMissing, s)
      else if (case pi_Flow inp of
          None \<Rightarrow> False
        | Some f \<Rightarrow> (pf_Type f = PortalFlowSubscriptionCancel \<or> pf_Type f = PortalFlowSubscriptionUpdate) \<and> pf_SubscriptionID f = '''')
        then (Inl ErrPortalFlowSubscriptionMissing, s)
      else case cu_Get (co_Customers cfg) (pi_SubjectID inp) c of
        Inl e \<Rightarrow> (Inl (CustomersGetFailed e), s)
      | Inr None \<Rightarrow> (Inl ErrPortalCustomerUnknown, s)
      | Inr (Some cid) \<Rightarrow>
          apfst (map_sum BackendFailed (\<lambda>x. x)) (be_CreatePortalSession (co_Backend cfg)
            \<lparr>psc_StripeCustomerID = cid, psc_ReturnURL = pi_ReturnURL inp, psc_Flow = pi_Flow inp\<rparr> s))"

subsection \<open>The customer balance\<close>

definition AdjustCustomerBalance ::
  "('s, 'c) checkoutConfig \<Rightarrow> string \<Rightarrow> int \<Rightarrow> string \<Rightarrow> string \<Rightarrow> 's \<Rightarrow> (checkoutError + CustomerBalanceTransaction) \<times> 's" where
  "AdjustCustomerBalance cfg customerID amount currency description s =
     (if customerID = '''' then (Inl (BalanceArgumentInvalid ''customerID''), s)
      else if amount = 0 then (Inl (BalanceArgumentInvalid ''amount''), s)
      else if currency = '''' then (Inl (BalanceArgumentInvalid ''currency''), s)
      else case be_Balance (co_Backend cfg) of
        None \<Rightarrow> (Inl BalanceUnsupported, s)
      | Some be \<Rightarrow> apfst (map_sum BackendFailed (\<lambda>x. x)) (bb_Adjust be customerID amount currency description s))"

definition GetCustomerBalance :: "('s, 'c) checkoutConfig \<Rightarrow> string \<Rightarrow> 's \<Rightarrow> checkoutError + CustomerBalance" where
  "GetCustomerBalance cfg customerID s =
     (if customerID = '''' then Inl (BalanceArgumentInvalid ''customerID'')
      else case be_Balance (co_Backend cfg) of
        None \<Rightarrow> Inl BalanceUnsupported
      | Some be \<Rightarrow> map_sum BackendFailed (\<lambda>x. x) (bb_Get be customerID s))"

definition ListCustomerBalanceTransactions ::
  "('s, 'c) checkoutConfig \<Rightarrow> string \<Rightarrow> int \<Rightarrow> 's \<Rightarrow> checkoutError + CustomerBalanceTransaction list" where
  "ListCustomerBalanceTransactions cfg customerID limit s =
     (if customerID = '''' then Inl (BalanceArgumentInvalid ''customerID'')
      else case be_Balance (co_Backend cfg) of
        None \<Rightarrow> Inl BalanceUnsupported
      | Some be \<Rightarrow> map_sum BackendFailed (\<lambda>x. x) (bb_List be customerID limit s))"

end
