(* ===== verification/Checkout_Backend.thy ===== *)
theory Checkout_Backend
  imports Checkout
begin

text \<open>
  \<open>stripeapi/checkout_backend.go\<close>: the Stripe adapter behind \<open>checkout.Backend\<close>. A call of the Stripe client takes the idempotency
  key and the request's parameters; a parameter that is left out is \<open>None\<close>. Maps copied entry by entry are the map itself. The
  client's functions are the fields of \<open>checkoutClient\<close>, on Stripe's state.
\<close>

subsection \<open>Requests\<close>

record ResolvedSessionDefaults =
  rd_AutomaticTax :: bool
  rd_TaxIDCollection :: bool
  rd_BillingAddressCollection :: string
  rd_CustomerUpdateAddress :: string
  rd_CustomerUpdateName :: string
  rd_AllowPromotionCodes :: bool
  rd_RequirePaymentMethodForTrial :: bool

definition resolveBool :: "bool option \<Rightarrow> bool \<Rightarrow> bool" where
  "resolveBool v fallback = (case v of None \<Rightarrow> fallback | Some b \<Rightarrow> b)"

definition resolveString :: "string \<Rightarrow> string \<Rightarrow> string" where
  "resolveString v fallback = (if v = '''' then fallback else v)"

definition Resolve :: "SessionDefaults \<Rightarrow> ResolvedSessionDefaults" where
  "Resolve d =
     \<lparr>rd_AutomaticTax = resolveBool (sd_AutomaticTax d) True,
      rd_TaxIDCollection = resolveBool (sd_TaxIDCollection d) True,
      rd_BillingAddressCollection = resolveString (sd_BillingAddressCollection d) ''required'',
      rd_CustomerUpdateAddress = resolveString (sd_CustomerUpdateAddress d) ''auto'',
      rd_CustomerUpdateName = resolveString (sd_CustomerUpdateName d) ''auto'',
      rd_AllowPromotionCodes = resolveBool (sd_AllowPromotionCodes d) True,
      rd_RequirePaymentMethodForTrial = resolveBool (sd_RequirePaymentMethodForTrial d) True\<rparr>"

record sessionParams =
  ssp_Mode :: string
  ssp_Customer :: string
  ssp_AutomaticTax :: bool
  ssp_TaxIDCollection :: bool
  ssp_BillingAddressCollection :: string
  ssp_CustomerUpdateAddress :: string
  ssp_CustomerUpdateName :: string
  ssp_AllowPromotionCodes :: bool
  ssp_Locale :: "string option"
  ssp_UIMode :: "string option"
  ssp_ReturnURL :: "string option"
  ssp_SuccessURL :: "string option"
  ssp_CancelURL :: "string option"
  ssp_ClientReferenceID :: "string option"
  ssp_PaymentMethodTypes :: "string list"
  ssp_Discounts :: "string list"
  ssp_Metadata :: "(string, string) gomap"
  ssp_SubscriptionData :: "((string, string) gomap \<times> int option) option"
  ssp_PaymentMethodCollection :: "string option"
  ssp_PaymentIntentData :: "(string, string) gomap option"
  ssp_LineItems :: "(string \<times> int) list"

record priceParams =
  pp_Currency :: string
  pp_ProductName :: string
  pp_TaxCode :: string
  pp_ProductMetadata :: "(string, string) gomap"
  pp_Minimum :: int
  pp_Maximum :: int
  pp_Preset :: "int option"
  pp_Metadata :: "(string, string) gomap"

record portalParams =
  po_Customer :: string
  po_ReturnURL :: string
  po_FlowData :: "(string \<times> string option \<times> string option) option"

record stripeBalanceTx =
  sbt_ID :: string
  sbt_Type :: string
  sbt_Amount :: int
  sbt_Currency :: string
  sbt_Description :: string
  sbt_Created :: int
  sbt_Invoice :: "string option"

record 's checkoutClient =
  cl_CreateCustomer :: "string \<Rightarrow> string option \<times> (string, string) gomap \<Rightarrow> 's \<Rightarrow> (string + string) \<times> 's"
  cl_CreateSession :: "string \<Rightarrow> sessionParams \<Rightarrow> 's \<Rightarrow> (string + Session) \<times> 's"
  cl_CreatePrice :: "string \<Rightarrow> priceParams \<Rightarrow> 's \<Rightarrow> (string + string) \<times> 's"
  cl_ArchivePrice :: "string \<Rightarrow> 's \<Rightarrow> string option \<times> 's"
  cl_CreateBalanceTx :: "string \<Rightarrow> string \<times> int \<times> string \<times> string \<Rightarrow> 's \<Rightarrow> (string + stripeBalanceTx) \<times> 's"
  cl_Customer :: "string \<Rightarrow> 's \<Rightarrow> string + (string \<times> int)"
  cl_ListBalanceTx :: "string \<Rightarrow> int \<Rightarrow> 's \<Rightarrow> stripeBalanceTx list \<times> string option"
  cl_CreatePortal :: "string \<Rightarrow> portalParams \<Rightarrow> 's \<Rightarrow> (string + PortalSession) \<times> 's"

subsection \<open>Customers\<close>

definition api_CreateCustomer ::
  "(string \<Rightarrow> string) \<Rightarrow> string option \<Rightarrow> 's checkoutClient \<Rightarrow> CustomerCreate \<Rightarrow> 's \<Rightarrow> (string + string) \<times> 's" where
  "api_CreateCustomer sha256 ctx cl p s =
     cl_CreateCustomer cl (ApplyIdempotencyKey sha256 ctx ''customer.create'' [CanonicalMap (ccr_Metadata p)])
       (if ccr_Email p \<noteq> '''' then Some (ccr_Email p) else None, ccr_Metadata p) s"

subsection \<open>Sessions\<close>

definition stripeMode :: "string \<Rightarrow> string" where
  "stripeMode m = (if m = ModeSubscription then ''subscription'' else ''payment'')"

definition canonicalItem :: "SessionLineItem \<Rightarrow> string" where
  "canonicalItem sl =
     sl_StripePriceID sl @ '':'' @ CanonicalInt64 (sl_Quantity sl) @
     (case sl_CustomAmount sl of
        None \<Rightarrow> ''''
      | Some ca \<Rightarrow> '':custom='' @ ca_Name ca @ ''/'' @ ca_Currency ca @ ''/'' @ CanonicalInt64 (ca_Min ca) @ ''-'' @
          CanonicalInt64 (ca_Max ca) @ ''@'' @ CanonicalInt64 (ca_Preset ca))"

definition canonicalLineItems :: "SessionLineItem list \<Rightarrow> string" where
  "canonicalLineItems items = CanonicalStrings (map canonicalItem items)"

definition createAdHocCustomPrice ::
  "(string \<Rightarrow> string) \<Rightarrow> string option \<Rightarrow> 's checkoutClient \<Rightarrow> (string, string) gomap \<Rightarrow> CustomAmount \<Rightarrow> 's \<Rightarrow> (string + string) \<times> 's" where
  "createAdHocCustomPrice sha256 ctx cl sessionMeta ca s =
     cl_CreatePrice cl
       (ApplyIdempotencyKey sha256 ctx ''price.create.adhoc''
         [ca_Name ca, ca_Currency ca, CanonicalInt64 (ca_Min ca), CanonicalInt64 (ca_Max ca), CanonicalInt64 (ca_Preset ca),
          CanonicalMap sessionMeta])
       \<lparr>pp_Currency = ca_Currency ca, pp_ProductName = ca_Name ca,
        pp_TaxCode = (if ca_TaxCategory ca = '''' then ''txcd_99999999'' else ca_TaxCategory ca), pp_ProductMetadata = sessionMeta,
        pp_Minimum = ca_Min ca, pp_Maximum = ca_Max ca, pp_Preset = (if ca_Preset ca > 0 then Some (ca_Preset ca) else None),
        pp_Metadata = sessionMeta\<rparr> s"

text \<open>A failed archive call is logged and the loop goes on.\<close>

definition archiveOrphanAdHocPrices :: "'s checkoutClient \<Rightarrow> string list \<Rightarrow> 's \<Rightarrow> 's" where
  "archiveOrphanAdHocPrices cl ids s = fold (\<lambda>i x. snd (cl_ArchivePrice cl i x)) ids s"

text \<open>The loop over the line items: the items of the request, the prices created for custom amounts, and the failure.\<close>

fun lineItemLoop ::
  "(string \<Rightarrow> string) \<Rightarrow> string option \<Rightarrow> 's checkoutClient \<Rightarrow> (string, string) gomap \<Rightarrow> SessionLineItem list \<Rightarrow>
    (string \<times> int) list \<Rightarrow> string list \<Rightarrow> 's \<Rightarrow> (string option \<times> (string \<times> int) list \<times> string list) \<times> 's" where
  "lineItemLoop sha256 ctx cl md [] out adHoc s = ((None, out, adHoc), s)"
| "lineItemLoop sha256 ctx cl md (sl # sls) out adHoc s =
     (case sl_CustomAmount sl of
        None \<Rightarrow> lineItemLoop sha256 ctx cl md sls (out @ [(sl_StripePriceID sl, sl_Quantity sl)]) adHoc s
      | Some ca \<Rightarrow>
          (case createAdHocCustomPrice sha256 ctx cl md ca s of
             (Inl e, s1) \<Rightarrow> ((Some e, out, adHoc), s1)
           | (Inr priceID, s1) \<Rightarrow>
               lineItemLoop sha256 ctx cl md sls (out @ [(priceID, sl_Quantity sl)]) (adHoc @ [priceID]) s1))"

text \<open>The request before its line items.\<close>

definition baseParams :: "SessionCreate \<Rightarrow> sessionParams" where
  "baseParams p =
     (let d = Resolve (scr_Defaults p);
          embedded = scr_UIMode p = UIModeEmbedded;
          subscription = scr_Mode p = ModeSubscription
      in \<lparr>ssp_Mode = stripeMode (scr_Mode p), ssp_Customer = scr_StripeCustomerID p, ssp_AutomaticTax = rd_AutomaticTax d,
          ssp_TaxIDCollection = rd_TaxIDCollection d, ssp_BillingAddressCollection = rd_BillingAddressCollection d,
          ssp_CustomerUpdateAddress = rd_CustomerUpdateAddress d, ssp_CustomerUpdateName = rd_CustomerUpdateName d,
          ssp_AllowPromotionCodes = rd_AllowPromotionCodes d \<and> scr_PromoCodeID p = '''',
          ssp_Locale = (if scr_Locale p \<noteq> '''' then Some (scr_Locale p) else None),
          ssp_UIMode = (if embedded then Some ''embedded'' else None),
          ssp_ReturnURL = (if embedded then Some (scr_ReturnURL p) else None),
          ssp_SuccessURL = (if embedded then None else Some (scr_SuccessURL p)),
          ssp_CancelURL = (if embedded then None else Some (scr_CancelURL p)),
          ssp_ClientReferenceID = (if scr_ClientReference p \<noteq> '''' then Some (scr_ClientReference p) else None),
          ssp_PaymentMethodTypes = scr_PaymentMethods p,
          ssp_Discounts = (if scr_PromoCodeID p \<noteq> '''' then [scr_PromoCodeID p] else []),
          ssp_Metadata = scr_Metadata p,
          ssp_SubscriptionData = (if subscription
            then Some (scr_Metadata p, if scr_TrialDays p > 0 then Some (scr_TrialDays p) else None) else None),
          ssp_PaymentMethodCollection = (if subscription \<and> scr_TrialDays p > 0 \<and> \<not> rd_RequirePaymentMethodForTrial d
            then Some ''if_required'' else None),
          ssp_PaymentIntentData = (if scr_Mode p = ModePayment then Some (scr_Metadata p) else None),
          ssp_LineItems = []\<rparr>)"

definition sessionKeyInputs :: "SessionCreate \<Rightarrow> string list" where
  "sessionKeyInputs p =
     [scr_StripeCustomerID p, scr_Mode p, scr_SuccessURL p, scr_CancelURL p, scr_ReturnURL p, scr_ClientReference p,
      CanonicalMap (scr_Metadata p), canonicalLineItems (scr_LineItems p)]"

definition api_CreateCheckoutSession ::
  "(string \<Rightarrow> string) \<Rightarrow> string option \<Rightarrow> 's checkoutClient \<Rightarrow> SessionCreate \<Rightarrow> 's \<Rightarrow> (string + Session) \<times> 's" where
  "api_CreateCheckoutSession sha256 ctx cl p s =
     (case lineItemLoop sha256 ctx cl (scr_Metadata p) (scr_LineItems p) [] [] s of
        ((Some e, _, adHoc), s1) \<Rightarrow> (Inl e, archiveOrphanAdHocPrices cl adHoc s1)
      | ((None, items, adHoc), s1) \<Rightarrow>
          (let base = baseParams p;
               params = base\<lparr>ssp_LineItems := items,
                 ssp_AllowPromotionCodes := ssp_AllowPromotionCodes base \<and> list_all (\<lambda>sl. sl_CustomAmount sl = None) (scr_LineItems p)\<rparr>
           in case cl_CreateSession cl (ApplyIdempotencyKey sha256 ctx ''checkout.session.create'' (sessionKeyInputs p)) params s1 of
                (Inl e, s2) \<Rightarrow> (Inl e, archiveOrphanAdHocPrices cl adHoc s2)
              | (Inr sess, s2) \<Rightarrow> (Inr sess, s2)))"

subsection \<open>The customer balance\<close>

definition projectBalanceTx :: "stripeBalanceTx \<Rightarrow> CustomerBalanceTransaction" where
  "projectBalanceTx tx =
     \<lparr>cbt_StripeID = sbt_ID tx, cbt_Type = sbt_Type tx, cbt_Amount = sbt_Amount tx, cbt_Currency = sbt_Currency tx,
      cbt_Description = sbt_Description tx, cbt_InvoiceID = (case sbt_Invoice tx of None \<Rightarrow> '''' | Some i \<Rightarrow> i),
      cbt_CreatedAt = unixTime (sbt_Created tx)\<rparr>"

definition api_AdjustCustomerBalance ::
  "(string \<Rightarrow> string) \<Rightarrow> string option \<Rightarrow> 's checkoutClient \<Rightarrow> string \<Rightarrow> int \<Rightarrow> string \<Rightarrow> string \<Rightarrow> 's \<Rightarrow>
    (string + CustomerBalanceTransaction) \<times> 's" where
  "api_AdjustCustomerBalance sha256 ctx cl customerID amount currency description s =
     apfst (map_sum (\<lambda>e. e) projectBalanceTx)
       (cl_CreateBalanceTx cl
         (ApplyIdempotencyKey sha256 ctx ''customer_balance_tx.create'' [customerID, CanonicalInt64 amount, currency, description])
         (customerID, amount, currency, description) s)"

definition api_GetCustomerBalance :: "'s checkoutClient \<Rightarrow> string \<Rightarrow> 's \<Rightarrow> string + CustomerBalance" where
  "api_GetCustomerBalance cl customerID s =
     map_sum (\<lambda>e. e) (\<lambda>(currency, balance). \<lparr>cba_StripeCustomerID = customerID, cba_Currency = currency, cba_Balance = balance\<rparr>)
       (cl_Customer cl customerID s)"

text \<open>The listing loop stops at the limit; a failure counts only when it is reached.\<close>

fun takeListing :: "int \<Rightarrow> ('a \<Rightarrow> 'b) \<Rightarrow> 'a list \<Rightarrow> string option \<Rightarrow> 'b list \<Rightarrow> string + 'b list" where
  "takeListing limit f [] failure out = (case failure of Some e \<Rightarrow> Inl e | None \<Rightarrow> Inr out)"
| "takeListing limit f (x # xs) failure out =
     (let out' = out @ [f x] in if int (length out') \<ge> limit then Inr out' else takeListing limit f xs failure out')"

definition api_ListCustomerBalanceTransactions ::
  "'s checkoutClient \<Rightarrow> string \<Rightarrow> int \<Rightarrow> 's \<Rightarrow> string + CustomerBalanceTransaction list" where
  "api_ListCustomerBalanceTransactions cl customerID limit s =
     (let limit = (if limit \<le> 0 then 50 else limit);
          (txs, failure) = cl_ListBalanceTx cl customerID limit s
      in takeListing limit projectBalanceTx txs failure [])"

subsection \<open>The portal\<close>

definition buildFlowDataParams :: "PortalFlow \<Rightarrow> string + (string \<times> string option \<times> string option)" where
  "buildFlowDataParams f =
     (if pf_Type f = PortalFlowSubscriptionCancel then Inr (pf_Type f, Some (pf_SubscriptionID f), None)
      else if pf_Type f = PortalFlowSubscriptionUpdate then Inr (pf_Type f, None, Some (pf_SubscriptionID f))
      else if pf_Type f = PortalFlowPaymentMethodUpdate then Inr (pf_Type f, None, None)
      else Inl (''unsupported PortalFlowType '' @ pf_Type f))"

definition api_CreatePortalSession ::
  "(string \<Rightarrow> string) \<Rightarrow> string option \<Rightarrow> 's checkoutClient \<Rightarrow> PortalSessionCreate \<Rightarrow> 's \<Rightarrow> (string + PortalSession) \<times> 's" where
  "api_CreatePortalSession sha256 ctx cl p s =
     (case (case psc_Flow p of None \<Rightarrow> Inr None | Some f \<Rightarrow> map_sum (\<lambda>e. e) Some (buildFlowDataParams f)) of
        Inl e \<Rightarrow> (Inl e, s)
      | Inr flow \<Rightarrow>
          cl_CreatePortal cl
            (ApplyIdempotencyKey sha256 ctx ''portal.session.create''
              [psc_StripeCustomerID p, psc_ReturnURL p,
               case psc_Flow p of None \<Rightarrow> '''' | Some f \<Rightarrow> pf_Type f @ '':'' @ pf_SubscriptionID f])
            \<lparr>po_Customer = psc_StripeCustomerID p, po_ReturnURL = psc_ReturnURL p, po_FlowData = flow\<rparr> s)"

definition NewCheckoutBackend :: "(string \<Rightarrow> string) \<Rightarrow> string option \<Rightarrow> 's checkoutClient \<Rightarrow> 's checkoutBackend" where
  "NewCheckoutBackend sha256 ctx cl =
     \<lparr>be_CreateCustomer = api_CreateCustomer sha256 ctx cl, be_CreateCheckoutSession = api_CreateCheckoutSession sha256 ctx cl,
      be_CreatePortalSession = api_CreatePortalSession sha256 ctx cl,
      be_Balance = Some \<lparr>bb_Adjust = api_AdjustCustomerBalance sha256 ctx cl, bb_Get = api_GetCustomerBalance cl,
        bb_List = api_ListCustomerBalanceTransactions cl\<rparr>\<rparr>"

end
