(* ===== verification/Customers_Proofs.thy ===== *)
theory Customers_Proofs
  imports Customers Pg_Credits_Proofs
begin

text \<open>
  Erasure: the contract \<open>revocable_ledger\<close> of a credit ledger that can forget a subject, its interpretation in Postgres, and
  what a successful \<open>Forget\<close> leaves behind.
\<close>

subsection \<open>The contract of a ledger that forgets\<close>

text \<open>\<open>left\<close> gives the subject of a grant and what is left of it.\<close>

locale revocable_ledger =
  fixes book :: "'l creditBook"
    and invar :: "'l \<Rightarrow> bool"
    and left :: "'l \<Rightarrow> string \<rightharpoonup> string \<times> int"
  assumes List: "invar l \<Longrightarrow> \<exists>gs. cb_ListBySubject book s l = Inr gs \<and> g_ID ` set gs = {i. \<exists>n. left l i = Some (s, n)}"
    and Revoke: "invar l \<Longrightarrow> left l i = Some (s, n) \<Longrightarrow>
      \<exists>l'. cb_RevokeGrant book i reason l = (None, l') \<and> invar l' \<and> left l' = (left l)(i \<mapsto> (s, 0))"
begin

lemma forgetGrants_zero:
  "invar l \<Longrightarrow> \<forall>g \<in> set gs. \<exists>n. left l (g_ID g) = Some (s, n) \<Longrightarrow>
    \<exists>report' l'. forgetGrants book gs report l = (None, report', l') \<and> invar l' \<and>
      left l' = (\<lambda>i. if i \<in> g_ID ` set gs then Some (s, 0) else left l i) \<and>
      report' = report\<lparr>fr_CreditsForgotten := fr_CreditsForgotten report + length gs\<rparr>"
proof (induction gs arbitrary: l report)
  case (Cons g gs)
  from Cons.prems(2) obtain n where "left l (g_ID g) = Some (s, n)" by auto
  from Revoke [OF Cons.prems(1) this] obtain l1 where
    l1: "cb_RevokeGrant book (g_ID g) ''gdpr_forget'' l = (None, l1)" "invar l1" "left l1 = (left l)(g_ID g \<mapsto> (s, 0))" by blast
  have "\<forall>h \<in> set gs. \<exists>n. left l1 (g_ID h) = Some (s, n)" using Cons.prems(2) by (simp add: l1(3))
  from Cons.IH [OF l1(2) this, of "report\<lparr>fr_CreditsForgotten := fr_CreditsForgotten report + 1\<rparr>"] obtain l' where
    "forgetGrants book gs (report\<lparr>fr_CreditsForgotten := fr_CreditsForgotten report + 1\<rparr>) l1 =
       (None, report\<lparr>fr_CreditsForgotten := fr_CreditsForgotten report + 1 + length gs\<rparr>, l')" "invar l'"
    "left l' = (\<lambda>i. if i \<in> g_ID ` set gs then Some (s, 0) else left l1 i)" by auto
  then show ?case using l1 by (auto simp: fun_eq_iff)
qed simp

lemma forgetCredits_zero:
  assumes "invar l" and "cc_CreditRepo cfg = Some book"
  shows "\<exists>report' l'. forgetCredits cfg s report l = (None, report', l') \<and> invar l' \<and>
    left l' = (\<lambda>i. map_option (\<lambda>(t, n). (t, if t = s then 0 else n)) (left l i)) \<and>
    fr_StripeCustomerDeleted report' = fr_StripeCustomerDeleted report \<and>
    fr_SubscriptionsRevoked report' = fr_SubscriptionsRevoked report"
proof -
  from List [OF assms(1), of s] obtain gs where gs: "cb_ListBySubject book s l = Inr gs"
    "g_ID ` set gs = {i. \<exists>n. left l i = Some (s, n)}" by blast
  then have "\<forall>g \<in> set gs. \<exists>n. left l (g_ID g) = Some (s, n)" by blast
  from forgetGrants_zero [OF assms(1) this, of report] obtain l' where l':
    "forgetGrants book gs report l = (None, report\<lparr>fr_CreditsForgotten := fr_CreditsForgotten report + length gs\<rparr>, l')" "invar l'"
    "left l' = (\<lambda>i. if i \<in> g_ID ` set gs then Some (s, 0) else left l i)" by auto
  have "left l' i = map_option (\<lambda>(t, n). (t, if t = s then 0 else n)) (left l i)" for i
    unfolding l'(3) gs(2) by (cases "left l i") auto
  then show ?thesis using gs(1) l' assms(2) by (auto simp: forgetCredits_def)
qed

end

subsection \<open>Postgres keeps it\<close>

definition pg_book :: "(string \<Rightarrow> bool) \<Rightarrow> time \<Rightarrow> pgCredits creditBook" where
  "pg_book isUUID now =
     \<lparr>cb_ListBySubject = (\<lambda>s l. Inr (pg_ListBySubject s l)),
      cb_RevokeGrant = (\<lambda>i reason l. apfst (map_option (\<lambda>_. ''revoke'')) (pg_RevokeGrant isUUID now i reason l)),
      cb_AllBalances = (\<lambda>s l. map_sum (\<lambda>_. ''balance'') (\<lambda>b. b) (pg_AllBalances now s l)),
      cb_History = (\<lambda>s t l. Inr (pg_History s t l))\<rparr>"

definition pg_left :: "pgCredits \<Rightarrow> string \<rightharpoonup> string \<times> int" where
  "pg_left l = map_of (map (\<lambda>row. (gr_id row, gr_subject_id row, gr_amount_remaining row)) (pc_grants l))"

text \<open>A revoked row has nothing left.\<close>

definition revokedEmpty :: "pgCredits \<Rightarrow> bool" where
  "revokedEmpty l \<longleftrightarrow> (\<forall>row \<in> set (pc_grants l). gr_revoked_at row \<noteq> None \<longrightarrow> gr_amount_remaining row = 0)"

definition pgb_invar :: "(string \<Rightarrow> bool) \<Rightarrow> pgCredits \<Rightarrow> bool" where
  "pgb_invar isUUID l \<longleftrightarrow> pg_inv l \<and> revokedEmpty l \<and> (\<forall>row \<in> set (pc_grants l). isUUID (gr_id row))"

lemma pgRevoke_sel [simp]:
  "gr_id (pgRevoke now i reason row) = gr_id row" "gr_subject_id (pgRevoke now i reason row) = gr_subject_id row"
  by (simp_all add: pgRevoke_def)

lemma pgRevoke_other [simp]: "gr_id row \<noteq> i \<Longrightarrow> pgRevoke now i reason row = row"
  by (simp add: pgRevoke_def)

lemma pg_left_revoke:
  assumes "distinct (map gr_id t)" and "\<forall>row \<in> set t. gr_revoked_at row \<noteq> None \<longrightarrow> gr_amount_remaining row = 0"
    and "map_of (map (\<lambda>row. (gr_id row, gr_subject_id row, gr_amount_remaining row)) t) i = Some (s, n)"
  shows "map_of (map (\<lambda>row. (gr_id row, gr_subject_id row, gr_amount_remaining row)) (map (pgRevoke now i reason) t)) =
    (map_of (map (\<lambda>row. (gr_id row, gr_subject_id row, gr_amount_remaining row)) t))(i \<mapsto> (s, 0))"
  using assms
proof (induction t)
  case (Cons row t)
  show ?case
  proof (cases "gr_id row = i")
    case True
    have "gr_id x \<noteq> i" if "x \<in> set t" for x using Cons.prems(1) True that by (metis distinct.simps(2) image_eqI list.simps(9) list.set_map)
    then have "map (pgRevoke now i reason) t = t" by (intro map_idI) simp
    moreover have "gr_amount_remaining (pgRevoke now i reason row) = 0"
      using Cons.prems(2) True by (auto simp: pgRevoke_def)
    ultimately show ?thesis using True Cons.prems(3) by (auto simp del: map_map simp: fun_eq_iff)
  next
    case False
    with Cons show ?thesis by (auto simp: fun_eq_iff)
  qed
qed simp

interpretation pg_forget: revocable_ledger "pg_book isUUID now" "pgb_invar isUUID" pg_left for isUUID now
proof
  fix l s
  assume "pgb_invar isUUID l"
  then have d: "distinct (map gr_id (pc_grants l))" by (simp add: pgb_invar_def pg_inv_def)
  have "g_ID ` set (pg_ListBySubject s l) = gr_id ` {row \<in> set (pc_grants l). gr_subject_id row = s}"
    by (simp add: pg_ListBySubject_def image_image scanGrant_def)
  also have "\<dots> = {i. \<exists>n. pg_left l i = Some (s, n)}"
  proof -
    have "pg_left l i = Some (t, n) \<longleftrightarrow> (\<exists>row \<in> set (pc_grants l). gr_id row = i \<and> gr_subject_id row = t \<and> gr_amount_remaining row = n)" for i t n
      unfolding pg_left_def using d by (subst map_of_eq_Some_iff) (auto simp: comp_def image_iff)
    then show ?thesis by auto
  qed
  finally show "\<exists>gs. cb_ListBySubject (pg_book isUUID now) s l = Inr gs \<and> g_ID ` set gs = {i. \<exists>n. pg_left l i = Some (s, n)}"
    by (simp add: pg_book_def)
next
  fix l i s n reason
  assume inv: "pgb_invar isUUID l" and i: "pg_left l i = Some (s, n)"
  then have "isUUID i" by (auto simp: pg_left_def pgb_invar_def dest!: map_of_SomeD)
  let ?l = "l\<lparr>pc_grants := map (pgRevoke now i reason) (pc_grants l)\<rparr>"
  have run: "cb_RevokeGrant (pg_book isUUID now) i reason l = (None, ?l)"
    using \<open>isUUID i\<close> by (simp add: pg_book_def pg_RevokeGrant_def)
  have "pg_inv ?l" using pg_inv_Revoke [of l isUUID now i reason] inv \<open>isUUID i\<close>
    by (simp add: pgb_invar_def pg_RevokeGrant_def)
  moreover have "revokedEmpty ?l" "\<forall>row \<in> set (pc_grants ?l). isUUID (gr_id row)"
    using inv by (auto simp: pgb_invar_def revokedEmpty_def pgRevoke_def)
  moreover have "pg_left ?l = (pg_left l)(i \<mapsto> (s, 0))"
    using pg_left_revoke [of "pc_grants l" i s n now reason] inv i
    by (simp add: pg_left_def pgb_invar_def pg_inv_def revokedEmpty_def)
  ultimately show "\<exists>l'. cb_RevokeGrant (pg_book isUUID now) i reason l = (None, l') \<and> pgb_invar isUUID l' \<and> pg_left l' = (pg_left l)(i \<mapsto> (s, 0))"
    using run by (simp add: pgb_invar_def)
qed

subsection \<open>Reachable ledgers\<close>

lemma deducted_revoked:
  assumes inv: "pg_inv r" and e: "revokedEmpty r"
  shows "revokedEmpty (snd (pg_TryDeduct now inp r))"
proof (cases "0 < di_Amount inp \<and> \<not> requestRecorded inp r \<and> di_Amount inp \<le> liveCredit now (di_SubjectID inp) (di_Bucket inp) r")
  case True
  then have t: "0 < di_Amount inp" "\<not> requestRecorded inp r" "di_Amount inp \<le> liveCredit now (di_SubjectID inp) (di_Bucket inp) r"
    by simp_all
  from pg_covered [OF inv t] obtain steps new k where p: "pgPlan (di_Amount inp) (pgPool now inp r) = (steps, 0)"
    "pgApply now inp steps r = Inr (r\<lparr>pc_grants := map (withdrawn steps) (pc_grants r),
      pc_deductions := pc_deductions r @ new, pc_draws := k\<rparr>)" "distinct (map fst steps)"
    "\<forall>u \<in> set steps. 0 < snd u \<and>
      (\<exists>g \<in> set (liveRows now (di_SubjectID inp) (di_Bucket inp) (pc_grants r)). gr_id g = fst u \<and> snd u \<le> gr_amount_remaining g)"
    by blast
  have pos: "\<forall>row \<in> set (pc_grants r). 0 \<le> gr_amount_remaining (withdrawn steps row)"
    using liveCredit_withdrawn(1) [OF inv p(3), of now "di_SubjectID inp" "di_Bucket inp"] p(4) by blast
  have drawn: "0 \<le> mget 0 steps i" for i
    using p(4) by (force simp: mget_def dest!: map_of_SomeD split: option.split)
  have "gr_amount_remaining (withdrawn steps row) = 0" if row: "row \<in> set (pc_grants r)" "gr_revoked_at row \<noteq> None" for row
  proof -
    have "gr_amount_remaining row = 0" using e row by (simp add: revokedEmpty_def)
    moreover have "0 \<le> gr_amount_remaining (withdrawn steps row)" using pos row(1) by blast
    ultimately show ?thesis using drawn [of "gr_id row"] by (simp add: withdrawn_def)
  qed
  then have "revokedEmpty (r\<lparr>pc_grants := map (withdrawn steps) (pc_grants r), pc_deductions := pc_deductions r @ new, pc_draws := k\<rparr>)"
    by (simp add: revokedEmpty_def) (simp add: withdrawn_def)
  with t p(1,2) e show ?thesis by (auto simp: pg_TryDeduct_def answerWith_def split: sum.split)
next
  case False
  then have "snd (pg_TryDeduct now inp r) = r"
    using pg_TryDeduct_nonpositive [of inp now r] pg_TryDeduct_again [of inp r now] pg_TryDeduct_short [of inp r now] by linarith
  with e show ?thesis by simp
qed

lemma pgc_step_revoked:
  assumes "pgc_step micro isUUID r r'" and "pg_inv r" and "revokedEmpty r"
  shows "revokedEmpty r'"
  using assms(1)
proof cases
  case (grant appNow now inp)
  then show ?thesis using assms(3) by (auto simp: revokedEmpty_def pg_Grant_def Let_def grantRow_def split: option.split)
next
  case (deduct now inp)
  then show ?thesis using deducted_revoked [OF assms(2,3)] by simp
next
  case (expire now)
  then show ?thesis using assms(3) by (auto simp: revokedEmpty_def expiryZero_def)
next
  case (revoke now gid reason)
  then show ?thesis using assms(3) by (auto simp: revokedEmpty_def pg_RevokeGrant_def pgRevoke_def)
qed

lemma pgApply_uuid: "pgApply now inp steps r = Inr r' \<Longrightarrow> pc_uuid r' = pc_uuid r"
  by (induction now inp steps r rule: pgApply.induct) (auto simp: Let_def split: if_splits)

lemma pgc_step_uuid: "pgc_step micro isUUID r r' \<Longrightarrow> pc_uuid r' = pc_uuid r"
  by (induction rule: pgc_step.induct)
    (auto simp: pg_Grant_def Let_def pg_TryDeduct_def answerWith_def expiryZero_def pg_RevokeGrant_def split_beta pgApply_uuid
      split: option.split sum.split)

lemma reachable_pgb:
  assumes "(pgc_step micro isUUID)\<^sup>*\<^sup>* (emptyCredits uuid) r" and "inj uuid" and "\<forall>n. isUUID (uuid n)"
  shows "pgb_invar isUUID r"
proof -
  from assms(1) have "revokedEmpty r \<and> pc_uuid r = uuid"
  proof induction
    case (step x y)
    then show ?case using pgc_step_revoked [OF step(2) pgc_reachable_inv [OF step(1) assms(2)]] pgc_step_uuid by metis
  qed (simp add: revokedEmpty_def emptyCredits_def)
  moreover have "pg_inv r" by (rule pgc_reachable_inv [OF assms(1,2)])
  ultimately show ?thesis using assms(3) by (auto simp: pgb_invar_def pg_inv_def)
qed

subsection \<open>What erasure leaves\<close>

lemma cancelSubs_all:
  "cancelSubs cancel ids report s = (None, report', s') \<Longrightarrow>
    s' = fold (\<lambda>i x. snd (cancel i x)) ids s \<and>
    report' = report\<lparr>fr_SubscriptionsRevoked := fr_SubscriptionsRevoked report + length ids\<rparr>"
proof (induction ids arbitrary: report s)
  case (Cons i ids)
  let ?report = "report\<lparr>fr_SubscriptionsRevoked := fr_SubscriptionsRevoked report + 1\<rparr>"
  from Cons.prems obtain x where x: "cancel i s = (None, x)" "cancelSubs cancel ids ?report x = (None, report', s')"
    by (auto split: prod.splits option.splits)
  from Cons.IH [OF x(2)] x(1) show ?case by simp
qed simp

lemma liveCredit_left:
  assumes "\<forall>row \<in> set (pc_grants l). 0 \<le> gr_amount_remaining row" and "distinct (map gr_id (pc_grants l))"
    and "\<And>i n. pg_left l i = Some (s, n) \<Longrightarrow> n = 0"
  shows "liveCredit now s b l = 0"
proof -
  have "pg_left l (gr_id row) = Some (gr_subject_id row, gr_amount_remaining row)" if "row \<in> set (pc_grants l)" for row
    unfolding pg_left_def using assms(2) that by (subst map_of_eq_Some_iff) (auto simp: comp_def)
  then have "liveRows now s b (pc_grants l) = []"
    using assms(3) by (fastforce simp: liveRows_def liveRow_def filter_empty_conv)
  then show ?thesis by (simp add: liveCredit_def)
qed

text \<open>C30: a successful erasure of a subject, on any reachable Postgres ledger, leaves nothing to spend and touches nobody else.
  Every subscription that Stripe lists for the customer and that is not in a final state is cancelled, in order, and then
  the customer is deleted; what is left of each grant of the subject is zero, so its live credit is zero in every bucket at
  every time; what is left of any other subject's grant is unchanged; and the report counts the cancelled subscriptions and
  records the deletion.\<close>
theorem forget_leaves_no_credit:
  assumes "inj uuid" and "\<forall>n. isUUID (uuid n)" and reach: "(pgc_step micro isUUID)\<^sup>*\<^sup>* (emptyCredits uuid) l"
    and repo: "cc_CreditRepo cfg = Some (pg_book isUUID now)"
    and run: "Forget cfg subject s c l a = ((Some report, None), s', l', a')"
  shows "(\<forall>t b. liveCredit t subject b l' = 0) \<and>
    (\<forall>i x n. x \<noteq> subject \<longrightarrow> (pg_left l' i = Some (x, n) \<longleftrightarrow> pg_left l i = Some (x, n))) \<and>
    (\<exists>stripeID subs. cu_Get (cc_CustomerRepo cfg) subject c = Inr (Some stripeID) \<and>
      sc_ListSubs (cc_Stripe cfg) stripeID s = (subs, None) \<and>
      fr_StripeCustomerDeleted report \<and>
      fr_SubscriptionsRevoked report = length (filter (\<lambda>x. \<not> isTerminalStatus (ss_Status x)) subs) \<and>
      s' = snd (sc_DeleteCustomer (cc_Stripe cfg) stripeID
        (fold (\<lambda>i x. snd ((case cc_SubscriptionCanceler cfg of Some f \<Rightarrow> f | None \<Rightarrow> sc_CancelSub (cc_Stripe cfg)) i x))
          (map ss_SubID (filter (\<lambda>x. \<not> isTerminalStatus (ss_Status x)) subs)) s)))"
proof -
  have inv: "pgb_invar isUUID l" by (rule reachable_pgb [OF reach assms(1,2)])
  from run obtain stripeID where sid: "cu_Get (cc_CustomerRepo cfg) subject c = Inr (Some stripeID)"
    by (auto simp: Forget_def resolveStripeID_def split: sum.splits option.splits)
  define r0 where "r0 = \<lparr>fr_SubjectID = subject, fr_StripeCustomerID = stripeID, fr_StripeCustomerDeleted = False,
    fr_SubscriptionsRevoked = 0, fr_CreditsForgotten = 0, fr_AppHookCalled = False, fr_AppHookError = None\<rparr>"
  obtain e1 r1 s1 where cancel: "cancelActiveSubscriptions cfg stripeID r0 s = (e1, r1, s1)" by (metis prod_cases3)
  obtain r2 l1 where fc: "forgetCredits cfg subject r1 l = (None, r2, l1)" "pgb_invar isUUID l1"
    "pg_left l1 = (\<lambda>i. map_option (\<lambda>(t, n). (t, if t = subject then 0 else n)) (pg_left l i))"
    "fr_SubscriptionsRevoked r2 = fr_SubscriptionsRevoked r1"
    using pg_forget.forgetCredits_zero [OF inv repo, of subject r1] by blast
  obtain e3 s3 where del: "sc_DeleteCustomer (cc_Stripe cfg) stripeID s1 = (e3, s3)" by fastforce
  have res: "e1 = None" "l' = l1" "s' = s3" "fr_StripeCustomerDeleted report" "fr_SubscriptionsRevoked report = fr_SubscriptionsRevoked r2"
    using run sid cancel fc(1) del
    by (auto simp: Forget_def resolveStripeID_def r0_def [symmetric] Let_def split: option.splits prod.splits)
  obtain subs where subs: "sc_ListSubs (cc_Stripe cfg) stripeID s = (subs, None)"
    using cancel res(1) by (auto simp: cancelActiveSubscriptions_def split: prod.splits option.splits)
  let ?f = "case cc_SubscriptionCanceler cfg of Some f \<Rightarrow> f | None \<Rightarrow> sc_CancelSub (cc_Stripe cfg)"
  let ?ids = "map ss_SubID (filter (\<lambda>x. \<not> isTerminalStatus (ss_Status x)) subs)"
  from cancel res(1) subs have "cancelSubs ?f ?ids r0 s = (None, r1, s1)" by (simp add: cancelActiveSubscriptions_def)
  from cancelSubs_all [OF this] have s1: "s1 = fold (\<lambda>i x. snd (?f i x)) ?ids s" "fr_SubscriptionsRevoked r1 = length ?ids"
    by (simp_all add: r0_def)
  have "liveCredit t subject b l1 = 0" for t b
    using fc(2,3) by (intro liveCredit_left) (auto simp: pgb_invar_def pg_inv_def rowOk_def)
  moreover have "pg_left l1 i = Some (x, n) \<longleftrightarrow> pg_left l i = Some (x, n)" if "x \<noteq> subject" for i x n
    using that unfolding fc(3) by (cases "pg_left l i") auto
  ultimately show ?thesis using sid subs res s1 del fc(4) by auto
qed

subsection \<open>The mapping of customers\<close>

locale customer_mapping =
  fixes get :: "string \<Rightarrow> 'c \<Rightarrow> string + string option"
    and upsert :: "string \<Rightarrow> string \<Rightarrow> 'c \<Rightarrow> string option \<times> 'c"
  assumes Upsert_ok: "upsert x cid c = (None, c') \<Longrightarrow> get y c' = (if y = x then Inr (Some cid) else get y c)"
    and Upsert_failed: "upsert x cid c = (Some e, c') \<Longrightarrow> c' = c"
begin

lemma importMapped_links:
  assumes "cc_CustomerRepo cfg = \<lparr>cu_Get = get, cu_Upsert = upsert\<rparr>"
    and "importMapped sha ctx cfg inp result s c m = ((res, err), s', c', m')"
  shows "c' = c \<and> err \<noteq> None \<or> upsert (ici_SubjectID inp) (ici_StripeCustomerID inp) c = (None, c')"
  using assms Upsert_failed
  by (auto simp: importMapped_def split: prod.splits option.splits if_splits)

lemma ImportCustomer_links:
  assumes "cc_CustomerRepo cfg = \<lparr>cu_Get = get, cu_Upsert = upsert\<rparr>"
    and "ImportCustomer sha ctx cfg inp s c m = ((res, err), s', c', m')"
  shows "c' = c \<and> err \<noteq> None \<or> upsert (ici_SubjectID inp) (ici_StripeCustomerID inp) c = (None, c')"
  using assms(2) importMapped_links [OF assms(1)]
  by (fastforce simp: ImportCustomer_def Let_def split: prod.splits option.splits if_splits sum.splits)

lemma import_resolves:
  assumes "cc_CustomerRepo cfg = \<lparr>cu_Get = get, cu_Upsert = upsert\<rparr>"
    and "ImportCustomer sha ctx cfg inp s c m = ((res, None), s', c', m')"
  shows "resolveStripeID cfg (ici_SubjectID inp) c' = Inr (ici_StripeCustomerID inp)"
  using ImportCustomer_links [OF assms] Upsert_ok assms(1) by (force simp: resolveStripeID_def)

end

interpretation memory_customers: customer_mapping mc_Get mc_Upsert
  by unfold_locales (auto simp: mc_Get_def mc_Upsert_def)

lemma find_upserted:
  "List.find (\<lambda>row. pcu_subject_id row = y) (map (\<lambda>row. if pcu_subject_id row = x then row\<lparr>pcu_stripe_customer_id := cid\<rparr> else row) t) =
    map_option (\<lambda>row. if y = x then row\<lparr>pcu_stripe_customer_id := cid\<rparr> else row) (List.find (\<lambda>row. pcu_subject_id row = y) t)"
  by (induction t) auto

lemma find_append: "List.find P (xs @ ys) = (case List.find P xs of None \<Rightarrow> List.find P ys | Some x \<Rightarrow> Some x)"
  by (induction xs) auto

interpretation pg_customers: customer_mapping pcu_Get pcu_Upsert
proof
  fix x y cid c c'
  assume up: "pcu_Upsert x cid c = (None, c')"
  show "pcu_Get y c' = (if y = x then Inr (Some cid) else pcu_Get y c)"
  proof (cases "list_ex (\<lambda>row. pcu_subject_id row = x) c")
    case True
    then have "List.find (\<lambda>row. pcu_subject_id row = x) c \<noteq> None" by (auto simp: find_None_iff list_ex_iff)
    then show ?thesis using up True
      by (auto simp: pcu_Get_def pcu_Upsert_def find_upserted option.map_comp comp_def split: if_splits)
  next
    case False
    then have "List.find (\<lambda>row. pcu_subject_id row = x) c = None" by (auto simp: find_None_iff list_ex_iff)
    then show ?thesis using up False by (auto simp: pcu_Get_def pcu_Upsert_def find_append split: if_splits option.split)
  qed
next
  show "pcu_Upsert x cid c = (Some e, c') \<Longrightarrow> c' = c" for x cid c e c' by (auto simp: pcu_Upsert_def split: if_splits)
qed

definition customersUnique :: "pgCustomer list \<Rightarrow> bool" where
  "customersUnique t \<longleftrightarrow> distinct (map pcu_subject_id t) \<and> distinct (map pcu_stripe_customer_id t)"

lemma pcu_Upsert_unique:
  assumes "customersUnique t" and "pcu_Upsert x cid t = (None, t')"
  shows "customersUnique t'"
proof (cases "list_ex (\<lambda>row. pcu_subject_id row = x) t")
  case True
  let ?f = "\<lambda>row. if pcu_subject_id row = x then row\<lparr>pcu_stripe_customer_id := cid\<rparr> else row"
  from True have t': "t' = map ?f t" and free: "\<forall>row \<in> set t. pcu_stripe_customer_id row = cid \<longrightarrow> pcu_subject_id row = x"
    using assms(2) by (auto simp: pcu_Upsert_def list_ex_iff split: if_splits)
  have subjects: "map pcu_subject_id t' = map pcu_subject_id t" by (auto simp: t')
  have "inj_on (pcu_stripe_customer_id \<circ> ?f) (set t)"
    using assms(1) free by (auto simp: customersUnique_def distinct_map inj_on_def)
  then have "distinct (map pcu_stripe_customer_id t')"
    using assms(1) by (simp add: t' customersUnique_def distinct_map)
  with subjects assms(1) show ?thesis by (simp add: customersUnique_def)
next
  case False
  then show ?thesis using assms by (auto simp: pcu_Upsert_def customersUnique_def list_ex_iff split: if_splits)
qed

text \<open>C31: an import links the subject to the Stripe customer or leaves the Postgres mapping as it was. When it succeeds the subject
  resolves to the imported customer; no other subject's customer changes, no customer is ever linked to two subjects and no
  subject to two customers. A customer that carries another namespace is refused unless the caller adopts it, and then
  nothing at all has changed: neither Stripe, nor the mapping, nor the mirror.\<close>
theorem import_links_or_refuses:
  assumes repo: "cc_CustomerRepo cfg = \<lparr>cu_Get = pcu_Get, cu_Upsert = pcu_Upsert\<rparr>" and unique: "customersUnique c"
    and run: "ImportCustomer sha ctx cfg inp s c m = ((res, err), s', c', m')"
  shows "customersUnique c' \<and> (\<forall>x. x \<noteq> ici_SubjectID inp \<longrightarrow> pcu_Get x c' = pcu_Get x c) \<and>
      (c' = c \<or> pcu_Get (ici_SubjectID inp) c' = Inr (Some (ici_StripeCustomerID inp))) \<and>
      (err = None \<longrightarrow> resolveStripeID cfg (ici_SubjectID inp) c' = Inr (ici_StripeCustomerID inp)) \<and>
      (\<forall>md ns. ici_SubjectID inp \<noteq> '''' \<and> ici_StripeCustomerID inp \<noteq> '''' \<and> ici_Namespace inp \<noteq> '''' \<and>
        sc_CustomerMetadata (cc_Stripe cfg) (ici_StripeCustomerID inp) s = Inr md \<and> map_of md MetadataKeyNamespace = Some ns \<and>
        ns \<noteq> ici_Namespace inp \<and> \<not> ici_AdoptNamespace inp \<longrightarrow>
        err = Some ErrNamespaceConflict \<and> s' = s \<and> c' = c \<and> m' = m)"
proof -
  have refused: "err = Some ErrNamespaceConflict \<and> s' = s \<and> c' = c \<and> m' = m"
    if "ici_SubjectID inp \<noteq> ''''" "ici_StripeCustomerID inp \<noteq> ''''" "ici_Namespace inp \<noteq> ''''"
      "sc_CustomerMetadata (cc_Stripe cfg) (ici_StripeCustomerID inp) s = Inr md" "map_of md MetadataKeyNamespace = Some ns"
      "ns \<noteq> ici_Namespace inp" "\<not> ici_AdoptNamespace inp" for md ns
    using run that by (simp add: ImportCustomer_def Let_def)
  from pg_customers.ImportCustomer_links [OF repo run]
  consider "c' = c" "err \<noteq> None" | "pcu_Upsert (ici_SubjectID inp) (ici_StripeCustomerID inp) c = (None, c')" by blast
  then show ?thesis
  proof cases
    case 1
    then show ?thesis using unique refused by blast
  next
    case 2
    from pcu_Upsert_unique [OF unique 2] pg_customers.Upsert_ok [OF 2] refused show ?thesis
      by (simp add: resolveStripeID_def repo)
  qed
qed

subsection \<open>A concrete erasure\<close>

definition demo_client :: "(string \<times> string) list stripeClient" where
  "demo_client =
     \<lparr>sc_CustomerMetadata = (\<lambda>_ _. Inr []),
      sc_StampCustomer = (\<lambda>_ _ _ s. (None, s)),
      sc_ListSubs = (\<lambda>cid s. (map (\<lambda>(i, st).
        \<lparr>ss_SubID = i, ss_Status = st, ss_SubMetadata = [], ss_CancelAtPeriodEnd = False, ss_Created = 0, ss_Customer = Some cid,
         ss_Items = [], ss_CanceledAt = 0, ss_EndedAt = 0, ss_TrialEnd = 0\<rparr>) s, None)),
      sc_StampSub = (\<lambda>_ _ _ s. (Inl ''unused'', s)),
      sc_CancelSub = (\<lambda>i s. (None, mset_key i ''canceled'' s)),
      sc_DeleteCustomer = (\<lambda>_ _. (None, [])),
      sc_CreateTaxID = (\<lambda>_ _ _ _ s. (Inl ''unused'', s)),
      sc_ListTaxIDs = (\<lambda>_ _. ([], None)),
      sc_DeleteTaxID = (\<lambda>_ _ s. (None, s))\<rparr>"

definition demo_customers :: "((string \<times> string) list, memoryCustomers, unit, pgCredits, unit) customersConfig" where
  "demo_customers =
     \<lparr>cc_Stripe = demo_client, cc_CustomerRepo = \<lparr>cu_Get = mc_Get, cu_Upsert = mc_Upsert\<rparr>, cc_SubscriptionRepo = None,
      cc_CreditRepo = Some (pg_book (\<lambda>_. True) 5), cc_AppDataExporter = None, cc_AppDataForgetter = None,
      cc_SubscriptionCanceler = None\<rparr>"

definition demo_forget :: "(ForgetReport option \<times> customersError option) \<times> (string \<times> string) list \<times> pgCredits \<times> unit" where
  "demo_forget = Forget demo_customers ''u1'' [(''sub_1'', ''active''), (''sub_2'', ''canceled'')] [(''u1'', ''cus_1'')] pg_demo ()"

lemma demo_forget_run:
  "case demo_forget of ((Some report, None), _) \<Rightarrow> fr_SubscriptionsRevoked report = 1 | _ \<Rightarrow> False"
  by code_simp

theorem forget_leaves_no_credit_witness:
  "liveCredit 5 ''u1'' ''api'' pg_demo = 10 \<and> liveCredit 5 ''u1'' ''api'' (fst (snd (snd demo_forget))) = 0"
proof -
  obtain report where run: "Forget demo_customers ''u1'' [(''sub_1'', ''active''), (''sub_2'', ''canceled'')] [(''u1'', ''cus_1'')]
      pg_demo () = ((Some report, None), fst (snd demo_forget), fst (snd (snd demo_forget)), ())"
    using demo_forget_run unfolding demo_forget_def by (auto split: prod.splits option.splits)
  have repo: "cc_CreditRepo demo_customers = Some (pg_book (\<lambda>_. True) 5)" by (simp add: demo_customers_def)
  have live: "liveCredit 5 ''u1'' ''api'' pg_demo = 10" by code_simp
  show ?thesis using forget_leaves_no_credit [OF replicate_inj _ pg_demo_reachable repo run] live by simp
qed

definition demo_mapping :: "((string \<times> string) list, pgCustomer list, unit, pgCredits, unit) customersConfig" where
  "demo_mapping =
     \<lparr>cc_Stripe = demo_client, cc_CustomerRepo = \<lparr>cu_Get = pcu_Get, cu_Upsert = pcu_Upsert\<rparr>, cc_SubscriptionRepo = None,
      cc_CreditRepo = None, cc_AppDataExporter = None, cc_AppDataForgetter = None, cc_SubscriptionCanceler = None\<rparr>"

definition demo_import :: ImportCustomerInput where
  "demo_import =
     \<lparr>ici_SubjectID = ''u2'', ici_StripeCustomerID = ''cus_2'', ici_Namespace = ''app'', ici_AdoptNamespace = False,
      ici_BackfillSubscriptions = True\<rparr>"

definition demo_mapped :: "pgCustomer list" where
  "demo_mapped = [\<lparr>pcu_subject_id = ''u1'', pcu_stripe_customer_id = ''cus_1''\<rparr>]"

theorem import_links_or_refuses_witness:
  "case ImportCustomer (\<lambda>x. x) (Some ''k'') demo_mapping demo_import [] demo_mapped () of
     ((res, err), s', c', m') \<Rightarrow> customersUnique c' \<and> err = None \<and> resolveStripeID demo_mapping ''u2'' c' = Inr ''cus_2''"
proof -
  obtain res err s' c' m' where run: "ImportCustomer (\<lambda>x. x) (Some ''k'') demo_mapping demo_import [] demo_mapped () = ((res, err), s', c', m')"
    by (metis prod.collapse)
  have "snd (fst (ImportCustomer (\<lambda>x. x) (Some ''k'') demo_mapping demo_import [] demo_mapped ())) = None" by code_simp
  moreover have "cc_CustomerRepo demo_mapping = \<lparr>cu_Get = pcu_Get, cu_Upsert = pcu_Upsert\<rparr>" by (simp add: demo_mapping_def)
  moreover have "customersUnique demo_mapped" by (simp add: customersUnique_def demo_mapped_def)
  ultimately show ?thesis using import_links_or_refuses [OF _ _ run] run by (simp add: demo_import_def)
qed

end
