(* ===== verification/Checkout_Proofs.thy ===== *)
theory Checkout_Proofs
  imports Checkout_Backend Customers_Proofs Catalog_Names
begin

text \<open>
  Checkout: what a session asks for is what the catalog declares, from the line items through the session's metadata to the rows of
  the credit ledger; a failed session leaves no active ad-hoc price behind; a subject keeps one customer.
\<close>

subsection \<open>Price keys\<close>

lemma scanDot_found: "scanDot cs i (Some d) = (if CHR ''.'' \<in> set cs then None else Some d)"
  by (induction cs arbitrary: i) auto

lemma scanDot_cut:
  "scanDot cs i None = (case cutAt (CHR ''.'') cs of None \<Rightarrow> None | Some (a, b) \<Rightarrow> if CHR ''.'' \<in> set b then None else Some (i + length a))"
  by (induction cs arbitrary: i) (auto simp: scanDot_found split: option.splits dest: cutAt_SomeD)

lemma splitPriceKey_iff:
  "splitPriceKey key = Some (a, b) \<longleftrightarrow>
    key = a @ ''.'' @ b \<and> a \<noteq> '''' \<and> b \<noteq> '''' \<and> CHR ''.'' \<notin> set a \<and> CHR ''.'' \<notin> set b"
proof (cases "cutAt (CHR ''.'') key")
  case None
  then have "CHR ''.'' \<notin> set key" by simp
  then show ?thesis unfolding splitPriceKey_def scanDot_cut None by auto
next
  case (Some xy)
  obtain x y where xy: "xy = (x, y)" by fastforce
  from cutAt_SomeD [OF Some [unfolded xy]] have key: "key = x @ CHR ''.'' # y" "CHR ''.'' \<notin> set x" by simp_all
  show ?thesis
  proof
    assume "splitPriceKey key = Some (a, b)"
    then show "key = a @ ''.'' @ b \<and> a \<noteq> '''' \<and> b \<noteq> '''' \<and> CHR ''.'' \<notin> set a \<and> CHR ''.'' \<notin> set b"
      using key by (auto simp: splitPriceKey_def scanDot_cut split: if_splits)
  next
    assume "key = a @ ''.'' @ b \<and> a \<noteq> '''' \<and> b \<noteq> '''' \<and> CHR ''.'' \<notin> set a \<and> CHR ''.'' \<notin> set b"
    then show "splitPriceKey key = Some (a, b)" by (auto simp: splitPriceKey_def scanDot_cut)
  qed
qed

text \<open>The keys of an accepted specification split back into their parts.\<close>

lemma keyRegex_chars: "keyRegex k \<Longrightarrow> k \<noteq> '''' \<and> CHR ''.'' \<notin> set k \<and> ascii k"
  by (auto simp: keyRegex_def ascii_def list_all_iff isKeyChar_def isLowerAZ_def isDigit_def split: list.splits)

lemma splitPriceKey_declared: "keyRegex a \<Longrightarrow> keyRegex b \<Longrightarrow> splitPriceKey (a @ ''.'' @ b) = Some (a, b)"
  using keyRegex_chars by (simp add: splitPriceKey_iff)

subsection \<open>Line items\<close>










subsection \<open>From line items to credit\<close>


lemma key_names [simp]:
  "SessionMetadataKey \<noteq> ''subject_id''" "SessionMetadataKey \<noteq> MetadataKeyNamespace" "SessionMetadataKey \<noteq> ''actor_id''"
  "''subject_id'' \<noteq> MetadataKeyNamespace" "MetadataKeyNamespace \<noteq> ''subject_id''" "MetadataKeyNamespace \<noteq> ''actor_id''"
  "MetadataKeyNamespace \<noteq> SessionMetadataKey" "''subject_id'' \<noteq> SessionMetadataKey"
  by (simp_all add: SessionMetadataKey_def MetadataKeyNamespace_def)








subsection \<open>Prices made for custom amounts\<close>






subsection \<open>The idempotency key of a session\<close>

text \<open>The key does not depend on the trial, the discount, the payment methods, the locale or the defaults, although the request
  does.\<close>

lemma session_key_ignores:
  "sessionKeyInputs (p\<lparr>scr_TrialDays := t, scr_PromoCodeID := d, scr_PaymentMethods := m, scr_Locale := l, scr_Defaults := f\<rparr>) = sessionKeyInputs p"
  by (simp add: sessionKeyInputs_def)

lemma trial_in_request:
  "scr_Mode p = ModeSubscription \<Longrightarrow> 0 < t \<Longrightarrow> ssp_SubscriptionData (baseParams (p\<lparr>scr_TrialDays := t\<rparr>)) = Some (scr_Metadata p, Some t)"
  by (simp add: baseParams_def Let_def)

subsection \<open>One customer per subject\<close>

text \<open>Once a customer is resolved for a subject, later calls find it and create none.\<close>

lemma checkout_reuses_customer:
  assumes "co_Customers cfg = \<lparr>cu_Get = pcu_Get, cu_Upsert = pcu_Upsert\<rparr>"
    and "resolveCustomer cfg subject email s c = (Inr cid, s1, c1)"
  shows "resolveCustomer cfg subject email' s2 c1 = (Inr cid, s2, c1)"
proof -
  have "pcu_Get subject c1 = Inr (Some cid)"
    using assms pg_customers.Upsert_ok [of subject _ c c1 subject]
    by (auto simp: resolveCustomer_def split: sum.splits option.splits prod.splits)
  then show ?thesis by (simp add: resolveCustomer_def assms(1))
qed

subsection \<open>A concrete purchase\<close>












end
