(* ===== verification/Portal_Config.thy ===== *)
theory Portal_Config
  imports Idempotency Namespace_Stamp
begin

text \<open>
  Package \<open>checkout/portalconfig\<close>: the declared configuration of the customer portal and its \<open>Sync\<close> to Stripe. A Stripe configuration
  is a record of the fields the code reads; a request's parameter that is left out is \<open>None\<close>. The three calls of the Stripe client
  are fields of a record of functions on Stripe's state. Field names are lower-cased as ASCII, which is what Stripe's names are.
\<close>

subsection \<open>The declared configuration\<close>

record CustomerUpdateFeature =
  cuf_Enabled :: bool
  cuf_AllowedFields :: "string list"

record SubscriptionCancelFeature =
  scf_Enabled :: bool
  scf_Mode :: string
  scf_ProrationBehavior :: string

record SubscriptionUpdateProduct =
  sup_StripeProductID :: string
  sup_StripePriceIDs :: "string list"

record SubscriptionUpdateFeature =
  suf_Enabled :: bool
  suf_DefaultAllowedUpdates :: "string list"
  suf_ProrationBehavior :: string
  suf_Products :: "SubscriptionUpdateProduct list"

record Features =
  ft_CustomerUpdate :: CustomerUpdateFeature
  ft_InvoiceHistoryEnabled :: bool
  ft_PaymentMethodUpdateEnabled :: bool
  ft_SubscriptionCancel :: SubscriptionCancelFeature
  ft_SubscriptionUpdate :: SubscriptionUpdateFeature

record PortalSpec =
  pt_Namespace :: string
  pt_Name :: string
  pt_DefaultReturnURL :: string
  pt_BusinessHeadline :: string
  pt_PrivacyPolicyURL :: string
  pt_TermsOfServiceURL :: string
  pt_Features :: Features

datatype portalError = NamespaceRequired | DefaultReturnURLRequired | FindFailed string | PortalUpdateFailed string | PortalCreateFailed string

definition portal_Validate :: "PortalSpec \<Rightarrow> portalError option" where
  "portal_Validate spec =
     (if pt_Namespace spec = '''' then Some NamespaceRequired
      else if pt_DefaultReturnURL spec = '''' then Some DefaultReturnURLRequired
      else None)"

subsection \<open>What Stripe holds\<close>

record businessProfile =
  bp_Headline :: string
  bp_PrivacyPolicyURL :: string
  bp_TermsOfServiceURL :: string

record portalFeatures =
  pfe_InvoiceHistory :: "bool option"
  pfe_PaymentMethodUpdate :: "bool option"
  pfe_CustomerUpdate :: "bool option"
  pfe_SubscriptionCancel :: "bool option"
  pfe_SubscriptionUpdate :: "bool option"

record portalConfiguration =
  pco_ID :: string
  pco_Created :: int
  pco_Metadata :: "(string, string) gomap"
  pco_DefaultReturnURL :: string
  pco_BusinessProfile :: "businessProfile option"
  pco_Features :: "portalFeatures option"

subsection \<open>Requests\<close>

record customerUpdateParams =
  cup_Enabled :: bool
  cup_AllowedUpdates :: "string list"

record cancelParams =
  cnp_Enabled :: bool
  cnp_Mode :: "string option"
  cnp_ProrationBehavior :: "string option"

record subUpdateParams =
  sup_Enabled :: bool
  sup_ProrationBehavior :: "string option"
  sup_DefaultAllowedUpdates :: "string list"
  sup_Products :: "(string \<times> string list) list"

record featureParams =
  fp_InvoiceHistory :: bool
  fp_PaymentMethodUpdate :: bool
  fp_CustomerUpdate :: customerUpdateParams
  fp_SubscriptionCancel :: cancelParams
  fp_SubscriptionUpdate :: subUpdateParams

record configParams =
  cfp_Name :: string
  cfp_DefaultReturnURL :: string
  cfp_Headline :: "string option"
  cfp_PrivacyPolicyURL :: "string option"
  cfp_TermsOfServiceURL :: "string option"
  cfp_Features :: featureParams
  cfp_Metadata :: "(string, string) gomap"

definition nilIfEmpty :: "string \<Rightarrow> string option" where
  "nilIfEmpty s = (if s = '''' then None else Some s)"

definition resolveName :: "PortalSpec \<Rightarrow> string" where
  "resolveName spec = (if pt_Name spec \<noteq> '''' then pt_Name spec else pt_Namespace spec @ '' portal'')"

definition buildCreateFeaturesParams :: "Features \<Rightarrow> featureParams" where
  "buildCreateFeaturesParams f =
     (let cu = ft_CustomerUpdate f; sc = ft_SubscriptionCancel f; su = ft_SubscriptionUpdate f
      in \<lparr>fp_InvoiceHistory = ft_InvoiceHistoryEnabled f,
          fp_PaymentMethodUpdate = ft_PaymentMethodUpdateEnabled f,
          fp_CustomerUpdate = \<lparr>cup_Enabled = cuf_Enabled cu,
            cup_AllowedUpdates = (if cuf_Enabled cu \<and> cuf_AllowedFields cu \<noteq> [] then map (map lowerByte) (cuf_AllowedFields cu) else [])\<rparr>,
          fp_SubscriptionCancel = \<lparr>cnp_Enabled = scf_Enabled sc,
            cnp_Mode = (if scf_Enabled sc \<and> scf_Mode sc \<noteq> '''' then Some (scf_Mode sc) else None),
            cnp_ProrationBehavior = (if scf_Enabled sc \<and> scf_ProrationBehavior sc \<noteq> '''' then Some (scf_ProrationBehavior sc) else None)\<rparr>,
          fp_SubscriptionUpdate = \<lparr>sup_Enabled = suf_Enabled su,
            sup_ProrationBehavior = (if suf_Enabled su \<and> suf_ProrationBehavior su \<noteq> '''' then Some (suf_ProrationBehavior su) else None),
            sup_DefaultAllowedUpdates = (if suf_Enabled su then suf_DefaultAllowedUpdates su else []),
            sup_Products = (if suf_Enabled su then map (\<lambda>p. (sup_StripeProductID p, sup_StripePriceIDs p)) (suf_Products su) else [])\<rparr>\<rparr>)"

text \<open>The source writes the same function a second time, for the type of an update.\<close>

definition buildUpdateFeaturesParams :: "Features \<Rightarrow> featureParams" where
  "buildUpdateFeaturesParams f =
     (let cu = ft_CustomerUpdate f; sc = ft_SubscriptionCancel f; su = ft_SubscriptionUpdate f
      in \<lparr>fp_InvoiceHistory = ft_InvoiceHistoryEnabled f,
          fp_PaymentMethodUpdate = ft_PaymentMethodUpdateEnabled f,
          fp_CustomerUpdate = \<lparr>cup_Enabled = cuf_Enabled cu,
            cup_AllowedUpdates = (if cuf_Enabled cu \<and> cuf_AllowedFields cu \<noteq> [] then map (map lowerByte) (cuf_AllowedFields cu) else [])\<rparr>,
          fp_SubscriptionCancel = \<lparr>cnp_Enabled = scf_Enabled sc,
            cnp_Mode = (if scf_Enabled sc \<and> scf_Mode sc \<noteq> '''' then Some (scf_Mode sc) else None),
            cnp_ProrationBehavior = (if scf_Enabled sc \<and> scf_ProrationBehavior sc \<noteq> '''' then Some (scf_ProrationBehavior sc) else None)\<rparr>,
          fp_SubscriptionUpdate = \<lparr>sup_Enabled = suf_Enabled su,
            sup_ProrationBehavior = (if suf_Enabled su \<and> suf_ProrationBehavior su \<noteq> '''' then Some (suf_ProrationBehavior su) else None),
            sup_DefaultAllowedUpdates = (if suf_Enabled su then suf_DefaultAllowedUpdates su else []),
            sup_Products = (if suf_Enabled su then map (\<lambda>p. (sup_StripeProductID p, sup_StripePriceIDs p)) (suf_Products su) else [])\<rparr>\<rparr>)"

definition buildCreateParams :: "PortalSpec \<Rightarrow> configParams" where
  "buildCreateParams spec =
     \<lparr>cfp_Name = resolveName spec, cfp_DefaultReturnURL = pt_DefaultReturnURL spec, cfp_Headline = nilIfEmpty (pt_BusinessHeadline spec),
      cfp_PrivacyPolicyURL = nilIfEmpty (pt_PrivacyPolicyURL spec), cfp_TermsOfServiceURL = nilIfEmpty (pt_TermsOfServiceURL spec),
      cfp_Features = buildCreateFeaturesParams (pt_Features spec), cfp_Metadata = []\<rparr>"

definition buildUpdateParams :: "PortalSpec \<Rightarrow> configParams" where
  "buildUpdateParams spec =
     \<lparr>cfp_Name = resolveName spec, cfp_DefaultReturnURL = pt_DefaultReturnURL spec, cfp_Headline = nilIfEmpty (pt_BusinessHeadline spec),
      cfp_PrivacyPolicyURL = nilIfEmpty (pt_PrivacyPolicyURL spec), cfp_TermsOfServiceURL = nilIfEmpty (pt_TermsOfServiceURL spec),
      cfp_Features = buildUpdateFeaturesParams (pt_Features spec), cfp_Metadata = []\<rparr>"

subsection \<open>Sync\<close>

text \<open>\<open>boolFromInvoiceHistory\<close> and its four siblings.\<close>

definition boolFrom :: "bool option \<Rightarrow> bool" where
  "boolFrom p \<longleftrightarrow> p = Some True"

definition profileDiffers :: "PortalSpec \<Rightarrow> businessProfile option \<Rightarrow> bool" where
  "profileDiffers spec profile \<longleftrightarrow>
     (case profile of
        Some bp \<Rightarrow> pt_BusinessHeadline spec \<noteq> bp_Headline bp \<or> pt_PrivacyPolicyURL spec \<noteq> bp_PrivacyPolicyURL bp \<or>
          pt_TermsOfServiceURL spec \<noteq> bp_TermsOfServiceURL bp
      | None \<Rightarrow> pt_BusinessHeadline spec \<noteq> '''' \<or> pt_PrivacyPolicyURL spec \<noteq> '''' \<or> pt_TermsOfServiceURL spec \<noteq> '''')"

definition featuresDiffer :: "Features \<Rightarrow> portalFeatures option \<Rightarrow> bool" where
  "featuresDiffer f existing \<longleftrightarrow>
     (case existing of
        None \<Rightarrow> False
      | Some e \<Rightarrow>
          ft_InvoiceHistoryEnabled f \<noteq> boolFrom (pfe_InvoiceHistory e) \<or>
          ft_PaymentMethodUpdateEnabled f \<noteq> boolFrom (pfe_PaymentMethodUpdate e) \<or>
          cuf_Enabled (ft_CustomerUpdate f) \<noteq> boolFrom (pfe_CustomerUpdate e) \<or>
          scf_Enabled (ft_SubscriptionCancel f) \<noteq> boolFrom (pfe_SubscriptionCancel e) \<or>
          suf_Enabled (ft_SubscriptionUpdate f) \<noteq> boolFrom (pfe_SubscriptionUpdate e))"

definition specDiffersFromExisting :: "PortalSpec \<Rightarrow> portalConfiguration \<Rightarrow> bool" where
  "specDiffersFromExisting spec c \<longleftrightarrow>
     pt_DefaultReturnURL spec \<noteq> pco_DefaultReturnURL c \<or> profileDiffers spec (pco_BusinessProfile c) \<or>
     featuresDiffer (pt_Features spec) (pco_Features c)"

record 's portalClient =
  ptc_List :: "'s \<Rightarrow> portalConfiguration list \<times> string option"
  ptc_Create :: "string \<Rightarrow> configParams \<Rightarrow> 's \<Rightarrow> (string + string) \<times> 's"
  ptc_Update :: "string \<Rightarrow> string \<Rightarrow> configParams \<Rightarrow> 's \<Rightarrow> (string + string) \<times> 's"

definition newestConfig :: "portalConfiguration \<Rightarrow> portalConfiguration list \<Rightarrow> portalConfiguration" where
  "newestConfig c cs = fold (\<lambda>x newest. if pco_Created x > pco_Created newest then x else newest) cs c"

definition findByNamespace :: "'s portalClient \<Rightarrow> string \<Rightarrow> 's \<Rightarrow> string + portalConfiguration option" where
  "findByNamespace cl namespace s =
     (case ptc_List cl s of
        (_, Some e) \<Rightarrow> Inl e
      | (configs, None) \<Rightarrow>
          (case filter (\<lambda>c. mstr (pco_Metadata c) MetadataKeyNamespace = namespace) configs of
             [] \<Rightarrow> Inr None
           | c # cs \<Rightarrow> Inr (Some (newestConfig c cs))))"

record SyncResult =
  syr_ConfigID :: string
  syr_Created :: bool
  syr_Updated :: bool
  syr_Unchanged :: bool

definition portal_Sync ::
  "(string \<Rightarrow> string) \<Rightarrow> string option \<Rightarrow> 's portalClient \<Rightarrow> PortalSpec \<Rightarrow> 's \<Rightarrow> (portalError + SyncResult) \<times> 's" where
  "portal_Sync sha256 ctx cl spec s =
     (case portal_Validate spec of
        Some e \<Rightarrow> (Inl e, s)
      | None \<Rightarrow>
          (case findByNamespace cl (pt_Namespace spec) s of
             Inl e \<Rightarrow> (Inl (FindFailed e), s)
           | Inr (Some existing) \<Rightarrow>
               if \<not> specDiffersFromExisting spec existing
               then (Inr \<lparr>syr_ConfigID = pco_ID existing, syr_Created = False, syr_Updated = False, syr_Unchanged = True\<rparr>, s)
               else (case ptc_Update cl
                   (ApplyIdempotencyKey sha256 ctx ''portalconfig.update'' [pt_Namespace spec, pco_ID existing]) (pco_ID existing)
                   ((buildUpdateParams spec)\<lparr>cfp_Metadata := [(MetadataKeyNamespace, pt_Namespace spec)]\<rparr>) s of
                  (Inl e, s1) \<Rightarrow> (Inl (PortalUpdateFailed e), s1)
                | (Inr i, s1) \<Rightarrow> (Inr \<lparr>syr_ConfigID = i, syr_Created = False, syr_Updated = True, syr_Unchanged = False\<rparr>, s1))
           | Inr None \<Rightarrow>
               (case ptc_Create cl (ApplyIdempotencyKey sha256 ctx ''portalconfig.create'' [pt_Namespace spec])
                   ((buildCreateParams spec)\<lparr>cfp_Metadata := [(MetadataKeyNamespace, pt_Namespace spec)]\<rparr>) s of
                  (Inl e, s1) \<Rightarrow> (Inl (PortalCreateFailed e), s1)
                | (Inr i, s1) \<Rightarrow> (Inr \<lparr>syr_ConfigID = i, syr_Created = True, syr_Updated = False, syr_Unchanged = False\<rparr>, s1))))"

end
