(* ===== verification/Portal_Config_Proofs.thy ===== *)
theory Portal_Config_Proofs
  imports Portal_Config
begin

text \<open>
  When \<open>Sync\<close> of the portal configuration settles. What it relies on of Stripe is that a parameter of a request replaces the stored
  field and a parameter that is left out keeps it.
\<close>

subsection \<open>Requests\<close>


subsection \<open>What Stripe does with a request\<close>

definition kept :: "string option \<Rightarrow> string \<Rightarrow> string" where
  "kept p old = (case p of None \<Rightarrow> old | Some x \<Rightarrow> x)"

definition profileOf :: "portalConfiguration \<Rightarrow> businessProfile" where
  "profileOf c = (case pco_BusinessProfile c of
      Some bp \<Rightarrow> bp | None \<Rightarrow> \<lparr>bp_Headline = '''', bp_PrivacyPolicyURL = '''', bp_TermsOfServiceURL = ''''\<rparr>)"

definition merged :: "configParams \<Rightarrow> portalConfiguration \<Rightarrow> portalConfiguration" where
  "merged p c =
     c\<lparr>pco_Metadata := fold (\<lambda>(k, v) m. mset_key k v m) (cfp_Metadata p) (pco_Metadata c),
       pco_DefaultReturnURL := cfp_DefaultReturnURL p,
       pco_BusinessProfile := Some \<lparr>bp_Headline = kept (cfp_Headline p) (bp_Headline (profileOf c)),
         bp_PrivacyPolicyURL = kept (cfp_PrivacyPolicyURL p) (bp_PrivacyPolicyURL (profileOf c)),
         bp_TermsOfServiceURL = kept (cfp_TermsOfServiceURL p) (bp_TermsOfServiceURL (profileOf c))\<rparr>,
       pco_Features := Some \<lparr>pfe_InvoiceHistory = Some (fp_InvoiceHistory (cfp_Features p)),
         pfe_PaymentMethodUpdate = Some (fp_PaymentMethodUpdate (cfp_Features p)),
         pfe_CustomerUpdate = Some (cup_Enabled (fp_CustomerUpdate (cfp_Features p))),
         pfe_SubscriptionCancel = Some (cnp_Enabled (fp_SubscriptionCancel (cfp_Features p))),
         pfe_SubscriptionUpdate = Some (sup_Enabled (fp_SubscriptionUpdate (cfp_Features p)))\<rparr>\<rparr>"



lemma merged_sel [simp]: "pco_ID (merged p c) = pco_ID c" "pco_Created (merged p c) = pco_Created c"
  by (simp_all add: merged_def)

subsection \<open>The configuration that is found\<close>








subsection \<open>Settling\<close>

abbreviation stampedParams :: "PortalSpec \<Rightarrow> configParams" where
  "stampedParams spec \<equiv> (buildCreateParams spec)\<lparr>cfp_Metadata := [(MetadataKeyNamespace, pt_Namespace spec)]\<rparr>"

lemma merged_namespace [simp]: "mstr (pco_Metadata (merged (stampedParams spec) c)) MetadataKeyNamespace = pt_Namespace spec"
  by (simp add: merged_def)








text \<open>The lists and modes inside a feature are not compared: changing them alone is never sent.\<close>

lemma subfields_never_sent:
  assumes "\<not> specDiffersFromExisting spec c"
  shows "\<not> specDiffersFromExisting (spec\<lparr>pt_Name := n, pt_Features := (pt_Features spec)
    \<lparr>ft_CustomerUpdate := (ft_CustomerUpdate (pt_Features spec))\<lparr>cuf_AllowedFields := fs\<rparr>,
     ft_SubscriptionCancel := (ft_SubscriptionCancel (pt_Features spec))\<lparr>scf_Mode := m, scf_ProrationBehavior := b\<rparr>,
     ft_SubscriptionUpdate := (ft_SubscriptionUpdate (pt_Features spec))\<lparr>suf_DefaultAllowedUpdates := u, suf_Products := ps\<rparr>\<rparr>\<rparr>) c"
  using assms by (simp add: specDiffersFromExisting_def profileDiffers_def featuresDiffer_def split: option.splits)

subsection \<open>A concrete configuration\<close>






end
