(* ===== verification/Disputes.thy ===== *)
theory Disputes
  imports Checkout_Backend
begin

text \<open>
  Package \<open>disputes\<close>: submitting evidence, closing, reading and listing disputes. The Stripe client's calls are fields of a record of
  functions on its state; a request's text that is left out is \<open>None\<close>.
\<close>

subsection \<open>Disputes and evidence\<close>

record stripeDispute =
  sdp_ID :: string
  sdp_Charge :: "string option"
  sdp_PaymentIntent :: "string option"
  sdp_Amount :: int
  sdp_Currency :: string
  sdp_Reason :: string
  sdp_Status :: string
  sdp_EvidenceDetails :: "(int \<times> bool) option"
  sdp_IsChargeRefundable :: bool
  sdp_Created :: int

record Dispute =
  dp_StripeID :: string
  dp_ChargeID :: string
  dp_PaymentIntentID :: string
  dp_Amount :: int
  dp_Currency :: string
  dp_Reason :: string
  dp_Status :: string
  dp_EvidenceDueBy :: "time option"
  dp_IsChargeRefundable :: bool
  dp_HasEvidence :: bool
  dp_CreatedAt :: time

record VisaCE3 =
  ce_DisputedTransactionID :: string
  ce_PriorUndisputedTransactions :: "string list"

record VisaCompliance =
  vc_FeeAcknowledged :: bool

record EnhancedEvidence =
  ee_VisaCompellingEvidence3 :: "VisaCE3 option"
  ee_VisaCompliance :: "VisaCompliance option"

record Evidence =
  evd_CustomerName :: string
  evd_CustomerEmail :: string
  evd_CustomerPurchaseIP :: string
  evd_BillingAddress :: string
  evd_ProductDescription :: string
  evd_ServiceDate :: string
  evd_ServiceDocumentation :: string
  evd_ShippingAddress :: string
  evd_ShippingDate :: string
  evd_ShippingCarrier :: string
  evd_ShippingTrackingNumber :: string
  evd_ShippingDocumentation :: string
  evd_CustomerSignature :: string
  evd_CustomerCommunication :: string
  evd_Receipt :: string
  evd_RefundPolicy :: string
  evd_RefundPolicyDisclosure :: string
  evd_RefundRefusalExplanation :: string
  evd_CancellationPolicy :: string
  evd_CancellationPolicyDisclosure :: string
  evd_CancellationRebuttal :: string
  evd_DuplicateChargeID :: string
  evd_DuplicateChargeExplanation :: string
  evd_DuplicateChargeDocumentation :: string
  evd_AccessActivityLog :: string
  evd_UncategorizedFile :: string
  evd_UncategorizedText :: string
  evd_EnhancedEvidence :: "EnhancedEvidence option"

definition hashBytes :: "EnhancedEvidence \<Rightarrow> string" where
  "hashBytes e =
     (case ee_VisaCompellingEvidence3 e of
        None \<Rightarrow> ''''
      | Some ce \<Rightarrow> ''ce3:'' @ ce_DisputedTransactionID ce @ '':'' @ concat (map (\<lambda>t. t @ '','') (ce_PriorUndisputedTransactions ce))) @
     (case ee_VisaCompliance e of
        None \<Rightarrow> ''''
      | Some vc \<Rightarrow> ''comp:'' @ (if vc_FeeAcknowledged vc then ''1'' else ''0''))"

definition evidenceFields :: "Evidence \<Rightarrow> (string, string) gomap" where
  "evidenceFields e =
     [(''AccessActivityLog'', evd_AccessActivityLog e),
      (''BillingAddress'', evd_BillingAddress e),
      (''CancellationPolicy'', evd_CancellationPolicy e),
      (''CancellationPolicyDisclosure'', evd_CancellationPolicyDisclosure e),
      (''CancellationRebuttal'', evd_CancellationRebuttal e),
      (''CustomerCommunication'', evd_CustomerCommunication e),
      (''CustomerEmail'', evd_CustomerEmail e),
      (''CustomerName'', evd_CustomerName e),
      (''CustomerPurchaseIP'', evd_CustomerPurchaseIP e),
      (''CustomerSignature'', evd_CustomerSignature e),
      (''DuplicateChargeDocumentation'', evd_DuplicateChargeDocumentation e),
      (''DuplicateChargeExplanation'', evd_DuplicateChargeExplanation e),
      (''DuplicateChargeID'', evd_DuplicateChargeID e),
      (''ProductDescription'', evd_ProductDescription e),
      (''Receipt'', evd_Receipt e),
      (''RefundPolicy'', evd_RefundPolicy e),
      (''RefundPolicyDisclosure'', evd_RefundPolicyDisclosure e),
      (''RefundRefusalExplanation'', evd_RefundRefusalExplanation e),
      (''ServiceDate'', evd_ServiceDate e),
      (''ServiceDocumentation'', evd_ServiceDocumentation e),
      (''ShippingAddress'', evd_ShippingAddress e),
      (''ShippingCarrier'', evd_ShippingCarrier e),
      (''ShippingDate'', evd_ShippingDate e),
      (''ShippingDocumentation'', evd_ShippingDocumentation e),
      (''ShippingTrackingNumber'', evd_ShippingTrackingNumber e),
      (''UncategorizedFile'', evd_UncategorizedFile e),
      (''UncategorizedText'', evd_UncategorizedText e)]"

text \<open>The map that \<open>evidenceContentHash\<close> hashes.\<close>

definition evidenceHashFields :: "Evidence \<Rightarrow> (string, string) gomap" where
  "evidenceHashFields e =
     evidenceFields e @ (case evd_EnhancedEvidence e of None \<Rightarrow> [] | Some ee \<Rightarrow> [(''EnhancedEvidence'', hashBytes ee)])"

definition evidenceContentHash :: "(string \<Rightarrow> string) \<Rightarrow> Evidence \<Rightarrow> string" where
  "evidenceContentHash sha256 e = ContentHash sha256 ''disputes.evidence'' (evidenceHashFields e)"

subsection \<open>Requests\<close>

definition setIf :: "string \<Rightarrow> string option" where
  "setIf s = (if s \<noteq> '''' then Some s else None)"

record enhancedParams =
  ep_CustomerAccountID :: "string option option"
  ep_FeeAcknowledged :: "bool option"

text \<open>The texts of a request, in the order of \<open>buildEvidenceParams\<close>, and the enhanced evidence.\<close>

record evidenceParams =
  evp_Texts :: "(string \<times> string option) list"
  evp_Enhanced :: "enhancedParams option"

definition buildEnhancedEvidenceParams :: "EnhancedEvidence \<Rightarrow> enhancedParams" where
  "buildEnhancedEvidenceParams e =
     \<lparr>ep_CustomerAccountID = map_option (\<lambda>ce. setIf (ce_DisputedTransactionID ce)) (ee_VisaCompellingEvidence3 e),
      ep_FeeAcknowledged = map_option vc_FeeAcknowledged (ee_VisaCompliance e)\<rparr>"

definition buildEvidenceParams :: "Evidence \<Rightarrow> evidenceParams" where
  "buildEvidenceParams e =
     \<lparr>evp_Texts =
       [(''AccessActivityLog'', setIf (evd_AccessActivityLog e)),
        (''BillingAddress'', setIf (evd_BillingAddress e)),
        (''CancellationPolicy'', setIf (evd_CancellationPolicy e)),
        (''CancellationPolicyDisclosure'', setIf (evd_CancellationPolicyDisclosure e)),
        (''CancellationRebuttal'', setIf (evd_CancellationRebuttal e)),
        (''CustomerCommunication'', setIf (evd_CustomerCommunication e)),
        (''CustomerEmailAddress'', setIf (evd_CustomerEmail e)),
        (''CustomerName'', setIf (evd_CustomerName e)),
        (''CustomerPurchaseIP'', setIf (evd_CustomerPurchaseIP e)),
        (''CustomerSignature'', setIf (evd_CustomerSignature e)),
        (''DuplicateChargeDocumentation'', setIf (evd_DuplicateChargeDocumentation e)),
        (''DuplicateChargeExplanation'', setIf (evd_DuplicateChargeExplanation e)),
        (''DuplicateChargeID'', setIf (evd_DuplicateChargeID e)),
        (''ProductDescription'', setIf (evd_ProductDescription e)),
        (''Receipt'', setIf (evd_Receipt e)),
        (''RefundPolicy'', setIf (evd_RefundPolicy e)),
        (''RefundPolicyDisclosure'', setIf (evd_RefundPolicyDisclosure e)),
        (''RefundRefusalExplanation'', setIf (evd_RefundRefusalExplanation e)),
        (''ServiceDate'', setIf (evd_ServiceDate e)),
        (''ServiceDocumentation'', setIf (evd_ServiceDocumentation e)),
        (''ShippingAddress'', setIf (evd_ShippingAddress e)),
        (''ShippingCarrier'', setIf (evd_ShippingCarrier e)),
        (''ShippingDate'', setIf (evd_ShippingDate e)),
        (''ShippingDocumentation'', setIf (evd_ShippingDocumentation e)),
        (''ShippingTrackingNumber'', setIf (evd_ShippingTrackingNumber e)),
        (''UncategorizedFile'', setIf (evd_UncategorizedFile e)),
        (''UncategorizedText'', setIf (evd_UncategorizedText e))],
      evp_Enhanced = map_option buildEnhancedEvidenceParams (evd_EnhancedEvidence e)\<rparr>"

definition projectDispute :: "stripeDispute \<Rightarrow> Dispute" where
  "projectDispute d =
     (let due = (case sdp_EvidenceDetails d of Some (dueBy, has) \<Rightarrow> if dueBy > 0 then Some (unixTime dueBy, has) else None | None \<Rightarrow> None)
      in \<lparr>dp_StripeID = sdp_ID d,
          dp_ChargeID = (case sdp_Charge d of None \<Rightarrow> '''' | Some c \<Rightarrow> c),
          dp_PaymentIntentID = (case sdp_PaymentIntent d of None \<Rightarrow> '''' | Some p \<Rightarrow> p),
          dp_Amount = sdp_Amount d, dp_Currency = sdp_Currency d, dp_Reason = sdp_Reason d, dp_Status = sdp_Status d,
          dp_EvidenceDueBy = map_option fst due, dp_IsChargeRefundable = sdp_IsChargeRefundable d,
          dp_HasEvidence = (case due of None \<Rightarrow> False | Some x \<Rightarrow> snd x), dp_CreatedAt = unixTime (sdp_Created d)\<rparr>)"

subsection \<open>Operations\<close>

record 's disputeClient =
  dc_Update :: "string \<Rightarrow> string \<Rightarrow> evidenceParams \<Rightarrow> 's \<Rightarrow> (string + stripeDispute) \<times> 's"
  dc_Close :: "string \<Rightarrow> string \<Rightarrow> 's \<Rightarrow> (string + stripeDispute) \<times> 's"
  dc_Retrieve :: "string \<Rightarrow> 's \<Rightarrow> string + stripeDispute"
  dc_List :: "string option \<Rightarrow> string option \<Rightarrow> int \<Rightarrow> 's \<Rightarrow> stripeDispute list \<times> string option"

datatype disputeError = DisputeIDRequired | DisputeFailed string

definition SubmitEvidence ::
  "(string \<Rightarrow> string) \<Rightarrow> string option \<Rightarrow> 's disputeClient \<Rightarrow> string \<Rightarrow> Evidence \<Rightarrow> 's \<Rightarrow> (disputeError + Dispute) \<times> 's" where
  "SubmitEvidence sha256 ctx cl disputeID evidence s =
     (if disputeID = '''' then (Inl DisputeIDRequired, s)
      else apfst (map_sum DisputeFailed projectDispute)
        (dc_Update cl (ApplyIdempotencyKey sha256 ctx ''disputes.submit_evidence'' [disputeID, evidenceContentHash sha256 evidence])
          disputeID (buildEvidenceParams evidence) s))"

definition disputes_Close ::
  "(string \<Rightarrow> string) \<Rightarrow> string option \<Rightarrow> 's disputeClient \<Rightarrow> string \<Rightarrow> 's \<Rightarrow> (disputeError + Dispute) \<times> 's" where
  "disputes_Close sha256 ctx cl disputeID s =
     (if disputeID = '''' then (Inl DisputeIDRequired, s)
      else apfst (map_sum DisputeFailed projectDispute)
        (dc_Close cl (ApplyIdempotencyKey sha256 ctx ''disputes.close'' [disputeID]) disputeID s))"

definition disputes_Retrieve :: "'s disputeClient \<Rightarrow> string \<Rightarrow> 's \<Rightarrow> disputeError + Dispute" where
  "disputes_Retrieve cl disputeID s =
     (if disputeID = '''' then Inl DisputeIDRequired else map_sum DisputeFailed projectDispute (dc_Retrieve cl disputeID s))"

record DisputeListInput =
  dl_ChargeID :: string
  dl_PaymentIntentID :: string
  dl_Limit :: int

definition disputes_List :: "'s disputeClient \<Rightarrow> DisputeListInput \<Rightarrow> 's \<Rightarrow> disputeError + Dispute list" where
  "disputes_List cl inp s =
     (let limit = (if dl_Limit inp \<le> 0 then 50 else dl_Limit inp);
          (ds, failure) = dc_List cl (setIf (dl_ChargeID inp)) (setIf (dl_PaymentIntentID inp)) limit s
      in map_sum DisputeFailed (\<lambda>x. x) (takeListing limit projectDispute ds failure []))"

end
