(* ===== verification/Disputes_Proofs.thy ===== *)
theory Disputes_Proofs
  imports Disputes Idempotency_Proofs
begin

text \<open>
  Evidence for a dispute: the content hash that goes into the idempotency key of a submission stands for the whole request.
\<close>

subsection \<open>Maps with fixed keys\<close>



subsection \<open>What is hashed\<close>




subsection \<open>Enhanced evidence\<close>













text \<open>The prior transactions never reach Stripe.\<close>

lemma prior_transactions_not_sent:
  "buildEnhancedEvidenceParams \<lparr>ee_VisaCompellingEvidence3 = Some (ce\<lparr>ce_PriorUndisputedTransactions := ts\<rparr>), ee_VisaCompliance = v\<rparr> =
   buildEnhancedEvidenceParams \<lparr>ee_VisaCompellingEvidence3 = Some ce, ee_VisaCompliance = v\<rparr>"
  by (simp add: buildEnhancedEvidenceParams_def)

text \<open>With a colon in a transaction id two different requests share their bytes.\<close>

lemma hashBytes_collision:
  "hashBytes \<lparr>ee_VisaCompellingEvidence3 = Some \<lparr>ce_DisputedTransactionID = ''a'', ce_PriorUndisputedTransactions = [''b:c'']\<rparr>, ee_VisaCompliance = None\<rparr> =
   hashBytes \<lparr>ee_VisaCompellingEvidence3 = Some \<lparr>ce_DisputedTransactionID = ''a:b'', ce_PriorUndisputedTransactions = [''c'']\<rparr>, ee_VisaCompliance = None\<rparr>"
  by code_simp

subsection \<open>An example\<close>



end
