(* ===== verification/Subscription_Backend.thy ===== *)
theory Subscription_Backend
  imports Checkout_Backend Subscription_Ops Metering
begin

text \<open>
  \<open>stripeapi/subscription_backend.go\<close>: the Stripe adapter behind \<open>subscriptions.Backend\<close>, down to the parameters of each request and
  its idempotency key. The calls of the Stripe client are fields of a record of functions on its state; a parameter that is left
  out is \<open>None\<close>. A listing gives the items before its end or failure, and the failure.
\<close>

subsection \<open>The client\<close>

record itemParams =
  ip_ID :: "string option"
  ip_Price :: "string option"
  ip_Quantity :: "int option"
  ip_Deleted :: bool

record subUpdateRequest =
  sur_CancelAtPeriodEnd :: "bool option"
  sur_ProrationBehavior :: "string option"
  sur_Items :: "itemParams list"
  sur_Discounts :: "string list option"
  sur_PauseCollection :: "(string \<times> int option) option"
  sur_ClearPause :: bool

definition noChange :: subUpdateRequest where
  "noChange = \<lparr>sur_CancelAtPeriodEnd = None, sur_ProrationBehavior = None, sur_Items = [], sur_Discounts = None,
     sur_PauseCollection = None, sur_ClearPause = False\<rparr>"

record stripeSubscription = stripeSub +
  ssx_TrialStart :: int

record stripePreview =
  spv_Currency :: string
  spv_AmountDue :: int
  spv_Subtotal :: int
  spv_TotalTaxes :: "int option list"
  spv_Lines :: "(string \<times> int \<times> string option) list"

record phaseParams =
  php_Price :: string
  php_Quantity :: int
  php_Iterations :: "int option"
  php_Coupon :: "string option"

record scheduleParams =
  shp_Customer :: string
  shp_Phases :: "phaseParams list"
  shp_EndBehavior :: string
  shp_StartDate :: "int option"
  shp_Metadata :: "(string, string) gomap"

record addItemParams =
  aip_Quantity :: int
  aip_Price :: "string option"
  aip_PriceData :: "(string \<times> int \<times> string) option"

record subCreateRequest =
  scq_Customer :: string
  scq_Price :: string
  scq_Quantity :: int
  scq_DaysUntilDue :: "int option"
  scq_TrialPeriodDays :: "int option"
  scq_Metadata :: "(string, string) gomap"
  scq_AddInvoiceItems :: "addItemParams list"

record 's subsClient =
  scl_Update :: "string \<Rightarrow> string \<Rightarrow> subUpdateRequest \<Rightarrow> 's \<Rightarrow> string option \<times> 's"
  scl_Cancel :: "string \<Rightarrow> string \<Rightarrow> bool \<Rightarrow> string option \<Rightarrow> 's \<Rightarrow> string option \<times> 's"
  scl_ListSince :: "int \<Rightarrow> 's \<Rightarrow> stripeSubscription list \<times> string option"
  scl_ListByCustomer :: "string \<Rightarrow> 's \<Rightarrow> stripeSubscription list \<times> string option"
  scl_CreateSchedule :: "string \<Rightarrow> scheduleParams \<Rightarrow> 's \<Rightarrow> (string + Schedule) \<times> 's"
  scl_CreatePreview :: "string \<Rightarrow> itemParams list \<Rightarrow> string \<Rightarrow> 's \<Rightarrow> (string + stripePreview) \<times> 's"
  scl_CreateProduct :: "string \<Rightarrow> string \<times> (string, string) gomap \<Rightarrow> 's \<Rightarrow> (string + string) \<times> 's"
  scl_ArchiveProduct :: "string \<Rightarrow> 's \<Rightarrow> string option \<times> 's"
  scl_Retrieve :: "string \<Rightarrow> 's \<Rightarrow> string + stripeSubscription"
  scl_Create :: "string \<Rightarrow> subCreateRequest \<Rightarrow> 's \<Rightarrow> (string + stripeSubscription) \<times> 's"

definition FormatBool :: "bool \<Rightarrow> string" where
  "FormatBool b = (if b then ''true'' else ''false'')"

definition ifSet :: "string \<Rightarrow> string option" where
  "ifSet s = (if s \<noteq> '''' then Some s else None)"

subsection \<open>Changing a subscription\<close>

definition api_CancelAtPeriodEnd ::
  "(string \<Rightarrow> string) \<Rightarrow> string option \<Rightarrow> 's subsClient \<Rightarrow> string \<Rightarrow> bool \<Rightarrow> 's \<Rightarrow> string option \<times> 's" where
  "api_CancelAtPeriodEnd sha256 ctx cl sid b s =
     scl_Update cl (ApplyIdempotencyKey sha256 ctx ''subscription.cancel_at_period_end'' [sid, FormatBool b]) sid
       (noChange\<lparr>sur_CancelAtPeriodEnd := Some b\<rparr>) s"

definition api_CancelNow ::
  "(string \<Rightarrow> string) \<Rightarrow> string option \<Rightarrow> 's subsClient \<Rightarrow> string \<Rightarrow> CancelNowOptions \<Rightarrow> 's \<Rightarrow> string option \<times> 's" where
  "api_CancelNow sha256 ctx cl sid opts s =
     scl_Cancel cl (ApplyIdempotencyKey sha256 ctx ''subscription.cancel_now'' [sid, FormatBool (cno_Prorate opts), cno_Reason opts]) sid
       (cno_Prorate opts) (ifSet (cno_Reason opts)) s"

definition itemParamsOf :: "ItemChange \<Rightarrow> itemParams" where
  "itemParamsOf it =
     \<lparr>ip_ID = ifSet (ic_StripeItemID it), ip_Price = ifSet (ic_PriceID it),
      ip_Quantity = (if ic_Quantity it > 0 then Some (ic_Quantity it) else None), ip_Deleted = ic_Deleted it\<rparr>"

definition canonicalItemChanges :: "ItemChange list \<Rightarrow> string" where
  "canonicalItemChanges items = CanonicalStrings (map (\<lambda>it. ic_StripeItemID it @ ''|'' @ ic_PriceID it @ ''|'' @
     CanonicalInt64 (ic_Quantity it) @ ''|'' @ FormatBool (ic_Deleted it)) items)"

definition api_UpdateItems ::
  "(string \<Rightarrow> string) \<Rightarrow> string option \<Rightarrow> 's subsClient \<Rightarrow> string \<Rightarrow> ItemChange list \<Rightarrow> UpdateOptions \<Rightarrow> 's \<Rightarrow> string option \<times> 's" where
  "api_UpdateItems sha256 ctx cl sid items opts s =
     scl_Update cl (ApplyIdempotencyKey sha256 ctx ''subscription.update_items'' [sid, uo_ProrationBehavior opts, canonicalItemChanges items]) sid
       (noChange\<lparr>sur_ProrationBehavior := ifSet (uo_ProrationBehavior opts), sur_Items := map itemParamsOf items\<rparr>) s"

definition api_ApplyCoupon ::
  "(string \<Rightarrow> string) \<Rightarrow> string option \<Rightarrow> 's subsClient \<Rightarrow> string \<Rightarrow> string \<Rightarrow> 's \<Rightarrow> string option \<times> 's" where
  "api_ApplyCoupon sha256 ctx cl sid couponID s =
     scl_Update cl (ApplyIdempotencyKey sha256 ctx ''subscription.apply_coupon'' [sid, couponID]) sid (noChange\<lparr>sur_Discounts := Some [couponID]\<rparr>) s"

definition api_RemoveCoupon :: "(string \<Rightarrow> string) \<Rightarrow> string option \<Rightarrow> 's subsClient \<Rightarrow> string \<Rightarrow> 's \<Rightarrow> string option \<times> 's" where
  "api_RemoveCoupon sha256 ctx cl sid s =
     scl_Update cl (ApplyIdempotencyKey sha256 ctx ''subscription.remove_coupon'' [sid]) sid (noChange\<lparr>sur_Discounts := Some []\<rparr>) s"

definition api_Pause ::
  "(string \<Rightarrow> string) \<Rightarrow> string option \<Rightarrow> 's subsClient \<Rightarrow> string \<Rightarrow> PauseOptions \<Rightarrow> 's \<Rightarrow> string option \<times> 's" where
  "api_Pause sha256 ctx cl sid opts s =
     (let behavior = (if po_Behavior opts = '''' then ''keep_as_draft'' else po_Behavior opts);
          resumes = (if po_ResumesAt opts = zero_time then None else Some (Unix (po_ResumesAt opts)))
      in scl_Update cl
           (ApplyIdempotencyKey sha256 ctx ''subscription.pause'' [sid, behavior, case resumes of None \<Rightarrow> '''' | Some u \<Rightarrow> CanonicalInt64 u]) sid
           (noChange\<lparr>sur_PauseCollection := Some (behavior, resumes)\<rparr>) s)"

definition api_Resume :: "(string \<Rightarrow> string) \<Rightarrow> string option \<Rightarrow> 's subsClient \<Rightarrow> string \<Rightarrow> 's \<Rightarrow> string option \<times> 's" where
  "api_Resume sha256 ctx cl sid s =
     scl_Update cl (ApplyIdempotencyKey sha256 ctx ''subscription.resume'' [sid]) sid (noChange\<lparr>sur_ClearPause := True\<rparr>) s"

subsection \<open>Reading subscriptions\<close>

definition projectItem :: "stripeSubItem \<Rightarrow> SubscriptionItem" where
  "projectItem it =
     \<lparr>si_StripeID = sit_ID it,
      si_PriceKey = (case sit_Price it of
          None \<Rightarrow> ''''
        | Some (pid, lookupKey) \<Rightarrow> if lookupKey \<noteq> '''' then lookupKey else ''stripe:'' @ pid),
      si_Quantity = sit_Quantity it\<rparr>"

text \<open>The loop over the items: the period is that of the first item that has one, read with \<open>time.Unix\<close> or \<open>unixOrZero\<close>.\<close>

definition periodOf :: "(int \<Rightarrow> time) \<Rightarrow> stripeSubItem list \<Rightarrow> time \<times> time" where
  "periodOf conv items = fold (\<lambda>it (a, b). if a = zero_time \<and> sit_CurrentPeriodStart it > 0
     then (conv (sit_CurrentPeriodStart it), conv (sit_CurrentPeriodEnd it)) else (a, b)) items (zero_time, zero_time)"

definition api_projectSubscription :: "stripeSubscription \<Rightarrow> ReconciledSubscription" where
  "api_projectSubscription x =
     \<lparr>rs_StripeID = ss_SubID x, rs_StripeCustomerID = (case ss_Customer x of None \<Rightarrow> '''' | Some c \<Rightarrow> c), rs_Status = ss_Status x,
      rs_CancelAtPeriodEnd = ss_CancelAtPeriodEnd x, rs_CanceledAt = UnixToTimePtr (ss_CanceledAt x), rs_EndedAt = UnixToTimePtr (ss_EndedAt x),
      rs_TrialStart = UnixToTimePtr (ssx_TrialStart x), rs_TrialEnd = UnixToTimePtr (ss_TrialEnd x), rs_Metadata = ss_SubMetadata x,
      rs_Items = map projectItem (ss_Items x), rs_CurrentPeriodStart = fst (periodOf unixTime (ss_Items x)),
      rs_CurrentPeriodEnd = snd (periodOf unixTime (ss_Items x)), rs_UpdatedUnix = ss_Created x\<rparr>"

definition api_ListSince :: "'s subsClient \<Rightarrow> time \<Rightarrow> 's \<Rightarrow> (string + ReconciledSubscription list) \<times> 's" where
  "api_ListSince cl since s =
     (case scl_ListSince cl (Unix since) s of (_, Some e) \<Rightarrow> (Inl e, s) | (xs, None) \<Rightarrow> (Inr (map api_projectSubscription xs), s))"

definition api_ListByCustomer :: "'s subsClient \<Rightarrow> string \<Rightarrow> 's \<Rightarrow> (string + ReconciledSubscription list) \<times> 's" where
  "api_ListByCustomer cl cid s =
     (case scl_ListByCustomer cl cid s of (_, Some e) \<Rightarrow> (Inl e, s) | (xs, None) \<Rightarrow> (Inr (map api_projectSubscription xs), s))"

definition api_GetSubscriptionItems :: "'s subsClient \<Rightarrow> string \<Rightarrow> 's \<Rightarrow> (string + SubscriptionItem list) \<times> 's" where
  "api_GetSubscriptionItems cl sid s =
     (case scl_Retrieve cl sid s of Inl e \<Rightarrow> (Inl e, s) | Inr x \<Rightarrow> (Inr (map projectItem (ss_Items x)), s))"

definition sumInvoiceTaxes :: "int option list \<Rightarrow> int" where
  "sumInvoiceTaxes taxes = fold (\<lambda>t acc. case t of None \<Rightarrow> acc | Some a \<Rightarrow> wrap64 (acc + a)) taxes 0"

definition api_PreviewItemChange :: "'s subsClient \<Rightarrow> string \<Rightarrow> ItemChange list \<Rightarrow> 's \<Rightarrow> (string + MigratePreview) \<times> 's" where
  "api_PreviewItemChange cl sid items s =
     apfst (map_sum (\<lambda>e. e) (\<lambda>inv.
        \<lparr>mp_Currency = spv_Currency inv, mp_AmountDueNow = spv_AmountDue inv, mp_AmountSubtotal = spv_Subtotal inv,
         mp_AmountTax = sumInvoiceTaxes (spv_TotalTaxes inv), mp_NextBillingTotal = 0, mp_NextBillingAt = zero_time,
         mp_ProrationLineItems = map (\<lambda>(d, a, p). \<lparr>mpl_Description = d, mpl_Amount = a,
           mpl_PriceID = (case p of None \<Rightarrow> '''' | Some x \<Rightarrow> x)\<rparr>) (spv_Lines inv)\<rparr>))
       (scl_CreatePreview cl sid (map itemParamsOf items) ''create_prorations'' s)"

subsection \<open>Schedules\<close>

definition canonicalSchedulePhases :: "BackendPhase list \<Rightarrow> string" where
  "canonicalSchedulePhases phases = CanonicalStrings (map (\<lambda>p. bp_StripePriceID p @ ''|'' @ CanonicalInt64 (bp_Quantity p) @ ''|'' @
     CanonicalInt64 (bp_Iterations p) @ ''|'' @ bp_StripeCouponID p) phases)"

definition scheduleKeyInputs :: "ScheduleBackendInput \<Rightarrow> string list" where
  "scheduleKeyInputs inp =
     [sbi_StripeCustomerID inp, sbi_EndBehavior inp, canonicalSchedulePhases (sbi_Phases inp), CanonicalMap (sbi_Metadata inp)]"

definition scheduleParamsOf :: "ScheduleBackendInput \<Rightarrow> scheduleParams" where
  "scheduleParamsOf inp =
     \<lparr>shp_Customer = sbi_StripeCustomerID inp,
      shp_Phases = map (\<lambda>p. \<lparr>php_Price = bp_StripePriceID p, php_Quantity = bp_Quantity p,
        php_Iterations = (if bp_Iterations p > 0 then Some (bp_Iterations p) else None), php_Coupon = ifSet (bp_StripeCouponID p)\<rparr>) (sbi_Phases inp),
      shp_EndBehavior = sbi_EndBehavior inp,
      shp_StartDate = (if sbi_StartAt inp = zero_time then None else Some (Unix (sbi_StartAt inp))), shp_Metadata = sbi_Metadata inp\<rparr>"

definition api_CreateSubscriptionSchedule ::
  "(string \<Rightarrow> string) \<Rightarrow> string option \<Rightarrow> 's subsClient \<Rightarrow> ScheduleBackendInput \<Rightarrow> 's \<Rightarrow> (string + Schedule) \<times> 's" where
  "api_CreateSubscriptionSchedule sha256 ctx cl inp s =
     scl_CreateSchedule cl (ApplyIdempotencyKey sha256 ctx ''subscription_schedule.create'' (scheduleKeyInputs inp)) (scheduleParamsOf inp) s"

subsection \<open>Invoiced subscriptions\<close>

definition buildAddInvoiceItemParams ::
  "(string \<Rightarrow> string) \<Rightarrow> string option \<Rightarrow> 's subsClient \<Rightarrow> AddInvoiceItem \<Rightarrow> (string, string) gomap \<Rightarrow> 's \<Rightarrow>
    (string + addItemParams \<times> string) \<times> 's" where
  "buildAddInvoiceItemParams sha256 ctx cl it sessionMeta s =
     (let qty = (if aii_Quantity it \<le> 0 then 1 else aii_Quantity it)
      in if aii_StripePriceID it \<noteq> ''''
         then (Inr (\<lparr>aip_Quantity = qty, aip_Price = Some (aii_StripePriceID it), aip_PriceData = None\<rparr>, ''''), s)
         else if aii_InlineAmount it > 0 \<and> aii_Currency it \<noteq> '''' \<and> aii_Name it \<noteq> '''' then
           (case scl_CreateProduct cl (ApplyIdempotencyKey sha256 ctx ''product.create.setup_fee'' [aii_Name it, CanonicalMap sessionMeta])
               (aii_Name it, sessionMeta) s of
              (Inl e, s1) \<Rightarrow> (Inl e, s1)
            | (Inr pid, s1) \<Rightarrow>
                (Inr (\<lparr>aip_Quantity = qty, aip_Price = None, aip_PriceData = Some (aii_Currency it, aii_InlineAmount it, pid)\<rparr>, pid), s1))
         else (Inl ''AddInvoiceItem requires StripePriceID OR (InlineAmount>0 + Currency + Name)'', s))"

definition archiveOrphanProducts :: "'s subsClient \<Rightarrow> string list \<Rightarrow> 's \<Rightarrow> 's" where
  "archiveOrphanProducts cl ids s = fold (\<lambda>i x. snd (scl_ArchiveProduct cl i x)) ids s"

fun addItemsLoop ::
  "(string \<Rightarrow> string) \<Rightarrow> string option \<Rightarrow> 's subsClient \<Rightarrow> (string, string) gomap \<Rightarrow> AddInvoiceItem list \<Rightarrow> addItemParams list \<Rightarrow> string list \<Rightarrow>
    's \<Rightarrow> (string option \<times> addItemParams list \<times> string list) \<times> 's" where
  "addItemsLoop sha256 ctx cl md [] out ids s = ((None, out, ids), s)"
| "addItemsLoop sha256 ctx cl md (it # its) out ids s =
     (case buildAddInvoiceItemParams sha256 ctx cl it md s of
        (Inl e, s1) \<Rightarrow> ((Some e, out, ids), s1)
      | (Inr (ai, inlineID), s1) \<Rightarrow>
          addItemsLoop sha256 ctx cl md its (out @ [ai]) (if inlineID \<noteq> '''' then ids @ [inlineID] else ids) s1)"

definition daysUntilDue :: "int \<Rightarrow> int option" where
  "daysUntilDue dueIn = (if dueIn > 0 then Some (max 1 (dueIn div dayNs)) else None)"

definition invoicedKeyInputs :: "InvoicedSubscriptionInput \<Rightarrow> string list" where
  "invoicedKeyInputs inp =
     [isi_StripeCustomerID inp, isi_StripePriceID inp, CanonicalInt64 (isi_Quantity inp), CanonicalInt64 (isi_DueIn inp),
      CanonicalInt64 (isi_TrialDays inp), CanonicalMap (isi_Metadata inp)]"

definition projectCreatedSubscription :: "stripeSubscription \<Rightarrow> Subscription" where
  "projectCreatedSubscription x =
     \<lparr>sub_StripeID = ss_SubID x, sub_SubjectID = '''', sub_StripeCustomerID = (case ss_Customer x of None \<Rightarrow> '''' | Some c \<Rightarrow> c),
      sub_Status = ss_Status x, sub_Items = map projectItem (ss_Items x), sub_CurrentPeriodStart = fst (periodOf UnixToTime (ss_Items x)),
      sub_CurrentPeriodEnd = snd (periodOf UnixToTime (ss_Items x)), sub_CancelAtPeriodEnd = ss_CancelAtPeriodEnd x, sub_CanceledAt = None,
      sub_EndedAt = None, sub_TrialStart = positiveTime (ssx_TrialStart x), sub_TrialEnd = positiveTime (ss_TrialEnd x),
      sub_Metadata = ss_SubMetadata x, sub_UpdatedAt = UnixToTime (ss_Created x), sub_StripeUpdatedAt = UnixToTime (ss_Created x),
      sub_LatestInvoice = None\<rparr>"

definition api_CreateInvoiced ::
  "(string \<Rightarrow> string) \<Rightarrow> string option \<Rightarrow> 's subsClient \<Rightarrow> InvoicedSubscriptionInput \<Rightarrow> 's \<Rightarrow> (string + Subscription) \<times> 's" where
  "api_CreateInvoiced sha256 ctx cl inp s =
     (case addItemsLoop sha256 ctx cl (isi_Metadata inp) (isi_AddInvoiceItems inp) [] [] s of
        ((Some e, _, ids), s1) \<Rightarrow> (Inl e, archiveOrphanProducts cl ids s1)
      | ((None, items, ids), s1) \<Rightarrow>
          (case scl_Create cl (ApplyIdempotencyKey sha256 ctx ''subscription.create_invoiced'' (invoicedKeyInputs inp))
              \<lparr>scq_Customer = isi_StripeCustomerID inp, scq_Price = isi_StripePriceID inp, scq_Quantity = isi_Quantity inp,
               scq_DaysUntilDue = daysUntilDue (isi_DueIn inp),
               scq_TrialPeriodDays = (if isi_TrialDays inp > 0 then Some (isi_TrialDays inp) else None),
               scq_Metadata = isi_Metadata inp, scq_AddInvoiceItems = items\<rparr> s1 of
             (Inl e, s2) \<Rightarrow> (Inl e, archiveOrphanProducts cl ids s2)
           | (Inr x, s2) \<Rightarrow> (Inr (projectCreatedSubscription x), s2)))"

definition NewSubscriptionBackend :: "(string \<Rightarrow> string) \<Rightarrow> string option \<Rightarrow> 's subsClient \<Rightarrow> 's subsBackend" where
  "NewSubscriptionBackend sha256 ctx cl =
     \<lparr>sbk_CancelAtPeriodEnd = api_CancelAtPeriodEnd sha256 ctx cl, sbk_CancelNow = api_CancelNow sha256 ctx cl,
      sbk_UpdateItems = api_UpdateItems sha256 ctx cl, sbk_ApplyCoupon = api_ApplyCoupon sha256 ctx cl,
      sbk_RemoveCoupon = api_RemoveCoupon sha256 ctx cl, sbk_ListSince = api_ListSince cl, sbk_CreateInvoiced = api_CreateInvoiced sha256 ctx cl,
      sbk_CreateSubscriptionSchedule = api_CreateSubscriptionSchedule sha256 ctx cl, sbk_GetSubscriptionItems = api_GetSubscriptionItems cl,
      sbk_PreviewItemChange = api_PreviewItemChange cl, sbk_Pause = api_Pause sha256 ctx cl, sbk_Resume = api_Resume sha256 ctx cl,
      sbk_ListByCustomer = Some (api_ListByCustomer cl)\<rparr>"

end
