(* ===== verification/Subscription_Backend_Proofs.thy ===== *)
theory Subscription_Backend_Proofs
  imports Subscription_Backend Idempotency_Proofs Go_JSON
begin

text \<open>
  The subscription operations over the Stripe adapter: what a series of seat changes leaves, given Stripe's replay of recorded
  responses, the periods and item keys that are read back, and what the keys of schedules and invoiced subscriptions leave out.
\<close>

subsection \<open>Replayed responses\<close>

text \<open>
  Stripe's documented treatment of a key on subscription updates: a key it knows gives the recorded response and changes
  nothing; on a new key the response is recorded and, when the request is accepted, each item with an id and a quantity has that
  quantity.
\<close>

definition setSeats :: "string \<Rightarrow> itemParams list \<Rightarrow> (string \<times> string \<Rightarrow> int option) \<Rightarrow> string \<times> string \<Rightarrow> int option" where
  "setSeats sid items f =
     fold (\<lambda>ip g. case (ip_ID ip, ip_Quantity ip) of (Some i, Some q) \<Rightarrow> g((sid, i) := Some q) | _ \<Rightarrow> g) items f"

definition replay_contract ::
  "'s subsClient \<Rightarrow> ('s \<Rightarrow> string \<Rightarrow> string option option) \<Rightarrow> ('s \<Rightarrow> string \<times> string \<Rightarrow> int option) \<Rightarrow> bool" where
  "replay_contract cl recorded seats \<longleftrightarrow>
     (\<forall>key sid req s r. recorded s key = Some r \<longrightarrow> scl_Update cl key sid req s = (r, s)) \<and>
     (\<forall>key sid req s r s'. recorded s key = None \<longrightarrow> scl_Update cl key sid req s = (r, s') \<longrightarrow>
        recorded s' = (recorded s)(key := Some r) \<and>
        seats s' = (if r = None then setSeats sid (sur_Items req) (seats s) else seats s))"

lemmas replay_known = replay_contract_def [THEN iffD1, THEN conjunct1, rule_format]
lemmas replay_fresh = replay_contract_def [THEN iffD1, THEN conjunct2, rule_format]

subsection \<open>Seat changes\<close>

definition seatKey :: "(string \<Rightarrow> string) \<Rightarrow> string \<Rightarrow> string \<Rightarrow> bool \<Rightarrow> int \<Rightarrow> string" where
  "seatKey sha sid itemID prorate q =
     ApplyIdempotencyKey sha None ''subscription.update_items'' [sid, prorationBehavior prorate, canonicalItemChanges (seatChange itemID q)]"

definition seatBytes :: "string \<Rightarrow> string \<Rightarrow> bool \<Rightarrow> int \<Rightarrow> string" where
  "seatBytes sid itemID prorate q =
     keyBytes ''subscription.update_items'' [sid, prorationBehavior prorate, canonicalItemChanges (seatChange itemID q)]"

fun adjustAll :: "('s, 'r) subsOps \<Rightarrow> string \<Rightarrow> string \<Rightarrow> bool \<Rightarrow> int list \<Rightarrow> 's \<Rightarrow> subsError option list \<times> 's" where
  "adjustAll ops sid itemID prorate [] s = ([], s)"
| "adjustAll ops sid itemID prorate (q # qs) s =
     (case subs_AdjustSeats ops sid itemID q prorate s of
        (e, s1) \<Rightarrow> (case adjustAll ops sid itemID prorate qs s1 of (es, s2) \<Rightarrow> (e # es, s2)))"

lemma seatChange_text: "canonicalItemChanges (seatChange itemID q) = itemID @ ''||'' @ showInt q @ ''|false''"
  by (simp add: canonicalItemChanges_def seatChange_def CanonicalStrings_def CanonicalInt64_def FormatBool_def)

lemma showInt_inj: "in64 a \<Longrightarrow> in64 b \<Longrightarrow> showInt a = showInt b \<longleftrightarrow> a = b"
  by (metis ParseInt_showInt option.inject)

text \<open>Two targets have the same key only on a collision of the hash.\<close>

lemma seatKey_inj:
  assumes "inj_on (\<lambda>b. take 16 (sha b)) (seatBytes sid itemID prorate ` A)" "Ball A in64" "a \<in> A" "b \<in> A"
    "\<forall>q \<in> A. list_all short [sid, prorationBehavior prorate, canonicalItemChanges (seatChange itemID q)]"
  shows "seatKey sha sid itemID prorate a = seatKey sha sid itemID prorate b \<longleftrightarrow> a = b"
proof
  assume "seatKey sha sid itemID prorate a = seatKey sha sid itemID prorate b"
  then have "take 16 (sha (seatBytes sid itemID prorate a)) = take 16 (sha (seatBytes sid itemID prorate b))"
    by (auto simp: seatKey_def ApplyIdempotencyKey_def callerKey_def deriveKey_def seatBytes_def dest: EncodeToString_inj)
  then have "seatBytes sid itemID prorate a = seatBytes sid itemID prorate b"
    using assms(1,3,4) by (auto dest: inj_onD)
  moreover have "list_all short (''subscription.update_items'' # [sid, prorationBehavior prorate, canonicalItemChanges (seatChange itemID q)])"
    if "q \<in> A" for q using assms(5) that by (simp add: short_def)
  ultimately have "canonicalItemChanges (seatChange itemID a) = canonicalItemChanges (seatChange itemID b)"
    using keyBytes_inj assms(3,4) unfolding seatBytes_def by (metis list.inject)
  then show "a = b" using assms(2-4) by (simp add: seatChange_text showInt_inj)
qed simp

lemma adjust_step:
  assumes "so_backend ops = NewSubscriptionBackend sha None cl" "sid \<noteq> ''''" "itemID \<noteq> ''''" "0 < q"
  shows "subs_AdjustSeats ops sid itemID q prorate s =
    wrapBackend (scl_Update cl (seatKey sha sid itemID prorate q) sid
      (noChange\<lparr>sur_ProrationBehavior := Some (prorationBehavior prorate),
        sur_Items := [\<lparr>ip_ID = Some itemID, ip_Price = None, ip_Quantity = Some q, ip_Deleted = False\<rparr>]\<rparr>) s)"
  using assms
  by (simp add: subs_AdjustSeats_def NewSubscriptionBackend_def api_UpdateItems_def seatKey_def seatChange_def itemParamsOf_def ifSet_def
      prorationBehavior_def)

text \<open>The effect of one accepted change: nothing for a target that was set before, the target otherwise.\<close>

lemma adjust_known:
  assumes "replay_contract cl recorded seats" "so_backend ops = NewSubscriptionBackend sha None cl" "sid \<noteq> ''''" "itemID \<noteq> ''''" "0 < q"
    "recorded s (seatKey sha sid itemID prorate q) = Some None"
  shows "subs_AdjustSeats ops sid itemID q prorate s = (None, s)"
  using replay_known [OF assms(1,6)] by (simp add: adjust_step [OF assms(2-5)] wrapBackend_def)

lemma adjust_fresh:
  assumes "replay_contract cl recorded seats" "so_backend ops = NewSubscriptionBackend sha None cl" "sid \<noteq> ''''" "itemID \<noteq> ''''" "0 < q"
    "recorded s (seatKey sha sid itemID prorate q) = None" "subs_AdjustSeats ops sid itemID q prorate s = (None, s1)"
  shows "recorded s1 = (recorded s)(seatKey sha sid itemID prorate q := Some None) \<and> seats s1 (sid, itemID) = Some q"
proof -
  let ?req = "noChange\<lparr>sur_ProrationBehavior := Some (prorationBehavior prorate),
        sur_Items := [\<lparr>ip_ID = Some itemID, ip_Price = None, ip_Quantity = Some q, ip_Deleted = False\<rparr>]\<rparr>"
  from assms(7) have "scl_Update cl (seatKey sha sid itemID prorate q) sid ?req s = (None, s1)"
    by (auto simp: adjust_step [OF assms(2-5)] wrapBackend_def prod_eq_iff)
  from replay_fresh [OF assms(1,6) this] show ?thesis by (simp add: setSeats_def)
qed

text \<open>The first occurrences of the targets, in order.\<close>

definition firsts :: "'a list \<Rightarrow> 'a list" where
  "firsts xs = rev (remdups (rev xs))"

lemma firsts_snoc: "firsts (xs @ [x]) = (if x \<in> set xs then firsts xs else firsts xs @ [x])"
  by (simp add: firsts_def)

lemma firsts_empty [simp]: "firsts xs = [] \<longleftrightarrow> xs = []"
  by (simp add: firsts_def)

lemma adjustAll_snoc:
  "adjustAll ops sid itemID prorate (qs @ [q]) s =
     (case adjustAll ops sid itemID prorate qs s of (es, s1) \<Rightarrow>
        (case subs_AdjustSeats ops sid itemID q prorate s1 of (e, s2) \<Rightarrow> (es @ [e], s2)))"
  by (induction qs arbitrary: s) (auto split: prod.splits)

lemma adjustAll_first:
  assumes "replay_contract cl recorded seats" "so_backend ops = NewSubscriptionBackend sha None cl" "sid \<noteq> ''''" "itemID \<noteq> ''''"
    "inj_on (\<lambda>b. take 16 (sha b)) (seatBytes sid itemID prorate ` set qs)"
    "\<forall>q \<in> set qs. list_all short [sid, prorationBehavior prorate, canonicalItemChanges (seatChange itemID q)]"
    "\<forall>q \<in> set qs. in64 q \<and> 0 < q \<and> recorded s (seatKey sha sid itemID prorate q) = None"
    "adjustAll ops sid itemID prorate qs s = (es, s')" "list_all (\<lambda>e. e = None) es"
  shows "(\<forall>q \<in> set qs. recorded s' (seatKey sha sid itemID prorate q) = Some None) \<and>
    (\<forall>k. k \<notin> seatKey sha sid itemID prorate ` set qs \<longrightarrow> recorded s' k = recorded s k) \<and>
    (qs \<noteq> [] \<longrightarrow> seats s' (sid, itemID) = Some (last (firsts qs)))"
  using assms(5-9)
proof (induction qs arbitrary: es s' rule: rev_induct)
  case (snoc q qs)
  obtain es1 s1 where run: "adjustAll ops sid itemID prorate qs s = (es1, s1)" by (cases "adjustAll ops sid itemID prorate qs s")
  from snoc.prems(4,5) have es1: "list_all (\<lambda>e. e = None) es1" and step: "subs_AdjustSeats ops sid itemID q prorate s1 = (None, s')"
    by (auto simp: adjustAll_snoc run split: prod.splits)
  have sub: "inj_on (\<lambda>b. take 16 (sha b)) (seatBytes sid itemID prorate ` set qs)"
    using snoc.prems(1) by (rule inj_on_subset) auto
  note IH = snoc.IH [OF sub _ _ run es1]
  from IH snoc.prems have ih: "\<forall>q \<in> set qs. recorded s1 (seatKey sha sid itemID prorate q) = Some None"
    "\<forall>k. k \<notin> seatKey sha sid itemID prorate ` set qs \<longrightarrow> recorded s1 k = recorded s k"
    "qs \<noteq> [] \<longrightarrow> seats s1 (sid, itemID) = Some (last (firsts qs))" by auto
  have pos: "0 < q" using snoc.prems(3) by simp
  show ?case
  proof (cases "q \<in> set qs")
    case True
    with adjust_known [OF assms(1-4) pos] ih(1) step have "s' = s1" by force
    with True ih show ?thesis by (auto simp: firsts_snoc)
  next
    case False
    with seatKey_inj [OF snoc.prems(1) _ _ _ snoc.prems(2)] snoc.prems(3)
    have new: "seatKey sha sid itemID prorate q \<notin> seatKey sha sid itemID prorate ` set qs" by auto
    with ih(2) snoc.prems(3) have "recorded s1 (seatKey sha sid itemID prorate q) = None" by simp
    from adjust_fresh [OF assms(1-4) pos this step] ih new False show ?thesis by (auto simp: firsts_snoc)
  qed
qed simp

text \<open>C36: what a series of seat changes leaves. The key of a change names the subscription, the item, the proration and the
  target. Within the life of the keys, with no collision of the hash and every call reported successful, the item has the
  last of the distinct targets in the order of their first use; asking again for any of the targets is reported
  successful and changes nothing. So a retry is safe, and going from five seats to seven and back to five leaves seven.\<close>
theorem seats_hold_last_new_target:
  assumes "replay_contract cl recorded seats" and "so_backend ops = NewSubscriptionBackend sha None cl"
    and "sid \<noteq> ''''" and "itemID \<noteq> ''''" and "qs \<noteq> []"
    and "inj_on (\<lambda>b. take 16 (sha b)) (seatBytes sid itemID prorate ` set qs)"
    and "\<forall>q \<in> set qs. list_all short [sid, prorationBehavior prorate, canonicalItemChanges (seatChange itemID q)]"
    and "\<forall>q \<in> set qs. in64 q \<and> 0 < q \<and> recorded s (seatKey sha sid itemID prorate q) = None"
    and "adjustAll ops sid itemID prorate qs s = (es, s')" and "list_all (\<lambda>e. e = None) es"
  shows "seats s' (sid, itemID) = Some (last (firsts qs)) \<and>
    (\<forall>q \<in> set qs. subs_AdjustSeats ops sid itemID q prorate s' = (None, s'))"
proof -
  note run = adjustAll_first [OF assms(1-4,6-10)]
  have "subs_AdjustSeats ops sid itemID q prorate s' = (None, s')" if "q \<in> set qs" for q
    using adjust_known [OF assms(1-4)] run assms(8) that by blast
  with run assms(5) show ?thesis by blast
qed

text \<open>A client that keeps its contract, and refuses what the witness does not use.\<close>

type_synonym replayState = "(string \<Rightarrow> string option option) \<times> (string \<times> string \<Rightarrow> int option)"

definition replayClient :: "replayState subsClient" where
  "replayClient =
     \<lparr>scl_Update = (\<lambda>key sid req s. case fst s key of
          Some r \<Rightarrow> (r, s)
        | None \<Rightarrow> (None, ((fst s)(key := Some None), setSeats sid (sur_Items req) (snd s)))),
      scl_Cancel = (\<lambda>_ _ _ _ s. (Some ''unused'', s)), scl_ListSince = (\<lambda>_ _. ([], None)), scl_ListByCustomer = (\<lambda>_ _. ([], None)),
      scl_CreateSchedule = (\<lambda>_ _ s. (Inl ''unused'', s)), scl_CreatePreview = (\<lambda>_ _ _ s. (Inl ''unused'', s)),
      scl_CreateProduct = (\<lambda>_ _ s. (Inl ''unused'', s)), scl_ArchiveProduct = (\<lambda>_ s. (None, s)),
      scl_Retrieve = (\<lambda>_ _. Inl ''unused''), scl_Create = (\<lambda>_ _ s. (Inl ''unused'', s))\<rparr>"

lemma replayClient_contract: "replay_contract replayClient fst snd"
  by (auto simp: replay_contract_def replayClient_def split: option.splits)

definition replayOps :: "(replayState, memorySubs) subsOps" where
  "replayOps = \<lparr>so_backend = NewSubscriptionBackend (\<lambda>m. take 32 (rev m)) None replayClient, so_repo = ms_repo, so_spec = None, so_cache = None,
     so_namespace = ''''\<rparr>"

definition replayRun :: "subsError option list \<times> replayState" where
  "replayRun = adjustAll replayOps ''sub_1'' ''si_1'' True [5, 7, 5] (\<lambda>_. None, \<lambda>_. None)"

lemma replayClient_accepts:
  assumes "so_backend ops = NewSubscriptionBackend sha None replayClient" "sid \<noteq> ''''" "itemID \<noteq> ''''" "list_all (\<lambda>q. 0 < q) qs"
    "\<forall>k. fst s k = None \<or> fst s k = Some None"
  shows "fst (adjustAll ops sid itemID prorate qs s) = replicate (length qs) None"
  using assms(4,5)
proof (induction qs arbitrary: s)
  case (Cons q qs)
  obtain s1 where "subs_AdjustSeats ops sid itemID q prorate s = (None, s1)" "\<forall>k. fst s1 k = None \<or> fst s1 k = Some None"
    using Cons.prems spec [OF Cons.prems(2), of "seatKey sha sid itemID prorate q"]
    by (cases "fst s (seatKey sha sid itemID prorate q)")
      (auto simp: adjust_step [OF assms(1-3)] wrapBackend_def replayClient_def)
  then show ?case using Cons.IH [of s1] Cons.prems(1) by (cases "adjustAll ops sid itemID prorate qs s1") simp
qed simp

lemma replayRun_succeeds: "fst replayRun = [None, None, None]"
  unfolding replayRun_def by (subst replayClient_accepts) (simp_all add: replayOps_def numeral_eq_Suc)

lemma replayRun_inj: "inj_on (\<lambda>b. take 16 (take 32 (rev b))) (seatBytes ''sub_1'' ''si_1'' True ` set [5, 7, 5])"
proof -
  have bytes: "\<exists>y. seatBytes ''sub_1'' ''si_1'' True q = y @ showInt q @ ''|false''" for q
    by (simp add: seatBytes_def keyBytes_def writeLenPrefixed_def seatChange_text)
  have tail: "take 7 (take 16 (take 32 (rev (seatBytes ''sub_1'' ''si_1'' True q)))) = ''eslaf|'' @ [last (showInt q)]" if "showInt q \<noteq> ''''" for q
    using bytes [of q] that by (cases "showInt q" rule: rev_cases) (auto simp: numeral_eq_Suc)
  have digits: "showInt 5 = ''5''" "showInt 7 = ''7''" by code_simp+
  have "take 16 (take 32 (rev (seatBytes ''sub_1'' ''si_1'' True 5))) \<noteq> take 16 (take 32 (rev (seatBytes ''sub_1'' ''si_1'' True 7)))"
    (is "?a \<noteq> ?b")
  proof
    assume "?a = ?b"
    then have "take 7 ?a = take 7 ?b" by simp
    moreover have "take 7 ?a = ''eslaf|5''" using tail [of 5] by (simp add: digits)
    moreover have "take 7 ?b = ''eslaf|7''" using tail [of 7] by (simp add: digits)
    ultimately show False by simp
  qed
  then show ?thesis by (auto simp: inj_on_def)
qed

lemma replayRun_short:
  "\<forall>q \<in> set [5, 7, 5]. list_all short [''sub_1'', prorationBehavior True, canonicalItemChanges (seatChange ''si_1'' q)]"
  by (simp add: short_def prorationBehavior_def seatChange_text showInt_def showNat.simps)

theorem seats_hold_last_new_target_witness:
  "fst replayRun = [None, None, None] \<and> snd (snd replayRun) (''sub_1'', ''si_1'') = Some 7"
proof -
  have be: "so_backend replayOps = NewSubscriptionBackend (\<lambda>m. take 32 (rev m)) None replayClient" by (simp add: replayOps_def)
  have run: "adjustAll replayOps ''sub_1'' ''si_1'' True [5, 7, 5] (\<lambda>_. None, \<lambda>_. None) = (fst replayRun, snd replayRun)"
    by (simp add: replayRun_def)
  have "snd (snd replayRun) (''sub_1'', ''si_1'') = Some (last (firsts [5, 7, 5]))"
    using seats_hold_last_new_target [OF replayClient_contract be _ _ _ replayRun_inj replayRun_short _ run] by (simp add: replayRun_succeeds in64_def)
  then show ?thesis by (simp add: replayRun_succeeds firsts_def)
qed

subsection \<open>What the keys leave out\<close>

text \<open>
  Two inputs that differ only in the start date of a schedule, or only in the extra items of an invoiced subscription, have one
  key, so that the second request is answered with the first one's response.
\<close>

lemma schedule_key_ignores_start: "scheduleKeyInputs (inp\<lparr>sbi_StartAt := t\<rparr>) = scheduleKeyInputs inp"
  by (simp add: scheduleKeyInputs_def)

lemma invoiced_key_ignores_extra_items: "invoicedKeyInputs (inp\<lparr>isi_AddInvoiceItems := xs\<rparr>) = invoicedKeyInputs inp"
  by (simp add: invoicedKeyInputs_def)

end
