(* ===== verification/Invoice_Backend.thy ===== *)
theory Invoice_Backend
  imports Subscription_Backend Invoices
begin

text \<open>
  \<open>stripeapi/invoice_backend.go\<close>: the Stripe adapter behind \<open>invoices.Backend\<close> and \<open>invoices.Lister\<close>. The calls of the Stripe
  client are fields of a record of functions on its state; a parameter that is left out is \<open>None\<close>. A listing gives the
  invoices before its end or failure, and the failure.
\<close>

subsection \<open>The client\<close>

record statusTransitions =
  stt_FinalizedAt :: int
  stt_PaidAt :: int
  stt_VoidedAt :: int

record invoiceCustomer =
  icu_ID :: string
  icu_Email :: string
  icu_Country :: "string option"

record apiInvoice =
  aiv_ID :: string
  aiv_Number :: string
  aiv_Status :: string
  aiv_Currency :: string
  aiv_Total :: int
  aiv_TotalTaxes :: "int option list"
  aiv_AmountPaid :: int
  aiv_Created :: int
  aiv_DueDate :: int
  aiv_HostedInvoiceURL :: string
  aiv_InvoicePDF :: string
  aiv_Customer :: "invoiceCustomer option"
  aiv_CustomerTaxIDs :: "string list"
  aiv_StatusTransitions :: "statusTransitions option"

record invoiceListParams =
  ilp_Customer :: "string option"
  ilp_Status :: "string option"
  ilp_StartingAfter :: "string option"
  ilp_CreatedGte :: "int option"
  ilp_CreatedLt :: "int option"
  ilp_DueDateLt :: "int option"
  ilp_Limit :: int

record itemCreateParams =
  icp_Customer :: string
  icp_Amount :: int
  icp_Currency :: string
  icp_Description :: string

record draftParams =
  dp_Customer :: string
  dp_DaysUntilDue :: "int option"
  dp_Description :: "string option"
  dp_Number :: "string option"
  dp_Metadata :: "(string, string) gomap"

record creditNoteParams =
  cnp_Invoice :: string
  cnp_Reason :: "string option"
  cnp_RefundAmount :: "int option"
  cnp_Lines :: "(string \<times> int \<times> int) list"

record 's invoiceClient =
  icl_List :: "invoiceListParams \<Rightarrow> 's \<Rightarrow> apiInvoice list \<times> string option"
  icl_CreateItem :: "string \<Rightarrow> itemCreateParams \<Rightarrow> 's \<Rightarrow> string option \<times> 's"
  icl_Create :: "string \<Rightarrow> draftParams \<Rightarrow> 's \<Rightarrow> (string + apiInvoice) \<times> 's"
  icl_Finalize :: "string \<Rightarrow> string \<Rightarrow> 's \<Rightarrow> (string + apiInvoice) \<times> 's"
  icl_Send :: "string \<Rightarrow> string \<Rightarrow> 's \<Rightarrow> (string + apiInvoice) \<times> 's"
  icl_Void :: "string \<Rightarrow> string \<Rightarrow> 's \<Rightarrow> string option \<times> 's"
  icl_MarkUncollectible :: "string \<Rightarrow> string \<Rightarrow> 's \<Rightarrow> string option \<times> 's"
  icl_CreateCreditNote :: "string \<Rightarrow> creditNoteParams \<Rightarrow> 's \<Rightarrow> string option \<times> 's"

definition listAll :: invoiceListParams where
  "listAll = \<lparr>ilp_Customer = None, ilp_Status = None, ilp_StartingAfter = None, ilp_CreatedGte = None, ilp_CreatedLt = None,
     ilp_DueDateLt = None, ilp_Limit = 100\<rparr>"

subsection \<open>The audit listing\<close>

definition api_projectInvoice :: "apiInvoice \<Rightarrow> AuditEntry" where
  "api_projectInvoice iv =
     \<lparr>ae_StripeID = aiv_ID iv, ae_Number = aiv_Number iv, ae_Type = ''invoice'', ae_Status = aiv_Status iv,
      ae_CustomerID = (case aiv_Customer iv of None \<Rightarrow> '''' | Some c \<Rightarrow> icu_ID c),
      ae_CustomerEmail = (case aiv_Customer iv of None \<Rightarrow> '''' | Some c \<Rightarrow> icu_Email c),
      ae_CustomerVATID = (case aiv_CustomerTaxIDs iv of [] \<Rightarrow> '''' | v # _ \<Rightarrow> v),
      ae_CustomerCountry = (case aiv_Customer iv of None \<Rightarrow> '''' | Some c \<Rightarrow> (case icu_Country c of None \<Rightarrow> '''' | Some x \<Rightarrow> x)),
      ae_Currency = aiv_Currency iv, ae_AmountTotal = aiv_Total iv, ae_AmountTax = sumInvoiceTaxes (aiv_TotalTaxes iv),
      ae_AmountPaid = aiv_AmountPaid iv, ae_Created = unixTime (aiv_Created iv),
      ae_Finalized = (case aiv_StatusTransitions iv of None \<Rightarrow> None | Some t \<Rightarrow> positiveTime (stt_FinalizedAt t)),
      ae_Paid = (case aiv_StatusTransitions iv of None \<Rightarrow> None | Some t \<Rightarrow> positiveTime (stt_PaidAt t)),
      ae_Voided = (case aiv_StatusTransitions iv of None \<Rightarrow> None | Some t \<Rightarrow> positiveTime (stt_VoidedAt t)),
      ae_HostedInvoiceURL = aiv_HostedInvoiceURL iv\<rparr>"

definition api_ListInvoices :: "'s invoiceClient \<Rightarrow> 's \<Rightarrow> time \<times> time \<Rightarrow> string + AuditEntry list" where
  "api_ListInvoices cl s period =
     (case icl_List cl (listAll\<lparr>ilp_CreatedGte := Some (Unix (fst period)), ilp_CreatedLt := Some (Unix (snd period))\<rparr>) s of
        (_, Some e) \<Rightarrow> Inl e
      | (xs, None) \<Rightarrow> Inr (map api_projectInvoice xs))"

subsection \<open>Drafts\<close>

definition qtyOrOne :: "int \<Rightarrow> int" where
  "qtyOrOne q = (if q \<le> 0 then 1 else q)"

definition projectInvoiceLite :: "apiInvoice \<Rightarrow> Invoice" where
  "projectInvoiceLite iv =
     \<lparr>inv_StripeID = aiv_ID iv, inv_Number = aiv_Number iv, inv_Status = aiv_Status iv,
      inv_Customer = (case aiv_Customer iv of None \<Rightarrow> '''' | Some c \<Rightarrow> icu_ID c), inv_Currency = aiv_Currency iv,
      inv_AmountTotal = aiv_Total iv, inv_AmountPaid = aiv_AmountPaid iv, inv_DueDate = positiveTime (aiv_DueDate iv),
      inv_HostedInvoiceURL = aiv_HostedInvoiceURL iv, inv_PDFURL = aiv_InvoicePDF iv\<rparr>"

definition liteResult :: "(string + apiInvoice) \<times> 's \<Rightarrow> (string + Invoice) \<times> 's" where
  "liteResult res = apfst (map_sum (\<lambda>e. e) projectInvoiceLite) res"

definition itemCreateParamsOf :: "CreateInput \<Rightarrow> CreateLineItem \<Rightarrow> itemCreateParams" where
  "itemCreateParamsOf inp li =
     \<lparr>icp_Customer = ci_Customer inp, icp_Amount = wrap64 (cli_Amount li * qtyOrOne (cli_Quantity li)), icp_Currency = cli_Currency li,
      icp_Description = cli_Description li\<rparr>"

definition itemKeyInputs :: "CreateInput \<Rightarrow> nat \<Rightarrow> CreateLineItem \<Rightarrow> string list" where
  "itemKeyInputs inp i li =
     [ci_Customer inp, CanonicalInt64 (int i), cli_Description li, cli_Currency li, CanonicalInt64 (cli_Amount li),
      CanonicalInt64 (cli_Quantity li), ci_NumberOverride inp, CanonicalMap (ci_Metadata inp)]"

fun draftItems ::
  "(string \<Rightarrow> string) \<Rightarrow> string option \<Rightarrow> 's invoiceClient \<Rightarrow> CreateInput \<Rightarrow> nat \<Rightarrow> CreateLineItem list \<Rightarrow> 's \<Rightarrow> string option \<times> 's" where
  "draftItems sha256 ctx cl inp i [] s = (None, s)"
| "draftItems sha256 ctx cl inp i (li # lis) s =
     (case icl_CreateItem cl (ApplyIdempotencyKey sha256 ctx ''invoice_item.create'' (itemKeyInputs inp i li)) (itemCreateParamsOf inp li) s of
        (Some e, s1) \<Rightarrow> (Some e, s1)
      | (None, s1) \<Rightarrow> draftItems sha256 ctx cl inp (Suc i) lis s1)"

definition draftKeyInputs :: "CreateInput \<Rightarrow> string list" where
  "draftKeyInputs inp =
     [ci_Customer inp, ci_NumberOverride inp, ci_Memo inp, CanonicalInt64 (ci_DueIn inp), CanonicalMap (ci_Metadata inp)]"

definition draftParamsOf :: "CreateInput \<Rightarrow> draftParams" where
  "draftParamsOf inp =
     \<lparr>dp_Customer = ci_Customer inp, dp_DaysUntilDue = daysUntilDue (ci_DueIn inp), dp_Description = ifSet (ci_Memo inp),
      dp_Number = ifSet (ci_NumberOverride inp), dp_Metadata = ci_Metadata inp\<rparr>"

definition api_CreateDraft ::
  "(string \<Rightarrow> string) \<Rightarrow> string option \<Rightarrow> 's invoiceClient \<Rightarrow> CreateInput \<Rightarrow> 's \<Rightarrow> (string + Invoice) \<times> 's" where
  "api_CreateDraft sha256 ctx cl inp s =
     (case draftItems sha256 ctx cl inp 0 (ci_LineItems inp) s of
        (Some e, s1) \<Rightarrow> (Inl e, s1)
      | (None, s1) \<Rightarrow>
          liteResult (icl_Create cl (ApplyIdempotencyKey sha256 ctx ''invoice.create_draft'' (draftKeyInputs inp)) (draftParamsOf inp) s1))"

subsection \<open>Later steps\<close>

definition api_Finalize ::
  "(string \<Rightarrow> string) \<Rightarrow> string option \<Rightarrow> 's invoiceClient \<Rightarrow> string \<Rightarrow> 's \<Rightarrow> (string + Invoice) \<times> 's" where
  "api_Finalize sha256 ctx cl iid s = liteResult (icl_Finalize cl (ApplyIdempotencyKey sha256 ctx ''invoice.finalize'' [iid]) iid s)"

text \<open>On a failure to send, the code returns the finalized invoice beside the error; the interface's callers read the error.\<close>

definition api_FinalizeAndSend ::
  "(string \<Rightarrow> string) \<Rightarrow> string option \<Rightarrow> 's invoiceClient \<Rightarrow> string \<Rightarrow> 's \<Rightarrow> (string + Invoice) \<times> 's" where
  "api_FinalizeAndSend sha256 ctx cl iid s =
     (case api_Finalize sha256 ctx cl iid s of
        (Inl e, s1) \<Rightarrow> (Inl e, s1)
      | (Inr _, s1) \<Rightarrow> liteResult (icl_Send cl (ApplyIdempotencyKey sha256 ctx ''invoice.send'' [iid]) iid s1))"

definition api_Void :: "(string \<Rightarrow> string) \<Rightarrow> string option \<Rightarrow> 's invoiceClient \<Rightarrow> string \<Rightarrow> 's \<Rightarrow> string option \<times> 's" where
  "api_Void sha256 ctx cl iid s = icl_Void cl (ApplyIdempotencyKey sha256 ctx ''invoice.void'' [iid]) iid s"

definition api_MarkUncollectible :: "(string \<Rightarrow> string) \<Rightarrow> string option \<Rightarrow> 's invoiceClient \<Rightarrow> string \<Rightarrow> 's \<Rightarrow> string option \<times> 's" where
  "api_MarkUncollectible sha256 ctx cl iid s =
     icl_MarkUncollectible cl (ApplyIdempotencyKey sha256 ctx ''invoice.mark_uncollectible'' [iid]) iid s"

definition canonicalCreditNoteLines :: "CreateLineItem list \<Rightarrow> string" where
  "canonicalCreditNoteLines ls = CanonicalStrings (map (\<lambda>li. cli_Description li @ ''|'' @ CanonicalInt64 (cli_Amount li) @ ''|'' @
     CanonicalInt64 (cli_Quantity li)) ls)"

definition api_IssueCreditNote ::
  "(string \<Rightarrow> string) \<Rightarrow> string option \<Rightarrow> 's invoiceClient \<Rightarrow> CreditNoteInput \<Rightarrow> 's \<Rightarrow> string option \<times> 's" where
  "api_IssueCreditNote sha256 ctx cl inp s =
     icl_CreateCreditNote cl
       (ApplyIdempotencyKey sha256 ctx ''credit_note.create''
          [cni_InvoiceID inp, cni_Reason inp, FormatBool (cni_Refund inp), canonicalCreditNoteLines (cni_Lines inp)])
       \<lparr>cnp_Invoice = cni_InvoiceID inp, cnp_Reason = ifSet (cni_Reason inp), cnp_RefundAmount = (if cni_Refund inp then Some 0 else None),
        cnp_Lines = map (\<lambda>li. (cli_Description li, cli_Amount li, qtyOrOne (cli_Quantity li))) (cni_Lines inp)\<rparr> s"

subsection \<open>Listings\<close>

definition api_ListOverdue :: "'s invoiceClient \<Rightarrow> time \<Rightarrow> 's \<Rightarrow> (string + Invoice list) \<times> 's" where
  "api_ListOverdue cl now s =
     (case icl_List cl (listAll\<lparr>ilp_Status := Some ''open'', ilp_DueDateLt := Some (Unix now)\<rparr>) s of
        (_, Some e) \<Rightarrow> (Inl e, s)
      | (xs, None) \<Rightarrow> (Inr (map projectInvoiceLite xs), s))"

definition orFifty :: "int \<Rightarrow> int" where
  "orFifty limit = (if limit \<le> 0 then 50 else limit)"

text \<open>The loop stops once the limit is reached, before the listing can fail.\<close>

fun takeLimit :: "int \<Rightarrow> apiInvoice list \<Rightarrow> string option \<Rightarrow> Invoice list \<Rightarrow> string + Invoice list" where
  "takeLimit limit [] None out = Inr out"
| "takeLimit limit [] (Some e) out = Inl e"
| "takeLimit limit (x # xs) err out =
     (let out' = out @ [projectInvoiceLite x] in if int (length out') \<ge> limit then Inr out' else takeLimit limit xs err out')"

definition api_InvoicesByCustomer :: "'s invoiceClient \<Rightarrow> string \<Rightarrow> string \<Rightarrow> int \<Rightarrow> 's \<Rightarrow> (string + Invoice list) \<times> 's" where
  "api_InvoicesByCustomer cl cid status limit s =
     (case icl_List cl (listAll\<lparr>ilp_Customer := Some cid, ilp_Status := ifSet status, ilp_Limit := orFifty limit\<rparr>) s of
        (xs, err) \<Rightarrow> (takeLimit (orFifty limit) xs err [], s))"

fun pageLoop :: "int \<Rightarrow> int \<Rightarrow> apiInvoice list \<Rightarrow> string option \<Rightarrow> Invoice list \<Rightarrow> string + Invoice list \<times> bool" where
  "pageLoop limit cnt [] None out = Inr (out, False)"
| "pageLoop limit cnt [] (Some e) out = Inl e"
| "pageLoop limit cnt (x # xs) err out =
     (if cnt + 1 > limit then Inr (out, True) else pageLoop limit (cnt + 1) xs err (out @ [projectInvoiceLite x]))"

definition api_ListByCustomerPage :: "'s invoiceClient \<Rightarrow> InvoicePageRequest \<Rightarrow> 's \<Rightarrow> (string + InvoicePage) \<times> 's" where
  "api_ListByCustomerPage cl req s =
     (let limit = orFifty (ipr_Limit req); probe = wrap64 (limit + 1)
      in case icl_List cl (listAll\<lparr>ilp_Customer := Some (ipr_CustomerID req), ilp_Status := ifSet (ipr_Status req),
             ilp_StartingAfter := ifSet (ipr_StartingAfter req), ilp_Limit := probe\<rparr>) s of
           (xs, err) \<Rightarrow>
             (case pageLoop limit 0 xs err [] of
                Inl e \<Rightarrow> (Inl e, s)
              | Inr (out, hasMore) \<Rightarrow>
                  (Inr \<lparr>ip_Invoices = out, ip_HasMore = hasMore, ip_LastID = (if out = [] then '''' else inv_StripeID (last out))\<rparr>, s)))"

definition NewInvoiceBackend :: "(string \<Rightarrow> string) \<Rightarrow> string option \<Rightarrow> time \<Rightarrow> 's invoiceClient \<Rightarrow> 's invoiceBackend" where
  "NewInvoiceBackend sha256 ctx now cl =
     \<lparr>ib_CreateDraft = api_CreateDraft sha256 ctx cl, ib_Finalize = api_Finalize sha256 ctx cl,
      ib_FinalizeAndSend = api_FinalizeAndSend sha256 ctx cl, ib_Void = api_Void sha256 ctx cl,
      ib_MarkUncollectible = api_MarkUncollectible sha256 ctx cl, ib_IssueCreditNote = api_IssueCreditNote sha256 ctx cl,
      ib_ListOverdue = api_ListOverdue cl now, ib_ListByCustomer = api_InvoicesByCustomer cl, ib_ListByCustomerPage = api_ListByCustomerPage cl\<rparr>"

end
