(* ===== verification/Quotes.thy ===== *)
theory Quotes
  imports Subscription_Backend
begin

text \<open>
  Package \<open>quotes\<close>: the request of a new quote and its content hash, the steps of a quote's life and its projection. The calls of
  the Stripe client are fields of a record of functions on its state; a parameter that is left out is \<open>None\<close>.
\<close>

record QuoteLine =
  ql_StripePriceID :: string
  ql_Quantity :: int

record QuoteCreateInput =
  qc_StripeCustomerID :: string
  qc_LineItems :: "QuoteLine list"
  qc_Description :: string
  qc_Footer :: string
  qc_Header :: string
  qc_ExpiresAt :: time
  qc_CollectionMethod :: string
  qc_TrialPeriodDays :: int
  qc_Metadata :: "(string, string) gomap"

record Quote =
  qt_StripeID :: string
  qt_Number :: string
  qt_Status :: string
  qt_StripeCustomerID :: string
  qt_AmountTotal :: int
  qt_AmountSubtotal :: int
  qt_Currency :: string
  qt_ExpiresAt :: time
  qt_CreatedAt :: time
  qt_PDFURL :: string
  qt_SubscriptionID :: string
  qt_InvoiceID :: string

record stripeQuote =
  sq_ID :: string
  sq_Number :: string
  sq_Status :: string
  sq_Customer :: "string option"
  sq_AmountTotal :: int
  sq_AmountSubtotal :: int
  sq_Currency :: string
  sq_ExpiresAt :: int
  sq_Created :: int
  sq_Subscription :: "string option"
  sq_Invoice :: "string option"

record quoteParams =
  qp_Customer :: string
  qp_Description :: "string option"
  qp_Footer :: "string option"
  qp_Header :: "string option"
  qp_ExpiresAt :: "int option"
  qp_CollectionMethod :: "string option"
  qp_TrialPeriodDays :: "int option"
  qp_LineItems :: "(string \<times> int) list"
  qp_Metadata :: "(string, string) gomap"

record 's quoteClient =
  qcl_Create :: "string \<Rightarrow> quoteParams \<Rightarrow> 's \<Rightarrow> (string + stripeQuote) \<times> 's"
  qcl_Finalize :: "string \<Rightarrow> string \<Rightarrow> 's \<Rightarrow> (string + stripeQuote) \<times> 's"
  qcl_Accept :: "string \<Rightarrow> string \<Rightarrow> 's \<Rightarrow> (string + stripeQuote) \<times> 's"
  qcl_Cancel :: "string \<Rightarrow> string \<Rightarrow> 's \<Rightarrow> (string + stripeQuote) \<times> 's"
  qcl_Retrieve :: "string \<Rightarrow> 's \<Rightarrow> string + stripeQuote"

record 's quoteOps =
  qo_sc :: "'s quoteClient"
  qo_namespace :: string

datatype quoteError = QuoteFieldInvalid string | QuoteFailed string

text \<open>\<open>None\<close> is the panic on a missing client.\<close>

definition quotes_New :: "'s quoteClient option \<Rightarrow> string \<Rightarrow> 's quoteOps option" where
  "quotes_New sc ns = map_option (\<lambda>c. \<lparr>qo_sc = c, qo_namespace = ns\<rparr>) sc"

definition projectQuote :: "stripeQuote \<Rightarrow> Quote" where
  "projectQuote q =
     \<lparr>qt_StripeID = sq_ID q, qt_Number = sq_Number q, qt_Status = sq_Status q,
      qt_StripeCustomerID = (case sq_Customer q of None \<Rightarrow> '''' | Some c \<Rightarrow> c), qt_AmountTotal = sq_AmountTotal q,
      qt_AmountSubtotal = sq_AmountSubtotal q, qt_Currency = sq_Currency q,
      qt_ExpiresAt = (if sq_ExpiresAt q > 0 then unixTime (sq_ExpiresAt q) else zero_time), qt_CreatedAt = unixTime (sq_Created q), qt_PDFURL = '''',
      qt_SubscriptionID = (case sq_Subscription q of None \<Rightarrow> '''' | Some x \<Rightarrow> x), qt_InvoiceID = (case sq_Invoice q of None \<Rightarrow> '''' | Some x \<Rightarrow> x)\<rparr>"

definition quoteResult :: "(string + stripeQuote) \<times> 's \<Rightarrow> (quoteError + Quote) \<times> 's" where
  "quoteResult res = apfst (map_sum QuoteFailed projectQuote) res"

definition quoteLineText :: "QuoteLine \<Rightarrow> string" where
  "quoteLineText li = ql_StripePriceID li @ ''x'' @ showInt (ql_Quantity li)"

text \<open>The fields of \<open>createInputHash\<close>: the fixed ones, the expiry, the lines, and the metadata under a prefix.\<close>

definition quoteHashFields :: "QuoteCreateInput \<Rightarrow> (string, string) gomap" where
  "quoteHashFields inp =
     [(''Description'', qc_Description inp), (''Footer'', qc_Footer inp), (''Header'', qc_Header inp),
      (''CollectionMethod'', qc_CollectionMethod inp), (''TrialPeriodDays'', showInt (qc_TrialPeriodDays inp))] @
     (if qc_ExpiresAt inp = zero_time then [] else [(''ExpiresAt'', showInt (Unix (qc_ExpiresAt inp)))]) @
     [(''LineItems'', CanonicalStrings (map quoteLineText (qc_LineItems inp)))] @
     map (\<lambda>(k, v). (''meta:'' @ k, v)) (qc_Metadata inp)"

definition createInputHash :: "(string \<Rightarrow> string) \<Rightarrow> QuoteCreateInput \<Rightarrow> string" where
  "createInputHash sha256 inp = ContentHash sha256 ''quotes.create'' (quoteHashFields inp)"

text \<open>The request. The metadata starts with the namespace, and the caller's entries are added over it.\<close>

definition quoteParamsOf :: "string \<Rightarrow> QuoteCreateInput \<Rightarrow> quoteParams" where
  "quoteParamsOf ns inp =
     \<lparr>qp_Customer = qc_StripeCustomerID inp, qp_Description = ifSet (qc_Description inp), qp_Footer = ifSet (qc_Footer inp),
      qp_Header = ifSet (qc_Header inp),
      qp_ExpiresAt = (if qc_ExpiresAt inp = zero_time then None else Some (Unix (qc_ExpiresAt inp))),
      qp_CollectionMethod = ifSet (qc_CollectionMethod inp),
      qp_TrialPeriodDays = (if qc_TrialPeriodDays inp > 0 then Some (qc_TrialPeriodDays inp) else None),
      qp_LineItems = map (\<lambda>li. (ql_StripePriceID li, if ql_Quantity li \<le> 0 then 1 else ql_Quantity li)) (qc_LineItems inp),
      qp_Metadata = fold (\<lambda>(k, v) m. mset_key k v m) (qc_Metadata inp) (if ns \<noteq> '''' then [(MetadataKeyNamespace, ns)] else [])\<rparr>"

definition quotes_Create ::
  "(string \<Rightarrow> string) \<Rightarrow> string option \<Rightarrow> 's quoteOps \<Rightarrow> QuoteCreateInput \<Rightarrow> 's \<Rightarrow> (quoteError + Quote) \<times> 's" where
  "quotes_Create sha256 ctx ops inp s =
     (if qc_StripeCustomerID inp = '''' then (Inl (QuoteFieldInvalid ''StripeCustomerID''), s)
      else if qc_LineItems inp = [] then (Inl (QuoteFieldInvalid ''LineItems''), s)
      else quoteResult (qcl_Create (qo_sc ops)
             (ApplyIdempotencyKey sha256 ctx ''quotes.create'' [qc_StripeCustomerID inp, createInputHash sha256 inp])
             (quoteParamsOf (qo_namespace ops) inp) s))"

definition quotes_Finalize :: "(string \<Rightarrow> string) \<Rightarrow> string option \<Rightarrow> 's quoteOps \<Rightarrow> string \<Rightarrow> 's \<Rightarrow> (quoteError + Quote) \<times> 's" where
  "quotes_Finalize sha256 ctx ops qid s =
     (if qid = '''' then (Inl (QuoteFieldInvalid ''quoteID''), s)
      else quoteResult (qcl_Finalize (qo_sc ops) (ApplyIdempotencyKey sha256 ctx ''quotes.finalize'' [qid]) qid s))"

definition quotes_Accept :: "(string \<Rightarrow> string) \<Rightarrow> string option \<Rightarrow> 's quoteOps \<Rightarrow> string \<Rightarrow> 's \<Rightarrow> (quoteError + Quote) \<times> 's" where
  "quotes_Accept sha256 ctx ops qid s =
     (if qid = '''' then (Inl (QuoteFieldInvalid ''quoteID''), s)
      else quoteResult (qcl_Accept (qo_sc ops) (ApplyIdempotencyKey sha256 ctx ''quotes.accept'' [qid]) qid s))"

definition quotes_Cancel :: "(string \<Rightarrow> string) \<Rightarrow> string option \<Rightarrow> 's quoteOps \<Rightarrow> string \<Rightarrow> 's \<Rightarrow> (quoteError + Quote) \<times> 's" where
  "quotes_Cancel sha256 ctx ops qid s =
     (if qid = '''' then (Inl (QuoteFieldInvalid ''quoteID''), s)
      else quoteResult (qcl_Cancel (qo_sc ops) (ApplyIdempotencyKey sha256 ctx ''quotes.cancel'' [qid]) qid s))"

definition quotes_Retrieve :: "'s quoteOps \<Rightarrow> string \<Rightarrow> 's \<Rightarrow> (quoteError + Quote) \<times> 's" where
  "quotes_Retrieve ops qid s =
     (if qid = '''' then (Inl (QuoteFieldInvalid ''quoteID''), s) else quoteResult (qcl_Retrieve (qo_sc ops) qid s, s))"

end
