(* ===== verification/Quotes_Proofs.thy ===== *)
theory Quotes_Proofs
  imports Quotes Idempotency_Proofs
begin

text \<open>
  What the key of a new quote identifies: two inputs with the same hashed bytes make the same request. The lines are recovered
  from their joined text, the other fields from the map.
\<close>

subsection \<open>Reading the joined text back\<close>

lemma showInt_chars: "c \<in> set (showInt n) \<Longrightarrow> isDigit c \<or> c = CHR ''-''"
  by (auto simp: showInt_def split: if_splits dest: showNat_digits)

lemma showInt_no_x: "CHR ''x'' \<notin> set (showInt n)" and showInt_no_nul: "CHR 0x00 \<notin> set (showInt n)"
  using showInt_chars [of "CHR ''x''" n] showInt_chars [of "CHR 0x00" n] by (auto simp: isDigit_def)

lemma showInt_eq: "showInt a = showInt b \<longleftrightarrow> a = b"
proof -
  have "CHR ''-'' \<notin> set (showNat k)" for k using showNat_digits [of "CHR ''-''" k] by (auto simp: isDigit_def)
  then have "showNat k \<noteq> CHR ''-'' # ys" for k ys by (metis list.set_intros(1))
  then show ?thesis by (auto simp: showInt_def) (metis nat_eq_iff2 not_less)+
qed

lemma first_split: "x \<notin> set xs \<Longrightarrow> x \<notin> set xs' \<Longrightarrow> xs @ x # ys = xs' @ x # ys' \<longleftrightarrow> xs = xs' \<and> ys = ys'"
proof (induction xs arbitrary: xs')
  case Nil
  then show ?case by (cases xs') auto
next
  case (Cons a xs)
  then show ?case by (cases xs') auto
qed

lemma joinNul_inj:
  "list_all (\<lambda>s. CHR 0x00 \<notin> set s) xs \<Longrightarrow> list_all (\<lambda>s. CHR 0x00 \<notin> set s) ys \<Longrightarrow> xs \<noteq> [] \<Longrightarrow> ys \<noteq> [] \<Longrightarrow>
    joinNul xs = joinNul ys \<longleftrightarrow> xs = ys"
proof (induction xs arbitrary: ys rule: joinNul.induct)
  case (2 s)
  then show ?case by (cases ys rule: joinNul.cases) auto
next
  case (3 s t ts)
  then show ?case by (cases ys rule: joinNul.cases) (auto simp: first_split)
qed simp

lemma quoteLineText_inj: "quoteLineText a = quoteLineText b \<longleftrightarrow> ql_StripePriceID a = ql_StripePriceID b \<and> ql_Quantity a = ql_Quantity b"
proof
  assume "quoteLineText a = quoteLineText b"
  then have "rev (showInt (ql_Quantity a)) @ CHR ''x'' # rev (ql_StripePriceID a) = rev (showInt (ql_Quantity b)) @ CHR ''x'' # rev (ql_StripePriceID b)"
    unfolding quoteLineText_def by (metis append.assoc append_Cons append_Nil rev.simps(2) rev_append)
  then have "rev (showInt (ql_Quantity a)) = rev (showInt (ql_Quantity b)) \<and> rev (ql_StripePriceID a) = rev (ql_StripePriceID b)"
    by (subst (asm) first_split) (simp_all add: showInt_no_x)
  then show "ql_StripePriceID a = ql_StripePriceID b \<and> ql_Quantity a = ql_Quantity b" by (simp add: showInt_eq)
qed (simp add: quoteLineText_def)

lemma quoteLines_inj:
  assumes "\<forall>li \<in> set as. CHR 0x00 \<notin> set (ql_StripePriceID li)" "\<forall>li \<in> set bs. CHR 0x00 \<notin> set (ql_StripePriceID li)" "as \<noteq> []" "bs \<noteq> []"
    "CanonicalStrings (map quoteLineText as) = CanonicalStrings (map quoteLineText bs)"
  shows "as = bs"
proof -
  have nul: "list_all (\<lambda>s. CHR 0x00 \<notin> set s) (map quoteLineText ls)" if "\<forall>li \<in> set ls. CHR 0x00 \<notin> set (ql_StripePriceID li)" for ls
    using that showInt_no_nul by (auto simp: list_all_iff quoteLineText_def)
  have "map quoteLineText as = map quoteLineText bs"
    using joinNul_inj [OF nul [OF assms(1)] nul [OF assms(2)]] assms(3-5) by (simp add: CanonicalStrings_def)
  moreover have "inj quoteLineText" by (rule injI) (auto simp: quoteLineText_inj)
  ultimately show ?thesis by (simp add: inj_map_eq_map)
qed

subsection \<open>The fields\<close>

definition fixedFields :: "QuoteCreateInput \<Rightarrow> (string, string) gomap" where
  "fixedFields inp =
     [(''Description'', qc_Description inp), (''Footer'', qc_Footer inp), (''Header'', qc_Header inp),
      (''CollectionMethod'', qc_CollectionMethod inp), (''TrialPeriodDays'', showInt (qc_TrialPeriodDays inp))] @
     (if qc_ExpiresAt inp = zero_time then [] else [(''ExpiresAt'', showInt (Unix (qc_ExpiresAt inp)))]) @
     [(''LineItems'', CanonicalStrings (map quoteLineText (qc_LineItems inp)))]"

definition metaKey :: "string \<Rightarrow> string" where
  "metaKey k = ''meta:'' @ k"

abbreviation metaEntry :: "string \<times> string \<Rightarrow> string \<times> string" where
  "metaEntry \<equiv> \<lambda>(k, v). (metaKey k, v)"

lemma metaKey_inj [simp]: "metaKey k = metaKey l \<longleftrightarrow> k = l"
  by (simp add: metaKey_def)

lemma quoteHashFields_split: "quoteHashFields inp = fixedFields inp @ map metaEntry (qc_Metadata inp)"
  by (simp add: quoteHashFields_def fixedFields_def metaKey_def)

lemma map_of_meta: "map_of (map metaEntry m) (metaKey k) = map_of m k"
  by (induction m) auto

lemma map_of_meta_other: "x \<notin> range metaKey \<Longrightarrow> map_of (map metaEntry m) x = None"
  by (induction m) auto

lemma map_of_fixed: "map_of (fixedFields inp) (metaKey k) = None"
  by (simp add: fixedFields_def metaKey_def)

lemma distinct_fields: "distinct (map fst (qc_Metadata inp)) \<Longrightarrow> distinct (map fst (quoteHashFields inp))"
proof -
  assume d: "distinct (map fst (qc_Metadata inp))"
  have "map fst (map metaEntry (qc_Metadata inp)) = map metaKey (map fst (qc_Metadata inp))" by auto
  with d have "distinct (map fst (map metaEntry (qc_Metadata inp)))" by (simp add: distinct_map inj_on_def)
  then show ?thesis by (auto simp: quoteHashFields_split fixedFields_def metaKey_def)
qed

lemma field_of: "x \<notin> range metaKey \<Longrightarrow> map_of (quoteHashFields inp) x = map_of (fixedFields inp) x"
  by (simp add: quoteHashFields_split map_add_def map_of_meta_other split: option.split)

lemma fields_determine:
  assumes "map_of (quoteHashFields a) = map_of (quoteHashFields b)"
  shows "qc_Description a = qc_Description b" "qc_Footer a = qc_Footer b" "qc_Header a = qc_Header b"
    "qc_CollectionMethod a = qc_CollectionMethod b" "qc_TrialPeriodDays a = qc_TrialPeriodDays b"
    "qp_ExpiresAt (quoteParamsOf ns a) = qp_ExpiresAt (quoteParamsOf ns b)"
    "CanonicalStrings (map quoteLineText (qc_LineItems a)) = CanonicalStrings (map quoteLineText (qc_LineItems b))"
    "map_of (qc_Metadata a) = map_of (qc_Metadata b)"
proof -
  note eq = fun_cong [OF assms]
  have names: "''Description'' \<notin> range metaKey" "''Footer'' \<notin> range metaKey" "''Header'' \<notin> range metaKey"
    "''CollectionMethod'' \<notin> range metaKey" "''TrialPeriodDays'' \<notin> range metaKey" "''ExpiresAt'' \<notin> range metaKey"
    "''LineItems'' \<notin> range metaKey" by (auto simp: metaKey_def)
  have fixed: "map_of (fixedFields a) x = map_of (fixedFields b) x" if "x \<notin> range metaKey" for x
    using eq [of x] by (simp add: field_of [OF that])
  show "qc_Description a = qc_Description b" "qc_Footer a = qc_Footer b" "qc_Header a = qc_Header b"
    "qc_CollectionMethod a = qc_CollectionMethod b"
    using fixed [of "''Description''"] fixed [of "''Footer''"] fixed [of "''Header''"] fixed [of "''CollectionMethod''"] names by (simp_all add: fixedFields_def)
  show "qc_TrialPeriodDays a = qc_TrialPeriodDays b" using fixed [of "''TrialPeriodDays''"] names by (simp add: fixedFields_def showInt_eq)
  show "qp_ExpiresAt (quoteParamsOf ns a) = qp_ExpiresAt (quoteParamsOf ns b)"
    using fixed [of "''ExpiresAt''"] names by (auto simp: fixedFields_def quoteParamsOf_def showInt_eq split: if_splits)
  show "CanonicalStrings (map quoteLineText (qc_LineItems a)) = CanonicalStrings (map quoteLineText (qc_LineItems b))"
    using fixed [of "''LineItems''"] names by (simp add: fixedFields_def split: if_splits)
  show "map_of (qc_Metadata a) = map_of (qc_Metadata b)"
  proof
    fix k
    show "map_of (qc_Metadata a) k = map_of (qc_Metadata b) k"
      using eq [of "metaKey k"] by (simp add: quoteHashFields_split map_add_def map_of_fixed map_of_meta split: option.splits)
  qed
qed

subsection \<open>Requests\<close>

lemma map_of_fold_update:
  "distinct (map fst md) \<Longrightarrow>
    map_of (fold (\<lambda>(k, v) m. mset_key k v m) md base) x = (case map_of md x of None \<Rightarrow> map_of base x | Some v \<Rightarrow> Some v)"
proof (induction md arbitrary: base)
  case (Cons e md)
  obtain k v where "e = (k, v)" by fastforce
  moreover have "map_of md k = None" if "k \<notin> fst ` set md" for k using that by (simp add: map_of_eq_None_iff)
  ultimately show ?case using Cons by (auto simp: update_conv split: option.splits)
qed simp

text \<open>C39: the key of a new quote stands for one request. Two inputs for one customer, with lines whose price ids hold no zero byte,
  have the same hashed content only if the requests agree in every parameter: the texts, the expiry, the collection
  method, the trial, the lines with their quantities and the metadata. A key that is equal for different requests is a
  collision of SHA-256 cut to 128 bits.\<close>
theorem quote_key_identifies_request:
  assumes "qc_StripeCustomerID a = qc_StripeCustomerID b" and "qc_LineItems a \<noteq> []" and "qc_LineItems b \<noteq> []"
    and "\<forall>li \<in> set (qc_LineItems a) \<union> set (qc_LineItems b). CHR 0x00 \<notin> set (ql_StripePriceID li)"
    and "distinct (map fst (qc_Metadata a))" and "distinct (map fst (qc_Metadata b))"
    and "list_all short (map fst (quoteHashFields a) @ map snd (quoteHashFields a))"
    and "list_all short (map fst (quoteHashFields b) @ map snd (quoteHashFields b))"
    and "contentBytes ''quotes.create'' (quoteHashFields a) = contentBytes ''quotes.create'' (quoteHashFields b)"
  shows "(quoteParamsOf ns a)\<lparr>qp_Metadata := []\<rparr> = (quoteParamsOf ns b)\<lparr>qp_Metadata := []\<rparr> \<and>
    map_of (qp_Metadata (quoteParamsOf ns a)) = map_of (qp_Metadata (quoteParamsOf ns b))"
proof -
  have "map_of (quoteHashFields a) = map_of (quoteHashFields b)"
    using contentBytes_inj [OF distinct_fields [OF assms(5)] distinct_fields [OF assms(6)], of "''quotes.create''" "''quotes.create''"] assms(7-9)
    by (simp add: short_def)
  note f = fields_determine [OF this]
  have "qc_LineItems a = qc_LineItems b" using quoteLines_inj [OF _ _ assms(2,3) f(7)] assms(4) by blast
  moreover have "map_of (qp_Metadata (quoteParamsOf ns a)) = map_of (qp_Metadata (quoteParamsOf ns b))"
    using f(8) by (intro ext) (simp add: quoteParamsOf_def map_of_fold_update [OF assms(5)] map_of_fold_update [OF assms(6)])
  ultimately show ?thesis using f(1-6) assms(1) by (simp add: quoteParamsOf_def)
qed

definition someQuote :: "string \<Rightarrow> (string, string) gomap \<Rightarrow> QuoteCreateInput" where
  "someQuote header md = \<lparr>qc_StripeCustomerID = ''cus_1'', qc_LineItems = [\<lparr>ql_StripePriceID = ''price_1'', ql_Quantity = 2\<rparr>],
     qc_Description = '''', qc_Footer = '''', qc_Header = header, qc_ExpiresAt = zero_time, qc_CollectionMethod = '''', qc_TrialPeriodDays = 0,
     qc_Metadata = md\<rparr>"

text \<open>Two orders of one map have one key, and an own entry for the namespace replaces the stamp in the request.\<close>

theorem quote_key_identifies_request_witness:
  "contentBytes ''quotes.create'' (quoteHashFields (someQuote ''h'' [(''a'', ''1''), (''b'', ''2'')])) =
     contentBytes ''quotes.create'' (quoteHashFields (someQuote ''h'' [(''b'', ''2''), (''a'', ''1'')])) \<and>
   map_of (qp_Metadata (quoteParamsOf ''app'' (someQuote ''h'' [(''a'', ''1''), (''b'', ''2'')]))) =
     map_of (qp_Metadata (quoteParamsOf ''app'' (someQuote ''h'' [(''b'', ''2''), (''a'', ''1'')])))"
proof -
  let ?a = "someQuote ''h'' [(''a'', ''1''), (''b'', ''2'')]" and ?b = "someQuote ''h'' [(''b'', ''2''), (''a'', ''1'')]"
  have short: "list_all short (map fst (quoteHashFields ?a) @ map snd (quoteHashFields ?a))"
    "list_all short (map fst (quoteHashFields ?b) @ map snd (quoteHashFields ?b))"
    by (simp_all add: quoteHashFields_def someQuote_def short_def CanonicalStrings_def quoteLineText_def showInt_def showNat.simps)
  have same: "contentBytes ''quotes.create'' (quoteHashFields ?a) = contentBytes ''quotes.create'' (quoteHashFields ?b)"
  proof -
    have "map_of (quoteHashFields ?a) = map_of (quoteHashFields ?b)" by (auto simp: quoteHashFields_def someQuote_def fun_eq_iff)
    moreover have "distinct (map fst (quoteHashFields ?a))" "distinct (map fst (quoteHashFields ?b))" by (simp_all add: distinct_fields someQuote_def)
    ultimately show ?thesis using contentBytes_inj [of "quoteHashFields ?a" "quoteHashFields ?b" "''quotes.create''" "''quotes.create''"] short
      by (simp add: short_def)
  qed
  then show ?thesis
    using quote_key_identifies_request [of ?a ?b "''app''", OF _ _ _ _ _ _ short same] by (simp add: someQuote_def)
qed

lemma quote_metadata_overrides_stamp:
  "map_of (qp_Metadata (quoteParamsOf ''app'' (someQuote ''h'' [(''app_namespace'', ''other'')]))) MetadataKeyNamespace = Some ''other''"
  by (simp add: quoteParamsOf_def someQuote_def MetadataKeyNamespace_def)

end
