(* ===== verification/Payments.thy ===== *)
theory Payments
  imports Subscription_Backend
begin

text \<open>
  The packages \<open>payments\<close> (presets and refunds, with \<open>stripeapi/refund_backend.go\<close>), \<open>paymentmethods\<close> and \<open>climate\<close>. The calls of the
  Stripe client are fields of records of functions on its state; a parameter that is left out is \<open>None\<close>.
\<close>

subsection \<open>Presets\<close>

definition PresetSubscription :: "string list" where
  "PresetSubscription = [''card'', ''sepa_debit'', ''apple_pay'', ''google_pay'']"

definition PresetOneTime :: "string list" where
  "PresetOneTime = [''card'', ''sepa_debit'', ''apple_pay'', ''google_pay'']"

definition PresetCreditTopUp :: "string list" where
  "PresetCreditTopUp = [''card'', ''apple_pay'', ''google_pay'']"

definition PresetInvoice :: "string list" where
  "PresetInvoice = [''customer_balance'', ''card'']"

definition PresetBankTransferUS :: "string list" where
  "PresetBankTransferUS = [''customer_balance'', ''us_bank_account'']"

definition PresetBankTransferUK :: "string list" where
  "PresetBankTransferUK = [''customer_balance'', ''bacs_debit'']"

text \<open>The empty list stands for the nil result of an unknown intent.\<close>

definition MethodsFor :: "string \<Rightarrow> string list" where
  "MethodsFor intent =
     (if intent = ''subscription'' then PresetSubscription
      else if intent = ''one_time'' then PresetOneTime
      else if intent = ''credit_top_up'' then PresetCreditTopUp
      else if intent = ''invoice'' then PresetInvoice
      else if intent = ''sepa_only'' then [''sepa_debit'']
      else if intent = ''bank_transfer_eu'' then [''customer_balance'']
      else if intent = ''bank_transfer_us'' then PresetBankTransferUS
      else if intent = ''bank_transfer_uk'' then PresetBankTransferUK
      else if intent = ''card_only'' then [''card'']
      else [])"

subsection \<open>Refunds\<close>

record RefundInput =
  rfi_ChargeID :: string
  rfi_PaymentIntentID :: string
  rfi_Amount :: int
  rfi_Reason :: string
  rfi_Metadata :: "(string, string) gomap"

record Refund =
  rfd_StripeID :: string
  rfd_ChargeID :: string
  rfd_Amount :: int
  rfd_Currency :: string
  rfd_Status :: string
  rfd_Reason :: string
  rfd_CreatedAt :: time

datatype refundError = RefundTargetMissing | RefundTargetBoth | RefundAmountNegative int | RefundReasonInvalid string | RefundFailed string

text \<open>\<open>Operations.Refund\<close> over a backend; the namespace is empty when the option was not given.\<close>

definition payments_Refund ::
  "(RefundInput \<Rightarrow> 's \<Rightarrow> (string + Refund) \<times> 's) \<Rightarrow> string \<Rightarrow> RefundInput \<Rightarrow> 's \<Rightarrow> (refundError + Refund) \<times> 's" where
  "payments_Refund backend namespace inp s =
     (if rfi_ChargeID inp = '''' \<and> rfi_PaymentIntentID inp = '''' then (Inl RefundTargetMissing, s)
      else if rfi_ChargeID inp \<noteq> '''' \<and> rfi_PaymentIntentID inp \<noteq> '''' then (Inl RefundTargetBoth, s)
      else if rfi_Amount inp < 0 then (Inl (RefundAmountNegative (rfi_Amount inp)), s)
      else if rfi_Reason inp \<noteq> '''' \<and> rfi_Reason inp \<notin> {''duplicate'', ''fraudulent'', ''requested_by_customer''}
        then (Inl (RefundReasonInvalid (rfi_Reason inp)), s)
      else apfst (map_sum RefundFailed (\<lambda>r. r))
             (backend (inp\<lparr>rfi_Reason := (if rfi_Reason inp = '''' then ''requested_by_customer'' else rfi_Reason inp),
                           rfi_Metadata := StampNamespace (rfi_Metadata inp) namespace\<rparr>) s))"

record refundParams =
  rpm_Charge :: "string option"
  rpm_PaymentIntent :: "string option"
  rpm_Amount :: "int option"
  rpm_Reason :: string
  rpm_Metadata :: "(string, string) gomap"

record stripeRefund =
  srf_ID :: string
  srf_Amount :: int
  srf_Currency :: string
  srf_Status :: string
  srf_Reason :: string
  srf_Created :: int
  srf_Charge :: "string option"

definition refundKeyInputs :: "RefundInput \<Rightarrow> string list" where
  "refundKeyInputs inp =
     [rfi_ChargeID inp, rfi_PaymentIntentID inp, CanonicalInt64 (rfi_Amount inp), rfi_Reason inp, CanonicalMap (rfi_Metadata inp)]"

definition api_Refund ::
  "(string \<Rightarrow> string) \<Rightarrow> string option \<Rightarrow> (string \<Rightarrow> refundParams \<Rightarrow> 's \<Rightarrow> (string + stripeRefund) \<times> 's) \<Rightarrow> RefundInput \<Rightarrow> 's \<Rightarrow>
    (string + Refund) \<times> 's" where
  "api_Refund sha256 ctx create inp s =
     apfst (map_sum (\<lambda>e. e) (\<lambda>r.
        \<lparr>rfd_StripeID = srf_ID r, rfd_ChargeID = (case srf_Charge r of None \<Rightarrow> '''' | Some c \<Rightarrow> c), rfd_Amount = srf_Amount r,
         rfd_Currency = srf_Currency r, rfd_Status = srf_Status r, rfd_Reason = srf_Reason r, rfd_CreatedAt = unixTime (srf_Created r)\<rparr>))
       (create (ApplyIdempotencyKey sha256 ctx ''refund.create'' (refundKeyInputs inp))
          \<lparr>rpm_Charge = ifSet (rfi_ChargeID inp), rpm_PaymentIntent = ifSet (rfi_PaymentIntentID inp),
           rpm_Amount = (if rfi_Amount inp > 0 then Some (rfi_Amount inp) else None), rpm_Reason = rfi_Reason inp,
           rpm_Metadata = rfi_Metadata inp\<rparr> s)"

subsection \<open>Saved payment methods\<close>

record SetupIntentNextAction =
  sna_Type :: string
  sna_RedirectToURL :: string
  sna_ReturnURL :: string

record SetupIntent =
  sei_StripeID :: string
  sei_ClientSecret :: string
  sei_Status :: string
  sei_CreatedAt :: time
  sei_NextAction :: "SetupIntentNextAction option"

record CreateSetupIntentInput =
  csi_SubjectID :: string
  csi_Usage :: string
  csi_PaymentMethodTypes :: "string list"
  csi_Metadata :: "(string, string) gomap"

record CardSnapshot =
  cs_Brand :: string
  cs_Last4 :: string
  cs_ExpMonth :: int
  cs_ExpYear :: int

record PaymentMethod =
  pm_StripeID :: string
  pm_StripeCustomerID :: string
  pm_Type :: string
  pm_Card :: "CardSnapshot option"
  pm_IsDefault :: bool
  pm_CreatedAt :: time
  pm_Metadata :: "(string, string) gomap"

record apiSetupIntent =
  asi_ID :: string
  asi_ClientSecret :: string
  asi_Status :: string
  asi_Created :: int
  asi_NextAction :: "(string \<times> (string \<times> string) option) option"

record apiPaymentMethod =
  apm_ID :: string
  apm_Type :: string
  apm_Created :: int
  apm_Metadata :: "(string, string) gomap"
  apm_Card :: "CardSnapshot option"

record setupIntentParams =
  stp_Customer :: string
  stp_Usage :: string
  stp_PaymentMethodTypes :: "string list"
  stp_Metadata :: "(string, string) gomap"

record 's methodClient =
  mcl_CreateSetupIntent :: "string \<Rightarrow> setupIntentParams \<Rightarrow> 's \<Rightarrow> (string + apiSetupIntent) \<times> 's"
  mcl_RetrieveDefault :: "string \<Rightarrow> 's \<Rightarrow> string + string option"
  mcl_List :: "string \<Rightarrow> string \<Rightarrow> 's \<Rightarrow> apiPaymentMethod list \<times> string option"
  mcl_Attach :: "string \<Rightarrow> string \<Rightarrow> string \<Rightarrow> 's \<Rightarrow> string option \<times> 's"
  mcl_Detach :: "string \<Rightarrow> string \<Rightarrow> 's \<Rightarrow> string option \<times> 's"
  mcl_SetDefault :: "string \<Rightarrow> string \<Rightarrow> string \<Rightarrow> 's \<Rightarrow> string option \<times> 's"

record ('s, 'c) methodOps =
  mo_client :: "'s methodClient"
  mo_customers :: "'c customerRepo"

datatype methodError = MethodFieldInvalid string | MethodResolveFailed string string | MethodNoCustomer string | MethodFailed string

text \<open>\<open>None\<close> is the panic on a missing client or repository.\<close>

definition paymentmethods_New :: "'s methodClient option \<Rightarrow> 'c customerRepo option \<Rightarrow> ('s, 'c) methodOps option" where
  "paymentmethods_New sc repo =
     (case (sc, repo) of (Some x, Some r) \<Rightarrow> Some \<lparr>mo_client = x, mo_customers = r\<rparr> | _ \<Rightarrow> None)"

definition methods_resolveCustomer :: "('s, 'c) methodOps \<Rightarrow> string \<Rightarrow> 'c \<Rightarrow> methodError + string" where
  "methods_resolveCustomer ops subj c =
     (case cu_Get (mo_customers ops) subj c of
        Inl e \<Rightarrow> Inl (MethodResolveFailed subj e)
      | Inr None \<Rightarrow> Inl (MethodNoCustomer subj)
      | Inr (Some i) \<Rightarrow> Inr i)"

definition projectSetupIntent :: "apiSetupIntent \<Rightarrow> SetupIntent" where
  "projectSetupIntent si =
     \<lparr>sei_StripeID = asi_ID si, sei_ClientSecret = asi_ClientSecret si, sei_Status = asi_Status si, sei_CreatedAt = unixTime (asi_Created si),
      sei_NextAction = map_option (\<lambda>(t, redirect). \<lparr>sna_Type = t,
        sna_RedirectToURL = (case redirect of None \<Rightarrow> '''' | Some (u, _) \<Rightarrow> u),
        sna_ReturnURL = (case redirect of None \<Rightarrow> '''' | Some (_, r) \<Rightarrow> r)\<rparr>) (asi_NextAction si)\<rparr>"

definition projectPaymentMethod :: "apiPaymentMethod \<Rightarrow> string \<Rightarrow> PaymentMethod" where
  "projectPaymentMethod m customerID =
     \<lparr>pm_StripeID = apm_ID m, pm_StripeCustomerID = customerID, pm_Type = apm_Type m, pm_Card = apm_Card m, pm_IsDefault = False,
      pm_CreatedAt = unixTime (apm_Created m), pm_Metadata = apm_Metadata m\<rparr>"

definition setupUsage :: "string \<Rightarrow> string" where
  "setupUsage u = (if u = '''' then ''off_session'' else u)"

definition orCard :: "string list \<Rightarrow> string list" where
  "orCard types = (if types = [] then [''card''] else types)"

definition CreateSetupIntent ::
  "(string \<Rightarrow> string) \<Rightarrow> string option \<Rightarrow> ('s, 'c) methodOps \<Rightarrow> CreateSetupIntentInput \<Rightarrow> 'c \<Rightarrow> 's \<Rightarrow> (methodError + SetupIntent) \<times> 's" where
  "CreateSetupIntent sha256 ctx ops inp c s =
     (if csi_SubjectID inp = '''' then (Inl (MethodFieldInvalid ''SubjectID''), s)
      else (case methods_resolveCustomer ops (csi_SubjectID inp) c of
         Inl e \<Rightarrow> (Inl e, s)
       | Inr customerID \<Rightarrow>
           apfst (map_sum MethodFailed projectSetupIntent)
             (mcl_CreateSetupIntent (mo_client ops)
                (ApplyIdempotencyKey sha256 ctx ''paymentmethods.setup_intent.create'' [customerID, setupUsage (csi_Usage inp)])
                \<lparr>stp_Customer = customerID, stp_Usage = setupUsage (csi_Usage inp), stp_PaymentMethodTypes = orCard (csi_PaymentMethodTypes inp),
                 stp_Metadata = csi_Metadata inp\<rparr> s)))"

text \<open>The loops over the types and over each listing.\<close>

fun listTypes :: "'s methodClient \<Rightarrow> string \<Rightarrow> string \<Rightarrow> string list \<Rightarrow> PaymentMethod list \<Rightarrow> 's \<Rightarrow> methodError + PaymentMethod list" where
  "listTypes cl customerID dflt [] out s = Inr out"
| "listTypes cl customerID dflt (t # ts) out s =
     (case mcl_List cl customerID t s of
        (_, Some e) \<Rightarrow> Inl (MethodFailed e)
      | (ms, None) \<Rightarrow>
          listTypes cl customerID dflt ts
            (out @ map (\<lambda>m. (projectPaymentMethod m customerID)\<lparr>pm_IsDefault := (apm_ID m = dflt)\<rparr>) ms) s)"

definition paymentmethods_List :: "('s, 'c) methodOps \<Rightarrow> string \<Rightarrow> string list \<Rightarrow> 'c \<Rightarrow> 's \<Rightarrow> methodError + PaymentMethod list" where
  "paymentmethods_List ops subj types c s =
     (case methods_resolveCustomer ops subj c of
        Inl e \<Rightarrow> Inl e
      | Inr customerID \<Rightarrow>
          (case mcl_RetrieveDefault (mo_client ops) customerID s of
             Inl e \<Rightarrow> Inl (MethodFailed e)
           | Inr dflt \<Rightarrow> listTypes (mo_client ops) customerID (case dflt of None \<Rightarrow> '''' | Some d \<Rightarrow> d) (orCard types) [] s))"

definition AttachPaymentMethod ::
  "(string \<Rightarrow> string) \<Rightarrow> string option \<Rightarrow> ('s, 'c) methodOps \<Rightarrow> string \<Rightarrow> string \<Rightarrow> 'c \<Rightarrow> 's \<Rightarrow> methodError option \<times> 's" where
  "AttachPaymentMethod sha256 ctx ops subj pmID c s =
     (if pmID = '''' then (Some (MethodFieldInvalid ''paymentMethodID''), s)
      else (case methods_resolveCustomer ops subj c of
         Inl e \<Rightarrow> (Some e, s)
       | Inr customerID \<Rightarrow>
           apfst (map_option MethodFailed)
             (mcl_Attach (mo_client ops) (ApplyIdempotencyKey sha256 ctx ''paymentmethods.attach'' [customerID, pmID]) pmID customerID s)))"

definition DetachPaymentMethod ::
  "(string \<Rightarrow> string) \<Rightarrow> string option \<Rightarrow> ('s, 'c) methodOps \<Rightarrow> string \<Rightarrow> 's \<Rightarrow> methodError option \<times> 's" where
  "DetachPaymentMethod sha256 ctx ops pmID s =
     (if pmID = '''' then (Some (MethodFieldInvalid ''paymentMethodID''), s)
      else apfst (map_option MethodFailed)
             (mcl_Detach (mo_client ops) (ApplyIdempotencyKey sha256 ctx ''paymentmethods.detach'' [pmID]) pmID s))"

definition SetDefaultPaymentMethod ::
  "(string \<Rightarrow> string) \<Rightarrow> string option \<Rightarrow> ('s, 'c) methodOps \<Rightarrow> string \<Rightarrow> string \<Rightarrow> 'c \<Rightarrow> 's \<Rightarrow> methodError option \<times> 's" where
  "SetDefaultPaymentMethod sha256 ctx ops subj pmID c s =
     (if pmID = '''' then (Some (MethodFieldInvalid ''paymentMethodID''), s)
      else (case methods_resolveCustomer ops subj c of
         Inl e \<Rightarrow> (Some e, s)
       | Inr customerID \<Rightarrow>
           apfst (map_option MethodFailed)
             (mcl_SetDefault (mo_client ops) (ApplyIdempotencyKey sha256 ctx ''paymentmethods.set_default'' [customerID, pmID]) customerID pmID s)))"

subsection \<open>Climate orders\<close>

text \<open>A beneficiary is its public name. These requests carry no idempotency key.\<close>

record climateParams =
  clp_Amount :: "int option"
  clp_Currency :: "string option"
  clp_MetricTons :: "gofloat option"
  clp_Beneficiary :: "string option"

record stripeOrder =
  sor_ID :: string
  sor_AmountTotal :: int
  sor_Currency :: string
  sor_MetricTons :: gofloat
  sor_Created :: int
  sor_Status :: string

record Order =
  or_StripeID :: string
  or_Amount :: int
  or_Currency :: string
  or_MetricTons :: gofloat
  or_CreatedAt :: time
  or_Status :: string

datatype climateError = ClimateFieldInvalid string | ClimateFailed string

definition projectOrder :: "stripeOrder \<Rightarrow> Order" where
  "projectOrder x =
     \<lparr>or_StripeID = sor_ID x, or_Amount = sor_AmountTotal x, or_Currency = sor_Currency x, or_MetricTons = sor_MetricTons x,
      or_CreatedAt = unixTime (sor_Created x), or_Status = sor_Status x\<rparr>"

definition PurchaseAmount ::
  "(climateParams \<Rightarrow> 's \<Rightarrow> (string + stripeOrder) \<times> 's) \<Rightarrow> int \<Rightarrow> string \<Rightarrow> string \<Rightarrow> 's \<Rightarrow> (climateError + Order) \<times> 's" where
  "PurchaseAmount create amount currency publicName s =
     (if amount \<le> 0 then (Inl (ClimateFieldInvalid ''amount''), s)
      else if currency = '''' then (Inl (ClimateFieldInvalid ''currency''), s)
      else apfst (map_sum ClimateFailed projectOrder)
             (create \<lparr>clp_Amount = Some amount, clp_Currency = Some currency, clp_MetricTons = None, clp_Beneficiary = ifSet publicName\<rparr> s))"

definition PurchaseMetricTons ::
  "(climateParams \<Rightarrow> 's \<Rightarrow> (string + stripeOrder) \<times> 's) \<Rightarrow> gofloat \<Rightarrow> string \<Rightarrow> 's \<Rightarrow> (climateError + Order) \<times> 's" where
  "PurchaseMetricTons create tons publicName s =
     (if f_le_zero tons then (Inl (ClimateFieldInvalid ''tons''), s)
      else apfst (map_sum ClimateFailed projectOrder)
             (create \<lparr>clp_Amount = None, clp_Currency = None, clp_MetricTons = Some tons, clp_Beneficiary = ifSet publicName\<rparr> s))"

subsection \<open>Facts\<close>

text \<open>
  A refund reaches Stripe exactly when it names one target, no negative amount and a known reason or none; then the request has
  that one target, a reason and, for a partial refund, the amount.
\<close>

definition refundValid :: "RefundInput \<Rightarrow> bool" where
  "refundValid inp \<longleftrightarrow> (rfi_ChargeID inp = '''') \<noteq> (rfi_PaymentIntentID inp = '''') \<and> 0 \<le> rfi_Amount inp \<and>
     rfi_Reason inp \<in> {'''', ''duplicate'', ''fraudulent'', ''requested_by_customer''}"

definition refundRequest :: "string \<Rightarrow> RefundInput \<Rightarrow> refundParams" where
  "refundRequest ns inp =
     \<lparr>rpm_Charge = ifSet (rfi_ChargeID inp), rpm_PaymentIntent = ifSet (rfi_PaymentIntentID inp),
      rpm_Amount = (if rfi_Amount inp = 0 then None else Some (rfi_Amount inp)),
      rpm_Reason = (if rfi_Reason inp = '''' then ''requested_by_customer'' else rfi_Reason inp),
      rpm_Metadata = StampNamespace (rfi_Metadata inp) ns\<rparr>"

definition refundNormal :: "string \<Rightarrow> RefundInput \<Rightarrow> RefundInput" where
  "refundNormal ns inp = inp\<lparr>rfi_Reason := (if rfi_Reason inp = '''' then ''requested_by_customer'' else rfi_Reason inp),
     rfi_Metadata := StampNamespace (rfi_Metadata inp) ns\<rparr>"

lemma refund_request:
  assumes "refundValid inp"
  shows "snd (payments_Refund (api_Refund sha ctx create) ns inp s) =
    snd (create (ApplyIdempotencyKey sha ctx ''refund.create'' (refundKeyInputs (refundNormal ns inp))) (refundRequest ns inp) s)"
proof -
  from assms have "payments_Refund be ns inp s = apfst (map_sum RefundFailed (\<lambda>r. r)) (be (refundNormal ns inp) s)" for be
    unfolding refundNormal_def by (auto simp: refundValid_def payments_Refund_def)
  then show ?thesis using assms by (simp add: api_Refund_def refundRequest_def refundNormal_def refundValid_def)
qed

lemma refund_refused: "\<not> refundValid inp \<Longrightarrow> isl (fst (payments_Refund backend ns inp s)) \<and> snd (payments_Refund backend ns inp s) = s"
  by (auto simp: refundValid_def payments_Refund_def)

text \<open>The listing has the methods of every type in order, and marks exactly the customer's default.\<close>

lemma listTypes_all:
  "(\<forall>t \<in> set ts. snd (mcl_List cl cid t s) = None) \<Longrightarrow>
    listTypes cl cid dflt ts out s = Inr (out @ concat (map (\<lambda>t. map (\<lambda>m. (projectPaymentMethod m cid)\<lparr>pm_IsDefault := (apm_ID m = dflt)\<rparr>)
      (fst (mcl_List cl cid t s))) ts))"
proof (induction ts arbitrary: out)
  case (Cons t ts)
  then show ?case by (cases "mcl_List cl cid t s") auto
qed simp

text \<open>Not-a-number passes the check on the tonnage.\<close>

lemma PurchaseMetricTons_NaN:
  "PurchaseMetricTons create NaN '''' s =
     apfst (map_sum ClimateFailed projectOrder) (create \<lparr>clp_Amount = None, clp_Currency = None, clp_MetricTons = Some NaN, clp_Beneficiary = None\<rparr> s)"
  by (simp add: PurchaseMetricTons_def ifSet_def)

end
