(* ===== verification/Promo_Codes.thy ===== *)
theory Promo_Codes
  imports Subscription_Backend Metering_Proofs
begin

text \<open>
  Package \<open>coupons\<close> with \<open>stripeapi/coupon_backend.go\<close>, and \<open>stripeapi/meter_backend.go\<close>. The calls of the Stripe client are
  functions on its state; a parameter that is left out is \<open>None\<close>.
\<close>

subsection \<open>Promotion codes\<close>

record Restrictions =
  rst_FirstTimeTransaction :: bool
  rst_MinimumAmount :: int
  rst_MinimumAmountCurrency :: string

record PromoCode =
  pro_ID :: string
  pro_Code :: string
  pro_CouponID :: string
  pro_Active :: bool
  pro_MaxRedemptions :: int
  pro_TimesRedeemed :: int
  pro_ExpiresAt :: "time option"
  pro_Restrictions :: "Restrictions option"
  pro_BoundCustomer :: string
  pro_Metadata :: "(string, string) gomap"
  pro_Created :: time

record PromoCreateInput =
  pci_CouponKey :: string
  pci_Code :: string
  pci_MaxRedemptions :: int
  pci_ExpiresAt :: time
  pci_BoundCustomer :: string
  pci_Restrictions :: "Restrictions option"
  pci_Metadata :: "(string, string) gomap"

record PromoCreateParams =
  pcp_CouponID :: string
  pcp_Code :: string
  pcp_MaxRedemptions :: int
  pcp_ExpiresAt :: int
  pcp_BoundCustomer :: string
  pcp_Restrictions :: "Restrictions option"
  pcp_Metadata :: "(string, string) gomap"

record PromoListInput =
  pli_CouponKey :: string
  pli_ActiveOnly :: bool
  pli_Limit :: int

record PromoListParams =
  plp_CouponID :: string
  plp_ActiveOnly :: bool
  plp_Limit :: int

record 's promoBackend =
  pbk_Create :: "PromoCreateParams \<Rightarrow> 's \<Rightarrow> (string + PromoCode) \<times> 's"
  pbk_List :: "PromoListParams \<Rightarrow> 's \<Rightarrow> string + PromoCode list"
  pbk_Deactivate :: "string \<Rightarrow> 's \<Rightarrow> string option \<times> 's"

record 's promoOps =
  po_backend :: "'s promoBackend"
  po_spec :: Spec

datatype promoError = PromoFieldInvalid string | CouponNotInCatalog string | PromoFailed string

text \<open>\<open>None\<close> is the panic on a missing backend or specification.\<close>

definition coupons_New :: "'s promoBackend option \<Rightarrow> Spec option \<Rightarrow> 's promoOps option" where
  "coupons_New backend spec =
     (case (backend, spec) of (Some be, Some sp) \<Rightarrow> Some \<lparr>po_backend = be, po_spec = sp\<rparr> | _ \<Rightarrow> None)"

definition CreatePromoCode :: "'s promoOps \<Rightarrow> PromoCreateInput \<Rightarrow> 's \<Rightarrow> (promoError + PromoCode) \<times> 's" where
  "CreatePromoCode ops inp s =
     (if pci_CouponKey inp = '''' then (Inl (PromoFieldInvalid ''CouponKey''), s)
      else if map_of (sp_Coupons (po_spec ops)) (pci_CouponKey inp) = None then (Inl (CouponNotInCatalog (pci_CouponKey inp)), s)
      else apfst (map_sum PromoFailed (\<lambda>p. p))
             (pbk_Create (po_backend ops)
                \<lparr>pcp_CouponID = NamespacedCouponID (po_spec ops) (pci_CouponKey inp), pcp_Code = pci_Code inp,
                 pcp_MaxRedemptions = pci_MaxRedemptions inp,
                 pcp_ExpiresAt = (if pci_ExpiresAt inp = zero_time then 0 else Unix (pci_ExpiresAt inp)),
                 pcp_BoundCustomer = pci_BoundCustomer inp, pcp_Restrictions = pci_Restrictions inp,
                 pcp_Metadata = StampNamespace (pci_Metadata inp) (sp_Namespace (po_spec ops))\<rparr> s))"

definition ListPromoCodes :: "'s promoOps \<Rightarrow> PromoListInput \<Rightarrow> 's \<Rightarrow> promoError + PromoCode list" where
  "ListPromoCodes ops inp s =
     (if pli_CouponKey inp \<noteq> '''' \<and> map_of (sp_Coupons (po_spec ops)) (pli_CouponKey inp) = None
      then Inl (CouponNotInCatalog (pli_CouponKey inp))
      else map_sum PromoFailed (\<lambda>p. p)
             (pbk_List (po_backend ops)
                \<lparr>plp_CouponID = (if pli_CouponKey inp \<noteq> '''' then NamespacedCouponID (po_spec ops) (pli_CouponKey inp) else ''''),
                 plp_ActiveOnly = pli_ActiveOnly inp, plp_Limit = pli_Limit inp\<rparr> s))"

definition DeactivatePromoCode :: "'s promoOps \<Rightarrow> string \<Rightarrow> 's \<Rightarrow> promoError option \<times> 's" where
  "DeactivatePromoCode ops promoID s =
     (if promoID = '''' then (Some (PromoFieldInvalid ''promoID''), s)
      else apfst (map_option PromoFailed) (pbk_Deactivate (po_backend ops) promoID s))"

subsection \<open>The Stripe adapter\<close>

record restrictionParams =
  rsp_FirstTimeTransaction :: bool
  rsp_MinimumAmount :: "int option"
  rsp_MinimumAmountCurrency :: "string option"

record promoParams =
  ppm_Coupon :: string
  ppm_Code :: "string option"
  ppm_MaxRedemptions :: "int option"
  ppm_ExpiresAt :: "int option"
  ppm_Customer :: "string option"
  ppm_Restrictions :: "restrictionParams option"
  ppm_Metadata :: "(string, string) gomap"

record stripePromo =
  spr_ID :: string
  spr_Code :: string
  spr_Active :: bool
  spr_MaxRedemptions :: int
  spr_TimesRedeemed :: int
  spr_Metadata :: "(string, string) gomap"
  spr_Created :: int
  spr_Coupon :: "string option"
  spr_Customer :: "string option"
  spr_ExpiresAt :: int
  spr_Restrictions :: "Restrictions option"

record 's promoClient =
  prc_Create :: "string \<Rightarrow> promoParams \<Rightarrow> 's \<Rightarrow> (string + stripePromo) \<times> 's"
  prc_List :: "string option \<Rightarrow> bool \<Rightarrow> int option \<Rightarrow> 's \<Rightarrow> stripePromo list \<times> string option"
  prc_Deactivate :: "string \<Rightarrow> string \<Rightarrow> 's \<Rightarrow> string option \<times> 's"

definition ifPositive :: "int \<Rightarrow> int option" where
  "ifPositive n = (if n > 0 then Some n else None)"

definition restrictionParamsOf :: "Restrictions \<Rightarrow> restrictionParams" where
  "restrictionParamsOf r =
     \<lparr>rsp_FirstTimeTransaction = rst_FirstTimeTransaction r, rsp_MinimumAmount = ifPositive (rst_MinimumAmount r),
      rsp_MinimumAmountCurrency = (if rst_MinimumAmount r > 0 then ifSet (rst_MinimumAmountCurrency r) else None)\<rparr>"

definition projectPromoCode :: "stripePromo \<Rightarrow> PromoCode" where
  "projectPromoCode p =
     \<lparr>pro_ID = spr_ID p, pro_Code = spr_Code p, pro_CouponID = (case spr_Coupon p of None \<Rightarrow> '''' | Some c \<Rightarrow> c), pro_Active = spr_Active p,
      pro_MaxRedemptions = spr_MaxRedemptions p, pro_TimesRedeemed = spr_TimesRedeemed p,
      pro_ExpiresAt = (if spr_ExpiresAt p > 0 then Some (UnixToTime (spr_ExpiresAt p)) else None), pro_Restrictions = spr_Restrictions p,
      pro_BoundCustomer = (case spr_Customer p of None \<Rightarrow> '''' | Some c \<Rightarrow> c), pro_Metadata = spr_Metadata p,
      pro_Created = UnixToTime (spr_Created p)\<rparr>"

definition promoKeyInputs :: "PromoCreateParams \<Rightarrow> string list" where
  "promoKeyInputs p =
     [pcp_CouponID p, pcp_Code p, CanonicalInt64 (pcp_MaxRedemptions p), CanonicalInt64 (pcp_ExpiresAt p), pcp_BoundCustomer p,
      CanonicalMap (pcp_Metadata p)]"

definition promoParamsOf :: "PromoCreateParams \<Rightarrow> promoParams" where
  "promoParamsOf p =
     \<lparr>ppm_Coupon = pcp_CouponID p, ppm_Code = ifSet (pcp_Code p), ppm_MaxRedemptions = ifPositive (pcp_MaxRedemptions p),
      ppm_ExpiresAt = ifPositive (pcp_ExpiresAt p), ppm_Customer = ifSet (pcp_BoundCustomer p),
      ppm_Restrictions = map_option restrictionParamsOf (pcp_Restrictions p), ppm_Metadata = pcp_Metadata p\<rparr>"

definition api_CreatePromoCode ::
  "(string \<Rightarrow> string) \<Rightarrow> string option \<Rightarrow> 's promoClient \<Rightarrow> PromoCreateParams \<Rightarrow> 's \<Rightarrow> (string + PromoCode) \<times> 's" where
  "api_CreatePromoCode sha256 ctx cl p s =
     apfst (map_sum (\<lambda>e. e) projectPromoCode)
       (prc_Create cl (ApplyIdempotencyKey sha256 ctx ''promo_code.create'' (promoKeyInputs p)) (promoParamsOf p) s)"

definition api_ListPromoCodes :: "'s promoClient \<Rightarrow> PromoListParams \<Rightarrow> 's \<Rightarrow> string + PromoCode list" where
  "api_ListPromoCodes cl p s =
     (case prc_List cl (ifSet (plp_CouponID p)) (plp_ActiveOnly p) (ifPositive (plp_Limit p)) s of
        (_, Some e) \<Rightarrow> Inl e
      | (xs, None) \<Rightarrow> Inr (map projectPromoCode xs))"

definition api_DeactivatePromoCode ::
  "(string \<Rightarrow> string) \<Rightarrow> string option \<Rightarrow> 's promoClient \<Rightarrow> string \<Rightarrow> 's \<Rightarrow> string option \<times> 's" where
  "api_DeactivatePromoCode sha256 ctx cl promoID s =
     prc_Deactivate cl (ApplyIdempotencyKey sha256 ctx ''promo_code.deactivate'' [promoID]) promoID s"

definition NewCouponBackend :: "(string \<Rightarrow> string) \<Rightarrow> string option \<Rightarrow> 's promoClient \<Rightarrow> 's promoBackend" where
  "NewCouponBackend sha256 ctx cl =
     \<lparr>pbk_Create = api_CreatePromoCode sha256 ctx cl, pbk_List = api_ListPromoCodes cl, pbk_Deactivate = api_DeactivatePromoCode sha256 ctx cl\<rparr>"

text \<open>
  The key of a promotion code leaves out its restrictions: the same code with other restrictions is answered with the first.
\<close>

lemma promo_key_ignores_restrictions: "promoKeyInputs (p\<lparr>pcp_Restrictions := r\<rparr>) = promoKeyInputs p"
  by (simp add: promoKeyInputs_def)

text \<open>A code is created only for a coupon of the specification, under the coupon's id in the namespace, and carries the stamp.\<close>

lemma CreatePromoCode_scoped:
  assumes "po_backend ops = NewCouponBackend sha ctx cl" "CreatePromoCode ops inp s = (Inr p, s')" "sp_Namespace (po_spec ops) \<noteq> ''''"
  shows "pci_CouponKey inp \<in> dom (map_of (sp_Coupons (po_spec ops))) \<and>
    (\<exists>key req r. prc_Create cl key req s = (Inr r, s') \<and> ppm_Coupon req = pci_CouponKey inp @ ''_'' @ sp_Namespace (po_spec ops) \<and>
      mstr (ppm_Metadata req) MetadataKeyNamespace = sp_Namespace (po_spec ops))"
proof -
  let ?p = "\<lparr>pcp_CouponID = NamespacedCouponID (po_spec ops) (pci_CouponKey inp), pcp_Code = pci_Code inp,
    pcp_MaxRedemptions = pci_MaxRedemptions inp, pcp_ExpiresAt = (if pci_ExpiresAt inp = zero_time then 0 else Unix (pci_ExpiresAt inp)),
    pcp_BoundCustomer = pci_BoundCustomer inp, pcp_Restrictions = pci_Restrictions inp,
    pcp_Metadata = StampNamespace (pci_Metadata inp) (sp_Namespace (po_spec ops))\<rparr>"
  from assms(2) have known: "map_of (sp_Coupons (po_spec ops)) (pci_CouponKey inp) \<noteq> None"
    and run: "apfst (map_sum PromoFailed (\<lambda>p. p)) (api_CreatePromoCode sha ctx cl ?p s) = (Inr p, s')"
    by (auto simp: CreatePromoCode_def assms(1) NewCouponBackend_def split: if_splits)
  obtain res t where mk: "prc_Create cl (ApplyIdempotencyKey sha ctx ''promo_code.create'' (promoKeyInputs ?p)) (promoParamsOf ?p) s = (res, t)"
    by fastforce
  with run obtain r where "res = Inr r" "t = s'" by (cases res) (auto simp: api_CreatePromoCode_def)
  moreover have "ppm_Coupon (promoParamsOf ?p) = pcp_CouponID ?p" "ppm_Metadata (promoParamsOf ?p) = pcp_Metadata ?p" by (simp_all add: promoParamsOf_def)
  ultimately show ?thesis using known mk assms(3) by (force simp: NamespacedCouponID_def StampNamespace_def)
qed

subsection \<open>Meter events\<close>

record meterEventParams =
  mep_EventName :: string
  mep_Identifier :: string
  mep_StripeCustomer :: string
  mep_Value :: string
  mep_Timestamp :: "int option"

definition meterParamsOf :: "PushEvent \<Rightarrow> meterEventParams" where
  "meterParamsOf e =
     \<lparr>mep_EventName = ps_EventName e, mep_Identifier = ps_Identifier e, mep_StripeCustomer = ps_StripeCustomer e,
      mep_Value = showInt (ps_Value e), mep_Timestamp = ifPositive (ps_TimestampUnix e)\<rparr>"

definition meterKeyInputs :: "PushEvent \<Rightarrow> string list" where
  "meterKeyInputs e = [ps_EventName e, ps_Identifier e, ps_StripeCustomer e, showInt (ps_Value e), showInt (ps_TimestampUnix e)]"

fun api_PushBatch ::
  "(string \<Rightarrow> string) \<Rightarrow> string option \<Rightarrow> (string \<Rightarrow> meterEventParams \<Rightarrow> 's \<Rightarrow> string option \<times> 's) \<Rightarrow> PushEvent list \<Rightarrow> 's \<Rightarrow> string option \<times> 's" where
  "api_PushBatch sha256 ctx create [] s = (None, s)"
| "api_PushBatch sha256 ctx create (e # es) s =
     (case create (ApplyIdempotencyKey sha256 ctx ''meter_event.push'' (meterKeyInputs e)) (meterParamsOf e) s of
        (Some err, s1) \<Rightarrow> (Some err, s1)
      | (None, s1) \<Rightarrow> api_PushBatch sha256 ctx create es s1)"

text \<open>
  One event per request is enough for what the push of a window relies on: when Stripe drops events with a known identifier and
  a failed request may or may not have kept its event, the adapter is lawful.
\<close>

lemma api_PushBatch_lawful:
  assumes "\<And>key e s err s'. create key (meterParamsOf e) s = (err, s') \<Longrightarrow>
    (view s' = view s \<or> view s' = addOnce e (view s)) \<and> (err = None \<longrightarrow> view s' = addOnce e (view s))"
  shows "lawful_push (api_PushBatch sha ctx create) view"
proof -
  have "(\<exists>n. view s' = fold addOnce (take n es) (view s)) \<and> (err = None \<longrightarrow> view s' = fold addOnce es (view s))"
    if "api_PushBatch sha ctx create es s = (err, s')" for es s err s'
    using that
  proof (induction es arbitrary: s)
    case (Cons e es)
    obtain q s1 where step: "create (ApplyIdempotencyKey sha ctx ''meter_event.push'' (meterKeyInputs e)) (meterParamsOf e) s = (q, s1)" by fastforce
    note one = assms [OF step]
    show ?case
    proof (cases q)
      case None
      with Cons.prems have "api_PushBatch sha ctx create es s1 = (err, s')" by (simp add: step)
      from Cons.IH [OF this] obtain n where "view s' = fold addOnce (take n es) (view s1)" "err = None \<longrightarrow> view s' = fold addOnce es (view s1)" by blast
      with one None show ?thesis by (intro conjI exI [of _ "Suc n"]) simp_all
    next
      case (Some x)
      with Cons.prems one have "view s' = view s \<or> view s' = addOnce e (view s)" "err = Some x" by (auto simp: step)
      then show ?thesis by (metis fold_simps(1,2) option.distinct(1) take_0 take_Suc_Cons)
    qed
  qed simp
  then show ?thesis by (simp add: lawful_push_def)
qed

end
