(* ===== verification/Catalog_Backend.thy ===== *)
theory Catalog_Backend
  imports Subscription_Backend Catalog_Sync
begin

text \<open>
  \<open>stripeapi/backend.go\<close>: the Stripe adapter behind \<open>catalog.Backend\<close> and \<open>catalog.PriceLister\<close>; and the rest of package
  \<open>stripeapi\<close>: the settings of the client (\<open>client.go\<close>), reading Stripe's errors (\<open>errors.go\<close>) and test clocks (\<open>test_clock.go\<close>).
  The calls of the Stripe client are fields of a record of functions on its state; a parameter that is left out is \<open>None\<close>. A
  listing gives the objects before its end or failure, and the failure.
\<close>

subsection \<open>The client\<close>

record apiPrice =
  apr_ID :: string
  apr_LookupKey :: string
  apr_Active :: bool
  apr_UnitAmount :: int
  apr_Currency :: string
  apr_Type :: string
  apr_Recurring :: "(string \<times> int) option"
  apr_Product :: "string option"
  apr_Metadata :: "(string, string) gomap"

record apiProduct =
  apd_ID :: string
  apd_Name :: string
  apd_TaxCode :: "string option"
  apd_Active :: bool
  apd_Description :: string
  apd_Metadata :: "(string, string) gomap"

record apiMeter =
  amt_ID :: string
  amt_EventName :: string
  amt_DisplayName :: string
  amt_Status :: string
  amt_Formula :: "string option"

record productCreateParams =
  prp_ID :: string
  prp_Name :: string
  prp_Description :: "string option"
  prp_TaxCode :: "string option"
  prp_Metadata :: "(string, string) gomap"

record productUpdateParams =
  pup_Name :: "string option"
  pup_Description :: "string option"
  pup_Active :: "bool option"
  pup_Metadata :: "(string, string) gomap"

record priceCreateParams =
  pcr_Product :: string
  pcr_LookupKey :: string
  pcr_Currency :: string
  pcr_UnitAmount :: int
  pcr_TransferLookupKey :: bool
  pcr_Recurring :: "(string \<times> int) option"
  pcr_TaxBehavior :: "string option"
  pcr_Metadata :: "(string, string) gomap"

record 's catalogClient =
  ccl_PricesByKeys :: "string list \<Rightarrow> 's \<Rightarrow> apiPrice list \<times> string option"
  ccl_PricesOfProduct :: "string \<Rightarrow> 's \<Rightarrow> apiPrice list \<times> string option"
  ccl_ListProducts :: "'s \<Rightarrow> apiProduct list \<times> string option"
  ccl_CreateProduct :: "string \<Rightarrow> productCreateParams \<Rightarrow> 's \<Rightarrow> (string + apiProduct) \<times> 's"
  ccl_UpdateProduct :: "string \<Rightarrow> string \<Rightarrow> productUpdateParams \<Rightarrow> 's \<Rightarrow> string option \<times> 's"
  ccl_CreatePrice :: "string \<Rightarrow> priceCreateParams \<Rightarrow> 's \<Rightarrow> (string + apiPrice) \<times> 's"
  ccl_UpdatePriceActive :: "string \<Rightarrow> string \<Rightarrow> bool \<Rightarrow> 's \<Rightarrow> string option \<times> 's"
  ccl_ListMeters :: "'s \<Rightarrow> apiMeter list \<times> string option"
  ccl_CreateMeter :: "string \<Rightarrow> string \<times> string \<times> string \<Rightarrow> 's \<Rightarrow> (string + apiMeter) \<times> 's"
  ccl_DeactivateMeter :: "string \<Rightarrow> string \<Rightarrow> 's \<Rightarrow> string option \<times> 's"

subsection \<open>Projections\<close>

definition productTaxCode :: "apiProduct \<Rightarrow> string" where
  "productTaxCode p = (case apd_TaxCode p of None \<Rightarrow> '''' | Some c \<Rightarrow> c)"

definition recurringInterval :: "apiPrice \<Rightarrow> string" where
  "recurringInterval p = (case apr_Recurring p of None \<Rightarrow> '''' | Some (i, _) \<Rightarrow> i)"

definition recurringIntervalCount :: "apiPrice \<Rightarrow> int" where
  "recurringIntervalCount p = (case apr_Recurring p of None \<Rightarrow> 0 | Some (_, n) \<Rightarrow> n)"

definition intervalCountOrOne :: "int \<Rightarrow> int" where
  "intervalCountOrOne n = (if n \<le> 0 then 1 else n)"

definition existingPriceOf :: "apiPrice \<Rightarrow> ExistingPrice" where
  "existingPriceOf p =
     \<lparr>ep_ID = apr_ID p, ep_LookupKey = apr_LookupKey p, ep_Active = apr_Active p, ep_Amount = apr_UnitAmount p, ep_Currency = apr_Currency p,
      ep_Type = apr_Type p, ep_Interval = recurringInterval p, ep_IntervalCount = recurringIntervalCount p, ep_Metadata = apr_Metadata p\<rparr>"

definition existingProductOf :: "apiProduct \<Rightarrow> ExistingPrice list \<Rightarrow> ExistingProduct" where
  "existingProductOf p prices =
     \<lparr>xp_ID = apd_ID p, xp_Name = apd_Name p, xp_TaxCode = productTaxCode p, xp_Active = apd_Active p, xp_Description = apd_Description p,
      xp_Metadata = apd_Metadata p, xp_Prices = prices\<rparr>"

definition projectMeter :: "apiMeter \<Rightarrow> ExistingMeter" where
  "projectMeter m =
     \<lparr>xm_ID = amt_ID m, xm_EventName = amt_EventName m, xm_DisplayName = amt_DisplayName m,
      xm_AggregateBy = (case amt_Formula m of None \<Rightarrow> '''' | Some f \<Rightarrow> f), xm_Active = (amt_Status m = ''active'')\<rparr>"

definition aggregationFormula :: "string \<Rightarrow> string" where
  "aggregationFormula s =
     (if s \<in> {''count'', ''sum'', ''last'', ''last_value''} then (if s = ''last_value'' then ''last'' else s) else ''sum'')"

subsection \<open>Listings\<close>

definition listByLookupKeysBatch :: "'s catalogClient \<Rightarrow> string list \<Rightarrow> 's \<Rightarrow> string + ResolvedPrice list" where
  "listByLookupKeysBatch cl keys s =
     (case ccl_PricesByKeys cl keys s of
        (_, Some e) \<Rightarrow> Inl e
      | (ps, None) \<Rightarrow> Inr (map (\<lambda>p. \<lparr>rp_LookupKey = apr_LookupKey p, rp_PriceID = apr_ID p,
          rp_ProductID = (case apr_Product p of None \<Rightarrow> '''' | Some i \<Rightarrow> i), rp_Active = apr_Active p\<rparr>) ps))"

text \<open>The loop over batches of ten, on the keys that are left.\<close>

function lookupBatches :: "'s catalogClient \<Rightarrow> string list \<Rightarrow> ResolvedPrice list \<Rightarrow> 's \<Rightarrow> string + ResolvedPrice list" where
  "lookupBatches cl keys out s =
     (if keys = [] then Inr out
      else case listByLookupKeysBatch cl (take 10 keys) s of
             Inl e \<Rightarrow> Inl e
           | Inr batch \<Rightarrow> lookupBatches cl (drop 10 keys) (out @ batch) s)"
  by pat_completeness auto
termination by (relation "measure (\<lambda>(_, keys, _, _). length keys)") auto

declare lookupBatches.simps [simp del]

definition ListByLookupKeys :: "'s catalogClient \<Rightarrow> string list \<Rightarrow> 's \<Rightarrow> string + ResolvedPrice list" where
  "ListByLookupKeys cl keys s = lookupBatches cl keys [] s"

definition listPricesForProduct :: "'s catalogClient \<Rightarrow> string \<Rightarrow> 's \<Rightarrow> string + ExistingPrice list" where
  "listPricesForProduct cl pid s =
     (case ccl_PricesOfProduct cl pid s of (_, Some e) \<Rightarrow> Inl e | (ps, None) \<Rightarrow> Inr (map existingPriceOf ps))"

fun productLoop ::
  "'s catalogClient \<Rightarrow> string \<Rightarrow> apiProduct list \<Rightarrow> string option \<Rightarrow> ExistingProduct list \<Rightarrow> 's \<Rightarrow> string + ExistingProduct list" where
  "productLoop cl prefix [] None out s = Inr out"
| "productLoop cl prefix [] (Some e) out s = Inl e"
| "productLoop cl prefix (p # ps) err out s =
     (if \<not> HasPrefix (apd_ID p) prefix then productLoop cl prefix ps err out s
      else case listPricesForProduct cl (apd_ID p) s of
             Inl e \<Rightarrow> Inl e
           | Inr prices \<Rightarrow> productLoop cl prefix ps err (out @ [existingProductOf p prices]) s)"

definition ListProductsByNamespace :: "'s catalogClient \<Rightarrow> string \<Rightarrow> 's \<Rightarrow> (string + ExistingProduct list) \<times> 's" where
  "ListProductsByNamespace cl ns s =
     (case ccl_ListProducts cl s of (ps, err) \<Rightarrow> (productLoop cl (''prod_'' @ ns @ ''_'') ps err [] s, s))"

definition ListMetersByNamespace :: "'s catalogClient \<Rightarrow> string \<Rightarrow> 's \<Rightarrow> (string + ExistingMeter list) \<times> 's" where
  "ListMetersByNamespace cl ns s =
     (case ccl_ListMeters cl s of
        (_, Some e) \<Rightarrow> (Inl e, s)
      | (ms, None) \<Rightarrow> (Inr (map projectMeter (filter (\<lambda>m. HasPrefix (amt_EventName m) (ns @ ''.'')) ms)), s))"

subsection \<open>Writes\<close>

definition catalog_CreateProduct ::
  "(string \<Rightarrow> string) \<Rightarrow> string option \<Rightarrow> 's catalogClient \<Rightarrow> NewProduct \<Rightarrow> 's \<Rightarrow> (string + ExistingProduct) \<times> 's" where
  "catalog_CreateProduct sha256 ctx cl p s =
     apfst (map_sum (\<lambda>e. e) (\<lambda>c. existingProductOf c []))
       (ccl_CreateProduct cl
          (ApplyIdempotencyKey sha256 ctx ''product.create'' [np_ID p, np_Name p, np_TaxCode p, CanonicalMap (np_Metadata p)])
          \<lparr>prp_ID = np_ID p, prp_Name = np_Name p, prp_Description = ifSet (np_Description p), prp_TaxCode = ifSet (np_TaxCode p),
           prp_Metadata = np_Metadata p\<rparr> s)"

definition catalog_UpdateProduct ::
  "(string \<Rightarrow> string) \<Rightarrow> string option \<Rightarrow> 's catalogClient \<Rightarrow> string \<Rightarrow> ProductUpdate \<Rightarrow> 's \<Rightarrow> string option \<times> 's" where
  "catalog_UpdateProduct sha256 ctx cl pid u s =
     ccl_UpdateProduct cl
       (ApplyIdempotencyKey sha256 ctx ''product.update'' [pid, pu_Name u, pu_Description u, CanonicalMap (pu_Metadata u)]) pid
       \<lparr>pup_Name = ifSet (pu_Name u), pup_Description = ifSet (pu_Description u), pup_Active = None, pup_Metadata = pu_Metadata u\<rparr> s"

definition catalog_UpdateProductActive ::
  "(string \<Rightarrow> string) \<Rightarrow> string option \<Rightarrow> 's catalogClient \<Rightarrow> string \<Rightarrow> bool \<Rightarrow> 's \<Rightarrow> string option \<times> 's" where
  "catalog_UpdateProductActive sha256 ctx cl pid active s =
     ccl_UpdateProduct cl (ApplyIdempotencyKey sha256 ctx ''product.set_active'' [pid, FormatBool active]) pid
       \<lparr>pup_Name = None, pup_Description = None, pup_Active = Some active, pup_Metadata = []\<rparr> s"

definition priceKeyInputs :: "NewPrice \<Rightarrow> string list" where
  "priceKeyInputs p =
     [nr_ProductID p, nr_LookupKey p, nr_Currency p, CanonicalInt64 (nr_Amount p), nr_Type p, nr_Interval p,
      CanonicalInt64 (nr_IntervalCount p), FormatBool (nr_TransferLookupKey p), nr_TaxBehavior p, CanonicalMap (nr_Metadata p)]"

definition priceParamsOf :: "NewPrice \<Rightarrow> priceCreateParams" where
  "priceParamsOf p =
     \<lparr>pcr_Product = nr_ProductID p, pcr_LookupKey = nr_LookupKey p, pcr_Currency = nr_Currency p, pcr_UnitAmount = nr_Amount p,
      pcr_TransferLookupKey = nr_TransferLookupKey p,
      pcr_Recurring = (if nr_Type p = PriceTypeRecurring then Some (nr_Interval p, intervalCountOrOne (nr_IntervalCount p)) else None),
      pcr_TaxBehavior = ifSet (nr_TaxBehavior p), pcr_Metadata = nr_Metadata p\<rparr>"

definition catalog_CreatePrice ::
  "(string \<Rightarrow> string) \<Rightarrow> string option \<Rightarrow> 's catalogClient \<Rightarrow> NewPrice \<Rightarrow> 's \<Rightarrow> (string + ExistingPrice) \<times> 's" where
  "catalog_CreatePrice sha256 ctx cl p s =
     apfst (map_sum (\<lambda>e. e) existingPriceOf)
       (ccl_CreatePrice cl (ApplyIdempotencyKey sha256 ctx ''price.create'' (priceKeyInputs p)) (priceParamsOf p) s)"

definition catalog_UpdatePriceActive ::
  "(string \<Rightarrow> string) \<Rightarrow> string option \<Rightarrow> 's catalogClient \<Rightarrow> string \<Rightarrow> bool \<Rightarrow> 's \<Rightarrow> string option \<times> 's" where
  "catalog_UpdatePriceActive sha256 ctx cl priceID active s =
     ccl_UpdatePriceActive cl (ApplyIdempotencyKey sha256 ctx ''price.set_active'' [priceID, FormatBool active]) priceID active s"

definition catalog_CreateMeter ::
  "(string \<Rightarrow> string) \<Rightarrow> string option \<Rightarrow> 's catalogClient \<Rightarrow> NewMeter \<Rightarrow> 's \<Rightarrow> (string + ExistingMeter) \<times> 's" where
  "catalog_CreateMeter sha256 ctx cl m s =
     apfst (map_sum (\<lambda>e. e) projectMeter)
       (ccl_CreateMeter cl (ApplyIdempotencyKey sha256 ctx ''meter.create'' [nm_DisplayName m, nm_EventName m, nm_AggregateBy m])
          (nm_DisplayName m, nm_EventName m, aggregationFormula (nm_AggregateBy m)) s)"

definition catalog_ArchiveMeter :: "(string \<Rightarrow> string) \<Rightarrow> string option \<Rightarrow> 's catalogClient \<Rightarrow> string \<Rightarrow> 's \<Rightarrow> string option \<times> 's" where
  "catalog_ArchiveMeter sha256 ctx cl mid s = ccl_DeactivateMeter cl (ApplyIdempotencyKey sha256 ctx ''meter.archive'' [mid]) mid s"

text \<open>The backend as \<open>Apply\<close> uses it: the created objects are dropped.\<close>

definition errorOf :: "(string + 'a) \<times> 's \<Rightarrow> string option \<times> 's" where
  "errorOf res = (case fst res of Inl e \<Rightarrow> Some e | Inr _ \<Rightarrow> None, snd res)"

definition NewBackend :: "(string \<Rightarrow> string) \<Rightarrow> string option \<Rightarrow> 's catalogClient \<Rightarrow> 's backendOps" where
  "NewBackend sha256 ctx cl =
     \<lparr>be_CreateProduct = (\<lambda>n s. errorOf (catalog_CreateProduct sha256 ctx cl n s)), be_UpdateProduct = catalog_UpdateProduct sha256 ctx cl,
      be_UpdateProductActive = catalog_UpdateProductActive sha256 ctx cl, be_CreatePrice = (\<lambda>n s. errorOf (catalog_CreatePrice sha256 ctx cl n s)),
      be_UpdatePriceActive = catalog_UpdatePriceActive sha256 ctx cl, be_CreateMeter = (\<lambda>n s. errorOf (catalog_CreateMeter sha256 ctx cl n s)),
      be_ArchiveMeter = catalog_ArchiveMeter sha256 ctx cl, be_ListProducts = ListProductsByNamespace cl, be_ListMeters = ListMetersByNamespace cl\<rparr>"

subsection \<open>Client settings\<close>

record clientConfig =
  ccf_SecretKey :: string
  ccf_Timeout :: int
  ccf_MaxNetworkRetries :: int

record clientSettings =
  cst_SecretKey :: string
  cst_Timeout :: int
  cst_Retries :: int

text \<open>\<open>None\<close> is the panic on a missing key. The HTTP client, its middleware and the three backends are the library's.\<close>

definition NewClient :: "clientConfig \<Rightarrow> clientSettings option" where
  "NewClient cfg =
     (if ccf_SecretKey cfg = '''' then None
      else Some \<lparr>cst_SecretKey = ccf_SecretKey cfg, cst_Timeout = (if ccf_Timeout cfg = 0 then 30000000000 else ccf_Timeout cfg),
                 cst_Retries = (let r = (if ccf_MaxNetworkRetries cfg = 0 then 3 else ccf_MaxNetworkRetries cfg) in if r < 0 then 0 else r)\<rparr>)"

subsection \<open>Errors\<close>

text \<open>An error and the errors it wraps, outermost first; a Stripe error has its code and HTTP status.\<close>

datatype errorLink = StripeErr string int | OtherErr string

fun AsStripeError :: "errorLink list \<Rightarrow> (string \<times> int) option" where
  "AsStripeError [] = None"
| "AsStripeError (StripeErr code status # _) = Some (code, status)"
| "AsStripeError (OtherErr _ # es) = AsStripeError es"

definition IsStripeErrorCode :: "errorLink list \<Rightarrow> string list \<Rightarrow> bool" where
  "IsStripeErrorCode err codes = (case AsStripeError err of None \<Rightarrow> False | Some (code, _) \<Rightarrow> code \<in> set codes)"

definition IsRateLimited :: "errorLink list \<Rightarrow> bool" where
  "IsRateLimited err = (case AsStripeError err of None \<Rightarrow> False | Some (_, status) \<Rightarrow> status = 429)"

subsection \<open>Test clocks\<close>

record TestClock =
  tcl_StripeID :: string
  tcl_Status :: string
  tcl_FrozenAt :: time

record 's clockClient =
  clk_Create :: "int \<Rightarrow> string option \<Rightarrow> 's \<Rightarrow> (string + string \<times> string \<times> int) \<times> 's"
  clk_Advance :: "string \<Rightarrow> int \<Rightarrow> 's \<Rightarrow> (string + string \<times> string \<times> int) \<times> 's"
  clk_Delete :: "string \<Rightarrow> 's \<Rightarrow> string option \<times> 's"
  clk_Retrieve :: "string \<Rightarrow> 's \<Rightarrow> string + string \<times> string \<times> int"

definition projectTestClock :: "string \<times> string \<times> int \<Rightarrow> TestClock" where
  "projectTestClock tc = (case tc of (i, st, t) \<Rightarrow> \<lparr>tcl_StripeID = i, tcl_Status = st, tcl_FrozenAt = unixTime t\<rparr>)"

definition CreateTestClock :: "'s clockClient option \<Rightarrow> time \<Rightarrow> string \<Rightarrow> 's \<Rightarrow> (string + TestClock) \<times> 's" where
  "CreateTestClock sc frozenAt name s =
     (case sc of
        None \<Rightarrow> (Inl ''nil StripeClient'', s)
      | Some cl \<Rightarrow> apfst (map_sum (\<lambda>e. e) projectTestClock) (clk_Create cl (Unix frozenAt) (ifSet name) s))"

definition AdvanceTestClock :: "'s clockClient \<Rightarrow> string \<Rightarrow> time \<Rightarrow> 's \<Rightarrow> (string + TestClock) \<times> 's" where
  "AdvanceTestClock cl i advanceTo s =
     (if i = '''' then (Inl ''testClockID is required'', s)
      else apfst (map_sum (\<lambda>e. e) projectTestClock) (clk_Advance cl i (Unix advanceTo) s))"

definition DeleteTestClock :: "'s clockClient \<Rightarrow> string \<Rightarrow> 's \<Rightarrow> string option \<times> 's" where
  "DeleteTestClock cl i s = (if i = '''' then (Some ''testClockID is required'', s) else clk_Delete cl i s)"

definition GetTestClock :: "'s clockClient \<Rightarrow> string \<Rightarrow> 's \<Rightarrow> (string + TestClock) \<times> 's" where
  "GetTestClock cl i s = (map_sum (\<lambda>e. e) projectTestClock (clk_Retrieve cl i s), s)"

end
