(* ===== verification/Catalog_Backend_Proofs.thy ===== *)
theory Catalog_Backend_Proofs
  imports Catalog_Backend Catalog_Properties
begin

text \<open>
  The catalog's synchronisation over the Stripe adapter: the batched lookup reads every key, a description is never cleared, and a
  replacement whose key Stripe knows leaves no price.
\<close>

subsection \<open>Lookup keys in batches\<close>

definition resolvedOf :: "apiPrice \<Rightarrow> ResolvedPrice" where
  "resolvedOf p = \<lparr>rp_LookupKey = apr_LookupKey p, rp_PriceID = apr_ID p,
     rp_ProductID = (case apr_Product p of None \<Rightarrow> '''' | Some i \<Rightarrow> i), rp_Active = apr_Active p\<rparr>"

text \<open>A Stripe that answers at most ten keys at a time gives the prices of all of them.\<close>

lemma ListByLookupKeys_complete:
  assumes "\<And>ks. ks \<noteq> [] \<Longrightarrow> length ks \<le> 10 \<Longrightarrow> ccl_PricesByKeys cl ks s = (filter (\<lambda>p. apr_LookupKey p \<in> set ks) prices, None)"
  shows "\<exists>out. ListByLookupKeys cl keys s = Inr out \<and> set out = resolvedOf ` {p \<in> set prices. apr_LookupKey p \<in> set keys}"
proof -
  have "\<exists>out. lookupBatches cl keys acc s = Inr (acc @ out) \<and> set out = resolvedOf ` {p \<in> set prices. apr_LookupKey p \<in> set keys}" for acc
  proof (induction "length keys" arbitrary: keys acc rule: less_induct)
    case less
    show ?case
    proof (cases "keys = []")
      case True
      then show ?thesis by (simp add: lookupBatches.simps)
    next
      case False
      let ?b = "map resolvedOf (filter (\<lambda>p. apr_LookupKey p \<in> set (take 10 keys)) prices)"
      have b: "listByLookupKeysBatch cl (take 10 keys) s = Inr ?b"
        using assms [of "take 10 keys"] False by (simp add: listByLookupKeysBatch_def resolvedOf_def [abs_def])
      have "length (drop 10 keys) < length keys" using False by simp
      from less [OF this, of "acc @ ?b"] obtain out where
        out: "lookupBatches cl (drop 10 keys) (acc @ ?b) s = Inr ((acc @ ?b) @ out)"
          "set out = resolvedOf ` {p \<in> set prices. apr_LookupKey p \<in> set (drop 10 keys)}" by blast
      have "set keys = set (take 10 keys) \<union> set (drop 10 keys)" by (metis append_take_drop_id set_append)
      then have "set (?b @ out) = resolvedOf ` {p \<in> set prices. apr_LookupKey p \<in> set keys}" using out(2) by auto
      then show ?thesis using False b out(1) by (subst lookupBatches.simps) (auto intro!: exI [of _ "?b @ out"])
    qed
  qed
  from this [of "[]"] show ?thesis by (simp add: ListByLookupKeys_def)
qed

subsection \<open>Descriptions\<close>

text \<open>
  Stripe's documented treatment of a product's description: creating a product touches no other one and an id cannot be created
  twice; an update sets what it names and keeps the rest, or is a replay; calls on prices and meters keep it; a listing shows it.
\<close>

definition desc_contract :: "'s catalogClient \<Rightarrow> ('s \<Rightarrow> string \<Rightarrow> string) \<Rightarrow> bool" where
  "desc_contract cl D \<longleftrightarrow>
     (\<forall>key p s i. D s i \<noteq> '''' \<longrightarrow> D (snd (ccl_CreateProduct cl key p s)) i = D s i) \<and>
     (\<forall>key pid u s i. D (snd (ccl_UpdateProduct cl key pid u s)) i = D s i \<or>
        i = pid \<and> pup_Description u = Some (D (snd (ccl_UpdateProduct cl key pid u s)) i)) \<and>
     (\<forall>key p s. D (snd (ccl_CreatePrice cl key p s)) = D s) \<and>
     (\<forall>key i a s. D (snd (ccl_UpdatePriceActive cl key i a s)) = D s) \<and>
     (\<forall>key m s. D (snd (ccl_CreateMeter cl key m s)) = D s) \<and>
     (\<forall>key i s. D (snd (ccl_DeactivateMeter cl key i s)) = D s) \<and>
     (\<forall>s ps err p. ccl_ListProducts cl s = (ps, err) \<longrightarrow> p \<in> set ps \<longrightarrow> apd_Description p = D s (apd_ID p))"

definition described :: "('s \<Rightarrow> string \<Rightarrow> string) \<Rightarrow> string \<Rightarrow> ('s \<Rightarrow> 'e option \<times> 's) \<Rightarrow> bool" where
  "described D i f \<longleftrightarrow> (\<forall>s. D s i \<noteq> '''' \<longrightarrow> D (snd (f s)) i \<noteq> '''')"

lemma snd_errorOf [simp]: "snd (errorOf r) = snd r"
  by (simp add: errorOf_def)

lemma described_calls:
  assumes "desc_contract cl D"
  shows "described D i (\<lambda>s. errorOf (catalog_CreateProduct sha ctx cl n s))" "described D i (catalog_UpdateProduct sha ctx cl pid u)"
    "described D i (catalog_UpdateProductActive sha ctx cl pid a)" "described D i (\<lambda>s. errorOf (catalog_CreatePrice sha ctx cl r s))"
    "described D i (catalog_UpdatePriceActive sha ctx cl rid a)" "described D i (\<lambda>s. errorOf (catalog_CreateMeter sha ctx cl m s))"
    "described D i (catalog_ArchiveMeter sha ctx cl mid)"
proof -
  note c = assms [unfolded desc_contract_def]
  show "described D i (\<lambda>s. errorOf (catalog_CreateProduct sha ctx cl n s))" "described D i (\<lambda>s. errorOf (catalog_CreatePrice sha ctx cl r s))"
    "described D i (catalog_UpdatePriceActive sha ctx cl rid a)" "described D i (\<lambda>s. errorOf (catalog_CreateMeter sha ctx cl m s))"
    "described D i (catalog_ArchiveMeter sha ctx cl mid)"
    using c by (auto simp: described_def catalog_CreateProduct_def catalog_CreatePrice_def catalog_UpdatePriceActive_def catalog_CreateMeter_def
        catalog_ArchiveMeter_def)
  have upd: "D (snd (ccl_UpdateProduct cl key pid v s)) i \<noteq> ''''" if "D s i \<noteq> ''''" "pup_Description v \<noteq> Some ''''" for key v s
    using c [THEN conjunct2, THEN conjunct1, rule_format, of key pid v s i] that by auto
  show "described D i (catalog_UpdateProduct sha ctx cl pid u)" unfolding described_def catalog_UpdateProduct_def
    by (intro allI impI upd) (simp_all add: ifSet_def)
  show "described D i (catalog_UpdateProductActive sha ctx cl pid a)" unfolding described_def catalog_UpdateProductActive_def
    by (intro allI impI upd) simp_all
qed

lemma described_callOn: "(\<And>x. described D i (call x)) \<Longrightarrow> described D i (callOn it obj call)"
proof -
  assume call: "\<And>x. described D i (call x)"
  have "snd (callOn it obj call s) = (case obj of None \<Rightarrow> s | Some x \<Rightarrow> snd (call x s))" for s
    by (auto simp: callOn_def split: option.split prod.split)
  with call show ?thesis unfolding described_def by (simp split: option.split)
qed

lemma described_andThen: "described D i f \<Longrightarrow> described D i g \<Longrightarrow> described D i (andThen f g)"
proof -
  assume fg: "described D i f" "described D i g"
  have "snd (andThen f g s) = snd (f s) \<or> snd (andThen f g s) = snd (g (snd (f s)))" for s
    by (auto simp: andThen_def split: option.split prod.split)
  with fg show ?thesis unfolding described_def by metis
qed

lemma described_forItems: "(\<And>it. described D i (act it)) \<Longrightarrow> described D i (forItems act its)"
proof (induction its)
  case Nil
  then show ?case by (simp add: described_def)
next
  case (Cons it its)
  have "forItems act (it # its) = andThen (act it) (forItems act its)" by (rule ext) (simp add: andThen_def split: option.splits prod.splits)
  with Cons show ?case by (simp add: described_andThen)
qed

lemma described_Apply: "desc_contract cl D \<Longrightarrow> described D i (catalog_Apply (NewBackend sha ctx cl) items)"
proof -
  assume c: "desc_contract cl D"
  have "described D i (applyItem (NewBackend sha ctx cl) it)" for it
    unfolding applyItem_def NewBackend_def
    by (auto intro!: described_callOn described_andThen described_calls [OF c] split: PlanOp.split PlanKind.split prod.split simp: described_def [of D i "\<lambda>s. (None, s)"])
  then show ?thesis unfolding catalog_Apply_def by (rule described_forItems)
qed

lemma productLoop_described:
  assumes "\<forall>p \<in> set ps. apd_Description p = D s (apd_ID p)" "\<forall>x \<in> set out. xp_Description x = D s (xp_ID x)"
  shows "productLoop cl prefix ps err out s = Inr cur \<Longrightarrow> \<forall>x \<in> set cur. xp_Description x = D s (xp_ID x)"
  using assms
proof (induction ps arbitrary: out)
  case Nil
  then show ?case by (cases err) auto
next
  case (Cons p ps)
  show ?case
  proof (cases "HasPrefix (apd_ID p) prefix")
    case False
    with Cons.prems Cons.IH [of out] show ?thesis by simp
  next
    case True
    then obtain prices where loop: "productLoop cl prefix ps err (out @ [existingProductOf p prices]) s = Inr cur"
      using Cons.prems(1) by (cases "listPricesForProduct cl (apd_ID p) s") auto
    have desc: "\<forall>x \<in> set (out @ [existingProductOf p prices]). xp_Description x = D s (xp_ID x)"
      using Cons.prems(2,3) by (simp add: existingProductOf_def)
    from Cons.prems(2) have "\<forall>p \<in> set ps. apd_Description p = D s (apd_ID p)" by simp
    from Cons.IH [OF loop this desc] show ?thesis .
  qed
qed

lemma listing_described:
  assumes "desc_contract cl D" "ListProductsByNamespace cl ns s = (Inr cur, s')"
  shows "\<forall>x \<in> set cur. xp_Description x = D s (xp_ID x)"
proof -
  obtain ps err where ps: "ccl_ListProducts cl s = (ps, err)" by fastforce
  then have "\<forall>p \<in> set ps. apd_Description p = D s (apd_ID p)" using assms(1) unfolding desc_contract_def by blast
  moreover have "productLoop cl (''prod_'' @ ns @ ''_'') ps err [] s = Inr cur" using assms(2) unfolding ListProductsByNamespace_def ps by auto
  ultimately show ?thesis using productLoop_described [of ps D s "[]"] by simp
qed

text \<open>C40: a description cannot be taken back. When the specification declares a product without a description and Stripe has one, then
  whatever plan is applied through the adapter, in full or in part, Stripe still has a description afterwards, and \<open>Diff\<close> on
  the new listing plans something again: \<open>UpdateProduct\<close> leaves an empty description out of its request.\<close>
theorem cleared_description_never_settles:
  assumes "desc_contract cl D" and "NewSpec s0 = Inr t" and "CHR ''_'' \<notin> set (sp_Namespace t)"
    and "map_of (sp_Products t) pk = Some p" and "pd_Description p = ''''" and "D s (NamespacedProductID t pk) \<noteq> ''''"
    and "catalog_Apply (NewBackend sha ctx cl) items s = (e, s1)"
    and "be_ListProducts (NewBackend sha ctx cl) (sp_Namespace t) s1 = (Inr cur, s2)"
    and "listing_ok cur" and "\<forall>x \<in> set cur. managed t (xp_ID x)"
  shows "D s1 (NamespacedProductID t pk) \<noteq> '''' \<and> (\<exists>plan. Diff t cur = Some plan \<and> plan_Items plan \<noteq> [])"
proof -
  have kept: "D s1 (NamespacedProductID t pk) \<noteq> ''''"
    using described_Apply [OF assms(1), of "NamespacedProductID t pk" sha ctx items] assms(6,7) unfolding described_def by (metis snd_conv)
  have list: "\<forall>x \<in> set cur. xp_Description x = D s1 (xp_ID x)"
    using listing_described [OF assms(1)] assms(8) by (simp add: NewBackend_def)
  have "\<not> in_sync t (prodView cur) (priceView cur)"
  proof
    assume "in_sync t (prodView cur) (priceView cur)"
    with assms(4) obtain x where x: "prodView cur (NamespacedProductID t pk) = Some x" "\<not> productNeedsUpdate p x" unfolding in_sync_def by blast
    then obtain y where "y \<in> set cur" "xp_ID y = NamespacedProductID t pk" "x = bareProduct y"
      using assms(9) by (auto simp: prodView_def listing_ok_def map_of_keyed)
    with list x(2) assms(5) kept show False by (auto simp: productNeedsUpdate_def)
  qed
  then show ?thesis using kept Diff_Nil_iff [OF assms(9,3,10)] NewSpec_sound [OF assms(2)] by blast
qed

text \<open>One product whose description is the state.\<close>

definition proProduct :: "string \<Rightarrow> apiProduct" where
  "proProduct d = \<lparr>apd_ID = ''prod_shop_pro'', apd_Name = ''Pro'', apd_TaxCode = None, apd_Active = True, apd_Description = d, apd_Metadata = []\<rparr>"

definition proClient :: "string catalogClient" where
  "proClient =
     \<lparr>ccl_PricesByKeys = (\<lambda>_ _. ([], None)), ccl_PricesOfProduct = (\<lambda>_ _. ([], None)), ccl_ListProducts = (\<lambda>d. ([proProduct d], None)),
      ccl_CreateProduct = (\<lambda>_ _ s. (Inl ''exists'', s)),
      ccl_UpdateProduct = (\<lambda>_ pid u d. (None, if pid = ''prod_shop_pro'' then (case pup_Description u of None \<Rightarrow> d | Some x \<Rightarrow> x) else d)),
      ccl_CreatePrice = (\<lambda>_ _ s. (Inl ''unused'', s)), ccl_UpdatePriceActive = (\<lambda>_ _ _ s. (None, s)), ccl_ListMeters = (\<lambda>_. ([], None)),
      ccl_CreateMeter = (\<lambda>_ _ s. (Inl ''unused'', s)), ccl_DeactivateMeter = (\<lambda>_ _ s. (None, s))\<rparr>"

definition proDesc :: "string \<Rightarrow> string \<Rightarrow> string" where
  "proDesc d i = (if i = ''prod_shop_pro'' then d else '''')"

lemma proClient_contract: "desc_contract proClient proDesc"
  by (auto simp: desc_contract_def proClient_def proDesc_def proProduct_def split: option.splits)

definition proUpdate :: PlanItem where
  "proUpdate = \<lparr>it_Op = OpUpdate, it_Kind = KindProduct, it_Key = ''pro'',
     it_NewProduct = Some \<lparr>np_ID = ''prod_shop_pro'', np_Name = ''Pro'', np_TaxCode = '''', np_Description = '''', np_Metadata = []\<rparr>,
     it_ExistingProduct = Some (existingProductOf (proProduct ''old text'') []), it_NewPrice = None, it_ExistingPrice = None,
     it_NewMeter = None, it_ExistingMeter = None\<rparr>"

theorem cleared_description_never_settles_witness:
  "fst (catalog_Apply (NewBackend (\<lambda>m. m) None proClient) [proUpdate] ''old text'') = None \<and>
   (\<exists>plan. Diff (ex_spec ''shop'') [existingProductOf (proProduct ''old text'') []] = Some plan \<and> plan_Items plan \<noteq> [])"
proof -
  have run: "catalog_Apply (NewBackend (\<lambda>m. m) None proClient) [proUpdate] ''old text'' = (None, ''old text'')"
    by (simp add: catalog_Apply_def applyOrder_def itemsByOpKind_def proUpdate_def applyItem_def callOn_def NewBackend_def catalog_UpdateProduct_def
        proClient_def ifSet_def existingProductOf_def proProduct_def)
  have list: "be_ListProducts (NewBackend (\<lambda>m. m) None proClient) (sp_Namespace (ex_spec ''shop'')) ''old text'' =
      (Inr [existingProductOf (proProduct ''old text'') []], ''old text'')"
    by (simp add: NewBackend_def ListProductsByNamespace_def proClient_def proProduct_def listPricesForProduct_def HasPrefix_def ex_spec_def ex_input_def)
  have "CHR ''_'' \<notin> set (sp_Namespace (ex_spec ''shop''))"
    "map_of (sp_Products (ex_spec ''shop'')) ''pro'' = Some (ex_product\<lparr>pd_Prices := [(''monthly'', ex_price\<lparr>pr_Type := ''recurring'', pr_IntervalCount := 1\<rparr>)]\<rparr>)"
    "NamespacedProductID (ex_spec ''shop'') ''pro'' = ''prod_shop_pro''"
    by (simp_all add: ex_spec_def ex_input_def NamespacedProductID_def)
  moreover have "listing_ok [existingProductOf (proProduct ''old text'') []]" by (simp add: listing_ok_def existingProductOf_def allPrices_def)
  moreover have "managed (ex_spec ''shop'') ''prod_shop_pro''" by (simp add: managed_def NamespacedProductID_def ex_spec_def ex_input_def)
  ultimately show ?thesis
    using cleared_description_never_settles [OF proClient_contract ex_accepted_spec _ _ _ _ run list] run
    by (simp add: proDesc_def ex_product_def existingProductOf_def proProduct_def)
qed

subsection \<open>Replayed replacements\<close>

text \<open>
  A replacement whose creation Stripe has answered before, as when a price goes from one amount to another, back and forth again,
  creates nothing and archives the current price: no active price is left under the lookup key.
\<close>

lemma replayed_replacement_loses_price:
  assumes "it_Op it = OpReplace" "it_Kind it = KindPrice" "it_NewPrice it = Some n" "it_ExistingPrice it = Some r"
    and known: "\<And>p. ccl_CreatePrice cl (ApplyIdempotencyKey sha None ''price.create'' (priceKeyInputs n)) p s = (Inr old, s)"
    and "\<And>key i a x. A (snd (ccl_UpdatePriceActive cl key i a x)) = (A x)(i := a)"
    and "applyItem (NewBackend sha None cl) it s = (None, s')"
  shows "A s' = (A s)(ep_ID r := False)"
proof -
  from assms(1-5,7) have "catalog_UpdatePriceActive sha None cl (ep_ID r) False s = (None, s')"
    by (auto simp: applyItem_def NewBackend_def andThen_def callOn_def catalog_CreatePrice_def errorOf_def split: option.splits prod.splits)
  with assms(6) show ?thesis unfolding catalog_UpdatePriceActive_def by (metis snd_conv)
qed

end
