(* ===== verification/Spec2Isabelle.thy ===== *)
theory Spec2Isabelle
  imports Credits_Properties Credit_Recurring_Proofs Pg_Credits_Proofs Webhook_Queue_Proofs Catalog_Properties Subscription_Proofs Plans_Proofs Invoices_Proofs Metering_Proofs Checkout_Proofs Portal_Config_Proofs Disputes_Proofs Subscription_Backend_Proofs Invoice_Backend_Proofs Quotes_Proofs Payments Promo_Codes Catalog_Backend_Proofs
begin

text \<open>
  A verification library for rho-stripe.
\<close>

end
